(* ===== verification/Prelude.thy ===== *)
theory Prelude
  imports Complex_Main "HOL-Library.Word" "HOL-Library.AList" "HOL-Library.Multiset"
    "HOL-Library.Sublist"
begin

text \<open>
  Shared vocabulary of the development: the JavaScript values and library operations the
  ConveneWire sources use, and the generic lemmas the component theories share.

  \<^item> A JavaScript string is its sequence of UTF-16 code units (\<open>jstring\<close>); \<open>lit\<close> turns
    an ASCII literal into one. Timestamps are the integers \<^verbatim>\<open>Date.parse\<close> gives for the ISO
    strings the server clock writes (milliseconds since the epoch).
  \<^item> A thrown error is the \<open>Inl\<close> of a sum: \<open>'a throwing\<close>.
  \<^item> \<^verbatim>\<open>Array.prototype.sort\<close> is the stable \<open>sort_by\<close>; a \<^verbatim>\<open>Set\<close> is the list of its
    elements in insertion order (\<open>js_set\<close>); a \<^verbatim>\<open>Map\<close> is an association list in insertion
    order, updated in place by \<open>AList.update\<close>.
  \<^item> The locale \<open>comparator\<close> is the contract of a sort callback; \<open>strict_comparator\<close> adds
    that only equal keys compare equal. The sort lemmas are proved once inside them and used
    through the interpretations on the program's own callbacks.
\<close>

section \<open>Collections of lemmas\<close>

named_theorems enum_simps \<open>finite-state tests of the model's enumerations\<close>
named_theorems throw_simps \<open>propagation of thrown errors\<close>

section \<open>Values\<close>

type_synonym code_unit = "16 word"
type_synonym jstring = "code_unit list"
type_synonym timestamp = int

definition lit :: "string \<Rightarrow> jstring" where
  "lit s = map of_char s"

text \<open>
  An error is its message: a literal, a literal followed by an interpolated number or string,
  or \<^verbatim>\<open>`${label} must be between ${minimum} and ${maximum}`\<close>. An \<open>ExecutionError\<close> is its code.
\<close>

datatype js_error =
    Error string
  | ErrorNumber string int
  | ErrorText string jstring
  | ErrorRange string int int
  | ExecutionError string

type_synonym 'a throwing = "js_error + 'a"

definition bind :: "'a throwing \<Rightarrow> ('a \<Rightarrow> 'b throwing) \<Rightarrow> 'b throwing" where
  "bind m f = (case m of Inl e \<Rightarrow> Inl e | Inr x \<Rightarrow> f x)"

definition ensure :: "bool \<Rightarrow> js_error \<Rightarrow> unit throwing" where
  "ensure c e = (if c then Inr () else Inl e)"

text \<open>A \<^verbatim>\<open>for\<close> loop that updates a state and stops at the first thrown error.\<close>

fun for_each :: "('a \<Rightarrow> 's \<Rightarrow> 's throwing) \<Rightarrow> 'a list \<Rightarrow> 's \<Rightarrow> 's throwing" where
  "for_each f [] s = Inr s"
| "for_each f (x # xs) s = bind (f x s) (for_each f xs)"

definition check_each :: "('a \<Rightarrow> unit throwing) \<Rightarrow> 'a list \<Rightarrow> unit throwing" where
  "check_each f xs = for_each (\<lambda>x _. f x) xs ()"

datatype js_number = Finite rat | PosInfinity | NegInfinity | NaN

datatype json =
    JNull
  | JBool bool
  | JNum js_number
  | JStr jstring
  | JArr "json list"
  | JObj "(jstring \<times> json) list"

definition js_prop :: "(jstring \<times> json) list \<Rightarrow> string \<Rightarrow> json option" where
  "js_prop ps k = map_of ps (lit k)"

definition max_safe_integer :: int where
  "max_safe_integer = 9007199254740991"

definition is_safe_integer :: "int \<Rightarrow> bool" where
  "is_safe_integer n \<longleftrightarrow> \<bar>n\<bar> \<le> max_safe_integer"

section \<open>Strings\<close>

text \<open>The code units \<^verbatim>\<open>String.prototype.trim\<close> and the class \<^verbatim>\<open>\s\<close> take as white space.\<close>

definition is_space :: "code_unit \<Rightarrow> bool" where
  "is_space u \<longleftrightarrow>
     u \<in> {0x0009, 0x000A, 0x000B, 0x000C, 0x000D, 0x0020, 0x00A0, 0x1680, 0x2000, 0x2001,
          0x2002, 0x2003, 0x2004, 0x2005, 0x2006, 0x2007, 0x2008, 0x2009, 0x200A, 0x2028,
          0x2029, 0x202F, 0x205F, 0x3000, 0xFEFF}"

definition trim :: "jstring \<Rightarrow> jstring" where
  "trim s = rev (dropWhile is_space (rev (dropWhile is_space s)))"

definition is_high_surrogate :: "code_unit \<Rightarrow> bool" where
  "is_high_surrogate u \<longleftrightarrow> 0xD800 \<le> u \<and> u \<le> 0xDBFF"

definition is_low_surrogate :: "code_unit \<Rightarrow> bool" where
  "is_low_surrogate u \<longleftrightarrow> 0xDC00 \<le> u \<and> u \<le> 0xDFFF"

text \<open>What the string iterator yields: one string per code point, lone surrogates included.\<close>

fun code_points :: "jstring \<Rightarrow> jstring list" where
  "code_points [] = []"
| "code_points [u] = [[u]]"
| "code_points (u # v # r) =
     (if is_high_surrogate u \<and> is_low_surrogate v then [u, v] # code_points r
      else [u] # code_points (v # r))"

text \<open>The operator \<^verbatim>\<open><\<close> on strings: lexicographic by code unit.\<close>

fun text_less :: "jstring \<Rightarrow> jstring \<Rightarrow> bool" where
  "text_less xs [] = False"
| "text_less [] (y # ys) = True"
| "text_less (x # xs) (y # ys) = (x < y \<or> x = y \<and> text_less xs ys)"

text \<open>\<^verbatim>\<open>split("/")\<close> and its like, by a separator of one code unit.\<close>

fun split_text :: "code_unit \<Rightarrow> jstring \<Rightarrow> jstring list" where
  "split_text sep [] = [[]]"
| "split_text sep (u # r) =
     (if u = sep then [] # split_text sep r
      else case split_text sep r of [] \<Rightarrow> [[u]] | p # ps \<Rightarrow> (u # p) # ps)"

section \<open>Arrays, sets and maps\<close>

fun insert_by :: "('a \<Rightarrow> 'a \<Rightarrow> int) \<Rightarrow> 'a \<Rightarrow> 'a list \<Rightarrow> 'a list" where
  "insert_by cmp x [] = [x]"
| "insert_by cmp x (y # ys) = (if cmp x y \<le> 0 then x # y # ys else y # insert_by cmp x ys)"

definition sort_by :: "('a \<Rightarrow> 'a \<Rightarrow> int) \<Rightarrow> 'a list \<Rightarrow> 'a list" where
  "sort_by cmp xs = foldr (insert_by cmp) xs []"

definition js_set :: "'a list \<Rightarrow> 'a list" where
  "js_set xs = rev (remdups (rev xs))"

text \<open>\<^verbatim>\<open>slice(-n)\<close>: the last \<open>n\<close> elements.\<close>

definition last_n :: "nat \<Rightarrow> 'a list \<Rightarrow> 'a list" where
  "last_n n xs = drop (length xs - n) xs"

text \<open>\<^verbatim>\<open>a || b\<close> on comparison results.\<close>

definition or_else :: "int \<Rightarrow> int \<Rightarrow> int" where
  "or_else a b = (if a \<noteq> 0 then a else b)"

section \<open>Lemmas on thrown errors\<close>

lemma bind_simps [simp, throw_simps]:
  "bind (Inl e) f = Inl e"
  "bind (Inr x) f = f x"
  by (simp_all add: bind_def)

lemma ensure_simps [simp, throw_simps]:
  "(ensure c e = Inr u) = c"
  "(ensure c e = Inl e') = (\<not> c \<and> e' = e)"
  by (auto simp: ensure_def)

lemma bind_eq_Inr [throw_simps]: "bind m f = Inr y \<longleftrightarrow> (\<exists>x. m = Inr x \<and> f x = Inr y)"
  by (cases m) auto

lemma bind_ensure_eq_Inr [throw_simps]:
  "bind (ensure c e) f = Inr y \<longleftrightarrow> c \<and> f () = Inr y"
  by (cases c) (auto simp: ensure_def)

lemma for_each_inv:
  assumes "for_each f xs s = Inr t" and "P [] s"
    and "\<And>ys x s s'. f x s = Inr s' \<Longrightarrow> P ys s \<Longrightarrow> P (ys @ [x]) s'"
  shows "P xs t"
proof -
  have "for_each f xs s = Inr t \<Longrightarrow> P ys s \<Longrightarrow> P (ys @ xs) t" for ys
  proof (induction xs arbitrary: s ys)
    case (Cons x xs)
    then obtain s' where "f x s = Inr s'" "for_each f xs s' = Inr t" by (auto simp: bind_eq_Inr)
    with Cons.IH[of s' "ys @ [x]"] Cons.prems(2) assms(3) show ?case by simp
  qed simp
  from this[of "[]"] assms(1,2) show ?thesis by simp
qed

lemma check_each_Inr [throw_simps]: "check_each f xs = Inr u \<longleftrightarrow> (\<forall>x\<in>set xs. f x = Inr ())"
  unfolding check_each_def by (induction xs) (auto simp: bind_eq_Inr)

section \<open>Lemmas on strings\<close>

lemma of_char_unit_eq: "(of_char a :: code_unit) = of_char b \<longleftrightarrow> a = b"
proof
  assume "(of_char a :: code_unit) = of_char b"
  then have "unat (of_nat (of_char a) :: code_unit) = unat (of_nat (of_char b) :: code_unit)"
    by (simp add: of_nat_of_char)
  moreover have "unat (of_nat (of_char c) :: code_unit) = of_char c" for c :: char
  proof -
    have "of_char c < (65536 :: nat)" using nat_of_char_less_256[of c] by linarith
    then show ?thesis by (simp add: unat_of_nat)
  qed
  ultimately show "a = b" by simp
qed simp

lemma lit_eq_iff [simp]: "lit s = lit t \<longleftrightarrow> s = t"
  by (simp add: lit_def inj_map_eq_map inj_def of_char_unit_eq)

lemma concat_code_points [simp]: "concat (code_points s) = s"
  by (induction s rule: code_points.induct) auto

lemma code_points_nonempty: "[] \<notin> set (code_points s)"
  by (induction s rule: code_points.induct) auto

lemma length_code_points_le: "length (code_points s) \<le> length s"
  by (induction s rule: code_points.induct) auto

lemma code_points_eq_Nil [simp]: "code_points s = [] \<longleftrightarrow> s = []"
  by (cases s rule: code_points.cases) auto

lemma text_less_irrefl [simp]: "\<not> text_less s s"
  by (induction s) auto

lemma text_less_trans: "text_less a b \<Longrightarrow> text_less b c \<Longrightarrow> text_less a c"
proof (induction a b arbitrary: c rule: text_less.induct)
  case (3 x xs y ys)
  then show ?case by (cases c) (auto dest: order.strict_trans)
next
  case (2 y ys)
  then show ?case by (cases c) auto
qed auto

lemma text_less_total: "text_less a b \<or> a = b \<or> text_less b a"
proof (induction a b rule: text_less.induct)
  case (1 xs)
  then show ?case by (cases xs) auto
qed auto

lemma text_less_asym: "text_less a b \<Longrightarrow> \<not> text_less b a"
  using text_less_trans text_less_irrefl by blast

section \<open>Lemmas on sets and slices\<close>

lemma set_js_set [simp]: "set (js_set xs) = set xs"
  by (simp add: js_set_def)

lemma distinct_js_set [simp]: "distinct (js_set xs)"
  by (simp add: js_set_def)

lemma length_js_set: "length (js_set xs) = card (set xs)"
  by (simp add: js_set_def length_remdups_card_conv)

lemma js_set_size_iff [simp]: "length (js_set xs) = length xs \<longleftrightarrow> distinct xs"
  by (metis length_js_set distinct_card card_distinct)

lemma js_set_Nil [simp]: "js_set [] = []"
  by (simp add: js_set_def)

lemma js_set_id [simp]: "distinct xs \<Longrightarrow> js_set xs = xs"
  by (simp add: js_set_def distinct_remdups_id)

lemma length_last_n [simp]: "length (last_n n xs) = min n (length xs)"
  by (auto simp: last_n_def)

lemma set_last_n: "set (last_n n xs) \<subseteq> set xs"
  by (simp add: last_n_def set_drop_subset)

lemma last_n_append: "length ys \<le> n \<Longrightarrow> last_n n (xs @ ys) = last_n (n - length ys) xs @ ys"
  by (simp add: last_n_def)

section \<open>Sorting: the contract of a callback\<close>

lemma mset_insert_by [simp]: "mset (insert_by cmp x xs) = add_mset x (mset xs)"
  by (induction xs) auto

lemma mset_sort_by [simp]: "mset (sort_by cmp xs) = mset xs"
  by (induction xs) (simp_all add: sort_by_def)

lemma set_sort_by [simp]: "set (sort_by cmp xs) = set xs"
  by (metis mset_sort_by set_mset_mset)

lemma length_sort_by [simp]: "length (sort_by cmp xs) = length xs"
  by (metis mset_sort_by size_mset)

lemma distinct_sort_by [simp]: "distinct (sort_by cmp xs) = distinct xs"
  by (metis mset_sort_by mset_eq_imp_distinct_iff)

lemma sort_by_Nil [simp]: "sort_by cmp [] = []"
  by (simp add: sort_by_def)

lemma sort_by_eq_Nil [simp]: "sort_by cmp xs = [] \<longleftrightarrow> xs = []"
  by (metis length_0_conv length_sort_by)

lemma sort_by_Cons: "sort_by cmp (x # xs) = insert_by cmp x (sort_by cmp xs)"
  by (simp add: sort_by_def)

lemma insert_by_min: "\<forall>y\<in>set ys. cmp x y \<le> 0 \<Longrightarrow> insert_by cmp x ys = x # ys"
  by (cases ys) auto

lemma sort_by_sorted_id: "sorted_wrt (\<lambda>x y. cmp x y \<le> 0) xs \<Longrightarrow> sort_by cmp xs = xs"
  by (induction xs) (auto simp: sort_by_Cons insert_by_min)

lemma sort_by_map:
  assumes "\<And>x y. cmp (f x) (f y) = cmp' x y"
  shows "sort_by cmp (map f xs) = map f (sort_by cmp' xs)"
proof -
  have "insert_by cmp (f x) (map f ys) = map f (insert_by cmp' x ys)" for x ys
    by (induction ys) (auto simp: assms)
  then show ?thesis by (induction xs) (auto simp: sort_by_Cons)
qed

locale comparator =
  fixes cmp :: "'a \<Rightarrow> 'a \<Rightarrow> int"
  assumes cmp_sgn: "cmp x y < 0 \<longleftrightarrow> 0 < cmp y x"
    and cmp_trans: "cmp x y \<le> 0 \<Longrightarrow> cmp y z \<le> 0 \<Longrightarrow> cmp x z \<le> 0"
begin

lemma cmp_total: "\<not> cmp x y \<le> 0 \<Longrightarrow> cmp y x \<le> 0"
  using cmp_sgn[of y x] by simp

lemma sorted_insert_by:
  assumes "sorted_wrt (\<lambda>x y. cmp x y \<le> 0) ys"
  shows "sorted_wrt (\<lambda>x y. cmp x y \<le> 0) (insert_by cmp x ys)"
  using assms
proof (induction ys)
  case (Cons y ys)
  have mem: "set (insert_by cmp x ys) = insert x (set ys)"
    by (metis mset_insert_by set_mset_mset set_mset_add_mset_insert)
  show ?case
  proof (cases "cmp x y \<le> 0")
    case True
    with Cons.prems show ?thesis by (auto intro: cmp_trans)
  next
    case False
    with Cons mem show ?thesis by (auto dest: cmp_total)
  qed
qed simp

lemma sorted_sort_by: "sorted_wrt (\<lambda>x y. cmp x y \<le> 0) (sort_by cmp xs)"
  by (induction xs) (auto simp: sort_by_Cons intro: sorted_insert_by)

lemma sort_by_idem: "sort_by cmp (sort_by cmp xs) = sort_by cmp xs"
  by (rule sort_by_sorted_id) (rule sorted_sort_by)

lemma sorted_perm_unique:
  assumes "sorted_wrt (\<lambda>x y. cmp x y \<le> 0) xs" and "sorted_wrt (\<lambda>x y. cmp x y \<le> 0) ys"
    and "mset xs = mset ys"
    and "\<forall>x\<in>set xs. \<forall>y\<in>set xs. cmp x y = 0 \<longrightarrow> x = y"
  shows "xs = ys"
  using assms
proof (induction xs arbitrary: ys)
  case (Cons x xs)
  then obtain y ys' where ys: "ys = y # ys'" by (cases ys) auto
  have "x = y"
  proof (rule ccontr)
    assume ne: "x \<noteq> y"
    with Cons.prems(3) ys have mem: "x \<in> set ys'" "y \<in> set xs"
      by (metis list.set_intros(1) set_ConsD set_mset_mset)+
    with Cons.prems(1,2) ys have "cmp x y \<le> 0" "cmp y x \<le> 0" by auto
    with cmp_sgn[of x y] have "cmp x y = 0" by linarith
    with Cons.prems(4) mem ne show False by auto
  qed
  with Cons ys show ?case by auto
qed simp

lemma sort_by_perm:
  assumes "mset xs = mset ys" and "\<forall>x\<in>set xs. \<forall>y\<in>set xs. cmp x y = 0 \<longrightarrow> x = y"
  shows "sort_by cmp xs = sort_by cmp ys"
  by (rule sorted_perm_unique) (use assms in \<open>auto intro: sorted_sort_by\<close>)

end

locale strict_comparator = comparator +
  assumes cmp_eq: "cmp x y = 0 \<Longrightarrow> x = y"
begin

lemma sort_by_mset: "mset xs = mset ys \<Longrightarrow> sort_by cmp xs = sort_by cmp ys"
  by (rule sort_by_perm) (auto dest: cmp_eq)

lemma strictly_sorted:
  assumes "distinct xs"
  shows "sorted_wrt (\<lambda>x y. cmp x y < 0) (sort_by cmp xs)"
proof -
  have "distinct ys \<Longrightarrow> sorted_wrt (\<lambda>x y. cmp x y \<le> 0) ys \<Longrightarrow> sorted_wrt (\<lambda>x y. cmp x y < 0) ys"
    for ys
    by (induction ys) (auto simp: order_less_le dest: cmp_eq)
  with assms sorted_sort_by show ?thesis by simp
qed

end

text \<open>The callbacks \<^verbatim>\<open>(left, right) => left.k - right.k\<close> on an integer field.\<close>

interpretation key_cmp: comparator "\<lambda>x y. (k x :: int) - k y" for k
  by unfold_locales auto

lemma sort_by_key_perm:
  fixes k :: "'a \<Rightarrow> int"
  assumes "mset xs = mset ys" and "distinct (map k xs)"
  shows "sort_by (\<lambda>x y. k x - k y) xs = sort_by (\<lambda>x y. k x - k y) ys"
  using assms by (intro key_cmp.sort_by_perm) (auto simp: distinct_map inj_on_def)

text \<open>Two callbacks joined by \<^verbatim>\<open>||\<close>: the second decides where the first finds no difference.\<close>

lemma comparator_or_else:
  assumes "comparator c" and "comparator d"
  shows "comparator (\<lambda>x y. or_else (c x y) (d x y))"
proof
  note laws = comparator.cmp_sgn[OF assms(1)] comparator.cmp_sgn[OF assms(2)]
  show "or_else (c x y) (d x y) < 0 \<longleftrightarrow> 0 < or_else (c y x) (d y x)" for x y
    using laws(1)[of x y] laws(1)[of y x] laws(2)[of x y] by (auto simp: or_else_def)
  show "or_else (c x z) (d x z) \<le> 0"
    if "or_else (c x y) (d x y) \<le> 0" and "or_else (c y z) (d y z) \<le> 0" for x y z
    using that laws(1)[of x y] laws(1)[of y z] laws(1)[of x z] laws(1)[of z y] laws(1)[of y x]
      comparator.cmp_trans[OF assms(1), of x y z] comparator.cmp_trans[OF assms(1), of y z x]
      comparator.cmp_trans[OF assms(1), of z x y] comparator.cmp_trans[OF assms(2), of x y z]
    by (auto simp: or_else_def split: if_splits)
qed

end
