(* ===== verification/Discussion_Types.thy ===== *)
theory Discussion_Types
  imports Prelude
begin

text \<open>
  The data of adaptive Discussions (\<^verbatim>\<open>apps/server/src/discussion/discussion-types.ts\<close> and
  \<^verbatim>\<open>discussion-state.ts\<close>): every union of string literals is a datatype, every interface a
  record. Counts are integers; the confidence of an assessment, a number between 0 and 1, is a
  rational. An optional or nullable field is an \<open>option\<close>; the value \<^verbatim>\<open>"unknown"\<close> of
  \<^verbatim>\<open>disagreementRemaining\<close> is \<open>None\<close>.
\<close>

section \<open>Enumerations\<close>

datatype DiscussionMode = Mode_round_robin | Mode_review

datatype DiscussionExecutionModel = Exec_sequential | Exec_parallel_wave

datatype DiscussionState =
    DS_active | DS_stop_requested | DS_waiting_human | DS_awaiting_extension | DS_paused
  | DS_finalizing | DS_completed | DS_canceled | DS_terminated

datatype DiscussionStateReason =
    SR_goal_satisfied | SR_user_requested_finish | SR_discussion_plateau
  | SR_soft_budget_exhausted | SR_hard_budget_exhausted | SR_policy_violation
  | SR_runtime_failure | SR_user_paused | SR_user_canceled | SR_input_required

datatype DiscussionAction =
    DA_continue | DA_wait_human | DA_pause | DA_finalize | DA_cancel | DA_terminate

datatype DiscussionOutputMode =
    OM_none | OM_summary | OM_final_answer | OM_artifact | OM_decision_record
  | OM_unresolved_issues

datatype importance = Imp_low | Imp_medium | Imp_high

datatype disagreement = Dis_none | Dis_low | Dis_medium | Dis_high

datatype recommendation = Rec_continue | Rec_finish | Rec_wait_human

datatype DiscussionParticipantSelectionMode = Sel_all_eligible | Sel_question_focused

datatype wave_completion_mode = WC_all_settled | WC_read_only_quorum

datatype participant_role = Role_participant | Role_reviewer

datatype turn_kind = Kind_discussion | Kind_finalization

datatype turn_state =
    TS_planned | TS_queued | TS_working | TS_completed | TS_failed | TS_canceled

datatype DiscussionWavePhase = Phase_contribution | Phase_review | Phase_finalization

datatype DiscussionWaveState = WS_open | WS_completed | WS_partial | WS_failed | WS_canceled

datatype requested_action = RA_finish | RA_stop_after_turn | RA_pause

datatype DiscussionSelectionReason =
    Why_all_member_policy | Why_no_focus_questions | Why_no_deterministic_match
  | Why_question_reporter | Why_role_match | Why_required_reviewer
  | Why_finalizer_reviewer | Why_finalizer_primary | Why_finalizer_ordinal

datatype selection_strategy = Strat_all_eligible | Strat_question_focused | Strat_finalizer

datatype budget_event_type =
    BE_lease_granted | BE_turn_recorded | BE_extension_granted | BE_finalization_reserved

section \<open>Records\<close>

record DiscussionPolicy =
  initialLeaseTurns :: int
  automaticMaxTurns :: int
  hardMaxTurns :: int
  maxDurationSeconds :: int
  waveTimeoutSeconds :: int
  plateauWindow :: int
  minimumCompletionConfidence :: rat
  finalizationReserveTurns :: int
  requireReviewer :: bool
  allowAutomaticFinish :: bool
  participantSelectionMode :: DiscussionParticipantSelectionMode
  focusedParticipantLimit :: int
  waveCompletionMode :: wave_completion_mode
  quorumMinimumCompleted :: int
  quorumSoftDeadlineSeconds :: int

record OpenQuestion =
  oq_id :: jstring
  oq_question :: jstring
  oq_importance :: importance

record AgentAssessment =
  as_goalSatisfied :: "bool option"
  as_confidence :: "rat option"
  as_resolvedQuestionIds :: "jstring list option"
  as_openQuestions :: "OpenQuestion list option"
  as_newEvidenceRefs :: "jstring list option"
  as_disagreementRemaining :: "disagreement option"
  as_newInformationAdded :: "bool option"
  as_reviewerApproved :: "bool option"
  as_recommendation :: "recommendation option"

record ProgressSnapshot =
  pg_version :: int
  pg_goalSatisfied :: bool
  pg_confidence :: "rat option"
  pg_openQuestions :: "OpenQuestion list"
  pg_evidenceRefs :: "jstring list"
  pg_verifiedEvidenceRefs :: "jstring list"
  pg_disagreementRemaining :: "disagreement option"
  pg_reviewerApproved :: bool
  pg_plateauCount :: int
  pg_replyHashes :: "jstring list"
  pg_lastTurnAddedInformation :: bool

record BudgetSnapshot =
  turnsUsed :: int
  agentRunsUsed :: int
  durationSeconds :: int
  leaseEndTurn :: int
  extensions :: int

record DiscussionRecord =
  d_discussionId :: jstring
  d_roomId :: jstring
  d_taskId :: jstring
  d_rootMessageId :: jstring
  d_requesterMemberId :: jstring
  d_goal :: jstring
  d_mode :: DiscussionMode
  d_state :: DiscussionState
  d_stateReason :: "DiscussionStateReason option"
  d_outputMode :: DiscussionOutputMode
  d_policy :: DiscussionPolicy
  d_progress :: ProgressSnapshot
  d_budget :: BudgetSnapshot
  d_executionModel :: "DiscussionExecutionModel option"
  d_currentTurn :: int
  d_currentWave :: "int option"
  d_nextSpeakerIndex :: int
  d_requestedAction :: "requested_action option"
  d_version :: int
  d_deadlineAt :: timestamp
  d_createdAt :: timestamp
  d_updatedAt :: timestamp
  d_terminalAt :: "timestamp option"

record DiscussionParticipant =
  p_discussionId :: jstring
  p_ordinal :: int
  p_agentId :: jstring
  p_role :: participant_role

record DiscussionTurn =
  t_turnId :: jstring
  t_discussionId :: jstring
  t_ordinal :: int
  t_kind :: turn_kind
  t_speakerAgentId :: jstring
  t_inputMessageId :: jstring
  t_runId :: "jstring option"
  t_outputMessageId :: "jstring option"
  t_state :: turn_state
  t_assessment :: "AgentAssessment option"
  t_replyHash :: "jstring option"
  t_createdAt :: timestamp
  t_updatedAt :: timestamp
  t_completedAt :: "timestamp option"
  t_waveId :: "jstring option"
  t_waveMemberOrdinal :: "int option"
  t_terminalReason :: "jstring option"

record DiscussionSelectionExplanation =
  ex_agentId :: jstring
  ex_reasons :: "DiscussionSelectionReason list"
  ex_reportedQuestionIds :: "jstring list"
  ex_matchedRoleTerms :: "jstring list"

record DiscussionWaveSelection =
  sel_version :: int
  sel_explanations :: "DiscussionSelectionExplanation list option"
  sel_strategy :: selection_strategy
  sel_focusQuestionIds :: "jstring list"
  sel_eligibleAgentIds :: "jstring list"
  sel_selectedAgentIds :: "jstring list"
  sel_requiredRoles :: "participant_role list"
  sel_focusedParticipantLimit :: int
  sel_selectionDigest :: jstring

record DiscussionWave =
  w_waveId :: jstring
  w_discussionId :: jstring
  w_ordinal :: int
  w_phase :: DiscussionWavePhase
  w_inputMessageId :: jstring
  w_state :: DiscussionWaveState
  w_deadlineAt :: timestamp
  w_expectedMembers :: int
  w_version :: int
  w_createdAt :: timestamp
  w_updatedAt :: timestamp
  w_closedAt :: "timestamp option"
  w_selection :: "DiscussionWaveSelection option"

record DiscussionWaveSealMember =
  sm_turnId :: jstring
  sm_waveMemberOrdinal :: int
  sm_agentId :: jstring
  sm_role :: participant_role
  sm_runId :: jstring
  sm_sourceReplySequence :: int
  sm_outputMessageId :: jstring
  sm_sourceMessageSequence :: int
  sm_replyHash :: jstring

text \<open>
  The unsigned part of a seal is the interface \<^verbatim>\<open>QuorumSealInput\<close>; the seal adds its digest.
\<close>

record QuorumSealInput =
  sl_sealId :: jstring
  sl_discussionId :: jstring
  sl_waveId :: jstring
  sl_softDeadlineAt :: timestamp
  sl_minimumCompleted :: int
  sl_requiredRoles :: "participant_role list"
  sl_acceptedMembers :: "DiscussionWaveSealMember list"
  sl_sealedAt :: timestamp

record DiscussionWaveSeal = QuorumSealInput +
  sl_sealDigest :: jstring

section \<open>Defaults and state tests\<close>

text \<open>
  \<^verbatim>\<open>0.8\<close> is written as the decimal; the comparisons of the program are between numbers read the
  same way.
\<close>

definition defaultDiscussionPolicy :: DiscussionPolicy where
  "defaultDiscussionPolicy =
    \<lparr>initialLeaseTurns = 4, automaticMaxTurns = 12, hardMaxTurns = 50,
     maxDurationSeconds = 20 * 60, waveTimeoutSeconds = 5 * 60, plateauWindow = 2,
     minimumCompletionConfidence = 4 / 5, finalizationReserveTurns = 1,
     requireReviewer = False, allowAutomaticFinish = True,
     participantSelectionMode = Sel_question_focused, focusedParticipantLimit = 3,
     waveCompletionMode = WC_all_settled, quorumMinimumCompleted = 2,
     quorumSoftDeadlineSeconds = 60\<rparr>"

definition emptyProgressSnapshot :: ProgressSnapshot where
  "emptyProgressSnapshot =
    \<lparr>pg_version = 0, pg_goalSatisfied = False, pg_confidence = None, pg_openQuestions = [],
     pg_evidenceRefs = [], pg_verifiedEvidenceRefs = [], pg_disagreementRemaining = None,
     pg_reviewerApproved = False, pg_plateauCount = 0, pg_replyHashes = [],
     pg_lastTurnAddedInformation = True\<rparr>"

definition emptyBudgetSnapshot :: "int \<Rightarrow> BudgetSnapshot" where
  "emptyBudgetSnapshot lease =
    \<lparr>turnsUsed = 0, agentRunsUsed = 0, durationSeconds = 0, leaseEndTurn = lease,
     extensions = 0\<rparr>"

fun terminalTurnState :: "turn_state \<Rightarrow> bool" where
  "terminalTurnState TS_completed = True"
| "terminalTurnState TS_failed = True"
| "terminalTurnState TS_canceled = True"
| "terminalTurnState _ = False"

fun terminalDiscussionState :: "DiscussionState \<Rightarrow> bool" where
  "terminalDiscussionState DS_completed = True"
| "terminalDiscussionState DS_canceled = True"
| "terminalDiscussionState DS_terminated = True"
| "terminalDiscussionState _ = False"

definition waveCloseState :: "turn_state list \<Rightarrow> DiscussionWaveState" where
  "waveCloseState turns =
    (let completed = length (filter (\<lambda>s. s = TS_completed) turns);
         canceled = length (filter (\<lambda>s. s = TS_canceled) turns)
     in if completed = length turns then WS_completed
        else if canceled = length turns then WS_canceled
        else if completed > 0 then WS_partial
        else WS_failed)"

lemma terminalTurnState_iff [enum_simps]:
  "terminalTurnState s \<longleftrightarrow> s = TS_completed \<or> s = TS_failed \<or> s = TS_canceled"
  by (cases s) auto

lemma terminalDiscussionState_iff [enum_simps]:
  "terminalDiscussionState s \<longleftrightarrow> s = DS_completed \<or> s = DS_canceled \<or> s = DS_terminated"
  by (cases s) auto

lemma filter_length_all: "length (filter P xs) = length xs \<longleftrightarrow> (\<forall>x\<in>set xs. P x)"
  using length_filter_less[of _ xs P] by (metis filter_True less_irrefl)

lemma waveCloseState_cases:
  "waveCloseState turns =
    (if \<forall>s\<in>set turns. s = TS_completed then WS_completed
     else if \<forall>s\<in>set turns. s = TS_canceled then WS_canceled
     else if TS_completed \<in> set turns then WS_partial else WS_failed)"
proof -
  have "0 < length (filter (\<lambda>s. s = TS_completed) turns) \<longleftrightarrow> TS_completed \<in> set turns"
    by (auto simp: filter_empty_conv)
  then show ?thesis unfolding waveCloseState_def Let_def filter_length_all by simp
qed

end
