(* ===== verification/Budget_Ledger.thy ===== *)
theory Budget_Ledger
  imports Discussion_Types
begin

text \<open>
  The turn and duration budget of a Discussion
  (\<^verbatim>\<open>apps/server/src/discussion/budget-ledger.ts\<close>): recording a settled Wave, reading the
  boundaries and extending the lease. The locale \<open>turn_budget\<close> is the contract the policy
  engine and the orchestrator rely on; it is interpreted on the ledger itself.
\<close>

section \<open>Operations\<close>

definition recordTurnUsage ::
  "BudgetSnapshot \<Rightarrow> int option \<Rightarrow> timestamp \<Rightarrow> timestamp \<Rightarrow> BudgetSnapshot throwing" where
  "recordTurnUsage previous agentRunsOpt discussionStartedAt now =
    (let elapsed = max 0 ((now - discussionStartedAt) div 1000);
         agentRuns = (case agentRunsOpt of None \<Rightarrow> 1 | Some n \<Rightarrow> n)
     in if \<not> is_safe_integer agentRuns \<or> agentRuns < 1 \<or> agentRuns > 5
        then Inl (Error ''Discussion Wave Agent Run count must be between 1 and 5'')
        else Inr \<lparr>turnsUsed = turnsUsed previous + 1,
                  agentRunsUsed = agentRunsUsed previous + agentRuns,
                  durationSeconds = elapsed,
                  leaseEndTurn = leaseEndTurn previous,
                  extensions = extensions previous\<rparr>)"

record BudgetStatus =
  hardBoundaryReached :: bool
  leaseBoundaryReached :: bool
  automaticRenewalAvailable :: bool
  softBoundaryReached :: bool
  regularTurnLimit :: int

definition inspectBudget :: "BudgetSnapshot \<Rightarrow> DiscussionPolicy \<Rightarrow> BudgetStatus" where
  "inspectBudget budget policy =
    (let regular = max 0 (hardMaxTurns policy - finalizationReserveTurns policy);
         hard = (turnsUsed budget \<ge> regular \<or> durationSeconds budget \<ge> maxDurationSeconds policy);
         lease = (turnsUsed budget \<ge> leaseEndTurn budget)
     in \<lparr>hardBoundaryReached = hard,
         leaseBoundaryReached = lease,
         automaticRenewalAvailable = (lease \<and> leaseEndTurn budget < automaticMaxTurns policy),
         softBoundaryReached = (lease \<and> leaseEndTurn budget \<ge> automaticMaxTurns policy),
         regularTurnLimit = regular\<rparr>)"

datatype lease_source = Lease_automatic | Lease_user

definition grantDiscussionLease ::
  "BudgetSnapshot \<Rightarrow> DiscussionPolicy \<Rightarrow> int option \<Rightarrow> lease_source \<Rightarrow> BudgetSnapshot throwing"
where
  "grantDiscussionLease previous policy requestedTurns source =
    (let status = inspectBudget previous policy in
     if hardBoundaryReached status
     then Inl (Error ''Discussion hard budget cannot be extended'')
     else let increment = (case requestedTurns of None \<Rightarrow> initialLeaseTurns policy | Some n \<Rightarrow> n)
     in if \<not> is_safe_integer increment \<or> increment < 1 \<or> increment > 20
     then Inl (Error ''Discussion lease extension must be between 1 and 20 turns'')
     else let boundary = (if source = Lease_automatic
                          then min (automaticMaxTurns policy) (regularTurnLimit status)
                          else regularTurnLimit status);
              lease = min (max (leaseEndTurn previous) (turnsUsed previous) + increment) boundary
     in if lease \<le> leaseEndTurn previous
     then Inl (Error ''Discussion lease cannot advance beyond its current boundary'')
     else Inr \<lparr>turnsUsed = turnsUsed previous, agentRunsUsed = agentRunsUsed previous,
               durationSeconds = durationSeconds previous, leaseEndTurn = lease,
               extensions = extensions previous + 1\<rparr>)"

section \<open>The contract of a turn budget\<close>

text \<open>
  \<open>used\<close> counts the turns spent, \<open>limit\<close> is the number of turns a policy allows before the
  finalization reserve, \<open>lease\<close> the turn at which the current lease ends.
\<close>

locale turn_budget =
  fixes used :: "'b \<Rightarrow> int" and lease :: "'b \<Rightarrow> int" and limit :: "'p \<Rightarrow> int"
    and record_turn :: "'b \<Rightarrow> 'b \<Rightarrow> bool" and grant :: "'p \<Rightarrow> 'b \<Rightarrow> 'b \<Rightarrow> bool"
    and hard :: "'b \<Rightarrow> 'p \<Rightarrow> bool"
  assumes record_used: "record_turn b b' \<Longrightarrow> used b' = used b + 1"
    and record_lease: "record_turn b b' \<Longrightarrow> lease b' = lease b"
    and grant_used: "grant p b b' \<Longrightarrow> used b' = used b"
    and grant_grows: "grant p b b' \<Longrightarrow> lease b < lease b'"
    and grant_bounded: "grant p b b' \<Longrightarrow> lease b' \<le> limit p"
    and hard_at_limit: "used b \<ge> limit p \<Longrightarrow> hard b p"
begin

text \<open>
  A run of the ledger: every element is either one recorded turn, allowed only before the hard
  boundary, or one granted lease.
\<close>

inductive ledger_run :: "'p \<Rightarrow> 'b \<Rightarrow> nat \<Rightarrow> nat \<Rightarrow> 'b \<Rightarrow> bool" for p where
  start: "ledger_run p b 0 0 b"
| turn: "ledger_run p b m n c \<Longrightarrow> \<not> hard c p \<Longrightarrow> record_turn c d \<Longrightarrow> ledger_run p b (Suc m) n d"
| extend: "ledger_run p b m n c \<Longrightarrow> grant p c d \<Longrightarrow> ledger_run p b m (Suc n) d"

lemma ledger_run_used: "ledger_run p b m n c \<Longrightarrow> used c = used b + int m"
  by (induction rule: ledger_run.induct) (auto simp: record_used grant_used)

lemma ledger_run_turns:
  "ledger_run p b m n c \<Longrightarrow> used b \<le> limit p \<Longrightarrow> used b + int m \<le> limit p"
proof (induction rule: ledger_run.induct)
  case (turn b m n c d)
  have "used c < limit p"
    using hard_at_limit[of p c] turn.hyps(2) by (cases "used c \<ge> limit p") auto
  with ledger_run_used[OF turn.hyps(1)] show ?case by simp
qed auto

lemma ledger_run_lease:
  "ledger_run p b m n c \<Longrightarrow> lease b \<le> limit p \<Longrightarrow> lease b + int n \<le> lease c \<and> lease c \<le> limit p"
proof (induction rule: ledger_run.induct)
  case (extend b m n c d)
  from extend.IH extend.prems grant_grows[OF extend.hyps(2)] grant_bounded[OF extend.hyps(2)]
  show ?case by auto
qed (auto simp: record_lease)

end

lemma inspectBudget_simps [simp]:
  "hardBoundaryReached (inspectBudget b p) \<longleftrightarrow>
     turnsUsed b \<ge> max 0 (hardMaxTurns p - finalizationReserveTurns p) \<or>
     durationSeconds b \<ge> maxDurationSeconds p"
  "leaseBoundaryReached (inspectBudget b p) \<longleftrightarrow> turnsUsed b \<ge> leaseEndTurn b"
  "automaticRenewalAvailable (inspectBudget b p) \<longleftrightarrow>
     turnsUsed b \<ge> leaseEndTurn b \<and> leaseEndTurn b < automaticMaxTurns p"
  "softBoundaryReached (inspectBudget b p) \<longleftrightarrow>
     turnsUsed b \<ge> leaseEndTurn b \<and> leaseEndTurn b \<ge> automaticMaxTurns p"
  "regularTurnLimit (inspectBudget b p) = max 0 (hardMaxTurns p - finalizationReserveTurns p)"
  by (simp_all add: inspectBudget_def Let_def)

lemma recordTurnUsage_Inr:
  "recordTurnUsage b r s now = Inr b' \<longleftrightarrow>
     (let n = (case r of None \<Rightarrow> 1 | Some n \<Rightarrow> n) in 1 \<le> n \<and> n \<le> 5 \<and>
       b' = \<lparr>turnsUsed = turnsUsed b + 1, agentRunsUsed = agentRunsUsed b + n,
             durationSeconds = max 0 ((now - s) div 1000), leaseEndTurn = leaseEndTurn b,
             extensions = extensions b\<rparr>)"
  by (auto simp: recordTurnUsage_def Let_def is_safe_integer_def max_safe_integer_def
      split: option.splits)

lemma grantDiscussionLease_Inr:
  "grantDiscussionLease b p r src = Inr b' \<longleftrightarrow>
     (let n = (case r of None \<Rightarrow> initialLeaseTurns p | Some n \<Rightarrow> n);
          limit = max 0 (hardMaxTurns p - finalizationReserveTurns p);
          boundary = (if src = Lease_automatic then min (automaticMaxTurns p) limit else limit);
          lease = min (max (leaseEndTurn b) (turnsUsed b) + n) boundary
      in turnsUsed b < limit \<and> durationSeconds b < maxDurationSeconds p \<and> 1 \<le> n \<and> n \<le> 20 \<and>
         leaseEndTurn b < lease \<and>
         b' = b\<lparr>leaseEndTurn := lease, extensions := extensions b + 1\<rparr>)"
proof -
  define n where "n = (case r of None \<Rightarrow> initialLeaseTurns p | Some n \<Rightarrow> n)"
  define limit where "limit = max 0 (hardMaxTurns p - finalizationReserveTurns p)"
  define lease where "lease = min (max (leaseEndTurn b) (turnsUsed b) + n)
    (if src = Lease_automatic then min (automaticMaxTurns p) limit else limit)"
  have unfolded: "grantDiscussionLease b p r src =
    (if turnsUsed b \<ge> limit \<or> durationSeconds b \<ge> maxDurationSeconds p
     then Inl (Error ''Discussion hard budget cannot be extended'')
     else if \<not> is_safe_integer n \<or> n < 1 \<or> n > 20
     then Inl (Error ''Discussion lease extension must be between 1 and 20 turns'')
     else if lease \<le> leaseEndTurn b
     then Inl (Error ''Discussion lease cannot advance beyond its current boundary'')
     else Inr (b\<lparr>leaseEndTurn := lease, extensions := extensions b + 1\<rparr>))"
    unfolding grantDiscussionLease_def Let_def inspectBudget_simps
      n_def[symmetric] limit_def[symmetric] lease_def[symmetric]
    by (cases b) simp
  have "1 \<le> n \<Longrightarrow> n \<le> 20 \<Longrightarrow> is_safe_integer n"
    by (simp add: is_safe_integer_def max_safe_integer_def)
  then show ?thesis
    unfolding unfolded Let_def n_def[symmetric] limit_def[symmetric] lease_def[symmetric]
    by (auto simp: not_le)
qed

interpretation ledger: turn_budget
  turnsUsed leaseEndTurn "\<lambda>p. max 0 (hardMaxTurns p - finalizationReserveTurns p)"
  "\<lambda>b b'. \<exists>r s now. recordTurnUsage b r s now = Inr b'"
  "\<lambda>p b b'. \<exists>r src. grantDiscussionLease b p r src = Inr b'"
  "\<lambda>b p. hardBoundaryReached (inspectBudget b p)"
  by unfold_locales (auto simp: recordTurnUsage_Inr grantDiscussionLease_Inr Let_def split: if_splits)

end
