(* ===== verification/Policy_Engine.thy ===== *)
theory Policy_Engine
  imports Budget_Ledger
begin

text \<open>
  The decision table of a Discussion (\<^verbatim>\<open>apps/server/src/discussion/discussion-policy-engine.ts\<close>)
  and the validation of its policy (\<^verbatim>\<open>resolvePolicy\<close> of \<^verbatim>\<open>discussion-orchestrator.ts\<close>).
  \<open>decideDiscussion\<close> keeps the order of the guards of the source: a cancellation, the hard
  budget, human input, a pause, a requested finish, a failed runtime, a satisfied goal, a
  plateau and at last the lease.
\<close>

section \<open>The decision table\<close>

datatype DiscussionUserIntent = Intent_finish | Intent_stop_after_turn | Intent_pause | Intent_cancel

record PolicyDecision =
  pd_action :: DiscussionAction
  pd_state :: DiscussionState
  pd_reason :: "DiscussionStateReason option"
  pd_outputMode :: DiscussionOutputMode
  pd_grantAutomaticLease :: bool

record decision_input =
  di_progress :: ProgressSnapshot
  di_budget :: BudgetSnapshot
  di_policy :: DiscussionPolicy
  di_requestedOutputMode :: DiscussionOutputMode
  di_userIntent :: "DiscussionUserIntent option"
  di_runtimeInputRequired :: bool
  di_runtimeFailed :: bool

definition decideDiscussion :: "decision_input \<Rightarrow> PolicyDecision" where
  "decideDiscussion input =
    (if di_userIntent input = Some Intent_cancel
     then \<lparr>pd_action = DA_cancel, pd_state = DS_canceled, pd_reason = Some SR_user_canceled,
           pd_outputMode = OM_none, pd_grantAutomaticLease = False\<rparr>
     else let budget = inspectBudget (di_budget input) (di_policy input) in
     if hardBoundaryReached budget
     then \<lparr>pd_action = DA_finalize, pd_state = DS_finalizing,
           pd_reason = Some SR_hard_budget_exhausted,
           pd_outputMode = (if length (pg_openQuestions (di_progress input)) > 0
                            then OM_unresolved_issues else di_requestedOutputMode input),
           pd_grantAutomaticLease = False\<rparr>
     else if di_runtimeInputRequired input
     then \<lparr>pd_action = DA_wait_human, pd_state = DS_waiting_human,
           pd_reason = Some SR_input_required, pd_outputMode = OM_none,
           pd_grantAutomaticLease = False\<rparr>
     else if di_userIntent input = Some Intent_pause
     then \<lparr>pd_action = DA_pause, pd_state = DS_paused, pd_reason = Some SR_user_paused,
           pd_outputMode = OM_none, pd_grantAutomaticLease = False\<rparr>
     else if di_userIntent input = Some Intent_finish \<or>
             di_userIntent input = Some Intent_stop_after_turn
     then \<lparr>pd_action = DA_finalize, pd_state = DS_finalizing,
           pd_reason = Some SR_user_requested_finish,
           pd_outputMode = di_requestedOutputMode input, pd_grantAutomaticLease = False\<rparr>
     else if di_runtimeFailed input
     then \<lparr>pd_action = DA_wait_human, pd_state = DS_waiting_human,
           pd_reason = Some SR_runtime_failure, pd_outputMode = OM_none,
           pd_grantAutomaticLease = False\<rparr>
     else let reviewSatisfied = (\<not> requireReviewer (di_policy input) \<or>
                                 pg_reviewerApproved (di_progress input)) in
     if allowAutomaticFinish (di_policy input) \<and> pg_goalSatisfied (di_progress input) \<and>
        reviewSatisfied
     then \<lparr>pd_action = DA_finalize, pd_state = DS_finalizing,
           pd_reason = Some SR_goal_satisfied,
           pd_outputMode = di_requestedOutputMode input, pd_grantAutomaticLease = False\<rparr>
     else if pg_plateauCount (di_progress input) \<ge> plateauWindow (di_policy input)
     then (if (\<exists>q\<in>set (pg_openQuestions (di_progress input)). oq_importance q = Imp_high) \<or>
              \<not> reviewSatisfied
           then \<lparr>pd_action = DA_wait_human, pd_state = DS_waiting_human,
                 pd_reason = Some SR_discussion_plateau, pd_outputMode = OM_none,
                 pd_grantAutomaticLease = False\<rparr>
           else \<lparr>pd_action = DA_finalize, pd_state = DS_finalizing,
                 pd_reason = Some SR_discussion_plateau,
                 pd_outputMode = di_requestedOutputMode input,
                 pd_grantAutomaticLease = False\<rparr>)
     else if leaseBoundaryReached budget
     then (if automaticRenewalAvailable budget \<and>
              pg_lastTurnAddedInformation (di_progress input)
           then \<lparr>pd_action = DA_continue, pd_state = DS_active, pd_reason = None,
                 pd_outputMode = OM_none, pd_grantAutomaticLease = True\<rparr>
           else \<lparr>pd_action = DA_wait_human, pd_state = DS_awaiting_extension,
                 pd_reason = Some SR_soft_budget_exhausted, pd_outputMode = OM_none,
                 pd_grantAutomaticLease = False\<rparr>)
     else \<lparr>pd_action = DA_continue, pd_state = DS_active, pd_reason = None,
           pd_outputMode = OM_none, pd_grantAutomaticLease = False\<rparr>)"

section \<open>Validation of a policy\<close>

text \<open>
  A request overrides single fields of the default policy. Fields of the wrong JavaScript type
  are refused before the numeric checks; in the typed model that first guard is always passed.
\<close>

record policy_overrides =
  ov_initialLeaseTurns :: "int option"
  ov_automaticMaxTurns :: "int option"
  ov_hardMaxTurns :: "int option"
  ov_maxDurationSeconds :: "int option"
  ov_waveTimeoutSeconds :: "int option"
  ov_plateauWindow :: "int option"
  ov_minimumCompletionConfidence :: "rat option"
  ov_finalizationReserveTurns :: "int option"
  ov_requireReviewer :: "bool option"
  ov_allowAutomaticFinish :: "bool option"
  ov_participantSelectionMode :: "DiscussionParticipantSelectionMode option"
  ov_focusedParticipantLimit :: "int option"
  ov_waveCompletionMode :: "wave_completion_mode option"
  ov_quorumMinimumCompleted :: "int option"
  ov_quorumSoftDeadlineSeconds :: "int option"

definition override :: "'a \<Rightarrow> 'a option \<Rightarrow> 'a" where
  "override d v = (case v of None \<Rightarrow> d | Some x \<Rightarrow> x)"

definition merge_policy :: "policy_overrides \<Rightarrow> DiscussionPolicy" where
  "merge_policy ov =
    (let d = defaultDiscussionPolicy in
     \<lparr>initialLeaseTurns = override (initialLeaseTurns d) (ov_initialLeaseTurns ov),
      automaticMaxTurns = override (automaticMaxTurns d) (ov_automaticMaxTurns ov),
      hardMaxTurns = override (hardMaxTurns d) (ov_hardMaxTurns ov),
      maxDurationSeconds = override (maxDurationSeconds d) (ov_maxDurationSeconds ov),
      waveTimeoutSeconds = override (waveTimeoutSeconds d) (ov_waveTimeoutSeconds ov),
      plateauWindow = override (plateauWindow d) (ov_plateauWindow ov),
      minimumCompletionConfidence =
        override (minimumCompletionConfidence d) (ov_minimumCompletionConfidence ov),
      finalizationReserveTurns =
        override (finalizationReserveTurns d) (ov_finalizationReserveTurns ov),
      requireReviewer = override (requireReviewer d) (ov_requireReviewer ov),
      allowAutomaticFinish = override (allowAutomaticFinish d) (ov_allowAutomaticFinish ov),
      participantSelectionMode =
        override (participantSelectionMode d) (ov_participantSelectionMode ov),
      focusedParticipantLimit =
        override (focusedParticipantLimit d) (ov_focusedParticipantLimit ov),
      waveCompletionMode = override (waveCompletionMode d) (ov_waveCompletionMode ov),
      quorumMinimumCompleted =
        override (quorumMinimumCompleted d) (ov_quorumMinimumCompleted ov),
      quorumSoftDeadlineSeconds =
        override (quorumSoftDeadlineSeconds d) (ov_quorumSoftDeadlineSeconds ov)\<rparr>)"

definition maximumParticipants :: int where
  "maximumParticipants = 5"

definition requiredInteger :: "int \<Rightarrow> string \<Rightarrow> int \<Rightarrow> int \<Rightarrow> unit throwing" where
  "requiredInteger value label minimum maximum =
    ensure (is_safe_integer value \<and> \<not> value < minimum \<and> \<not> value > maximum)
      (ErrorRange label minimum maximum)"

definition resolvePolicy :: "policy_overrides \<Rightarrow> DiscussionPolicy throwing" where
  "resolvePolicy overrides =
    (let policy = merge_policy overrides in
     bind (requiredInteger (initialLeaseTurns policy) ''initialLeaseTurns'' 1 12) (\<lambda>_.
     bind (requiredInteger (automaticMaxTurns policy) ''automaticMaxTurns'' 1 30) (\<lambda>_.
     bind (requiredInteger (hardMaxTurns policy) ''hardMaxTurns'' 2 50) (\<lambda>_.
     bind (requiredInteger (maxDurationSeconds policy) ''maxDurationSeconds'' 30 7200) (\<lambda>_.
     bind (requiredInteger (waveTimeoutSeconds policy) ''waveTimeoutSeconds'' 30 7200) (\<lambda>_.
     bind (requiredInteger (plateauWindow policy) ''plateauWindow'' 1 6) (\<lambda>_.
     bind (requiredInteger (finalizationReserveTurns policy) ''finalizationReserveTurns'' 1 3) (\<lambda>_.
     bind (requiredInteger (focusedParticipantLimit policy) ''focusedParticipantLimit'' 2
             maximumParticipants) (\<lambda>_.
     bind (if waveCompletionMode policy = WC_all_settled
           then Inr (policy\<lparr>quorumMinimumCompleted :=
                               quorumMinimumCompleted defaultDiscussionPolicy,
                            quorumSoftDeadlineSeconds :=
                               quorumSoftDeadlineSeconds defaultDiscussionPolicy\<rparr>)
           else bind (requiredInteger (quorumMinimumCompleted policy) ''quorumMinimumCompleted'' 2
                        maximumParticipants) (\<lambda>_.
                bind (requiredInteger (quorumSoftDeadlineSeconds policy)
                        ''quorumSoftDeadlineSeconds'' 1 7199) (\<lambda>_.
                bind (ensure (\<not> quorumSoftDeadlineSeconds policy \<ge> waveTimeoutSeconds policy)
                        (Error ''Quorum soft deadline must precede the Wave timeout''))
                  (\<lambda>_. Inr policy)))) (\<lambda>policy.
     bind (ensure (\<not> (initialLeaseTurns policy > automaticMaxTurns policy \<or>
                       automaticMaxTurns policy \<ge> hardMaxTurns policy \<or>
                       finalizationReserveTurns policy \<ge> hardMaxTurns policy))
             (Error ''Discussion turn budget boundaries are inconsistent'')) (\<lambda>_.
     bind (ensure (\<not> (minimumCompletionConfidence policy < 1 / 2 \<or>
                       minimumCompletionConfidence policy > 1))
             (Error ''minimumCompletionConfidence must be between 0.5 and 1''))
       (\<lambda>_. Inr policy))))))))))))"

section \<open>Lemmas\<close>

text \<open>What a resolved policy promises to the ledger, the selector and the quorum rules.\<close>

definition valid_policy :: "DiscussionPolicy \<Rightarrow> bool" where
  "valid_policy p \<longleftrightarrow>
     1 \<le> initialLeaseTurns p \<and> initialLeaseTurns p \<le> 12 \<and>
     initialLeaseTurns p \<le> automaticMaxTurns p \<and> automaticMaxTurns p \<le> 30 \<and>
     automaticMaxTurns p < hardMaxTurns p \<and>
     hardMaxTurns p \<le> 50 \<and> 1 \<le> finalizationReserveTurns p \<and> finalizationReserveTurns p \<le> 3 \<and>
     finalizationReserveTurns p < hardMaxTurns p \<and>
     30 \<le> maxDurationSeconds p \<and> maxDurationSeconds p \<le> 7200 \<and>
     30 \<le> waveTimeoutSeconds p \<and> waveTimeoutSeconds p \<le> 7200 \<and>
     1 \<le> plateauWindow p \<and> plateauWindow p \<le> 6 \<and>
     2 \<le> focusedParticipantLimit p \<and> focusedParticipantLimit p \<le> 5 \<and>
     2 \<le> quorumMinimumCompleted p \<and> quorumMinimumCompleted p \<le> 5 \<and>
     1 \<le> quorumSoftDeadlineSeconds p \<and> quorumSoftDeadlineSeconds p \<le> 7199 \<and>
     (waveCompletionMode p = WC_read_only_quorum \<longrightarrow>
        quorumSoftDeadlineSeconds p < waveTimeoutSeconds p) \<and>
     1 / 2 \<le> minimumCompletionConfidence p \<and> minimumCompletionConfidence p \<le> 1"

lemma requiredInteger_Inr [simp]:
  assumes "0 \<le> lo" and "hi \<le> max_safe_integer"
  shows "requiredInteger v l lo hi = Inr u \<longleftrightarrow> lo \<le> v \<and> v \<le> hi"
  using assms by (auto simp: requiredInteger_def ensure_def is_safe_integer_def)

lemma bind_requiredInteger [throw_simps]:
  assumes "0 \<le> lo" and "hi \<le> max_safe_integer"
  shows "bind (requiredInteger v l lo hi) f = Inr y \<longleftrightarrow> lo \<le> v \<and> v \<le> hi \<and> f () = Inr y"
  using assms by (auto simp: bind_eq_Inr)

text \<open>With the quorum switched off its two parameters are reset to their defaults.\<close>

definition normalized_policy :: "policy_overrides \<Rightarrow> DiscussionPolicy" where
  "normalized_policy ov =
    (if waveCompletionMode (merge_policy ov) = WC_all_settled
     then merge_policy ov \<lparr>quorumMinimumCompleted := 2, quorumSoftDeadlineSeconds := 60\<rparr>
     else merge_policy ov)"

lemma resolvePolicy_Inr_iff:
  "resolvePolicy ov = Inr p \<longleftrightarrow> p = normalized_policy ov \<and> valid_policy p"
proof -
  define m where "m = merge_policy ov"
  have "waveCompletionMode m = WC_all_settled \<or> waveCompletionMode m = WC_read_only_quorum"
    by (cases "waveCompletionMode m") auto
  then show ?thesis
  proof
    assume mode: "waveCompletionMode m = WC_all_settled"
    then show ?thesis
      unfolding resolvePolicy_def Let_def maximumParticipants_def normalized_policy_def m_def[symmetric]
      by (auto simp: bind_requiredInteger bind_ensure_eq_Inr max_safe_integer_def valid_policy_def
          defaultDiscussionPolicy_def)
  next
    assume mode: "waveCompletionMode m = WC_read_only_quorum"
    then show ?thesis
      unfolding resolvePolicy_def Let_def maximumParticipants_def normalized_policy_def m_def[symmetric]
      by (auto simp: throw_simps max_safe_integer_def valid_policy_def)
  qed
qed

lemma default_policy_valid: "valid_policy defaultDiscussionPolicy"
  by (simp add: valid_policy_def defaultDiscussionPolicy_def)

lemmas decide_unfold = decideDiscussion_def Let_def inspectBudget_simps

text \<open>The action and the state of a decision always fit together.\<close>

lemma decide_action_state:
  "pd_state (decideDiscussion i) =
    (case pd_action (decideDiscussion i) of
       DA_continue \<Rightarrow> DS_active
     | DA_wait_human \<Rightarrow> (if pd_reason (decideDiscussion i) = Some SR_soft_budget_exhausted
                         then DS_awaiting_extension else DS_waiting_human)
     | DA_pause \<Rightarrow> DS_paused
     | DA_finalize \<Rightarrow> DS_finalizing
     | DA_cancel \<Rightarrow> DS_canceled
     | DA_terminate \<Rightarrow> DS_terminated)"
  by (simp add: decide_unfold)

lemma decide_continue_D:
  assumes "pd_action (decideDiscussion i) = DA_continue"
  shows "\<not> hardBoundaryReached (inspectBudget (di_budget i) (di_policy i))"
    and "di_userIntent i = None" and "\<not> di_runtimeInputRequired i" and "\<not> di_runtimeFailed i"
    and "pg_plateauCount (di_progress i) < plateauWindow (di_policy i)"
    and "pd_grantAutomaticLease (decideDiscussion i) \<longleftrightarrow>
           turnsUsed (di_budget i) \<ge> leaseEndTurn (di_budget i)"
proof -
  have intent: "u \<noteq> Some Intent_cancel \<Longrightarrow> u \<noteq> Some Intent_pause \<Longrightarrow> u \<noteq> Some Intent_finish \<Longrightarrow>
    u \<noteq> Some Intent_stop_after_turn \<Longrightarrow> u = None" for u
    by (cases u) (auto intro: DiscussionUserIntent.exhaust)
  show "\<not> hardBoundaryReached (inspectBudget (di_budget i) (di_policy i))"
    and "di_userIntent i = None" and "\<not> di_runtimeInputRequired i" and "\<not> di_runtimeFailed i"
    and "pg_plateauCount (di_progress i) < plateauWindow (di_policy i)"
    and "pd_grantAutomaticLease (decideDiscussion i) \<longleftrightarrow>
           turnsUsed (di_budget i) \<ge> leaseEndTurn (di_budget i)"
    using assms intent[of "di_userIntent i"]
    unfolding decideDiscussion_def Let_def by (auto split: if_splits)
qed

lemma decide_grant_D:
  assumes "pd_grantAutomaticLease (decideDiscussion i)"
  shows "pd_action (decideDiscussion i) = DA_continue"
    and "leaseEndTurn (di_budget i) < automaticMaxTurns (di_policy i)"
  using assms unfolding decideDiscussion_def Let_def by (auto split: if_splits)

lemma decide_lease_grant:
  assumes "valid_policy (di_policy i)" and "turnsUsed (di_budget i) \<le> leaseEndTurn (di_budget i)"
    and "pd_grantAutomaticLease (decideDiscussion i)"
  shows "\<exists>b. grantDiscussionLease (di_budget i) (di_policy i) None Lease_automatic = Inr b \<and>
    turnsUsed b < leaseEndTurn b \<and> leaseEndTurn b \<le> automaticMaxTurns (di_policy i)"
proof -
  note d = decide_grant_D[OF assms(3)]
  note c = decide_continue_D[OF d(1)]
  show ?thesis
    using assms(1,2) c(1) c(6) assms(3) d(2)
    by (auto simp: grantDiscussionLease_Inr Let_def valid_policy_def)
qed



lemma user_intent_cases:
  "u = None \<or> u = Some Intent_cancel \<or> u = Some Intent_pause \<or> u = Some Intent_finish \<or>
   u = Some Intent_stop_after_turn"
  by (cases u) (auto intro: DiscussionUserIntent.exhaust)

section \<open>Properties\<close>

text \<open>
  \<open>resolvePolicy\<close> accepts exactly the overrides whose merge with the defaults, its quorum
  parameters reset when the quorum is off, satisfies every documented range and ordering, and
  returns that merge.
\<close>

theorem resolve_policy_exact:
  "resolvePolicy ov = Inr p \<longleftrightarrow> p = normalized_policy ov \<and> valid_policy p"
  by (rule resolvePolicy_Inr_iff)

text \<open>
  When a Discussion continues: exactly when the hard budget is not reached, no user intent,
  input request or runtime failure is pending, the goal is not automatically finished, the
  plateau window is not exhausted, and the lease still runs or may be renewed because the last
  turn added information.
\<close>

theorem decide_continue_iff:
  "pd_action (decideDiscussion i) = DA_continue \<longleftrightarrow>
    turnsUsed (di_budget i) < max 0 (hardMaxTurns (di_policy i) - finalizationReserveTurns (di_policy i)) \<and>
    durationSeconds (di_budget i) < maxDurationSeconds (di_policy i) \<and>
    di_userIntent i = None \<and> \<not> di_runtimeInputRequired i \<and> \<not> di_runtimeFailed i \<and>
    \<not> (allowAutomaticFinish (di_policy i) \<and> pg_goalSatisfied (di_progress i) \<and>
       (if requireReviewer (di_policy i) then pg_reviewerApproved (di_progress i) else True)) \<and>
    pg_plateauCount (di_progress i) < plateauWindow (di_policy i) \<and>
    (turnsUsed (di_budget i) < leaseEndTurn (di_budget i) \<or>
     leaseEndTurn (di_budget i) < automaticMaxTurns (di_policy i) \<and>
     pg_lastTurnAddedInformation (di_progress i))"
  using user_intent_cases[of "di_userIntent i"]
  unfolding decideDiscussion_def Let_def inspectBudget_simps by (auto split: if_splits)

text \<open>
  Whenever the policy decides to renew the lease automatically, the ledger grants it: the
  renewal never throws, the next turn lies inside the new lease, and the lease does not pass the
  automatic maximum.
\<close>

theorem automatic_lease_granted:
  assumes "valid_policy (di_policy i)" and "turnsUsed (di_budget i) \<le> leaseEndTurn (di_budget i)"
    and "pd_grantAutomaticLease (decideDiscussion i)"
  shows "\<exists>b. grantDiscussionLease (di_budget i) (di_policy i) None Lease_automatic = Inr b \<and>
    turnsUsed b < leaseEndTurn b \<and> leaseEndTurn b \<le> automaticMaxTurns (di_policy i)"
  using assms by (rule decide_lease_grant)

definition demo_input :: "BudgetSnapshot \<Rightarrow> decision_input" where
  "demo_input b =
    \<lparr>di_progress = emptyProgressSnapshot, di_budget = b, di_policy = defaultDiscussionPolicy,
     di_requestedOutputMode = OM_final_answer, di_userIntent = None,
     di_runtimeInputRequired = False, di_runtimeFailed = False\<rparr>"

definition demo_budget :: BudgetSnapshot where
  "demo_budget =
    \<lparr>turnsUsed = 4, agentRunsUsed = 7, durationSeconds = 90, leaseEndTurn = 4, extensions = 0\<rparr>"

theorem automatic_lease_granted_witness:
  "\<exists>b. grantDiscussionLease demo_budget defaultDiscussionPolicy None Lease_automatic = Inr b \<and>
    turnsUsed b < leaseEndTurn b \<and> leaseEndTurn b \<le> 12"
  using automatic_lease_granted[of "demo_input demo_budget"] default_policy_valid
  by (simp add: demo_input_def demo_budget_def decideDiscussion_def Let_def
      defaultDiscussionPolicy_def emptyProgressSnapshot_def)



end
