(* ===== verification/Text_Library.thy ===== *)
theory Text_Library
  imports Prelude
begin

text \<open>
  Text operations. \<open>exceedsUnicodeCodePointLimit\<close> and \<open>truncateUnicodeCodePoints\<close> are
  \<^verbatim>\<open>apps/server/src/domain/unicode-length.ts\<close>. What the sources take from the Unicode tables,
  the ICU collation and the SHA-256 of Node is a parameter of the definitions that use it, the
  record \<open>text_lib\<close>: \<^verbatim>\<open>localeCompare(\<dots>, "en-US")\<close>, NFKC normalization, the en-US and the default lower case,
  the four general categories the regular expressions name (tests of one code point), and the
  hexadecimal digest of the UTF-8 encoding of a string.
\<close>

record text_lib =
  localeCompare :: "jstring \<Rightarrow> jstring \<Rightarrow> int"
  normalizeNFKC :: "jstring \<Rightarrow> jstring"
  toLowerEnUS :: "jstring \<Rightarrow> jstring"
  isLetter :: "jstring \<Rightarrow> bool"
  isNumber :: "jstring \<Rightarrow> bool"
  isPunctuation :: "jstring \<Rightarrow> bool"
  isSymbol :: "jstring \<Rightarrow> bool"
  sha256Hex :: "jstring \<Rightarrow> jstring"
  toLowerCase :: "jstring \<Rightarrow> jstring"

section \<open>Lengths in code points\<close>

fun exceeds_loop :: "jstring list \<Rightarrow> int \<Rightarrow> int \<Rightarrow> bool" where
  "exceeds_loop [] n maximum = False"
| "exceeds_loop (c # cs) n maximum = (n + 1 > maximum \<or> exceeds_loop cs (n + 1) maximum)"

definition exceedsUnicodeCodePointLimit :: "jstring \<Rightarrow> int \<Rightarrow> bool" where
  "exceedsUnicodeCodePointLimit value maximum = exceeds_loop (code_points value) 0 maximum"

fun truncate_loop :: "jstring list \<Rightarrow> jstring \<Rightarrow> int \<Rightarrow> int \<Rightarrow> jstring" where
  "truncate_loop [] result n maximum = result"
| "truncate_loop (c # cs) result n maximum =
     (if n = maximum then result else truncate_loop cs (result @ c) (n + 1) maximum)"

definition truncateUnicodeCodePoints :: "jstring \<Rightarrow> int \<Rightarrow> jstring" where
  "truncateUnicodeCodePoints value maximum = truncate_loop (code_points value) [] 0 maximum"

section \<open>Comparison by code unit\<close>

definition binaryCompare :: "jstring \<Rightarrow> jstring \<Rightarrow> int" where
  "binaryCompare left right =
    (if text_less left right then -1 else if text_less right left then 1 else 0)"

interpretation binary_cmp: strict_comparator binaryCompare
proof
  show "binaryCompare x y < 0 \<longleftrightarrow> 0 < binaryCompare y x" for x y
    using text_less_asym[of x y] by (auto simp: binaryCompare_def)
  show "binaryCompare x z \<le> 0" if "binaryCompare x y \<le> 0" "binaryCompare y z \<le> 0" for x y z
    using that text_less_total[of x y] text_less_total[of y z] text_less_asym[of z x]
      text_less_trans[of x y z]
    by (auto simp: binaryCompare_def split: if_splits)
  show "x = y" if "binaryCompare x y = 0" for x y
    using that text_less_total[of x y] by (auto simp: binaryCompare_def split: if_splits)
qed

lemma binaryCompare_self [simp]: "binaryCompare x x = 0"
  by (simp add: binaryCompare_def)

lemma binaryCompare_eq_0 [simp]: "binaryCompare x y = 0 \<longleftrightarrow> x = y"
  using binary_cmp.cmp_eq by auto

text \<open>Sorting by a string field, \<^verbatim>\<open>by("key")\<close>.\<close>

interpretation field_cmp: comparator "\<lambda>x y. binaryCompare (k x) (k y)" for k
  by unfold_locales (auto simp: binary_cmp.cmp_sgn intro: binary_cmp.cmp_trans)

lemma sort_by_field_perm:
  assumes "mset xs = mset ys" and "distinct (map k xs)"
  shows "sort_by (\<lambda>x y. binaryCompare (k x) (k y)) xs = sort_by (\<lambda>x y. binaryCompare (k x) (k y)) ys"
  using assms by (intro field_cmp.sort_by_perm) (auto simp: distinct_map inj_on_def)

section \<open>Lemmas on code point lengths\<close>

lemma exceeds_loop_iff: "exceeds_loop cs n m \<longleftrightarrow> cs \<noteq> [] \<and> n + int (length cs) > m"
  by (induction cs n m rule: exceeds_loop.induct) auto

lemma exceeds_iff:
  "exceedsUnicodeCodePointLimit s m \<longleftrightarrow> s \<noteq> [] \<and> int (length (code_points s)) > m"
  by (simp add: exceedsUnicodeCodePointLimit_def exceeds_loop_iff)

lemma truncate_loop_eq:
  "n \<le> m \<Longrightarrow> truncate_loop cs r n m = r @ concat (take (nat (m - n)) cs)"
proof (induction cs r n m rule: truncate_loop.induct)
  case (2 c cs r n m)
  show ?case
  proof (cases "n = m")
    case False
    with 2 have "nat (m - n) = Suc (nat (m - (n + 1)))" by simp
    with 2 False show ?thesis by simp
  qed simp
qed simp

lemma truncate_eq:
  "0 \<le> m \<Longrightarrow> truncateUnicodeCodePoints s m = concat (take (nat m) (code_points s))"
  by (simp add: truncateUnicodeCodePoints_def truncate_loop_eq)

text \<open>
  Cutting after whole code points keeps the remaining code points as they were: no surrogate
  pair is torn.
\<close>

lemma code_points_concat_take: "code_points (concat (take n (code_points s))) = take n (code_points s)"
proof (induction s arbitrary: n rule: code_points.induct)
  case (2 u)
  then show ?case by (cases n) auto
next
  case (3 u v r)
  show ?case
  proof (cases n)
    case (Suc m)
    show ?thesis
    proof (cases "is_high_surrogate u \<and> is_low_surrogate v")
      case True
      with 3(1)[of m] Suc show ?thesis by simp
    next
      case False
      have "v # r = concat (take m (code_points (v # r))) @ concat (drop m (code_points (v # r)))"
        by (metis append_take_drop_id concat_append concat_code_points)
      with 3(2)[of m] False Suc show ?thesis
        by (cases "concat (take m (code_points (v # r)))") auto
    qed
  qed simp
qed simp

section \<open>A concrete library\<close>

text \<open>
  The ASCII part of the tables, with the code unit order as collation and a stand-in digest of
  64 hexadecimal digits. It instantiates the parameter in the concrete runs of the theorems.
\<close>

definition ascii_lib :: text_lib where
  "ascii_lib =
    \<lparr>localeCompare = binaryCompare,
     normalizeNFKC = (\<lambda>s. s),
     toLowerEnUS = map (\<lambda>u. if 0x41 \<le> u \<and> u \<le> 0x5A then u + 0x20 else u),
     isLetter = (\<lambda>c. case c of [u] \<Rightarrow> 0x61 \<le> u \<and> u \<le> 0x7A | _ \<Rightarrow> False),
     isNumber = (\<lambda>c. case c of [u] \<Rightarrow> 0x30 \<le> u \<and> u \<le> 0x39 | _ \<Rightarrow> False),
     isPunctuation = (\<lambda>c. c \<in> {[0x21], [0x2C], [0x2E], [0x3F]}),
     isSymbol = (\<lambda>c. c \<in> {[0x2B], [0x3D]}),
     sha256Hex = (\<lambda>s. take 64 (map (\<lambda>u. if u = 0x61 then 0x61 else 0x62) s @ replicate 64 0x30)),
     toLowerCase = map (\<lambda>u. if 0x41 \<le> u \<and> u \<le> 0x5A then u + 0x20 else u)\<rparr>"

lemma ascii_lib_collation: "comparator (localeCompare ascii_lib)"
  by (simp add: ascii_lib_def binary_cmp.comparator_axioms)

end
