(* ===== verification/Progress_Evaluator.thy ===== *)
theory Progress_Evaluator
  imports Discussion_Types Text_Library
begin

text \<open>
  The deterministic progress projection of a Wave
  (\<^verbatim>\<open>apps/server/src/discussion/progress-evaluator.ts\<close>): parsing an untrusted assessment,
  lexical similarity of replies, and \<open>evaluateWaveProgress\<close>, which folds the successful
  results of one Wave into the durable snapshot. The helper definitions below
  \<open>evaluateWaveProgress\<close> are the consecutive blocks of its body, in its order.
\<close>

section \<open>Parsing an assessment\<close>

definition string_item :: "json \<Rightarrow> jstring option" where
  "string_item v =
    (case v of
       JStr s \<Rightarrow> if length (trim s) > 0 \<and> \<not> exceedsUnicodeCodePointLimit s 240 then Some s else None
     | _ \<Rightarrow> None)"

definition stringList :: "json option \<Rightarrow> jstring list option" where
  "stringList value =
    (case value of
       Some (JArr items) \<Rightarrow>
         if length items > 100 then None
         else let result = List.map_filter string_item items
              in if length result = length items then Some result else None
     | _ \<Rightarrow> None)"

definition importance_of :: "jstring \<Rightarrow> importance option" where
  "importance_of s =
    (if s = lit ''low'' then Some Imp_low else if s = lit ''medium'' then Some Imp_medium
     else if s = lit ''high'' then Some Imp_high else None)"

definition disagreement_of :: "jstring \<Rightarrow> disagreement option" where
  "disagreement_of s =
    (if s = lit ''none'' then Some Dis_none else if s = lit ''low'' then Some Dis_low
     else if s = lit ''medium'' then Some Dis_medium else if s = lit ''high'' then Some Dis_high
     else None)"

definition recommendation_of :: "jstring \<Rightarrow> recommendation option" where
  "recommendation_of s =
    (if s = lit ''continue'' then Some Rec_continue else if s = lit ''finish'' then Some Rec_finish
     else if s = lit ''wait_human'' then Some Rec_wait_human else None)"

definition bool_prop :: "(jstring \<times> json) list \<Rightarrow> string \<Rightarrow> bool option" where
  "bool_prop raw k = (case js_prop raw k of Some (JBool b) \<Rightarrow> Some b | _ \<Rightarrow> None)"

definition string_prop :: "(jstring \<times> json) list \<Rightarrow> string \<Rightarrow> jstring option" where
  "string_prop raw k = (case js_prop raw k of Some (JStr s) \<Rightarrow> Some s | _ \<Rightarrow> None)"

definition confidence_prop :: "(jstring \<times> json) list \<Rightarrow> rat option" where
  "confidence_prop raw =
    (case js_prop raw ''confidence'' of
       Some (JNum (Finite c)) \<Rightarrow> if c \<ge> 0 \<and> c \<le> 1 then Some c else None
     | _ \<Rightarrow> None)"

definition question_item :: "json \<Rightarrow> OpenQuestion option" where
  "question_item item =
    (case item of
       JObj question \<Rightarrow>
         (case (string_prop question ''id'', string_prop question ''question'',
                string_prop question ''importance'') of
            (Some i, Some q, Some m) \<Rightarrow>
              if length (trim i) > 0 \<and> \<not> exceedsUnicodeCodePointLimit i 160 \<and>
                 length (trim q) > 0 \<and> \<not> exceedsUnicodeCodePointLimit q 2000
              then map_option (\<lambda>imp. \<lparr>oq_id = i, oq_question = q, oq_importance = imp\<rparr>)
                     (importance_of m)
              else None
          | _ \<Rightarrow> None)
     | _ \<Rightarrow> None)"

definition questions_prop :: "(jstring \<times> json) list \<Rightarrow> OpenQuestion list option" where
  "questions_prop raw =
    (case js_prop raw ''openQuestions'' of
       Some (JArr items) \<Rightarrow>
         if length items \<le> 50
         then let questions = List.map_filter question_item items
              in if length questions = length items then Some questions else None
         else None
     | _ \<Rightarrow> None)"

definition emptyAssessment :: AgentAssessment where
  "emptyAssessment =
    \<lparr>as_goalSatisfied = None, as_confidence = None, as_resolvedQuestionIds = None,
     as_openQuestions = None, as_newEvidenceRefs = None, as_disagreementRemaining = None,
     as_newInformationAdded = None, as_reviewerApproved = None, as_recommendation = None\<rparr>"

text \<open>\<open>None\<close> as the argument is the JavaScript value \<^verbatim>\<open>undefined\<close>.\<close>

definition parseAgentAssessment :: "json option \<Rightarrow> AgentAssessment option" where
  "parseAgentAssessment value =
    (case value of
       Some (JObj raw) \<Rightarrow>
         let parsed =
           \<lparr>as_goalSatisfied = bool_prop raw ''goalSatisfied'',
            as_confidence = confidence_prop raw,
            as_resolvedQuestionIds = stringList (js_prop raw ''resolvedQuestionIds''),
            as_openQuestions = questions_prop raw,
            as_newEvidenceRefs = stringList (js_prop raw ''newEvidenceRefs''),
            as_disagreementRemaining =
              Option.bind (string_prop raw ''disagreementRemaining'') disagreement_of,
            as_newInformationAdded = bool_prop raw ''newInformationAdded'',
            as_reviewerApproved = bool_prop raw ''reviewerApproved'',
            as_recommendation = Option.bind (string_prop raw ''recommendation'') recommendation_of\<rparr>
         in if parsed = emptyAssessment then None else Some parsed
     | _ \<Rightarrow> None)"

section \<open>Reply hashes and lexical similarity\<close>

text \<open>
  \<^verbatim>\<open>.replace(/[\p{P}\p{S}\s]+/gu, " ")\<close>: every maximal run of such code points becomes one space.
  \<open>inrun\<close> says that the previous code point was in a run.
\<close>

fun collapse_runs :: "(jstring \<Rightarrow> bool) \<Rightarrow> bool \<Rightarrow> jstring list \<Rightarrow> jstring" where
  "collapse_runs p inrun [] = []"
| "collapse_runs p inrun (c # cs) =
     (if p c then (if inrun then [] else [0x20]) @ collapse_runs p True cs
      else c @ collapse_runs p False cs)"

definition is_separator :: "text_lib \<Rightarrow> jstring \<Rightarrow> bool" where
  "is_separator L c \<longleftrightarrow> isPunctuation L c \<or> isSymbol L c \<or> (case c of [u] \<Rightarrow> is_space u | _ \<Rightarrow> False)"

definition hashDiscussionReply :: "text_lib \<Rightarrow> jstring \<Rightarrow> jstring" where
  "hashDiscussionReply L reply =
    sha256Hex L (trim (collapse_runs (is_separator L) False
      (code_points (toLowerEnUS L (normalizeNFKC L reply)))))"

definition normalizedLexicalCharacters :: "text_lib \<Rightarrow> jstring \<Rightarrow> jstring list" where
  "normalizedLexicalCharacters L reply =
    filter (\<lambda>c. isLetter L c \<or> isNumber L c)
      (code_points (toLowerEnUS L (normalizeNFKC L reply)))"

fun bigrams_loop :: "jstring list \<Rightarrow> jstring list" where
  "bigrams_loop (a # b # cs) = (a @ b) # bigrams_loop (b # cs)"
| "bigrams_loop _ = []"

definition characterBigrams :: "jstring list \<Rightarrow> jstring list" where
  "characterBigrams characters = js_set (bigrams_loop characters)"

text \<open>
  The quotients are compared with the double \<^verbatim>\<open>0.8\<close>; for lengths far below $2^{50}$ the
  comparison of the rounded quotient agrees with the exact one, which the model makes.
\<close>

definition minimumLexicalComparisonCodePoints :: nat where
  "minimumLexicalComparisonCodePoints = 20"

definition minimumLexicalLengthRatio :: rat where
  "minimumLexicalLengthRatio = 4 / 5"

definition lexicalNearDuplicateThreshold :: rat where
  "lexicalNearDuplicateThreshold = 4 / 5"

definition maximumPreviousRepliesCompared :: nat where
  "maximumPreviousRepliesCompared = 10"

definition discussionReplySimilarity :: "text_lib \<Rightarrow> jstring \<Rightarrow> jstring \<Rightarrow> rat" where
  "discussionReplySimilarity L left right =
    (let leftCharacters = normalizedLexicalCharacters L left;
         rightCharacters = normalizedLexicalCharacters L right;
         shortestLength = min (length leftCharacters) (length rightCharacters);
         longestLength = max (length leftCharacters) (length rightCharacters)
     in if shortestLength < minimumLexicalComparisonCodePoints \<or>
           of_nat shortestLength / of_nat longestLength < minimumLexicalLengthRatio
        then 0
        else let leftBigrams = characterBigrams leftCharacters;
                 rightBigrams = characterBigrams rightCharacters;
                 intersection = length (filter (\<lambda>b. b \<in> set rightBigrams) leftBigrams)
             in of_nat (2 * intersection) / of_nat (length leftBigrams + length rightBigrams))"

section \<open>Progress of a Wave\<close>

record SuccessfulWaveResult =
  sr_participantOrdinal :: int
  sr_reply :: jstring
  sr_assessment :: "json option"
  sr_speakerIsReviewer :: bool
  sr_verifiedEvidenceRefs :: "jstring list"

record WaveMemberProgressEvaluation =
  me_participantOrdinal :: int
  me_assessment :: "AgentAssessment option"
  me_replyHash :: jstring

record WaveProgressEvaluation =
  we_snapshot :: ProgressSnapshot
  we_members :: "WaveMemberProgressEvaluation list"
  we_resolvedImportantQuestions :: nat
  we_newEvidence :: int

fun importanceRank :: "importance \<Rightarrow> int" where
  "importanceRank Imp_low = 0"
| "importanceRank Imp_medium = 1"
| "importanceRank Imp_high = 2"

fun disagreementRank :: "disagreement \<Rightarrow> int" where
  "disagreementRank Dis_none = 0"
| "disagreementRank Dis_low = 1"
| "disagreementRank Dis_medium = 2"
| "disagreementRank Dis_high = 3"

definition mergeOpenQuestion ::
  "text_lib \<Rightarrow> OpenQuestion option \<Rightarrow> OpenQuestion \<Rightarrow> OpenQuestion" where
  "mergeOpenQuestion L current candidate =
    (case current of
       None \<Rightarrow> candidate
     | Some cur \<Rightarrow>
         if importanceRank (oq_importance candidate) > importanceRank (oq_importance cur)
         then candidate
         else if importanceRank (oq_importance candidate) < importanceRank (oq_importance cur)
         then cur
         else if localeCompare L (oq_question candidate) (oq_question cur) < 0
         then candidate else cur)"

fun check_ordinals :: "int list \<Rightarrow> SuccessfulWaveResult list \<Rightarrow> unit throwing" where
  "check_ordinals ordinals [] = Inr ()"
| "check_ordinals ordinals (result # rest) =
     (if \<not> is_safe_integer (sr_participantOrdinal result) \<or> sr_participantOrdinal result < 0
      then Inl (Error ''Wave participant ordinal must be a non-negative integer'')
      else if sr_participantOrdinal result \<in> set ordinals
      then Inl (ErrorNumber ''Duplicate Wave participant ordinal: '' (sr_participantOrdinal result))
      else check_ordinals (sr_participantOrdinal result # ordinals) rest)"

definition sortSuccessfulResults ::
  "SuccessfulWaveResult list \<Rightarrow> SuccessfulWaveResult list throwing" where
  "sortSuccessfulResults results =
    (let sorted = sort_by (\<lambda>l r. sr_participantOrdinal l - sr_participantOrdinal r) results
     in bind (check_ordinals [] sorted) (\<lambda>_. Inr sorted))"

definition wave_member ::
  "text_lib \<Rightarrow> SuccessfulWaveResult \<Rightarrow> WaveMemberProgressEvaluation" where
  "wave_member L result =
    \<lparr>me_participantOrdinal = sr_participantOrdinal result,
     me_assessment = parseAgentAssessment (sr_assessment result),
     me_replyHash = hashDiscussionReply L (sr_reply result)\<rparr>"

text \<open>\<^verbatim>\<open>member.assessment?.field ?? []\<close>\<close>

definition assessed ::
  "(AgentAssessment \<Rightarrow> 'a list option) \<Rightarrow> WaveMemberProgressEvaluation \<Rightarrow> 'a list" where
  "assessed field member =
    (case Option.bind (me_assessment member) field of None \<Rightarrow> [] | Some xs \<Rightarrow> xs)"

definition reported ::
  "(AgentAssessment \<Rightarrow> 'a option) \<Rightarrow> WaveMemberProgressEvaluation list \<Rightarrow> 'a list" where
  "reported field members = List.map_filter (\<lambda>m. Option.bind (me_assessment m) field) members"

definition wave_resolvedIds :: "WaveMemberProgressEvaluation list \<Rightarrow> jstring list" where
  "wave_resolvedIds members = js_set (concat (map (assessed as_resolvedQuestionIds) members))"

definition add_question ::
  "text_lib \<Rightarrow> OpenQuestion \<Rightarrow> (jstring \<times> OpenQuestion) list \<Rightarrow> (jstring \<times> OpenQuestion) list" where
  "add_question L question openById =
    AList.update (oq_id question)
      (mergeOpenQuestion L (map_of openById (oq_id question)) question) openById"

definition wave_openById ::
  "text_lib \<Rightarrow> ProgressSnapshot \<Rightarrow> WaveMemberProgressEvaluation list \<Rightarrow>
     (jstring \<times> OpenQuestion) list" where
  "wave_openById L previous members =
    fold (add_question L) (concat (map (assessed as_openQuestions) members))
      (fold (\<lambda>q. AList.update (oq_id q) q)
        (filter (\<lambda>q. oq_id q \<notin> set (wave_resolvedIds members)) (pg_openQuestions previous)) [])"

definition wave_openQuestions ::
  "text_lib \<Rightarrow> ProgressSnapshot \<Rightarrow> WaveMemberProgressEvaluation list \<Rightarrow> OpenQuestion list" where
  "wave_openQuestions L previous members =
    sort_by (\<lambda>l r. localeCompare L (oq_id l) (oq_id r)) (map snd (wave_openById L previous members))"

definition wave_resolvedQuestions ::
  "text_lib \<Rightarrow> ProgressSnapshot \<Rightarrow> WaveMemberProgressEvaluation list \<Rightarrow> OpenQuestion list" where
  "wave_resolvedQuestions L previous members =
    filter (\<lambda>q. oq_id q \<in> set (wave_resolvedIds members) \<and>
                map_of (wave_openById L previous members) (oq_id q) = None)
      (pg_openQuestions previous)"

definition wave_evidenceRefs ::
  "text_lib \<Rightarrow> ProgressSnapshot \<Rightarrow> WaveMemberProgressEvaluation list \<Rightarrow> jstring list" where
  "wave_evidenceRefs L previous members =
    sort_by (localeCompare L)
      (js_set (pg_evidenceRefs previous @ concat (map (assessed as_newEvidenceRefs) members)))"

definition wave_verifiedEvidence ::
  "ProgressSnapshot \<Rightarrow> (SuccessfulWaveResult \<times> WaveMemberProgressEvaluation) list \<Rightarrow>
     jstring list" where
  "wave_verifiedEvidence previous entries =
    js_set (pg_verifiedEvidenceRefs previous @
      concat (map (\<lambda>(result, member).
        filter (\<lambda>ref. ref \<in> set (assessed as_newEvidenceRefs member))
          (sr_verifiedEvidenceRefs result)) entries))"

definition wave_disagreement ::
  "ProgressSnapshot \<Rightarrow> WaveMemberProgressEvaluation list \<Rightarrow> disagreement option" where
  "wave_disagreement previous members =
    (case reported as_disagreementRemaining members of
       [] \<Rightarrow> pg_disagreementRemaining previous
     | d # ds \<Rightarrow> Some (foldl (\<lambda>highest current.
         if disagreementRank current > disagreementRank highest then current else highest) d ds))"

definition wave_confidence ::
  "ProgressSnapshot \<Rightarrow> WaveMemberProgressEvaluation list \<Rightarrow> rat option" where
  "wave_confidence previous members =
    (case reported as_confidence members of
       [] \<Rightarrow> pg_confidence previous
     | c # cs \<Rightarrow> Some (foldl min c cs))"

definition wave_reviewerOpinions ::
  "(SuccessfulWaveResult \<times> WaveMemberProgressEvaluation) list \<Rightarrow> bool list" where
  "wave_reviewerOpinions entries =
    List.map_filter (\<lambda>(result, member).
      if sr_speakerIsReviewer result
      then Option.bind (me_assessment member) as_reviewerApproved else None) entries"

definition completion_assessments :: "WaveMemberProgressEvaluation list \<Rightarrow> AgentAssessment list" where
  "completion_assessments members =
    filter (\<lambda>a. as_goalSatisfied a \<noteq> None \<or> as_confidence a \<noteq> None)
      (List.map_filter me_assessment members)"

definition wave_goalSatisfied ::
  "DiscussionPolicy \<Rightarrow> OpenQuestion list \<Rightarrow> WaveMemberProgressEvaluation list \<Rightarrow> bool" where
  "wave_goalSatisfied policy openQuestions members \<longleftrightarrow>
    length members > 0 \<and> length (completion_assessments members) > 0 \<and>
    (\<forall>a\<in>set (completion_assessments members).
       as_goalSatisfied a = Some True \<and>
       (case as_confidence a of None \<Rightarrow> False | Some c \<Rightarrow> c \<ge> minimumCompletionConfidence policy)) \<and>
    \<not> (\<exists>q\<in>set openQuestions. oq_importance q = Imp_high)"

record novelty_state =
  nv_knownReplyHashes :: "jstring list"
  nv_replyHashes :: "jstring list"
  nv_comparisonReplies :: "jstring list"
  nv_addedNovelReply :: bool

definition novelty_step ::
  "text_lib \<Rightarrow> SuccessfulWaveResult \<times> WaveMemberProgressEvaluation \<Rightarrow> novelty_state \<Rightarrow>
     novelty_state throwing" where
  "novelty_step L entry st =
    (let (result, member) = entry;
         isExactNovel = (me_replyHash member \<notin> set (nv_knownReplyHashes st));
         isLexicalNearDuplicate =
           (\<exists>previousReply\<in>set (nv_comparisonReplies st).
              discussionReplySimilarity L (sr_reply result) previousReply
                \<ge> lexicalNearDuplicateThreshold);
         isNovel = (isExactNovel \<and> \<not> isLexicalNearDuplicate);
         counts = (isNovel \<and>
           Option.bind (me_assessment member) as_newInformationAdded \<noteq> Some False)
     in if sr_participantOrdinal result \<noteq> me_participantOrdinal member
        then Inl (Error ''Wave progress member ordering invariant failed'')
        else Inr \<lparr>nv_knownReplyHashes =
                    (if isExactNovel then nv_knownReplyHashes st @ [me_replyHash member]
                     else nv_knownReplyHashes st),
                  nv_replyHashes =
                    (if isExactNovel then nv_replyHashes st @ [me_replyHash member]
                     else nv_replyHashes st),
                  nv_comparisonReplies = nv_comparisonReplies st @ [sr_reply result],
                  nv_addedNovelReply = (counts \<or> nv_addedNovelReply st)\<rparr>)"

fun novelty_loop ::
  "text_lib \<Rightarrow> (SuccessfulWaveResult \<times> WaveMemberProgressEvaluation) list \<Rightarrow> novelty_state \<Rightarrow>
     novelty_state throwing" where
  "novelty_loop L [] st = Inr st"
| "novelty_loop L (entry # entries) st =
     bind (novelty_step L entry st) (novelty_loop L entries)"

definition novelty_start :: "ProgressSnapshot \<Rightarrow> jstring list \<Rightarrow> novelty_state" where
  "novelty_start previous previousReplies =
    \<lparr>nv_knownReplyHashes = js_set (pg_replyHashes previous),
     nv_replyHashes = pg_replyHashes previous,
     nv_comparisonReplies = last_n maximumPreviousRepliesCompared previousReplies,
     nv_addedNovelReply = False\<rparr>"

definition questions_changed :: "OpenQuestion list \<Rightarrow> OpenQuestion list \<Rightarrow> bool" where
  "questions_changed openQuestions previous \<longleftrightarrow>
    length openQuestions \<noteq> length previous \<or>
    (\<exists>(question, earlier)\<in>set (zip openQuestions previous).
       oq_id earlier \<noteq> oq_id question \<or> oq_question earlier \<noteq> oq_question question \<or>
       oq_importance earlier \<noteq> oq_importance question)"

definition wave_reviewerApproved :: "bool list \<Rightarrow> bool \<Rightarrow> bool \<Rightarrow> bool" where
  "wave_reviewerApproved opinions reviewProjectionChanged previous =
    (if length opinions > 0 then \<forall>approved\<in>set opinions. approved
     else if reviewProjectionChanged then False else previous)"

definition evaluateWaveProgress ::
  "text_lib \<Rightarrow> ProgressSnapshot \<Rightarrow> SuccessfulWaveResult list \<Rightarrow> DiscussionPolicy \<Rightarrow>
     jstring list \<Rightarrow> WaveProgressEvaluation throwing" where
  "evaluateWaveProgress L previous successfulResults policy previousReplies =
    bind (sortSuccessfulResults successfulResults) (\<lambda>sortedResults.
    let members = map (wave_member L) sortedResults;
        entries = zip sortedResults members;
        openQuestions = wave_openQuestions L previous members;
        resolvedQuestions = wave_resolvedQuestions L previous members;
        evidenceRefs = wave_evidenceRefs L previous members;
        verifiedEvidence = wave_verifiedEvidence previous entries;
        verifiedEvidenceRefs = sort_by (localeCompare L) verifiedEvidence;
        disagreementRemaining = wave_disagreement previous members;
        confidence = wave_confidence previous members;
        opinions = wave_reviewerOpinions entries;
        goalSatisfied = wave_goalSatisfied policy openQuestions members
    in bind (novelty_loop L entries (novelty_start previous previousReplies)) (\<lambda>novelty.
    let newEvidence = int (length verifiedEvidence) -
          int (length (js_set (pg_verifiedEvidenceRefs previous)));
        disagreementChanged = (disagreementRemaining \<noteq> pg_disagreementRemaining previous);
        madeProgress = (nv_addedNovelReply novelty \<or> length resolvedQuestions > 0 \<or>
          newEvidence > 0 \<or> disagreementChanged);
        openQuestionsChanged = questions_changed openQuestions (pg_openQuestions previous);
        reviewProjectionChanged = (madeProgress \<or> openQuestionsChanged \<or>
          goalSatisfied \<noteq> pg_goalSatisfied previous \<or> confidence \<noteq> pg_confidence previous);
        reviewerApproved =
          wave_reviewerApproved opinions reviewProjectionChanged (pg_reviewerApproved previous)
    in Inr \<lparr>we_snapshot =
         \<lparr>pg_version = pg_version previous + 1,
          pg_goalSatisfied = goalSatisfied,
          pg_confidence = confidence,
          pg_openQuestions = openQuestions,
          pg_evidenceRefs = evidenceRefs,
          pg_verifiedEvidenceRefs = verifiedEvidenceRefs,
          pg_disagreementRemaining = disagreementRemaining,
          pg_reviewerApproved = reviewerApproved,
          pg_plateauCount = (if madeProgress then 0 else pg_plateauCount previous + 1),
          pg_replyHashes = last_n 50 (nv_replyHashes novelty),
          pg_lastTurnAddedInformation = madeProgress\<rparr>,
        we_members = members,
        we_resolvedImportantQuestions =
          length (filter (\<lambda>q. oq_importance q \<noteq> Imp_low) resolvedQuestions),
        we_newEvidence = newEvidence\<rparr>))"

record ProgressEvaluation =
  pe_snapshot :: ProgressSnapshot
  pe_assessment :: "AgentAssessment option"
  pe_replyHash :: jstring
  pe_resolvedImportantQuestions :: nat
  pe_newEvidence :: int

definition evaluateProgress ::
  "text_lib \<Rightarrow> ProgressSnapshot \<Rightarrow> jstring \<Rightarrow> json option \<Rightarrow> DiscussionPolicy \<Rightarrow> bool \<Rightarrow>
     ProgressEvaluation throwing" where
  "evaluateProgress L previous reply assessment policy speakerIsReviewer =
    bind (evaluateWaveProgress L previous
      [\<lparr>sr_participantOrdinal = 0, sr_reply = reply, sr_assessment = assessment,
        sr_speakerIsReviewer = speakerIsReviewer, sr_verifiedEvidenceRefs = []\<rparr>] policy []) (\<lambda>wave.
    case we_members wave of
      [] \<Rightarrow> Inl (Error ''Single-member progress evaluation produced no member result'')
    | member # _ \<Rightarrow>
        Inr \<lparr>pe_snapshot = we_snapshot wave, pe_assessment = me_assessment member,
             pe_replyHash = me_replyHash member,
             pe_resolvedImportantQuestions = we_resolvedImportantQuestions wave,
             pe_newEvidence = we_newEvidence wave\<rparr>)"

section \<open>Lemmas: ordinals and ordering\<close>

lemma check_ordinals_Inr:
  "check_ordinals seen rs = Inr () \<longleftrightarrow>
    (\<forall>r\<in>set rs. is_safe_integer (sr_participantOrdinal r) \<and> 0 \<le> sr_participantOrdinal r) \<and>
    distinct (map sr_participantOrdinal rs) \<and>
    set (map sr_participantOrdinal rs) \<inter> set seen = {}"
  by (induction seen rs rule: check_ordinals.induct) (auto simp: not_less)

lemma check_ordinals_cong:
  "map sr_participantOrdinal xs = map sr_participantOrdinal ys \<Longrightarrow>
    check_ordinals seen xs = check_ordinals seen ys"
proof (induction xs arbitrary: ys seen)
  case (Cons x xs)
  then show ?case by (cases ys) auto
qed simp

lemma map_ordinal_sort:
  fixes k :: "'a \<Rightarrow> int"
  shows "map k (sort_by (\<lambda>x y. k x - k y) xs) = sort (map k xs)"
proof (rule properties_for_sort[symmetric])
  show "mset (map k (sort_by (\<lambda>x y. k x - k y) xs)) = mset (map k xs)" by simp
  show "sorted (map k (sort_by (\<lambda>x y. k x - k y) xs))"
    using key_cmp.sorted_sort_by[of k xs] by (simp add: sorted_wrt_map)
qed

definition ordinals_ok :: "SuccessfulWaveResult list \<Rightarrow> bool" where
  "ordinals_ok rs \<longleftrightarrow>
    (\<forall>r\<in>set rs. is_safe_integer (sr_participantOrdinal r) \<and> 0 \<le> sr_participantOrdinal r) \<and>
    distinct (map sr_participantOrdinal rs)"

abbreviation sorted_results :: "SuccessfulWaveResult list \<Rightarrow> SuccessfulWaveResult list" where
  "sorted_results \<equiv> sort_by (\<lambda>l r. sr_participantOrdinal l - sr_participantOrdinal r)"

lemma distinct_map_sorted_results [simp]:
  "distinct (map sr_participantOrdinal (sorted_results rs)) = distinct (map sr_participantOrdinal rs)"
  by (metis map_ordinal_sort distinct_sort)

lemma sortSuccessfulResults_Inr:
  "sortSuccessfulResults rs = Inr xs \<longleftrightarrow> ordinals_ok rs \<and> xs = sorted_results rs"
  by (auto simp: sortSuccessfulResults_def Let_def bind_eq_Inr check_ordinals_Inr ordinals_ok_def)

lemma sortSuccessfulResults_perm:
  assumes "mset rs = mset rs'"
  shows "sortSuccessfulResults rs = sortSuccessfulResults rs'"
proof (cases "ordinals_ok rs")
  case True
  then have "sorted_results rs = sorted_results rs'"
    using sort_by_key_perm[OF assms] by (simp add: ordinals_ok_def)
  then show ?thesis by (simp add: sortSuccessfulResults_def)
next
  case False
  have "mset (map sr_participantOrdinal rs) = mset (map sr_participantOrdinal rs')"
    using assms by (metis mset_map)
  then have "sort (map sr_participantOrdinal rs) = sort (map sr_participantOrdinal rs')"
    by (metis sorted_list_of_multiset_mset)
  then have "check_ordinals [] (sorted_results rs) = check_ordinals [] (sorted_results rs')"
    by (intro check_ordinals_cong) (simp only: map_ordinal_sort)
  moreover from False have "check_ordinals [] (sorted_results rs) \<noteq> Inr ()"
    by (auto simp: check_ordinals_Inr ordinals_ok_def)
  ultimately show ?thesis
    by (cases "check_ordinals [] (sorted_results rs')")
      (auto simp: sortSuccessfulResults_def Let_def)
qed

section \<open>Lemmas: the novelty loop\<close>

lemma novelty_step_Inr:
  "\<exists>st'. novelty_step L (r, wave_member L r) st = Inr st'"
  by (simp add: novelty_step_def wave_member_def Let_def)

lemma novelty_loop_total:
  "\<exists>st'. novelty_loop L (zip rs (map (wave_member L) rs)) st = Inr st'"
proof (induction rs arbitrary: st)
  case (Cons r rs)
  obtain st1 where "novelty_step L (r, wave_member L r) st = Inr st1"
    using novelty_step_Inr by blast
  with Cons.IH[of st1] show ?case by simp
qed simp

lemma novelty_step_known:
  assumes "novelty_step L e st = Inr st'" and "set (nv_replyHashes st) \<subseteq> set (nv_knownReplyHashes st)"
  shows "set (nv_replyHashes st') \<subseteq> set (nv_knownReplyHashes st')"
    and "distinct (nv_replyHashes st) \<Longrightarrow> distinct (nv_replyHashes st')"
  using assms by (auto simp: novelty_step_def Let_def split: prod.splits if_splits)

lemma novelty_loop_known:
  assumes "novelty_loop L es st = Inr st'" and "set (nv_replyHashes st) \<subseteq> set (nv_knownReplyHashes st)"
    and "distinct (nv_replyHashes st)"
  shows "distinct (nv_replyHashes st')"
  using assms
proof (induction L es st arbitrary: st' rule: novelty_loop.induct)
  case (2 L e es st)
  then obtain st1 where "novelty_step L e st = Inr st1" "novelty_loop L es st1 = Inr st'"
    by (auto simp: bind_eq_Inr)
  with 2 novelty_step_known show ?case by blast
qed simp

lemma distinct_last_n: "distinct xs \<Longrightarrow> distinct (last_n n xs)"
  by (simp add: last_n_def)

section \<open>Lemmas: open questions\<close>

lemma keys_update [simp]: "set (map fst (AList.update k v m)) = insert k (set (map fst m))"
  by (induction m) auto

lemma fold_update_keys:
  "set (map fst (fold (\<lambda>q. AList.update (f q) (g q)) qs m)) = f ` set qs \<union> set (map fst m)"
  by (induction qs arbitrary: m) (auto simp del: set_map)

text \<open>The map always files a question under its own id, and each id once.\<close>

definition filed :: "(jstring \<times> OpenQuestion) list \<Rightarrow> bool" where
  "filed m \<longleftrightarrow> distinct (map fst m) \<and> (\<forall>(k, q)\<in>set m. oq_id q = k)"

lemma filed_update: "filed m \<Longrightarrow> oq_id q = k \<Longrightarrow> filed (AList.update k q m)"
proof (induction m)
  case (Cons e m)
  then show ?case
    by (cases e) (auto simp: filed_def simp del: set_map dest!: keys_update[THEN equalityD1, THEN subsetD])
qed (simp add: filed_def)

lemma filed_map_of: "filed m \<Longrightarrow> map_of m k = Some q \<Longrightarrow> oq_id q = k"
  by (auto simp: filed_def dest: map_of_SomeD)

lemma mergeOpenQuestion_id:
  "oq_id q = k \<Longrightarrow> (\<And>c. cur = Some c \<Longrightarrow> oq_id c = k) \<Longrightarrow> oq_id (mergeOpenQuestion L cur q) = k"
  by (cases cur) (auto simp: mergeOpenQuestion_def)

lemma filed_add_question: "filed m \<Longrightarrow> filed (add_question L q m)"
  unfolding add_question_def
  by (rule filed_update) (auto intro: mergeOpenQuestion_id dest: filed_map_of)

lemma filed_fold_add: "filed m \<Longrightarrow> filed (fold (add_question L) qs m)"
  by (induction qs arbitrary: m) (auto intro: filed_add_question)

lemma filed_fold_update: "filed m \<Longrightarrow> filed (fold (\<lambda>q. AList.update (oq_id q) q) qs m)"
  by (induction qs arbitrary: m) (auto intro: filed_update)

lemma filed_openById: "filed (wave_openById L p ms)"
  unfolding wave_openById_def
  by (intro filed_fold_add filed_fold_update) (simp add: filed_def)

lemma filed_ids: "filed m \<Longrightarrow> map oq_id (map snd m) = map fst m"
  by (auto simp: filed_def)

lemma add_question_keys: "set (map fst (add_question L q m)) = insert (oq_id q) (set (map fst m))"
  unfolding add_question_def by (rule keys_update)

lemma fold_add_keys:
  "set (map fst (fold (add_question L) qs m)) = oq_id ` set qs \<union> set (map fst m)"
  by (induction qs arbitrary: m) (auto simp: add_question_keys simp del: set_map)

lemma openById_keys:
  "set (map fst (wave_openById L p ms)) =
    (oq_id ` set (pg_openQuestions p) - set (wave_resolvedIds ms)) \<union>
    oq_id ` set (concat (map (assessed as_openQuestions) ms))"
  unfolding wave_openById_def fold_add_keys fold_update_keys by auto

lemma openQuestions_ids:
  "oq_id ` set (wave_openQuestions L p ms) = set (map fst (wave_openById L p ms))"
  using filed_ids[OF filed_openById, of L p ms]
  by (metis (no_types, lifting) list.set_map set_sort_by wave_openQuestions_def)

lemma distinct_openQuestions: "distinct (map oq_id (wave_openQuestions L p ms))"
proof -
  have "mset (map oq_id (wave_openQuestions L p ms)) = mset (map fst (wave_openById L p ms))"
    unfolding wave_openQuestions_def
    by (simp only: mset_map mset_sort_by flip: filed_ids[OF filed_openById])
  then show ?thesis
    using filed_openById[of L p ms] by (metis filed_def mset_eq_imp_distinct_iff)
qed

text \<open>
  Merging never lowers the importance filed under an id.
\<close>

definition rank_at :: "(jstring \<times> OpenQuestion) list \<Rightarrow> jstring \<Rightarrow> int" where
  "rank_at m k = (case map_of m k of None \<Rightarrow> -1 | Some q \<Rightarrow> importanceRank (oq_importance q))"

lemma importanceRank_nonneg [simp]: "0 \<le> importanceRank i" "-1 < importanceRank i"
  by (cases i; simp)+

lemma rank_merge:
  "importanceRank (oq_importance (mergeOpenQuestion L cur q)) =
    max (importanceRank (oq_importance q))
      (case cur of None \<Rightarrow> -1 | Some c \<Rightarrow> importanceRank (oq_importance c))"
  by (cases cur) (auto simp: mergeOpenQuestion_def)

lemma rank_at_add:
  "rank_at (add_question L q m) k =
    (if k = oq_id q then max (importanceRank (oq_importance q)) (rank_at m k) else rank_at m k)"
  by (simp add: add_question_def rank_at_def update_conv rank_merge)

lemma rank_at_fold_add:
  "rank_at m k \<le> rank_at (fold (add_question L) qs m) k \<and>
   (\<forall>q\<in>set qs. oq_id q = k \<longrightarrow>
      importanceRank (oq_importance q) \<le> rank_at (fold (add_question L) qs m) k)"
proof (induction qs arbitrary: m)
  case (Cons q qs)
  show ?case using Cons.IH[of "add_question L q m"] by (auto simp: rank_at_add split: if_splits)
qed simp

lemma fold_update_map_of:
  "distinct (map oq_id qs) \<Longrightarrow> q \<in> set qs \<Longrightarrow>
    map_of (fold (\<lambda>q. AList.update (oq_id q) q) qs m) (oq_id q) = Some q"
proof (induction qs arbitrary: m)
  case (Cons a qs)
  have keep: "k \<notin> oq_id ` set xs \<Longrightarrow>
    map_of (fold (\<lambda>q. AList.update (oq_id q) q) xs m') k = map_of m' k" for k xs m'
    by (induction xs arbitrary: m') (auto simp: update_conv)
  from Cons show ?case by (cases "q = a") (auto simp: keep update_conv)
qed simp

lemma openById_rank:
  assumes "distinct (map oq_id (pg_openQuestions p))" and "q \<in> set (pg_openQuestions p)"
    and "oq_id q \<notin> set (wave_resolvedIds ms)"
  shows "importanceRank (oq_importance q) \<le> rank_at (wave_openById L p ms) (oq_id q)"
proof -
  let ?qs = "filter (\<lambda>q. oq_id q \<notin> set (wave_resolvedIds ms)) (pg_openQuestions p)"
  let ?m = "fold (\<lambda>q. AList.update (oq_id q) q) ?qs []"
  have "map_of ?m (oq_id q) = Some q"
    using assms by (intro fold_update_map_of) (auto simp: distinct_map_filter)
  then have "rank_at ?m (oq_id q) = importanceRank (oq_importance q)" by (simp add: rank_at_def)
  with rank_at_fold_add[of ?m "oq_id q" L] show ?thesis
    unfolding wave_openById_def by (metis (no_types, lifting))
qed

lemma openQuestions_rank:
  assumes "q' \<in> set (wave_openQuestions L p ms)"
  shows "importanceRank (oq_importance q') = rank_at (wave_openById L p ms) (oq_id q')"
proof -
  from assms obtain k where k: "(k, q') \<in> set (wave_openById L p ms)"
    by (auto simp: wave_openQuestions_def)
  with filed_openById[of L p ms] have "oq_id q' = k" "map_of (wave_openById L p ms) k = Some q'"
    by (auto simp: filed_def)
  then show ?thesis by (simp add: rank_at_def)
qed

section \<open>Lemmas: the evaluation as a whole\<close>

lemma evaluateWaveProgress_Inr_iff:
  "(\<exists>w. evaluateWaveProgress L p rs pol prs = Inr w) \<longleftrightarrow> ordinals_ok rs"
proof
  assume "\<exists>w. evaluateWaveProgress L p rs pol prs = Inr w"
  then show "ordinals_ok rs"
    by (auto simp: evaluateWaveProgress_def bind_eq_Inr sortSuccessfulResults_Inr)
next
  assume "ordinals_ok rs"
  then have "sortSuccessfulResults rs = Inr (sorted_results rs)"
    by (simp add: sortSuccessfulResults_Inr)
  moreover obtain nv where "novelty_loop L (zip (sorted_results rs)
      (map (wave_member L) (sorted_results rs))) (novelty_start p prs) = Inr nv"
    using novelty_loop_total by blast
  ultimately show "\<exists>w. evaluateWaveProgress L p rs pol prs = Inr w"
    by (simp add: evaluateWaveProgress_def Let_def)
qed

text \<open>The members of an evaluation and each field of its snapshot.\<close>

abbreviation wave_members :: "text_lib \<Rightarrow> SuccessfulWaveResult list \<Rightarrow> WaveMemberProgressEvaluation list" where
  "wave_members L rs \<equiv> map (wave_member L) (sorted_results rs)"

lemma evaluateWaveProgress_fields:
  assumes "evaluateWaveProgress L p rs pol prs = Inr w"
  shows "we_members w = wave_members L rs"
    and "pg_version (we_snapshot w) = pg_version p + 1"
    and "pg_openQuestions (we_snapshot w) = wave_openQuestions L p (wave_members L rs)"
    and "pg_evidenceRefs (we_snapshot w) = wave_evidenceRefs L p (wave_members L rs)"
    and "pg_verifiedEvidenceRefs (we_snapshot w) = sort_by (localeCompare L)
      (wave_verifiedEvidence p (zip (sorted_results rs) (wave_members L rs)))"
    and "pg_confidence (we_snapshot w) = wave_confidence p (wave_members L rs)"
    and "pg_goalSatisfied (we_snapshot w) =
      wave_goalSatisfied pol (pg_openQuestions (we_snapshot w)) (wave_members L rs)"
    and "pg_plateauCount (we_snapshot w) =
      (if pg_lastTurnAddedInformation (we_snapshot w) then 0 else pg_plateauCount p + 1)"
    and "\<exists>nv. novelty_loop L (zip (sorted_results rs) (wave_members L rs)) (novelty_start p prs) = Inr nv \<and>
      pg_replyHashes (we_snapshot w) = last_n 50 (nv_replyHashes nv) \<and>
      pg_lastTurnAddedInformation (we_snapshot w) =
        (nv_addedNovelReply nv \<or> wave_resolvedQuestions L p (wave_members L rs) \<noteq> [] \<or>
         we_newEvidence w > 0 \<or>
         pg_disagreementRemaining (we_snapshot w) \<noteq> pg_disagreementRemaining p)"
  using assms
  by (auto simp: evaluateWaveProgress_def bind_eq_Inr sortSuccessfulResults_Inr Let_def)

lemma evaluateWaveProgress_reviewer:
  assumes "evaluateWaveProgress L p rs pol prs = Inr w"
  shows "pg_reviewerApproved (we_snapshot w) =
    wave_reviewerApproved (wave_reviewerOpinions (zip (sorted_results rs) (wave_members L rs)))
      (pg_lastTurnAddedInformation (we_snapshot w) \<or>
       questions_changed (pg_openQuestions (we_snapshot w)) (pg_openQuestions p) \<or>
       pg_goalSatisfied (we_snapshot w) \<noteq> pg_goalSatisfied p \<or>
       pg_confidence (we_snapshot w) \<noteq> pg_confidence p) (pg_reviewerApproved p)"
  using assms
  by (clarsimp simp: evaluateWaveProgress_def bind_eq_Inr sortSuccessfulResults_Inr Let_def)

lemma questions_changed_iff: "questions_changed xs ys \<longleftrightarrow> xs \<noteq> ys"
proof -
  have "length xs = length ys \<Longrightarrow>
    (\<forall>(q, b)\<in>set (zip xs ys). oq_id b = oq_id q \<and> oq_question b = oq_question q \<and>
       oq_importance b = oq_importance q) \<longleftrightarrow> xs = ys"
    by (induction xs ys rule: list_induct2) (auto intro: OpenQuestion.equality)
  then show ?thesis unfolding questions_changed_def by (cases "length xs = length ys") auto
qed

section \<open>Invariant of the snapshot\<close>

definition progress_inv :: "ProgressSnapshot \<Rightarrow> bool" where
  "progress_inv p \<longleftrightarrow>
     distinct (map oq_id (pg_openQuestions p)) \<and>
     distinct (pg_evidenceRefs p) \<and> distinct (pg_verifiedEvidenceRefs p) \<and>
     set (pg_verifiedEvidenceRefs p) \<subseteq> set (pg_evidenceRefs p) \<and>
     distinct (pg_replyHashes p) \<and> length (pg_replyHashes p) \<le> 50 \<and>
     0 \<le> pg_plateauCount p \<and>
     (\<forall>c. pg_confidence p = Some c \<longrightarrow> 0 \<le> c \<and> c \<le> 1) \<and>
     (pg_goalSatisfied p \<longrightarrow> (\<forall>q\<in>set (pg_openQuestions p). oq_importance q \<noteq> Imp_high))"

lemma progress_inv_empty: "progress_inv emptyProgressSnapshot"
  by (simp add: progress_inv_def emptyProgressSnapshot_def)

lemma parse_confidence:
  "parseAgentAssessment v = Some a \<Longrightarrow> as_confidence a = Some c \<Longrightarrow> 0 \<le> c \<and> c \<le> 1"
  by (auto simp: parseAgentAssessment_def confidence_prop_def Let_def
      split: option.splits json.splits js_number.splits if_splits)

lemma foldl_min_in: "foldl min c cs \<in> insert c (set (cs :: rat list))"
proof (induction cs arbitrary: c)
  case (Cons a cs)
  from Cons[of "min c a"] show ?case by (auto simp: min_def split: if_splits)
qed simp

lemma wave_confidence_range:
  assumes "\<forall>c. pg_confidence p = Some c \<longrightarrow> 0 \<le> c \<and> c \<le> 1"
    and "wave_confidence p (map (wave_member L) rs) = Some c"
  shows "0 \<le> c \<and> c \<le> 1"
proof (cases "reported as_confidence (map (wave_member L) rs)")
  case Nil
  with assms show ?thesis by (simp add: wave_confidence_def)
next
  case (Cons c0 cs)
  with assms(2) have "c \<in> set (reported as_confidence (map (wave_member L) rs))"
    using foldl_min_in[of c0 cs] by (auto simp: wave_confidence_def)
  then show ?thesis
    by (auto simp: reported_def map_filter_def wave_member_def bind_eq_Some_conv dest: parse_confidence)
qed

lemma verified_subset:
  assumes "length rs = length ms"
  shows "set (wave_verifiedEvidence p (zip rs ms)) \<subseteq>
    set (pg_verifiedEvidenceRefs p) \<union> set (concat (map (assessed as_newEvidenceRefs) ms))"
  by (auto simp: wave_verifiedEvidence_def dest: set_zip_rightD)

lemma evaluateWaveProgress_inv:
  assumes "progress_inv p" and "evaluateWaveProgress L p rs pol prs = Inr w"
  shows "progress_inv (we_snapshot w)"
proof -
  note f = evaluateWaveProgress_fields[OF assms(2)]
  from f(9) obtain nv where nv: "novelty_loop L (zip (sorted_results rs) (wave_members L rs))
      (novelty_start p prs) = Inr nv" "pg_replyHashes (we_snapshot w) = last_n 50 (nv_replyHashes nv)"
    by blast
  have "distinct (nv_replyHashes nv)"
    using novelty_loop_known[OF nv(1)] assms(1) by (simp add: novelty_start_def progress_inv_def)
  then have hashes: "distinct (pg_replyHashes (we_snapshot w))"
    "length (pg_replyHashes (we_snapshot w)) \<le> 50"
    by (simp_all add: nv(2) distinct_last_n)
  have ver: "set (pg_verifiedEvidenceRefs (we_snapshot w)) \<subseteq> set (pg_evidenceRefs (we_snapshot w))"
    using verified_subset[of "sorted_results rs" "wave_members L rs" p] assms(1)
    unfolding f(4,5) wave_evidenceRefs_def progress_inv_def by auto
  have verd: "distinct (pg_verifiedEvidenceRefs (we_snapshot w))"
    "distinct (pg_evidenceRefs (we_snapshot w))"
    unfolding f(4,5) wave_evidenceRefs_def wave_verifiedEvidence_def by simp_all
  have conf: "\<forall>c. pg_confidence (we_snapshot w) = Some c \<longrightarrow> 0 \<le> c \<and> c \<le> 1"
    using wave_confidence_range[of p L "sorted_results rs"] assms(1)
    unfolding f(6) progress_inv_def by blast
  have plateau: "0 \<le> pg_plateauCount (we_snapshot w)"
    using assms(1) unfolding f(8) progress_inv_def by simp
  have goal: "pg_goalSatisfied (we_snapshot w) \<longrightarrow>
      (\<forall>q\<in>set (pg_openQuestions (we_snapshot w)). oq_importance q \<noteq> Imp_high)"
    unfolding f(7) wave_goalSatisfied_def by auto
  show ?thesis unfolding progress_inv_def
    using hashes ver verd conf plateau goal distinct_openQuestions f(3) by metis
qed

section \<open>Persisting an assessment\<close>

text \<open>
  A parsed assessment is stored with \<^verbatim>\<open>JSON.stringify\<close> and read back with \<^verbatim>\<open>JSON.parse\<close> before the
  Wave is evaluated; absent fields are absent properties.
\<close>

fun importance_text :: "importance \<Rightarrow> jstring" where
  "importance_text Imp_low = lit ''low''"
| "importance_text Imp_medium = lit ''medium''"
| "importance_text Imp_high = lit ''high''"

fun disagreement_text :: "disagreement \<Rightarrow> jstring" where
  "disagreement_text Dis_none = lit ''none''"
| "disagreement_text Dis_low = lit ''low''"
| "disagreement_text Dis_medium = lit ''medium''"
| "disagreement_text Dis_high = lit ''high''"

fun recommendation_text :: "recommendation \<Rightarrow> jstring" where
  "recommendation_text Rec_continue = lit ''continue''"
| "recommendation_text Rec_finish = lit ''finish''"
| "recommendation_text Rec_wait_human = lit ''wait_human''"

definition question_json :: "OpenQuestion \<Rightarrow> json" where
  "question_json q =
    JObj [(lit ''id'', JStr (oq_id q)), (lit ''question'', JStr (oq_question q)),
          (lit ''importance'', JStr (importance_text (oq_importance q)))]"

definition entry :: "string \<times> json option \<Rightarrow> (jstring \<times> json) list" where
  "entry e = (case snd e of None \<Rightarrow> [] | Some j \<Rightarrow> [(lit (fst e), j)])"

definition assessment_entries :: "AgentAssessment \<Rightarrow> (string \<times> json option) list" where
  "assessment_entries a =
    [(''goalSatisfied'', map_option JBool (as_goalSatisfied a)),
     (''confidence'', map_option (\<lambda>c. JNum (Finite c)) (as_confidence a)),
     (''resolvedQuestionIds'', map_option (\<lambda>xs. JArr (map JStr xs)) (as_resolvedQuestionIds a)),
     (''newEvidenceRefs'', map_option (\<lambda>xs. JArr (map JStr xs)) (as_newEvidenceRefs a)),
     (''openQuestions'', map_option (\<lambda>qs. JArr (map question_json qs)) (as_openQuestions a)),
     (''disagreementRemaining'',
       map_option (\<lambda>d. JStr (disagreement_text d)) (as_disagreementRemaining a)),
     (''newInformationAdded'', map_option JBool (as_newInformationAdded a)),
     (''reviewerApproved'', map_option JBool (as_reviewerApproved a)),
     (''recommendation'', map_option (\<lambda>r. JStr (recommendation_text r)) (as_recommendation a))]"

definition assessment_json :: "AgentAssessment \<Rightarrow> json" where
  "assessment_json a = JObj (concat (map entry (assessment_entries a)))"

lemma enum_texts [simp]:
  "importance_of (importance_text i) = Some i"
  "disagreement_of (disagreement_text d) = Some d"
  "recommendation_of (recommendation_text r) = Some r"
  by (cases i, cases d, cases r;
      simp add: importance_of_def disagreement_of_def recommendation_of_def lit_def)
    (cases d; cases r; simp add: importance_of_def disagreement_of_def recommendation_of_def lit_def)+

text \<open>Reading a written property gives its entry back, when the names are distinct.\<close>

lemma map_of_entry:
  "map_of ps (lit k) = None \<Longrightarrow> map_of (entry (k, v) @ ps) (lit k) = v"
  "fst e \<noteq> k \<Longrightarrow> map_of (entry e @ ps) (lit k) = map_of ps (lit k)"
  by (auto simp: entry_def split: option.splits)

lemma entries_absent: "k \<notin> fst ` set es \<Longrightarrow> map_of (concat (map entry es)) (lit k) = None"
  by (induction es) (auto simp: map_of_entry(2) simp del: map_of_append)

lemma js_prop_entries:
  "distinct (map fst es) \<Longrightarrow> (k, v) \<in> set es \<Longrightarrow> js_prop (concat (map entry es)) k = v"
proof (induction es)
  case (Cons e es)
  show ?case
  proof (cases "e = (k, v)")
    case True
    with Cons.prems(1) have "map_of (concat (map entry es)) (lit k) = None"
      by (intro entries_absent) auto
    with True show ?thesis by (simp add: js_prop_def map_of_entry(1) del: map_of_append)
  next
    case False
    with Cons.prems(2) have mem: "(k, v) \<in> set es" by auto
    with Cons.prems(1) have "fst e \<noteq> k" by (auto simp: image_iff)
    with mem Cons show ?thesis by (simp add: js_prop_def map_of_entry(2) del: map_of_append)
  qed
qed simp

lemma assessment_json_props:
  assumes "raw = concat (map entry (assessment_entries a))"
  shows "bool_prop raw ''goalSatisfied'' = as_goalSatisfied a"
    and "js_prop raw ''confidence'' = map_option (\<lambda>c. JNum (Finite c)) (as_confidence a)"
    and "js_prop raw ''resolvedQuestionIds'' =
      map_option (\<lambda>xs. JArr (map JStr xs)) (as_resolvedQuestionIds a)"
    and "js_prop raw ''newEvidenceRefs'' =
      map_option (\<lambda>xs. JArr (map JStr xs)) (as_newEvidenceRefs a)"
    and "js_prop raw ''openQuestions'' =
      map_option (\<lambda>qs. JArr (map question_json qs)) (as_openQuestions a)"
    and "string_prop raw ''disagreementRemaining'' =
      map_option disagreement_text (as_disagreementRemaining a)"
    and "bool_prop raw ''newInformationAdded'' = as_newInformationAdded a"
    and "bool_prop raw ''reviewerApproved'' = as_reviewerApproved a"
    and "string_prop raw ''recommendation'' = map_option recommendation_text (as_recommendation a)"
proof -
  have d: "distinct (map fst (assessment_entries a))" by (simp add: assessment_entries_def)
  have js: "(k, v) \<in> set (assessment_entries a) \<Longrightarrow> js_prop raw k = v" for k v
    unfolding assms by (rule js_prop_entries[OF d])
  have bool: "(k, map_option JBool b) \<in> set (assessment_entries a) \<Longrightarrow> bool_prop raw k = b" for k b
    using js[of k "map_option JBool b"] by (cases b) (simp_all add: bool_prop_def)
  have str: "(k, map_option (\<lambda>x. JStr (f x)) b) \<in> set (assessment_entries a) \<Longrightarrow>
      string_prop raw k = map_option f b" for k b and f :: "'x \<Rightarrow> jstring"
    using js[of k "map_option (\<lambda>x. JStr (f x)) b"] by (cases b) (simp_all add: string_prop_def)
  show "bool_prop raw ''goalSatisfied'' = as_goalSatisfied a"
    "bool_prop raw ''newInformationAdded'' = as_newInformationAdded a"
    "bool_prop raw ''reviewerApproved'' = as_reviewerApproved a"
    by (rule bool, simp add: assessment_entries_def)+
  show "js_prop raw ''confidence'' = map_option (\<lambda>c. JNum (Finite c)) (as_confidence a)"
    "js_prop raw ''resolvedQuestionIds'' =
      map_option (\<lambda>xs. JArr (map JStr xs)) (as_resolvedQuestionIds a)"
    "js_prop raw ''newEvidenceRefs'' =
      map_option (\<lambda>xs. JArr (map JStr xs)) (as_newEvidenceRefs a)"
    "js_prop raw ''openQuestions'' =
      map_option (\<lambda>qs. JArr (map question_json qs)) (as_openQuestions a)"
    by (rule js, simp add: assessment_entries_def)+
  show "string_prop raw ''disagreementRemaining'' =
      map_option disagreement_text (as_disagreementRemaining a)"
    "string_prop raw ''recommendation'' = map_option recommendation_text (as_recommendation a)"
    by (rule str, simp add: assessment_entries_def)+
qed

lemma map_filter_all: "(\<And>x. x \<in> set xs \<Longrightarrow> f (g x) = Some x) \<Longrightarrow> List.map_filter f (map g xs) = xs"
  by (induction xs) auto

lemma length_map_filter_le: "length (List.map_filter f xs) \<le> length xs"
  by (induction xs) (auto split: option.splits)

lemma map_filter_mem:
  "x \<in> set (List.map_filter f xs) \<Longrightarrow> \<exists>y\<in>set xs. f y = Some x"
  by (auto simp: map_filter_def)

lemma stringList_roundtrip:
  assumes "stringList v = Some xs"
  shows "stringList (Some (JArr (map JStr xs))) = Some xs"
proof -
  from assms obtain items where items: "v = Some (JArr items)" "length items \<le> 100"
    "xs = List.map_filter string_item items" "length xs = length items"
    by (auto simp: stringList_def Let_def split: option.splits json.splits if_splits)
  have item: "string_item y = Some x \<Longrightarrow> string_item (JStr x) = Some x" for x y
    by (cases y) (auto simp: string_item_def split: if_splits)
  have "string_item (JStr x) = Some x" if "x \<in> set xs" for x
    using that map_filter_mem[of x string_item items] items(3) item by blast
  then have "List.map_filter string_item (map JStr xs) = xs" by (rule map_filter_all)
  with items(2,4) show ?thesis by (simp add: stringList_def)
qed

lemma question_json_roundtrip:
  assumes "question_item item = Some q"
  shows "question_item (question_json q) = Some q"
proof -
  have props: "string_prop [(lit ''id'', JStr i), (lit ''question'', JStr t), (lit ''importance'', JStr m)] ''id'' = Some i"
    "string_prop [(lit ''id'', JStr i), (lit ''question'', JStr t), (lit ''importance'', JStr m)] ''question'' = Some t"
    "string_prop [(lit ''id'', JStr i), (lit ''question'', JStr t), (lit ''importance'', JStr m)] ''importance'' = Some m"
    for i t m
    by (simp_all add: string_prop_def js_prop_def lit_def)
  from assms show ?thesis
    by (auto simp: question_item_def question_json_def props
        split: json.splits option.splits if_splits)
qed

lemma questions_roundtrip:
  assumes "questions_prop raw = Some qs"
    and "js_prop raw' ''openQuestions'' = Some (JArr (map question_json qs))"
  shows "questions_prop raw' = Some qs"
proof -
  from assms(1) obtain items where items: "length items \<le> 50"
    "qs = List.map_filter question_item items" "length qs = length items"
    by (auto simp: questions_prop_def Let_def split: option.splits json.splits if_splits)
  have "question_item (question_json q) = Some q" if "q \<in> set qs" for q
    using that map_filter_mem[of q question_item items] items(2) question_json_roundtrip by blast
  then have "List.map_filter question_item (map question_json qs) = qs" by (rule map_filter_all)
  with items assms(2) show ?thesis by (simp add: questions_prop_def)
qed

lemma stringList_of_props:
  assumes "\<And>xs. field = Some xs \<Longrightarrow> stringList (Some (JArr (map JStr xs))) = Some xs"
  shows "stringList (map_option (\<lambda>xs. JArr (map JStr xs)) field) = field"
  using assms by (cases field) (auto simp: stringList_def)

lemma parse_roundtrip:
  assumes "parseAgentAssessment v = Some a"
  shows "parseAgentAssessment (Some (assessment_json a)) = Some a"
proof -
  from assms obtain raw where raw: "v = Some (JObj raw)"
    by (auto simp: parseAgentAssessment_def split: option.splits json.splits)
  define raw' where "raw' = concat (map entry (assessment_entries a))"
  note props = assessment_json_props[OF raw'_def]
  from assms raw have ne: "a \<noteq> emptyAssessment"
    and fields: "as_confidence a = confidence_prop raw"
      "as_resolvedQuestionIds a = stringList (js_prop raw ''resolvedQuestionIds'')"
      "as_openQuestions a = questions_prop raw"
      "as_newEvidenceRefs a = stringList (js_prop raw ''newEvidenceRefs'')"
    by (auto simp: parseAgentAssessment_def Let_def split: if_splits)
  have conf: "confidence_prop raw' = as_confidence a"
    using parse_confidence[OF assms] by (cases "as_confidence a") (auto simp: confidence_prop_def props)
  have lists: "stringList (js_prop raw' ''resolvedQuestionIds'') = as_resolvedQuestionIds a"
    "stringList (js_prop raw' ''newEvidenceRefs'') = as_newEvidenceRefs a"
    unfolding props by (rule stringList_of_props, metis fields(2,4) stringList_roundtrip)+
  have qs: "questions_prop raw' = as_openQuestions a"
  proof (cases "as_openQuestions a")
    case None
    then show ?thesis by (simp add: questions_prop_def props)
  next
    case (Some qs)
    have "questions_prop raw = Some qs" using fields(3) Some by metis
    moreover have "js_prop raw' ''openQuestions'' = Some (JArr (map question_json qs))"
      unfolding props Some by simp
    ultimately have "questions_prop raw' = Some qs" by (rule questions_roundtrip)
    with Some show ?thesis by simp
  qed
  have dis: "Option.bind (string_prop raw' ''disagreementRemaining'') disagreement_of =
      as_disagreementRemaining a"
    unfolding props by (cases "as_disagreementRemaining a") simp_all
  have rec: "Option.bind (string_prop raw' ''recommendation'') recommendation_of = as_recommendation a"
    unfolding props by (cases "as_recommendation a") simp_all
  have "assessment_json a = JObj raw'" by (simp only: assessment_json_def raw'_def)
  moreover have "parseAgentAssessment (Some (JObj raw')) = (if a = emptyAssessment then None else Some a)"
    unfolding parseAgentAssessment_def option.case json.case Let_def conf lists qs dis rec props(1,7,8)
    by (cases a) simp
  ultimately show ?thesis using ne by simp
qed

section \<open>Properties\<close>

text \<open>
  (C29) The projection of a Wave does not depend on the order in which the results of its
  members arrive: two orders of the same results give the same snapshot, or the same error.
\<close>

theorem progress_order_independent:
  assumes "mset rs = mset rs'"
  shows "evaluateWaveProgress L p rs pol prs = evaluateWaveProgress L p rs' pol prs"
  unfolding evaluateWaveProgress_def sortSuccessfulResults_perm[OF assms] ..

definition demo_result :: "int \<Rightarrow> string \<Rightarrow> SuccessfulWaveResult" where
  "demo_result n reply =
    \<lparr>sr_participantOrdinal = n, sr_reply = lit reply,
     sr_assessment = Some (JObj [(lit ''goalSatisfied'', JBool True),
       (lit ''confidence'', JNum (Finite 1)),
       (lit ''newEvidenceRefs'', JArr [JStr (lit ''msg_1'')])]),
     sr_speakerIsReviewer = False, sr_verifiedEvidenceRefs = [lit ''msg_1'']\<rparr>"

theorem progress_order_independent_witness:
  "evaluateWaveProgress ascii_lib emptyProgressSnapshot
     [demo_result 1 ''b'', demo_result 0 ''a''] defaultDiscussionPolicy [] =
   evaluateWaveProgress ascii_lib emptyProgressSnapshot
     [demo_result 0 ''a'', demo_result 1 ''b''] defaultDiscussionPolicy []"
  by (rule progress_order_independent) simp

text \<open>
  \<open>evaluateWaveProgress\<close> throws exactly when an ordinal is not a non-negative safe integer
  or occurs twice, and then with one of the two ordinal errors; the internal check that results
  and members stay aligned never fires.
\<close>

theorem progress_errors:
  "case evaluateWaveProgress L p rs pol prs of
     Inr w \<Rightarrow> ordinals_ok rs
   | Inl e \<Rightarrow> \<not> ordinals_ok rs \<and>
       (e = Error ''Wave participant ordinal must be a non-negative integer'' \<or>
        (\<exists>r\<in>set rs. e = ErrorNumber ''Duplicate Wave participant ordinal: ''
                              (sr_participantOrdinal r)))"
proof (cases "evaluateWaveProgress L p rs pol prs")
  case (Inl e)
  then have no: "\<not> ordinals_ok rs"
    using evaluateWaveProgress_Inr_iff[of L p rs pol prs] by auto
  then obtain e' where e': "sortSuccessfulResults rs = Inl e'"
    by (cases "sortSuccessfulResults rs") (auto simp: sortSuccessfulResults_Inr)
  with Inl have "e = e'" by (simp add: evaluateWaveProgress_def)
  moreover have "check_ordinals seen xs = Inl e' \<Longrightarrow>
      e' = Error ''Wave participant ordinal must be a non-negative integer'' \<or>
      (\<exists>r\<in>set xs. e' = ErrorNumber ''Duplicate Wave participant ordinal: '' (sr_participantOrdinal r))"
    for seen xs
    by (induction seen xs rule: check_ordinals.induct) (auto split: if_splits)
  moreover from e' have "check_ordinals [] (sorted_results rs) = Inl e'"
    by (cases "check_ordinals [] (sorted_results rs)") (auto simp: sortSuccessfulResults_def Let_def)
  ultimately show ?thesis using Inl no by fastforce
next
  case (Inr w)
  then show ?thesis using evaluateWaveProgress_Inr_iff[of L p rs pol prs] by auto
qed

end
