(* ===== verification/Progress_Properties.thy ===== *)
theory Progress_Properties
  imports Progress_Evaluator
begin

text \<open>
  The properties of the progress projection, stated over the raw results of a Wave: what becomes
  of the open questions, the evidence, the goal and the reviewer's approval, the invariant of
  every snapshot that can be reached, and the similarity measure.
\<close>

section \<open>What a result claims\<close>

definition claimed :: "(AgentAssessment \<Rightarrow> 'a list option) \<Rightarrow> SuccessfulWaveResult \<Rightarrow> 'a set" where
  "claimed field r = set (case Option.bind (parseAgentAssessment (sr_assessment r)) field of
     None \<Rightarrow> [] | Some xs \<Rightarrow> xs)"

lemma set_assessed [simp]: "set (assessed f (wave_member L r)) = claimed f r"
  by (simp add: assessed_def claimed_def wave_member_def)

lemma set_concat_assessed:
  "set (concat (map (assessed f) (wave_members L rs))) = (\<Union>r\<in>set rs. claimed f r)"
  by simp

lemma set_resolvedIds: "set (wave_resolvedIds (wave_members L rs)) = (\<Union>r\<in>set rs. claimed as_resolvedQuestionIds r)"
  unfolding wave_resolvedIds_def set_js_set set_concat_assessed ..

lemma zip_wave_members: "zip xs (map (wave_member L) xs) = map (\<lambda>r. (r, wave_member L r)) xs"
  by (induction xs) auto

lemma completion_assessments_mem:
  "a \<in> set (completion_assessments (wave_members L rs)) \<longleftrightarrow>
    (\<exists>r\<in>set rs. parseAgentAssessment (sr_assessment r) = Some a) \<and>
    (as_goalSatisfied a \<noteq> None \<or> as_confidence a \<noteq> None)"
  by (auto simp: completion_assessments_def map_filter_def wave_member_def image_iff)

lemma reviewer_opinions_mem:
  "b \<in> set (wave_reviewerOpinions (zip (sorted_results rs) (wave_members L rs))) \<longleftrightarrow>
    (\<exists>r\<in>set rs. sr_speakerIsReviewer r \<and>
      (\<exists>a. parseAgentAssessment (sr_assessment r) = Some a \<and> as_reviewerApproved a = Some b))"
  unfolding wave_reviewerOpinions_def zip_wave_members
  by (auto simp: map_filter_def wave_member_def image_iff bind_eq_Some_conv split: if_splits; blast)

text \<open>No question still open, and no reported one, is filed with a lower importance.\<close>

lemma kept_importance:
  assumes "distinct (map oq_id (pg_openQuestions p))"
    and "q' \<in> set (wave_openQuestions L p (wave_members L rs))"
    and "q \<in> set (pg_openQuestions p)" and "oq_id q = oq_id q'"
    and "oq_id q \<notin> (\<Union>r\<in>set rs. claimed as_resolvedQuestionIds r)"
  shows "importanceRank (oq_importance q) \<le> importanceRank (oq_importance q')"
  using openById_rank[OF assms(1,3), of "wave_members L rs" L] assms(4,5) openQuestions_rank[OF assms(2)]
  unfolding set_resolvedIds by simp

lemma reported_importance:
  assumes "q' \<in> set (wave_openQuestions L p (wave_members L rs))"
    and "r \<in> set rs" and "q \<in> claimed as_openQuestions r" and "oq_id q = oq_id q'"
  shows "importanceRank (oq_importance q) \<le> importanceRank (oq_importance q')"
proof -
  have "q \<in> set (concat (map (assessed as_openQuestions) (wave_members L rs)))"
    using assms(2,3) unfolding set_concat_assessed by blast
  then have "importanceRank (oq_importance q) \<le> rank_at (wave_openById L p (wave_members L rs)) (oq_id q)"
    using rank_at_fold_add[of _ "oq_id q" L] unfolding wave_openById_def by blast
  with openQuestions_rank[OF assms(1)] assms(4) show ?thesis by simp
qed

text \<open>Every open question is one of those kept or reported, as it was filed.\<close>

lemma update_values: "snd ` set (AList.update k v m) \<subseteq> insert v (snd ` set m)"
  by (induction m) auto

lemma merge_one: "mergeOpenQuestion L (map_of m k) q \<in> insert q (snd ` set m)"
proof (cases "map_of m k")
  case (Some c)
  then have "c \<in> snd ` set m" by (auto dest: map_of_SomeD intro: rev_image_eqI)
  with Some show ?thesis by (simp add: mergeOpenQuestion_def)
qed (simp add: mergeOpenQuestion_def)

lemma fold_add_values: "snd ` set (fold (add_question L) qs m) \<subseteq> set qs \<union> snd ` set m"
proof (induction qs arbitrary: m)
  case (Cons q qs)
  have "snd ` set (add_question L q m) \<subseteq> insert q (snd ` set m)"
    unfolding add_question_def
    by (rule subset_trans[OF update_values]) (use merge_one[of L m "oq_id q" q] in auto)
  with Cons[of "add_question L q m"] show ?case by auto
qed simp

lemma fold_update_values: "snd ` set (fold (\<lambda>q. AList.update (oq_id q) q) qs m) \<subseteq> set qs \<union> snd ` set m"
proof (induction qs arbitrary: m)
  case (Cons q qs)
  show ?case using Cons[of "AList.update (oq_id q) q m"] update_values[of "oq_id q" q m] by auto
qed simp

lemma open_question_source:
  assumes "q \<in> set (wave_openQuestions L p (wave_members L rs))"
  shows "(q \<in> set (pg_openQuestions p) \<and> oq_id q \<notin> (\<Union>r\<in>set rs. claimed as_resolvedQuestionIds r)) \<or>
    (\<exists>r\<in>set rs. q \<in> claimed as_openQuestions r)"
proof -
  let ?old = "filter (\<lambda>q. oq_id q \<notin> set (wave_resolvedIds (wave_members L rs))) (pg_openQuestions p)"
  have "q \<in> snd ` set (wave_openById L p (wave_members L rs))" using assms by (simp add: wave_openQuestions_def)
  then have "q \<in> set (concat (map (assessed as_openQuestions) (wave_members L rs))) \<union>
      snd ` set (fold (\<lambda>q. AList.update (oq_id q) q) ?old [])"
    unfolding wave_openById_def by (rule subsetD[OF fold_add_values])
  moreover have "snd ` set (fold (\<lambda>q. AList.update (oq_id q) q) ?old []) \<subseteq> set ?old"
    using fold_update_values[of ?old "[]"] by simp
  ultimately show ?thesis unfolding set_concat_assessed set_resolvedIds[symmetric, of rs L] by auto
qed

text \<open>Whether a question of high importance is open, over the raw results.\<close>

lemma high_open_iff:
  assumes "distinct (map oq_id (pg_openQuestions p))"
  shows "(\<exists>q\<in>set (wave_openQuestions L p (wave_members L rs)). oq_importance q = Imp_high) \<longleftrightarrow>
    (\<exists>q\<in>set (pg_openQuestions p). oq_importance q = Imp_high \<and> oq_id q \<notin> (\<Union>r\<in>set rs. claimed as_resolvedQuestionIds r)) \<or>
    (\<exists>r\<in>set rs. \<exists>q\<in>claimed as_openQuestions r. oq_importance q = Imp_high)"
    (is "?open \<longleftrightarrow> ?kept \<or> ?reported")
proof
  assume ?open
  then show "?kept \<or> ?reported" using open_question_source by meson
next
  have top: "oq_importance q' = Imp_high" if "importanceRank (oq_importance q) \<le> importanceRank (oq_importance q')"
    "oq_importance q = Imp_high" for q q' using that by (cases "oq_importance q'") auto
  have ids: "\<exists>q'\<in>set (wave_openQuestions L p (wave_members L rs)). oq_id q' = k"
    if "k \<in> (oq_id ` set (pg_openQuestions p) - (\<Union>r\<in>set rs. claimed as_resolvedQuestionIds r)) \<union>
      oq_id ` (\<Union>r\<in>set rs. claimed as_openQuestions r)" for k
  proof -
    have "k \<in> oq_id ` set (wave_openQuestions L p (wave_members L rs))"
      using that unfolding openQuestions_ids openById_keys set_resolvedIds set_concat_assessed .
    then show ?thesis by (rule imageE) blast
  qed
  assume "?kept \<or> ?reported"
  then show ?open
  proof
    assume ?kept
    then obtain q where q: "q \<in> set (pg_openQuestions p)" "oq_importance q = Imp_high"
      "oq_id q \<notin> (\<Union>r\<in>set rs. claimed as_resolvedQuestionIds r)" by blast
    then obtain q' where q': "q' \<in> set (wave_openQuestions L p (wave_members L rs))" "oq_id q' = oq_id q"
      using ids[of "oq_id q"] by blast
    from top[OF kept_importance[OF assms q'(1) q(1) q'(2)[symmetric] q(3)] q(2)] q'(1) show ?open by blast
  next
    assume ?reported
    then obtain r q where q: "r \<in> set rs" "q \<in> claimed as_openQuestions r" "oq_importance q = Imp_high" by blast
    then obtain q' where q': "q' \<in> set (wave_openQuestions L p (wave_members L rs))" "oq_id q' = oq_id q"
      using ids[of "oq_id q"] by blast
    from top[OF reported_importance[OF q'(1) q(1,2) q'(2)[symmetric]] q(3)] q'(1) show ?open by blast
  qed
qed

section \<open>Lemmas on similarity\<close>

lemma card_bigrams: "length (filter (\<lambda>b. b \<in> set ys) (js_set xs)) = card (set xs \<inter> set ys)"
proof -
  have "length (filter (\<lambda>b. b \<in> set ys) (js_set xs)) = card (set (filter (\<lambda>b. b \<in> set ys) (js_set xs)))"
    by (rule distinct_card[symmetric]) simp
  also have "set (filter (\<lambda>b. b \<in> set ys) (js_set xs)) = set xs \<inter> set ys" by auto
  finally show ?thesis .
qed

lemma similarity_dice:
  "discussionReplySimilarity L l r =
    (let a = normalizedLexicalCharacters L l; b = normalizedLexicalCharacters L r;
         A = set (bigrams_loop a); B = set (bigrams_loop b)
     in if min (length a) (length b) < 20 \<or>
           of_nat (min (length a) (length b)) / of_nat (max (length a) (length b)) < (4 / 5 :: rat)
        then 0 else of_nat (2 * card (A \<inter> B)) / of_nat (card A + card B))"
  by (simp add: discussionReplySimilarity_def characterBigrams_def Let_def card_bigrams
      length_js_set minimumLexicalComparisonCodePoints_def minimumLexicalLengthRatio_def)

lemma similarity_comm: "discussionReplySimilarity L l r = discussionReplySimilarity L r l"
  by (simp add: similarity_dice Let_def min.commute max.commute Int_commute add.commute)

lemma similarity_range: "0 \<le> discussionReplySimilarity L l r \<and> discussionReplySimilarity L l r \<le> 1"
proof -
  have "2 * card (A \<inter> B) \<le> card A + card B" if "finite A" "finite B" for A B :: "jstring set"
    using card_mono[OF that(1), of "A \<inter> B"] card_mono[OF that(2), of "A \<inter> B"] by auto
  then have "(of_nat (2 * card (set xs \<inter> set ys)) :: rat) / of_nat (card (set xs) + card (set ys)) \<le> 1"
    for xs ys :: "jstring list"
    by (metis List.finite_set divide_le_eq_1 of_nat_0_le_iff of_nat_le_iff order_le_less)
  then show ?thesis unfolding similarity_dice Let_def by (simp only: split: if_split) auto
qed

lemma bigrams_Nil: "2 \<le> length cs \<Longrightarrow> bigrams_loop cs \<noteq> []"
  by (cases cs rule: bigrams_loop.cases) auto

lemma similarity_self:
  assumes "20 \<le> length (normalizedLexicalCharacters L s)"
  shows "discussionReplySimilarity L s s = 1"
proof -
  let ?b = "bigrams_loop (normalizedLexicalCharacters L s)"
  have "?b \<noteq> []" using assms by (intro bigrams_Nil) simp
  then have "card (set ?b) \<noteq> 0" by simp
  then show ?thesis using assms by (auto simp: similarity_dice Let_def)
qed

section \<open>A concrete Wave\<close>

lemma demo_parse:
  "parseAgentAssessment (sr_assessment (demo_result n reply)) =
    Some \<lparr>as_goalSatisfied = Some True, as_confidence = Some 1, as_resolvedQuestionIds = None,
      as_openQuestions = None, as_newEvidenceRefs = Some [lit ''msg_1''],
      as_disagreementRemaining = None, as_newInformationAdded = None, as_reviewerApproved = None,
      as_recommendation = None\<rparr>"
  by (simp add: demo_result_def parseAgentAssessment_def bool_prop_def string_prop_def js_prop_def
      confidence_prop_def stringList_def questions_prop_def string_item_def exceeds_iff
      emptyAssessment_def trim_def is_space_def lit_def is_high_surrogate_def)

lemma demo_claims [simp]:
  "claimed as_newEvidenceRefs (demo_result n reply) = {lit ''msg_1''}"
  "claimed as_resolvedQuestionIds (demo_result n reply) = {}"
  "claimed as_openQuestions (demo_result n reply) = {}"
  by (simp_all add: claimed_def demo_parse)

definition demo_snapshot :: ProgressSnapshot where
  "demo_snapshot = emptyProgressSnapshot
    \<lparr>pg_openQuestions := [\<lparr>oq_id = lit ''q1'', oq_question = lit ''why'', oq_importance = Imp_medium\<rparr>],
     pg_evidenceRefs := [lit ''msg_0'']\<rparr>"

lemma demo_run:
  "\<exists>w. evaluateWaveProgress ascii_lib demo_snapshot [demo_result 0 ''a'', demo_result 1 ''b'']
     defaultDiscussionPolicy [] = Inr w"
  unfolding evaluateWaveProgress_Inr_iff
  by (simp add: ordinals_ok_def demo_result_def is_safe_integer_def max_safe_integer_def)

section \<open>Properties\<close>

text \<open>(C31) An assessment survives storage: what the parser accepts, written as JSON and parsed
  again, is the same assessment.\<close>

theorem assessment_roundtrip:
  assumes "parseAgentAssessment v = Some a"
  shows "parseAgentAssessment (Some (assessment_json a)) = Some a"
  using assms by (rule parse_roundtrip)

theorem assessment_roundtrip_witness:
  "\<exists>a. parseAgentAssessment (sr_assessment (demo_result 0 ''a'')) = Some a \<and>
    as_confidence a = Some 1 \<and> parseAgentAssessment (Some (assessment_json a)) = Some a"
  using assessment_roundtrip[OF demo_parse[of 0 "''a''"]] demo_parse[of 0 "''a''"] by auto

text \<open>
  (C12) The open questions of a snapshot: exactly the earlier ones nobody resolved and the ones a
  result reports, each id once; and no question still open, and no reported one, is filed with a
  lower importance than it had.
\<close>

theorem open_questions_exact:
  assumes "distinct (map oq_id (pg_openQuestions p))"
    and "evaluateWaveProgress L p rs pol prs = Inr w"
  shows "distinct (map oq_id (pg_openQuestions (we_snapshot w))) \<and>
    oq_id ` set (pg_openQuestions (we_snapshot w)) =
      (oq_id ` set (pg_openQuestions p) - (\<Union>r\<in>set rs. claimed as_resolvedQuestionIds r)) \<union>
      oq_id ` (\<Union>r\<in>set rs. claimed as_openQuestions r) \<and>
    (\<forall>q'\<in>set (pg_openQuestions (we_snapshot w)).
      (\<forall>q\<in>set (pg_openQuestions p). oq_id q = oq_id q' \<longrightarrow>
         oq_id q \<notin> (\<Union>r\<in>set rs. claimed as_resolvedQuestionIds r) \<longrightarrow>
         importanceRank (oq_importance q) \<le> importanceRank (oq_importance q')) \<and>
      (\<forall>r\<in>set rs. \<forall>q\<in>claimed as_openQuestions r. oq_id q = oq_id q' \<longrightarrow>
         importanceRank (oq_importance q) \<le> importanceRank (oq_importance q')))"
proof -
  note f = evaluateWaveProgress_fields(3)[OF assms(2)]
  have ids: "oq_id ` set (pg_openQuestions (we_snapshot w)) =
      (oq_id ` set (pg_openQuestions p) - (\<Union>r\<in>set rs. claimed as_resolvedQuestionIds r)) \<union>
      oq_id ` (\<Union>r\<in>set rs. claimed as_openQuestions r)"
    unfolding f openQuestions_ids openById_keys set_resolvedIds set_concat_assessed ..
  have "importanceRank (oq_importance q) \<le> importanceRank (oq_importance q')"
    if "q' \<in> set (pg_openQuestions (we_snapshot w))" "q \<in> set (pg_openQuestions p)"
      "oq_id q = oq_id q'" "oq_id q \<notin> (\<Union>r\<in>set rs. claimed as_resolvedQuestionIds r)" for q q'
    using kept_importance[OF assms(1) that(1)[unfolded f] that(2-4)] .
  moreover have "importanceRank (oq_importance q) \<le> importanceRank (oq_importance q')"
    if "q' \<in> set (pg_openQuestions (we_snapshot w))" "r \<in> set rs"
      "q \<in> claimed as_openQuestions r" "oq_id q = oq_id q'" for q q' r
    using reported_importance[OF that(1)[unfolded f] that(2-4)] .
  moreover have "distinct (map oq_id (pg_openQuestions (we_snapshot w)))"
    unfolding f by (rule distinct_openQuestions)
  ultimately show ?thesis using ids by (intro conjI ballI impI)
qed

theorem open_questions_exact_witness:
  "\<exists>w. evaluateWaveProgress ascii_lib demo_snapshot [demo_result 0 ''a'', demo_result 1 ''b'']
      defaultDiscussionPolicy [] = Inr w \<and>
    oq_id ` set (pg_openQuestions (we_snapshot w)) = {lit ''q1''}"
proof -
  obtain w where w: "evaluateWaveProgress ascii_lib demo_snapshot [demo_result 0 ''a'', demo_result 1 ''b'']
      defaultDiscussionPolicy [] = Inr w"
    using demo_run by blast
  from open_questions_exact[OF _ w] show ?thesis using w by (simp add: demo_snapshot_def)
qed

text \<open>
  (C25) When the goal counts as satisfied: exactly when some result of the Wave takes a position on it
  (a verdict or a confidence), every result that does says it is satisfied with at least the
  required confidence, no result reports a question of high importance, and every earlier open
  question of high importance is resolved by some result. Questions of medium or low importance do
  not block it.
\<close>

theorem goal_satisfied_exact:
  assumes "distinct (map oq_id (pg_openQuestions p))"
    and "evaluateWaveProgress L p rs pol prs = Inr w"
  shows "pg_goalSatisfied (we_snapshot w) \<longleftrightarrow>
    (\<exists>r\<in>set rs. \<exists>a. parseAgentAssessment (sr_assessment r) = Some a \<and>
       (as_goalSatisfied a \<noteq> None \<or> as_confidence a \<noteq> None)) \<and>
    (\<forall>r\<in>set rs. \<forall>a. parseAgentAssessment (sr_assessment r) = Some a \<and>
       (as_goalSatisfied a \<noteq> None \<or> as_confidence a \<noteq> None) \<longrightarrow>
       as_goalSatisfied a = Some True \<and>
       (\<exists>c. as_confidence a = Some c \<and> minimumCompletionConfidence pol \<le> c)) \<and>
    (\<forall>r\<in>set rs. \<forall>q\<in>claimed as_openQuestions r. oq_importance q \<noteq> Imp_high) \<and>
    (\<forall>q\<in>set (pg_openQuestions p). oq_importance q = Imp_high \<longrightarrow>
       (\<exists>r\<in>set rs. oq_id q \<in> claimed as_resolvedQuestionIds r))"
proof -
  note f = evaluateWaveProgress_fields(3,7)[OF assms(2)]
  let ?ms = "wave_members L rs"
  have position: "length (completion_assessments ?ms) > 0 \<longleftrightarrow> (\<exists>r\<in>set rs. \<exists>a. parseAgentAssessment (sr_assessment r) = Some a \<and>
       (as_goalSatisfied a \<noteq> None \<or> as_confidence a \<noteq> None))"
    unfolding length_greater_0_conv ex_in_conv[symmetric] set_empty[symmetric] completion_assessments_mem by blast
  have members: "length ?ms > 0" if "length (completion_assessments ?ms) > 0"
    using that by (cases "?ms = []") (simp_all add: completion_assessments_def map_filter_def)
  have opt: "(case x of None \<Rightarrow> False | Some c \<Rightarrow> P c) \<longleftrightarrow> (\<exists>c. x = Some c \<and> P c)" for x :: "rat option" and P
    by (cases x) auto
  have agree: "(\<forall>a\<in>set (completion_assessments ?ms). as_goalSatisfied a = Some True \<and>
       (case as_confidence a of None \<Rightarrow> False | Some c \<Rightarrow> c \<ge> minimumCompletionConfidence pol)) \<longleftrightarrow>
    (\<forall>r\<in>set rs. \<forall>a. parseAgentAssessment (sr_assessment r) = Some a \<and>
       (as_goalSatisfied a \<noteq> None \<or> as_confidence a \<noteq> None) \<longrightarrow>
       as_goalSatisfied a = Some True \<and>
       (\<exists>c. as_confidence a = Some c \<and> minimumCompletionConfidence pol \<le> c))"
    unfolding opt Ball_def completion_assessments_mem by blast
  have questions: "(\<exists>q\<in>set (pg_openQuestions (we_snapshot w)). oq_importance q = Imp_high) \<longleftrightarrow>
    \<not> ((\<forall>r\<in>set rs. \<forall>q\<in>claimed as_openQuestions r. oq_importance q \<noteq> Imp_high) \<and>
       (\<forall>q\<in>set (pg_openQuestions p). oq_importance q = Imp_high \<longrightarrow>
         (\<exists>r\<in>set rs. oq_id q \<in> claimed as_resolvedQuestionIds r)))"
    unfolding f(1) high_open_iff[OF assms(1)] by blast
  show ?thesis
    unfolding f(2) wave_goalSatisfied_def agree questions not_not using members position by blast
qed

theorem goal_satisfied_exact_witness:
  "\<exists>w v. evaluateWaveProgress ascii_lib emptyProgressSnapshot [demo_result 0 ''a'']
      defaultDiscussionPolicy [] = Inr w \<and> pg_goalSatisfied (we_snapshot w) \<and>
    evaluateWaveProgress ascii_lib
      (emptyProgressSnapshot\<lparr>pg_openQuestions := [\<lparr>oq_id = lit ''q1'', oq_question = lit ''why'', oq_importance = Imp_high\<rparr>]\<rparr>)
      [demo_result 0 ''a''] defaultDiscussionPolicy [] = Inr v \<and> \<not> pg_goalSatisfied (we_snapshot v)"
proof -
  let ?p = "emptyProgressSnapshot\<lparr>pg_openQuestions := [\<lparr>oq_id = lit ''q1'', oq_question = lit ''why'', oq_importance = Imp_high\<rparr>]\<rparr>"
  have "\<exists>w. evaluateWaveProgress ascii_lib p [demo_result 0 ''a''] defaultDiscussionPolicy [] = Inr w" for p
    unfolding evaluateWaveProgress_Inr_iff by (simp add: ordinals_ok_def demo_result_def is_safe_integer_def max_safe_integer_def)
  then obtain w v where
    w: "evaluateWaveProgress ascii_lib emptyProgressSnapshot [demo_result 0 ''a''] defaultDiscussionPolicy [] = Inr w" and
    v: "evaluateWaveProgress ascii_lib ?p [demo_result 0 ''a''] defaultDiscussionPolicy [] = Inr v" by blast
  have "pg_goalSatisfied (we_snapshot w)" using goal_satisfied_exact[OF _ w]
    by (auto simp: demo_parse defaultDiscussionPolicy_def emptyProgressSnapshot_def)
  moreover have "\<not> pg_goalSatisfied (we_snapshot v)" using goal_satisfied_exact[OF _ v] by auto
  ultimately show ?thesis using w v by blast
qed

text \<open>
  Verified evidence: a reference becomes verified exactly when one result both claims it and
  had it looked up; references are never dropped, and every claimed one is listed.
\<close>

theorem evidence_exact:
  assumes "evaluateWaveProgress L p rs pol prs = Inr w"
  shows "set (pg_verifiedEvidenceRefs (we_snapshot w)) = set (pg_verifiedEvidenceRefs p) \<union>
      (\<Union>r\<in>set rs. set (sr_verifiedEvidenceRefs r) \<inter> claimed as_newEvidenceRefs r) \<and>
    set (pg_evidenceRefs (we_snapshot w)) = set (pg_evidenceRefs p) \<union>
      (\<Union>r\<in>set rs. claimed as_newEvidenceRefs r)"
  unfolding evaluateWaveProgress_fields(4,5)[OF assms] wave_verifiedEvidence_def
    wave_evidenceRefs_def zip_wave_members
  by auto

theorem evidence_exact_witness:
  "\<exists>w. evaluateWaveProgress ascii_lib demo_snapshot [demo_result 0 ''a'', demo_result 1 ''b'']
      defaultDiscussionPolicy [] = Inr w \<and>
    set (pg_verifiedEvidenceRefs (we_snapshot w)) = {lit ''msg_1''} \<and>
    set (pg_evidenceRefs (we_snapshot w)) = {lit ''msg_0'', lit ''msg_1''}"
proof -
  obtain w where w: "evaluateWaveProgress ascii_lib demo_snapshot [demo_result 0 ''a'', demo_result 1 ''b'']
      defaultDiscussionPolicy [] = Inr w"
    using demo_run by blast
  have refs: "sr_verifiedEvidenceRefs (demo_result n r) = [lit ''msg_1'']" for n r
    by (simp add: demo_result_def)
  from evidence_exact[OF w] show ?thesis
    using w by (auto simp: demo_snapshot_def emptyProgressSnapshot_def refs)
qed

text \<open>
  (C30) A reviewer's approval never outlives what it approved: a snapshot that is approved either
  has an approving reviewer and no rejecting one in its own Wave, or nobody reviewed and neither
  the questions, the goal, the confidence nor the information changed since the approval.
\<close>

theorem reviewer_approval_fresh:
  assumes "evaluateWaveProgress L p rs pol prs = Inr w"
    and "pg_reviewerApproved (we_snapshot w)"
  shows "(\<exists>r\<in>set rs. sr_speakerIsReviewer r \<and>
       (\<exists>a. parseAgentAssessment (sr_assessment r) = Some a \<and> as_reviewerApproved a = Some True)) \<and>
     (\<forall>r\<in>set rs. \<forall>a. sr_speakerIsReviewer r \<longrightarrow>
       parseAgentAssessment (sr_assessment r) = Some a \<longrightarrow> as_reviewerApproved a \<noteq> Some False) \<or>
     pg_reviewerApproved p \<and> \<not> pg_lastTurnAddedInformation (we_snapshot w) \<and>
     pg_openQuestions (we_snapshot w) = pg_openQuestions p \<and>
     pg_goalSatisfied (we_snapshot w) = pg_goalSatisfied p \<and>
     pg_confidence (we_snapshot w) = pg_confidence p"
proof (cases "wave_reviewerOpinions (zip (sorted_results rs) (wave_members L rs))")
  case Nil
  with assms(2) show ?thesis
    unfolding evaluateWaveProgress_reviewer[OF assms(1)] wave_reviewerApproved_def
    by (auto simp: questions_changed_iff split: if_splits)
next
  case (Cons b bs)
  let ?os = "set (wave_reviewerOpinions (zip (sorted_results rs) (wave_members L rs)))"
  from Cons have "0 < length (wave_reviewerOpinions (zip (sorted_results rs) (wave_members L rs)))"
    by simp
  with assms(2) have "\<forall>b\<in>?os. b"
    unfolding evaluateWaveProgress_reviewer[OF assms(1)] wave_reviewerApproved_def
    by (simp only: if_True)
  moreover from Cons have "b \<in> ?os" by simp
  ultimately have "True \<in> ?os" "False \<notin> ?os" by auto
  then show ?thesis unfolding reviewer_opinions_mem by blast
qed

definition demo_review :: SuccessfulWaveResult where
  "demo_review =
    \<lparr>sr_participantOrdinal = 0, sr_reply = lit ''ok'',
     sr_assessment = Some (JObj [(lit ''reviewerApproved'', JBool True)]),
     sr_speakerIsReviewer = True, sr_verifiedEvidenceRefs = []\<rparr>"

lemma demo_review_parse:
  "parseAgentAssessment (sr_assessment demo_review) =
    Some (emptyAssessment\<lparr>as_reviewerApproved := Some True\<rparr>)"
  by (simp add: demo_review_def parseAgentAssessment_def bool_prop_def string_prop_def js_prop_def
      confidence_prop_def stringList_def questions_prop_def emptyAssessment_def)

theorem reviewer_approval_fresh_witness:
  "\<exists>w. evaluateWaveProgress ascii_lib emptyProgressSnapshot [demo_review]
      defaultDiscussionPolicy [] = Inr w \<and> pg_reviewerApproved (we_snapshot w) \<and>
    (sr_speakerIsReviewer demo_review \<or> pg_reviewerApproved emptyProgressSnapshot)"
proof -
  obtain w where w: "evaluateWaveProgress ascii_lib emptyProgressSnapshot [demo_review]
      defaultDiscussionPolicy [] = Inr w"
    using evaluateWaveProgress_Inr_iff[of ascii_lib emptyProgressSnapshot "[demo_review]"]
    by (auto simp: ordinals_ok_def demo_review_def is_safe_integer_def max_safe_integer_def)
  have one: "sorted_results [demo_review] = [demo_review]" by (simp add: sort_by_def)
  have ap: "pg_reviewerApproved (we_snapshot w)"
    unfolding evaluateWaveProgress_reviewer[OF w] one wave_reviewerApproved_def
    by (simp add: wave_reviewerOpinions_def wave_member_def demo_review_parse) (simp add: demo_review_def)
  from reviewer_approval_fresh[OF w ap] w ap show ?thesis by auto
qed

text \<open>
  The snapshots a Discussion can reach: the empty one, and what the evaluation of a further Wave
  makes of a reachable one.
\<close>

inductive reachable_progress :: "text_lib \<Rightarrow> DiscussionPolicy \<Rightarrow> ProgressSnapshot \<Rightarrow> bool" for L pol where
  empty: "reachable_progress L pol emptyProgressSnapshot"
| wave: "reachable_progress L pol p \<Longrightarrow> evaluateWaveProgress L p rs pol prs = Inr w \<Longrightarrow>
    reachable_progress L pol (we_snapshot w)"

text \<open>
  The invariant of every reachable snapshot: question ids, evidence references and reply
  hashes are listed once, verified references are listed references, at most 50 hashes are kept,
  the confidence lies between 0 and 1, and a satisfied goal leaves no important question open.
\<close>

theorem reachable_progress_inv:
  assumes "reachable_progress L pol p"
  shows "progress_inv p"
  using assms
  by (induction rule: reachable_progress.induct) (auto intro: progress_inv_empty evaluateWaveProgress_inv)

theorem reachable_progress_inv_witness:
  "\<exists>w. evaluateWaveProgress ascii_lib emptyProgressSnapshot [demo_review]
      defaultDiscussionPolicy [] = Inr w \<and> progress_inv (we_snapshot w)"
proof -
  obtain w where w: "evaluateWaveProgress ascii_lib emptyProgressSnapshot [demo_review]
      defaultDiscussionPolicy [] = Inr w"
    using evaluateWaveProgress_Inr_iff[of ascii_lib emptyProgressSnapshot "[demo_review]"]
    by (auto simp: ordinals_ok_def demo_review_def is_safe_integer_def max_safe_integer_def)
  from reachable_progress_inv[OF reachable_progress.wave[OF reachable_progress.empty w]] w
  show ?thesis by blast
qed

text \<open>The similarity of two replies is a symmetric number between 0 and 1, and a reply long
  enough to be compared is a near duplicate of itself.\<close>

theorem similarity_measure:
  "0 \<le> discussionReplySimilarity L l r \<and> discussionReplySimilarity L l r \<le> 1 \<and>
   discussionReplySimilarity L l r = discussionReplySimilarity L r l \<and>
   discussionReplySimilarity L l l =
     (if length (normalizedLexicalCharacters L l) < 20 then 0 else 1)"
proof -
  have "discussionReplySimilarity L l l =
     (if length (normalizedLexicalCharacters L l) < 20 then 0 else 1)"
    using similarity_self[of L l] by (auto simp: similarity_dice Let_def)
  then show ?thesis using similarity_range[of L l r] similarity_comm[of L l r] by blast
qed

end
