(* ===== verification/Canonical_JSON.thy ===== *)
theory Canonical_JSON
  imports Text_Library
begin

text \<open>
  Canonical JSON and digests (\<^verbatim>\<open>packages/contracts/src/execution-validation.mjs\<close>:
  \<^verbatim>\<open>assertPlainJSON\<close>, \<^verbatim>\<open>canonicalValue\<close>, \<^verbatim>\<open>canonicalExecutionJSON\<close>,
  \<^verbatim>\<open>executionOperationDigest\<close>), with the part of \<^verbatim>\<open>JSON.stringify\<close> they use.

  A contract value is a tree of plain JSON whose numbers are integers; an object is the list of
  its own properties in enumeration order, each key once. The tests for accessors, symbols,
  foreign prototypes, cycles and sparse arrays speak about values that are not such trees.
\<close>

datatype cjson =
    CNull
  | CBool bool
  | CInt int
  | CStr jstring
  | CArr "cjson list"
  | CObj "(jstring \<times> cjson) list"

section \<open>Text of strings and numbers\<close>

definition hex_digit :: "nat \<Rightarrow> code_unit" where
  "hex_digit n = lit ''0123456789abcdef'' ! n"

definition hex4 :: "code_unit \<Rightarrow> jstring" where
  "hex4 u =
    (let n = unat u in
     [hex_digit (n div 4096), hex_digit (n div 256 mod 16), hex_digit (n div 16 mod 16),
      hex_digit (n mod 16)])"

text \<open>
  How \<^verbatim>\<open>JSON.stringify\<close> writes one code point of a string: seven characters have a short
  escape, the other controls and a lone surrogate are written in hexadecimal.
\<close>

definition short_escape :: "code_unit \<Rightarrow> code_unit option" where
  "short_escape u =
    (if u = 0x22 then Some 0x22 else if u = 0x5C then Some 0x5C else if u = 0x08 then Some 0x62
     else if u = 0x0C then Some 0x66 else if u = 0x0A then Some 0x6E
     else if u = 0x0D then Some 0x72 else if u = 0x09 then Some 0x74 else None)"

definition escape_point :: "jstring \<Rightarrow> jstring" where
  "escape_point c =
    (case c of
       [u] \<Rightarrow>
         (case short_escape u of
            Some x \<Rightarrow> [0x5C, x]
          | None \<Rightarrow>
              if u < 0x20 \<or> is_high_surrogate u \<or> is_low_surrogate u then [0x5C, 0x75] @ hex4 u
              else [u])
     | _ \<Rightarrow> c)"

definition string_text :: "jstring \<Rightarrow> jstring" where
  "string_text s = [0x22] @ concat (map escape_point (code_points s)) @ [0x22]"

definition dec_digit :: "nat \<Rightarrow> code_unit" where
  "dec_digit n = lit ''0123456789'' ! n"

fun nat_text :: "nat \<Rightarrow> jstring" where
  "nat_text n =
    (if n < 10 then [dec_digit n] else nat_text (n div 10) @ [dec_digit (n mod 10)])"

declare nat_text.simps [simp del]

definition int_text :: "int \<Rightarrow> jstring" where
  "int_text n = (if n < 0 then [0x2D] @ nat_text (nat (- n)) else nat_text (nat n))"

fun join :: "jstring \<Rightarrow> jstring list \<Rightarrow> jstring" where
  "join sep [] = []"
| "join sep [x] = x"
| "join sep (x # y # ys) = x @ sep @ join sep (y # ys)"

section \<open>The canonical text\<close>

definition by_key :: "jstring \<times> 'a \<Rightarrow> jstring \<times> 'a \<Rightarrow> int" where
  "by_key left right = binaryCompare (fst left) (fst right)"

fun canonicalValue :: "cjson \<Rightarrow> jstring" where
  "canonicalValue CNull = lit ''null''"
| "canonicalValue (CBool b) = (if b then lit ''true'' else lit ''false'')"
| "canonicalValue (CInt n) = int_text n"
| "canonicalValue (CStr s) = string_text s"
| "canonicalValue (CArr vs) = lit ''['' @ join (lit '','') (map canonicalValue vs) @ lit '']''"
| "canonicalValue (CObj ps) =
     lit ''{'' @ join (lit '','')
       (map (\<lambda>(k, t). string_text k @ lit '':'' @ t)
         (sort_by by_key (map (\<lambda>(k, v). (k, canonicalValue v)) ps))) @ lit ''}''"

definition utf8_bytes :: "jstring \<Rightarrow> int" where
  "utf8_bytes c = (case c of [u] \<Rightarrow> if u < 0x80 then 1 else if u < 0x800 then 2 else 3 | _ \<Rightarrow> 4)"

definition utf8_length :: "jstring \<Rightarrow> int" where
  "utf8_length s = sum_list (map utf8_bytes (code_points s))"

definition isWellFormed :: "jstring \<Rightarrow> bool" where
  "isWellFormed s \<longleftrightarrow>
    (\<forall>c\<in>set (code_points s). case c of [u] \<Rightarrow> \<not> is_high_surrogate u \<and> \<not> is_low_surrogate u | _ \<Rightarrow> True)"

definition maximumBytes :: int where
  "maximumBytes = 512 * 1024"

definition maximumValues :: int where
  "maximumValues = 30000"

type_synonym visit_state = "int \<times> int"

definition visit_value :: "int \<Rightarrow> visit_state \<Rightarrow> visit_state throwing" where
  "visit_value depth st =
    bind (ensure (fst st + 1 \<le> maximumValues \<and> depth \<le> 24) (ExecutionError ''PLAN_RESOURCE_LIMIT''))
      (\<lambda>_. Inr (fst st + 1, snd st))"

definition visit_string :: "jstring \<Rightarrow> int \<Rightarrow> visit_state \<Rightarrow> visit_state throwing" where
  "visit_string entry depth st =
    bind (visit_value depth st) (\<lambda>(count, textSize).
    let size = textSize + utf8_length entry in
    bind (ensure (size \<le> maximumBytes) (ExecutionError ''PLAN_RESOURCE_LIMIT'')) (\<lambda>_.
    bind (ensure (isWellFormed entry) (ExecutionError ''PLAN_INVALID_UNICODE'')) (\<lambda>_.
    Inr (count, size))))"

definition forbidden_key :: "jstring \<Rightarrow> bool" where
  "forbidden_key k \<longleftrightarrow> k = lit ''__proto__'' \<or> k = lit ''constructor'' \<or> k = lit ''prototype''"

text \<open>
  The depth-first visit. The own property names of an array are its indices, and they are
  visited like the names of an object.
\<close>

fun visit :: "cjson \<Rightarrow> int \<Rightarrow> visit_state \<Rightarrow> visit_state throwing"
  and visit_items :: "nat \<Rightarrow> cjson list \<Rightarrow> int \<Rightarrow> visit_state \<Rightarrow> visit_state throwing"
  and visit_entries :: "(jstring \<times> cjson) list \<Rightarrow> int \<Rightarrow> visit_state \<Rightarrow> visit_state throwing" where
  "visit CNull depth st = visit_value depth st"
| "visit (CBool b) depth st = visit_value depth st"
| "visit (CInt n) depth st =
     bind (visit_value depth st) (\<lambda>st.
     bind (ensure (is_safe_integer n) (ExecutionError ''PLAN_NON_JSON_VALUE'')) (\<lambda>_. Inr st))"
| "visit (CStr s) depth st = visit_string s depth st"
| "visit (CArr vs) depth st =
     bind (visit_value depth st) (\<lambda>st.
     bind (ensure (int (length vs) \<le> maximumValues) (ExecutionError ''PLAN_RESOURCE_LIMIT'')) (\<lambda>_.
     visit_items 0 vs depth st))"
| "visit (CObj ps) depth st = bind (visit_value depth st) (visit_entries ps depth)"
| "visit_items i [] depth st = Inr st"
| "visit_items i (v # vs) depth st =
     bind (visit_string (nat_text i) (depth + 1) st) (\<lambda>st.
     bind (visit v (depth + 1) st) (visit_items (Suc i) vs depth))"
| "visit_entries [] depth st = Inr st"
| "visit_entries ((k, v) # ps) depth st =
     bind (ensure (\<not> forbidden_key k) (ExecutionError ''PLAN_NON_JSON_VALUE'')) (\<lambda>_.
     bind (visit_string k (depth + 1) st) (\<lambda>st.
     bind (visit v (depth + 1) st) (visit_entries ps depth)))"

definition assertPlainJSON :: "cjson \<Rightarrow> unit throwing" where
  "assertPlainJSON value = bind (visit value 0 (0, 0)) (\<lambda>_. Inr ())"

definition canonicalExecutionJSON :: "cjson \<Rightarrow> jstring throwing" where
  "canonicalExecutionJSON value =
    bind (assertPlainJSON value) (\<lambda>_.
    let encoded = canonicalValue value in
    bind (ensure (utf8_length encoded \<le> maximumBytes) (ExecutionError ''PLAN_RESOURCE_LIMIT''))
      (\<lambda>_. Inr encoded))"

definition executionOperationDigest :: "text_lib \<Rightarrow> cjson \<Rightarrow> jstring throwing" where
  "executionOperationDigest L value =
    bind (canonicalExecutionJSON value) (\<lambda>encoded. Inr (sha256Hex L encoded))"

section \<open>Lemmas: the text of a string determines it\<close>

lemma hex_digit_inj: "hex_digit a = hex_digit b \<Longrightarrow> a < 16 \<Longrightarrow> b < 16 \<Longrightarrow> a = b"
proof -
  have "distinct (lit ''0123456789abcdef'')" by (simp add: lit_def)
  then show "hex_digit a = hex_digit b \<Longrightarrow> a < 16 \<Longrightarrow> b < 16 \<Longrightarrow> a = b"
    unfolding hex_digit_def by (subst (asm) nth_eq_iff_index_eq) (simp_all add: lit_def)
qed

lemma div_mod_eqI: "x div k = y div k \<Longrightarrow> x mod k = y mod k \<Longrightarrow> x = (y :: nat)"
  by (metis div_mult_mod_eq)

lemma hex4_inj: "hex4 u = hex4 v \<longleftrightarrow> u = v"
proof
  assume h: "hex4 u = hex4 v"
  define a b where "a = unat u" and "b = unat v"
  have "unat w < 2 ^ LENGTH(16)" for w :: code_unit by (rule unsigned_less)
  then have "a < 65536" "b < 65536" by (simp_all add: a_def b_def)
  then have lim: "a div 4096 < 16" "b div 4096 < 16" by (simp_all add: less_mult_imp_div_less)
  from h have "hex_digit (a div 4096) = hex_digit (b div 4096)"
    "hex_digit (a div 256 mod 16) = hex_digit (b div 256 mod 16)"
    "hex_digit (a div 16 mod 16) = hex_digit (b div 16 mod 16)"
    "hex_digit (a mod 16) = hex_digit (b mod 16)"
    by (simp_all add: hex4_def Let_def a_def b_def)
  with lim have eqs: "a div 4096 = b div 4096" "a div 256 mod 16 = b div 256 mod 16"
    "a div 16 mod 16 = b div 16 mod 16" "a mod 16 = b mod 16"
    using hex_digit_inj by simp_all
  have "x div 256 div 16 = x div 4096" "x div 16 div 16 = x div 256" for x :: nat
    by (simp_all flip: div_mult2_eq)
  with eqs have "a = b" by (metis div_mod_eqI)
  then show "u = v" by (simp add: word_unat_eq_iff a_def b_def)
qed simp

lemma length_hex4 [simp]: "length (hex4 u) = 4"
  by (simp add: hex4_def Let_def)

definition code_point :: "jstring \<Rightarrow> bool" where
  "code_point c \<longleftrightarrow> (\<exists>u. c = [u]) \<or> (\<exists>u v. c = [u, v] \<and> is_high_surrogate u \<and> is_low_surrogate v)"

lemma code_points_valid: "c \<in> set (code_points s) \<Longrightarrow> code_point c"
  by (induction s rule: code_points.induct) (auto simp: code_point_def split: if_splits)

lemma short_escape_Some:
  "short_escape u = Some x \<Longrightarrow> short_escape v = Some x \<Longrightarrow> u = v"
  "short_escape u = Some x \<Longrightarrow> x \<noteq> 0x75"
  "short_escape u = None \<Longrightarrow> u \<noteq> 0x5C \<and> u \<noteq> 0x22"
  by (simp_all add: short_escape_def split: if_splits)

lemma high_not_ascii: "is_high_surrogate u \<Longrightarrow> u \<noteq> 0x5C \<and> u \<noteq> 0x22"
  by (auto simp: is_high_surrogate_def)

lemma escape_pair [simp]: "escape_point [u, v] = [u, v]"
  by (simp add: escape_point_def)

lemma escape_single:
  obtains (short) x where "short_escape u = Some x" "escape_point [u] = [0x5C, x]"
  | (hex) "escape_point [u] = 0x5C # 0x75 # hex4 u"
  | (plain) "escape_point [u] = [u]" "u \<noteq> 0x5C" "u \<noteq> 0x22" "\<not> is_high_surrogate u"
proof (cases "short_escape u")
  case None
  show ?thesis
  proof (cases "u < 0x20 \<or> is_high_surrogate u \<or> is_low_surrogate u")
    case True
    with None have "escape_point [u] = 0x5C # 0x75 # hex4 u" by (auto simp: escape_point_def)
    then show ?thesis by (rule hex)
  next
    case False
    with None plain short_escape_Some(3)[of u] show ?thesis by (auto simp: escape_point_def)
  qed
next
  case (Some x)
  with short show ?thesis by (simp add: escape_point_def)
qed

lemma escape_single_prefix:
  assumes "escape_point [u] @ X = escape_point [v] @ Y"
  shows "u = v \<and> X = Y"
proof (cases u rule: escape_single)
  case (short x)
  then show ?thesis
    using assms by (cases v rule: escape_single) (auto dest: short_escape_Some(1,2))
next
  case hex
  then show ?thesis
    using assms by (cases v rule: escape_single) (auto simp: hex4_inj dest: short_escape_Some(2))
next
  case plain
  then show ?thesis using assms by (cases v rule: escape_single) auto
qed

lemma escape_mixed: "is_high_surrogate v \<Longrightarrow> escape_point [u] @ X \<noteq> [v, w] @ Y"
  by (cases u rule: escape_single) (auto dest: high_not_ascii)

lemma escape_prefix:
  assumes "code_point c" "code_point d" and "escape_point c @ X = escape_point d @ Y"
  shows "c = d \<and> X = Y"
  using assms escape_mixed[of _ _ X _ Y] escape_mixed[of _ _ Y _ X] unfolding code_point_def
  by (auto dest: escape_single_prefix) (metis append_Cons append_Nil)+

lemma escape_head:
  assumes "code_point c"
  shows "\<exists>u r. escape_point c = u # r \<and> u \<noteq> 0x22"
proof -
  have "\<exists>u r. escape_point [v] = u # r \<and> u \<noteq> 0x22" for v
    by (cases v rule: escape_single) auto
  with assms high_not_ascii show ?thesis unfolding code_point_def by fastforce
qed

lemma escapes_prefix:
  assumes "\<forall>c\<in>set cs. code_point c" "\<forall>c\<in>set ds. code_point c"
    and "concat (map escape_point cs) @ 0x22 # X = concat (map escape_point ds) @ 0x22 # Y"
  shows "cs = ds \<and> X = Y"
  using assms
proof (induction cs arbitrary: ds)
  case Nil
  then show ?case by (cases ds) (auto dest: escape_head)
next
  case (Cons c cs)
  show ?case
  proof (cases ds)
    case Nil
    with Cons.prems show ?thesis by (auto dest: escape_head)
  next
    case (Cons d ds')
    with Cons.prems escape_prefix[of c d "concat (map escape_point cs) @ 0x22 # X"
        "concat (map escape_point ds') @ 0x22 # Y"] Cons.IH[of ds']
    show ?thesis by simp
  qed
qed

lemma code_points_inj: "code_points s = code_points t \<Longrightarrow> s = t"
  by (metis concat_code_points)

lemma string_text_prefix: "string_text s @ X = string_text t @ Y \<Longrightarrow> s = t \<and> X = Y"
  using escapes_prefix[of "code_points s" "code_points t" X Y]
  by (auto simp: string_text_def code_points_valid dest: code_points_inj)

section \<open>Lemmas: the text of a number determines it\<close>

definition is_digit :: "code_unit \<Rightarrow> bool" where
  "is_digit u \<longleftrightarrow> 0x30 \<le> u \<and> u \<le> 0x39"

lemma digits_distinct: "distinct (lit ''0123456789'')"
  by (simp add: lit_def)

lemma dec_digit_inj: "dec_digit a = dec_digit b \<Longrightarrow> a < 10 \<Longrightarrow> b < 10 \<Longrightarrow> a = b"
  unfolding dec_digit_def using digits_distinct
  by (subst (asm) nth_eq_iff_index_eq) (simp_all add: lit_def)

lemma is_digit_dec_digit [simp]: "n < 10 \<Longrightarrow> is_digit (dec_digit n)"
proof -
  have "\<forall>u\<in>set (lit ''0123456789''). is_digit u" by (simp add: lit_def is_digit_def)
  moreover assume "n < 10"
  then have "dec_digit n \<in> set (lit ''0123456789'')"
    unfolding dec_digit_def by (intro nth_mem) (simp add: lit_def)
  ultimately show ?thesis by blast
qed

lemma nat_text_digits: "\<forall>u\<in>set (nat_text n). is_digit u" "nat_text n \<noteq> []"
proof -
  show "\<forall>u\<in>set (nat_text n). is_digit u"
    by (induction n rule: nat_text.induct) (subst nat_text.simps, auto)
  show "nat_text n \<noteq> []" by (subst nat_text.simps) simp
qed

lemma nat_text_inj: "nat_text a = nat_text b \<Longrightarrow> a = b"
proof (induction a arbitrary: b rule: nat_text.induct)
  case (1 a)
  consider "a < 10" "b < 10" | "a < 10" "\<not> b < 10" | "\<not> a < 10" "b < 10" | "\<not> a < 10" "\<not> b < 10"
    by blast
  then show ?case
  proof cases
    case 1
    with "1.prems" show ?thesis
      by (auto simp: nat_text.simps[of a] nat_text.simps[of b] intro: dec_digit_inj)
  next
    case 2
    with "1.prems" nat_text_digits(2)[of "b div 10"] show ?thesis
      by (simp add: nat_text.simps[of a] nat_text.simps[of b])
  next
    case 3
    with "1.prems" nat_text_digits(2)[of "a div 10"] show ?thesis
      by (simp add: nat_text.simps[of a] nat_text.simps[of b])
  next
    case 4
    with "1.prems" have "nat_text (a div 10) = nat_text (b div 10)"
      "dec_digit (a mod 10) = dec_digit (b mod 10)"
      by (simp_all add: nat_text.simps[of a] nat_text.simps[of b])
    with "1.IH"[OF 4(1), of "b div 10"] dec_digit_inj[of "a mod 10" "b mod 10"]
    have "a div 10 = b div 10" "a mod 10 = b mod 10" by simp_all
    then show ?thesis by (rule div_mod_eqI)
  qed
qed

text \<open>What may follow a value in a text: its end or a character that is no digit.\<close>

definition delimited :: "jstring \<Rightarrow> bool" where
  "delimited X \<longleftrightarrow> (case X of [] \<Rightarrow> True | u # _ \<Rightarrow> \<not> is_digit u)"

lemma digits_prefix:
  assumes "\<forall>u\<in>set a. is_digit u" "\<forall>u\<in>set b. is_digit u" "delimited X" "delimited Y"
    and "a @ X = b @ Y"
  shows "a = b \<and> X = Y"
proof -
  have "takeWhile is_digit (c @ Z) = c" if "\<forall>u\<in>set c. is_digit u" "delimited Z" for c Z
    using that by (induction c) (auto simp: delimited_def split: list.splits)
  with assms have "a = b" by metis
  with assms(5) show ?thesis by simp
qed

lemma int_text_prefix:
  assumes "int_text m @ X = int_text n @ Y" "delimited X" "delimited Y"
  shows "m = n \<and> X = Y"
proof -
  have d: "0x2D \<notin> set (nat_text k)" for k
    using nat_text_digits(1)[of k] by (auto simp: is_digit_def)
  have h: "nat_text k @ Z \<noteq> 0x2D # Z'" for k Z Z'
    using nat_text_digits(2)[of k] d[of k] by (cases "nat_text k") auto
  from assms(1) have "(m < 0) = (n < 0)"
    using h by (auto simp: int_text_def split: if_splits) metis+
  then consider "m < 0" "n < 0" | "0 \<le> m" "0 \<le> n" by linarith
  moreover have dig: "i = j \<and> X = Y" if "nat_text i @ X = nat_text j @ Y" for i j
    using digits_prefix[OF nat_text_digits(1) nat_text_digits(1) assms(2,3) that] nat_text_inj by blast
  ultimately show ?thesis
  proof cases
    case 1
    with assms(1) have "nat_text (nat (- m)) @ X = nat_text (nat (- n)) @ Y" by (simp add: int_text_def)
    from dig[OF this] 1 show ?thesis by auto
  next
    case 2
    with assms(1) have "nat_text (nat m) @ X = nat_text (nat n) @ Y" by (simp add: int_text_def)
    from dig[OF this] 2 show ?thesis by auto
  qed
qed

section \<open>Lemmas: the canonical text determines the value\<close>

text \<open>
  \<open>sort_keys\<close> orders the properties of every object; \<open>print\<close> writes a value as it stands.
\<close>

fun sort_keys :: "cjson \<Rightarrow> cjson" where
  "sort_keys (CArr vs) = CArr (map sort_keys vs)"
| "sort_keys (CObj ps) = CObj (sort_by by_key (map (\<lambda>(k, v). (k, sort_keys v)) ps))"
| "sort_keys v = v"

fun print :: "cjson \<Rightarrow> jstring" where
  "print CNull = lit ''null''"
| "print (CBool b) = (if b then lit ''true'' else lit ''false'')"
| "print (CInt n) = int_text n"
| "print (CStr s) = string_text s"
| "print (CArr vs) = lit ''['' @ join (lit '','') (map print vs) @ lit '']''"
| "print (CObj ps) =
     lit ''{'' @ join (lit '','') (map (\<lambda>(k, v). string_text k @ lit '':'' @ print v) ps) @ lit ''}''"

lemma canonical_print: "canonicalValue v = print (sort_keys v)"
proof (induction v rule: canonicalValue.induct)
  case (5 vs)
  then have "map canonicalValue vs = map print (map sort_keys vs)" by simp
  then show ?case by (simp only: canonicalValue.simps sort_keys.simps print.simps)
next
  case (6 ps)
  let ?f = "\<lambda>(k, v). (k :: jstring, print v)"
  have "map (\<lambda>(k, v). (k, canonicalValue v)) ps = map ?f (map (\<lambda>(k, v). (k, sort_keys v)) ps)"
    using 6 by auto
  moreover have "sort_by by_key (map ?f (map (\<lambda>(k, v). (k, sort_keys v)) ps)) =
      map ?f (sort_by by_key (map (\<lambda>(k, v). (k, sort_keys v)) ps))"
    by (rule sort_by_map) (auto simp: by_key_def split: prod.splits)
  ultimately have "sort_by by_key (map (\<lambda>(k, v). (k, canonicalValue v)) ps) =
      map ?f (sort_by by_key (map (\<lambda>(k, v). (k, sort_keys v)) ps))" by (rule trans[OF arg_cong])
  then show ?case unfolding canonicalValue.simps sort_keys.simps print.simps
    by (simp add: case_prod_unfold comp_def)
qed auto

lemma join_Cons: "join sep (x # xs) = x @ concat (map (\<lambda>y. sep @ y) xs)"
  by (induction xs arbitrary: x) auto

definition determined :: "('a \<Rightarrow> jstring) \<Rightarrow> 'a \<Rightarrow> bool" where
  "determined f a \<longleftrightarrow> (\<forall>b X Y. f a @ X = f b @ Y \<longrightarrow> delimited X \<longrightarrow> delimited Y \<longrightarrow> a = b \<and> X = Y)"

lemma tail_prefix:
  assumes "\<forall>a\<in>set as. determined f a" and "close \<noteq> comma" "\<not> is_digit close" "\<not> is_digit comma"
    and "concat (map (\<lambda>a. comma # f a) as) @ close # X = concat (map (\<lambda>b. comma # f b) bs) @ close # Y"
  shows "as = bs \<and> X = Y"
  using assms(1,5)
proof (induction as arbitrary: bs)
  case Nil
  with assms(2) show ?case by (cases bs) auto
next
  case (Cons a as)
  show ?case
  proof (cases bs)
    case Nil
    with Cons.prems assms(2) show ?thesis by simp
  next
    case (Cons b bs')
    have del: "delimited (concat (map (\<lambda>a. comma # f a) cs) @ close # Z)" for cs Z
      using assms(3,4) by (cases cs) (auto simp: delimited_def)
    with Cons.prems Cons have "a = b \<and> concat (map (\<lambda>a. comma # f a) as) @ close # X =
        concat (map (\<lambda>b. comma # f b) bs') @ close # Y"
      by (auto simp: determined_def)
    with Cons.IH[of bs'] Cons.prems(1) Cons show ?thesis by simp
  qed
qed

lemma join_prefix:
  assumes "\<forall>a\<in>set as. determined f a" and "close \<noteq> comma" "\<not> is_digit close" "\<not> is_digit comma"
    and "\<And>a Z Z'. f a @ Z \<noteq> close # Z'"
    and "join [comma] (map f as) @ close # X = join [comma] (map f bs) @ close # Y"
  shows "as = bs \<and> X = Y"
proof -
  have del: "delimited (concat (map (\<lambda>a. comma # f a) cs) @ close # Z)" for cs Z
    using assms(3,4) by (cases cs) (auto simp: delimited_def)
  consider "as = []" "bs = []" | b bs' where "as = []" "bs = b # bs'"
    | a as' where "as = a # as'" "bs = []" | a as' b bs' where "as = a # as'" "bs = b # bs'"
    by (metis neq_Nil_conv)
  then show ?thesis
  proof cases
    case 1
    with assms(6) show ?thesis by simp
  next
    case (2 b bs')
    with assms(6) assms(5) show ?thesis by (simp add: join_Cons) metis
  next
    case (3 a as')
    with assms(6) assms(5) show ?thesis by (simp add: join_Cons)
  next
    case (4 a as' b bs')
    with assms(6) have "f a @ (concat (map (\<lambda>a. comma # f a) as') @ close # X) =
        f b @ (concat (map (\<lambda>a. comma # f a) bs') @ close # Y)"
      by (simp add: join_Cons comp_def)
    with assms(1) 4 del have "a = b" "concat (map (\<lambda>a. comma # f a) as') @ close # X =
        concat (map (\<lambda>a. comma # f a) bs') @ close # Y"
      unfolding determined_def by (metis list.set_intros(1))+
    with tail_prefix[of as' f close comma X bs' Y] assms(1-4) 4 show ?thesis by simp
  qed
qed

lemma print_heads:
  "print CNull = 0x6E # lit ''ull''" "print (CBool True) = 0x74 # lit ''rue''"
  "print (CBool False) = 0x66 # lit ''alse''"
  "\<exists>r. print (CStr s) = 0x22 # r" "\<exists>r. print (CArr vs) = 0x5B # r" "\<exists>r. print (CObj ps) = 0x7B # r"
  by (simp_all add: lit_def string_text_def)

lemma int_text_head: "\<exists>u r. int_text n = u # r \<and> (u = 0x2D \<or> is_digit u)"
proof -
  have "\<exists>u r. nat_text k = u # r \<and> is_digit u" for k
    using nat_text_digits[of k] by (cases "nat_text k") auto
  from this[of "nat n"] show ?thesis by (cases "n < 0") (auto simp: int_text_def)
qed

fun tag :: "cjson \<Rightarrow> nat" where
  "tag CNull = 0" | "tag (CBool b) = (if b then 1 else 2)" | "tag (CInt n) = 3" | "tag (CStr s) = 4"
| "tag (CArr vs) = 5" | "tag (CObj ps) = 6"

definition unit_tag :: "code_unit \<Rightarrow> nat" where
  "unit_tag u = (if u = 0x6E then 0 else if u = 0x74 then 1 else if u = 0x66 then 2
     else if u = 0x22 then 4 else if u = 0x5B then 5 else if u = 0x7B then 6 else 3)"

lemma print_tag: "\<exists>u r. print v = u # r \<and> unit_tag u = tag v \<and> u \<noteq> 0x5D"
proof (cases v)
  case (CInt n)
  obtain u r where u: "int_text n = u # r" "u = 0x2D \<or> is_digit u" using int_text_head by blast
  then have "unit_tag u = 3 \<and> u \<noteq> 0x5D" by (auto simp: unit_tag_def is_digit_def)
  with u(1) CInt show ?thesis by simp
qed (auto simp: unit_tag_def lit_def string_text_def)

lemma print_same_tag:
  assumes "print a @ X = print b @ Y"
  shows "tag a = tag b"
  using assms print_tag[of a] print_tag[of b] by auto

lemma print_determined: "determined print a"
proof (induction a)
  case (CNull)
  show ?case unfolding determined_def
    by (intro allI impI, frule print_same_tag) (case_tac b; auto split: if_splits)
next
  case (CBool x)
  show ?case unfolding determined_def
    by (intro allI impI, frule print_same_tag) (case_tac b; auto split: if_splits)
next
  case (CInt n)
  show ?case unfolding determined_def
    by (intro allI impI, frule print_same_tag)
      (case_tac b; auto split: if_splits dest: int_text_prefix)
next
  case (CStr s)
  show ?case unfolding determined_def
    by (intro allI impI, frule print_same_tag)
      (case_tac b; auto split: if_splits dest: string_text_prefix)
next
  case (CArr vs)
  show ?case unfolding determined_def
  proof (intro allI impI)
    fix b X Y
    assume eq: "print (CArr vs) @ X = print b @ Y"
    from print_same_tag[OF eq] obtain ws where b: "b = CArr ws" by (cases b) (auto split: if_splits)
    have "vs = ws \<and> X = Y"
    proof (rule join_prefix[of vs print "0x5D" "0x2C"])
      show "print a @ Z \<noteq> 0x5D # Z'" for a Z Z' using print_tag[of a] by auto
      show "join [0x2C] (map print vs) @ 0x5D # X = join [0x2C] (map print ws) @ 0x5D # Y"
        using eq unfolding b by (simp add: lit_def)
    qed (use CArr in \<open>auto simp: is_digit_def\<close>)
    then show "CArr vs = b \<and> X = Y" by (simp add: b)
  qed
next
  case (CObj ps)
  let ?f = "\<lambda>(k, v). string_text k @ lit '':'' @ print v"
  have f: "determined ?f p" if "p \<in> set ps" for p
    unfolding determined_def
  proof (intro allI impI)
    fix q X Y
    assume eq: "?f p @ X = ?f q @ Y" and del: "delimited X" "delimited Y"
    obtain k v l w where pq: "p = (k, v)" "q = (l, w)" by (cases p, cases q)
    with eq string_text_prefix[of k _ l] have "k = l" "print v @ X = print w @ Y" by auto
    with CObj[OF that, of v] pq del show "p = q \<and> X = Y" by (auto simp: determined_def)
  qed
  show ?case unfolding determined_def
  proof (intro allI impI)
    fix b X Y
    assume eq: "print (CObj ps) @ X = print b @ Y"
    from print_same_tag[OF eq] obtain qs where b: "b = CObj qs" by (cases b) (auto split: if_splits)
    have "ps = qs \<and> X = Y"
    proof (rule join_prefix[of ps ?f "0x7D" "0x2C"])
      show "?f a @ Z \<noteq> 0x7D # Z'" for a Z Z' by (cases a) (auto simp: string_text_def)
      show "join [0x2C] (map ?f ps) @ 0x7D # X = join [0x2C] (map ?f qs) @ 0x7D # Y"
        using eq unfolding b by (simp add: lit_def)
    qed (use f in \<open>auto simp: is_digit_def\<close>)
    then show "CObj ps = b \<and> X = Y" by (simp add: b)
  qed
qed

lemma print_inj: "print a = print b \<longleftrightarrow> a = b"
proof
  assume "print a = print b"
  then have "print a @ [] = print b @ []" by simp
  moreover have "delimited []" by (simp add: delimited_def)
  ultimately show "a = b" using print_determined[of a] unfolding determined_def by blast
qed simp

lemma canonical_eq_iff: "canonicalValue a = canonicalValue b \<longleftrightarrow> sort_keys a = sort_keys b"
  unfolding canonical_print by (rule print_inj)

text \<open>The contract of a canonical digest, for the components that compare operations by it.\<close>

lemma executionOperationDigest_Inr:
  "executionOperationDigest L v = Inr d \<longleftrightarrow>
     (\<exists>t. canonicalExecutionJSON v = Inr t \<and> d = sha256Hex L t)"
  by (auto simp: executionOperationDigest_def bind_eq_Inr)

lemma canonicalExecutionJSON_Inr:
  "canonicalExecutionJSON v = Inr t \<Longrightarrow> t = canonicalValue v"
  by (auto simp: canonicalExecutionJSON_def throw_simps Let_def)

section \<open>Lemmas: room for the text\<close>

text \<open>An upper bound of the length of a canonical text that does not need the text.\<close>

fun text_bound :: "cjson \<Rightarrow> nat" where
  "text_bound CNull = 4"
| "text_bound (CBool b) = 5"
| "text_bound (CInt n) = length (int_text n)"
| "text_bound (CStr s) = 2 + 6 * length s"
| "text_bound (CArr vs) = 2 + sum_list (map (\<lambda>v. 1 + text_bound v) vs)"
| "text_bound (CObj ps) = 2 + sum_list (map (\<lambda>(k, v). 4 + 6 * length k + text_bound v) ps)"

lemma length_join: "length (join [c] xs) \<le> sum_list (map (\<lambda>x. 1 + length x) xs)"
  by (induction "[c]" xs rule: join.induct) auto

lemma length_escape: "code_point c \<Longrightarrow> length (escape_point c) \<le> 6 * length c"
proof -
  have "length (escape_point [u]) \<le> 6" for u by (cases u rule: escape_single) auto
  then show "code_point c \<Longrightarrow> length (escape_point c) \<le> 6 * length c" by (auto simp: code_point_def)
qed

lemma length_string_text: "length (string_text s) \<le> 2 + 6 * length s"
proof -
  have "length (concat (map escape_point cs)) \<le> 6 * length (concat cs)" if "\<forall>c\<in>set cs. code_point c" for cs
    using that by (induction cs) (auto dest!: length_escape)
  from this[of "code_points s"] code_points_valid show ?thesis by (auto simp: string_text_def)
qed

lemma sum_list_sort_by: "sum_list (map f (sort_by cmp xs)) = sum_list (map (f :: 'a \<Rightarrow> nat) xs)"
proof -
  have "sum_list (map f (insert_by cmp x ys)) = f x + sum_list (map f ys)" for x ys
    by (induction ys) auto
  then show ?thesis by (induction xs) (auto simp: sort_by_Cons)
qed

lemma canonical_length: "length (canonicalValue v) \<le> text_bound v"
proof (induction v rule: canonicalValue.induct)
  case (4 s)
  then show ?case using length_string_text[of s] by simp
next
  case (5 vs)
  have "length (join [0x2C] (map canonicalValue vs)) \<le> sum_list (map (\<lambda>v. 1 + length (canonicalValue v)) vs)"
    using length_join[of "0x2C" "map canonicalValue vs"] by (simp add: comp_def)
  also have "\<dots> \<le> sum_list (map (\<lambda>v. 1 + text_bound v) vs)"
    using 5 by (intro sum_list_mono) auto
  finally show ?case by (simp add: lit_def)
next
  case (6 ps)
  let ?e = "\<lambda>(k, t). string_text k @ 0x3A # t"
  let ?ts = "map (\<lambda>(k, v). (k, canonicalValue v)) ps"
  have "length (join [0x2C] (map ?e (sort_by by_key ?ts))) \<le>
      sum_list (map (\<lambda>x. 1 + length (?e x)) (sort_by by_key ?ts))"
    using length_join[of "0x2C" "map ?e (sort_by by_key ?ts)"] by (simp add: comp_def)
  also have "\<dots> = sum_list (map (\<lambda>x. 1 + length (?e x)) ?ts)" by (rule sum_list_sort_by)
  also have "\<dots> = sum_list (map (\<lambda>(k, v). 2 + length (string_text k) + length (canonicalValue v)) ps)"
    by (simp add: comp_def case_prod_unfold)
  also have "\<dots> \<le> sum_list (map (\<lambda>(k, v). 4 + 6 * length k + text_bound v) ps)"
  proof (intro sum_list_mono, clarify)
    fix k v assume "(k, v) \<in> set ps"
    with 6[of "(k, v)" k v] have "length (canonicalValue v) \<le> text_bound v" by simp
    with length_string_text[of k]
    show "2 + length (string_text k) + length (canonicalValue v) \<le> 4 + 6 * length k + text_bound v"
      by linarith
  qed
  finally show ?case by (simp add: lit_def)
qed (simp_all add: lit_def)

lemma utf8_length_le: "utf8_length s \<le> 4 * int (length s)"
proof -
  have "utf8_bytes c \<le> 4" for c by (auto simp: utf8_bytes_def split: list.splits)
  then have "sum_list (map utf8_bytes cs) \<le> 4 * int (length cs)" for cs
    by (induction cs) (auto intro: add_mono)
  from this[of "code_points s"] length_code_points_le[of s] show ?thesis
    unfolding utf8_length_def by linarith
qed

lemma digest_exists:
  assumes "assertPlainJSON v = Inr ()" "4 * int (text_bound v) \<le> maximumBytes"
  shows "\<exists>d. executionOperationDigest L v = Inr d"
proof -
  have "utf8_length (canonicalValue v) \<le> maximumBytes"
    using utf8_length_le[of "canonicalValue v"] canonical_length[of v] assms(2) by linarith
  with assms(1) show ?thesis
    by (simp add: executionOperationDigest_def canonicalExecutionJSON_def Let_def ensure_def)
qed

section \<open>Lemmas: values that fit\<close>

text \<open>
  A value fits when its strings and numbers are plain, it is shallow, and its weight, which
  bounds the number of visited values and the bytes of visited text, is small. Such a value has
  a digest.
\<close>

fun plain_value :: "cjson \<Rightarrow> bool" where
  "plain_value CNull = True"
| "plain_value (CBool b) = True"
| "plain_value (CInt n) = is_safe_integer n"
| "plain_value (CStr s) = isWellFormed s"
| "plain_value (CArr vs) = (list_all plain_value vs \<and> int (length vs) \<le> maximumValues)"
| "plain_value (CObj ps) = list_all (\<lambda>(k, v). \<not> forbidden_key k \<and> isWellFormed k \<and> plain_value v) ps"

fun height :: "cjson \<Rightarrow> nat" where
  "height (CArr vs) = Suc (foldr (\<lambda>v n. max (height v) n) vs 0)"
| "height (CObj ps) = Suc (foldr (\<lambda>(k, v) n. max (height v) n) ps 0)"
| "height v = 0"

fun weight :: "cjson \<Rightarrow> nat" where
  "weight CNull = 3"
| "weight (CBool b) = 3"
| "weight (CInt n) = 17"
| "weight (CStr s) = 1 + 4 * length s"
| "weight (CArr vs) = 1 + sum_list (map weight vs) + length vs * (1 + 4 * length vs)"
| "weight (CObj ps) = 1 + sum_list (map (\<lambda>(k, v). 2 + 4 * length k + weight v) ps)"

lemma length_nat_text: "length (nat_text n) \<le> Suc n"
proof (induction n rule: nat_text.induct)
  case (1 n)
  then show ?case by (cases "n < 10") (auto simp: nat_text.simps[of n])
qed

lemma length_nat_text_digits: "n < 10 ^ Suc k \<Longrightarrow> length (nat_text n) \<le> Suc k"
proof (induction k arbitrary: n)
  case 0
  then show ?case by (simp add: nat_text.simps)
next
  case (Suc k)
  have "n div 10 < 10 ^ Suc k" using Suc.prems by (simp add: less_mult_imp_div_less mult.commute)
  from Suc.IH[OF this] show ?case by (simp add: nat_text.simps[of n])
qed

lemma code_points_single: "\<forall>u\<in>set s. \<not> is_high_surrogate u \<Longrightarrow> code_points s = map (\<lambda>u. [u]) s"
  by (induction s rule: code_points.induct) auto

lemma wellformed_low: "\<forall>u\<in>set s. u < 0xD800 \<Longrightarrow> isWellFormed s"
proof -
  assume low: "\<forall>u\<in>set s. u < 0xD800"
  then have "\<forall>u\<in>set s. \<not> is_high_surrogate u \<and> \<not> is_low_surrogate u"
    by (auto simp: is_high_surrogate_def is_low_surrogate_def word_le_nat_alt word_less_nat_alt)
  then show ?thesis by (simp add: isWellFormed_def code_points_single)
qed

lemma lit_unit: "u \<in> set (lit s) \<Longrightarrow> u < 0x100"
proof -
  assume "u \<in> set (lit s)"
  then obtain c :: char where u: "u = of_char c" by (auto simp: lit_def)
  have "u = of_nat (of_char c)" using u by (simp add: of_nat_of_char)
  moreover have "(of_char c :: nat) < 256" by (rule nat_of_char_less_256)
  then have "(of_char c :: nat) mod 65536 < 256" by (rule le_less_trans[OF mod_less_eq_dividend])
  ultimately show "u < 0x100" by (simp add: word_less_nat_alt unat_of_nat)
qed

lemma wellformed_lit [simp]: "isWellFormed (lit s)"
proof (rule wellformed_low, rule ballI)
  fix u assume "u \<in> set (lit s)"
  from lit_unit[OF this] show "u < 0xD800" by (rule order.strict_trans) simp
qed

lemma length_lit [simp]: "length (lit s) = length s"
  by (simp add: lit_def)

lemma nat_text_wellformed: "isWellFormed (nat_text n)"
proof (rule wellformed_low, rule ballI)
  fix u assume "u \<in> set (nat_text n)"
  with nat_text_digits(1)[of n] have "is_digit u" by blast
  then show "u < 0xD800" by (simp add: is_digit_def word_le_nat_alt word_less_nat_alt)
qed

definition fits_in :: "int \<Rightarrow> nat \<Rightarrow> nat \<Rightarrow> visit_state \<Rightarrow> visit_state throwing \<Rightarrow> bool" where
  "fits_in depth h w st run \<longleftrightarrow>
     (depth + int h \<le> 24 \<and> fst st + int w \<le> maximumValues \<and> snd st + int w \<le> maximumBytes \<longrightarrow>
      (\<exists>c b. run = Inr (c, b) \<and> c \<le> fst st + int w \<and> b \<le> snd st + int w))"

lemma fits_inI:
  assumes "depth + int h \<le> 24 \<Longrightarrow> fst st + int w \<le> maximumValues \<Longrightarrow> snd st + int w \<le> maximumBytes \<Longrightarrow>
      \<exists>c b. run = Inr (c, b) \<and> c \<le> fst st + int w \<and> b \<le> snd st + int w"
  shows "fits_in depth h w st run"
  using assms by (simp add: fits_in_def)

lemma fits_in_mono: "fits_in depth h w st run \<Longrightarrow> h \<le> h' \<Longrightarrow> w \<le> w' \<Longrightarrow> fits_in depth h' w' st run"
  unfolding fits_in_def by force

lemma fits_in_bind:
  assumes "fits_in depth h v st m" and "\<And>st'. fits_in depth h w st' (f st')"
  shows "fits_in depth h (v + w) st (bind m f)"
proof (rule fits_inI)
  assume room: "depth + int h \<le> 24" "fst st + int (v + w) \<le> maximumValues" "snd st + int (v + w) \<le> maximumBytes"
  with assms(1) obtain c b where m: "m = Inr (c, b)" "c \<le> fst st + int v" "b \<le> snd st + int v"
    unfolding fits_in_def by force
  with room assms(2)[of "(c, b)"] obtain c' b' where "f (c, b) = Inr (c', b')" "c' \<le> c + int w" "b' \<le> b + int w"
    unfolding fits_in_def by force
  with m show "\<exists>c b. bind m f = Inr (c, b) \<and> c \<le> fst st + int (v + w) \<and> b \<le> snd st + int (v + w)"
    by simp
qed

lemma fits_value: "fits_in depth 0 1 st (visit_value depth st)"
  by (rule fits_inI) (simp add: visit_value_def ensure_def)

lemma fits_string: "isWellFormed t \<Longrightarrow> fits_in depth 0 (1 + 4 * length t) st (visit_string t depth st)"
  using utf8_length_le[of t]
  by (intro fits_inI) (auto simp: visit_string_def visit_value_def Let_def ensure_def)

lemma fits_deeper: "fits_in (depth + 1) h w st run \<Longrightarrow> fits_in depth (Suc h) w st run"
  unfolding fits_in_def by force

lemma fits_done: "fits_in depth h 0 st (Inr st)"
  by (rule fits_inI) (cases st, simp)

lemma fits_ensure: "c \<Longrightarrow> fits_in depth h w st (f ()) \<Longrightarrow> fits_in depth h w st (bind (ensure c e) f)"
  by (simp add: ensure_def)

lemma visit_fits:
  "plain_value v \<Longrightarrow> fits_in depth (height v) (weight v) st (visit v depth st)"
  "list_all plain_value vs \<Longrightarrow>
   fits_in depth (height (CArr vs)) (sum_list (map weight vs) + length vs * (1 + 4 * (i + length vs))) st
     (visit_items i vs depth st)"
  "plain_value (CObj ps) \<Longrightarrow> fits_in depth (height (CObj ps))
     (sum_list (map (\<lambda>(k, v). 2 + 4 * length k + weight v) ps)) st (visit_entries ps depth st)"
proof (induction v depth st and i vs depth st and ps depth st rule: visit_visit_items_visit_entries.induct)
  case (1 depth st)
  show ?case using fits_in_mono[OF fits_value] by simp
next
  case (2 b depth st)
  show ?case using fits_in_mono[OF fits_value] by simp
next
  case (3 n depth st)
  have "fits_in depth 0 (1 + 0) st (visit (CInt n) depth st)"
    unfolding visit.simps using 3 by (intro fits_in_bind[OF fits_value] fits_ensure fits_done) simp
  then show ?case by (rule fits_in_mono) simp_all
next
  case (4 s depth st)
  then show ?case using fits_string by simp
next
  case (5 vs depth st)
  have "fits_in depth (height (CArr vs)) (1 + (sum_list (map weight vs) + length vs * (1 + 4 * length vs))) st
      (visit (CArr vs) depth st)"
    unfolding visit.simps
  proof (intro fits_in_bind fits_ensure)
    show "fits_in depth (height (CArr vs)) 1 st (visit_value depth st)"
      by (rule fits_in_mono[OF fits_value]) simp_all
    show "int (length vs) \<le> maximumValues" using 5 by simp
    show "fits_in depth (height (CArr vs)) (sum_list (map weight vs) + length vs * (1 + 4 * length vs)) st'
        (visit_items 0 vs depth st')" for st'
      using 5 by simp
  qed
  then show ?case by simp
next
  case (6 ps depth st)
  have "fits_in depth (height (CObj ps)) (1 + sum_list (map (\<lambda>(k, v). 2 + 4 * length k + weight v) ps)) st
      (visit (CObj ps) depth st)"
    unfolding visit.simps
    by (intro fits_in_bind fits_in_mono[OF fits_value] 6) (use 6 in simp_all)
  then show ?case by simp
next
  case (7 i depth st)
  then show ?case using fits_done by simp
next
  case (8 i v vs depth st)
  let ?n = "i + length (v # vs)" and ?h = "height (CArr (v # vs))"
  have key: "fits_in depth ?h (1 + 4 * ?n) st (visit_string (nat_text i) (depth + 1) st)"
    by (rule fits_in_mono[OF fits_deeper[OF fits_string]])
      (use length_nat_text[of i] in \<open>simp_all add: nat_text_wellformed\<close>)
  have val: "fits_in depth ?h (weight v) st' (visit v (depth + 1) st')" for st'
  proof -
    have "fits_in (depth + 1) (height v) (weight v) st' (visit v (depth + 1) st')" using 8 by (cases st') simp
    from fits_in_mono[OF fits_deeper[OF this]] show ?thesis by simp
  qed
  have rest: "fits_in depth ?h (sum_list (map weight vs) + length vs * (1 + 4 * ?n)) st'
      (visit_items (Suc i) vs depth st')" for st'
  proof -
    have "fits_in depth (height (CArr vs)) (sum_list (map weight vs) + length vs * (1 + 4 * ?n)) st'
        (visit_items (Suc i) vs depth st')" using 8 by (cases st') simp
    from fits_in_mono[OF this] show ?thesis by simp
  qed
  have "fits_in depth ?h (1 + 4 * ?n + (weight v + (sum_list (map weight vs) + length vs * (1 + 4 * ?n)))) st
      (visit_items i (v # vs) depth st)"
    unfolding visit_items.simps by (intro fits_in_bind key val rest)
  then show ?case by (rule fits_in_mono) simp_all
next
  case (9 depth st)
  then show ?case using fits_done by simp
next
  case (10 k v ps depth st)
  let ?h = "height (CObj ((k, v) # ps))"
  have key: "fits_in depth ?h (1 + 4 * length k) st (visit_string k (depth + 1) st)"
    by (rule fits_in_mono[OF fits_deeper[OF fits_string]]) (use 10 in simp_all)
  have val: "fits_in depth ?h (weight v) st' (visit v (depth + 1) st')" for st'
  proof -
    have "fits_in (depth + 1) (height v) (weight v) st' (visit v (depth + 1) st')" using 10 by (cases st') simp
    from fits_in_mono[OF fits_deeper[OF this]] show ?thesis by simp
  qed
  have rest: "fits_in depth ?h (sum_list (map (\<lambda>(k, v). 2 + 4 * length k + weight v) ps)) st'
      (visit_entries ps depth st')" for st'
  proof -
    have "fits_in depth (height (CObj ps)) (sum_list (map (\<lambda>(k, v). 2 + 4 * length k + weight v) ps)) st'
        (visit_entries ps depth st')" using 10 by (cases st') simp
    from fits_in_mono[OF this] show ?thesis by simp
  qed
  have "fits_in depth ?h (1 + 4 * length k + (weight v +
      sum_list (map (\<lambda>(k, v). 2 + 4 * length k + weight v) ps))) st (visit_entries ((k, v) # ps) depth st)"
    unfolding visit_entries.simps by (intro fits_ensure fits_in_bind key val rest) (use 10 in simp)
  then show ?case by (rule fits_in_mono) simp_all
qed

lemma text_bound_weight: "plain_value v \<Longrightarrow> text_bound v \<le> 2 * weight v"
proof (induction v rule: plain_value.induct)
  case (3 n)
  then have "nat \<bar>n\<bar> < 10 ^ Suc 15" by (simp add: is_safe_integer_def max_safe_integer_def)
  from length_nat_text_digits[OF this] show ?case by (auto simp: int_text_def)
next
  case (5 vs)
  have "sum_list (map (\<lambda>v. 1 + text_bound v) vs) \<le> sum_list (map (\<lambda>v. 1 + 2 * weight v) vs)"
    using 5 by (intro sum_list_mono) (auto simp: list_all_iff)
  also have "\<dots> \<le> length vs + 2 * sum_list (map weight vs)" by (induction vs) auto
  finally show ?case by simp
next
  case (6 ps)
  have "sum_list (map (\<lambda>(k, v). 4 + 6 * length k + text_bound v) ps) \<le>
      sum_list (map (\<lambda>(k, v). 2 * (2 + 4 * length k + weight v)) ps)"
    using 6 by (intro sum_list_mono) (fastforce simp: list_all_iff)
  also have "\<dots> = 2 * sum_list (map (\<lambda>(k, v). 2 + 4 * length k + weight v) ps)" by (induction ps) auto
  finally show ?case by simp
qed simp_all

definition room :: "cjson \<Rightarrow> bool" where
  "room v \<longleftrightarrow> plain_value v \<and> height v \<le> 24 \<and> weight v \<le> 30000"

lemma room_digest:
  assumes "room v"
  shows "\<exists>d. executionOperationDigest L v = Inr d"
proof (rule digest_exists)
  show "assertPlainJSON v = Inr ()"
    using visit_fits(1)[of v 0 "(0, 0)"] assms
    by (auto simp: room_def fits_in_def assertPlainJSON_def maximumValues_def maximumBytes_def)
  show "4 * int (text_bound v) \<le> maximumBytes"
    using text_bound_weight[of v] assms by (simp add: room_def maximumBytes_def)
qed

section \<open>Properties\<close>

text \<open>
  (C33) Two contract values have the same canonical text exactly when they differ only in the
  order of the properties of their objects: the text depends on nothing else and loses nothing.
\<close>

theorem canonical_text_exact:
  "canonicalValue a = canonicalValue b \<longleftrightarrow> sort_keys a = sort_keys b"
  by (rule canonical_eq_iff)

text \<open>
  Where SHA-256 does not collide on their two texts, equal operation digests mean the same
  operation up to the order of properties; and reordered operations have equal digests.
\<close>

theorem operation_digest_binding:
  assumes "sha256Hex L (canonicalValue a) = sha256Hex L (canonicalValue b) \<longrightarrow>
      canonicalValue a = canonicalValue b"
    and "executionOperationDigest L a = Inr d" and "executionOperationDigest L b = Inr e"
  shows "d = e \<longleftrightarrow> sort_keys a = sort_keys b"
proof -
  have "d = sha256Hex L (canonicalValue a)" "e = sha256Hex L (canonicalValue b)"
    using assms(2,3) by (auto simp: executionOperationDigest_Inr dest: canonicalExecutionJSON_Inr)
  then show ?thesis using assms(1) canonical_eq_iff[of a b] by auto
qed

theorem operation_digest_binding_witness:
  "\<exists>d e. executionOperationDigest ascii_lib (CObj [(lit ''b'', CInt 1), (lit ''a'', CNull)]) = Inr d \<and>
     executionOperationDigest ascii_lib (CObj [(lit ''a'', CNull), (lit ''b'', CInt 1)]) = Inr e \<and> d = e"
proof -
  have "\<exists>d. executionOperationDigest ascii_lib v = Inr d"
    if "v = CObj [(lit ''b'', CInt 1), (lit ''a'', CNull)] \<or> v = CObj [(lit ''a'', CNull), (lit ''b'', CInt 1)]"
    for v
    using that by (intro room_digest) (auto simp: room_def forbidden_key_def is_safe_integer_def max_safe_integer_def)
  then obtain d e where
    "executionOperationDigest ascii_lib (CObj [(lit ''b'', CInt 1), (lit ''a'', CNull)]) = Inr d"
    "executionOperationDigest ascii_lib (CObj [(lit ''a'', CNull), (lit ''b'', CInt 1)]) = Inr e"
    by blast
  note run = this
  have keys: "sort_keys (CObj [(lit ''b'', CInt 1), (lit ''a'', CNull)]) =
      sort_keys (CObj [(lit ''a'', CNull), (lit ''b'', CInt 1)])"
    by (simp add: sort_by_def by_key_def binaryCompare_def lit_def)
  with run have "d = e"
    using operation_digest_binding[of ascii_lib "CObj [(lit ''b'', CInt 1), (lit ''a'', CNull)]"
        "CObj [(lit ''a'', CNull), (lit ''b'', CInt 1)]" d e]
    unfolding canonical_eq_iff by blast
  with run show ?thesis by blast
qed

end
