(* ===== verification/Participant_Selector.thy ===== *)
theory Participant_Selector
  imports Progress_Evaluator Canonical_JSON
begin

text \<open>
  Selection of the participants of a Wave
  (\<^verbatim>\<open>apps/server/src/discussion/discussion-participant-selector.ts\<close>): who speaks next, why, and
  the signed snapshot of the choice. Every selection is asserted before it is returned; the
  properties show that the assertion never fires, which reviewer and which limits a selection
  respects, and that the arrival order of the candidates does not matter.

  The test \<^verbatim>\<open>candidate === reviewer\<close> is equality of candidates; the candidates of a Wave have
  distinct agents, so it agrees with identity.
\<close>

section \<open>Candidates and snapshots\<close>

datatype task_role = TR_primary | TR_contributor | TR_reviewer

record DiscussionParticipantCandidate =
  cd_participant :: DiscussionParticipant
  cd_agentRole :: jstring
  cd_taskRole :: "task_role option"
  cd_reportedQuestionIds :: "jstring list"

record DiscussionParticipantSelection =
  ps_participants :: "DiscussionParticipant list"
  ps_snapshot :: DiscussionWaveSelection

fun task_role_text :: "task_role option \<Rightarrow> jstring" where
  "task_role_text None = []"
| "task_role_text (Some TR_primary) = lit ''primary''"
| "task_role_text (Some TR_contributor) = lit ''contributor''"
| "task_role_text (Some TR_reviewer) = lit ''reviewer''"

fun strategy_text :: "selection_strategy \<Rightarrow> jstring" where
  "strategy_text Strat_all_eligible = lit ''all_eligible''"
| "strategy_text Strat_question_focused = lit ''question_focused''"
| "strategy_text Strat_finalizer = lit ''finalizer''"

fun role_text :: "participant_role \<Rightarrow> jstring" where
  "role_text Role_participant = lit ''participant''"
| "role_text Role_reviewer = lit ''reviewer''"

fun reason_text :: "DiscussionSelectionReason \<Rightarrow> jstring" where
  "reason_text Why_all_member_policy = lit ''all_member_policy''"
| "reason_text Why_no_focus_questions = lit ''no_focus_questions''"
| "reason_text Why_no_deterministic_match = lit ''no_deterministic_match''"
| "reason_text Why_question_reporter = lit ''question_reporter''"
| "reason_text Why_role_match = lit ''role_match''"
| "reason_text Why_required_reviewer = lit ''required_reviewer''"
| "reason_text Why_finalizer_reviewer = lit ''finalizer_reviewer''"
| "reason_text Why_finalizer_primary = lit ''finalizer_primary''"
| "reason_text Why_finalizer_ordinal = lit ''finalizer_ordinal''"

definition genericRoleTerms :: "jstring list" where
  "genericRoleTerms = map lit [''agent'', ''assistant'', ''contributor'', ''developer'',
    ''engineer'', ''participant'', ''primary'']"

abbreviation strings :: "jstring list \<Rightarrow> cjson" where
  "strings xs \<equiv> CArr (map CStr xs)"

definition explanation_fields :: "DiscussionSelectionExplanation \<Rightarrow> cjson" where
  "explanation_fields e = CArr [CStr (ex_agentId e), strings (map reason_text (ex_reasons e)),
     strings (ex_reportedQuestionIds e), strings (ex_matchedRoleTerms e)]"

text \<open>
  The fields are arrays, strings and integers, on which \<^verbatim>\<open>JSON.stringify\<close> and the canonical text
  agree; absent explanations of a version 2 snapshot are written \<^verbatim>\<open>null\<close>.
\<close>

definition canonicalSelection :: "DiscussionWaveSelection \<Rightarrow> jstring" where
  "canonicalSelection s = canonicalValue (CArr (
     [CInt (sel_version s), CStr (strategy_text (sel_strategy s)), strings (sel_focusQuestionIds s),
      strings (sel_eligibleAgentIds s), strings (sel_selectedAgentIds s),
      strings (map role_text (sel_requiredRoles s)), CInt (sel_focusedParticipantLimit s)] @
     (if sel_version s = 2
      then [case sel_explanations s of None \<Rightarrow> CNull | Some es \<Rightarrow> CArr (map explanation_fields es)]
      else [])))"

definition createDiscussionWaveSelection ::
  "text_lib \<Rightarrow> DiscussionWaveSelection \<Rightarrow> DiscussionWaveSelection" where
  "createDiscussionWaveSelection L s = s\<lparr>sel_selectionDigest := sha256Hex L (canonicalSelection s)\<rparr>"

definition allowed_reasons :: "selection_strategy \<Rightarrow> DiscussionSelectionReason list" where
  "allowed_reasons strategy =
    (if strategy = Strat_finalizer
     then [Why_finalizer_reviewer, Why_finalizer_primary, Why_finalizer_ordinal]
     else if strategy = Strat_all_eligible
     then [Why_all_member_policy, Why_no_focus_questions, Why_no_deterministic_match]
     else [Why_question_reporter, Why_role_match, Why_required_reviewer])"

definition uniqueStrings :: "jstring list \<Rightarrow> bool" where
  "uniqueStrings values \<longleftrightarrow>
    (\<forall>v\<in>set values. length (trim v) > 0) \<and> length (js_set values) = length values"

definition valid_explanation ::
  "DiscussionWaveSelection \<Rightarrow> DiscussionSelectionExplanation \<Rightarrow> jstring \<Rightarrow> bool" where
  "valid_explanation s e agentId \<longleftrightarrow>
    ex_agentId e = agentId \<and>
    length (js_set (ex_reasons e)) = length (ex_reasons e) \<and> length (ex_reasons e) > 0 \<and>
    (\<forall>r\<in>set (ex_reasons e). r \<in> set (allowed_reasons (sel_strategy s))) \<and>
    (sel_strategy s = Strat_question_focused \<or> length (ex_reasons e) = 1) \<and>
    uniqueStrings (ex_reportedQuestionIds e) \<and>
    (\<forall>i\<in>set (ex_reportedQuestionIds e). i \<in> set (sel_focusQuestionIds s)) \<and>
    uniqueStrings (ex_matchedRoleTerms e) \<and>
    (Why_question_reporter \<in> set (ex_reasons e)) = (length (ex_reportedQuestionIds e) > 0) \<and>
    (Why_role_match \<in> set (ex_reasons e)) = (length (ex_matchedRoleTerms e) > 0) \<and>
    (Why_required_reviewer \<notin> set (ex_reasons e) \<or> Role_reviewer \<in> set (sel_requiredRoles s))"

definition validExplanations :: "DiscussionWaveSelection \<Rightarrow> bool" where
  "validExplanations s =
    (if sel_version s = 1 then sel_explanations s = None
     else case sel_explanations s of
       None \<Rightarrow> False
     | Some entries \<Rightarrow>
         length entries = length (sel_selectedAgentIds s) \<and>
         (\<forall>(e, agentId)\<in>set (zip entries (sel_selectedAgentIds s)). valid_explanation s e agentId))"

definition is_hex64 :: "jstring \<Rightarrow> bool" where
  "is_hex64 s \<longleftrightarrow> length s = 64 \<and>
     (\<forall>u\<in>set s. (0x61 \<le> u \<and> u \<le> 0x66) \<or> (0x30 \<le> u \<and> u \<le> 0x39))"

definition assertDiscussionWaveSelection ::
  "text_lib \<Rightarrow> DiscussionWaveSelection \<Rightarrow> jstring list option \<Rightarrow> unit throwing" where
  "assertDiscussionWaveSelection L s turnAgentIds =
    ensure (\<not> (
      \<not> (sel_version s = 1 \<or> sel_version s = 2) \<or>
      \<not> validExplanations s \<or>
      \<not> is_safe_integer (sel_focusedParticipantLimit s) \<or>
      sel_focusedParticipantLimit s < 2 \<or> sel_focusedParticipantLimit s > 5 \<or>
      \<not> is_hex64 (sel_selectionDigest s) \<or>
      sel_selectionDigest s \<noteq> sha256Hex L (canonicalSelection s) \<or>
      (\<exists>i\<in>set (sel_focusQuestionIds s). length (trim i) = 0) \<or>
      (\<exists>i\<in>set (sel_eligibleAgentIds s). length (trim i) = 0) \<or>
      (\<exists>i\<in>set (sel_selectedAgentIds s). length (trim i) = 0) \<or>
      length (js_set (sel_focusQuestionIds s)) \<noteq> length (sel_focusQuestionIds s) \<or>
      sel_focusQuestionIds s \<noteq> sort_by (localeCompare L) (sel_focusQuestionIds s) \<or>
      length (js_set (sel_eligibleAgentIds s)) \<noteq> length (sel_eligibleAgentIds s) \<or>
      length (js_set (sel_selectedAgentIds s)) \<noteq> length (sel_selectedAgentIds s) \<or>
      length (sel_selectedAgentIds s) = 0 \<or>
      (\<exists>a\<in>set (sel_selectedAgentIds s). a \<notin> set (sel_eligibleAgentIds s)) \<or>
      (\<exists>r\<in>set (sel_requiredRoles s). r \<noteq> Role_reviewer) \<or>
      length (js_set (sel_requiredRoles s)) \<noteq> length (sel_requiredRoles s) \<or>
      (sel_strategy s = Strat_all_eligible \<and> sel_selectedAgentIds s \<noteq> sel_eligibleAgentIds s) \<or>
      (sel_strategy s = Strat_question_focused \<and> length (sel_focusQuestionIds s) = 0) \<or>
      (sel_strategy s = Strat_question_focused \<and>
        int (length (sel_selectedAgentIds s)) > sel_focusedParticipantLimit s) \<or>
      (sel_strategy s = Strat_finalizer \<and> length (sel_selectedAgentIds s) \<noteq> 1) \<or>
      (case turnAgentIds of None \<Rightarrow> False | Some ids \<Rightarrow> sel_selectedAgentIds s \<noteq> ids)))
    (Error ''Discussion Wave selection snapshot is invalid'')"

section \<open>Choosing the participants\<close>

definition normalized :: "text_lib \<Rightarrow> jstring \<Rightarrow> jstring" where
  "normalized L value = toLowerEnUS L (normalizeNFKC L value)"

text \<open>\<^verbatim>\<open>match(/[\p{L}\p{N}]+/gu)\<close>: the maximal runs of letters and numbers.\<close>

fun term_runs :: "(jstring \<Rightarrow> bool) \<Rightarrow> jstring \<Rightarrow> jstring list \<Rightarrow> jstring list" where
  "term_runs p run [] = (if run = [] then [] else [run])"
| "term_runs p run (c # cs) =
     (if p c then term_runs p (run @ c) cs
      else (if run = [] then [] else [run]) @ term_runs p [] cs)"

definition roleTerms :: "text_lib \<Rightarrow> DiscussionParticipantCandidate \<Rightarrow> jstring list" where
  "roleTerms L candidate =
    (let text = normalized L (cd_agentRole candidate @ [0x20] @ task_role_text (cd_taskRole candidate));
         terms = term_runs (\<lambda>c. isLetter L c \<or> isNumber L c) [] (code_points text)
     in js_set (filter (\<lambda>term. term \<notin> set genericRoleTerms \<and>
          (length (code_points term) \<ge> 3 \<or> (\<exists>u\<in>set term. u > 0x7F))) terms))"

definition highestPriorityQuestions :: "text_lib \<Rightarrow> OpenQuestion list \<Rightarrow> OpenQuestion list" where
  "highestPriorityQuestions L questions =
    (let highest = foldl (\<lambda>rank q. max rank (importanceRank (oq_importance q))) (-1) questions
     in sort_by (\<lambda>l r. or_else (localeCompare L (oq_id l) (oq_id r))
                               (localeCompare L (oq_question l) (oq_question r)))
          (filter (\<lambda>q. importanceRank (oq_importance q) = highest) questions))"

definition requiredReviewer ::
  "DiscussionRecord \<Rightarrow> DiscussionParticipantCandidate list \<Rightarrow> DiscussionParticipantCandidate option"
where
  "requiredReviewer discussion candidates =
    (if d_mode discussion \<noteq> Mode_review \<and> \<not> requireReviewer (d_policy discussion) then None
     else List.find (\<lambda>c. p_role (cd_participant c) = Role_reviewer) candidates)"

definition explain ::
  "DiscussionParticipantCandidate \<Rightarrow> DiscussionSelectionReason \<Rightarrow> DiscussionSelectionExplanation"
where
  "explain candidate reason =
    \<lparr>ex_agentId = p_agentId (cd_participant candidate), ex_reasons = [reason],
     ex_reportedQuestionIds = [], ex_matchedRoleTerms = []\<rparr>"

definition selection_snapshot ::
  "text_lib \<Rightarrow> selection_strategy \<Rightarrow> DiscussionSelectionExplanation list \<Rightarrow> OpenQuestion list \<Rightarrow>
     DiscussionParticipantCandidate list \<Rightarrow> DiscussionParticipantCandidate list \<Rightarrow> bool \<Rightarrow> int \<Rightarrow>
     DiscussionParticipantSelection throwing" where
  "selection_snapshot L strategy explanations questions candidates selected reviewerRequired limit =
    (let value = createDiscussionWaveSelection L
       \<lparr>sel_version = 2, sel_explanations = Some explanations, sel_strategy = strategy,
        sel_focusQuestionIds = map oq_id questions,
        sel_eligibleAgentIds = map (\<lambda>c. p_agentId (cd_participant c)) candidates,
        sel_selectedAgentIds = map (\<lambda>c. p_agentId (cd_participant c)) selected,
        sel_requiredRoles = (if reviewerRequired then [Role_reviewer] else []),
        sel_focusedParticipantLimit = limit, sel_selectionDigest = []\<rparr>
     in bind (assertDiscussionWaveSelection L value None) (\<lambda>_.
        Inr \<lparr>ps_participants = map cd_participant selected, ps_snapshot = value\<rparr>))"

definition text_includes :: "jstring \<Rightarrow> jstring \<Rightarrow> bool" where
  "text_includes text part \<longleftrightarrow>
    (\<exists>i\<in>set [0..<Suc (length text)]. take (length part) (drop i text) = part)"

text \<open>\<^verbatim>\<open>slice(0, n)\<close>\<close>

definition slice_to :: "int \<Rightarrow> 'a list \<Rightarrow> 'a list" where
  "slice_to n xs = (if n \<ge> 0 then take (nat n) xs else take (length xs - nat (- n)) xs)"

definition candidate_score ::
  "text_lib \<Rightarrow> jstring list \<Rightarrow> jstring \<Rightarrow> DiscussionParticipantCandidate \<Rightarrow> int" where
  "candidate_score L questionIds questionText candidate =
    (let reports = length (filter (\<lambda>i. i \<in> set questionIds) (cd_reportedQuestionIds candidate));
         matches = length (filter (text_includes questionText) (roleTerms L candidate))
     in int reports * 100 + int matches * 10)"

definition scored_candidates ::
  "text_lib \<Rightarrow> jstring list \<Rightarrow> jstring \<Rightarrow> DiscussionParticipantCandidate list \<Rightarrow>
     (DiscussionParticipantCandidate \<times> int) list" where
  "scored_candidates L questionIds questionText candidates =
    sort_by (\<lambda>l r. or_else (snd r - snd l)
                     (p_ordinal (cd_participant (fst l)) - p_ordinal (cd_participant (fst r))))
      (filter (\<lambda>e. snd e > 0)
        (map (\<lambda>c. (c, candidate_score L questionIds questionText c)) candidates))"

definition focused_explanation ::
  "text_lib \<Rightarrow> jstring list \<Rightarrow> jstring \<Rightarrow> DiscussionParticipantCandidate option \<Rightarrow>
     DiscussionParticipantCandidate \<Rightarrow> DiscussionSelectionExplanation" where
  "focused_explanation L questionIds questionText reviewer candidate =
    (let reported = sort_by (localeCompare L)
           (filter (\<lambda>i. i \<in> set questionIds) (js_set (cd_reportedQuestionIds candidate)));
         matched = sort_by (localeCompare L)
           (filter (text_includes questionText) (roleTerms L candidate))
     in \<lparr>ex_agentId = p_agentId (cd_participant candidate),
         ex_reasons = (if reported \<noteq> [] then [Why_question_reporter] else []) @
                      (if matched \<noteq> [] then [Why_role_match] else []) @
                      (if Some candidate = reviewer then [Why_required_reviewer] else []),
         ex_reportedQuestionIds = reported, ex_matchedRoleTerms = matched\<rparr>)"

text \<open>The scored candidates cut to the limit, with the required reviewer in the last place.\<close>

definition focused_selection ::
  "int \<Rightarrow> DiscussionParticipantCandidate option \<Rightarrow> (DiscussionParticipantCandidate \<times> int) list \<Rightarrow>
     DiscussionParticipantCandidate list" where
  "focused_selection limit reviewer scored =
    (let selected = map fst (slice_to limit scored)
     in case reviewer of
          None \<Rightarrow> selected
        | Some r \<Rightarrow>
            if \<exists>c\<in>set selected. p_agentId (cd_participant c) = p_agentId (cd_participant r)
            then selected
            else (if int (length selected) = limit then butlast selected else selected) @ [r])"

abbreviation by_ordinal :: "DiscussionParticipantCandidate \<Rightarrow> DiscussionParticipantCandidate \<Rightarrow> int" where
  "by_ordinal l r \<equiv> p_ordinal (cd_participant l) - p_ordinal (cd_participant r)"

definition selectDiscussionParticipants ::
  "text_lib \<Rightarrow> DiscussionRecord \<Rightarrow> DiscussionParticipantCandidate list \<Rightarrow> bool \<Rightarrow>
     DiscussionParticipantSelection throwing" where
  "selectDiscussionParticipants L discussion input_candidates finalization =
    (let candidates = sort_by by_ordinal input_candidates;
         limit = focusedParticipantLimit (d_policy discussion)
     in if candidates = [] then Inl (Error ''Discussion Wave has no eligible participant'')
     else let reviewer = requiredReviewer discussion candidates in
     if \<not> finalization \<and>
        (d_mode discussion = Mode_review \<or> requireReviewer (d_policy discussion)) \<and> reviewer = None
     then Inl (Error ''Discussion Wave requires an eligible reviewer'')
     else let questions = highestPriorityQuestions L (pg_openQuestions (d_progress discussion)) in
     if finalization
     then let finalReviewer = List.find (\<lambda>c. p_role (cd_participant c) = Role_reviewer) candidates;
              primary = List.find (\<lambda>c. cd_taskRole c = Some TR_primary) candidates;
              selected = (case finalReviewer of Some c \<Rightarrow> c
                | None \<Rightarrow> (case primary of Some c \<Rightarrow> c | None \<Rightarrow> hd candidates))
          in selection_snapshot L Strat_finalizer
               [explain selected (if finalReviewer \<noteq> None then Why_finalizer_reviewer
                  else if primary \<noteq> None then Why_finalizer_primary else Why_finalizer_ordinal)]
               questions candidates [selected] (reviewer \<noteq> None) limit
     else if participantSelectionMode (d_policy discussion) = Sel_all_eligible \<or> questions = []
     then selection_snapshot L Strat_all_eligible
            (map (\<lambda>c. explain c
              (if participantSelectionMode (d_policy discussion) = Sel_all_eligible
               then Why_all_member_policy else Why_no_focus_questions)) candidates)
            questions candidates candidates (reviewer \<noteq> None) limit
     else let questionIds = map oq_id questions;
              questionText = normalized L (join [0x0A] (map oq_question questions));
              scored = scored_candidates L questionIds questionText candidates
     in if scored = []
     then selection_snapshot L Strat_all_eligible
            (map (\<lambda>c. explain c Why_no_deterministic_match) candidates)
            questions candidates candidates (reviewer \<noteq> None) limit
     else let selected = sort_by by_ordinal (focused_selection limit reviewer scored)
     in selection_snapshot L Strat_question_focused
          (map (focused_explanation L questionIds questionText reviewer) selected)
          questions candidates selected (reviewer \<noteq> None) limit)"

section \<open>Lemmas: texts\<close>

text \<open>What the selector relies on of the Unicode tables and the digest.\<close>

definition unicode_tables :: "text_lib \<Rightarrow> bool" where
  "unicode_tables L \<longleftrightarrow>
    comparator (localeCompare L) \<and> (\<forall>s. is_hex64 (sha256Hex L s)) \<and>
    (\<forall>u. isLetter L [u] \<or> isNumber L [u] \<longrightarrow> \<not> is_space u)"

lemma trim_eq_Nil: "trim s = [] \<longleftrightarrow> (\<forall>u\<in>set s. is_space u)"
proof -
  have "(\<forall>u\<in>set (dropWhile is_space s). is_space u) \<longleftrightarrow> (\<forall>u\<in>set s. is_space u)"
    by (induction s) auto
  then show ?thesis by (simp add: trim_def)
qed

lemma surrogate_no_space: "is_high_surrogate u \<Longrightarrow> \<not> is_space u"
  by (auto simp: is_high_surrogate_def is_space_def)

lemma term_runs_units:
  assumes "\<forall>c\<in>set cs. p c \<longrightarrow> (\<exists>u\<in>set c. \<not> is_space u)"
    and "run = [] \<or> (\<exists>u\<in>set run. \<not> is_space u)" and "t \<in> set (term_runs p run cs)"
  shows "\<exists>u\<in>set t. \<not> is_space u"
  using assms
proof (induction p run cs rule: term_runs.induct)
  case (2 p run c cs)
  then show ?case by (cases "p c") (auto split: if_splits)
qed (auto split: if_splits)

lemma roleTerms_nonblank:
  assumes "unicode_tables L" and "t \<in> set (roleTerms L c)"
  shows "length (trim t) > 0"
proof -
  have cp: "\<exists>u\<in>set c. \<not> is_space u"
    if "code_point c" "isLetter L c \<or> isNumber L c" for c
    using that assms(1) surrogate_no_space unfolding code_point_def unicode_tables_def by force
  from assms(2) obtain src where
    "t \<in> set (term_runs (\<lambda>c. isLetter L c \<or> isNumber L c) [] (code_points src))"
    by (auto simp: roleTerms_def Let_def)
  then have "\<exists>u\<in>set t. \<not> is_space u"
    by (rule term_runs_units[rotated 2]) (use cp code_points_valid in blast)+
  then show ?thesis using trim_eq_Nil[of t] by auto
qed

lemma distinct_roleTerms: "distinct (roleTerms L c)"
  by (simp add: roleTerms_def Let_def)

section \<open>Lemmas: the questions in focus\<close>

lemma highest_is_max:
  "foldl (\<lambda>rank q. max rank (importanceRank (oq_importance q))) m qs \<ge> m"
  "q \<in> set qs \<Longrightarrow>
    foldl (\<lambda>rank q. max rank (importanceRank (oq_importance q))) m qs \<ge> importanceRank (oq_importance q)"
proof (induction qs arbitrary: m)
  case (Cons a qs)
  { case 1 then show ?case using Cons(1)[of "max m (importanceRank (oq_importance a))"] by simp }
  { case 2 then show ?case using Cons(1)[of "max m (importanceRank (oq_importance a))"] Cons(2) by auto }
qed simp_all

lemma set_highest:
  "set (highestPriorityQuestions L qs) =
    {q \<in> set qs. \<forall>r\<in>set qs. importanceRank (oq_importance r) \<le> importanceRank (oq_importance q)}"
proof -
  define h where "h = foldl (\<lambda>rank q. max rank (importanceRank (oq_importance q))) (-1) qs"
  have in_or: "foldl (\<lambda>rank q. max rank (importanceRank (oq_importance q))) m xs \<in>
      insert m ((\<lambda>q. importanceRank (oq_importance q)) ` set xs)" for m xs
    by (induction xs arbitrary: m) (auto simp: max_def)
  have ge: "\<And>q. q \<in> set qs \<Longrightarrow> importanceRank (oq_importance q) \<le> h"
    unfolding h_def by (rule highest_is_max(2))
  have "h \<noteq> -1 \<Longrightarrow> \<exists>q\<in>set qs. importanceRank (oq_importance q) = h"
    using in_or[of "-1" qs] unfolding h_def by auto
  then have "(importanceRank (oq_importance q) = h) =
      (\<forall>r\<in>set qs. importanceRank (oq_importance r) \<le> importanceRank (oq_importance q))"
    if "q \<in> set qs" for q
    using ge[OF that] ge that importanceRank_nonneg(2)[of "oq_importance q"] by (metis order_antisym order_less_irrefl order_less_le_trans)
  then show ?thesis by (auto simp: highestPriorityQuestions_def Let_def h_def)
qed

lemma distinct_highest:
  "distinct (map oq_id qs) \<Longrightarrow> distinct (map oq_id (highestPriorityQuestions L qs))"
proof -
  assume "distinct (map oq_id qs)"
  then have "inj_on oq_id (set qs)" "distinct qs" by (simp_all add: distinct_map)
  moreover have "set (highestPriorityQuestions L qs) \<subseteq> set qs"
    by (auto simp: set_highest)
  moreover have "distinct (highestPriorityQuestions L qs)"
    using \<open>distinct qs\<close> by (simp add: highestPriorityQuestions_def Let_def)
  ultimately show ?thesis by (auto simp: distinct_map intro: inj_on_subset)
qed

lemma highest_eq_Nil: "highestPriorityQuestions L qs = [] \<longleftrightarrow> qs = []"
proof
  assume none: "highestPriorityQuestions L qs = []"
  show "qs = []"
  proof (rule ccontr)
    assume "qs \<noteq> []"
    then have "finite ((\<lambda>q. importanceRank (oq_importance q)) ` set qs)"
      "(\<lambda>q. importanceRank (oq_importance q)) ` set qs \<noteq> {}" by auto
    from Max_in[OF this] Max_ge[OF this(1)] obtain q where "q \<in> set qs"
      "\<forall>r\<in>set qs. importanceRank (oq_importance r) \<le> importanceRank (oq_importance q)"
      by fastforce
    then have "q \<in> set (highestPriorityQuestions L qs)" unfolding set_highest by blast
    with none show False by simp
  qed
qed (simp add: highestPriorityQuestions_def)

lemma sorted_focus_ids:
  assumes "comparator (localeCompare L)"
  shows "sort_by (localeCompare L) (map oq_id (highestPriorityQuestions L qs)) =
    map oq_id (highestPriorityQuestions L qs)"
proof (rule sort_by_sorted_id)
  have c: "comparator (\<lambda>x y. localeCompare L (k x) (k y))" for k :: "OpenQuestion \<Rightarrow> jstring"
    using assms by (auto simp: comparator_def)
  have "comparator (\<lambda>l r :: OpenQuestion. or_else (localeCompare L (oq_id l) (oq_id r))
      (localeCompare L (oq_question l) (oq_question r)))"
    using comparator_or_else[OF c[of oq_id] c[of oq_question]] .
  from comparator.sorted_sort_by[OF this] have "sorted_wrt (\<lambda>l r. or_else (localeCompare L (oq_id l) (oq_id r))
      (localeCompare L (oq_question l) (oq_question r)) \<le> 0) (highestPriorityQuestions L qs)"
    by (simp add: highestPriorityQuestions_def Let_def)
  then show "sorted_wrt (\<lambda>x y. localeCompare L x y \<le> 0) (map oq_id (highestPriorityQuestions L qs))"
    unfolding sorted_wrt_map by (rule sorted_wrt_mono_rel[rotated]) (auto simp: or_else_def split: if_splits)
qed

section \<open>Lemmas: the focused choice\<close>

abbreviation agent_of :: "DiscussionParticipantCandidate \<Rightarrow> jstring" where
  "agent_of c \<equiv> p_agentId (cd_participant c)"

lemma scored_mset:
  "mset (map fst (scored_candidates L ids qtext cs)) = mset (filter (\<lambda>c. candidate_score L ids qtext c > 0) cs)"
proof -
  have "map fst (filter (\<lambda>e. snd e > 0) (map (\<lambda>c. (c, candidate_score L ids qtext c)) cs)) =
      filter (\<lambda>c. candidate_score L ids qtext c > 0) cs"
    by (induction cs) auto
  then have "mset (filter (\<lambda>c. candidate_score L ids qtext c > 0) cs) =
      image_mset fst (mset (filter (\<lambda>e. snd e > 0) (map (\<lambda>c. (c, candidate_score L ids qtext c)) cs)))"
    by (simp only: mset_map[symmetric])
  then show ?thesis unfolding scored_candidates_def by (simp only: mset_map mset_sort_by)
qed

lemma set_scored: "fst ` set (scored_candidates L ids qtext cs) = {c \<in> set cs. candidate_score L ids qtext c > 0}"
  using arg_cong[OF scored_mset[of L ids qtext cs], of set_mset] by simp

lemma distinct_scored:
  assumes "distinct (map agent_of cs)"
  shows "distinct (map agent_of (map fst (scored_candidates L ids qtext cs)))"
proof -
  have "mset (map agent_of (map fst (scored_candidates L ids qtext cs))) =
      mset (map agent_of (filter (\<lambda>c. candidate_score L ids qtext c > 0) cs))"
    unfolding mset_map[of agent_of] scored_mset ..
  moreover have "distinct (map agent_of (filter (\<lambda>c. candidate_score L ids qtext c > 0) cs))"
    using assms by (rule distinct_map_filter)
  ultimately show ?thesis by (metis mset_eq_imp_distinct_iff)
qed

lemma slice_to_take: "0 \<le> n \<Longrightarrow> slice_to n xs = take (nat n) xs"
  by (simp add: slice_to_def)

lemma focused_selection_facts:
  assumes "2 \<le> limit" and "distinct (map agent_of (map fst scored))" and "scored \<noteq> []"
  shows "distinct (map agent_of (focused_selection limit reviewer scored))"
    and "int (length (focused_selection limit reviewer scored)) \<le> limit"
    and "focused_selection limit reviewer scored \<noteq> []"
    and "set (focused_selection limit reviewer scored) \<subseteq> fst ` set scored \<union> set_option reviewer"
    and "reviewer = Some r \<Longrightarrow> agent_of r \<in> agent_of ` set (focused_selection limit reviewer scored)"
proof -
  define s where "s = map fst (slice_to limit scored)"
  have s: "distinct (map agent_of s)" "length s \<le> nat limit" "s \<noteq> []" "set s \<subseteq> fst ` set scored"
    using assms distinct_take[of "map agent_of (map fst scored)" "nat limit"]
    by (auto simp: s_def slice_to_take take_map dest: in_set_takeD)
  have bl: "distinct (map agent_of (butlast s))" "set (butlast s) \<subseteq> set s"
    using s(1) by (auto simp: map_butlast distinct_butlast dest: in_set_butlastD)
  have eq: "focused_selection limit reviewer scored =
    (case reviewer of None \<Rightarrow> s
     | Some r \<Rightarrow> if agent_of r \<in> agent_of ` set s then s
                else (if int (length s) = limit then butlast s else s) @ [r])"
    by (auto simp: focused_selection_def s_def Let_def image_iff split: option.splits)
  show "distinct (map agent_of (focused_selection limit reviewer scored))"
    unfolding eq using s(1) bl by (auto split: option.splits)
  show "int (length (focused_selection limit reviewer scored)) \<le> limit"
    unfolding eq using s(2) assms(1) by (auto split: option.splits)
  show "focused_selection limit reviewer scored \<noteq> []"
    unfolding eq using s(3) by (auto split: option.splits)
  show "set (focused_selection limit reviewer scored) \<subseteq> fst ` set scored \<union> set_option reviewer"
    unfolding eq using s(4) bl(2) by (auto split: option.splits)
  show "agent_of r \<in> agent_of ` set (focused_selection limit reviewer scored)" if "reviewer = Some r"
    unfolding eq by (simp add: that)
qed

lemma score_pos:
  "candidate_score L ids qtext c > 0 \<longleftrightarrow>
    filter (\<lambda>i. i \<in> set ids) (js_set (cd_reportedQuestionIds c)) \<noteq> [] \<or>
    filter (text_includes qtext) (roleTerms L c) \<noteq> []"
proof -
  have "0 < int (length xs) * 100 + int (length ys) * 10 \<longleftrightarrow> xs \<noteq> [] \<or> ys \<noteq> []"
    for xs ys :: "jstring list" by (cases xs; cases ys) auto
  then show ?thesis unfolding candidate_score_def Let_def by (simp only:) (auto simp: filter_empty_conv)
qed

section \<open>Lemmas: the snapshot passes its assertion\<close>

lemma canonicalSelection_digest [simp]:
  "canonicalSelection (s\<lparr>sel_selectionDigest := d\<rparr>) = canonicalSelection s"
  by (simp add: canonicalSelection_def)

text \<open>What the orchestrator passes in: a valid limit, distinct agents, distinct question ids.\<close>

definition selectable ::
  "text_lib \<Rightarrow> DiscussionRecord \<Rightarrow> DiscussionParticipantCandidate list \<Rightarrow> bool" where
  "selectable L d cs \<longleftrightarrow>
    unicode_tables L \<and>
    2 \<le> focusedParticipantLimit (d_policy d) \<and> focusedParticipantLimit (d_policy d) \<le> 5 \<and>
    distinct (map agent_of cs) \<and> (\<forall>c\<in>set cs. trim (agent_of c) \<noteq> []) \<and>
    distinct (map oq_id (pg_openQuestions (d_progress d))) \<and>
    (\<forall>q\<in>set (pg_openQuestions (d_progress d)). trim (oq_id q) \<noteq> [])"

lemma selectable_sorted: "selectable L d cs \<Longrightarrow> selectable L d (sort_by by_ordinal cs)"
proof -
  have "mset (map agent_of (sort_by by_ordinal cs)) = mset (map agent_of cs)" by simp
  then have "distinct (map agent_of (sort_by by_ordinal cs)) = distinct (map agent_of cs)"
    by (rule mset_eq_imp_distinct_iff)
  then show "selectable L d cs \<Longrightarrow> selectable L d (sort_by by_ordinal cs)"
    by (simp add: selectable_def)
qed

abbreviation focus_of :: "text_lib \<Rightarrow> DiscussionRecord \<Rightarrow> OpenQuestion list" where
  "focus_of L d \<equiv> highestPriorityQuestions L (pg_openQuestions (d_progress d))"

definition unsigned_selection ::
  "selection_strategy \<Rightarrow> DiscussionSelectionExplanation list \<Rightarrow> OpenQuestion list \<Rightarrow>
     DiscussionParticipantCandidate list \<Rightarrow> DiscussionParticipantCandidate list \<Rightarrow> bool \<Rightarrow> int \<Rightarrow>
     DiscussionWaveSelection" where
  "unsigned_selection strategy es questions candidates selected revreq limit =
    \<lparr>sel_version = 2, sel_explanations = Some es, sel_strategy = strategy,
     sel_focusQuestionIds = map oq_id questions,
     sel_eligibleAgentIds = map agent_of candidates,
     sel_selectedAgentIds = map agent_of selected,
     sel_requiredRoles = (if revreq then [Role_reviewer] else []),
     sel_focusedParticipantLimit = limit, sel_selectionDigest = []\<rparr>"

lemma snapshot_accepted:
  fixes selected :: "DiscussionParticipantCandidate list"
  assumes "selectable L d cs" and "set selected \<subseteq> set cs" "distinct (map agent_of selected)"
    "selected \<noteq> []"
    and "length es = length selected"
      "\<forall>(e, c)\<in>set (zip es selected). valid_explanation
        (unsigned_selection strategy es (focus_of L d) cs selected revreq limit) e (agent_of c)"
    and "strategy = Strat_all_eligible \<Longrightarrow> selected = cs"
      "strategy = Strat_question_focused \<Longrightarrow> focus_of L d \<noteq> [] \<and> int (length selected) \<le> limit"
      "strategy = Strat_finalizer \<Longrightarrow> length selected = 1"
    and "limit = focusedParticipantLimit (d_policy d)"
  shows "\<exists>sel. selection_snapshot L strategy es (focus_of L d) cs selected revreq limit = Inr sel \<and>
    ps_participants sel = map cd_participant selected \<and> sel_strategy (ps_snapshot sel) = strategy \<and>
    assertDiscussionWaveSelection L (ps_snapshot sel) (Some (map agent_of selected)) = Inr ()"
proof -
  let ?u = "unsigned_selection strategy es (focus_of L d) cs selected revreq limit"
  let ?v = "createDiscussionWaveSelection L ?u"
  have valid: "valid_explanation ?v e a = valid_explanation ?u e a" for e a
    by (simp add: valid_explanation_def createDiscussionWaveSelection_def)
  have "validExplanations ?v"
    unfolding validExplanations_def valid
    using assms(5,6) by (auto simp: createDiscussionWaveSelection_def unsigned_selection_def zip_map2)
  moreover have "is_hex64 (sel_selectionDigest ?v)"
    "sel_selectionDigest ?v = sha256Hex L (canonicalSelection ?v)"
    using assms(1) by (simp_all add: createDiscussionWaveSelection_def selectable_def unicode_tables_def)
  moreover have "sel_focusQuestionIds ?v = sort_by (localeCompare L) (sel_focusQuestionIds ?v)"
    "distinct (sel_focusQuestionIds ?v)"
    using assms(1) sorted_focus_ids[of L] distinct_highest
    by (simp_all add: createDiscussionWaveSelection_def unsigned_selection_def selectable_def
        unicode_tables_def)
  moreover have "\<forall>i\<in>set (sel_focusQuestionIds ?v). trim i \<noteq> []" "\<forall>i\<in>set (sel_eligibleAgentIds ?v). trim i \<noteq> []"
    "\<forall>i\<in>set (sel_selectedAgentIds ?v). trim i \<noteq> []"
    using assms(1,2) by (auto simp: createDiscussionWaveSelection_def unsigned_selection_def
        selectable_def set_highest)
  moreover have "sel_version ?v = 2" "is_safe_integer limit" "2 \<le> limit" "limit \<le> 5"
    "sel_focusedParticipantLimit ?v = limit" "sel_eligibleAgentIds ?v = map agent_of cs"
    "sel_selectedAgentIds ?v = map agent_of selected" "sel_strategy ?v = strategy"
    "distinct (map agent_of cs)" "sel_requiredRoles ?v = (if revreq then [Role_reviewer] else [])"
    "length (sel_focusQuestionIds ?v) = length (focus_of L d)"
    using assms(1,10) by (simp_all add: createDiscussionWaveSelection_def unsigned_selection_def
        selectable_def is_safe_integer_def max_safe_integer_def)
  ultimately have "assertDiscussionWaveSelection L ?v None = Inr ()"
    "assertDiscussionWaveSelection L ?v (Some (map agent_of selected)) = Inr ()" "sel_strategy ?v = strategy"
    unfolding assertDiscussionWaveSelection_def ensure_simps
    using assms(2-4,7-9) by (auto simp: image_subset_iff)
  then show ?thesis
    unfolding selection_snapshot_def unsigned_selection_def[symmetric] Let_def by simp
qed

lemma explain_valid:
  assumes "r \<in> set (allowed_reasons (sel_strategy s))" "sel_strategy s \<noteq> Strat_question_focused"
  shows "valid_explanation s (explain c r) (agent_of c)"
  using assms by (cases "sel_strategy s")
    (auto simp: valid_explanation_def explain_def uniqueStrings_def allowed_reasons_def)

lemma focused_explanation_valid:
  assumes "selectable L d cs" "candidate_score L (map oq_id (focus_of L d)) qtext c > 0 \<or> Some c = reviewer"
    and "sel_strategy s = Strat_question_focused" "sel_focusQuestionIds s = map oq_id (focus_of L d)"
    and "reviewer \<noteq> None \<Longrightarrow> Role_reviewer \<in> set (sel_requiredRoles s)"
  shows "valid_explanation s
    (focused_explanation L (map oq_id (focus_of L d)) qtext reviewer c) (agent_of c)"
proof -
  let ?ids = "map oq_id (focus_of L d)"
  let ?e = "focused_explanation L ?ids qtext reviewer c"
  have fields: "ex_reportedQuestionIds ?e = sort_by (localeCompare L)
      (filter (\<lambda>i. i \<in> set ?ids) (js_set (cd_reportedQuestionIds c)))"
    "ex_matchedRoleTerms ?e = sort_by (localeCompare L) (filter (text_includes qtext) (roleTerms L c))"
    "ex_agentId ?e = agent_of c"
    "ex_reasons ?e = (if ex_reportedQuestionIds ?e \<noteq> [] then [Why_question_reporter] else []) @
       (if ex_matchedRoleTerms ?e \<noteq> [] then [Why_role_match] else []) @
       (if Some c = reviewer then [Why_required_reviewer] else [])"
    by (simp_all add: focused_explanation_def Let_def)
  have ids: "\<forall>i\<in>set ?ids. length (trim i) > 0"
    using assms(1) by (auto simp: selectable_def set_highest)
  have rep: "uniqueStrings (ex_reportedQuestionIds ?e)" "set (ex_reportedQuestionIds ?e) \<subseteq> set ?ids"
    unfolding fields uniqueStrings_def using ids by auto
  have mat: "uniqueStrings (ex_matchedRoleTerms ?e)"
    unfolding fields uniqueStrings_def
    using assms(1) by (auto simp: selectable_def distinct_roleTerms dest: roleTerms_nonblank)
  have some: "ex_reportedQuestionIds ?e \<noteq> [] \<or> ex_matchedRoleTerms ?e \<noteq> [] \<or> Some c = reviewer"
    using assms(2) unfolding score_pos fields by auto
  show ?thesis
    unfolding valid_explanation_def
    using rep mat some fields(3,4) assms(3,4,5) by (auto simp: allowed_reasons_def)
qed

lemma find_Some: "List.find P xs = Some x \<Longrightarrow> x \<in> set xs \<and> P x"
  by (induction xs) (auto split: if_splits)

lemma find_ex: "(\<exists>x\<in>set xs. P x) \<Longrightarrow> \<exists>x. List.find P xs = Some x"
  by (induction xs) auto

definition review_needed :: "DiscussionRecord \<Rightarrow> bool" where
  "review_needed d \<longleftrightarrow> d_mode d = Mode_review \<or> requireReviewer (d_policy d)"

lemma requiredReviewer_cases:
  "requiredReviewer d cs = Some r \<Longrightarrow> r \<in> set cs \<and> p_role (cd_participant r) = Role_reviewer \<and> review_needed d"
  "review_needed d \<Longrightarrow> \<exists>c\<in>set cs. p_role (cd_participant c) = Role_reviewer \<Longrightarrow>
     \<exists>r. requiredReviewer d cs = Some r"
  "requiredReviewer d cs = None \<Longrightarrow> review_needed d \<Longrightarrow>
     \<forall>c\<in>set cs. p_role (cd_participant c) \<noteq> Role_reviewer"
proof -
  show "requiredReviewer d cs = Some r \<Longrightarrow>
      r \<in> set cs \<and> p_role (cd_participant r) = Role_reviewer \<and> review_needed d"
    by (auto simp: requiredReviewer_def review_needed_def dest: find_Some split: if_splits)
  note ex = find_ex[of cs "\<lambda>c. p_role (cd_participant c) = Role_reviewer"]
  show "review_needed d \<Longrightarrow> \<exists>c\<in>set cs. p_role (cd_participant c) = Role_reviewer \<Longrightarrow>
      \<exists>r. requiredReviewer d cs = Some r"
    using ex by (simp add: requiredReviewer_def review_needed_def)
  show "requiredReviewer d cs = None \<Longrightarrow> review_needed d \<Longrightarrow>
      \<forall>c\<in>set cs. p_role (cd_participant c) \<noteq> Role_reviewer"
    using ex by (auto simp: requiredReviewer_def review_needed_def split: if_splits)
qed

text \<open>The candidates chosen from the sorted list, before the snapshot is taken.\<close>

definition chosen ::
  "text_lib \<Rightarrow> DiscussionRecord \<Rightarrow> DiscussionParticipantCandidate list \<Rightarrow> bool \<Rightarrow>
     selection_strategy \<Rightarrow> DiscussionParticipantCandidate list \<Rightarrow> bool" where
  "chosen L d cs fin strategy selected \<longleftrightarrow>
    set selected \<subseteq> set cs \<and> selected \<noteq> [] \<and> distinct (map agent_of selected) \<and>
    sorted_wrt (\<lambda>l r. by_ordinal l r \<le> 0) selected \<and>
    (fin \<longleftrightarrow> strategy = Strat_finalizer) \<and> (fin \<longrightarrow> length selected = 1) \<and>
    (strategy = Strat_all_eligible \<longrightarrow> selected = cs) \<and>
    (strategy = Strat_question_focused \<longrightarrow> focus_of L d \<noteq> [] \<and>
       int (length selected) \<le> focusedParticipantLimit (d_policy d)) \<and>
    (\<not> fin \<longrightarrow> review_needed d \<longrightarrow> (\<exists>c\<in>set selected. p_role (cd_participant c) = Role_reviewer))"

definition accepted ::
  "text_lib \<Rightarrow> DiscussionRecord \<Rightarrow> DiscussionParticipantCandidate list \<Rightarrow> bool \<Rightarrow>
     DiscussionParticipantSelection throwing \<Rightarrow> bool" where
  "accepted L d cs fin res \<longleftrightarrow> (\<exists>strategy selected sel. res = Inr sel \<and>
    chosen L d cs fin strategy selected \<and> ps_participants sel = map cd_participant selected \<and>
    sel_strategy (ps_snapshot sel) = strategy \<and>
    assertDiscussionWaveSelection L (ps_snapshot sel) (Some (map agent_of selected)) = Inr ())"

lemma snapshot_chosen:
  assumes "selectable L d cs" and "chosen L d cs fin strategy selected"
    and "length es = length selected"
      "\<forall>(e, c)\<in>set (zip es selected). valid_explanation
        (unsigned_selection strategy es (focus_of L d) cs selected revreq
          (focusedParticipantLimit (d_policy d))) e (agent_of c)"
  shows "accepted L d cs fin (selection_snapshot L strategy es (focus_of L d) cs selected revreq
    (focusedParticipantLimit (d_policy d)))"
  unfolding accepted_def
  using snapshot_accepted[OF assms(1) _ _ _ assms(3,4)] assms(2) unfolding chosen_def by blast

lemma sorted_by_ordinal: "sorted_wrt (\<lambda>l r. by_ordinal l r \<le> 0) (sort_by by_ordinal xs)"
  using key_cmp.sorted_sort_by[of "\<lambda>c. p_ordinal (cd_participant c)" xs] by simp

lemma finalizer_accepted:
  assumes "selectable L d cs" and "s \<in> set cs"
    and "r \<in> {Why_finalizer_reviewer, Why_finalizer_primary, Why_finalizer_ordinal}"
  shows "accepted L d cs True (selection_snapshot L Strat_finalizer [explain s r] (focus_of L d) cs [s]
    revreq (focusedParticipantLimit (d_policy d)))"
proof (rule snapshot_chosen[OF assms(1)])
  show "chosen L d cs True Strat_finalizer [s]" using assms(2) by (simp add: chosen_def)
  show "\<forall>(e, c)\<in>set (zip [explain s r] [s]). valid_explanation (unsigned_selection Strat_finalizer
      [explain s r] (focus_of L d) cs [s] revreq (focusedParticipantLimit (d_policy d))) e (agent_of c)"
    using assms(3) by (auto intro!: explain_valid simp: unsigned_selection_def allowed_reasons_def)
qed simp

lemma all_eligible_accepted:
  assumes "selectable L d cs" and "cs \<noteq> []" "cs = sort_by by_ordinal cs0"
    and "review_needed d \<Longrightarrow> \<exists>c\<in>set cs. p_role (cd_participant c) = Role_reviewer"
    and "r \<in> {Why_all_member_policy, Why_no_focus_questions, Why_no_deterministic_match}"
  shows "accepted L d cs False (selection_snapshot L Strat_all_eligible (map (\<lambda>c. explain c r) cs)
    (focus_of L d) cs cs revreq (focusedParticipantLimit (d_policy d)))"
proof (rule snapshot_chosen[OF assms(1)])
  show "chosen L d cs False Strat_all_eligible cs"
    using assms sorted_by_ordinal[of cs0] by (auto simp: chosen_def selectable_def)
  show "\<forall>(e, c)\<in>set (zip (map (\<lambda>c. explain c r) cs) cs). valid_explanation (unsigned_selection
      Strat_all_eligible (map (\<lambda>c. explain c r) cs) (focus_of L d) cs cs revreq
      (focusedParticipantLimit (d_policy d))) e (agent_of c)"
    using assms(5) by (auto intro!: explain_valid simp: unsigned_selection_def allowed_reasons_def zip_map1
        set_zip_leftD dest: set_zip_rightD simp: in_set_zip)
qed simp

lemma focused_accepted:
  assumes "selectable L d cs" and "focus_of L d \<noteq> []"
    and "reviewer = requiredReviewer d cs" "review_needed d \<Longrightarrow> reviewer \<noteq> None"
    and "scored = scored_candidates L (map oq_id (focus_of L d)) qtext cs" "scored \<noteq> []"
    and "selected = sort_by by_ordinal (focused_selection (focusedParticipantLimit (d_policy d)) reviewer scored)"
  shows "accepted L d cs False (selection_snapshot L Strat_question_focused
    (map (focused_explanation L (map oq_id (focus_of L d)) qtext reviewer) selected)
    (focus_of L d) cs selected (reviewer \<noteq> None) (focusedParticipantLimit (d_policy d)))"
proof (rule snapshot_chosen[OF assms(1)])
  let ?fs = "focused_selection (focusedParticipantLimit (d_policy d)) reviewer scored"
  have dist: "distinct (map agent_of cs)" "2 \<le> focusedParticipantLimit (d_policy d)"
    using assms(1) by (simp_all add: selectable_def)
  note facts = focused_selection_facts[OF dist(2) distinct_scored[OF dist(1),
      of L "map oq_id (focus_of L d)" qtext, folded assms(5)] assms(6), of reviewer]
  have mem: "set selected = set ?fs" by (simp add: assms(7))
  have sub: "set selected \<subseteq> set cs"
    using facts(4) requiredReviewer_cases(1)[of d cs] assms(3)
    unfolding mem assms(5) set_scored by (cases reviewer) auto
  have dsel: "distinct (map agent_of selected)"
  proof -
    have "mset (map agent_of selected) = mset (map agent_of ?fs)" by (simp add: assms(7))
    then show ?thesis using facts(1) by (metis mset_eq_imp_distinct_iff)
  qed
  have rvw: "\<exists>c\<in>set selected. p_role (cd_participant c) = Role_reviewer" if need: "review_needed d"
  proof -
    obtain r where r: "reviewer = Some r" using assms(4) need by blast
    then have role: "r \<in> set cs" "p_role (cd_participant r) = Role_reviewer"
      using requiredReviewer_cases(1)[of d cs r] assms(3) by auto
    from facts(5)[OF r] obtain c where "c \<in> set selected" "agent_of c = agent_of r" unfolding mem by auto
    moreover from this sub role dist(1) have "c = r" by (auto simp: distinct_map inj_on_def)
    ultimately show ?thesis using role by blast
  qed
  show "chosen L d cs False Strat_question_focused selected"
    using sub dsel rvw facts(2,3) assms(2,7) sorted_by_ordinal[of ?fs] by (auto simp: chosen_def)
  have "candidate_score L (map oq_id (focus_of L d)) qtext (selected ! n) > 0 \<or>
      Some (selected ! n) = reviewer" if "n < length selected" for n
    using nth_mem[OF that] facts(4) unfolding mem assms(5) set_scored by (cases reviewer) auto
  then show "\<forall>(e, c)\<in>set (zip (map (focused_explanation L (map oq_id (focus_of L d)) qtext reviewer) selected)
      selected). valid_explanation (unsigned_selection Strat_question_focused
      (map (focused_explanation L (map oq_id (focus_of L d)) qtext reviewer) selected)
      (focus_of L d) cs selected (reviewer \<noteq> None) (focusedParticipantLimit (d_policy d))) e (agent_of c)"
    by (auto simp: zip_map1 in_set_zip unsigned_selection_def intro!: focused_explanation_valid[OF assms(1)]
        simp del: not_None_eq) blast
qed simp

lemma accepted_if:
  "(P \<Longrightarrow> accepted L d cs fin a) \<Longrightarrow> (\<not> P \<Longrightarrow> accepted L d cs fin b) \<Longrightarrow>
    accepted L d cs fin (if P then a else b)"
  by simp

lemma select_accepted:
  assumes "selectable L d cs0" "cs0 \<noteq> []"
    and "fin \<or> \<not> review_needed d \<or> (\<exists>c\<in>set cs0. p_role (cd_participant c) = Role_reviewer)"
  shows "accepted L d (sort_by by_ordinal cs0) fin (selectDiscussionParticipants L d cs0 fin)"
proof -
  define cs where "cs = sort_by by_ordinal cs0"
  define reviewer where "reviewer = requiredReviewer d cs"
  have sel: "selectable L d cs" using selectable_sorted assms(1) by (simp add: cs_def)
  have ne: "cs \<noteq> []" and mem: "set cs = set cs0" using assms(2) by (auto simp: cs_def)
  have rvw: "reviewer \<noteq> None" if "\<not> fin" "review_needed d"
    using requiredReviewer_cases(2)[of d cs] assms(3) mem that by (auto simp: reviewer_def)
  note unfolded = selectDiscussionParticipants_def Let_def cs_def[symmetric] reviewer_def[symmetric]
  show ?thesis
  proof (cases fin)
    case True
    have "accepted L d cs True (selectDiscussionParticipants L d cs0 True)"
      unfolding unfolded using ne
      by (auto intro!: finalizer_accepted[OF sel] dest: find_Some split: option.splits)
    with True show ?thesis by (simp add: cs_def)
  next
    case False
    have rv: "review_needed d \<Longrightarrow> \<exists>c\<in>set cs. p_role (cd_participant c) = Role_reviewer"
      using assms(3) False mem by simp
    have "\<not> ((d_mode d = Mode_review \<or> requireReviewer (d_policy d)) \<and> reviewer = None)"
      using rvw[OF False] by (auto simp: review_needed_def)
    then have guard: "\<not> (\<not> False \<and> (d_mode d = Mode_review \<or> requireReviewer (d_policy d)) \<and> reviewer = None)"
      by simp
    have "accepted L d cs False (selectDiscussionParticipants L d cs0 False)"
      unfolding unfolded if_not_P[OF ne] if_not_P[OF guard] if_False
      by (intro accepted_if; (rule all_eligible_accepted[OF sel ne cs_def rv]
            focused_accepted[OF sel _ reviewer_def rvw[OF False] refl _ refl])?; simp)
    with False show ?thesis by (simp add: cs_def)
  qed
qed

lemma select_errors:
  assumes "\<not> (fin \<or> \<not> review_needed d \<or> (\<exists>c\<in>set cs. p_role (cd_participant c) = Role_reviewer))"
    and "cs \<noteq> []"
  shows "selectDiscussionParticipants L d cs fin = Inl (Error ''Discussion Wave requires an eligible reviewer'')"
proof -
  have "requiredReviewer d (sort_by by_ordinal cs) = None"
    using requiredReviewer_cases(1)[of d "sort_by by_ordinal cs"] assms(1)
    by (cases "requiredReviewer d (sort_by by_ordinal cs)") auto
  with assms show ?thesis by (auto simp: selectDiscussionParticipants_def Let_def review_needed_def)
qed

section \<open>Properties\<close>

lemma selection_facts:
  assumes "selectable L d cs" and sel: "selectDiscussionParticipants L d cs fin = Inr sel"
  shows "set (ps_participants sel) \<subseteq> cd_participant ` set cs \<and>
    sorted_wrt (\<lambda>l r. p_ordinal l \<le> p_ordinal r) (ps_participants sel) \<and>
    ps_participants sel \<noteq> [] \<and> distinct (map p_agentId (ps_participants sel)) \<and>
    assertDiscussionWaveSelection L (ps_snapshot sel) (Some (map p_agentId (ps_participants sel))) = Inr () \<and>
    (fin \<longrightarrow> length (ps_participants sel) = 1) \<and>
    (sel_strategy (ps_snapshot sel) = Strat_question_focused \<longrightarrow>
      int (length (ps_participants sel)) \<le> focusedParticipantLimit (d_policy d)) \<and>
    (\<not> fin \<longrightarrow> review_needed d \<longrightarrow> (\<exists>p\<in>set (ps_participants sel). p_role p = Role_reviewer))"
proof -
  have "cs \<noteq> []" using sel by (auto simp: selectDiscussionParticipants_def)
  moreover from this have "fin \<or> \<not> review_needed d \<or> (\<exists>c\<in>set cs. p_role (cd_participant c) = Role_reviewer)"
    using sel select_errors[of fin d cs L] by force
  ultimately have "accepted L d (sort_by by_ordinal cs) fin (selectDiscussionParticipants L d cs fin)"
    using select_accepted[OF assms(1)] by blast
  then obtain strategy selected where
    "ps_participants sel = map cd_participant selected"
    "chosen L d (sort_by by_ordinal cs) fin strategy selected" "sel_strategy (ps_snapshot sel) = strategy"
    "assertDiscussionWaveSelection L (ps_snapshot sel) (Some (map agent_of selected)) = Inr ()"
    unfolding accepted_def sel by auto
  then show ?thesis by (simp add: chosen_def comp_def sorted_wrt_map image_mono)
qed

text \<open>
  (C32) A selection never fails its own assertion: on distinct, named candidates and distinct,
  named open questions the selector throws exactly when there is no candidate, or a contribution
  that needs a reviewer has none. Otherwise it returns a nonempty choice of distinct candidates in
  ordinal order whose snapshot the planner accepts, one speaker for a finalization, at most the
  focus limit for a focused Wave, and with a reviewer wherever one is required.
\<close>

theorem selection_sound:
  assumes "selectable L d cs"
  shows "case selectDiscussionParticipants L d cs fin of
      Inl e \<Rightarrow> cs = [] \<or> \<not> fin \<and> review_needed d \<and> (\<forall>c\<in>set cs. p_role (cd_participant c) \<noteq> Role_reviewer)
    | Inr sel \<Rightarrow>
        set (ps_participants sel) \<subseteq> cd_participant ` set cs \<and>
        sorted_wrt (\<lambda>l r. p_ordinal l \<le> p_ordinal r) (ps_participants sel) \<and>
        ps_participants sel \<noteq> [] \<and> distinct (map p_agentId (ps_participants sel)) \<and>
        assertDiscussionWaveSelection L (ps_snapshot sel) (Some (map p_agentId (ps_participants sel))) = Inr () \<and>
        (fin \<longrightarrow> length (ps_participants sel) = 1) \<and>
        (sel_strategy (ps_snapshot sel) = Strat_question_focused \<longrightarrow>
          int (length (ps_participants sel)) \<le> focusedParticipantLimit (d_policy d)) \<and>
        (\<not> fin \<longrightarrow> review_needed d \<longrightarrow> (\<exists>p\<in>set (ps_participants sel). p_role p = Role_reviewer))"
proof (cases "selectDiscussionParticipants L d cs fin")
  case (Inl e)
  then show ?thesis using select_accepted[OF assms, of fin] by (auto simp: accepted_def)
next
  case (Inr sel)
  with selection_facts[OF assms Inr] show ?thesis by simp
qed

definition demo_participant :: "int \<Rightarrow> string \<Rightarrow> participant_role \<Rightarrow> DiscussionParticipantCandidate" where
  "demo_participant n agent role =
    \<lparr>cd_participant = \<lparr>p_discussionId = lit ''d'', p_ordinal = n, p_agentId = lit agent, p_role = role\<rparr>,
     cd_agentRole = lit ''db expert'', cd_taskRole = None, cd_reportedQuestionIds = []\<rparr>"

definition demo_discussion :: DiscussionRecord where
  "demo_discussion =
    \<lparr>d_discussionId = lit ''d'', d_roomId = lit ''r'', d_taskId = lit ''t'', d_rootMessageId = lit ''m'',
     d_requesterMemberId = lit ''u'', d_goal = lit ''g'', d_mode = Mode_review, d_state = DS_active,
     d_stateReason = None, d_outputMode = OM_final_answer, d_policy = defaultDiscussionPolicy,
     d_progress = emptyProgressSnapshot, d_budget = emptyBudgetSnapshot 4,
     d_executionModel = Some Exec_parallel_wave, d_currentTurn = 0, d_currentWave = Some 0,
     d_nextSpeakerIndex = 0, d_requestedAction = None, d_version = 1, d_deadlineAt = 1200000,
     d_createdAt = 0, d_updatedAt = 0, d_terminalAt = None\<rparr>"

lemma ascii_tables: "unicode_tables ascii_lib"
proof -
  have "is_hex64 (sha256Hex ascii_lib s)" for s
  proof -
    have "set (sha256Hex ascii_lib s) \<subseteq> {0x61, 0x62, 0x30}"
      unfolding ascii_lib_def text_lib.simps by (rule order_trans[OF set_take_subset]) auto
    moreover have "length (sha256Hex ascii_lib s) = 64" by (simp add: ascii_lib_def)
    ultimately show ?thesis by (auto simp: is_hex64_def)
  qed
  moreover have "\<not> is_space u" if "isLetter ascii_lib [u] \<or> isNumber ascii_lib [u]" for u
    using that by (auto simp: ascii_lib_def is_space_def)
  ultimately show ?thesis by (simp add: unicode_tables_def ascii_lib_collation)
qed

theorem selection_sound_witness:
  "\<exists>sel. selectDiscussionParticipants ascii_lib demo_discussion
      [demo_participant 1 ''a1'' Role_reviewer, demo_participant 0 ''a0'' Role_participant] False = Inr sel \<and>
    (\<exists>p\<in>set (ps_participants sel). p_role p = Role_reviewer)"
proof -
  let ?cs = "[demo_participant 1 ''a1'' Role_reviewer, demo_participant 0 ''a0'' Role_participant]"
  have "selectable ascii_lib demo_discussion ?cs"
    by (simp add: selectable_def ascii_tables demo_discussion_def defaultDiscussionPolicy_def
        demo_participant_def emptyProgressSnapshot_def trim_def lit_def is_space_def)
  from selection_sound[OF this, of False] show ?thesis
    by (auto simp: demo_participant_def review_needed_def demo_discussion_def split: sum.splits)
qed

text \<open>
  The choice does not depend on the order in which the candidates are listed, as long as
  their ordinals are distinct.
\<close>

theorem selection_order_independent:
  assumes "mset cs = mset cs'" and "distinct (map (\<lambda>c. p_ordinal (cd_participant c)) cs)"
  shows "selectDiscussionParticipants L d cs fin = selectDiscussionParticipants L d cs' fin"
  unfolding selectDiscussionParticipants_def sort_by_key_perm[OF assms] ..

theorem selection_order_independent_witness:
  "selectDiscussionParticipants ascii_lib demo_discussion
      [demo_participant 1 ''a1'' Role_reviewer, demo_participant 0 ''a0'' Role_participant] False =
   selectDiscussionParticipants ascii_lib demo_discussion
      [demo_participant 0 ''a0'' Role_participant, demo_participant 1 ''a1'' Role_reviewer] False"
  by (rule selection_order_independent) (simp_all add: demo_participant_def)

end
