(* ===== verification/Wave_Planning.thy ===== *)
theory Wave_Planning
  imports Participant_Selector
begin

text \<open>
  Planning a Wave (\<^verbatim>\<open>apps/server/src/discussion/discussion-wave-planner.ts\<close>) and sealing the
  members a read-only quorum accepted (\<^verbatim>\<open>discussion-quorum.ts\<close>). The identifiers
  \<^verbatim>\<open>createOpaqueId\<close> draws are arguments. A timestamp is written in a digest the way
  \<^verbatim>\<open>Date.prototype.toISOString\<close> writes it.
\<close>

section \<open>Wave plans\<close>

record WavePlan =
  wp_wave :: DiscussionWave
  wp_turns :: "DiscussionTurn list"

definition finalizationDurationMilliseconds :: int where
  "finalizationDurationMilliseconds = 5 * 60 * 1000"

definition planned_turn ::
  "DiscussionRecord \<Rightarrow> jstring \<Rightarrow> turn_kind \<Rightarrow> timestamp \<Rightarrow> jstring \<Rightarrow> (nat \<Rightarrow> jstring) \<Rightarrow>
     nat \<Rightarrow> DiscussionParticipant \<Rightarrow> DiscussionTurn" where
  "planned_turn discussion inputMessageId kind now waveId turnId i participant =
    \<lparr>t_turnId = turnId i, t_discussionId = d_discussionId discussion,
     t_ordinal = d_currentTurn discussion + int i + 1, t_kind = kind,
     t_speakerAgentId = p_agentId participant, t_inputMessageId = inputMessageId,
     t_runId = None, t_outputMessageId = None, t_state = TS_planned, t_assessment = None,
     t_replyHash = None, t_createdAt = now, t_updatedAt = now, t_completedAt = None,
     t_waveId = Some waveId, t_waveMemberOrdinal = Some (int i), t_terminalReason = None\<rparr>"

definition buildWavePlan ::
  "text_lib \<Rightarrow> jstring \<Rightarrow> (nat \<Rightarrow> jstring) \<Rightarrow> DiscussionRecord \<Rightarrow> DiscussionParticipant list \<Rightarrow>
     jstring \<Rightarrow> turn_kind \<Rightarrow> DiscussionWaveSelection \<Rightarrow> timestamp \<Rightarrow> WavePlan throwing" where
  "buildWavePlan L waveId turnId discussion participants inputMessageId kind selection now =
    (if length participants = 0
     then Inl (Error ''Discussion Wave has no eligible participant'')
     else bind (assertDiscussionWaveSelection L selection (Some (map p_agentId participants))) (\<lambda>_.
     let waveOrdinal = (case d_currentWave discussion of None \<Rightarrow> 0 | Some n \<Rightarrow> n) + 1;
         deadlineAt = (if kind = Kind_finalization then now + finalizationDurationMilliseconds
           else min (d_deadlineAt discussion)
                  (now + waveTimeoutSeconds (d_policy discussion) * 1000))
     in Inr \<lparr>wp_wave =
          \<lparr>w_waveId = waveId, w_discussionId = d_discussionId discussion, w_ordinal = waveOrdinal,
           w_phase = (if kind = Kind_finalization then Phase_finalization else Phase_contribution),
           w_inputMessageId = inputMessageId, w_state = WS_open, w_deadlineAt = deadlineAt,
           w_expectedMembers = int (length participants), w_version = 1, w_createdAt = now,
           w_updatedAt = now, w_closedAt = None, w_selection = Some selection\<rparr>,
         wp_turns = map (\<lambda>(i, p). planned_turn discussion inputMessageId kind now waveId turnId i p)
           (enumerate 0 participants)\<rparr>))"

section \<open>Timestamps as text\<close>

definition padded :: "nat \<Rightarrow> int \<Rightarrow> jstring" where
  "padded n v = (let s = nat_text (nat v) in replicate (n - length s) 0x30 @ s)"

text \<open>The proleptic Gregorian date of a day counted from 1970-01-01.\<close>

definition civil_date :: "int \<Rightarrow> int \<times> int \<times> int" where
  "civil_date days =
    (let z = days + 719468; era = z div 146097; doe = z mod 146097;
         yoe = (doe - doe div 1460 + doe div 36524 - doe div 146096) div 365;
         doy = doe - (365 * yoe + yoe div 4 - yoe div 100);
         mp = (5 * doy + 2) div 153;
         d = doy - (153 * mp + 2) div 5 + 1;
         m = (if mp < 10 then mp + 3 else mp - 9);
         y = yoe + era * 400 + (if m \<le> 2 then 1 else 0)
     in (y, m, d))"

definition toISOString :: "timestamp \<Rightarrow> jstring" where
  "toISOString t =
    (let (y, m, d) = civil_date (t div 86400000); ms = t mod 86400000;
         year = (if 0 \<le> y \<and> y \<le> 9999 then padded 4 y
                 else (if y < 0 then lit ''-'' else lit ''+'') @ padded 6 (abs y))
     in year @ lit ''-'' @ padded 2 m @ lit ''-'' @ padded 2 d @ lit ''T'' @
        padded 2 (ms div 3600000) @ lit '':'' @ padded 2 (ms div 60000 mod 60) @ lit '':'' @
        padded 2 (ms div 1000 mod 60) @ lit ''.'' @ padded 3 (ms mod 1000) @ lit ''Z'')"

lemma iso_epoch: "toISOString 1709210096123 = lit ''2024-02-29T12:34:56.123Z''"
  by code_simp

section \<open>Quorum seals\<close>

definition seal_member_json :: "DiscussionWaveSealMember \<Rightarrow> cjson" where
  "seal_member_json m = CObj [
     (lit ''turnId'', CStr (sm_turnId m)), (lit ''waveMemberOrdinal'', CInt (sm_waveMemberOrdinal m)),
     (lit ''agentId'', CStr (sm_agentId m)), (lit ''role'', CStr (role_text (sm_role m))),
     (lit ''runId'', CStr (sm_runId m)), (lit ''sourceReplySequence'', CInt (sm_sourceReplySequence m)),
     (lit ''outputMessageId'', CStr (sm_outputMessageId m)),
     (lit ''sourceMessageSequence'', CInt (sm_sourceMessageSequence m)),
     (lit ''replyHash'', CStr (sm_replyHash m))]"

definition seal_json :: "QuorumSealInput \<Rightarrow> cjson" where
  "seal_json s = CObj [
     (lit ''sealId'', CStr (sl_sealId s)), (lit ''discussionId'', CStr (sl_discussionId s)),
     (lit ''waveId'', CStr (sl_waveId s)), (lit ''softDeadlineAt'', CStr (toISOString (sl_softDeadlineAt s))),
     (lit ''minimumCompleted'', CInt (sl_minimumCompleted s)),
     (lit ''requiredRoles'', strings (map role_text (sl_requiredRoles s))),
     (lit ''acceptedMembers'', CArr (map seal_member_json (sl_acceptedMembers s))),
     (lit ''sealedAt'', CStr (toISOString (sl_sealedAt s)))]"

definition quorumSoftDeadline :: "timestamp \<Rightarrow> int \<Rightarrow> timestamp" where
  "quorumSoftDeadline waveCreatedAt seconds = waveCreatedAt + seconds * 1000"

definition sealed :: "QuorumSealInput \<Rightarrow> jstring \<Rightarrow> DiscussionWaveSeal" where
  "sealed u d = QuorumSealInput.extend u \<lparr>sl_sealDigest = d\<rparr>"

definition createDiscussionWaveSeal :: "text_lib \<Rightarrow> QuorumSealInput \<Rightarrow> DiscussionWaveSeal throwing" where
  "createDiscussionWaveSeal L input =
    (let acceptedMembers = sort_by (\<lambda>l r. sm_waveMemberOrdinal l - sm_waveMemberOrdinal r)
           (sl_acceptedMembers input);
         unsigned = input\<lparr>sl_acceptedMembers := acceptedMembers\<rparr>
     in bind (executionOperationDigest L (seal_json unsigned)) (\<lambda>d. Inr (sealed unsigned d)))"

definition valid_seal_member :: "DiscussionWaveSealMember \<Rightarrow> bool" where
  "valid_seal_member member \<longleftrightarrow>
    \<not> (\<not> is_safe_integer (sm_waveMemberOrdinal member) \<or> sm_waveMemberOrdinal member < 0 \<or>
       \<not> is_safe_integer (sm_sourceReplySequence member) \<or> sm_sourceReplySequence member < 1 \<or>
       \<not> is_safe_integer (sm_sourceMessageSequence member) \<or> sm_sourceMessageSequence member < 1 \<or>
       \<not> is_hex64 (sm_replyHash member))"

definition valid_seal_content :: "QuorumSealInput \<Rightarrow> bool" where
  "valid_seal_content seal \<longleftrightarrow>
    (let members = sl_acceptedMembers seal in \<not> (
      length (trim (sl_sealId seal)) = 0 \<or> length (trim (sl_discussionId seal)) = 0 \<or>
      length (trim (sl_waveId seal)) = 0 \<or>
      \<not> is_safe_integer (sl_minimumCompleted seal) \<or>
      sl_minimumCompleted seal < 2 \<or> sl_minimumCompleted seal > 5 \<or>
      (\<exists>role\<in>set (sl_requiredRoles seal). role \<noteq> Role_reviewer) \<or>
      length (js_set (sl_requiredRoles seal)) \<noteq> length (sl_requiredRoles seal) \<or>
      int (length members) < sl_minimumCompleted seal \<or> length members > 5 \<or>
      length (js_set (map sm_turnId members)) \<noteq> length members \<or>
      length (js_set (map sm_agentId members)) \<noteq> length members \<or>
      map sm_waveMemberOrdinal members \<noteq> sort_by (\<lambda>l r. l - r) (map sm_waveMemberOrdinal members) \<or>
      (\<exists>member\<in>set members. \<not> valid_seal_member member) \<or>
      (\<exists>role\<in>set (sl_requiredRoles seal). \<not> (\<exists>member\<in>set members. sm_role member = role))))"

text \<open>
  The conditions are tested left to right and the digest is computed last, so an error of the
  canonical text surfaces only for a seal whose content is valid.
\<close>

definition assertDiscussionWaveSeal :: "text_lib \<Rightarrow> DiscussionWaveSeal \<Rightarrow> unit throwing" where
  "assertDiscussionWaveSeal L seal =
    (let unsigned = QuorumSealInput.truncate seal in
     bind (ensure (valid_seal_content unsigned \<and> is_hex64 (sl_sealDigest seal))
       (Error ''Discussion Wave seal is invalid'')) (\<lambda>_.
     bind (executionOperationDigest L (seal_json unsigned)) (\<lambda>d.
     ensure (sl_sealDigest seal = d) (Error ''Discussion Wave seal is invalid''))))"

section \<open>Lemmas\<close>

lemma buildWavePlan_Inr:
  assumes "buildWavePlan L wid tid d ps m kind sel now = Inr plan"
  shows "ps \<noteq> []" "assertDiscussionWaveSelection L sel (Some (map p_agentId ps)) = Inr ()"
    "wp_turns plan = map (\<lambda>(i, p). planned_turn d m kind now wid tid i p) (enumerate 0 ps)"
    "w_expectedMembers (wp_wave plan) = int (length ps)" "w_waveId (wp_wave plan) = wid"
    "w_state (wp_wave plan) = WS_open"
    "w_deadlineAt (wp_wave plan) = (if kind = Kind_finalization then now + 300000
       else min (d_deadlineAt d) (now + waveTimeoutSeconds (d_policy d) * 1000))"
    "w_ordinal (wp_wave plan) = (case d_currentWave d of None \<Rightarrow> 0 | Some n \<Rightarrow> n) + 1"
  using assms
  by (auto simp: buildWavePlan_def throw_simps Let_def finalizationDurationMilliseconds_def
      split: if_splits)

lemma buildWavePlan_ok:
  assumes "ps \<noteq> []" "assertDiscussionWaveSelection L sel (Some (map p_agentId ps)) = Inr ()"
  shows "\<exists>plan. buildWavePlan L wid tid d ps m kind sel now = Inr plan"
  using assms by (simp add: buildWavePlan_def Let_def)

lemma selectedIds_of_assert:
  "assertDiscussionWaveSelection L sel (Some ids) = Inr () \<Longrightarrow> sel_selectedAgentIds sel = ids \<and> distinct ids"
  by (auto simp: assertDiscussionWaveSelection_def)

lemma seal_parts [simp]:
  "QuorumSealInput.truncate (sealed u d) = u" "sl_sealDigest (sealed u d) = d"
  "sl_acceptedMembers (sealed u d) = sl_acceptedMembers u"
  by (cases u, simp add: sealed_def QuorumSealInput.defs)+

lemma same_keys_eq:
  "map fst xs = map fst ys \<Longrightarrow> distinct (map fst xs) \<Longrightarrow> set xs = set ys \<Longrightarrow> xs = ys"
proof (induction xs arbitrary: ys)
  case (Cons x xs)
  then obtain y ys' where ys: "ys = y # ys'" "fst x = fst y" "map fst xs = map fst ys'"
    by (cases ys) auto
  from ys(3) have img: "fst ` set xs = fst ` set ys'" by (metis list.set_map)
  moreover have "fst x \<notin> fst ` set xs" using Cons.prems(2) by simp
  ultimately have "x \<notin> set xs" "y \<notin> set ys'" "x \<notin> set ys'"
    using ys(2) by (metis image_eqI)+
  with Cons.prems(3) ys have "x = y" by auto
  with Cons.prems ys \<open>x \<notin> set xs\<close> \<open>y \<notin> set ys'\<close> have "set xs = set ys'"
    by (metis insert_ident list.simps(15))
  with Cons ys \<open>x = y\<close> show ?case by simp
qed simp

lemma sort_keys_fields:
  assumes "map fst ps = map fst qs" "distinct (map fst ps)"
    and "sort_keys (CObj ps) = sort_keys (CObj qs)"
  shows "map (\<lambda>(k, v). (k, sort_keys v)) ps = map (\<lambda>(k, v). (k, sort_keys v)) qs"
proof -
  let ?f = "\<lambda>(k, v). (k :: jstring, sort_keys v)"
  have keys: "map fst (map ?f xs) = map fst xs" for xs by (induction xs) auto
  have "sort_by by_key (map ?f ps) = sort_by by_key (map ?f qs)" using assms(3) by simp
  then have "set (map ?f ps) = set (map ?f qs)" by (metis set_sort_by)
  then show ?thesis using assms(1,2) by (intro same_keys_eq) (simp_all only: keys)
qed

lemma role_text_inj [simp]: "role_text a = role_text b \<longleftrightarrow> a = b"
  by (cases a; cases b) simp_all

lemma strings_fixed: "sort_keys (strings xs) = strings xs"
  by (simp add: comp_def)

lemma seal_member_binding:
  assumes "sort_keys (seal_member_json a) = sort_keys (seal_member_json b)"
  shows "a = b"
proof -
  from sort_keys_fields[OF _ _ assms[unfolded seal_member_json_def]]
  show ?thesis by (auto intro: DiscussionWaveSealMember.equality)
qed

lemma seal_members_binding:
  "map (sort_keys \<circ> seal_member_json) ms = map (sort_keys \<circ> seal_member_json) ns \<Longrightarrow> ms = ns"
proof (induction ms arbitrary: ns)
  case (Cons m ms)
  then show ?case by (cases ns) (auto dest: seal_member_binding)
qed simp

lemma seal_content_binding:
  assumes "sort_keys (seal_json a) = sort_keys (seal_json b)"
  shows "sl_sealId a = sl_sealId b \<and> sl_discussionId a = sl_discussionId b \<and> sl_waveId a = sl_waveId b \<and>
    sl_minimumCompleted a = sl_minimumCompleted b \<and> sl_requiredRoles a = sl_requiredRoles b \<and>
    sl_acceptedMembers a = sl_acceptedMembers b \<and>
    toISOString (sl_softDeadlineAt a) = toISOString (sl_softDeadlineAt b) \<and>
    toISOString (sl_sealedAt a) = toISOString (sl_sealedAt b)"
proof -
  have roles: "map (\<lambda>x. CStr (role_text x)) xs = map (\<lambda>x. CStr (role_text x)) ys \<longleftrightarrow> xs = ys" for xs ys
    by (rule inj_map_eq_map) (simp add: inj_def)
  from sort_keys_fields[OF _ _ assms[unfolded seal_json_def]] show ?thesis
    by (auto simp: roles comp_def dest!: seal_members_binding[unfolded comp_def])
qed

lemma assertDiscussionWaveSeal_Inr:
  "assertDiscussionWaveSeal L seal = Inr () \<longleftrightarrow>
    valid_seal_content (QuorumSealInput.truncate seal) \<and> is_hex64 (sl_sealDigest seal) \<and>
    executionOperationDigest L (seal_json (QuorumSealInput.truncate seal)) = Inr (sl_sealDigest seal)"
  by (auto simp: assertDiscussionWaveSeal_def Let_def throw_simps)

text \<open>Only the order of the members distinguishes two listings of the same members.\<close>

lemma valid_seal_sorted:
  assumes "valid_seal_content (u\<lparr>sl_acceptedMembers := ms\<rparr>)" "mset ms = mset ns"
  shows "valid_seal_content
    (u\<lparr>sl_acceptedMembers := sort_by (\<lambda>l r. sm_waveMemberOrdinal l - sm_waveMemberOrdinal r) ns\<rparr>)"
proof -
  define ss where "ss = sort_by (\<lambda>l r. sm_waveMemberOrdinal l - sm_waveMemberOrdinal r) ns"
  have m: "mset ss = mset ms" using assms(2) by (simp add: ss_def)
  then have sets: "set ss = set ms" "length ss = length ms" by (metis set_mset_mset, metis size_mset)
  have maps: "distinct (map f ss) = distinct (map f ms)" for f :: "DiscussionWaveSealMember \<Rightarrow> jstring"
    using m by (metis mset_eq_imp_distinct_iff mset_map)
  have "sorted_wrt (\<lambda>l r. l - r \<le> 0) (map sm_waveMemberOrdinal ss)"
    using key_cmp.sorted_sort_by[of sm_waveMemberOrdinal ns] by (simp add: ss_def sorted_wrt_map)
  then have order: "sort_by (\<lambda>l r. l - r) (map sm_waveMemberOrdinal ss) = map sm_waveMemberOrdinal ss"
    by (rule sort_by_sorted_id)
  have set1: "length (js_set (map f xs)) = length xs \<longleftrightarrow> distinct (map f xs)"
    for f :: "DiscussionWaveSealMember \<Rightarrow> jstring" and xs
    using js_set_size_iff[of "map f xs"] by simp
  show ?thesis
    using assms(1) unfolding ss_def[symmetric] valid_seal_content_def Let_def
    by (simp add: order sets set1 maps)
qed

lemma selection_ok:
  assumes "selectable L d cs" "selectDiscussionParticipants L d cs fin = Inr sel"
  shows "ps_participants sel \<noteq> []"
    "assertDiscussionWaveSelection L (ps_snapshot sel) (Some (map p_agentId (ps_participants sel))) = Inr ()"
proof -
  have ne: "cs \<noteq> []"
    using assms(2) by (rule contrapos_pn) (simp add: selectDiscussionParticipants_def)
  then have "fin \<or> \<not> review_needed d \<or> (\<exists>c\<in>set cs. p_role (cd_participant c) = Role_reviewer)"
    using assms(2) select_errors[of fin d cs L] by force
  from select_accepted[OF assms(1) ne this] assms(2)
  show "ps_participants sel \<noteq> []"
    "assertDiscussionWaveSelection L (ps_snapshot sel) (Some (map p_agentId (ps_participants sel))) = Inr ()"
    by (auto simp: accepted_def chosen_def comp_def)
qed

lemma planned_turns:
  assumes "buildWavePlan L wid tid d ps m kind sel now = Inr plan"
  shows "map t_speakerAgentId (wp_turns plan) = map p_agentId ps"
    "map t_ordinal (wp_turns plan) = map (\<lambda>i. d_currentTurn d + int i + 1) [0..<length ps]"
    "map t_waveMemberOrdinal (wp_turns plan) = map (\<lambda>i. Some (int i)) [0..<length ps]"
proof -
  have idx: "map fst (enumerate 0 ps) = [0..<length ps]" "map snd (enumerate 0 ps) = ps"
    by (simp_all add: enumerate_eq_zip)
  have proj: "map (\<lambda>(i, p). g i) E = map g (map fst E)" "map (\<lambda>(i, p). h p) E = map h (map snd E)"
    for g h and E :: "(nat \<times> DiscussionParticipant) list"
    by (simp_all only: map_map comp_def case_prod_unfold)
  have turns: "map g (wp_turns plan) = map (\<lambda>(i, p). g (planned_turn d m kind now wid tid i p)) (enumerate 0 ps)" for g
    unfolding buildWavePlan_Inr(3)[OF assms] by (simp only: map_map comp_def case_prod_unfold)
  show "map t_speakerAgentId (wp_turns plan) = map p_agentId ps"
    "map t_ordinal (wp_turns plan) = map (\<lambda>i. d_currentTurn d + int i + 1) [0..<length ps]"
    "map t_waveMemberOrdinal (wp_turns plan) = map (\<lambda>i. Some (int i)) [0..<length ps]"
    unfolding turns planned_turn_def DiscussionTurn.simps proj idx by (rule refl)+
qed

section \<open>Properties\<close>

text \<open>
  From selection to plan: whenever a Wave can be selected its plan is built, one planned turn
  per selected participant, numbered consecutively after the current turn and from zero inside
  the Wave, with distinct speakers, and a contribution never outlives the Discussion's deadline.
\<close>

theorem selected_wave_planned:
  assumes "selectable L d cs" "selectDiscussionParticipants L d cs fin = Inr sel"
  shows "\<exists>plan. buildWavePlan L wid tid d (ps_participants sel) m
      (if fin then Kind_finalization else Kind_discussion) (ps_snapshot sel) now = Inr plan \<and>
    map t_speakerAgentId (wp_turns plan) = sel_selectedAgentIds (ps_snapshot sel) \<and>
    distinct (map t_speakerAgentId (wp_turns plan)) \<and>
    map t_ordinal (wp_turns plan) =
      map (\<lambda>i. d_currentTurn d + int i + 1) [0..<length (ps_participants sel)] \<and>
    map t_waveMemberOrdinal (wp_turns plan) = map (\<lambda>i. Some (int i)) [0..<length (ps_participants sel)] \<and>
    w_expectedMembers (wp_wave plan) = int (length (wp_turns plan)) \<and>
    (\<forall>t\<in>set (wp_turns plan). t_state t = TS_planned \<and> t_waveId t = Some (w_waveId (wp_wave plan))) \<and>
    (fin \<or> w_deadlineAt (wp_wave plan) \<le> d_deadlineAt d)"
proof -
  let ?ps = "ps_participants sel"
  have ok: "?ps \<noteq> []" "assertDiscussionWaveSelection L (ps_snapshot sel) (Some (map p_agentId ?ps)) = Inr ()"
    using selection_ok[OF assms] by auto
  obtain plan where plan: "buildWavePlan L wid tid d ?ps m
      (if fin then Kind_finalization else Kind_discussion) (ps_snapshot sel) now = Inr plan"
    using buildWavePlan_ok[OF ok] by blast
  show ?thesis
    using plan planned_turns[OF plan] buildWavePlan_Inr(3-7)[OF plan] selectedIds_of_assert[OF ok(2)]
    by (auto simp: planned_turn_def)
qed

theorem selected_wave_planned_witness:
  "\<exists>sel plan. selectDiscussionParticipants ascii_lib demo_discussion
      [demo_participant 1 ''a1'' Role_reviewer, demo_participant 0 ''a0'' Role_participant] False = Inr sel \<and>
    buildWavePlan ascii_lib (lit ''w'') nat_text demo_discussion (ps_participants sel) (lit ''m'')
      Kind_discussion (ps_snapshot sel) 5000 = Inr plan \<and>
    w_deadlineAt (wp_wave plan) \<le> 1200000"
proof -
  let ?cs = "[demo_participant 1 ''a1'' Role_reviewer, demo_participant 0 ''a0'' Role_participant]"
  have s: "selectable ascii_lib demo_discussion ?cs"
    by (simp add: selectable_def ascii_tables demo_discussion_def defaultDiscussionPolicy_def
        demo_participant_def emptyProgressSnapshot_def trim_def lit_def is_space_def)
  obtain sel where sel: "selectDiscussionParticipants ascii_lib demo_discussion ?cs False = Inr sel"
    using select_accepted[OF s, of False] by (auto simp: accepted_def demo_participant_def)
  from selected_wave_planned[OF s sel, of "lit ''w''" nat_text "lit ''m''" 5000] sel show ?thesis
    by (auto simp: demo_discussion_def)
qed

text \<open>
  (C34) A seal made from a valid set of members is accepted again, whatever the order in which the
  members were listed.
\<close>

theorem seal_roundtrip:
  assumes "\<forall>s. is_hex64 (sha256Hex L s)" "mset ms = mset (sl_acceptedMembers u)"
    and "valid_seal_content (u\<lparr>sl_acceptedMembers := ms\<rparr>)" "createDiscussionWaveSeal L u = Inr seal"
  shows "assertDiscussionWaveSeal L seal = Inr () \<and> mset (sl_acceptedMembers seal) = mset (sl_acceptedMembers u)"
proof -
  let ?v = "u\<lparr>sl_acceptedMembers :=
    sort_by (\<lambda>l r. sm_waveMemberOrdinal l - sm_waveMemberOrdinal r) (sl_acceptedMembers u)\<rparr>"
  obtain d where d: "executionOperationDigest L (seal_json ?v) = Inr d" "seal = sealed ?v d"
    using assms(4) by (auto simp: createDiscussionWaveSeal_def Let_def bind_eq_Inr)
  then have "is_hex64 d" using assms(1) by (auto simp: executionOperationDigest_Inr)
  then show ?thesis
    unfolding assertDiscussionWaveSeal_Inr d(2) seal_parts
    using d(1) valid_seal_sorted[OF assms(3,2)] by simp
qed

definition demo_seal_member :: "int \<Rightarrow> string \<Rightarrow> DiscussionWaveSealMember" where
  "demo_seal_member n name =
    \<lparr>sm_turnId = lit name, sm_waveMemberOrdinal = n, sm_agentId = lit name, sm_role = Role_reviewer,
     sm_runId = lit ''r'', sm_sourceReplySequence = 2, sm_outputMessageId = lit ''m'',
     sm_sourceMessageSequence = 7, sm_replyHash = replicate 64 0x61\<rparr>"

definition demo_seal_input :: QuorumSealInput where
  "demo_seal_input =
    \<lparr>sl_sealId = lit ''s'', sl_discussionId = lit ''d'', sl_waveId = lit ''w'', sl_softDeadlineAt = 60000,
     sl_minimumCompleted = 2, sl_requiredRoles = [Role_reviewer],
     sl_acceptedMembers = [demo_seal_member 1 ''y'', demo_seal_member 0 ''x''], sl_sealedAt = 61000\<rparr>"

lemma demo_seal_created: "\<exists>seal. createDiscussionWaveSeal ascii_lib demo_seal_input = Inr seal"
proof -
  let ?u = "demo_seal_input\<lparr>sl_acceptedMembers :=
    sort_by (\<lambda>l r. sm_waveMemberOrdinal l - sm_waveMemberOrdinal r) (sl_acceptedMembers demo_seal_input)\<rparr>"
  have iso: "toISOString 60000 = lit ''1970-01-01T00:01:00.000Z''" "toISOString 61000 = lit ''1970-01-01T00:01:01.000Z''"
    by code_simp+
  have "isWellFormed (replicate 64 0x61)" by (rule wellformed_low) simp
  then have "room (seal_json ?u)"
    by (simp add: room_def seal_json_def seal_member_json_def demo_seal_input_def demo_seal_member_def iso sort_by_def
        forbidden_key_def is_safe_integer_def max_safe_integer_def maximumValues_def)
  then obtain d where "executionOperationDigest ascii_lib (seal_json ?u) = Inr d"
    using room_digest by blast
  then show ?thesis by (simp add: createDiscussionWaveSeal_def Let_def)
qed

theorem seal_roundtrip_witness:
  "\<exists>seal. createDiscussionWaveSeal ascii_lib demo_seal_input = Inr seal \<and>
    assertDiscussionWaveSeal ascii_lib seal = Inr ()"
proof -
  obtain seal where seal: "createDiscussionWaveSeal ascii_lib demo_seal_input = Inr seal"
    using demo_seal_created by blast
  have "valid_seal_content (demo_seal_input\<lparr>sl_acceptedMembers :=
      [demo_seal_member 0 ''x'', demo_seal_member 1 ''y'']\<rparr>)"
    by code_simp
  from seal_roundtrip[OF _ _ this seal] seal show ?thesis
    using ascii_tables by (simp add: demo_seal_input_def unicode_tables_def)
qed

text \<open>
  A seal binds its content: two accepted seals with the same digest, where SHA-256 does not
  collide on their texts, name the same Wave, the same threshold and roles and the same members,
  in the same order.
\<close>

theorem seal_binding:
  assumes "assertDiscussionWaveSeal L a = Inr ()" "assertDiscussionWaveSeal L b = Inr ()"
    and "sl_sealDigest a = sl_sealDigest b"
    and "sha256Hex L (canonicalValue (seal_json (QuorumSealInput.truncate a))) =
        sha256Hex L (canonicalValue (seal_json (QuorumSealInput.truncate b))) \<longrightarrow>
      canonicalValue (seal_json (QuorumSealInput.truncate a)) =
        canonicalValue (seal_json (QuorumSealInput.truncate b))"
  shows "sl_waveId a = sl_waveId b \<and> sl_discussionId a = sl_discussionId b \<and>
    sl_minimumCompleted a = sl_minimumCompleted b \<and> sl_requiredRoles a = sl_requiredRoles b \<and>
    sl_acceptedMembers a = sl_acceptedMembers b"
proof -
  have "sl_sealDigest x = sha256Hex L (canonicalValue (seal_json (QuorumSealInput.truncate x)))"
    if "assertDiscussionWaveSeal L x = Inr ()" for x
    using that by (auto simp: assertDiscussionWaveSeal_Inr executionOperationDigest_Inr
        dest: canonicalExecutionJSON_Inr)
  with assms have "sort_keys (seal_json (QuorumSealInput.truncate a)) =
      sort_keys (seal_json (QuorumSealInput.truncate b))"
    by (simp add: canonical_eq_iff)
  from seal_content_binding[OF this] show ?thesis
    by (cases a; cases b) (simp add: QuorumSealInput.defs)
qed

theorem seal_binding_witness:
  "\<exists>a. assertDiscussionWaveSeal ascii_lib a = Inr () \<and> sl_acceptedMembers a = sl_acceptedMembers a \<and>
    length (sl_acceptedMembers a) = 2"
proof -
  obtain seal where seal: "createDiscussionWaveSeal ascii_lib demo_seal_input = Inr seal"
    using demo_seal_created by blast
  have "valid_seal_content (demo_seal_input\<lparr>sl_acceptedMembers :=
      sort_by (\<lambda>l r. sm_waveMemberOrdinal l - sm_waveMemberOrdinal r) (sl_acceptedMembers demo_seal_input)\<rparr>)"
    by code_simp
  then have ok: "assertDiscussionWaveSeal ascii_lib seal = Inr ()" "length (sl_acceptedMembers seal) = 2"
    using seal ascii_tables
    by (auto simp: createDiscussionWaveSeal_def Let_def bind_eq_Inr assertDiscussionWaveSeal_Inr
        executionOperationDigest_Inr unicode_tables_def demo_seal_input_def)
  with seal_binding[of ascii_lib seal seal] show ?thesis by blast
qed

end
