(* ===== verification/Plan_Types.thy ===== *)
theory Plan_Types
  imports Canonical_JSON
begin

text \<open>
  The definition of an execution plan: the interfaces of
  \<^verbatim>\<open>packages/contracts/generated/typescript/execution-plan.ts\<close> as records, and the JSON value a
  definition is (the argument of the canonical text). Optional properties are options; a node's
  task is either a new one or an existing one, as the schema requires.
\<close>

section \<open>Enumerations\<close>

datatype Gate = Gate_accepted_result | Gate_verified_output | Gate_integrated_commit

datatype ExternalInputKind = Slot_patch | Slot_commit | Slot_document | Slot_test_result

datatype NodeKind = Node_implementation | Node_review | Node_verification

datatype Access = Access_read_only | Access_isolated_write

datatype IntegrationEnum = Int_reviewed_candidate | Int_local_integration | Int_remote_pr

datatype SourceKind =
  Src_artifact | Src_run_event | Src_message | Src_memory | Src_discussion | Src_result

section \<open>Records\<close>

record DecisionItem =
  it_itemKey :: jstring
  it_statement :: jstring

record SourceRevision =
  rv_evidenceRefId :: jstring
  rv_revision :: int

record DecisionSource =
  so_evidenceRefId :: jstring
  so_kind :: SourceKind
  so_artifactId :: "jstring option"
  so_runId :: "jstring option"
  so_sequence :: "int option"
  so_messageId :: "jstring option"
  so_memoryId :: "jstring option"
  so_discussionId :: "jstring option"
  so_resultId :: "jstring option"

record UnresolvedQuestion =
  qu_questionKey :: jstring
  qu_required :: bool
  qu_text :: jstring

record PlanDecision =
  dc_items :: "DecisionItem list"
  dc_sourceRevisions :: "SourceRevision list"
  dc_sources :: "DecisionSource list"
  dc_summary :: jstring
  dc_unresolvedQuestions :: "UnresolvedQuestion list"

record EdgeBinding =
  eb_inputSlot :: jstring
  eb_outputSlot :: jstring

record PlanEdge =
  ed_bindings :: "EdgeBinding list"
  ed_edgeKey :: jstring
  ed_fromNodeKey :: jstring
  ed_gate :: Gate
  ed_toNodeKey :: jstring

record ExternalInput =
  xi_artifactId :: jstring
  xi_artifactRevision :: int
  xi_contentDigest :: jstring
  xi_inputSlot :: jstring
  xi_kind :: ExternalInputKind
  xi_nodeKey :: jstring
  xi_sourceResultId :: jstring
  xi_sourceTaskId :: jstring

record RunBudget =
  bu_maxExecutionDurationSeconds :: int
  bu_maxRunAttempts :: int

record NodeSlot =
  ns_kind :: ExternalInputKind
  ns_required :: bool
  ns_slotKey :: jstring

record NodeRepository =
  rp_baseCommit :: jstring
  rp_bindingId :: jstring
  rp_grantId :: jstring
  rp_grantRevision :: int
  rp_repositoryId :: jstring
  rp_runtimeProfileDigest :: jstring
  rp_runtimeProfileId :: jstring

record NodeScope =
  sc_access :: Access
  sc_allowedPaths :: "jstring list"
  sc_forbiddenPaths :: "jstring list"
  sc_requirePreventivePathEnforcement :: bool

record TaskCriterion =
  cr_criterionKey :: jstring
  cr_description :: jstring
  cr_ordinal :: int
  cr_required :: bool

record SourceAction =
  sa_nextActionKey :: jstring
  sa_resultId :: jstring

record NewTask =
  tn_criteria :: "TaskCriterion list"
  tn_goal :: jstring
  tn_ownerMemberId :: jstring
  tn_sourceAction :: "SourceAction option"
  tn_title :: jstring

record ExistingTask =
  te_criteriaRevision :: int
  te_definitionRevision :: int
  te_expectedTaskRevision :: int
  te_taskId :: jstring

datatype NodeTask = Task_new NewTask | Task_existing ExistingTask

record VerificationProfile =
  vp_digest :: jstring
  vp_profileId :: jstring
  vp_required :: bool
  vp_revision :: int

record PlanNode =
  nd_agentId :: jstring
  nd_budget :: RunBudget
  nd_inputs :: "NodeSlot list"
  nd_kind :: NodeKind
  nd_nodeKey :: jstring
  nd_outputs :: "NodeSlot list"
  nd_repository :: NodeRepository
  nd_required :: bool
  nd_scope :: NodeScope
  nd_task :: NodeTask
  nd_verificationProfiles :: "VerificationProfile list"

record IntegrationTarget =
  tg_expectedCommit :: jstring
  tg_repositoryId :: jstring
  tg_targetRef :: jstring

record PlanPolicy =
  pp_budget :: RunBudget
  pp_integration :: IntegrationEnum
  pp_integrationTargets :: "IntegrationTarget list"
  pp_maxConcurrency :: int
  pp_requireHumanIntegrationApproval :: bool

record PlanDefinition =
  pl_decision :: PlanDecision
  pl_edges :: "PlanEdge list"
  pl_externalInputs :: "ExternalInput list"
  pl_nodes :: "PlanNode list"
  pl_policy :: PlanPolicy
  pl_rootTaskId :: jstring
  pl_title :: jstring

section \<open>The JSON value of a definition\<close>

fun gate_text :: "Gate \<Rightarrow> jstring" where
  "gate_text Gate_accepted_result = lit ''accepted_result''"
| "gate_text Gate_verified_output = lit ''verified_output''"
| "gate_text Gate_integrated_commit = lit ''integrated_commit''"

fun slot_kind_text :: "ExternalInputKind \<Rightarrow> jstring" where
  "slot_kind_text Slot_patch = lit ''patch''"
| "slot_kind_text Slot_commit = lit ''commit''"
| "slot_kind_text Slot_document = lit ''document''"
| "slot_kind_text Slot_test_result = lit ''test_result''"

fun node_kind_text :: "NodeKind \<Rightarrow> jstring" where
  "node_kind_text Node_implementation = lit ''implementation''"
| "node_kind_text Node_review = lit ''review''"
| "node_kind_text Node_verification = lit ''verification''"

fun access_text :: "Access \<Rightarrow> jstring" where
  "access_text Access_read_only = lit ''read_only''"
| "access_text Access_isolated_write = lit ''isolated_write''"

fun integration_text :: "IntegrationEnum \<Rightarrow> jstring" where
  "integration_text Int_reviewed_candidate = lit ''reviewed_candidate''"
| "integration_text Int_local_integration = lit ''local_integration''"
| "integration_text Int_remote_pr = lit ''remote_pr''"

fun source_kind_text :: "SourceKind \<Rightarrow> jstring" where
  "source_kind_text Src_artifact = lit ''artifact''"
| "source_kind_text Src_run_event = lit ''run_event''"
| "source_kind_text Src_message = lit ''message''"
| "source_kind_text Src_memory = lit ''memory''"
| "source_kind_text Src_discussion = lit ''discussion''"
| "source_kind_text Src_result = lit ''result''"

definition opt_field :: "string \<Rightarrow> cjson option \<Rightarrow> (jstring \<times> cjson) list" where
  "opt_field k v = (case v of None \<Rightarrow> [] | Some j \<Rightarrow> [(lit k, j)])"

abbreviation str_field :: "string \<Rightarrow> jstring \<Rightarrow> jstring \<times> cjson" where
  "str_field k s \<equiv> (lit k, CStr s)"

abbreviation int_field :: "string \<Rightarrow> int \<Rightarrow> jstring \<times> cjson" where
  "int_field k n \<equiv> (lit k, CInt n)"

abbreviation bool_field :: "string \<Rightarrow> bool \<Rightarrow> jstring \<times> cjson" where
  "bool_field k b \<equiv> (lit k, CBool b)"

abbreviation list_field :: "string \<Rightarrow> ('a \<Rightarrow> cjson) \<Rightarrow> 'a list \<Rightarrow> jstring \<times> cjson" where
  "list_field k f xs \<equiv> (lit k, CArr (map f xs))"

text \<open>A source without its \<^verbatim>\<open>evidenceRefId\<close>, the pin two sources must not share.\<close>

definition source_pin :: "DecisionSource \<Rightarrow> cjson" where
  "source_pin s = CObj (
     [str_field ''kind'' (source_kind_text (so_kind s))] @
     opt_field ''artifactId'' (map_option CStr (so_artifactId s)) @
     opt_field ''runId'' (map_option CStr (so_runId s)) @
     opt_field ''sequence'' (map_option CInt (so_sequence s)) @
     opt_field ''messageId'' (map_option CStr (so_messageId s)) @
     opt_field ''memoryId'' (map_option CStr (so_memoryId s)) @
     opt_field ''discussionId'' (map_option CStr (so_discussionId s)) @
     opt_field ''resultId'' (map_option CStr (so_resultId s)))"

definition source_json :: "DecisionSource \<Rightarrow> cjson" where
  "source_json s = (case source_pin s of
     CObj ps \<Rightarrow> CObj (str_field ''evidenceRefId'' (so_evidenceRefId s) # ps) | v \<Rightarrow> v)"

definition decision_json :: "PlanDecision \<Rightarrow> cjson" where
  "decision_json d = CObj [
     list_field ''items'' (\<lambda>i. CObj [str_field ''itemKey'' (it_itemKey i),
       str_field ''statement'' (it_statement i)]) (dc_items d),
     list_field ''sourceRevisions'' (\<lambda>r. CObj [str_field ''evidenceRefId'' (rv_evidenceRefId r),
       int_field ''revision'' (rv_revision r)]) (dc_sourceRevisions d),
     list_field ''sources'' source_json (dc_sources d),
     str_field ''summary'' (dc_summary d),
     list_field ''unresolvedQuestions'' (\<lambda>q. CObj [str_field ''questionKey'' (qu_questionKey q),
       bool_field ''required'' (qu_required q), str_field ''text'' (qu_text q)])
       (dc_unresolvedQuestions d)]"

definition edge_json :: "PlanEdge \<Rightarrow> cjson" where
  "edge_json e = CObj [
     list_field ''bindings'' (\<lambda>b. CObj [str_field ''inputSlot'' (eb_inputSlot b),
       str_field ''outputSlot'' (eb_outputSlot b)]) (ed_bindings e),
     str_field ''edgeKey'' (ed_edgeKey e), str_field ''fromNodeKey'' (ed_fromNodeKey e),
     str_field ''gate'' (gate_text (ed_gate e)), str_field ''toNodeKey'' (ed_toNodeKey e)]"

definition external_input_json :: "ExternalInput \<Rightarrow> cjson" where
  "external_input_json x = CObj [
     str_field ''artifactId'' (xi_artifactId x), int_field ''artifactRevision'' (xi_artifactRevision x),
     str_field ''contentDigest'' (xi_contentDigest x), str_field ''inputSlot'' (xi_inputSlot x),
     str_field ''kind'' (slot_kind_text (xi_kind x)), str_field ''nodeKey'' (xi_nodeKey x),
     str_field ''sourceResultId'' (xi_sourceResultId x), str_field ''sourceTaskId'' (xi_sourceTaskId x)]"

definition budget_json :: "RunBudget \<Rightarrow> cjson" where
  "budget_json b = CObj [
     int_field ''maxExecutionDurationSeconds'' (bu_maxExecutionDurationSeconds b),
     int_field ''maxRunAttempts'' (bu_maxRunAttempts b)]"

definition slot_json :: "NodeSlot \<Rightarrow> cjson" where
  "slot_json s = CObj [str_field ''kind'' (slot_kind_text (ns_kind s)),
     bool_field ''required'' (ns_required s), str_field ''slotKey'' (ns_slotKey s)]"

definition action_json :: "SourceAction \<Rightarrow> cjson" where
  "action_json a = CObj [str_field ''nextActionKey'' (sa_nextActionKey a),
     str_field ''resultId'' (sa_resultId a)]"

definition task_json :: "NodeTask \<Rightarrow> cjson" where
  "task_json t = (case t of
     Task_new n \<Rightarrow> CObj (
       [str_field ''mode'' (lit ''new''),
        list_field ''criteria'' (\<lambda>c. CObj [str_field ''criterionKey'' (cr_criterionKey c),
          str_field ''description'' (cr_description c), int_field ''ordinal'' (cr_ordinal c),
          bool_field ''required'' (cr_required c)]) (tn_criteria n),
        str_field ''goal'' (tn_goal n), str_field ''ownerMemberId'' (tn_ownerMemberId n)] @
       opt_field ''sourceAction'' (map_option action_json (tn_sourceAction n)) @
       [str_field ''title'' (tn_title n)])
   | Task_existing e \<Rightarrow> CObj [
       str_field ''mode'' (lit ''existing''),
       int_field ''criteriaRevision'' (te_criteriaRevision e),
       int_field ''definitionRevision'' (te_definitionRevision e),
       int_field ''expectedTaskRevision'' (te_expectedTaskRevision e),
       str_field ''taskId'' (te_taskId e)])"

definition node_json :: "PlanNode \<Rightarrow> cjson" where
  "node_json n = CObj [
     str_field ''agentId'' (nd_agentId n), (lit ''budget'', budget_json (nd_budget n)),
     list_field ''inputs'' slot_json (nd_inputs n),
     str_field ''kind'' (node_kind_text (nd_kind n)), str_field ''nodeKey'' (nd_nodeKey n),
     list_field ''outputs'' slot_json (nd_outputs n),
     (lit ''repository'', let r = nd_repository n in CObj [
       str_field ''baseCommit'' (rp_baseCommit r), str_field ''bindingId'' (rp_bindingId r),
       str_field ''grantId'' (rp_grantId r), int_field ''grantRevision'' (rp_grantRevision r),
       str_field ''repositoryId'' (rp_repositoryId r),
       str_field ''runtimeProfileDigest'' (rp_runtimeProfileDigest r),
       str_field ''runtimeProfileId'' (rp_runtimeProfileId r)]),
     bool_field ''required'' (nd_required n),
     (lit ''scope'', let s = nd_scope n in CObj [
       str_field ''access'' (access_text (sc_access s)),
       list_field ''allowedPaths'' CStr (sc_allowedPaths s),
       list_field ''forbiddenPaths'' CStr (sc_forbiddenPaths s),
       bool_field ''requirePreventivePathEnforcement'' (sc_requirePreventivePathEnforcement s)]),
     (lit ''task'', task_json (nd_task n)),
     list_field ''verificationProfiles'' (\<lambda>v. CObj [str_field ''digest'' (vp_digest v),
       str_field ''profileId'' (vp_profileId v), bool_field ''required'' (vp_required v),
       int_field ''revision'' (vp_revision v)]) (nd_verificationProfiles n)]"

definition policy_json :: "PlanPolicy \<Rightarrow> cjson" where
  "policy_json p = CObj [
     (lit ''budget'', budget_json (pp_budget p)),
     str_field ''integration'' (integration_text (pp_integration p)),
     list_field ''integrationTargets'' (\<lambda>t. CObj [str_field ''expectedCommit'' (tg_expectedCommit t),
       str_field ''repositoryId'' (tg_repositoryId t), str_field ''targetRef'' (tg_targetRef t)])
       (pp_integrationTargets p),
     int_field ''maxConcurrency'' (pp_maxConcurrency p),
     bool_field ''requireHumanIntegrationApproval'' (pp_requireHumanIntegrationApproval p)]"

definition plan_json :: "PlanDefinition \<Rightarrow> cjson" where
  "plan_json p = CObj [
     (lit ''decision'', decision_json (pl_decision p)),
     list_field ''edges'' edge_json (pl_edges p),
     list_field ''externalInputs'' external_input_json (pl_externalInputs p),
     list_field ''nodes'' node_json (pl_nodes p),
     (lit ''policy'', policy_json (pl_policy p)),
     str_field ''rootTaskId'' (pl_rootTaskId p),
     str_field ''schemaVersion'' (lit ''1.0''),
     str_field ''title'' (pl_title p)]"

end
