(* ===== verification/Plan_Graph.thy ===== *)
theory Plan_Graph
  imports Text_Library
begin

text \<open>
  The topological order of a plan (\<^verbatim>\<open>packages/contracts/src/execution-validation.mjs\<close>, the last
  loop of \<^verbatim>\<open>validateExecutionPlanDefinition\<close>): repeatedly take the least ready key, append it,
  and lower the indegree of its targets.

  The abstract specification is the step relation \<open>greedy\<close>, which may append any available key
  that is least among the available ones. The loop implements it (\<open>kahn_refines\<close>): it reaches
  the maximal sequence, there is only one, and it holds every key exactly when the edges have
  no cycle.
\<close>

section \<open>The loop\<close>

fun relax_targets ::
  "jstring list \<Rightarrow> (jstring \<times> int) list \<Rightarrow> jstring list \<Rightarrow> (jstring \<times> int) list \<times> jstring list" where
  "relax_targets [] indegree ready = (indegree, ready)"
| "relax_targets (target # targets) indegree ready =
     (case map_of indegree target of
        None \<Rightarrow> relax_targets targets indegree ready
      | Some degree \<Rightarrow>
          relax_targets targets (AList.update target (degree - 1) indegree)
            (if degree - 1 = 0 then sort_by binaryCompare (ready @ [target]) else ready))"

definition outgoing_of :: "(jstring \<times> jstring list) list \<Rightarrow> jstring \<Rightarrow> jstring list" where
  "outgoing_of outgoing key = (case map_of outgoing key of None \<Rightarrow> [] | Some targets \<Rightarrow> targets)"

text \<open>What the loop still has to do: open indegrees and waiting keys.\<close>

definition pending :: "(jstring \<times> int) list \<Rightarrow> jstring list \<Rightarrow> nat" where
  "pending indegree ready = sum_list (map (nat \<circ> snd) indegree) + length ready"

lemma pending_update:
  "map_of indegree k = Some d \<Longrightarrow>
   sum_list (map (nat \<circ> snd) (AList.update k (d - 1) indegree)) + (if d = 1 then 1 else 0)
     \<le> sum_list (map (nat \<circ> snd) indegree)"
  by (induction indegree) (auto split: if_splits)

lemma pending_relax:
  "case relax_targets ts indegree ready of (i, r) \<Rightarrow> pending i r \<le> pending indegree ready"
proof (induction ts indegree ready rule: relax_targets.induct)
  case (2 t ts i r)
  show ?case
  proof (cases "map_of i t")
    case None
    with 2(1) show ?thesis by simp
  next
    case (Some d)
    then show ?thesis
      using 2(2)[OF Some] pending_update[OF Some] by (auto simp: pending_def split: prod.splits if_splits)
  qed
qed simp

lemma pending_step:
  assumes "relax_targets ts indegree rest = (i, r)"
  shows "pending i r < pending indegree (key # rest)"
  using pending_relax[of indegree rest ts] assms by (simp add: pending_def)

function kahn ::
  "(jstring \<times> jstring list) list \<Rightarrow> (jstring \<times> int) list \<Rightarrow> jstring list \<Rightarrow> jstring list \<Rightarrow> jstring list" where
  "kahn outgoing indegree ready topologicalOrder =
     (case ready of
        [] \<Rightarrow> topologicalOrder
      | key # rest \<Rightarrow>
          (case relax_targets (sort_by binaryCompare (outgoing_of outgoing key)) indegree rest of
             (indegree', ready') \<Rightarrow> kahn outgoing indegree' ready' (topologicalOrder @ [key])))"
  by pat_completeness auto
termination
  by (relation "measure (\<lambda>(outgoing, indegree, ready, order). pending indegree ready)")
    (auto intro: pending_step sym)

declare kahn.simps [simp del]

definition start_ready :: "(jstring \<times> int) list \<Rightarrow> jstring list" where
  "start_ready indegree = sort_by binaryCompare (map fst (filter (\<lambda>(key, degree). degree = 0) indegree))"

section \<open>The specification\<close>

type_synonym edges = "(jstring \<times> jstring) list"

definition available :: "jstring list \<Rightarrow> edges \<Rightarrow> jstring list \<Rightarrow> jstring \<Rightarrow> bool" where
  "available keys E done v \<longleftrightarrow>
     v \<in> set keys \<and> v \<notin> set done \<and> (\<forall>(u, w)\<in>set E. w = v \<longrightarrow> u \<in> set done)"

definition least_available :: "jstring list \<Rightarrow> edges \<Rightarrow> jstring list \<Rightarrow> jstring \<Rightarrow> bool" where
  "least_available keys E done v \<longleftrightarrow>
     available keys E done v \<and> (\<forall>w\<in>set keys. available keys E done w \<longrightarrow> \<not> text_less w v)"

inductive greedy :: "jstring list \<Rightarrow> edges \<Rightarrow> jstring list \<Rightarrow> bool" for keys E where
  start: "greedy keys E []"
| pick: "greedy keys E done \<Longrightarrow> least_available keys E done v \<Longrightarrow> greedy keys E (done @ [v])"

inductive_cases greedy_snocE: "greedy keys E (done @ [v])"

definition exhausted :: "jstring list \<Rightarrow> edges \<Rightarrow> jstring list \<Rightarrow> bool" where
  "exhausted keys E done \<longleftrightarrow> (\<forall>v\<in>set keys. \<not> available keys E done v)"

text \<open>Every edge goes forward in the sequence.\<close>

definition forward :: "edges \<Rightarrow> jstring list \<Rightarrow> bool" where
  "forward E order \<longleftrightarrow>
     (\<forall>(u, v)\<in>set E. \<exists>i j. i < j \<and> j < length order \<and> order ! i = u \<and> order ! j = v)"

lemma least_available_unique:
  "least_available keys E d v \<Longrightarrow> least_available keys E d w \<Longrightarrow> v = w"
  using text_less_total[of v w] by (auto simp: least_available_def available_def)

lemma greedy_sound:
  assumes "greedy keys E order"
  shows "distinct order \<and> set order \<subseteq> set keys \<and>
    (\<forall>i<length order. available keys E (take i order) (order ! i))"
  using assms
proof induction
  case (pick d v)
  from pick.hyps(2) have v: "available keys E d v" by (simp add: least_available_def)
  then have "v \<notin> set d" "v \<in> set keys" by (simp_all add: available_def)
  moreover have "available keys E (take i (d @ [v])) ((d @ [v]) ! i)" if "i < length (d @ [v])" for i
  proof (cases "i < length d")
    case True
    with pick.IH show ?thesis by (simp add: nth_append)
  next
    case False
    with that v have "i = length d" by simp
    with v show ?thesis by simp
  qed
  ultimately show ?case using pick.IH by simp
qed simp

lemma greedy_predecessor:
  assumes "greedy keys E order" and "(u, v) \<in> set E" and "v \<in> set order"
  shows "\<exists>i j. i < j \<and> j < length order \<and> order ! i = u \<and> order ! j = v"
proof -
  from assms(3) obtain j where j: "j < length order" "order ! j = v" by (auto simp: in_set_conv_nth)
  with greedy_sound[OF assms(1)] assms(2) have "u \<in> set (take j order)"
    unfolding available_def by blast
  then obtain i where "i < length (take j order)" "take j order ! i = u" by (auto simp: in_set_conv_nth)
  with j show ?thesis by auto
qed

lemma greedy_prefix:
  assumes "greedy keys E xs" and "greedy keys E ys" and "length xs \<le> length ys"
  shows "xs = take (length xs) ys"
  using assms
proof (induction xs arbitrary: rule: greedy.induct)
  case (pick d v)
  then have d: "d = take (length d) ys" and len: "length d < length ys" by simp_all
  have "greedy keys E ys \<Longrightarrow> n < length ys \<Longrightarrow> least_available keys E (take n ys) (ys ! n)" for n
  proof (induction ys rule: greedy.induct)
    case (pick d v)
    then show ?case by (cases "n < length d") (auto simp: nth_append less_Suc_eq)
  qed simp
  with pick.prems(1) len d have "least_available keys E d (ys ! length d)" by metis
  with pick.hyps(2) have "v = ys ! length d" by (rule least_available_unique)
  with d len show ?case by (metis length_append_singleton take_Suc_conv_app_nth)
qed simp

lemma greedy_exhausted_unique:
  assumes "greedy keys E xs" "exhausted keys E xs" "greedy keys E ys" "exhausted keys E ys"
  shows "xs = ys"
proof -
  have maximal: "length b \<le> length a"
    if "greedy keys E a" "exhausted keys E a" "greedy keys E b" for a b
  proof (rule ccontr)
    assume "\<not> length b \<le> length a"
    then have "length a < length b" by simp
    with greedy_sound[OF that(3)] have "available keys E (take (length a) b) (b ! length a)" by blast
    moreover have "a = take (length a) b" using greedy_prefix[OF that(1,3)] \<open>length a < length b\<close> by simp
    ultimately show False using that(2) by (auto simp: exhausted_def available_def)
  qed
  with assms have "length xs = length ys" by (metis le_antisym)
  with greedy_prefix[OF assms(1,3)] show ?thesis by simp
qed

section \<open>Cycles\<close>

lemma forward_acyclic:
  assumes "forward E order" and "distinct order"
  shows "acyclic (set E)"
proof -
  define pos where "pos v = (THE i. i < length order \<and> order ! i = v)" for v
  have pos: "pos (order ! i) = i" if "i < length order" for i
    unfolding pos_def using that assms(2) by (auto intro!: the_equality simp: nth_eq_iff_index_eq)
  have "set E \<subseteq> measure pos"
  proof
    fix e assume "e \<in> set E"
    with assms(1) obtain i j where "i < j" "j < length order" "e = (order ! i, order ! j)"
      unfolding forward_def by (cases e) blast
    with pos[of i] pos[of j] show "e \<in> measure pos" by simp
  qed
  then show ?thesis by (meson acyclic_subset wf_acyclic wf_measure)
qed

lemma acyclic_complete:
  assumes "acyclic (set E)" and "exhausted keys E order" and "\<forall>(u, v)\<in>set E. u \<in> set keys"
  shows "set keys \<subseteq> set order"
proof
  fix v assume "v \<in> set keys"
  have "wf (set E)" by (rule finite_acyclic_wf) (use assms(1) in simp_all)
  then show "v \<in> set order" using \<open>v \<in> set keys\<close>
  proof (induction v rule: wf_induct_rule)
    case (less v)
    with assms(2) have "\<not> available keys E order v" by (simp add: exhausted_def)
    with less assms(3) show ?case unfolding available_def by blast
  qed
qed

lemma greedy_complete_iff:
  assumes "greedy keys E order" "exhausted keys E order" "distinct keys"
    and ends: "\<forall>(u, v)\<in>set E. u \<in> set keys \<and> v \<in> set keys"
  shows "length order = length keys \<longleftrightarrow> acyclic (set E)"
proof
  assume len: "length order = length keys"
  from greedy_sound[OF assms(1)] assms(3) len have "set order = set keys"
    by (metis card_subset_eq distinct_card List.finite_set)
  with ends have "forward E order"
    unfolding forward_def using greedy_predecessor[OF assms(1)] by blast
  with greedy_sound[OF assms(1)] show "acyclic (set E)" by (blast intro: forward_acyclic)
next
  assume "acyclic (set E)"
  with acyclic_complete[OF _ assms(2)] ends have "set keys \<subseteq> set order" by blast
  with greedy_sound[OF assms(1)] have "set order = set keys" by blast
  with greedy_sound[OF assms(1)] assms(3) show "length order = length keys"
    by (metis distinct_card)
qed

section \<open>The loop implements the specification\<close>

definition open_in :: "edges \<Rightarrow> jstring list \<Rightarrow> jstring \<Rightarrow> int" where
  "open_in E done v = int (length (filter (\<lambda>(u, w). w = v \<and> u \<notin> set done) E))"

definition targets :: "edges \<Rightarrow> jstring \<Rightarrow> jstring list" where
  "targets E u = map snd (filter (\<lambda>(a, b). a = u) E)"

abbreviation ascending :: "jstring list \<Rightarrow> bool" where
  "ascending \<equiv> sorted_wrt (\<lambda>x y. binaryCompare x y \<le> 0)"

definition kahn_inv ::
  "jstring list \<Rightarrow> edges \<Rightarrow> (jstring \<times> int) list \<Rightarrow> jstring list \<Rightarrow> jstring list \<Rightarrow> bool" where
  "kahn_inv keys E indegree ready order \<longleftrightarrow>
     greedy keys E order \<and> distinct ready \<and> ascending ready \<and>
     (\<forall>v. v \<in> set ready \<longleftrightarrow> available keys E order v) \<and>
     (\<forall>v\<in>set keys. map_of indegree v = Some (open_in E order v))"

lemma relax_spec:
  assumes "relax_targets ts indegree ready = (i, r)" and "distinct ts" and "ascending ready"
  shows "map_of i v =
      (if v \<in> set ts then map_option (\<lambda>d. d - 1) (map_of indegree v) else map_of indegree v) \<and>
    mset r = mset ready + mset (filter (\<lambda>v. map_of indegree v = Some 1) ts) \<and> ascending r"
  using assms
proof (induction ts indegree ready rule: relax_targets.induct)
  case (2 t ts indegree ready)
  show ?case
  proof (cases "map_of indegree t")
    case None
    with 2(1)[OF None] 2(3-) show ?thesis by auto
  next
    case (Some d)
    let ?r = "if d - 1 = 0 then sort_by binaryCompare (ready @ [t]) else ready"
    have asc: "ascending ?r" using 2(5) binary_cmp.sorted_sort_by by auto
    have other: "map_of (AList.update t (d - 1) indegree) w = map_of indegree w" if "w \<in> set ts" for w
      using that 2(4) by (auto simp: update_conv')
    have ones: "filter (\<lambda>v. map_of (AList.update t (d - 1) indegree) v = Some 1) ts =
        filter (\<lambda>v. map_of indegree v = Some 1) ts"
      using other by (intro filter_cong) simp_all
    from 2(3) Some have "relax_targets ts (AList.update t (d - 1) indegree) ?r = (i, r)" by simp
    note IH = 2(2)[OF Some this _ asc, unfolded ones]
    have "map_of i v = (if v \<in> set (t # ts) then map_option (\<lambda>d. d - 1) (map_of indegree v)
        else map_of indegree v)"
      using IH 2(4) Some by (auto simp: update_conv')
    moreover have "mset r = mset ready + mset (filter (\<lambda>v. map_of indegree v = Some 1) (t # ts))"
      using IH 2(4) Some by auto
    ultimately show ?thesis using IH 2(4) by simp
  qed
qed auto

lemma open_in_take:
  assumes "distinct E" "k \<notin> set done"
  shows "open_in E (done @ [k]) v = open_in E done v - (if (k, v) \<in> set E then 1 else 0)"
proof -
  have "length (filter (\<lambda>(u, w). w = v \<and> u \<notin> set done) E) =
      length (filter (\<lambda>(u, w). w = v \<and> u \<notin> set (done @ [k])) E) + (if (k, v) \<in> set E then 1 else 0)"
    using assms by (induction E) auto
  then show ?thesis by (simp add: open_in_def)
qed

lemma open_in_0: "open_in E done v = 0 \<longleftrightarrow> (\<forall>(u, w)\<in>set E. w = v \<longrightarrow> u \<in> set done)"
  by (auto simp: open_in_def filter_empty_conv)

lemma open_in_nonneg: "0 \<le> open_in E done v"
  by (simp add: open_in_def)

lemma kahn_inv_step:
  assumes inv: "kahn_inv keys E indegree (k # rest) order" and E: "distinct E"
    and ends: "\<forall>(u, v)\<in>set E. u \<in> set keys \<and> v \<in> set keys"
    and relax: "relax_targets (sort_by binaryCompare (targets E k)) indegree rest = (i, r)"
  shows "kahn_inv keys E i r (order @ [k])"
proof -
  let ?ts = "sort_by binaryCompare (targets E k)"
  have ts: "v \<in> set ?ts \<longleftrightarrow> (k, v) \<in> set E" for v by (force simp: targets_def)
  have "distinct ?ts" using E by (auto simp: targets_def distinct_map inj_on_def distinct_filter)
  moreover have "ascending rest" using inv by (simp add: kahn_inv_def)
  ultimately have spec: "map_of i v =
      (if (k, v) \<in> set E then map_option (\<lambda>d. d - 1) (map_of indegree v) else map_of indegree v)"
      "mset r = mset rest + mset (filter (\<lambda>v. map_of indegree v = Some 1) ?ts)" "ascending r" for v
    using relax_spec[OF relax, of v] ts by auto
  have greedy: "greedy keys E order" and ready: "v \<in> set (k # rest) \<longleftrightarrow> available keys E order v"
    and deg: "v \<in> set keys \<Longrightarrow> map_of indegree v = Some (open_in E order v)" for v
    using inv by (auto simp: kahn_inv_def)
  have k: "available keys E order k" using ready[of k] by simp
  then have k': "k \<notin> set order" by (simp add: available_def)
  have least: "least_available keys E order k"
    unfolding least_available_def
  proof (intro conjI ballI impI k)
    fix w assume "available keys E order w"
    with ready[of w] have "w = k \<or> w \<in> set rest" by simp
    moreover have "ascending (k # rest)" using inv by (simp only: kahn_inv_def)
    ultimately have "binaryCompare k w \<le> 0" by auto
    then show "\<not> text_less w k" using text_less_asym[of k w] by (auto simp: binaryCompare_def split: if_splits)
  qed
  have new: "v \<notin> set order \<and> v \<noteq> k \<and> v \<in> set keys" if "(k, v) \<in> set E" for v
    using greedy_predecessor[OF greedy that] k k' that ends
    by (auto simp: available_def)
  have one: "map_of indegree v = Some 1 \<longleftrightarrow> open_in E (order @ [k]) v = 0" if "(k, v) \<in> set E" for v
    using deg[of v] new[OF that] open_in_take[OF E k', of v] that by auto
  have mem: "v \<in> set r \<longleftrightarrow> v \<in> set rest \<or> (k, v) \<in> set E \<and> open_in E (order @ [k]) v = 0" for v
    using arg_cong[OF spec(2), of set_mset] ts one by auto
  have free: "available keys E (order @ [k]) v \<longleftrightarrow>
      v \<in> set keys \<and> v \<notin> set order \<and> v \<noteq> k \<and> open_in E (order @ [k]) v = 0" for v
    unfolding available_def open_in_0 by auto
  have "distinct (k # rest)" using inv by (simp add: kahn_inv_def)
  then have rest: "v \<in> set rest \<longleftrightarrow> v \<noteq> k \<and> available keys E order v" for v
    using ready[of v] by auto
  have closed: "available keys E order v \<longleftrightarrow> v \<in> set keys \<and> v \<notin> set order \<and> open_in E order v = 0" for v
    unfolding available_def open_in_0 by auto
  have "v \<in> set r \<longleftrightarrow> available keys E (order @ [k]) v" for v
    unfolding mem rest free closed using open_in_take[OF E k', of v] new[of v] open_in_nonneg[of E "order @ [k]" v]
    by auto
  moreover have "distinct r"
  proof -
    have "v \<notin> set rest" if "(k, v) \<in> set E" for v
      using that k' unfolding rest available_def by blast
    with ts \<open>distinct (k # rest)\<close> \<open>distinct ?ts\<close>
    have "distinct (rest @ filter (\<lambda>v. map_of indegree v = Some 1) ?ts)" by auto
    with spec(2) show ?thesis by (metis mset_append mset_eq_imp_distinct_iff)
  qed
  moreover have "map_of i v = Some (open_in E (order @ [k]) v)" if "v \<in> set keys" for v
    using spec(1)[of v] deg[OF that] open_in_take[OF E k', of v] by simp
  ultimately show ?thesis
    using greedy.pick[OF greedy least] spec(3) by (simp add: kahn_inv_def)
qed

lemma kahn_greedy:
  assumes "kahn_inv keys E indegree ready order" and "distinct E"
    and "\<forall>(u, v)\<in>set E. u \<in> set keys \<and> v \<in> set keys"
    and "\<And>u. u \<in> set keys \<Longrightarrow> outgoing_of outgoing u = targets E u"
  shows "greedy keys E (kahn outgoing indegree ready order) \<and>
    exhausted keys E (kahn outgoing indegree ready order)"
  using assms
proof (induction outgoing indegree ready order rule: kahn.induct)
  case (1 outgoing indegree ready order)
  show ?case
  proof (cases ready)
    case Nil
    with 1(2) show ?thesis by (subst (1 2) kahn.simps) (auto simp: kahn_inv_def exhausted_def)
  next
    case (Cons k rest)
    obtain i r where relax: "relax_targets (sort_by binaryCompare (targets E k)) indegree rest = (i, r)"
      by fastforce
    have "k \<in> set keys" using 1(2) Cons by (auto simp: kahn_inv_def available_def)
    with 1(5) have out: "outgoing_of outgoing k = targets E k" by simp
    have "kahn_inv keys E i r (order @ [k])"
      using kahn_inv_step[OF _ 1(3,4) relax] 1(2) Cons by simp
    with 1(1)[OF Cons, of i r] relax out 1(3-5) show ?thesis
      by (subst (1 2) kahn.simps) (simp add: Cons)
  qed
qed

lemma kahn_refines:
  assumes keys: "distinct keys" and E: "distinct E"
    and ends: "\<forall>(u, v)\<in>set E. u \<in> set keys \<and> v \<in> set keys"
    and out: "\<And>u. u \<in> set keys \<Longrightarrow> outgoing_of outgoing u = targets E u"
    and indeg: "map fst indegree = keys" "\<And>v. v \<in> set keys \<Longrightarrow> map_of indegree v = Some (open_in E [] v)"
    and order: "order = kahn outgoing indegree (start_ready indegree) []"
  shows "greedy keys E order \<and> exhausted keys E order \<and>
    (length order = length keys \<longleftrightarrow> acyclic (set E))"
proof -
  have zero: "v \<in> fst ` {x \<in> set indegree. snd x = 0} \<longleftrightarrow> available keys E [] v" for v
  proof -
    have "v \<in> fst ` {x \<in> set indegree. snd x = 0} \<longleftrightarrow> map_of indegree v = Some 0"
      using keys indeg(1) by (force simp: map_of_eq_Some_iff)
    also have "\<dots> \<longleftrightarrow> v \<in> set keys \<and> open_in E [] v = 0"
    proof (cases "v \<in> set keys")
      case False
      with indeg(1) have "map_of indegree v = None" by (metis list.set_map map_of_eq_None_iff)
      with False show ?thesis by simp
    qed (simp add: indeg(2))
    finally show ?thesis by (auto simp: available_def open_in_0)
  qed
  have "distinct (map fst (filter (\<lambda>(key, degree). degree = 0) indegree))"
    using keys indeg(1) by (metis distinct_map_filter)
  then have "kahn_inv keys E indegree (start_ready indegree) []"
    using zero indeg(2) by (simp add: kahn_inv_def start_ready_def greedy.start binary_cmp.sorted_sort_by
        case_prod_unfold)
  from kahn_greedy[OF this E ends out] have "greedy keys E order" "exhausted keys E order"
    unfolding order by blast+
  with greedy_complete_iff[OF this keys ends] show ?thesis by blast
qed

end
