(* ===== verification/Plan_Validation.thy ===== *)
theory Plan_Validation
  imports Plan_Types Plan_Graph
begin

text \<open>
  Validation of a plan definition (\<^verbatim>\<open>packages/contracts/src/execution-validation.mjs\<close>:
  \<^verbatim>\<open>validateDecision\<close>, \<^verbatim>\<open>validateNode\<close>, \<^verbatim>\<open>normalizeDefinition\<close>,
  \<^verbatim>\<open>validateExecutionPlanDefinition\<close>). The validator compiled from the JSON schema is the
  parameter \<open>schema\<close>. A \<^verbatim>\<open>Map\<close> is an association list, a \<^verbatim>\<open>Set\<close> the list of its elements;
  identities that the code builds by joining two keys with \<^verbatim>\<open>/\<close> are built the same way.
\<close>

section \<open>Shared tests\<close>

definition requireCondition :: "bool \<Rightarrow> string \<Rightarrow> unit throwing" where
  "requireCondition condition code = ensure condition (ExecutionError code)"

definition uniqueBy :: "('a \<Rightarrow> 'k) \<Rightarrow> 'a list \<Rightarrow> string \<Rightarrow> unit throwing" where
  "uniqueBy key entries code =
    (let keys = map key entries in requireCondition (length (js_set keys) = length keys) code)"

definition nonblank :: "jstring \<Rightarrow> unit throwing" where
  "nonblank value = requireCondition (0 < length (trim value)) ''PLAN_EMPTY_TEXT''"

definition byField :: "('a \<Rightarrow> jstring) \<Rightarrow> 'a \<Rightarrow> 'a \<Rightarrow> int" where
  "byField key left right = binaryCompare (key left) (key right)"

definition joined :: "jstring \<Rightarrow> jstring \<Rightarrow> jstring" where
  "joined a b = a @ lit ''/'' @ b"

abbreviation check :: "bool \<Rightarrow> string \<Rightarrow> 'a throwing \<Rightarrow> 'a throwing" where
  "check condition code rest \<equiv> bind (requireCondition condition code) (\<lambda>_. rest)"

definition assertExecutionCommand :: "(cjson \<Rightarrow> bool) \<Rightarrow> cjson \<Rightarrow> unit throwing" where
  "assertExecutionCommand schema value =
    bind (canonicalExecutionJSON value) (\<lambda>_. requireCondition (schema value) ''PLAN_SCHEMA_INVALID'')"

section \<open>The decision\<close>

definition validateDecision :: "PlanDecision \<Rightarrow> unit throwing" where
  "validateDecision decision =
    bind (nonblank (dc_summary decision)) (\<lambda>_.
    bind (uniqueBy it_itemKey (dc_items decision) ''PLAN_DUPLICATE_DECISION'') (\<lambda>_.
    bind (uniqueBy qu_questionKey (dc_unresolvedQuestions decision) ''PLAN_DUPLICATE_QUESTION'') (\<lambda>_.
    bind (uniqueBy so_evidenceRefId (dc_sources decision) ''PLAN_DUPLICATE_SOURCE'') (\<lambda>_.
    bind (uniqueBy rv_evidenceRefId (dc_sourceRevisions decision) ''PLAN_DUPLICATE_SOURCE_REVISION'') (\<lambda>_.
    check (length (dc_sourceRevisions decision) = length (dc_sources decision) \<and>
        (\<forall>source\<in>set (dc_sources decision). \<exists>pin\<in>set (dc_sourceRevisions decision).
          rv_evidenceRefId pin = so_evidenceRefId source)) ''PLAN_SOURCE_REVISION_MISMATCH'' (
    bind (check_each (\<lambda>item. nonblank (it_statement item)) (dc_items decision)) (\<lambda>_.
    bind (check_each (\<lambda>question. nonblank (qu_text question)) (dc_unresolvedQuestions decision)) (\<lambda>_.
    let sourcePins = map (\<lambda>source. canonicalValue (source_pin source)) (dc_sources decision) in
    requireCondition (length (js_set sourcePins) = length sourcePins) ''PLAN_DUPLICATE_SOURCE''))))))))"

section \<open>A node\<close>

definition safe_segment :: "text_lib \<Rightarrow> jstring \<Rightarrow> bool" where
  "safe_segment L part \<longleftrightarrow>
     part \<noteq> lit ''.'' \<and> part \<noteq> lit ''..'' \<and> toLowerCase L part \<noteq> lit ''.git'' \<and>
     part = trim part \<and> \<not> suffix (lit ''.'') part"

definition validatePrefix :: "text_lib \<Rightarrow> jstring \<Rightarrow> unit throwing" where
  "validatePrefix L pre =
    (if pre = lit ''.'' then Inr ()
     else requireCondition (pre = trim pre \<and> (\<forall>part\<in>set (split_text 0x2F pre). safe_segment L part))
       ''PLAN_UNSAFE_PATH'')"

definition validateNewTask :: "NewTask \<Rightarrow> unit throwing" where
  "validateNewTask task =
    bind (nonblank (tn_title task)) (\<lambda>_.
    bind (nonblank (tn_goal task)) (\<lambda>_.
    bind (uniqueBy cr_criterionKey (tn_criteria task) ''PLAN_DUPLICATE_CRITERION'') (\<lambda>_.
    let criteria = sort_by (\<lambda>a b. cr_ordinal a - cr_ordinal b) (tn_criteria task) in
    check (\<forall>index<length criteria. cr_ordinal (criteria ! index) = int index + 1)
      ''PLAN_CRITERIA_ORDER'' (
    check (\<exists>criterion\<in>set criteria. cr_required criterion) ''PLAN_REQUIRED_CRITERION_MISSING'' (
    check_each (\<lambda>criterion. nonblank (cr_description criterion)) criteria)))))"

definition validatePaths :: "text_lib \<Rightarrow> jstring list \<Rightarrow> unit throwing" where
  "validatePaths L paths =
    check (length (js_set paths) = length paths) ''PLAN_DUPLICATE_PATH''
      (check_each (validatePrefix L) paths)"

definition forbids :: "jstring \<Rightarrow> jstring \<Rightarrow> bool" where
  "forbids forbidden allowed \<longleftrightarrow>
     forbidden = lit ''.'' \<or> allowed = forbidden \<or> prefix (forbidden @ lit ''/'') allowed"

definition validateScope :: "NodeScope \<Rightarrow> unit throwing" where
  "validateScope scope =
    (if sc_access scope = Access_read_only
     then requireCondition (length (sc_allowedPaths scope) = 0) ''PLAN_READ_ONLY_WRITE_SCOPE''
     else
       check (0 < length (sc_allowedPaths scope)) ''PLAN_WRITE_SCOPE_MISSING'' (
       requireCondition (\<exists>allowed\<in>set (sc_allowedPaths scope).
         \<not> (\<exists>forbidden\<in>set (sc_forbiddenPaths scope). forbids forbidden allowed))
         ''PLAN_WRITE_SCOPE_FULLY_FORBIDDEN''))"

definition code_kind :: "ExternalInputKind \<Rightarrow> bool" where
  "code_kind kind \<longleftrightarrow> kind \<in> {Slot_patch, Slot_commit}"

definition validateKind :: "PlanNode \<Rightarrow> unit throwing" where
  "validateKind node =
    (if nd_kind node = Node_implementation then
       check (sc_access (nd_scope node) = Access_isolated_write) ''PLAN_WRITER_NOT_ISOLATED'' (
       check (\<exists>profile\<in>set (nd_verificationProfiles node). vp_required profile)
         ''PLAN_REQUIRED_VERIFICATION_MISSING'' (
       requireCondition (\<exists>slot\<in>set (nd_outputs node). ns_required slot \<and> code_kind (ns_kind slot))
         ''PLAN_CODE_OUTPUT_MISSING''))
     else requireCondition (sc_access (nd_scope node) = Access_read_only) ''PLAN_REVIEWER_WRITE_SCOPE'')"

definition validateNode :: "text_lib \<Rightarrow> jstring \<Rightarrow> PlanNode \<Rightarrow> unit throwing" where
  "validateNode L rootTaskId node =
    bind (case nd_task node of
            Task_new task \<Rightarrow> validateNewTask task
          | Task_existing task \<Rightarrow> requireCondition (te_taskId task \<noteq> rootTaskId) ''PLAN_ROOT_IS_NODE'') (\<lambda>_.
    bind (uniqueBy ns_slotKey (nd_inputs node) ''PLAN_DUPLICATE_INPUT'') (\<lambda>_.
    bind (uniqueBy ns_slotKey (nd_outputs node) ''PLAN_DUPLICATE_OUTPUT'') (\<lambda>_.
    bind (uniqueBy vp_profileId (nd_verificationProfiles node) ''PLAN_DUPLICATE_PROFILE'') (\<lambda>_.
    bind (check_each (validatePaths L)
      [sc_allowedPaths (nd_scope node), sc_forbiddenPaths (nd_scope node)]) (\<lambda>_.
    bind (validateScope (nd_scope node)) (\<lambda>_.
    validateKind node))))))"

section \<open>Normalization\<close>

definition normalizeDecision :: "PlanDecision \<Rightarrow> PlanDecision" where
  "normalizeDecision decision = decision\<lparr>
     dc_items := sort_by (byField it_itemKey) (dc_items decision),
     dc_sources := sort_by (byField so_evidenceRefId) (dc_sources decision),
     dc_sourceRevisions := sort_by (byField rv_evidenceRefId) (dc_sourceRevisions decision),
     dc_unresolvedQuestions := sort_by (byField qu_questionKey) (dc_unresolvedQuestions decision)\<rparr>"

definition normalizeTask :: "NodeTask \<Rightarrow> NodeTask" where
  "normalizeTask task = (case task of
     Task_new t \<Rightarrow> Task_new (t\<lparr>tn_criteria := sort_by (\<lambda>a b. cr_ordinal a - cr_ordinal b) (tn_criteria t)\<rparr>)
   | Task_existing t \<Rightarrow> Task_existing t)"

definition normalizeNode :: "PlanNode \<Rightarrow> PlanNode" where
  "normalizeNode node = node\<lparr>
     nd_inputs := sort_by (byField ns_slotKey) (nd_inputs node),
     nd_outputs := sort_by (byField ns_slotKey) (nd_outputs node),
     nd_verificationProfiles := sort_by (byField vp_profileId) (nd_verificationProfiles node),
     nd_scope := (nd_scope node)\<lparr>
       sc_allowedPaths := sort_by binaryCompare (sc_allowedPaths (nd_scope node)),
       sc_forbiddenPaths := sort_by binaryCompare (sc_forbiddenPaths (nd_scope node))\<rparr>,
     nd_task := normalizeTask (nd_task node)\<rparr>"

definition normalizeEdge :: "PlanEdge \<Rightarrow> PlanEdge" where
  "normalizeEdge edge = edge\<lparr>ed_bindings := sort_by (byField eb_inputSlot) (ed_bindings edge)\<rparr>"

definition externalOrder :: "ExternalInput \<Rightarrow> ExternalInput \<Rightarrow> int" where
  "externalOrder a b = or_else (binaryCompare (xi_nodeKey a) (xi_nodeKey b))
     (binaryCompare (xi_inputSlot a) (xi_inputSlot b))"

definition targetOrder :: "IntegrationTarget \<Rightarrow> IntegrationTarget \<Rightarrow> int" where
  "targetOrder a b = or_else (binaryCompare (tg_repositoryId a) (tg_repositoryId b))
     (binaryCompare (tg_targetRef a) (tg_targetRef b))"

definition normalizeDefinition :: "PlanDefinition \<Rightarrow> PlanDefinition" where
  "normalizeDefinition p = p\<lparr>
     pl_nodes := map normalizeNode (sort_by (byField nd_nodeKey) (pl_nodes p)),
     pl_edges := map normalizeEdge (sort_by (byField ed_edgeKey) (pl_edges p)),
     pl_externalInputs := sort_by externalOrder (pl_externalInputs p),
     pl_policy := (pl_policy p)\<lparr>
       pp_integrationTargets := sort_by targetOrder (pp_integrationTargets (pl_policy p))\<rparr>,
     pl_decision := normalizeDecision (pl_decision p)\<rparr>"

section \<open>The definition\<close>

definition validateTasks :: "PlanDefinition \<Rightarrow> unit throwing" where
  "validateTasks value =
    (let existingTasks = concat (map (\<lambda>node. case nd_task node of
           Task_existing t \<Rightarrow> [te_taskId t] | Task_new t \<Rightarrow> []) (pl_nodes value));
         actions = concat (map (\<lambda>node. case nd_task node of
           Task_new t \<Rightarrow> (case tn_sourceAction t of Some a \<Rightarrow> [a] | None \<Rightarrow> [])
         | Task_existing t \<Rightarrow> []) (pl_nodes value));
         selectedActions = map (\<lambda>a. canonicalValue (action_json a)) actions in
     check (length (js_set existingTasks) = length existingTasks) ''PLAN_DUPLICATE_TASK'' (
     check (length (js_set selectedActions) = length selectedActions) ''PLAN_DUPLICATE_SOURCE_ACTION'' (
     check_each (\<lambda>action. requireCondition (\<exists>source\<in>set (dc_sources (pl_decision value)).
         so_kind source = Src_result \<and> so_resultId source = Some (sa_resultId action))
       ''PLAN_SOURCE_ACTION_EVIDENCE_REQUIRED'') actions)))"

type_synonym repository_maps = "(jstring \<times> jstring) list \<times> (jstring \<times> jstring) list"

definition checkRepository :: "text_lib \<Rightarrow> jstring \<Rightarrow> PlanNode \<Rightarrow> repository_maps \<Rightarrow> repository_maps throwing" where
  "checkRepository L rootTaskId node maps = (case maps of (repositories, bindings) \<Rightarrow>
    let repositoryId = rp_repositoryId (nd_repository node);
        bindingId = rp_bindingId (nd_repository node);
        baseCommit = rp_baseCommit (nd_repository node) in
    bind (validateNode L rootTaskId node) (\<lambda>_.
    check (map_of repositories repositoryId \<in> {None, Some baseCommit}) ''PLAN_REPOSITORY_BASE_CONFLICT'' (
    check (map_of bindings bindingId \<in> {None, Some repositoryId}) ''PLAN_REPOSITORY_BINDING_CONFLICT'' (
    Inr (AList.update repositoryId baseCommit repositories,
         AList.update bindingId repositoryId bindings)))))"

definition bindInput ::
  "PlanNode option \<Rightarrow> jstring \<Rightarrow> ExternalInputKind \<Rightarrow> jstring list \<Rightarrow> jstring list throwing" where
  "bindInput node slotKey kind producers =
    (case node of
       None \<Rightarrow> Inl (ExecutionError ''PLAN_INPUT_SLOT_MISMATCH'')
     | Some n \<Rightarrow>
         (case find (\<lambda>entry. ns_slotKey entry = slotKey) (nd_inputs n) of
            None \<Rightarrow> Inl (ExecutionError ''PLAN_INPUT_SLOT_MISMATCH'')
          | Some slot \<Rightarrow>
              let identity = joined (nd_nodeKey n) slotKey in
              check (ns_kind slot = kind) ''PLAN_INPUT_SLOT_MISMATCH'' (
              check (identity \<notin> set producers) ''PLAN_MULTIPLE_INPUT_PRODUCERS'' (
              Inr (producers @ [identity])))))"

definition checkBinding ::
  "PlanNode \<Rightarrow> PlanNode \<Rightarrow> EdgeBinding \<Rightarrow> jstring list \<Rightarrow> jstring list throwing" where
  "checkBinding source target binding producers =
    (case find (\<lambda>entry. ns_slotKey entry = eb_outputSlot binding) (nd_outputs source) of
       None \<Rightarrow> Inl (ExecutionError ''PLAN_OUTPUT_SLOT_MISSING'')
     | Some slot \<Rightarrow>
         check ((case find (\<lambda>entry. ns_slotKey entry = eb_inputSlot binding) (nd_inputs target) of
             None \<Rightarrow> True | Some inputSlot \<Rightarrow> \<not> ns_required inputSlot \<or> ns_required slot))
           ''PLAN_OPTIONAL_REQUIRED_INPUT'' (
         check (code_kind (ns_kind slot) \<longrightarrow>
             rp_repositoryId (nd_repository source) = rp_repositoryId (nd_repository target))
           ''PLAN_CROSS_REPOSITORY_CODE_INPUT'' (
         bindInput (Some target) (eb_inputSlot binding) (ns_kind slot) producers)))"

record edge_state =
  es_producers :: "jstring list"
  es_pairs :: "jstring list"
  es_outgoing :: "(jstring \<times> jstring list) list"
  es_indegree :: "(jstring \<times> int) list"

definition nodeMap :: "PlanNode list \<Rightarrow> (jstring \<times> PlanNode) list" where
  "nodeMap nodes = map (\<lambda>node. (nd_nodeKey node, node)) nodes"

definition start_edges :: "PlanNode list \<Rightarrow> edge_state" where
  "start_edges nodes = \<lparr>es_producers = [], es_pairs = [],
     es_outgoing = map (\<lambda>node. (nd_nodeKey node, [])) nodes,
     es_indegree = map (\<lambda>node. (nd_nodeKey node, 0)) nodes\<rparr>"

definition degree_of :: "(jstring \<times> int) list \<Rightarrow> jstring \<Rightarrow> int" where
  "degree_of indegree key = (case map_of indegree key of None \<Rightarrow> 0 | Some degree \<Rightarrow> degree)"

definition checkEdge :: "PlanDefinition \<Rightarrow> PlanEdge \<Rightarrow> edge_state \<Rightarrow> edge_state throwing" where
  "checkEdge value edge st =
    (case (map_of (nodeMap (pl_nodes value)) (ed_fromNodeKey edge),
           map_of (nodeMap (pl_nodes value)) (ed_toNodeKey edge)) of
       (Some source, Some target) \<Rightarrow>
         let pair = joined (ed_fromNodeKey edge) (ed_toNodeKey edge) in
         check (nd_nodeKey source \<noteq> nd_nodeKey target) ''PLAN_SELF_EDGE'' (
         check (pair \<notin> set (es_pairs st)) ''PLAN_DUPLICATE_EDGE_PAIR'' (
         check (ed_gate edge = Gate_verified_output \<longrightarrow>
             (\<exists>profile\<in>set (nd_verificationProfiles source). vp_required profile))
           ''PLAN_UNVERIFIABLE_EDGE'' (
         check (ed_gate edge = Gate_integrated_commit \<longrightarrow>
             pp_integration (pl_policy value) \<noteq> Int_reviewed_candidate)
           ''PLAN_INTEGRATION_GATE_UNAVAILABLE'' (
         bind (for_each (checkBinding source target) (ed_bindings edge) (es_producers st)) (\<lambda>producers.
         Inr \<lparr>es_producers = producers, es_pairs = es_pairs st @ [pair],
           es_outgoing = AList.update (nd_nodeKey source)
             (outgoing_of (es_outgoing st) (nd_nodeKey source) @ [nd_nodeKey target]) (es_outgoing st),
           es_indegree = AList.update (nd_nodeKey target)
             (degree_of (es_indegree st) (nd_nodeKey target) + 1) (es_indegree st)\<rparr>)))))
     | _ \<Rightarrow> Inl (ExecutionError ''PLAN_EDGE_NODE_MISSING''))"

definition safe_ref :: "text_lib \<Rightarrow> jstring \<Rightarrow> bool" where
  "safe_ref L ref \<longleftrightarrow>
     \<not> sublist (lit ''..'') ref \<and> \<not> sublist (lit ''//'') ref \<and> \<not> suffix (lit ''/'') ref \<and>
     (\<forall>part\<in>set (split_text 0x2F ref). \<not> prefix (lit ''.'') part \<and> \<not> suffix (lit ''.'') part \<and>
        \<not> suffix (lit ''.lock'') (toLowerCase L part))"

definition checkTarget ::
  "text_lib \<Rightarrow> (jstring \<times> jstring) list \<Rightarrow> IntegrationTarget \<Rightarrow> jstring list \<Rightarrow> jstring list throwing" where
  "checkTarget L repositories target targetKeys =
    (let key = joined (tg_repositoryId target) (tg_targetRef target) in
     check (map_of repositories (tg_repositoryId target) \<noteq> None \<and> key \<notin> set targetKeys)
       ''PLAN_INTEGRATION_TARGET_INVALID'' (
     check (safe_ref L (tg_targetRef target)) ''PLAN_INTEGRATION_TARGET_INVALID'' (
     check (map_of repositories (tg_repositoryId target) = Some (tg_expectedCommit target))
       ''PLAN_INTEGRATION_BASE_CONFLICT'' (
     Inr (targetKeys @ [key])))))"

text \<open>Everything the function checks before it orders the nodes.\<close>

definition checkDefinition ::
  "text_lib \<Rightarrow> (cjson \<Rightarrow> bool) \<Rightarrow> PlanDefinition \<Rightarrow> edge_state throwing" where
  "checkDefinition L schema value =
    bind (assertExecutionCommand schema (plan_json value)) (\<lambda>_.
    bind (nonblank (pl_title value)) (\<lambda>_.
    bind (validateDecision (pl_decision value)) (\<lambda>_.
    bind (uniqueBy nd_nodeKey (pl_nodes value) ''PLAN_DUPLICATE_NODE'') (\<lambda>_.
    bind (uniqueBy ed_edgeKey (pl_edges value) ''PLAN_DUPLICATE_EDGE'') (\<lambda>_.
    bind (validateTasks value) (\<lambda>_.
    check (\<exists>node\<in>set (pl_nodes value). nd_required node) ''PLAN_REQUIRED_NODE_MISSING'' (
    check (int (length (filter nd_required (pl_nodes value))) \<le> bu_maxRunAttempts (pp_budget (pl_policy value)))
      ''PLAN_BUDGET_BELOW_REQUIRED_NODES'' (
    bind (for_each (checkRepository L (pl_rootTaskId value)) (pl_nodes value) ([], [])) (\<lambda>(repositories, _).
    bind (for_each (checkEdge value) (pl_edges value) (start_edges (pl_nodes value))) (\<lambda>st.
    bind (for_each (\<lambda>input. bindInput (map_of (nodeMap (pl_nodes value)) (xi_nodeKey input))
        (xi_inputSlot input) (xi_kind input)) (pl_externalInputs value) (es_producers st)) (\<lambda>producers.
    bind (check_each (\<lambda>node. requireCondition (\<forall>slot\<in>set (nd_inputs node). ns_required slot \<longrightarrow>
        joined (nd_nodeKey node) (ns_slotKey slot) \<in> set producers) ''PLAN_REQUIRED_INPUT_MISSING'')
      (pl_nodes value)) (\<lambda>_.
    bind (for_each (checkTarget L repositories) (pp_integrationTargets (pl_policy value)) []) (\<lambda>_.
    check (pp_integration (pl_policy value) \<noteq> Int_reviewed_candidate \<longrightarrow>
        (\<forall>repositoryId\<in>set (map fst repositories). \<exists>target\<in>set (pp_integrationTargets (pl_policy value)).
          tg_repositoryId target = repositoryId)) ''PLAN_INTEGRATION_TARGET_MISSING'' (
    Inr (st\<lparr>es_producers := producers\<rparr>)))))))))))))))"

record PlanValidation =
  vd_definition :: PlanDefinition
  vd_topologicalOrder :: "jstring list"
  vd_digest :: jstring
  vd_approvalBlockers :: "jstring list"

definition validateExecutionPlanDefinition ::
  "text_lib \<Rightarrow> (cjson \<Rightarrow> bool) \<Rightarrow> PlanDefinition \<Rightarrow> PlanValidation throwing" where
  "validateExecutionPlanDefinition L schema value =
    bind (checkDefinition L schema value) (\<lambda>st.
    let topologicalOrder = kahn (es_outgoing st) (es_indegree st) (start_ready (es_indegree st)) [] in
    check (length topologicalOrder = length (nodeMap (pl_nodes value))) ''PLAN_CYCLE'' (
    let normalized = normalizeDefinition value in
    bind (executionOperationDigest L (plan_json normalized)) (\<lambda>digest.
    Inr \<lparr>vd_definition = normalized, vd_topologicalOrder = topologicalOrder, vd_digest = digest,
         vd_approvalBlockers = map qu_questionKey
           (filter qu_required (dc_unresolvedQuestions (pl_decision normalized)))\<rparr>)))"

section \<open>Lemmas: the loops of the validation\<close>

lemma requireCondition_Inr [throw_simps]: "requireCondition c code = Inr u \<longleftrightarrow> c"
  by (simp add: requireCondition_def)

lemma check_Inr [throw_simps]: "check c code rest = Inr y \<longleftrightarrow> c \<and> rest = Inr y"
  by (auto simp: requireCondition_def throw_simps)

lemma uniqueBy_Inr [throw_simps]: "uniqueBy key entries code = Inr u \<longleftrightarrow> distinct (map key entries)"
  by (simp add: uniqueBy_def throw_simps)

definition plan_keys :: "PlanDefinition \<Rightarrow> jstring list" where
  "plan_keys p = map nd_nodeKey (pl_nodes p)"

definition edge_pair :: "PlanEdge \<Rightarrow> jstring \<times> jstring" where
  "edge_pair e = (ed_fromNodeKey e, ed_toNodeKey e)"

definition plan_edges :: "PlanDefinition \<Rightarrow> edges" where
  "plan_edges p = map edge_pair (pl_edges p)"

lemma nodeMap_Some: "map_of (nodeMap nodes) k = Some n \<Longrightarrow> n \<in> set nodes \<and> nd_nodeKey n = k"
  by (induction nodes) (auto simp: nodeMap_def split: if_splits)

definition edges_seen :: "PlanDefinition \<Rightarrow> PlanEdge list \<Rightarrow> edge_state \<Rightarrow> bool" where
  "edges_seen p es st \<longleftrightarrow>
     (let E = map edge_pair es; keys = plan_keys p in
      distinct E \<and> es_pairs st = map (\<lambda>(a, b). joined a b) E \<and>
      (\<forall>(u, v)\<in>set E. u \<in> set keys \<and> v \<in> set keys) \<and>
      (\<forall>u\<in>set keys. outgoing_of (es_outgoing st) u = targets E u) \<and>
      map fst (es_indegree st) = keys \<and>
      (\<forall>v\<in>set keys. map_of (es_indegree st) v = Some (open_in E [] v)))"

lemma map_of_const: "n \<in> set ns \<Longrightarrow> map_of (map (\<lambda>n. (nd_nodeKey n, c)) ns) (nd_nodeKey n) = Some c"
  by (induction ns) auto

lemma edges_seen_start: "edges_seen p [] (start_edges (pl_nodes p))"
  by (auto simp: edges_seen_def start_edges_def plan_keys_def outgoing_of_def targets_def open_in_def
      comp_def map_of_const Let_def)

lemma checkEdge_Inr:
  assumes "checkEdge p e st = Inr st'"
  obtains source target producers where
    "map_of (nodeMap (pl_nodes p)) (ed_fromNodeKey e) = Some source"
    "map_of (nodeMap (pl_nodes p)) (ed_toNodeKey e) = Some target"
    "source \<in> set (pl_nodes p)" "nd_nodeKey source = ed_fromNodeKey e"
    "target \<in> set (pl_nodes p)" "nd_nodeKey target = ed_toNodeKey e"
    "ed_fromNodeKey e \<noteq> ed_toNodeKey e"
    "joined (ed_fromNodeKey e) (ed_toNodeKey e) \<notin> set (es_pairs st)"
    "ed_gate e = Gate_verified_output \<longrightarrow> (\<exists>profile\<in>set (nd_verificationProfiles source). vp_required profile)"
    "ed_gate e = Gate_integrated_commit \<longrightarrow> pp_integration (pl_policy p) \<noteq> Int_reviewed_candidate"
    "for_each (checkBinding source target) (ed_bindings e) (es_producers st) = Inr producers"
    "st' = \<lparr>es_producers = producers, es_pairs = es_pairs st @ [joined (ed_fromNodeKey e) (ed_toNodeKey e)],
       es_outgoing = AList.update (ed_fromNodeKey e)
         (outgoing_of (es_outgoing st) (ed_fromNodeKey e) @ [ed_toNodeKey e]) (es_outgoing st),
       es_indegree = AList.update (ed_toNodeKey e)
         (degree_of (es_indegree st) (ed_toNodeKey e) + 1) (es_indegree st)\<rparr>"
proof -
  from assms obtain source target where nodes:
    "map_of (nodeMap (pl_nodes p)) (ed_fromNodeKey e) = Some source"
    "map_of (nodeMap (pl_nodes p)) (ed_toNodeKey e) = Some target"
    by (auto simp: checkEdge_def split: option.splits)
  from nodeMap_Some[OF nodes(1)] nodeMap_Some[OF nodes(2)] assms nodes obtain producers where
    "ed_fromNodeKey e \<noteq> ed_toNodeKey e"
    "joined (ed_fromNodeKey e) (ed_toNodeKey e) \<notin> set (es_pairs st)"
    "ed_gate e = Gate_verified_output \<longrightarrow> (\<exists>profile\<in>set (nd_verificationProfiles source). vp_required profile)"
    "ed_gate e = Gate_integrated_commit \<longrightarrow> pp_integration (pl_policy p) \<noteq> Int_reviewed_candidate"
    "for_each (checkBinding source target) (ed_bindings e) (es_producers st) = Inr producers"
    "st' = \<lparr>es_producers = producers, es_pairs = es_pairs st @ [joined (ed_fromNodeKey e) (ed_toNodeKey e)],
       es_outgoing = AList.update (ed_fromNodeKey e)
         (outgoing_of (es_outgoing st) (ed_fromNodeKey e) @ [ed_toNodeKey e]) (es_outgoing st),
       es_indegree = AList.update (ed_toNodeKey e)
         (degree_of (es_indegree st) (ed_toNodeKey e) + 1) (es_indegree st)\<rparr>"
    by (simp add: checkEdge_def Let_def bind_eq_Inr requireCondition_Inr) blast
  with that[OF nodes, of producers] nodeMap_Some[OF nodes(1)] nodeMap_Some[OF nodes(2)] show thesis by blast
qed

lemma edges_seen_step:
  assumes "checkEdge p e st = Inr st'" and "edges_seen p es st"
  shows "edges_seen p (es @ [e]) st'"
  using assms(1)
proof (cases rule: checkEdge_Inr)
  case (1 source target producers)
  let ?E = "map edge_pair es" and ?a = "ed_fromNodeKey e" and ?b = "ed_toNodeKey e"
  have new: "(?a, ?b) \<notin> set ?E" using 1(8) assms(2) by (force simp: edges_seen_def Let_def)
  have keys: "?a \<in> set (plan_keys p)" "?b \<in> set (plan_keys p)"
    using imageI[OF 1(3), of nd_nodeKey] imageI[OF 1(5), of nd_nodeKey] 1(4,6)
    by (simp_all add: plan_keys_def)
  have "outgoing_of (es_outgoing st') u = targets (?E @ [(?a, ?b)]) u" if "u \<in> set (plan_keys p)" for u
    using assms(2) that 1(12) by (auto simp: edges_seen_def Let_def outgoing_of_def update_conv' targets_def)
  moreover have "map_of (es_indegree st') v = Some (open_in (?E @ [(?a, ?b)]) [] v)"
    if "v \<in> set (plan_keys p)" for v
    using assms(2) that 1(12) by (auto simp: edges_seen_def Let_def degree_of_def update_conv' open_in_def)
  ultimately show ?thesis
    using assms(2) 1(12) new keys by (auto simp: edges_seen_def Let_def edge_pair_def update_keys)
qed

lemma checkDefinition_edges:
  assumes "checkDefinition L schema p = Inr st"
  shows "distinct (plan_keys p) \<and> edges_seen p (pl_edges p) st"
proof -
  from assms obtain st0 producers where
    loop: "for_each (checkEdge p) (pl_edges p) (start_edges (pl_nodes p)) = Inr st0"
    and st: "st = st0\<lparr>es_producers := producers\<rparr>" and keys: "distinct (plan_keys p)"
    by (auto simp: checkDefinition_def bind_eq_Inr requireCondition_Inr uniqueBy_Inr plan_keys_def split: prod.splits)
  have "edges_seen p (pl_edges p) st0"
    using for_each_inv[OF loop, of "edges_seen p"] edges_seen_start edges_seen_step by blast
  with st keys show ?thesis by (simp add: edges_seen_def)
qed

definition plan_order :: "edge_state \<Rightarrow> jstring list" where
  "plan_order st = kahn (es_outgoing st) (es_indegree st) (start_ready (es_indegree st)) []"

lemma plan_order_greedy:
  assumes "checkDefinition L schema p = Inr st"
  shows "greedy (plan_keys p) (plan_edges p) (plan_order st)"
    and "exhausted (plan_keys p) (plan_edges p) (plan_order st)"
    and "length (plan_order st) = length (plan_keys p) \<longleftrightarrow> acyclic (set (plan_edges p))"
    and "\<forall>(u, v)\<in>set (plan_edges p). u \<in> set (plan_keys p) \<and> v \<in> set (plan_keys p)"
    and "distinct (plan_keys p)"
proof -
  from checkDefinition_edges[OF assms] have seen: "distinct (plan_keys p)" "edges_seen p (pl_edges p) st" by auto
  then have ends: "\<forall>(u, v)\<in>set (plan_edges p). u \<in> set (plan_keys p) \<and> v \<in> set (plan_keys p)"
    by (simp add: edges_seen_def plan_edges_def Let_def)
  have "greedy (plan_keys p) (plan_edges p) (plan_order st) \<and>
      exhausted (plan_keys p) (plan_edges p) (plan_order st) \<and>
      (length (plan_order st) = length (plan_keys p) \<longleftrightarrow> acyclic (set (plan_edges p)))"
    by (rule kahn_refines[OF seen(1) _ ends _ _ _ plan_order_def])
      (use seen(2) in \<open>auto simp: edges_seen_def plan_edges_def Let_def\<close>)
  with ends seen(1) show "greedy (plan_keys p) (plan_edges p) (plan_order st)"
    "exhausted (plan_keys p) (plan_edges p) (plan_order st)"
    "length (plan_order st) = length (plan_keys p) \<longleftrightarrow> acyclic (set (plan_edges p))"
    "\<forall>(u, v)\<in>set (plan_edges p). u \<in> set (plan_keys p) \<and> v \<in> set (plan_keys p)"
    "distinct (plan_keys p)" by blast+
qed

section \<open>Lemmas: producers of inputs\<close>

definition edge_feeds :: "PlanEdge \<Rightarrow> (jstring \<times> jstring) list" where
  "edge_feeds e = map (\<lambda>b. (ed_toNodeKey e, eb_inputSlot b)) (ed_bindings e)"

text \<open>Every input slot something is bound to, by its node and slot keys.\<close>

definition feeds :: "PlanDefinition \<Rightarrow> (jstring \<times> jstring) list" where
  "feeds p = concat (map edge_feeds (pl_edges p)) @
     map (\<lambda>x. (xi_nodeKey x, xi_inputSlot x)) (pl_externalInputs p)"

definition fed :: "(jstring \<times> jstring) list \<Rightarrow> jstring list \<Rightarrow> bool" where
  "fed fs producers \<longleftrightarrow> producers = map (\<lambda>(a, b). joined a b) fs \<and> distinct producers"

definition typed_binding :: "PlanNode \<Rightarrow> PlanNode \<Rightarrow> EdgeBinding \<Rightarrow> bool" where
  "typed_binding source target b \<longleftrightarrow>
     (\<exists>out\<in>set (nd_outputs source). \<exists>inp\<in>set (nd_inputs target).
        ns_slotKey out = eb_outputSlot b \<and> ns_slotKey inp = eb_inputSlot b \<and> ns_kind out = ns_kind inp \<and>
        (ns_required inp \<longrightarrow> ns_required out) \<and>
        (code_kind (ns_kind out) \<longrightarrow>
          rp_repositoryId (nd_repository source) = rp_repositoryId (nd_repository target)))"

lemma bindInput_Inr:
  "bindInput node k kind ps = Inr ps' \<longleftrightarrow>
     (\<exists>n slot. node = Some n \<and> find (\<lambda>entry. ns_slotKey entry = k) (nd_inputs n) = Some slot \<and>
        ns_kind slot = kind \<and> joined (nd_nodeKey n) k \<notin> set ps \<and> ps' = ps @ [joined (nd_nodeKey n) k])"
  by (auto simp: bindInput_def Let_def bind_eq_Inr requireCondition_Inr split: option.splits)

lemma find_SomeD: "find P xs = Some x \<Longrightarrow> x \<in> set xs \<and> P x"
  by (auto simp: find_Some_iff)

lemma checkBinding_Inr:
  assumes "checkBinding source target b ps = Inr ps'" and "fed fs ps"
  shows "typed_binding source target b \<and> fed (fs @ [(nd_nodeKey target, eb_inputSlot b)]) ps'"
proof -
  from assms(1) obtain out inp where
    "find (\<lambda>entry. ns_slotKey entry = eb_outputSlot b) (nd_outputs source) = Some out"
    "find (\<lambda>entry. ns_slotKey entry = eb_inputSlot b) (nd_inputs target) = Some inp"
    "ns_kind inp = ns_kind out" "ns_required inp \<longrightarrow> ns_required out"
    "code_kind (ns_kind out) \<longrightarrow>
       rp_repositoryId (nd_repository source) = rp_repositoryId (nd_repository target)"
    "joined (nd_nodeKey target) (eb_inputSlot b) \<notin> set ps"
    "ps' = ps @ [joined (nd_nodeKey target) (eb_inputSlot b)]"
    by (auto simp: checkBinding_def bind_eq_Inr requireCondition_Inr bindInput_Inr split: option.splits)
  with assms(2) show ?thesis
    unfolding typed_binding_def fed_def
    by (auto simp: image_iff dest!: find_SomeD) (metis (no_types, lifting))+
qed

lemma checkBindings_Inr:
  assumes "for_each (checkBinding source target) bs ps = Inr ps'" and "fed fs ps"
  shows "(\<forall>b\<in>set bs. typed_binding source target b) \<and>
    fed (fs @ map (\<lambda>b. (nd_nodeKey target, eb_inputSlot b)) bs) ps'"
  by (rule for_each_inv[OF assms(1), where P = "\<lambda>bs ps. (\<forall>b\<in>set bs. typed_binding source target b) \<and>
        fed (fs @ map (\<lambda>b. (nd_nodeKey target, eb_inputSlot b)) bs) ps"])
    (use assms(2) in \<open>auto dest!: checkBinding_Inr\<close>)

definition edge_typed :: "PlanDefinition \<Rightarrow> PlanEdge \<Rightarrow> bool" where
  "edge_typed p e \<longleftrightarrow>
     (\<exists>source\<in>set (pl_nodes p). \<exists>target\<in>set (pl_nodes p).
        nd_nodeKey source = ed_fromNodeKey e \<and> nd_nodeKey target = ed_toNodeKey e \<and> source \<noteq> target \<and>
        (ed_gate e = Gate_verified_output \<longrightarrow> (\<exists>profile\<in>set (nd_verificationProfiles source). vp_required profile)) \<and>
        (ed_gate e = Gate_integrated_commit \<longrightarrow> pp_integration (pl_policy p) \<noteq> Int_reviewed_candidate) \<and>
        (\<forall>b\<in>set (ed_bindings e). typed_binding source target b))"

lemma checkEdges_feeds:
  assumes "for_each (checkEdge p) es st = Inr st'" and "es_producers st = []"
  shows "(\<forall>e\<in>set es. edge_typed p e) \<and> fed (concat (map edge_feeds es)) (es_producers st')"
proof (rule for_each_inv[OF assms(1), where P = "\<lambda>es st. (\<forall>e\<in>set es. edge_typed p e) \<and>
    fed (concat (map edge_feeds es)) (es_producers st)"])
  show "(\<forall>e\<in>set []. edge_typed p e) \<and> fed (concat (map edge_feeds [])) (es_producers st)"
    using assms(2) by (simp add: fed_def)
next
  fix ys e st st'
  assume step: "checkEdge p e st = Inr st'"
    and seen: "(\<forall>e\<in>set ys. edge_typed p e) \<and> fed (concat (map edge_feeds ys)) (es_producers st)"
  from step show "(\<forall>e\<in>set (ys @ [e]). edge_typed p e) \<and>
      fed (concat (map edge_feeds (ys @ [e]))) (es_producers st')"
  proof (cases rule: checkEdge_Inr)
    case (1 source target producers)
    note bs = checkBindings_Inr[OF 1(11) conjunct2[OF seen]]
    have "edge_typed p e"
      unfolding edge_typed_def using 1(3-7,9,10) bs by (intro bexI[of _ source] bexI[of _ target]) auto
    moreover have "fed (concat (map edge_feeds (ys @ [e]))) (es_producers st')"
      using bs 1(6,12) by (simp add: edge_feeds_def)
    ultimately show ?thesis using seen by simp
  qed
qed

lemma checkExternal_feeds:
  assumes "for_each (\<lambda>x. bindInput (map_of (nodeMap nodes) (xi_nodeKey x)) (xi_inputSlot x) (xi_kind x)) xs ps = Inr ps'"
    and "fed fs ps"
  shows "fed (fs @ map (\<lambda>x. (xi_nodeKey x, xi_inputSlot x)) xs) ps'"
  by (rule for_each_inv[OF assms(1), where P = "\<lambda>xs ps. fed (fs @ map (\<lambda>x. (xi_nodeKey x, xi_inputSlot x)) xs) ps"])
    (use assms(2) in \<open>auto simp: bindInput_Inr fed_def dest!: nodeMap_Some\<close>)

lemma joined_inj:
  assumes "joined a b = joined c d" "0x2F \<notin> set a" "0x2F \<notin> set c"
  shows "a = c \<and> b = d"
  using assms by (induction a arbitrary: c) (case_tac c; auto simp: joined_def lit_def)+

text \<open>What the checks before the ordering establish, as one predicate.\<close>

lemma checkDefinition_facts:
  assumes "checkDefinition L schema p = Inr st"
  shows "distinct (plan_keys p)" "distinct (map ed_edgeKey (pl_edges p))"
    and "validateDecision (pl_decision p) = Inr ()"
    and "\<forall>n\<in>set (pl_nodes p). validateNode L (pl_rootTaskId p) n = Inr ()"
    and "\<forall>e\<in>set (pl_edges p). edge_typed p e" "fed (feeds p) (es_producers st)"
    and "\<forall>n\<in>set (pl_nodes p). \<forall>slot\<in>set (nd_inputs n). ns_required slot \<longrightarrow>
      joined (nd_nodeKey n) (ns_slotKey slot) \<in> set (es_producers st)"
    and "\<exists>rs ks. for_each (checkTarget L rs) (pp_integrationTargets (pl_policy p)) [] = Inr ks"
proof -
  from assms obtain rs bs st0 where
    nodes: "for_each (checkRepository L (pl_rootTaskId p)) (pl_nodes p) ([], []) = Inr (rs, bs)"
    and edges: "for_each (checkEdge p) (pl_edges p) (start_edges (pl_nodes p)) = Inr st0"
    and ext: "for_each (\<lambda>x. bindInput (map_of (nodeMap (pl_nodes p)) (xi_nodeKey x)) (xi_inputSlot x) (xi_kind x))
        (pl_externalInputs p) (es_producers st0) = Inr (es_producers st)"
    by (auto simp: checkDefinition_def bind_eq_Inr split: prod.splits)
  have start: "es_producers (start_edges (pl_nodes p)) = []" by (simp add: start_edges_def)
  show "\<forall>n\<in>set (pl_nodes p). validateNode L (pl_rootTaskId p) n = Inr ()"
    by (rule for_each_inv[OF nodes, where P = "\<lambda>ns st. \<forall>n\<in>set ns. validateNode L (pl_rootTaskId p) n = Inr ()"])
      (auto simp: checkRepository_def Let_def bind_eq_Inr split: prod.splits)
  from checkEdges_feeds[OF edges start] show "\<forall>e\<in>set (pl_edges p). edge_typed p e" by blast
  from checkExternal_feeds[OF ext] checkEdges_feeds[OF edges start]
  show "fed (feeds p) (es_producers st)" by (simp add: feeds_def)
qed (use assms in \<open>auto simp: checkDefinition_def bind_eq_Inr requireCondition_Inr uniqueBy_Inr check_each_Inr
    plan_keys_def split: prod.splits\<close>)

end
