(* ===== verification/Plan_Properties.thy ===== *)
theory Plan_Properties
  imports Plan_Validation
begin

text \<open>
  What the validation of a plan definition guarantees: its order and its refusal of cycles, that
  the order of listing does not matter, how inputs are fed, and where nodes may write.
\<close>

section \<open>Lemmas: the listing order does not matter\<close>

definition same_task :: "NodeTask \<Rightarrow> NodeTask \<Rightarrow> bool" where
  "same_task t u = (case (t, u) of
     (Task_new a, Task_new b) \<Rightarrow>
       b = a\<lparr>tn_criteria := tn_criteria b\<rparr> \<and> mset (tn_criteria a) = mset (tn_criteria b)
   | (Task_existing a, Task_existing b) \<Rightarrow> a = b
   | _ \<Rightarrow> False)"

definition same_scope :: "NodeScope \<Rightarrow> NodeScope \<Rightarrow> bool" where
  "same_scope s t \<longleftrightarrow>
     t = s\<lparr>sc_allowedPaths := sc_allowedPaths t, sc_forbiddenPaths := sc_forbiddenPaths t\<rparr> \<and>
     mset (sc_allowedPaths s) = mset (sc_allowedPaths t) \<and>
     mset (sc_forbiddenPaths s) = mset (sc_forbiddenPaths t)"

definition same_node :: "PlanNode \<Rightarrow> PlanNode \<Rightarrow> bool" where
  "same_node n m \<longleftrightarrow>
     m = n\<lparr>nd_inputs := nd_inputs m, nd_outputs := nd_outputs m,
       nd_verificationProfiles := nd_verificationProfiles m, nd_scope := nd_scope m, nd_task := nd_task m\<rparr> \<and>
     mset (nd_inputs n) = mset (nd_inputs m) \<and> mset (nd_outputs n) = mset (nd_outputs m) \<and>
     mset (nd_verificationProfiles n) = mset (nd_verificationProfiles m) \<and>
     same_scope (nd_scope n) (nd_scope m) \<and> same_task (nd_task n) (nd_task m)"

definition same_edge :: "PlanEdge \<Rightarrow> PlanEdge \<Rightarrow> bool" where
  "same_edge e f \<longleftrightarrow> f = e\<lparr>ed_bindings := ed_bindings f\<rparr> \<and> mset (ed_bindings e) = mset (ed_bindings f)"

definition same_decision :: "PlanDecision \<Rightarrow> PlanDecision \<Rightarrow> bool" where
  "same_decision d e \<longleftrightarrow>
     dc_summary d = dc_summary e \<and> mset (dc_items d) = mset (dc_items e) \<and>
     mset (dc_sources d) = mset (dc_sources e) \<and> mset (dc_sourceRevisions d) = mset (dc_sourceRevisions e) \<and>
     mset (dc_unresolvedQuestions d) = mset (dc_unresolvedQuestions e)"

definition same_policy :: "PlanPolicy \<Rightarrow> PlanPolicy \<Rightarrow> bool" where
  "same_policy a b \<longleftrightarrow> b = a\<lparr>pp_integrationTargets := pp_integrationTargets b\<rparr> \<and>
     mset (pp_integrationTargets a) = mset (pp_integrationTargets b)"

text \<open>Two definitions that differ only in the order of their lists.\<close>

definition reordered :: "PlanDefinition \<Rightarrow> PlanDefinition \<Rightarrow> bool" where
  "reordered p q \<longleftrightarrow>
     (\<exists>ns es. list_all2 same_node (pl_nodes p) ns \<and> mset ns = mset (pl_nodes q) \<and>
        list_all2 same_edge (pl_edges p) es \<and> mset es = mset (pl_edges q)) \<and>
     mset (pl_externalInputs p) = mset (pl_externalInputs q) \<and>
     same_policy (pl_policy p) (pl_policy q) \<and> same_decision (pl_decision p) (pl_decision q) \<and>
     pl_rootTaskId p = pl_rootTaskId q \<and> pl_title p = pl_title q"

lemma sort_byField_perm:
  "mset xs = mset ys \<Longrightarrow> distinct (map k xs) \<Longrightarrow> sort_by (byField k) xs = sort_by (byField k) ys"
  unfolding byField_def by (rule sort_by_field_perm)

lemma normalizeTask_same:
  assumes "same_task t u" and "\<And>a. t = Task_new a \<Longrightarrow> validateNewTask a = Inr ()"
  shows "normalizeTask t = normalizeTask u"
proof (cases t)
  case (Task_new a)
  with assms(1) obtain b where u: "u = Task_new b" and b: "b = a\<lparr>tn_criteria := tn_criteria b\<rparr>"
    and perm: "mset (tn_criteria a) = mset (tn_criteria b)" by (cases u) (auto simp: same_task_def)
  let ?s = "sort_by (\<lambda>a b. cr_ordinal a - cr_ordinal b)"
  have "\<forall>i<length (?s (tn_criteria a)). cr_ordinal (?s (tn_criteria a) ! i) = int i + 1"
    using assms(2)[OF Task_new] by (simp add: validateNewTask_def Let_def bind_eq_Inr requireCondition_Inr)
  then have "distinct (map cr_ordinal (?s (tn_criteria a)))" by (auto simp: distinct_conv_nth)
  then have "distinct (map cr_ordinal (tn_criteria a))"
    by (metis mset_map mset_sort_by mset_eq_imp_distinct_iff)
  with perm have "?s (tn_criteria a) = ?s (tn_criteria b)" by (rule sort_by_key_perm)
  moreover have "tn_goal b = tn_goal a" "tn_ownerMemberId b = tn_ownerMemberId a"
    "tn_sourceAction b = tn_sourceAction a" "tn_title b = tn_title a"
    by (subst b, simp)+
  ultimately show ?thesis
    using u Task_new by (simp add: normalizeTask_def)
next
  case (Task_existing a)
  with assms(1) show ?thesis by (cases u) (auto simp: same_task_def)
qed

lemma validateNode_keys:
  assumes "validateNode L rootTaskId n = Inr ()"
  shows "distinct (map ns_slotKey (nd_inputs n))" "distinct (map ns_slotKey (nd_outputs n))"
    "distinct (map vp_profileId (nd_verificationProfiles n))"
    "nd_task n = Task_new a \<Longrightarrow> validateNewTask a = Inr ()"
  using assms by (auto simp: validateNode_def bind_eq_Inr uniqueBy_Inr)

lemma normalizeNode_same:
  assumes "same_node n m" and "validateNode L rootTaskId n = Inr ()"
  shows "normalizeNode n = normalizeNode m"
proof -
  note same = assms(1)[unfolded same_node_def same_scope_def] and keys = validateNode_keys[OF assms(2)]
  have task: "normalizeTask (nd_task n) = normalizeTask (nd_task m)"
    by (rule normalizeTask_same) (use same keys(4) in auto)
  have m: "m = n\<lparr>nd_inputs := nd_inputs m, nd_outputs := nd_outputs m,
       nd_verificationProfiles := nd_verificationProfiles m, nd_scope := nd_scope m, nd_task := nd_task m\<rparr>"
    and sc: "nd_scope m = (nd_scope n)\<lparr>sc_allowedPaths := sc_allowedPaths (nd_scope m),
       sc_forbiddenPaths := sc_forbiddenPaths (nd_scope m)\<rparr>"
    using same by blast+
  have lists: "sort_by (byField ns_slotKey) (nd_inputs n) = sort_by (byField ns_slotKey) (nd_inputs m)"
    "sort_by (byField ns_slotKey) (nd_outputs n) = sort_by (byField ns_slotKey) (nd_outputs m)"
    "sort_by (byField vp_profileId) (nd_verificationProfiles n) =
      sort_by (byField vp_profileId) (nd_verificationProfiles m)"
    "sort_by binaryCompare (sc_allowedPaths (nd_scope n)) = sort_by binaryCompare (sc_allowedPaths (nd_scope m))"
    "sort_by binaryCompare (sc_forbiddenPaths (nd_scope n)) = sort_by binaryCompare (sc_forbiddenPaths (nd_scope m))"
    using same keys by (auto intro!: sort_byField_perm binary_cmp.sort_by_mset)
  have "sc_access (nd_scope m) = sc_access (nd_scope n)"
    "sc_requirePreventivePathEnforcement (nd_scope m) = sc_requirePreventivePathEnforcement (nd_scope n)"
    by (subst sc, simp)+
  moreover have "nd_agentId m = nd_agentId n" "nd_budget m = nd_budget n" "nd_kind m = nd_kind n"
    "nd_nodeKey m = nd_nodeKey n" "nd_repository m = nd_repository n" "nd_required m = nd_required n"
    by (subst m, simp)+
  ultimately show ?thesis
    using task lists unfolding normalizeNode_def by (intro PlanNode.equality NodeScope.equality) simp_all
qed

lemma same_node_key:
  assumes "same_node n m"
  shows "nd_nodeKey m = nd_nodeKey n"
proof -
  from assms have m: "m = n\<lparr>nd_inputs := nd_inputs m, nd_outputs := nd_outputs m,
       nd_verificationProfiles := nd_verificationProfiles m, nd_scope := nd_scope m, nd_task := nd_task m\<rparr>"
    unfolding same_node_def by blast
  show ?thesis by (subst m, simp)
qed

lemma same_edge_fields:
  assumes "same_edge e f"
  shows "ed_edgeKey f = ed_edgeKey e" "ed_gate f = ed_gate e" "edge_pair f = edge_pair e"
proof -
  from assms have f: "f = e\<lparr>ed_bindings := ed_bindings f\<rparr>" unfolding same_edge_def by blast
  show "ed_edgeKey f = ed_edgeKey e" "ed_gate f = ed_gate e" "edge_pair f = edge_pair e"
    unfolding edge_pair_def by (subst f, simp)+
qed

lemma normalizeEdge_same:
  assumes "same_edge e f" and "distinct (map eb_inputSlot (ed_bindings e))"
  shows "normalizeEdge e = normalizeEdge f"
  using same_edge_fields[OF assms(1)] sort_byField_perm[OF _ assms(2), of "ed_bindings f"] assms(1)
  unfolding normalizeEdge_def same_edge_def edge_pair_def by (intro PlanEdge.equality) simp_all

text \<open>Sorting by a key that the step on the elements keeps.\<close>

lemma normalize_list:
  assumes "list_all2 R xs ys" and "mset ys = mset zs" and "distinct (map k xs)"
    and step: "\<And>x y. R x y \<Longrightarrow> x \<in> set xs \<Longrightarrow> f x = f y" and key: "\<And>x. k (f x) = k x"
  shows "map f (sort_by (byField k) xs) = map f (sort_by (byField k) zs)"
proof -
  have "map f xs = map f ys"
    using assms(1) step by (induction xs ys rule: list_all2_induct) auto
  moreover have "sort_by (byField k) (map f us) = map f (sort_by (byField k) us)" for us
    by (rule sort_by_map) (simp add: byField_def key)
  moreover have "sort_by (byField k) (map f xs) = sort_by (byField k) (map f zs)"
  proof (rule sort_byField_perm)
    show "mset (map f xs) = mset (map f zs)" using assms(2) calculation(1) by simp
    show "distinct (map k (map f xs))" using assms(3) by (simp add: comp_def key)
  qed
  ultimately show ?thesis by metis
qed

lemma fed_distinct: "fed fs ps \<Longrightarrow> distinct fs"
  by (auto simp: fed_def distinct_map)

lemma checkTargets_distinct:
  assumes "for_each (checkTarget L rs) ts [] = Inr ks"
  shows "distinct (map (\<lambda>t. joined (tg_repositoryId t) (tg_targetRef t)) ts)"
proof -
  have "ks = map (\<lambda>t. joined (tg_repositoryId t) (tg_targetRef t)) ts \<and> distinct ks"
    by (rule for_each_inv[OF assms, where P = "\<lambda>ts ks. ks = map (\<lambda>t. joined (tg_repositoryId t) (tg_targetRef t)) ts
        \<and> distinct ks"]) (auto simp: checkTarget_def Let_def bind_eq_Inr requireCondition_Inr)
  then show ?thesis by blast
qed

interpretation external_cmp: comparator externalOrder
  unfolding externalOrder_def by (rule comparator_or_else) (rule field_cmp.comparator_axioms)+

interpretation target_cmp: comparator targetOrder
  unfolding targetOrder_def by (rule comparator_or_else) (rule field_cmp.comparator_axioms)+

lemma normalizeDecision_same:
  assumes "same_decision d e" and "validateDecision d = Inr ()"
  shows "normalizeDecision d = normalizeDecision e"
proof -
  have "distinct (map it_itemKey (dc_items d))" "distinct (map so_evidenceRefId (dc_sources d))"
    "distinct (map rv_evidenceRefId (dc_sourceRevisions d))"
    "distinct (map qu_questionKey (dc_unresolvedQuestions d))"
    using assms(2) by (auto simp: validateDecision_def bind_eq_Inr uniqueBy_Inr)
  with assms(1) show ?thesis
    unfolding normalizeDecision_def same_decision_def
    by (intro PlanDecision.equality) (auto intro!: sort_byField_perm)
qed

lemma feeds_distinct_parts:
  assumes "distinct (feeds p)"
  shows "e \<in> set (pl_edges p) \<Longrightarrow> distinct (map eb_inputSlot (ed_bindings e))"
    and "distinct (map (\<lambda>x. (xi_nodeKey x, xi_inputSlot x)) (pl_externalInputs p))"
proof -
  assume e: "e \<in> set (pl_edges p)"
  have "distinct (edge_feeds e)"
    using assms e by (auto simp: feeds_def distinct_concat_iff dest: removeAll_id split_list)
  then show "distinct (map eb_inputSlot (ed_bindings e))"
    by (auto simp: edge_feeds_def distinct_map inj_on_def)
qed (use assms in \<open>simp add: feeds_def\<close>)

lemma normalize_keys [simp]:
  "nd_nodeKey (normalizeNode n) = nd_nodeKey n" "ed_edgeKey (normalizeEdge e) = ed_edgeKey e"
  by (simp_all add: normalizeNode_def normalizeEdge_def)

lemma policy_same: "same_policy a b \<Longrightarrow> a\<lparr>pp_integrationTargets := ts\<rparr> = b\<lparr>pp_integrationTargets := ts\<rparr>"
  unfolding same_policy_def by (metis PlanPolicy.update_convs(3) PlanPolicy.surjective)

lemma normalize_reordered:
  assumes "checkDefinition L schema p = Inr st" and "reordered p q"
  shows "normalizeDefinition p = normalizeDefinition q"
proof -
  note facts = checkDefinition_facts[OF assms(1)]
  from assms(2) obtain ns es where ns: "list_all2 same_node (pl_nodes p) ns" "mset ns = mset (pl_nodes q)"
    and es: "list_all2 same_edge (pl_edges p) es" "mset es = mset (pl_edges q)"
    unfolding reordered_def by blast
  from facts(6) have feeds: "distinct (feeds p)" by (rule fed_distinct)
  have nodes: "map normalizeNode (sort_by (byField nd_nodeKey) (pl_nodes p)) =
      map normalizeNode (sort_by (byField nd_nodeKey) (pl_nodes q))"
    by (rule normalize_list[OF ns]) (use facts(1,4) in \<open>auto simp: plan_keys_def intro: normalizeNode_same\<close>)
  have edges: "map normalizeEdge (sort_by (byField ed_edgeKey) (pl_edges p)) =
      map normalizeEdge (sort_by (byField ed_edgeKey) (pl_edges q))"
    by (rule normalize_list[OF es]) (use facts(2) feeds_distinct_parts(1)[OF feeds] in
        \<open>auto intro: normalizeEdge_same\<close>)
  have "sort_by externalOrder (pl_externalInputs p) = sort_by externalOrder (pl_externalInputs q)"
    using feeds_distinct_parts(2)[OF feeds] assms(2)
    by (intro external_cmp.sort_by_perm)
      (auto simp: reordered_def externalOrder_def or_else_def distinct_map inj_on_def split: if_splits)
  moreover have "sort_by targetOrder (pp_integrationTargets (pl_policy p)) =
      sort_by targetOrder (pp_integrationTargets (pl_policy q))"
    using facts(8) assms(2)
    by (intro target_cmp.sort_by_perm)
      (auto simp: reordered_def same_policy_def targetOrder_def or_else_def distinct_map inj_on_def
        split: if_splits dest!: checkTargets_distinct)
  moreover have "normalizeDecision (pl_decision p) = normalizeDecision (pl_decision q)"
    using facts(3) assms(2) by (auto simp: reordered_def intro: normalizeDecision_same)
  ultimately show ?thesis
    using nodes edges assms(2) policy_same[of "pl_policy p" "pl_policy q"]
    unfolding normalizeDefinition_def by (intro PlanDefinition.equality) (simp_all add: reordered_def)
qed

lemma greedy_cong:
  assumes "greedy keys E xs" "set keys = set keys'" "set E = set E'"
  shows "greedy keys' E' xs"
  using assms(1)
proof induction
  case (pick d v)
  then show ?case
    using assms(2,3) by (intro greedy.pick) (auto simp: least_available_def available_def)
qed (rule greedy.start)

lemma reordered_graph:
  assumes "reordered p q"
  shows "mset (plan_keys p) = mset (plan_keys q)" "set (plan_edges p) = set (plan_edges q)"
proof -
  from assms obtain ns es where ns: "list_all2 same_node (pl_nodes p) ns" "mset ns = mset (pl_nodes q)"
    and es: "list_all2 same_edge (pl_edges p) es" "mset es = mset (pl_edges q)"
    unfolding reordered_def by blast
  have "map nd_nodeKey (pl_nodes p) = map nd_nodeKey ns"
    using ns(1) by (induction rule: list_all2_induct) (auto simp: same_node_key)
  with ns(2) show "mset (plan_keys p) = mset (plan_keys q)" by (simp add: plan_keys_def)
  have "map edge_pair (pl_edges p) = map edge_pair es"
    using es(1) by (induction rule: list_all2_induct) (auto simp: same_edge_fields)
  moreover have "set es = set (pl_edges q)" using es(2) by (rule mset_eq_setD)
  ultimately show "set (plan_edges p) = set (plan_edges q)"
    unfolding plan_edges_def by (metis list.set_map)
qed

lemma plan_order_reordered:
  assumes "checkDefinition L schema p = Inr st" "checkDefinition L schema q = Inr st'" "reordered p q"
  shows "plan_order st = plan_order st'"
proof -
  note graph = mset_eq_setD[OF reordered_graph(1)[OF assms(3)]] reordered_graph(2)[OF assms(3)]
  show ?thesis
    by (rule greedy_exhausted_unique[OF greedy_cong[OF plan_order_greedy(1)[OF assms(1)] graph] _
          plan_order_greedy(1)[OF assms(2)] plan_order_greedy(2)[OF assms(2)]])
      (use plan_order_greedy(2)[OF assms(1)] graph in \<open>simp add: exhausted_def available_def\<close>)
qed

lemma validate_Inr:
  assumes "validateExecutionPlanDefinition L schema p = Inr r"
  obtains st d where "checkDefinition L schema p = Inr st"
    "length (plan_order st) = length (plan_keys p)"
    "executionOperationDigest L (plan_json (normalizeDefinition p)) = Inr d"
    "r = \<lparr>vd_definition = normalizeDefinition p, vd_topologicalOrder = plan_order st, vd_digest = d,
       vd_approvalBlockers = map qu_questionKey
         (filter qu_required (dc_unresolvedQuestions (pl_decision (normalizeDefinition p))))\<rparr>"
  using assms
  by (auto simp: validateExecutionPlanDefinition_def Let_def bind_eq_Inr requireCondition_Inr
      plan_order_def plan_keys_def nodeMap_def)

lemma bindInput_key:
  assumes "bindInput (map_of (nodeMap nodes) k) slotKey kind ps = Inr ps'"
  shows "k \<in> nd_nodeKey ` set nodes"
proof -
  from assms obtain n where "map_of (nodeMap nodes) k = Some n" by (auto simp: bindInput_Inr)
  from nodeMap_Some[OF this] show ?thesis by blast
qed

lemma feeds_keys:
  assumes "checkDefinition L schema p = Inr st"
  shows "fst ` set (feeds p) \<subseteq> set (plan_keys p)"
proof -
  have "\<forall>x\<in>set (pl_externalInputs p). xi_nodeKey x \<in> set (plan_keys p)"
  proof -
    from assms obtain st0 where
      "for_each (checkEdge p) (pl_edges p) (start_edges (pl_nodes p)) = Inr st0"
      and ext: "for_each (\<lambda>x. bindInput (map_of (nodeMap (pl_nodes p)) (xi_nodeKey x))
        (xi_inputSlot x) (xi_kind x)) (pl_externalInputs p) (es_producers st0) = Inr (es_producers st)"
      by (auto simp: checkDefinition_def bind_eq_Inr split: prod.splits)
    show ?thesis
      by (rule for_each_inv[OF ext, where P = "\<lambda>xs ps. \<forall>x\<in>set xs. xi_nodeKey x \<in> set (plan_keys p)"])
        (auto simp: plan_keys_def dest: bindInput_key)
  qed
  with plan_order_greedy(4)[OF assms] show ?thesis
    by (auto simp: feeds_def edge_feeds_def plan_edges_def edge_pair_def)
qed

lemma not_isl_obtain: "\<not> isl x \<Longrightarrow> \<exists>y. x = Inr y"
  by (cases x) auto

section \<open>A concrete plan\<close>

definition demo_plan_node :: "string \<Rightarrow> PlanNode" where
  "demo_plan_node k =
    \<lparr>nd_agentId = lit ''g'', nd_budget = \<lparr>bu_maxExecutionDurationSeconds = 60, bu_maxRunAttempts = 1\<rparr>,
     nd_inputs = (if k = ''a'' then [] else [\<lparr>ns_kind = Slot_patch, ns_required = True, ns_slotKey = lit ''i''\<rparr>]),
     nd_kind = (if k = ''a'' then Node_implementation else Node_review), nd_nodeKey = lit k,
     nd_outputs = [\<lparr>ns_kind = Slot_patch, ns_required = True, ns_slotKey = lit ''o''\<rparr>],
     nd_repository = \<lparr>rp_baseCommit = lit ''c'', rp_bindingId = lit ''b'', rp_grantId = lit ''g'',
       rp_grantRevision = 1, rp_repositoryId = lit ''r'', rp_runtimeProfileDigest = lit ''d'',
       rp_runtimeProfileId = lit ''p''\<rparr>,
     nd_required = True,
     nd_scope = \<lparr>sc_access = (if k = ''a'' then Access_isolated_write else Access_read_only),
       sc_allowedPaths = (if k = ''a'' then [lit ''s''] else []), sc_forbiddenPaths = [],
       sc_requirePreventivePathEnforcement = False\<rparr>,
     nd_task = Task_existing \<lparr>te_criteriaRevision = 1, te_definitionRevision = 1, te_expectedTaskRevision = 1,
       te_taskId = lit k\<rparr>,
     nd_verificationProfiles = [\<lparr>vp_digest = lit ''d'', vp_profileId = lit ''v'', vp_required = True,
       vp_revision = 1\<rparr>]\<rparr>"

definition demo_plan_edge :: "string \<Rightarrow> string \<Rightarrow> PlanEdge" where
  "demo_plan_edge a b =
    \<lparr>ed_bindings = (if b = ''b'' then [\<lparr>eb_inputSlot = lit ''i'', eb_outputSlot = lit ''o''\<rparr>] else []),
     ed_edgeKey = lit (a @ b), ed_fromNodeKey = lit a, ed_gate = Gate_verified_output, ed_toNodeKey = lit b\<rparr>"

definition demo_plan :: "PlanNode list \<Rightarrow> PlanEdge list \<Rightarrow> PlanDefinition" where
  "demo_plan nodes edges =
    \<lparr>pl_decision = \<lparr>dc_items = [],
       dc_sourceRevisions = [\<lparr>rv_evidenceRefId = lit ''e'', rv_revision = 1\<rparr>],
       dc_sources = [\<lparr>so_evidenceRefId = lit ''e'', so_kind = Src_message, so_artifactId = None, so_runId = None,
         so_sequence = None, so_messageId = Some (lit ''m''), so_memoryId = None, so_discussionId = None,
         so_resultId = None\<rparr>],
       dc_summary = lit ''s'',
       dc_unresolvedQuestions = [\<lparr>qu_questionKey = lit ''q'', qu_required = True, qu_text = lit ''t''\<rparr>]\<rparr>,
     pl_edges = edges, pl_externalInputs = [], pl_nodes = nodes,
     pl_policy = \<lparr>pp_budget = \<lparr>bu_maxExecutionDurationSeconds = 60, bu_maxRunAttempts = 2\<rparr>,
       pp_integration = Int_reviewed_candidate, pp_integrationTargets = [], pp_maxConcurrency = 1,
       pp_requireHumanIntegrationApproval = True\<rparr>,
     pl_rootTaskId = lit ''t'', pl_title = lit ''T''\<rparr>"

abbreviation demo_ab :: PlanDefinition where
  "demo_ab \<equiv> demo_plan [demo_plan_node ''a'', demo_plan_node ''b''] [demo_plan_edge ''a'' ''b'']"

abbreviation demo_ba :: PlanDefinition where
  "demo_ba \<equiv> demo_plan [demo_plan_node ''b'', demo_plan_node ''a''] [demo_plan_edge ''a'' ''b'']"

abbreviation demo_cycle :: PlanDefinition where
  "demo_cycle \<equiv> demo_plan [demo_plan_node ''a'', demo_plan_node ''b'']
     [demo_plan_edge ''a'' ''b'', demo_plan_edge ''b'' ''a'']"

lemma command_accepted:
  assumes "room v" "schema v"
  shows "assertExecutionCommand schema v = Inr ()"
proof -
  from room_digest[OF assms(1)] obtain t where "canonicalExecutionJSON v = Inr t"
    by (auto simp: executionOperationDigest_Inr)
  with assms(2) show ?thesis by (simp add: assertExecutionCommand_def requireCondition_def ensure_def)
qed

lemmas demo_plan_simps = room_def plan_json_def decision_json_def source_json_def source_pin_def edge_json_def node_json_def task_json_def
  policy_json_def budget_json_def slot_json_def opt_field_def forbidden_key_def is_safe_integer_def
  max_safe_integer_def maximumValues_def demo_plan_def demo_plan_node_def demo_plan_edge_def Let_def

lemma demo_room:
  "room (plan_json demo_ab)" "room (plan_json demo_ba)" "room (plan_json demo_cycle)"
  by (simp_all add: demo_plan_simps)

lemma demo_checked_ab: "\<not> isl (checkDefinition ascii_lib (\<lambda>_. True) demo_ab)"
  unfolding checkDefinition_def by (subst command_accepted[OF demo_room(1)], simp, code_simp)

lemma demo_checked_ba: "\<not> isl (checkDefinition ascii_lib (\<lambda>_. True) demo_ba)"
  unfolding checkDefinition_def by (subst command_accepted[OF demo_room(2)], simp, code_simp)

lemma demo_checked_cycle: "\<not> isl (checkDefinition ascii_lib (\<lambda>_. True) demo_cycle)"
  unfolding checkDefinition_def by (subst command_accepted[OF demo_room(3)], simp, code_simp)

lemma demo_normal: "normalizeDefinition demo_ba = demo_ab" "normalizeDefinition demo_ab = demo_ab"
  by code_simp+

lemma validate_eq:
  assumes "checkDefinition L schema p = Inr st"
  shows "validateExecutionPlanDefinition L schema p =
    (if acyclic (set (plan_edges p)) then
       bind (executionOperationDigest L (plan_json (normalizeDefinition p))) (\<lambda>d.
         Inr \<lparr>vd_definition = normalizeDefinition p, vd_topologicalOrder = plan_order st, vd_digest = d,
           vd_approvalBlockers = map qu_questionKey
             (filter qu_required (dc_unresolvedQuestions (pl_decision (normalizeDefinition p))))\<rparr>)
     else Inl (ExecutionError ''PLAN_CYCLE''))"
  using assms plan_order_greedy(3)[OF assms]
  by (auto simp: validateExecutionPlanDefinition_def Let_def requireCondition_def ensure_def
      plan_order_def plan_keys_def nodeMap_def)

section \<open>Properties\<close>

text \<open>
  (C35) A definition that passes the checks is refused with \<^verbatim>\<open>PLAN_CYCLE\<close> exactly when its edges
  have a cycle; otherwise it is accepted with the digest of its normal form. The loop that
  decides this always ends.
\<close>

theorem plan_cycle_exact:
  assumes "checkDefinition L schema p = Inr st"
  shows "\<exists>order. validateExecutionPlanDefinition L schema p =
    (if acyclic (set (plan_edges p)) then
       bind (executionOperationDigest L (plan_json (normalizeDefinition p))) (\<lambda>d.
         Inr \<lparr>vd_definition = normalizeDefinition p, vd_topologicalOrder = order, vd_digest = d,
           vd_approvalBlockers = map qu_questionKey
             (filter qu_required (dc_unresolvedQuestions (pl_decision (normalizeDefinition p))))\<rparr>)
     else Inl (ExecutionError ''PLAN_CYCLE''))"
  using validate_eq[OF assms] by blast

theorem plan_cycle_exact_witness:
  "validateExecutionPlanDefinition ascii_lib (\<lambda>_. True) demo_cycle = Inl (ExecutionError ''PLAN_CYCLE'')"
proof -
  obtain st where st: "checkDefinition ascii_lib (\<lambda>_. True) demo_cycle = Inr st"
    using demo_checked_cycle by (cases "checkDefinition ascii_lib (\<lambda>_. True) demo_cycle") auto
  have "(lit ''a'', lit ''b'') \<in> set (plan_edges demo_cycle)" "(lit ''b'', lit ''a'') \<in> set (plan_edges demo_cycle)"
    by (simp_all add: plan_edges_def edge_pair_def demo_plan_def demo_plan_edge_def)
  then have "\<not> acyclic (set (plan_edges demo_cycle))"
    unfolding acyclic_def by (meson r_into_trancl trancl_trans)
  with plan_cycle_exact[OF st] show ?thesis by simp
qed

lemma demo_accepted:
  "\<exists>r. validateExecutionPlanDefinition ascii_lib (\<lambda>_. True) demo_ab = Inr r"
  "\<exists>r. validateExecutionPlanDefinition ascii_lib (\<lambda>_. True) demo_ba = Inr r"
proof -
  have "acyclic {(lit ''a'', lit ''b'')}"
    by (rule acyclic_insert[THEN iffD2]) (simp add: acyclic_def rtrancl.simps)
  then have "acyclic (set (plan_edges demo_ab))" "acyclic (set (plan_edges demo_ba))"
    by (simp_all add: plan_edges_def edge_pair_def demo_plan_def demo_plan_edge_def)
  moreover obtain st st' where "checkDefinition ascii_lib (\<lambda>_. True) demo_ab = Inr st"
    "checkDefinition ascii_lib (\<lambda>_. True) demo_ba = Inr st'"
    using demo_checked_ab demo_checked_ba by (metis not_isl_obtain)
  moreover obtain d where "executionOperationDigest ascii_lib (plan_json demo_ab) = Inr d"
    using room_digest[OF demo_room(1)] by blast
  ultimately show "\<exists>r. validateExecutionPlanDefinition ascii_lib (\<lambda>_. True) demo_ab = Inr r"
    "\<exists>r. validateExecutionPlanDefinition ascii_lib (\<lambda>_. True) demo_ba = Inr r"
    using validate_eq demo_normal by simp_all
qed

text \<open>
  (C7) The order of an accepted plan is the run of the specification: it lists every node once,
  every edge goes forward in it, and each key is the least of those whose predecessors precede.
\<close>

theorem plan_order_exact:
  assumes "validateExecutionPlanDefinition L schema p = Inr r"
  shows "mset (vd_topologicalOrder r) = mset (plan_keys p) \<and>
    forward (plan_edges p) (vd_topologicalOrder r) \<and>
    greedy (plan_keys p) (plan_edges p) (vd_topologicalOrder r)"
  using assms
proof (cases rule: validate_Inr)
  case (1 st d)
  note g = plan_order_greedy[OF 1(1)] and sound = greedy_sound[OF plan_order_greedy(1)[OF 1(1)]]
  have eq: "set (plan_order st) = set (plan_keys p)"
    using sound g(5) 1(2) by (metis card_subset_eq distinct_card List.finite_set)
  then have "mset (plan_order st) = mset (plan_keys p)"
    using sound g(5) by (simp add: set_eq_iff_mset_eq_distinct)
  moreover have "forward (plan_edges p) (plan_order st)"
    unfolding forward_def using greedy_predecessor[OF g(1)] g(4) eq by blast
  ultimately show ?thesis using 1(4) g(1) by simp
qed

theorem plan_order_exact_witness:
  "\<exists>r. validateExecutionPlanDefinition ascii_lib (\<lambda>_. True) demo_ba = Inr r \<and>
    mset (vd_topologicalOrder r) = mset [lit ''a'', lit ''b'']"
proof -
  obtain r where r: "validateExecutionPlanDefinition ascii_lib (\<lambda>_. True) demo_ba = Inr r"
    using demo_accepted(2) by blast
  from plan_order_exact[OF r] have "mset (vd_topologicalOrder r) = mset [lit ''a'', lit ''b'']"
    by (simp add: plan_keys_def demo_plan_def demo_plan_node_def)
  with r show ?thesis by blast
qed

text \<open>
  (C36) Two accepted definitions that list the same content in different orders validate to the
  same definition, order, digest and approval blockers.
\<close>

theorem plan_listing_independent:
  assumes "validateExecutionPlanDefinition L schema p = Inr r"
    and "validateExecutionPlanDefinition L schema q = Inr s" and "reordered p q"
  shows "r = s"
  using assms(1)
proof (cases rule: validate_Inr)
  case (1 st d)
  note p = 1
  from assms(2) show ?thesis
  proof (cases rule: validate_Inr)
    case (1 st' d')
    with p normalize_reordered[OF p(1) assms(3)] plan_order_reordered[OF p(1) 1(1) assms(3)] show ?thesis by simp
  qed
qed

lemma same_refl: "same_node n n" "same_edge e e"
  by (auto simp: same_node_def same_scope_def same_task_def same_edge_def split: NodeTask.splits)

theorem plan_listing_independent_witness:
  "\<exists>r. validateExecutionPlanDefinition ascii_lib (\<lambda>_. True) demo_ab = Inr r \<and>
    validateExecutionPlanDefinition ascii_lib (\<lambda>_. True) demo_ba = Inr r"
proof -
  obtain r s where run: "validateExecutionPlanDefinition ascii_lib (\<lambda>_. True) demo_ab = Inr r"
    "validateExecutionPlanDefinition ascii_lib (\<lambda>_. True) demo_ba = Inr s"
    using demo_accepted by blast
  have "reordered demo_ab demo_ba"
    unfolding reordered_def
    by (intro conjI exI[of _ "[demo_plan_node ''a'', demo_plan_node ''b'']"] exI[of _ "[demo_plan_edge ''a'' ''b'']"])
      (simp_all add: demo_plan_def same_refl same_policy_def same_decision_def)
  with plan_listing_independent[OF run] run show ?thesis by blast
qed

text \<open>
  In an accepted plan whose node keys contain no slash, which the schema's pattern of keys
  ensures, no input slot has two producers, every required slot has one, and every binding
  connects an output to an input of the same kind, a required input to a required output, and
  code only within one repository.
\<close>

theorem plan_inputs_exact:
  assumes "validateExecutionPlanDefinition L schema p = Inr r"
    and "\<forall>k\<in>set (plan_keys p). 0x2F \<notin> set k"
  shows "distinct (feeds p) \<and> (\<forall>e\<in>set (pl_edges p). edge_typed p e) \<and>
    (\<forall>n\<in>set (pl_nodes p). \<forall>slot\<in>set (nd_inputs n). ns_required slot \<longrightarrow>
       (nd_nodeKey n, ns_slotKey slot) \<in> set (feeds p))"
  using assms(1)
proof (cases rule: validate_Inr)
  case (1 st d)
  note facts = checkDefinition_facts[OF 1(1)]
  have fed: "es_producers st = map (\<lambda>(a, b). joined a b) (feeds p)" "distinct (feeds p)"
    using facts(6) by (auto simp: fed_def distinct_map)
  have "(nd_nodeKey n, ns_slotKey slot) \<in> set (feeds p)"
    if n: "n \<in> set (pl_nodes p)" and slot: "slot \<in> set (nd_inputs n)" "ns_required slot" for n slot
  proof -
    from facts(7) n slot fed(1) obtain a b where ab: "(a, b) \<in> set (feeds p)"
      "joined a b = joined (nd_nodeKey n) (ns_slotKey slot)" by fastforce
    have "a \<in> set (plan_keys p)" using feeds_keys[OF 1(1)] ab(1) by force
    moreover have "nd_nodeKey n \<in> set (plan_keys p)" using n by (simp add: plan_keys_def)
    ultimately have "a = nd_nodeKey n \<and> b = ns_slotKey slot"
      using joined_inj[OF ab(2)] assms(2) by blast
    with ab(1) show ?thesis by simp
  qed
  with fed(2) facts(5) show ?thesis by blast
qed

theorem plan_inputs_exact_witness:
  "(lit ''b'', lit ''i'') \<in> set (feeds demo_ab)"
proof -
  obtain r where r: "validateExecutionPlanDefinition ascii_lib (\<lambda>_. True) demo_ab = Inr r"
    using demo_accepted(1) by blast
  have "\<forall>k\<in>set (plan_keys demo_ab). 0x2F \<notin> set k"
    by (simp add: plan_keys_def demo_plan_def demo_plan_node_def lit_def)
  from plan_inputs_exact[OF r this] show ?thesis
    by (simp add: demo_plan_def demo_plan_node_def)
qed



end
