(* ===== verification/Sql_Table.thy ===== *)
theory Sql_Table
  imports Prelude
begin

text \<open>
  Tables of the SQLite store, as the repositories under \<^verbatim>\<open>apps/server/src\<close> use them. A table
  is the list of its rows; a statement that would leave two rows in conflict under the unique
  indexes of the migrations throws. \<^verbatim>\<open>UPDATE\<close> reports how many rows matched. A transaction
  that throws has no successor state, which is its rollback. The foreign keys and the \<^verbatim>\<open>CHECK\<close>
  constraints of the migrations, which can only refuse more, are not part of the model.
\<close>

section \<open>Statements\<close>

fun conflict_free :: "('a \<Rightarrow> 'a \<Rightarrow> bool) \<Rightarrow> 'a list \<Rightarrow> bool" where
  "conflict_free conflict [] = True"
| "conflict_free conflict (r # rs) =
     (list_all (\<lambda>q. \<not> conflict r q) rs \<and> conflict_free conflict rs)"

definition commit_rows :: "('a \<Rightarrow> 'a \<Rightarrow> bool) \<Rightarrow> 'a list \<Rightarrow> 'a list throwing" where
  "commit_rows conflict rows =
    bind (ensure (conflict_free conflict rows) (Error ''UNIQUE constraint failed'')) (\<lambda>_. Inr rows)"

definition insert_row :: "('a \<Rightarrow> 'a \<Rightarrow> bool) \<Rightarrow> 'a \<Rightarrow> 'a list \<Rightarrow> 'a list throwing" where
  "insert_row conflict row rows = commit_rows conflict (rows @ [row])"

definition update_rows ::
  "('a \<Rightarrow> 'a \<Rightarrow> bool) \<Rightarrow> ('a \<Rightarrow> bool) \<Rightarrow> ('a \<Rightarrow> 'a) \<Rightarrow> 'a list \<Rightarrow> (nat \<times> 'a list) throwing" where
  "update_rows conflict P f rows =
    bind (commit_rows conflict (map (\<lambda>r. if P r then f r else r) rows))
      (\<lambda>rows'. Inr (length (filter P rows), rows'))"

section \<open>Lemmas\<close>

lemma commit_rows_Inr [throw_simps]:
  "commit_rows conflict rows = Inr rows' \<longleftrightarrow> conflict_free conflict rows \<and> rows' = rows"
  by (auto simp: commit_rows_def throw_simps)

lemma insert_row_Inr [throw_simps]:
  "insert_row conflict row rows = Inr rows' \<longleftrightarrow>
     conflict_free conflict (rows @ [row]) \<and> rows' = rows @ [row]"
  by (auto simp: insert_row_def commit_rows_Inr)

lemma update_rows_Inr [throw_simps]:
  "update_rows conflict P f rows = Inr (n, rows') \<longleftrightarrow>
     rows' = map (\<lambda>r. if P r then f r else r) rows \<and> conflict_free conflict rows' \<and>
     n = length (filter P rows)"
  by (auto simp: update_rows_def commit_rows_Inr bind_eq_Inr)

lemma conflict_free_append:
  "conflict_free conflict (xs @ ys) \<longleftrightarrow> conflict_free conflict xs \<and> conflict_free conflict ys \<and>
     (\<forall>x\<in>set xs. \<forall>y\<in>set ys. \<not> conflict x y)"
  by (induction xs) (auto simp: list_all_iff)

lemma conflict_freeD:
  "conflict_free conflict rows \<Longrightarrow> (\<And>x y. conflict x y \<longleftrightarrow> conflict y x) \<Longrightarrow>
   x \<in> set rows \<Longrightarrow> y \<in> set rows \<Longrightarrow> conflict x y \<Longrightarrow> x = y"
  by (induction rows) (auto simp: list_all_iff)

text \<open>A table whose unique indexes include a key: a lookup by the key finds the row itself.\<close>

locale keyed_table =
  fixes conflict :: "'a \<Rightarrow> 'a \<Rightarrow> bool" and key :: "'a \<Rightarrow> 'k"
  assumes same_key: "key x = key y \<Longrightarrow> conflict x y"
begin

lemma distinct_keys: "conflict_free conflict rows \<Longrightarrow> distinct (map key rows)"
proof (induction rows)
  case (Cons r rows)
  have "key r \<noteq> key q" if "q \<in> set rows" for q
    using Cons.prems that same_key[of r q] by (auto simp: list_all_iff)
  with Cons show ?case by auto
qed simp

lemma find_row:
  assumes "conflict_free conflict rows"
  shows "find (\<lambda>r. key r = k) rows = Some r \<longleftrightarrow> r \<in> set rows \<and> key r = k"
proof
  assume "r \<in> set rows \<and> key r = k"
  with distinct_keys[OF assms] show "find (\<lambda>r. key r = k) rows = Some r"
    by (induction rows) auto
qed (auto simp: find_Some_iff)

lemma find_insert:
  assumes "conflict_free conflict (rows @ [row])"
  shows "find (\<lambda>r. key r = k) (rows @ [row]) = (if key row = k then Some row else find (\<lambda>r. key r = k) rows)"
proof (cases "key row = k")
  case True
  with assms find_row[OF assms] show ?thesis by simp
next
  case False
  then show ?thesis by (induction rows) auto
qed

lemma find_update:
  assumes "\<And>r. P r \<Longrightarrow> key (f r) = key r"
  shows "find (\<lambda>r. key r = k) (map (\<lambda>r. if P r then f r else r) rows) =
    map_option (\<lambda>r. if P r then f r else r) (find (\<lambda>r. key r = k) rows)"
  using assms by (induction rows) auto

lemma changes_one:
  assumes "conflict_free conflict rows"
  shows "length (filter (\<lambda>r. key r = k \<and> Q r) rows) =
    (case find (\<lambda>r. key r = k) rows of None \<Rightarrow> 0 | Some r \<Rightarrow> if Q r then 1 else 0)"
proof -
  from distinct_keys[OF assms] show ?thesis
  proof (induction rows)
    case (Cons r rows)
    then have "key r = k \<Longrightarrow> filter (\<lambda>r. key r = k \<and> Q r) rows = []"
      by (auto simp: filter_empty_conv) (metis imageI)
    with Cons show ?case by auto
  qed simp
qed

end

end
