(* ===== verification/Discussion_Store.thy ===== *)
theory Discussion_Store
  imports Sql_Table Wave_Planning
begin

text \<open>
  The tables of a Discussion and the operations of
  \<^verbatim>\<open>apps/server/src/discussion/discussion-repository.ts\<close>. A row is the record its \<^verbatim>\<open>map\<dots>\<close>
  function returns: a JSON column holds the value that is written and read back. An operation
  maps the store to its result and the new store, or throws; the conflicts of a table are its
  unique indexes in the migrations.
\<close>

section \<open>Rows\<close>

record DiscussionSupplementalEvidence =
  se_evidenceId :: jstring
  se_operationId :: jstring
  se_sealId :: jstring
  se_discussionId :: jstring
  se_waveId :: jstring
  se_turnId :: jstring
  se_runId :: jstring
  se_agentId :: jstring
  se_deviceId :: jstring
  se_sourceReplySequence :: int
  se_sourceMessageId :: jstring
  se_sourceMessageSequence :: int
  se_replyHash :: jstring
  se_evidenceDigest :: jstring
  se_submittedAt :: timestamp

record DiscussionDecision =
  de_decisionId :: jstring
  de_discussionId :: jstring
  de_aggregateVersion :: int
  de_progressVersion :: int
  de_action :: DiscussionAction
  de_reason :: "DiscussionStateReason option"
  de_nextAgentId :: "jstring option"
  de_outputMode :: DiscussionOutputMode
  de_createdAt :: timestamp

text \<open>
  The reason of a decision is a state reason or, for \<open>None\<close>, the text
  \<^verbatim>\<open>"discussion_active"\<close>, the only values \<^verbatim>\<open>newDecision\<close> writes.
\<close>

record DiscussionBudgetEvent =
  be_budgetEventId :: jstring
  be_discussionId :: jstring
  be_ordinal :: int
  be_eventType :: budget_event_type
  be_turns :: int
  be_durationSeconds :: int
  be_metadata :: cjson
  be_createdAt :: timestamp

record discussion_store =
  st_discussions :: "DiscussionRecord list"
  st_participants :: "DiscussionParticipant list"
  st_turns :: "DiscussionTurn list"
  st_waves :: "DiscussionWave list"
  st_seals :: "DiscussionWaveSeal list"
  st_decisions :: "DiscussionDecision list"
  st_events :: "DiscussionBudgetEvent list"
  st_evidence :: "DiscussionSupplementalEvidence list"

section \<open>Unique indexes\<close>

definition some_eq :: "'a option \<Rightarrow> 'a option \<Rightarrow> bool" where
  "some_eq a b \<longleftrightarrow> a \<noteq> None \<and> a = b"

definition discussion_conflict :: "DiscussionRecord \<Rightarrow> DiscussionRecord \<Rightarrow> bool" where
  "discussion_conflict a b \<longleftrightarrow>
     d_discussionId a = d_discussionId b \<or>
     d_roomId a = d_roomId b \<and> d_rootMessageId a = d_rootMessageId b \<or>
     d_taskId a = d_taskId b \<and> \<not> terminalDiscussionState (d_state a) \<and> \<not> terminalDiscussionState (d_state b)"

definition participant_conflict :: "DiscussionParticipant \<Rightarrow> DiscussionParticipant \<Rightarrow> bool" where
  "participant_conflict a b \<longleftrightarrow>
     p_discussionId a = p_discussionId b \<and> (p_ordinal a = p_ordinal b \<or> p_agentId a = p_agentId b)"

definition turn_conflict :: "DiscussionTurn \<Rightarrow> DiscussionTurn \<Rightarrow> bool" where
  "turn_conflict a b \<longleftrightarrow>
     t_turnId a = t_turnId b \<or> some_eq (t_runId a) (t_runId b) \<or>
     t_discussionId a = t_discussionId b \<and> t_ordinal a = t_ordinal b \<or>
     some_eq (t_waveId a) (t_waveId b) \<and>
       (some_eq (t_waveMemberOrdinal a) (t_waveMemberOrdinal b) \<or> t_speakerAgentId a = t_speakerAgentId b)"

definition wave_conflict :: "DiscussionWave \<Rightarrow> DiscussionWave \<Rightarrow> bool" where
  "wave_conflict a b \<longleftrightarrow>
     w_waveId a = w_waveId b \<or>
     w_discussionId a = w_discussionId b \<and>
       (w_ordinal a = w_ordinal b \<or> w_state a = WS_open \<and> w_state b = WS_open)"

definition seal_conflict :: "DiscussionWaveSeal \<Rightarrow> DiscussionWaveSeal \<Rightarrow> bool" where
  "seal_conflict a b \<longleftrightarrow> sl_sealId a = sl_sealId b \<or> sl_waveId a = sl_waveId b"

definition decision_conflict :: "DiscussionDecision \<Rightarrow> DiscussionDecision \<Rightarrow> bool" where
  "decision_conflict a b \<longleftrightarrow>
     de_decisionId a = de_decisionId b \<or>
     de_discussionId a = de_discussionId b \<and> de_aggregateVersion a = de_aggregateVersion b"

definition event_conflict :: "DiscussionBudgetEvent \<Rightarrow> DiscussionBudgetEvent \<Rightarrow> bool" where
  "event_conflict a b \<longleftrightarrow>
     be_budgetEventId a = be_budgetEventId b \<or>
     be_discussionId a = be_discussionId b \<and> be_ordinal a = be_ordinal b"

definition evidence_conflict ::
  "DiscussionSupplementalEvidence \<Rightarrow> DiscussionSupplementalEvidence \<Rightarrow> bool" where
  "evidence_conflict a b \<longleftrightarrow>
     se_evidenceId a = se_evidenceId b \<or> se_operationId a = se_operationId b \<or>
     se_sealId a = se_sealId b \<and> se_turnId a = se_turnId b"

interpretation discussions: keyed_table discussion_conflict d_discussionId
  by unfold_locales (simp add: discussion_conflict_def)

interpretation turns: keyed_table turn_conflict t_turnId
  by unfold_locales (simp add: turn_conflict_def)

interpretation waves: keyed_table wave_conflict w_waveId
  by unfold_locales (simp add: wave_conflict_def)

interpretation evidences: keyed_table evidence_conflict se_operationId
  by unfold_locales (simp add: evidence_conflict_def)

section \<open>Queries\<close>

definition getDiscussion :: "jstring \<Rightarrow> discussion_store \<Rightarrow> DiscussionRecord option" where
  "getDiscussion discussionId s = find (\<lambda>d. d_discussionId d = discussionId) (st_discussions s)"

definition listForRoom :: "jstring \<Rightarrow> discussion_store \<Rightarrow> DiscussionRecord list" where
  "listForRoom roomId s =
    sort_by (\<lambda>a b. or_else (d_createdAt a - d_createdAt b) (binaryCompare (d_discussionId a) (d_discussionId b)))
      (filter (\<lambda>d. d_roomId d = roomId) (st_discussions s))"

definition listOpen :: "discussion_store \<Rightarrow> DiscussionRecord list" where
  "listOpen s =
    sort_by (\<lambda>a b. or_else (d_updatedAt a - d_updatedAt b) (binaryCompare (d_discussionId a) (d_discussionId b)))
      (filter (\<lambda>d. d_state d \<notin> {DS_completed, DS_canceled, DS_terminated}) (st_discussions s))"

text \<open>SQLite orders NULL before every value.\<close>

definition null_first :: "int option \<Rightarrow> int option \<Rightarrow> int" where
  "null_first a b = (case (a, b) of (None, None) \<Rightarrow> 0 | (None, Some _) \<Rightarrow> -1 | (Some _, None) \<Rightarrow> 1
     | (Some x, Some y) \<Rightarrow> x - y)"

definition listTerminalDecisionRecords :: "discussion_store \<Rightarrow> DiscussionRecord list" where
  "listTerminalDecisionRecords s =
    sort_by (\<lambda>a b. or_else (null_first (d_terminalAt a) (d_terminalAt b))
        (binaryCompare (d_discussionId a) (d_discussionId b)))
      (filter (\<lambda>d. d_outputMode d = OM_decision_record \<and> d_state d \<in> {DS_completed, DS_terminated})
        (st_discussions s))"

definition listParticipants :: "jstring \<Rightarrow> discussion_store \<Rightarrow> DiscussionParticipant list" where
  "listParticipants discussionId s =
    sort_by (\<lambda>a b. p_ordinal a - p_ordinal b)
      (filter (\<lambda>p. p_discussionId p = discussionId) (st_participants s))"

definition findTurnByRun :: "jstring \<Rightarrow> discussion_store \<Rightarrow> DiscussionTurn option" where
  "findTurnByRun runId s = find (\<lambda>t. t_runId t = Some runId) (st_turns s)"

definition getTurn :: "jstring \<Rightarrow> discussion_store \<Rightarrow> DiscussionTurn option" where
  "getTurn turnId s = find (\<lambda>t. t_turnId t = turnId) (st_turns s)"

definition listTurns :: "jstring \<Rightarrow> discussion_store \<Rightarrow> DiscussionTurn list" where
  "listTurns discussionId s =
    sort_by (\<lambda>a b. t_ordinal a - t_ordinal b) (filter (\<lambda>t. t_discussionId t = discussionId) (st_turns s))"

definition getWave :: "jstring \<Rightarrow> discussion_store \<Rightarrow> DiscussionWave option" where
  "getWave waveId s = find (\<lambda>w. w_waveId w = waveId) (st_waves s)"

definition listWaves :: "jstring \<Rightarrow> discussion_store \<Rightarrow> DiscussionWave list" where
  "listWaves discussionId s =
    sort_by (\<lambda>a b. w_ordinal a - w_ordinal b) (filter (\<lambda>w. w_discussionId w = discussionId) (st_waves s))"

definition listOpenWaves :: "discussion_store \<Rightarrow> DiscussionWave list" where
  "listOpenWaves s =
    sort_by (\<lambda>a b. or_else (w_deadlineAt a - w_deadlineAt b)
        (or_else (binaryCompare (w_discussionId a) (w_discussionId b)) (w_ordinal a - w_ordinal b)))
      (filter (\<lambda>w. w_state w = WS_open) (st_waves s))"

definition listTurnsForWave :: "jstring \<Rightarrow> discussion_store \<Rightarrow> DiscussionTurn list" where
  "listTurnsForWave waveId s =
    sort_by (\<lambda>a b. or_else (null_first (t_waveMemberOrdinal a) (t_waveMemberOrdinal b))
        (t_ordinal a - t_ordinal b))
      (filter (\<lambda>t. t_waveId t = Some waveId) (st_turns s))"

definition getWaveSeal :: "text_lib \<Rightarrow> jstring \<Rightarrow> discussion_store \<Rightarrow> DiscussionWaveSeal option throwing" where
  "getWaveSeal L waveId s =
    (case find (\<lambda>x. sl_waveId x = waveId) (st_seals s) of
       None \<Rightarrow> Inr None
     | Some seal \<Rightarrow> bind (assertDiscussionWaveSeal L seal) (\<lambda>_. Inr (Some seal)))"

definition listWaveSeals :: "text_lib \<Rightarrow> jstring \<Rightarrow> discussion_store \<Rightarrow> DiscussionWaveSeal list throwing" where
  "listWaveSeals L discussionId s =
    (let seals = sort_by (\<lambda>a b. or_else (sl_sealedAt a - sl_sealedAt b) (binaryCompare (sl_sealId a) (sl_sealId b)))
       (filter (\<lambda>x. sl_discussionId x = discussionId) (st_seals s)) in
     bind (check_each (assertDiscussionWaveSeal L) seals) (\<lambda>_. Inr seals))"

definition getSupplementalEvidenceByOperation ::
  "jstring \<Rightarrow> discussion_store \<Rightarrow> DiscussionSupplementalEvidence option" where
  "getSupplementalEvidenceByOperation operationId s =
    find (\<lambda>e. se_operationId e = operationId) (st_evidence s)"

definition listSupplementalEvidence ::
  "jstring \<Rightarrow> discussion_store \<Rightarrow> DiscussionSupplementalEvidence list" where
  "listSupplementalEvidence discussionId s =
    sort_by (\<lambda>a b. or_else (se_submittedAt a - se_submittedAt b) (binaryCompare (se_evidenceId a) (se_evidenceId b)))
      (filter (\<lambda>e. se_discussionId e = discussionId) (st_evidence s))"

definition listPlannedTurns :: "discussion_store \<Rightarrow> DiscussionTurn list" where
  "listPlannedTurns s =
    sort_by (\<lambda>a b. or_else (t_createdAt a - t_createdAt b) (binaryCompare (t_turnId a) (t_turnId b)))
      (filter (\<lambda>t. t_state t = TS_planned \<and> (\<exists>d\<in>set (st_discussions s).
         d_discussionId d = t_discussionId t \<and> d_state d \<in> {DS_active, DS_stop_requested, DS_finalizing}))
        (st_turns s))"

definition listBudgetEvents :: "jstring \<Rightarrow> discussion_store \<Rightarrow> DiscussionBudgetEvent list" where
  "listBudgetEvents discussionId s =
    sort_by (\<lambda>a b. be_ordinal a - be_ordinal b)
      (filter (\<lambda>e. be_discussionId e = discussionId) (st_events s))"

definition listDecisions :: "jstring \<Rightarrow> discussion_store \<Rightarrow> DiscussionDecision list" where
  "listDecisions discussionId s =
    sort_by (\<lambda>a b. de_aggregateVersion a - de_aggregateVersion b)
      (filter (\<lambda>e. de_discussionId e = discussionId) (st_decisions s))"

definition requireDiscussion :: "jstring \<Rightarrow> discussion_store \<Rightarrow> DiscussionRecord throwing" where
  "requireDiscussion discussionId s =
    (case getDiscussion discussionId s of
       None \<Rightarrow> Inl (ErrorText ''Discussion not found: '' discussionId) | Some d \<Rightarrow> Inr d)"

definition requireTurn :: "jstring \<Rightarrow> discussion_store \<Rightarrow> DiscussionTurn throwing" where
  "requireTurn turnId s =
    (case getTurn turnId s of
       None \<Rightarrow> Inl (ErrorText ''Discussion Turn not found: '' turnId) | Some t \<Rightarrow> Inr t)"

definition requireWave :: "jstring \<Rightarrow> discussion_store \<Rightarrow> DiscussionWave throwing" where
  "requireWave waveId s =
    (case getWave waveId s of
       None \<Rightarrow> Inl (ErrorText ''Discussion Wave not found: '' waveId) | Some w \<Rightarrow> Inr w)"

end
