(* ===== verification/Discussion_Repository.thy ===== *)
theory Discussion_Repository
  imports Discussion_Store
begin

text \<open>
  The operations of \<^verbatim>\<open>DiscussionRepository\<close> that change the store
  (\<^verbatim>\<open>apps/server/src/discussion/discussion-repository.ts\<close>). The input objects are records or
  arguments; an absent optional list is the empty one. Each operation is one transaction: it
  yields a new store or throws and leaves the store as it was.
\<close>

section \<open>Statements on one table\<close>

definition insertDecision :: "DiscussionDecision \<Rightarrow> discussion_store \<Rightarrow> discussion_store throwing" where
  "insertDecision decision s =
    bind (insert_row decision_conflict decision (st_decisions s)) (\<lambda>rows. Inr (s\<lparr>st_decisions := rows\<rparr>))"

definition insertBudgetEvent :: "DiscussionBudgetEvent \<Rightarrow> discussion_store \<Rightarrow> discussion_store throwing" where
  "insertBudgetEvent event s =
    bind (insert_row event_conflict event (st_events s)) (\<lambda>rows. Inr (s\<lparr>st_events := rows\<rparr>))"

definition insertTurn :: "DiscussionTurn \<Rightarrow> discussion_store \<Rightarrow> discussion_store throwing" where
  "insertTurn turn s =
    bind (insert_row turn_conflict turn (st_turns s)) (\<lambda>rows. Inr (s\<lparr>st_turns := rows\<rparr>))"

definition insertWave :: "DiscussionWave \<Rightarrow> discussion_store \<Rightarrow> discussion_store throwing" where
  "insertWave wave s =
    bind (ensure (w_selection wave \<noteq> None) (Error ''Discussion Wave selection is required'')) (\<lambda>_.
    bind (insert_row wave_conflict wave (st_waves s)) (\<lambda>rows. Inr (s\<lparr>st_waves := rows\<rparr>)))"

definition insertParticipant :: "DiscussionParticipant \<Rightarrow> discussion_store \<Rightarrow> discussion_store throwing" where
  "insertParticipant participant s =
    bind (insert_row participant_conflict participant (st_participants s))
      (\<lambda>rows. Inr (s\<lparr>st_participants := rows\<rparr>))"

definition updateDiscussions ::
  "(DiscussionRecord \<Rightarrow> bool) \<Rightarrow> (DiscussionRecord \<Rightarrow> DiscussionRecord) \<Rightarrow> string \<Rightarrow> discussion_store \<Rightarrow>
     discussion_store throwing" where
  "updateDiscussions P f message s =
    bind (update_rows discussion_conflict P f (st_discussions s)) (\<lambda>(changes, rows).
    bind (ensure (changes = 1) (Error message)) (\<lambda>_. Inr (s\<lparr>st_discussions := rows\<rparr>)))"

section \<open>Creation\<close>

definition createDiscussion ::
  "DiscussionRecord \<Rightarrow> DiscussionParticipant list \<Rightarrow> DiscussionBudgetEvent \<Rightarrow> discussion_store \<Rightarrow>
     discussion_store throwing" where
  "createDiscussion discussion participants initialBudgetEvent s =
    (let row = discussion\<lparr>
           d_executionModel := Some (case d_executionModel discussion of None \<Rightarrow> Exec_sequential | Some m \<Rightarrow> m),
           d_currentWave := Some (case d_currentWave discussion of None \<Rightarrow> 0 | Some n \<Rightarrow> n)\<rparr> in
     bind (insert_row discussion_conflict row (st_discussions s)) (\<lambda>rows.
     bind (for_each insertParticipant participants (s\<lparr>st_discussions := rows\<rparr>)) (\<lambda>s.
     insertBudgetEvent initialBudgetEvent s)))"

section \<open>Turns\<close>

definition appendTurn :: "DiscussionTurn \<Rightarrow> int \<Rightarrow> discussion_store \<Rightarrow> discussion_store throwing" where
  "appendTurn turn expectedVersion s =
    bind (updateDiscussions (\<lambda>d. d_discussionId d = t_discussionId turn \<and> d_version d = expectedVersion)
      (\<lambda>d. d\<lparr>d_currentTurn := t_ordinal turn, d_version := d_version d + 1, d_updatedAt := t_updatedAt turn\<rparr>)
      ''Stale Discussion aggregate version'' s) (insertTurn turn)"

definition bindTurnRun ::
  "jstring \<Rightarrow> jstring \<Rightarrow> turn_state \<Rightarrow> timestamp \<Rightarrow> discussion_store \<Rightarrow> (DiscussionTurn \<times> discussion_store) throwing" where
  "bindTurnRun turnId runId state now s =
    bind (update_rows turn_conflict
      (\<lambda>t. t_turnId t = turnId \<and> t_runId t = None \<and> t_state t = TS_planned)
      (\<lambda>t. t\<lparr>t_runId := Some runId, t_state := state, t_updatedAt := now\<rparr>) (st_turns s)) (\<lambda>(changes, rows).
    bind (ensure (changes = 1) (Error ''Discussion Turn is already bound to a Run'')) (\<lambda>_.
    let s = s\<lparr>st_turns := rows\<rparr> in
    bind (requireTurn turnId s) (\<lambda>t. Inr (t, s))))"

definition reanchorPlannedWave ::
  "jstring \<Rightarrow> jstring \<Rightarrow> timestamp \<Rightarrow> discussion_store \<Rightarrow> (DiscussionWave \<times> discussion_store) throwing" where
  "reanchorPlannedWave waveId inputMessageId now s =
    bind (requireWave waveId s) (\<lambda>wave.
    let members = listTurnsForWave waveId s in
    bind (ensure (\<not> (w_state wave \<noteq> WS_open \<or> int (length members) \<noteq> w_expectedMembers wave \<or>
        (\<exists>t\<in>set members. t_runId t \<noteq> None \<or> t_state t \<noteq> TS_planned)))
      (Error ''Discussion Wave cannot be reanchored after Run binding'')) (\<lambda>_.
    bind (update_rows turn_conflict
      (\<lambda>t. t_waveId t = Some waveId \<and> t_runId t = None \<and> t_state t = TS_planned)
      (\<lambda>t. t\<lparr>t_inputMessageId := inputMessageId, t_updatedAt := now\<rparr>) (st_turns s)) (\<lambda>(turnChanges, turnRows).
    bind (ensure (int turnChanges = w_expectedMembers wave)
      (Error ''Discussion Wave member set changed during reanchor'')) (\<lambda>_.
    bind (update_rows wave_conflict
      (\<lambda>w. w_waveId w = waveId \<and> w_version w = w_version wave \<and> w_state w = WS_open)
      (\<lambda>w. w\<lparr>w_inputMessageId := inputMessageId, w_version := w_version w + 1, w_updatedAt := now\<rparr>)
      (st_waves s)) (\<lambda>(waveChanges, waveRows).
    bind (ensure (waveChanges = 1) (Error ''Stale Discussion Wave version'')) (\<lambda>_.
    let s = s\<lparr>st_turns := turnRows, st_waves := waveRows\<rparr> in
    bind (requireWave waveId s) (\<lambda>w. Inr (w, s))))))))"

definition reanchorPlannedTurn ::
  "jstring \<Rightarrow> jstring \<Rightarrow> timestamp \<Rightarrow> discussion_store \<Rightarrow> (DiscussionTurn \<times> discussion_store) throwing" where
  "reanchorPlannedTurn turnId inputMessageId now s =
    bind (requireTurn turnId s) (\<lambda>turn.
    case t_waveId turn of
      Some waveId \<Rightarrow>
        bind (reanchorPlannedWave waveId inputMessageId now s) (\<lambda>(_, s).
        bind (requireTurn turnId s) (\<lambda>t. Inr (t, s)))
    | None \<Rightarrow>
        bind (update_rows turn_conflict
          (\<lambda>t. t_turnId t = turnId \<and> t_runId t = None \<and> t_state t = TS_planned)
          (\<lambda>t. t\<lparr>t_inputMessageId := inputMessageId, t_updatedAt := now\<rparr>) (st_turns s)) (\<lambda>(changes, rows).
        bind (ensure (changes = 1) (Error ''Discussion Turn cannot be reanchored after Run binding'')) (\<lambda>_.
        let s = s\<lparr>st_turns := rows\<rparr> in
        bind (requireTurn turnId s) (\<lambda>t. Inr (t, s)))))"

record settle_turn_input =
  si_turnId :: jstring
  si_outputMessageId :: "jstring option"
  si_state :: turn_state
  si_assessment :: "AgentAssessment option"
  si_replyHash :: "jstring option"
  si_terminalReason :: "jstring option"
  si_now :: timestamp

definition settled_turn :: "settle_turn_input \<Rightarrow> DiscussionTurn \<Rightarrow> DiscussionTurn" where
  "settled_turn input t = t\<lparr>
     t_outputMessageId := si_outputMessageId input, t_state := si_state input,
     t_assessment := si_assessment input, t_replyHash := si_replyHash input,
     t_terminalReason := si_terminalReason input, t_updatedAt := si_now input,
     t_completedAt := Some (si_now input)\<rparr>"

record SettleDiscussionTurnResult =
  sr_applied :: bool
  sr_turn :: DiscussionTurn

definition settleTurn ::
  "settle_turn_input \<Rightarrow> discussion_store \<Rightarrow> (SettleDiscussionTurnResult \<times> discussion_store) throwing" where
  "settleTurn input s =
    bind (update_rows turn_conflict
      (\<lambda>t. t_turnId t = si_turnId input \<and> t_state t \<notin> {TS_completed, TS_failed, TS_canceled})
      (settled_turn input) (st_turns s)) (\<lambda>(changes, rows).
    let s = s\<lparr>st_turns := rows\<rparr> in
    bind (requireTurn (si_turnId input) s) (\<lambda>t.
    Inr (\<lparr>sr_applied = (changes = 1), sr_turn = t\<rparr>, s)))"

definition completeTurn ::
  "settle_turn_input \<Rightarrow> discussion_store \<Rightarrow> (DiscussionTurn \<times> discussion_store) throwing" where
  "completeTurn input s =
    bind (settleTurn (input\<lparr>si_terminalReason := None\<rparr>) s) (\<lambda>(r, s). Inr (sr_turn r, s))"

section \<open>Waves\<close>

text \<open>\<^verbatim>\<open>closeReadyWaveRow\<close>: an open Wave closes when its member set is complete and, unless a
  seal allows it, every member is terminal. An expected version of NULL matches any version.\<close>

definition wave_ready :: "jstring \<Rightarrow> discussion_store \<Rightarrow> bool \<Rightarrow> DiscussionWave \<Rightarrow> bool" where
  "wave_ready discussionId s allowNonterminal w \<longleftrightarrow>
     (let members = filter (\<lambda>t. t_waveId t = Some (w_waveId w)) (st_turns s) in
      w_discussionId w = discussionId \<and> w_state w = WS_open \<and>
      w_expectedMembers w = int (length members) \<and>
      (allowNonterminal \<or> \<not> (\<exists>t\<in>set members. t_state t \<notin> {TS_completed, TS_failed, TS_canceled})))"

definition closeReadyWaveRow ::
  "jstring \<Rightarrow> jstring \<Rightarrow> DiscussionWaveState \<Rightarrow> timestamp \<Rightarrow> int option \<Rightarrow> bool \<Rightarrow> discussion_store \<Rightarrow>
     (bool \<times> discussion_store) throwing" where
  "closeReadyWaveRow waveId discussionId state closedAt expectedVersion allowNonterminal s =
    bind (update_rows wave_conflict
      (\<lambda>w. w_waveId w = waveId \<and> wave_ready discussionId s allowNonterminal w \<and>
         (expectedVersion = None \<or> expectedVersion = Some (w_version w)))
      (\<lambda>w. w\<lparr>w_state := state, w_version := w_version w + 1, w_updatedAt := closedAt,
         w_closedAt := Some closedAt\<rparr>) (st_waves s)) (\<lambda>(changes, rows).
    Inr (changes = 1, s\<lparr>st_waves := rows\<rparr>))"

definition closeWave ::
  "jstring \<Rightarrow> int \<Rightarrow> DiscussionWaveState \<Rightarrow> timestamp \<Rightarrow> discussion_store \<Rightarrow>
     ((bool \<times> DiscussionWave) \<times> discussion_store) throwing" where
  "closeWave waveId expectedVersion state now s =
    bind (requireWave waveId s) (\<lambda>current.
    bind (closeReadyWaveRow waveId (w_discussionId current) state now (Some expectedVersion) False s)
      (\<lambda>(applied, s).
    bind (requireWave waveId s) (\<lambda>w. Inr ((applied, w), s))))"

definition seal_matches :: "DiscussionWaveSeal \<Rightarrow> DiscussionWaveSealMember \<Rightarrow> DiscussionTurn \<Rightarrow> bool" where
  "seal_matches seal member turn \<longleftrightarrow>
     \<not> (t_discussionId turn \<noteq> sl_discussionId seal \<or> t_speakerAgentId turn \<noteq> sm_agentId member \<or>
        t_waveMemberOrdinal turn \<noteq> Some (sm_waveMemberOrdinal member) \<or>
        t_runId turn \<noteq> Some (sm_runId member) \<or>
        t_outputMessageId turn \<noteq> Some (sm_outputMessageId member) \<or>
        t_replyHash turn \<noteq> Some (sm_replyHash member) \<or> t_state turn \<noteq> TS_completed)"

definition insertWaveSeal :: "DiscussionWaveSeal \<Rightarrow> discussion_store \<Rightarrow> discussion_store throwing" where
  "insertWaveSeal seal s =
    (let turns = listTurnsForWave (sl_waveId seal) s in
     bind (check_each (\<lambda>member.
       ensure (case find (\<lambda>t. t_turnId t = sm_turnId member) turns of
           None \<Rightarrow> False | Some turn \<Rightarrow> seal_matches seal member turn)
         (Error ''Discussion Wave seal member does not match its Turn'')) (sl_acceptedMembers seal)) (\<lambda>_.
     bind (canonicalExecutionJSON (strings (map role_text (sl_requiredRoles seal)))) (\<lambda>_.
     bind (canonicalExecutionJSON (CArr (map seal_member_json (sl_acceptedMembers seal)))) (\<lambda>_.
     bind (insert_row seal_conflict seal (st_seals s)) (\<lambda>rows. Inr (s\<lparr>st_seals := rows\<rparr>))))))"

definition valid_member ::
  "DiscussionWave \<Rightarrow> nat \<Rightarrow> DiscussionTurn \<Rightarrow> bool" where
  "valid_member wave n turn \<longleftrightarrow>
     \<not> (t_discussionId turn \<noteq> w_discussionId wave \<or> t_waveId turn \<noteq> Some (w_waveId wave) \<or>
        t_inputMessageId turn \<noteq> w_inputMessageId wave \<or>
        (case t_waveMemberOrdinal turn of None \<Rightarrow> True | Some k \<Rightarrow>
           \<not> is_safe_integer k \<or> k < 0 \<or> int n \<le> k) \<or>
        t_state turn \<noteq> TS_planned \<or> t_runId turn \<noteq> None \<or> t_outputMessageId turn \<noteq> None \<or>
        t_completedAt turn \<noteq> None \<or>
        (w_phase wave = Phase_finalization) \<noteq> (t_kind turn = Kind_finalization))"

text \<open>The three sets of the loop hold the member ordinals, agents and turn ordinals seen.\<close>

type_synonym seen_members = "int option list \<times> jstring list \<times> int list"

definition checkMember ::
  "DiscussionWave \<Rightarrow> nat \<Rightarrow> DiscussionTurn \<Rightarrow> seen_members \<Rightarrow> seen_members throwing" where
  "checkMember wave n turn seen = (case seen of (memberOrdinals, agents, turnOrdinals) \<Rightarrow>
    bind (ensure (\<not> (\<not> valid_member wave n turn \<or> t_waveMemberOrdinal turn \<in> set memberOrdinals \<or>
        t_speakerAgentId turn \<in> set agents \<or> t_ordinal turn \<in> set turnOrdinals))
      (Error ''Discussion Wave contains an invalid member Turn'')) (\<lambda>_.
    Inr (memberOrdinals @ [t_waveMemberOrdinal turn], agents @ [t_speakerAgentId turn],
         turnOrdinals @ [t_ordinal turn])))"

definition validateWavePlan ::
  "text_lib \<Rightarrow> DiscussionWave \<Rightarrow> DiscussionTurn list \<Rightarrow> discussion_store \<Rightarrow> unit throwing" where
  "validateWavePlan L wave turns s =
    (case w_selection wave of
       None \<Rightarrow> Inl (Error ''Discussion Wave member count is inconsistent'')
     | Some selection \<Rightarrow>
    bind (ensure (\<not> (w_state wave \<noteq> WS_open \<or> w_closedAt wave \<noteq> None \<or>
        \<not> is_safe_integer (w_expectedMembers wave) \<or>
        w_expectedMembers wave \<noteq> int (length turns) \<or> length turns = 0))
      (Error ''Discussion Wave member count is inconsistent'')) (\<lambda>_.
    let order = (\<lambda>t. case t_waveMemberOrdinal t of None \<Rightarrow> -1 | Some k \<Rightarrow> k);
        selectedAgentIds = map t_speakerAgentId (sort_by (\<lambda>a b. order a - order b) turns);
        participants = listParticipants (w_discussionId wave) s in
    bind (assertDiscussionWaveSelection L selection (Some selectedAgentIds)) (\<lambda>_.
    bind (ensure ((w_phase wave = Phase_finalization) = (sel_strategy selection = Strat_finalizer))
      (Error ''Discussion Wave selection strategy does not match its phase'')) (\<lambda>_.
    bind (ensure (\<not> (\<exists>agentId\<in>set (sel_eligibleAgentIds selection). agentId \<notin> set (map p_agentId participants)))
      (Error ''Discussion Wave selection contains a foreign participant'')) (\<lambda>_.
    bind (ensure (Role_reviewer \<in> set (sel_requiredRoles selection) \<longrightarrow>
        (case find (\<lambda>p. p_role p = Role_reviewer) participants of
           None \<Rightarrow> False | Some reviewer \<Rightarrow> p_agentId reviewer \<in> set selectedAgentIds))
      (Error ''Discussion Wave selection omits its required reviewer'')) (\<lambda>_.
    bind (ensure (sel_selectedAgentIds selection = selectedAgentIds)
      (Error ''Discussion Wave selection does not match member Turns'')) (\<lambda>_.
    bind (for_each (checkMember wave (length turns)) turns ([], [], [])) (\<lambda>_. Inr ()))))))))"

section \<open>Decisions\<close>

text \<open>The fields the decision operations have in common.\<close>

record decision_input =
  in_decision :: DiscussionDecision
  in_expectedVersion :: int
  in_state :: DiscussionState
  in_stateReason :: "DiscussionStateReason option"
  in_outputMode :: DiscussionOutputMode
  in_progress :: ProgressSnapshot
  in_budget :: BudgetSnapshot
  in_nextSpeakerIndex :: int
  in_requestedAction :: "requested_action option"
  in_budgetEvents :: "DiscussionBudgetEvent list"

definition decided :: "decision_input \<Rightarrow> DiscussionRecord \<Rightarrow> DiscussionRecord" where
  "decided input d = d\<lparr>
     d_state := in_state input, d_stateReason := in_stateReason input, d_outputMode := in_outputMode input,
     d_progress := in_progress input, d_budget := in_budget input,
     d_nextSpeakerIndex := in_nextSpeakerIndex input, d_requestedAction := in_requestedAction input,
     d_version := d_version d + 1, d_updatedAt := de_createdAt (in_decision input)\<rparr>"

definition expected :: "jstring \<Rightarrow> int \<Rightarrow> DiscussionRecord \<Rightarrow> bool" where
  "expected discussionId version d \<longleftrightarrow> d_discussionId d = discussionId \<and> d_version d = version"

record closing_wave =
  cw_waveId :: jstring
  cw_state :: DiscussionWaveState
  cw_completedAt :: timestamp
  cw_expectedVersion :: "int option"

definition recordDecisionAndUpdate ::
  "decision_input \<Rightarrow> timestamp option \<Rightarrow> closing_wave option \<Rightarrow> discussion_store \<Rightarrow>
     (DiscussionRecord \<times> discussion_store) throwing" where
  "recordDecisionAndUpdate input terminalAt closingWave s =
    (let id = de_discussionId (in_decision input) in
     bind (case closingWave of
       None \<Rightarrow> Inr s
     | Some c \<Rightarrow>
         bind (closeReadyWaveRow (cw_waveId c) id (cw_state c) (cw_completedAt c) (cw_expectedVersion c) False s)
           (\<lambda>(closed, s). bind (ensure closed (Error ''Discussion Wave is not ready or already closed'')) (\<lambda>_. Inr s))) (\<lambda>s.
     bind (insertDecision (in_decision input) s) (\<lambda>s.
     bind (updateDiscussions (expected id (in_expectedVersion input))
       (\<lambda>d. (decided input d)\<lparr>d_terminalAt := terminalAt\<rparr>) ''Stale Discussion aggregate version'' s) (\<lambda>s.
     bind (for_each insertBudgetEvent (in_budgetEvents input) s) (\<lambda>s.
     bind (requireDiscussion id s) (\<lambda>d. Inr (d, s)))))))"

definition recordDecisionAndPlanTurn ::
  "decision_input \<Rightarrow> DiscussionTurn \<Rightarrow> discussion_store \<Rightarrow> (DiscussionRecord \<times> discussion_store) throwing" where
  "recordDecisionAndPlanTurn input turn s =
    (let id = de_discussionId (in_decision input) in
     bind (insertDecision (in_decision input) s) (\<lambda>s.
     bind (updateDiscussions (expected id (in_expectedVersion input))
       (\<lambda>d. (decided input d)\<lparr>d_currentTurn := t_ordinal turn\<rparr>) ''Stale Discussion aggregate version'' s) (\<lambda>s.
     bind (insertTurn turn s) (\<lambda>s.
     bind (for_each insertBudgetEvent (in_budgetEvents input) s) (\<lambda>s.
     bind (requireDiscussion id s) (\<lambda>d. Inr (d, s)))))))"

definition max_ordinal :: "DiscussionTurn list \<Rightarrow> int" where
  "max_ordinal turns = (case map t_ordinal turns of [] \<Rightarrow> 0 | n # ns \<Rightarrow> foldl max n ns)"

definition recordDecisionAndPlanWave ::
  "text_lib \<Rightarrow> decision_input \<Rightarrow> DiscussionWave \<Rightarrow> DiscussionTurn list \<Rightarrow> discussion_store \<Rightarrow>
     (DiscussionRecord \<times> discussion_store) throwing" where
  "recordDecisionAndPlanWave L input wave turns s =
    (let id = de_discussionId (in_decision input) in
     bind (validateWavePlan L wave turns s) (\<lambda>_.
     bind (ensure (id = w_discussionId wave)
       (Error ''Discussion Wave decision targets another Discussion'')) (\<lambda>_.
     bind (insertDecision (in_decision input) s) (\<lambda>s.
     bind (updateDiscussions
       (\<lambda>d. expected id (in_expectedVersion input) d \<and> d_currentWave d = Some (w_ordinal wave - 1))
       (\<lambda>d. (decided input d)\<lparr>d_executionModel := Some Exec_parallel_wave,
          d_currentTurn := max_ordinal turns, d_currentWave := Some (w_ordinal wave)\<rparr>)
       ''Stale Discussion aggregate version'' s) (\<lambda>s.
     bind (insertWave wave s) (\<lambda>s.
     bind (for_each insertTurn turns s) (\<lambda>s.
     bind (for_each insertBudgetEvent (in_budgetEvents input) s) (\<lambda>s.
     bind (requireDiscussion id s) (\<lambda>d. Inr (d, s))))))))))"

record ready_wave_input = decision_input +
  rw_waveId :: jstring
  rw_expectedWaveVersion :: int
  rw_closeState :: DiscussionWaveState
  rw_closedAt :: timestamp
  rw_terminalAt :: "timestamp option"
  rw_nextWave :: "WavePlan option"
  rw_seal :: "DiscussionWaveSeal option"

definition wave_applies :: "ready_wave_input \<Rightarrow> discussion_store \<Rightarrow> bool" where
  "wave_applies input s \<longleftrightarrow>
    (case (getDiscussion (de_discussionId (in_decision input)) s, getWave (rw_waveId input) s) of
       (Some aggregate, Some currentWave) \<Rightarrow>
         \<not> (d_version aggregate \<noteq> in_expectedVersion input \<or>
            w_discussionId currentWave \<noteq> de_discussionId (in_decision input) \<or>
            d_currentWave aggregate \<noteq> Some (w_ordinal currentWave) \<or>
            (case rw_nextWave input of None \<Rightarrow> False
             | Some plan \<Rightarrow> w_ordinal (wp_wave plan) \<noteq> w_ordinal currentWave + 1))
     | _ \<Rightarrow> False)"

definition apply_ready_wave ::
  "ready_wave_input \<Rightarrow> discussion_store \<Rightarrow> discussion_store throwing" where
  "apply_ready_wave input s =
    (let id = de_discussionId (in_decision input) in
     bind (case rw_seal input of None \<Rightarrow> Inr s | Some seal \<Rightarrow> insertWaveSeal seal s) (\<lambda>s.
     bind (insertDecision (in_decision input) s) (\<lambda>s.
     bind (updateDiscussions (expected id (in_expectedVersion input))
       (\<lambda>d. (decided (decision_input.truncate input) d)\<lparr>
          d_currentTurn := (case rw_nextWave input of None \<Rightarrow> d_currentTurn d
             | Some plan \<Rightarrow> max_ordinal (wp_turns plan)),
          d_currentWave := (case rw_nextWave input of None \<Rightarrow> d_currentWave d
             | Some plan \<Rightarrow> Some (w_ordinal (wp_wave plan))),
          d_terminalAt := rw_terminalAt input\<rparr>)
       ''Stale Discussion aggregate version'' s) (\<lambda>s.
     bind (case rw_nextWave input of
         None \<Rightarrow> Inr s
       | Some plan \<Rightarrow> bind (insertWave (wp_wave plan) s) (for_each insertTurn (wp_turns plan))) (\<lambda>s.
     for_each insertBudgetEvent (in_budgetEvents input) s)))))"

record ApplyDiscussionWaveResult =
  aw_applied :: bool
  aw_discussion :: DiscussionRecord
  aw_wave :: DiscussionWave

definition check_ready_wave :: "text_lib \<Rightarrow> ready_wave_input \<Rightarrow> discussion_store \<Rightarrow> unit throwing" where
  "check_ready_wave L input s =
    bind (case rw_nextWave input of
      None \<Rightarrow> Inr ()
    | Some plan \<Rightarrow>
        bind (validateWavePlan L (wp_wave plan) (wp_turns plan) s) (\<lambda>_.
        ensure (w_discussionId (wp_wave plan) = de_discussionId (in_decision input))
          (Error ''Next Discussion Wave targets another Discussion''))) (\<lambda>_.
    case rw_seal input of
      None \<Rightarrow> Inr ()
    | Some seal \<Rightarrow>
        bind (assertDiscussionWaveSeal L seal) (\<lambda>_.
        ensure (\<not> (sl_waveId seal \<noteq> rw_waveId input \<or>
            sl_discussionId seal \<noteq> de_discussionId (in_decision input) \<or> rw_closeState input \<noteq> WS_partial))
          (Error ''Discussion Wave seal targets another transition'')))"

definition closeReadyWaveAndApply ::
  "text_lib \<Rightarrow> ready_wave_input \<Rightarrow> discussion_store \<Rightarrow> (ApplyDiscussionWaveResult \<times> discussion_store) throwing" where
  "closeReadyWaveAndApply L input s =
    (let id = de_discussionId (in_decision input) in
     bind (check_ready_wave L input s) (\<lambda>_.
     bind (if \<not> wave_applies input s then Inr (False, s)
       else bind (closeReadyWaveRow (rw_waveId input) id (rw_closeState input) (rw_closedAt input)
           (Some (rw_expectedWaveVersion input)) (rw_seal input \<noteq> None) s) (\<lambda>(closed, s').
         if \<not> closed then Inr (False, s)
         else bind (apply_ready_wave input s') (\<lambda>s'. Inr (True, s')))) (\<lambda>(applied, s).
     bind (requireDiscussion id s) (\<lambda>d.
     bind (requireWave (rw_waveId input) s) (\<lambda>w.
     Inr (\<lparr>aw_applied = applied, aw_discussion = d, aw_wave = w\<rparr>, s))))))"

section \<open>Actions, goals and the end\<close>

definition requestAction ::
  "jstring \<Rightarrow> int \<Rightarrow> requested_action option \<Rightarrow> DiscussionState \<Rightarrow> DiscussionStateReason option \<Rightarrow> timestamp \<Rightarrow>
     discussion_store \<Rightarrow> (DiscussionRecord \<times> discussion_store) throwing" where
  "requestAction discussionId expectedVersion action state stateReason now s =
    bind (updateDiscussions (expected discussionId expectedVersion)
      (\<lambda>d. d\<lparr>d_requestedAction := action, d_state := state, d_stateReason := stateReason,
         d_version := d_version d + 1, d_updatedAt := now\<rparr>) ''Stale Discussion aggregate version'' s) (\<lambda>s.
    bind (requireDiscussion discussionId s) (\<lambda>d. Inr (d, s)))"

definition updateGoal ::
  "jstring \<Rightarrow> int \<Rightarrow> jstring \<Rightarrow> timestamp \<Rightarrow> discussion_store \<Rightarrow>
     (DiscussionRecord \<times> discussion_store) throwing" where
  "updateGoal discussionId expectedVersion goal now s =
    bind (updateDiscussions (expected discussionId expectedVersion)
      (\<lambda>d. d\<lparr>d_goal := goal, d_state := DS_active, d_stateReason := None, d_requestedAction := None,
         d_version := d_version d + 1, d_updatedAt := now\<rparr>) ''Stale Discussion aggregate version'' s) (\<lambda>s.
    bind (requireDiscussion discussionId s) (\<lambda>d. Inr (d, s)))"

definition finishFinalization ::
  "jstring \<Rightarrow> int \<Rightarrow> DiscussionState \<Rightarrow> timestamp \<Rightarrow> closing_wave option \<Rightarrow> discussion_store \<Rightarrow>
     (DiscussionRecord \<times> discussion_store) throwing" where
  "finishFinalization discussionId expectedVersion state now closingWave s =
    bind (case closingWave of
       None \<Rightarrow> Inr s
     | Some c \<Rightarrow>
         bind (closeReadyWaveRow (cw_waveId c) discussionId (cw_state c) now (cw_expectedVersion c) False s)
           (\<lambda>(closed, s). bind (ensure closed (Error ''Finalization Wave is not ready or already closed'')) (\<lambda>_. Inr s))) (\<lambda>s.
    bind (updateDiscussions (\<lambda>d. expected discussionId expectedVersion d \<and> d_state d = DS_finalizing)
      (\<lambda>d. d\<lparr>d_state := state, d_requestedAction := None, d_version := d_version d + 1,
         d_updatedAt := now, d_terminalAt := Some now\<rparr>) ''Stale or non-finalizing Discussion aggregate'' s) (\<lambda>s.
    bind (requireDiscussion discussionId s) (\<lambda>d. Inr (d, s))))"

definition closeFinalizationAndFinish ::
  "jstring \<Rightarrow> int \<Rightarrow> DiscussionState \<Rightarrow> jstring \<Rightarrow> int \<Rightarrow> DiscussionWaveState \<Rightarrow> timestamp \<Rightarrow> discussion_store \<Rightarrow>
     (DiscussionRecord \<times> discussion_store) throwing" where
  "closeFinalizationAndFinish discussionId expectedDiscussionVersion state waveId expectedWaveVersion waveState now s =
    finishFinalization discussionId expectedDiscussionVersion state now
      (Some \<lparr>cw_waveId = waveId, cw_state = waveState, cw_completedAt = now,
         cw_expectedVersion = Some expectedWaveVersion\<rparr>) s"

section \<open>Supplemental evidence\<close>

definition sameSupplementalOperation ::
  "DiscussionSupplementalEvidence \<Rightarrow> DiscussionSupplementalEvidence \<Rightarrow> bool" where
  "sameSupplementalOperation l r \<longleftrightarrow>
     se_operationId l = se_operationId r \<and> se_sealId l = se_sealId r \<and>
     se_discussionId l = se_discussionId r \<and> se_waveId l = se_waveId r \<and> se_turnId l = se_turnId r \<and>
     se_runId l = se_runId r \<and> se_agentId l = se_agentId r \<and> se_deviceId l = se_deviceId r \<and>
     se_sourceReplySequence l = se_sourceReplySequence r \<and> se_sourceMessageId l = se_sourceMessageId r \<and>
     se_sourceMessageSequence l = se_sourceMessageSequence r \<and> se_replyHash l = se_replyHash r"

text \<open>The lookup after the insert finds the inserted row; the check after it repeats the one before.\<close>

definition retainSupplementalEvidence ::
  "DiscussionSupplementalEvidence \<Rightarrow> discussion_store \<Rightarrow>
     (DiscussionSupplementalEvidence \<times> discussion_store) throwing" where
  "retainSupplementalEvidence evidence s =
    (case getSupplementalEvidenceByOperation (se_operationId evidence) s of
       Some existing \<Rightarrow>
         bind (ensure (sameSupplementalOperation existing evidence)
           (Error ''Supplemental evidence operation identity was reused'')) (\<lambda>_. Inr (existing, s))
     | None \<Rightarrow>
         bind (insert_row evidence_conflict evidence (st_evidence s)) (\<lambda>rows.
         let s = s\<lparr>st_evidence := rows\<rparr> in
         case getSupplementalEvidenceByOperation (se_operationId evidence) s of
           None \<Rightarrow> Inl (Error ''Supplemental evidence operation identity was reused'')
         | Some retained \<Rightarrow>
             bind (ensure (sameSupplementalOperation retained evidence)
               (Error ''Supplemental evidence operation identity was reused'')) (\<lambda>_. Inr (retained, s))))"

end
