(* ===== verification/Discussion_Invariant.thy ===== *)
theory Discussion_Invariant
  imports Discussion_Repository
begin

text \<open>
  The invariant of the Discussion store under the operations the orchestrator and its services
  call: Waves of a Discussion are numbered consecutively, only the last may be open, and a Wave
  is closed only when its members are terminal or a seal is stored.
\<close>

section \<open>Steps\<close>

text \<open>
  The states an operation may be given follow its parameter types: a closing state is not
  \<^verbatim>\<open>open\<close>, a settled Turn is terminal, a bound Turn is queued or working. A Discussion is
  created without Waves.
\<close>

definition closed_state :: "DiscussionWaveState \<Rightarrow> bool" where
  "closed_state state \<longleftrightarrow> state \<noteq> WS_open"

inductive repo_step :: "text_lib \<Rightarrow> discussion_store \<Rightarrow> discussion_store \<Rightarrow> bool" for L where
  step_create: "createDiscussion d ps e s = Inr s' \<Longrightarrow> d_currentWave d \<in> {None, Some 0} \<Longrightarrow> repo_step L s s'"
| step_bind: "bindTurnRun turnId runId state now s = Inr (t, s') \<Longrightarrow> state \<in> {TS_queued, TS_working} \<Longrightarrow>
    repo_step L s s'"
| step_reanchor: "reanchorPlannedWave waveId m now s = Inr (w, s') \<Longrightarrow> repo_step L s s'"
| step_settle: "settleTurn input s = Inr (r, s') \<Longrightarrow> terminalTurnState (si_state input) \<Longrightarrow> repo_step L s s'"
| step_update: "recordDecisionAndUpdate di terminalAt cw s = Inr (d, s') \<Longrightarrow>
    (case cw of None \<Rightarrow> True | Some c \<Rightarrow> closed_state (cw_state c)) \<Longrightarrow> repo_step L s s'"
| step_plan: "recordDecisionAndPlanWave L di wave turns s = Inr (d, s') \<Longrightarrow> repo_step L s s'"
| step_close: "closeWave waveId v state now s = Inr (r, s') \<Longrightarrow> closed_state state \<Longrightarrow> repo_step L s s'"
| step_apply: "closeReadyWaveAndApply L ri s = Inr (ar, s') \<Longrightarrow> closed_state (rw_closeState ri) \<Longrightarrow> repo_step L s s'"
| step_request: "requestAction i v a st sr now s = Inr (d, s') \<Longrightarrow> repo_step L s s'"
| step_goal: "updateGoal i v goal now s = Inr (d, s') \<Longrightarrow> repo_step L s s'"
| step_finish: "closeFinalizationAndFinish i v st waveId wv wst now s = Inr (d, s') \<Longrightarrow> closed_state wst \<Longrightarrow>
    repo_step L s s'"
| step_event: "insertBudgetEvent e s = Inr s' \<Longrightarrow> repo_step L s s'"
| step_evidence: "retainSupplementalEvidence ev s = Inr (r2, s') \<Longrightarrow> repo_step L s s'"

definition empty_store :: discussion_store where
  "empty_store = \<lparr>st_discussions = [], st_participants = [], st_turns = [], st_waves = [], st_seals = [],
     st_decisions = [], st_events = [], st_evidence = []\<rparr>"

inductive reachable_store :: "text_lib \<Rightarrow> discussion_store \<Rightarrow> bool" for L where
  start: "reachable_store L empty_store"
| step: "reachable_store L s \<Longrightarrow> repo_step L s s' \<Longrightarrow> reachable_store L s'"

section \<open>The invariant\<close>

definition members :: "discussion_store \<Rightarrow> DiscussionWave \<Rightarrow> DiscussionTurn list" where
  "members s w = filter (\<lambda>t. t_waveId t = Some (w_waveId w)) (st_turns s)"

definition sealed_wave :: "discussion_store \<Rightarrow> DiscussionWave \<Rightarrow> bool" where
  "sealed_wave s w \<longleftrightarrow> (\<exists>seal\<in>set (st_seals s). sl_waveId seal = w_waveId w)"

definition justified :: "discussion_store \<Rightarrow> DiscussionWave \<Rightarrow> bool" where
  "justified s w \<longleftrightarrow> sealed_wave s w \<or> (\<forall>t\<in>set (members s w). terminalTurnState (t_state t))"

definition tables_ok :: "discussion_store \<Rightarrow> bool" where
  "tables_ok s \<longleftrightarrow> conflict_free discussion_conflict (st_discussions s) \<and>
     conflict_free turn_conflict (st_turns s) \<and> conflict_free wave_conflict (st_waves s)"

definition numbered :: "discussion_store \<Rightarrow> bool" where
  "numbered s \<longleftrightarrow>
     (\<forall>w\<in>set (st_waves s). \<exists>d\<in>set (st_discussions s). \<exists>n.
        d_discussionId d = w_discussionId w \<and> d_currentWave d = Some n \<and> 1 \<le> w_ordinal w \<and>
        w_ordinal w \<le> n \<and> (w_state w = WS_open \<longrightarrow> w_ordinal w = n)) \<and>
     (\<forall>d\<in>set (st_discussions s). \<exists>n\<ge>0. d_currentWave d = Some n \<and>
        (\<forall>k. 1 \<le> k \<and> k \<le> n \<longrightarrow>
           (\<exists>w\<in>set (st_waves s). w_discussionId w = d_discussionId d \<and> w_ordinal w = k)))"

definition populated :: "discussion_store \<Rightarrow> bool" where
  "populated s \<longleftrightarrow>
     (\<forall>t\<in>set (st_turns s). \<forall>i. t_waveId t = Some i \<longrightarrow> (\<exists>w\<in>set (st_waves s). w_waveId w = i)) \<and>
     (\<forall>w\<in>set (st_waves s). w_expectedMembers w = int (length (members s w)))"

definition closed_justified :: "discussion_store \<Rightarrow> bool" where
  "closed_justified s \<longleftrightarrow> (\<forall>w\<in>set (st_waves s). w_state w \<noteq> WS_open \<longrightarrow> justified s w)"

definition store_inv :: "discussion_store \<Rightarrow> bool" where
  "store_inv s \<longleftrightarrow> tables_ok s \<and> numbered s \<and> populated s \<and> closed_justified s"

section \<open>Operations that plan no Wave\<close>

definition kept_discussion :: "DiscussionRecord \<Rightarrow> DiscussionRecord \<Rightarrow> bool" where
  "kept_discussion d d' \<longleftrightarrow> d_discussionId d' = d_discussionId d \<and> d_currentWave d' = d_currentWave d"

definition kept_turn :: "DiscussionTurn \<Rightarrow> DiscussionTurn \<Rightarrow> bool" where
  "kept_turn t t' \<longleftrightarrow> t_turnId t' = t_turnId t \<and> t_discussionId t' = t_discussionId t \<and>
     t_speakerAgentId t' = t_speakerAgentId t \<and> t_waveId t' = t_waveId t \<and> (terminalTurnState (t_state t) \<longrightarrow> terminalTurnState (t_state t'))"

definition kept_wave :: "discussion_store \<Rightarrow> DiscussionWave \<Rightarrow> DiscussionWave \<Rightarrow> bool" where
  "kept_wave s' w w' \<longleftrightarrow>
     w_waveId w' = w_waveId w \<and> w_discussionId w' = w_discussionId w \<and> w_ordinal w' = w_ordinal w \<and>
     w_expectedMembers w' = w_expectedMembers w \<and>
     (w_state w' = w_state w \<or> w_state w' \<noteq> WS_open \<and> justified s' w)"

definition calm :: "discussion_store \<Rightarrow> discussion_store \<Rightarrow> bool" where
  "calm s s' \<longleftrightarrow>
     list_all2 kept_discussion (st_discussions s) (st_discussions s') \<and>
     list_all2 kept_turn (st_turns s) (st_turns s') \<and>
     list_all2 (kept_wave s') (st_waves s) (st_waves s') \<and>
     set (st_seals s) \<subseteq> set (st_seals s')"

lemma kept_refl [simp]: "kept_discussion d d" "kept_turn t t" "kept_wave s w w"
  by (simp_all add: kept_discussion_def kept_turn_def kept_wave_def)

lemma list_all2_kept_refl [simp]:
  "list_all2 kept_discussion ds ds" "list_all2 kept_turn ts ts" "list_all2 (kept_wave s) ws ws"
  by (simp_all add: list_all2_refl)

lemma calm_refl [simp]: "calm s s"
  by (simp add: calm_def)

lemma members_kept:
  assumes "list_all2 kept_turn (st_turns s) (st_turns s')"
  shows "list_all2 kept_turn (members s w) (members s' w)"
proof -
  have "list_all2 kept_turn ts ts' \<Longrightarrow> list_all2 kept_turn
      (filter (\<lambda>t. t_waveId t = Some i) ts) (filter (\<lambda>t. t_waveId t = Some i) ts')" for ts ts' i
    by (induction rule: list_all2_induct) (auto simp: kept_turn_def)
  with assms show ?thesis by (simp add: members_def)
qed

lemma justified_kept:
  assumes "list_all2 kept_turn (st_turns s) (st_turns s')" "set (st_seals s) \<subseteq> set (st_seals s')"
    and "justified s w"
  shows "justified s' w"
proof -
  have "list_all2 kept_turn ts ts' \<Longrightarrow> \<forall>t\<in>set ts. terminalTurnState (t_state t) \<Longrightarrow>
      \<forall>t\<in>set ts'. terminalTurnState (t_state t)" for ts ts'
    by (induction rule: list_all2_induct) (auto simp: kept_turn_def)
  with members_kept[OF assms(1), of w] assms(2,3) show ?thesis
    unfolding justified_def sealed_wave_def by blast
qed

lemma justified_id: "w_waveId w' = w_waveId w \<Longrightarrow> justified s w' = justified s w"
  by (simp add: justified_def sealed_wave_def members_def)

lemma calm_trans:
  assumes "calm s s1" and "calm s1 s2"
  shows "calm s s2"
proof -
  have "list_all2 kept_discussion (st_discussions s) (st_discussions s2)"
    by (rule list_all2_trans[where bs = "st_discussions s1" and ?P2.0 = kept_discussion and ?P1.0 = kept_discussion])
      (use assms in \<open>auto simp: calm_def kept_discussion_def\<close>)
  moreover have "list_all2 kept_turn (st_turns s) (st_turns s2)"
    by (rule list_all2_trans[where bs = "st_turns s1" and ?P2.0 = kept_turn and ?P1.0 = kept_turn])
      (use assms in \<open>auto simp: calm_def kept_turn_def\<close>)
  moreover have "list_all2 (kept_wave s2) (st_waves s) (st_waves s2)"
  proof (rule list_all2_trans[where bs = "st_waves s1" and ?P2.0 = "kept_wave s2" and ?P1.0 = "kept_wave s1"])
    show "kept_wave s1 w w1 \<Longrightarrow> kept_wave s2 w1 w2 \<Longrightarrow> kept_wave s2 w w2" for w w1 w2
      using assms(2) justified_kept[of s1 s2 w] justified_id[of w1 w s2]
      unfolding calm_def kept_wave_def by auto
  qed (use assms in \<open>auto simp: calm_def\<close>)
  ultimately show ?thesis using assms by (auto simp: calm_def)
qed

lemma list_all2_mem: "list_all2 P xs ys \<Longrightarrow> y \<in> set ys \<Longrightarrow> \<exists>x\<in>set xs. P x y"
  by (induction rule: list_all2_induct) auto

lemma list_all2_mem': "list_all2 P xs ys \<Longrightarrow> x \<in> set xs \<Longrightarrow> \<exists>y\<in>set ys. P x y"
  by (induction rule: list_all2_induct) auto

lemma members_id: "w_waveId w' = w_waveId w \<Longrightarrow> members s w' = members s w"
  by (simp add: members_def)

lemma calm_inv:
  assumes "store_inv s" and "calm s s'" and "tables_ok s'"
  shows "store_inv s'"
proof -
  from assms(2) have kept: "list_all2 kept_discussion (st_discussions s) (st_discussions s')"
    "list_all2 kept_turn (st_turns s) (st_turns s')" "list_all2 (kept_wave s') (st_waves s) (st_waves s')"
    "set (st_seals s) \<subseteq> set (st_seals s')" by (simp_all add: calm_def)
  have num: "numbered s" and pop: "populated s" and just: "closed_justified s"
    using assms(1) by (simp_all add: store_inv_def)
  have "numbered s'"
    unfolding numbered_def
  proof (intro conjI ballI)
    fix w' assume "w' \<in> set (st_waves s')"
    then obtain w where w: "w \<in> set (st_waves s)" "kept_wave s' w w'" using list_all2_mem[OF kept(3)] by blast
    then obtain d n where d: "d \<in> set (st_discussions s)" "d_discussionId d = w_discussionId w"
      "d_currentWave d = Some n" "1 \<le> w_ordinal w" "w_ordinal w \<le> n" "w_state w = WS_open \<longrightarrow> w_ordinal w = n"
      using num unfolding numbered_def by blast
    then obtain d' where "d' \<in> set (st_discussions s')" "kept_discussion d d'"
      using list_all2_mem'[OF kept(1)] by blast
    with w d show "\<exists>d\<in>set (st_discussions s'). \<exists>n. d_discussionId d = w_discussionId w' \<and>
        d_currentWave d = Some n \<and> 1 \<le> w_ordinal w' \<and> w_ordinal w' \<le> n \<and>
        (w_state w' = WS_open \<longrightarrow> w_ordinal w' = n)"
      unfolding kept_wave_def kept_discussion_def by (intro bexI[of _ d'] exI[of _ n]) auto
  next
    fix d' assume "d' \<in> set (st_discussions s')"
    then obtain d where d: "d \<in> set (st_discussions s)" "kept_discussion d d'" using list_all2_mem[OF kept(1)] by blast
    then obtain n where n: "n \<ge> 0" "d_currentWave d = Some n"
      "\<forall>k. 1 \<le> k \<and> k \<le> n \<longrightarrow> (\<exists>w\<in>set (st_waves s). w_discussionId w = d_discussionId d \<and> w_ordinal w = k)"
      using num unfolding numbered_def by blast
    have "\<exists>w\<in>set (st_waves s'). w_discussionId w = d_discussionId d \<and> w_ordinal w = k"
      if k: "1 \<le> k" "k \<le> n" for k
    proof -
      from n(3) k obtain w where "w \<in> set (st_waves s)" "w_discussionId w = d_discussionId d" "w_ordinal w = k" by blast
      with list_all2_mem'[OF kept(3)] show ?thesis unfolding kept_wave_def by fastforce
    qed
    with n d show "\<exists>n\<ge>0. d_currentWave d' = Some n \<and>
        (\<forall>k. 1 \<le> k \<and> k \<le> n \<longrightarrow> (\<exists>w\<in>set (st_waves s'). w_discussionId w = d_discussionId d' \<and> w_ordinal w = k))"
      unfolding kept_discussion_def by auto
  qed
  moreover have "populated s'"
    unfolding populated_def
  proof (intro conjI ballI allI impI)
    fix t' i assume "t' \<in> set (st_turns s')" "t_waveId t' = Some i"
    then obtain t where "t \<in> set (st_turns s)" "t_waveId t = Some i"
      using list_all2_mem[OF kept(2)] unfolding kept_turn_def by metis
    with pop obtain w where "w \<in> set (st_waves s)" "w_waveId w = i" unfolding populated_def by blast
    with list_all2_mem'[OF kept(3)] show "\<exists>w\<in>set (st_waves s'). w_waveId w = i"
      unfolding kept_wave_def by fastforce
  next
    fix w' assume "w' \<in> set (st_waves s')"
    then obtain w where w: "w \<in> set (st_waves s)" "kept_wave s' w w'" using list_all2_mem[OF kept(3)] by blast
    have "length (members s w) = length (members s' w)"
      using members_kept[OF kept(2), of w] by (rule list_all2_lengthD)
    with w pop members_id[of w' w s'] show "w_expectedMembers w' = int (length (members s' w'))"
      unfolding populated_def kept_wave_def by auto
  qed
  moreover have "closed_justified s'"
    unfolding closed_justified_def
  proof (intro ballI impI)
    fix w' assume w': "w' \<in> set (st_waves s')" "w_state w' \<noteq> WS_open"
    then obtain w where w: "w \<in> set (st_waves s)" "kept_wave s' w w'" using list_all2_mem[OF kept(3)] by blast
    with w'(2) just justified_kept[OF kept(2,4), of w] justified_id[of w' w s'] show "justified s' w'"
      unfolding closed_justified_def kept_wave_def by auto
  qed
  ultimately show ?thesis using assms(3) by (simp add: store_inv_def)
qed

definition quiet :: "discussion_store \<Rightarrow> discussion_store \<Rightarrow> bool" where
  "quiet s s' \<longleftrightarrow> calm s s' \<and> (tables_ok s \<longrightarrow> tables_ok s')"

lemma quiet_refl [simp]: "quiet s s"
  by (simp add: quiet_def)

lemma quiet_trans [trans]: "quiet s s1 \<Longrightarrow> quiet s1 s2 \<Longrightarrow> quiet s s2"
  unfolding quiet_def using calm_trans by blast

lemma quiet_inv: "store_inv s \<Longrightarrow> quiet s s' \<Longrightarrow> store_inv s'"
  unfolding quiet_def using calm_inv store_inv_def by blast

lemma quiet_for_each:
  assumes "for_each f xs s = Inr s'" and "\<And>x s s'. f x s = Inr s' \<Longrightarrow> quiet s s'"
  shows "quiet s s'"
  by (rule for_each_inv[OF assms(1), where P = "\<lambda>_ s'. quiet s s'"])
    (auto intro: quiet_trans dest: assms(2))

lemma quiet_inserts:
  "insertDecision e s = Inr s' \<Longrightarrow> quiet s s'"
  "insertBudgetEvent b s = Inr s' \<Longrightarrow> quiet s s'"
  "insertParticipant q s = Inr s' \<Longrightarrow> quiet s s'"
  "insertWaveSeal seal s = Inr s' \<Longrightarrow> quiet s s'"
  by (auto simp: insertDecision_def insertBudgetEvent_def insertParticipant_def insertWaveSeal_def Let_def
      bind_eq_Inr insert_row_Inr quiet_def calm_def tables_ok_def kept_wave_def justified_def members_def
      intro!: list_all2_refl)

lemma list_all2_map_if:
  "(\<And>x. P x \<Longrightarrow> x \<in> set xs \<Longrightarrow> R x (f x)) \<Longrightarrow> (\<And>x. R x x) \<Longrightarrow> list_all2 R xs (map (\<lambda>x. if P x then f x else x) xs)"
  by (induction xs) auto

lemma updateDiscussions_Inr [throw_simps]:
  "updateDiscussions P f m s = Inr s' \<longleftrightarrow>
     (\<exists>rows. rows = map (\<lambda>d. if P d then f d else d) (st_discussions s) \<and>
        conflict_free discussion_conflict rows \<and> length (filter P (st_discussions s)) = 1 \<and>
        s' = s\<lparr>st_discussions := rows\<rparr>)"
  by (auto simp: updateDiscussions_def bind_eq_Inr update_rows_Inr)

lemma quiet_updateDiscussions:
  assumes "updateDiscussions P f m s = Inr s'" and "\<And>d. kept_discussion d (f d)"
  shows "quiet s s'"
  using assms by (auto simp: updateDiscussions_Inr quiet_def calm_def tables_ok_def kept_wave_def
      intro!: list_all2_map_if list_all2_refl)

lemma closeReadyWaveRow_Inr [throw_simps]:
  "closeReadyWaveRow waveId i state closedAt v allow s = Inr (done, s') \<longleftrightarrow>
     (\<exists>rows. rows = map (\<lambda>w. if w_waveId w = waveId \<and> wave_ready i s allow w \<and> (v = None \<or> v = Some (w_version w))
          then w\<lparr>w_state := state, w_version := w_version w + 1, w_updatedAt := closedAt, w_closedAt := Some closedAt\<rparr>
          else w) (st_waves s) \<and>
        conflict_free wave_conflict rows \<and> s' = s\<lparr>st_waves := rows\<rparr> \<and>
        done = (length (filter (\<lambda>w. w_waveId w = waveId \<and> wave_ready i s allow w \<and>
          (v = None \<or> v = Some (w_version w))) (st_waves s)) = 1))"
  by (auto simp: closeReadyWaveRow_def bind_eq_Inr update_rows_Inr)

lemma quiet_close:
  assumes "closeReadyWaveRow waveId i state closedAt v allow s = Inr (done, s1)" "closed_state state"
    and "calm s1 s2" "tables_ok s1 \<longrightarrow> tables_ok s2" and "st_waves s2 = st_waves s1" "st_turns s2 = st_turns s"
    and "allow \<longrightarrow> (\<exists>seal\<in>set (st_seals s2). sl_waveId seal = waveId)"
  shows "quiet s s2"
proof -
  from assms(1) have s1: "st_waves s1 = map (\<lambda>w. if w_waveId w = waveId \<and> wave_ready i s allow w \<and>
      (v = None \<or> v = Some (w_version w)) then w\<lparr>w_state := state, w_version := w_version w + 1,
        w_updatedAt := closedAt, w_closedAt := Some closedAt\<rparr> else w) (st_waves s)"
    "conflict_free wave_conflict (st_waves s1)"
    by (auto simp: closeReadyWaveRow_Inr)
  have same: "st_discussions s1 = st_discussions s" "st_turns s1 = st_turns s" "st_seals s1 = st_seals s"
    using assms(1) by (auto simp: closeReadyWaveRow_Inr)
  have "justified s2 w" if "wave_ready i s allow w" "w_waveId w = waveId" for w
  proof (cases allow)
    case True
    with assms(7) that(2) show ?thesis by (simp add: justified_def sealed_wave_def)
  next
    case False
    with that(1) assms(6) show ?thesis by (simp add: justified_def members_def wave_ready_def enum_simps)
  qed
  then have "list_all2 (kept_wave s2) (st_waves s) (st_waves s2)"
    unfolding assms(5) s1(1) using assms(2)
    by (intro list_all2_map_if) (auto simp: kept_wave_def closed_state_def)
  moreover have "tables_ok s \<longrightarrow> tables_ok s1" using s1(2) same by (simp add: tables_ok_def)
  ultimately show ?thesis using assms(3,4) same unfolding quiet_def calm_def by simp
qed

lemma quiet_close_plain:
  assumes "closeReadyWaveRow waveId i state closedAt v False s = Inr (done, s')" "closed_state state"
  shows "quiet s s'"
  by (rule quiet_close[OF assms]) (use assms(1) in \<open>auto simp: closeReadyWaveRow_Inr\<close>)

lemma quiet_turns:
  assumes "update_rows turn_conflict P f (st_turns s) = Inr (n, rows)" and "\<And>t. P t \<Longrightarrow> kept_turn t (f t)"
  shows "quiet s (s\<lparr>st_turns := rows\<rparr>)"
  using assms by (auto simp: update_rows_Inr quiet_def calm_def tables_ok_def kept_wave_def
      intro!: list_all2_map_if list_all2_refl)

lemma quiet_waves:
  assumes "update_rows wave_conflict P f (st_waves s) = Inr (n, rows)"
    and "\<And>w. kept_wave (s\<lparr>st_waves := rows\<rparr>) w (f w)"
  shows "quiet s (s\<lparr>st_waves := rows\<rparr>)"
  using assms by (auto simp: update_rows_Inr quiet_def calm_def tables_ok_def
      intro!: list_all2_map_if list_all2_refl)

section \<open>Planning a Wave\<close>

lemma plan_inv:
  assumes inv: "store_inv s"
    and upd: "updateDiscussions P f m s = Inr s1" and P: "\<And>d. P d \<Longrightarrow> d_discussionId d = w_discussionId wave"
    and f: "\<And>d. d_discussionId (f d) = d_discussionId d \<and> d_currentWave (f d) = Some (w_ordinal wave)"
    and cur: "\<And>d. P d \<Longrightarrow> d \<in> set (st_discussions s) \<Longrightarrow> d_currentWave d = Some (w_ordinal wave - 1)"
    and ins: "insertWave wave s1 = Inr s2" "w_state wave = WS_open"
    and turns: "for_each insertTurn ts s2 = Inr s3" "\<forall>t\<in>set ts. t_waveId t = Some (w_waveId wave)"
      "w_expectedMembers wave = int (length ts)"
  shows "store_inv s3"
proof -
  let ?i = "w_discussionId wave" and ?n = "w_ordinal wave"
  from upd have ds: "st_discussions s1 = map (\<lambda>d. if P d then f d else d) (st_discussions s)"
      "conflict_free discussion_conflict (st_discussions s1)" "length (filter P (st_discussions s)) = 1"
    and s1: "st_waves s1 = st_waves s" "st_turns s1 = st_turns s" "st_seals s1 = st_seals s"
    by (auto simp: updateDiscussions_Inr)
  from ins(1) have s2: "st_waves s2 = st_waves s @ [wave]" "conflict_free wave_conflict (st_waves s @ [wave])"
    "st_turns s2 = st_turns s" "st_seals s2 = st_seals s" "st_discussions s2 = st_discussions s1"
    by (auto simp: insertWave_def bind_eq_Inr insert_row_Inr s1)
  have "st_turns s3 = st_turns s2 @ ts \<and> st_waves s3 = st_waves s2 \<and> st_seals s3 = st_seals s2 \<and>
      st_discussions s3 = st_discussions s2 \<and> (tables_ok s2 \<longrightarrow> tables_ok s3)"
    by (rule for_each_inv[OF turns(1), where P = "\<lambda>ts s3. st_turns s3 = st_turns s2 @ ts \<and>
          st_waves s3 = st_waves s2 \<and> st_seals s3 = st_seals s2 \<and> st_discussions s3 = st_discussions s2 \<and>
          (tables_ok s2 \<longrightarrow> tables_ok s3)"])
      (auto simp: insertTurn_def bind_eq_Inr insert_row_Inr tables_ok_def)
  with s2 have s3: "st_turns s3 = st_turns s @ ts" "st_waves s3 = st_waves s @ [wave]" "st_seals s3 = st_seals s"
    "st_discussions s3 = st_discussions s1" "tables_ok s2 \<longrightarrow> tables_ok s3" by simp_all
  have tables: "tables_ok s" and num: "numbered s" and pop: "populated s" and just: "closed_justified s"
    using inv by (simp_all add: store_inv_def)
  have "tables_ok s3" using s3(5) s2 ds(2) tables by (auto simp: tables_ok_def)
  from ds(3) obtain d0 where d0: "filter P (st_discussions s) = [d0]" by (auto simp: length_Suc_conv)
  have "d0 \<in> set (filter P (st_discussions s))" by (subst d0) simp
  then have d0': "d0 \<in> set (st_discussions s)" "P d0" by auto
  have P_iff: "P d \<longleftrightarrow> d_discussionId d = ?i" if "d \<in> set (st_discussions s)" for d
  proof
    assume "d_discussionId d = ?i"
    moreover have "d_discussionId d0 = ?i" using P[OF d0'(2)] .
    ultimately have "d = d0"
      using discussions.distinct_keys[of "st_discussions s"] tables that d0'(1)
      by (auto simp: tables_ok_def distinct_map inj_on_def)
    with d0' show "P d" by simp
  qed (rule P)
  have fresh: "\<forall>w\<in>set (st_waves s). \<not> wave_conflict w wave"
    using s2(2) by (simp add: conflict_free_append)
  have old: "w_state w \<noteq> WS_open \<and> w_waveId w \<noteq> w_waveId wave" if "w \<in> set (st_waves s)" "w_discussionId w = ?i" for w
    using fresh that ins(2) by (auto simp: wave_conflict_def)
  have ids: "w_waveId w \<noteq> w_waveId wave" if "w \<in> set (st_waves s)" for w
    using fresh that by (auto simp: wave_conflict_def)
  from num d0' cur[OF d0'(2,1)] have n0: "?n - 1 \<ge> 0"
    "\<forall>k. 1 \<le> k \<and> k \<le> ?n - 1 \<longrightarrow> (\<exists>w\<in>set (st_waves s). w_discussionId w = ?i \<and> w_ordinal w = k)"
    unfolding numbered_def using P[OF d0'(2)] by force+
  have d1: "f d0 \<in> set (st_discussions s3)" unfolding s3(4) ds(1) using d0' by force
  have "numbered s3"
    unfolding numbered_def
  proof (intro conjI ballI)
    fix w assume "w \<in> set (st_waves s3)"
    then consider "w = wave" | "w \<in> set (st_waves s)" using s3(2) by auto
    then show "\<exists>d\<in>set (st_discussions s3). \<exists>n. d_discussionId d = w_discussionId w \<and> d_currentWave d = Some n \<and>
        1 \<le> w_ordinal w \<and> w_ordinal w \<le> n \<and> (w_state w = WS_open \<longrightarrow> w_ordinal w = n)"
    proof cases
      case 1
      with n0(1) f[of d0] P[OF d0'(2)] show ?thesis by (intro bexI[OF _ d1] exI[of _ ?n]) auto
    next
      case 2
      then obtain d n where d: "d \<in> set (st_discussions s)" "d_discussionId d = w_discussionId w"
        "d_currentWave d = Some n" "1 \<le> w_ordinal w" "w_ordinal w \<le> n" "w_state w = WS_open \<longrightarrow> w_ordinal w = n"
        using num unfolding numbered_def by blast
      show ?thesis
      proof (cases "P d")
        case True
        then have "w_discussionId w = ?i" "n = ?n - 1" using d P cur[OF True d(1)] by auto
        with old[OF 2] d f[of d] P[OF True] True show ?thesis
          by (intro bexI[of _ "f d"] exI[of _ ?n]) (auto simp: s3(4) ds(1))
      next
        case False
        with d show ?thesis by (intro bexI[of _ d] exI[of _ n]) (auto simp: s3(4) ds(1) image_iff)
      qed
    qed
  next
    fix d' assume "d' \<in> set (st_discussions s3)"
    then obtain d where d: "d \<in> set (st_discussions s)" "d' = (if P d then f d else d)"
      unfolding s3(4) ds(1) by auto
    show "\<exists>n\<ge>0. d_currentWave d' = Some n \<and>
        (\<forall>k. 1 \<le> k \<and> k \<le> n \<longrightarrow> (\<exists>w\<in>set (st_waves s3). w_discussionId w = d_discussionId d' \<and> w_ordinal w = k))"
    proof (cases "P d")
      case True
      have "\<exists>w\<in>set (st_waves s3). w_discussionId w = ?i \<and> w_ordinal w = k" if "1 \<le> k" "k \<le> ?n" for k
      proof (cases "k = ?n")
        case False
        with that n0(2) show ?thesis unfolding s3(2) by force
      qed (simp add: s3(2))
      with True d f[of d] P[OF True] n0(1) show ?thesis by (intro exI[of _ ?n]) auto
    next
      case False
      with d num obtain n where "n \<ge> 0" "d_currentWave d' = Some n"
        "\<forall>k. 1 \<le> k \<and> k \<le> n \<longrightarrow> (\<exists>w\<in>set (st_waves s). w_discussionId w = d_discussionId d' \<and> w_ordinal w = k)"
        unfolding numbered_def by auto
      then show ?thesis unfolding s3(2) by (intro exI[of _ n]) auto
    qed
  qed
  moreover have "populated s3"
    unfolding populated_def
  proof (intro conjI ballI allI impI)
    fix t i assume "t \<in> set (st_turns s3)" "t_waveId t = Some i"
    with pop turns(2) show "\<exists>w\<in>set (st_waves s3). w_waveId w = i" unfolding populated_def s3(1,2) by auto
  next
    fix w assume "w \<in> set (st_waves s3)"
    then consider "w = wave" | "w \<in> set (st_waves s)" using s3(2) by auto
    then show "w_expectedMembers w = int (length (members s3 w))"
    proof cases
      case 1
      have "filter (\<lambda>t. t_waveId t = Some (w_waveId wave)) (st_turns s) = []"
        using pop ids unfolding populated_def by (auto simp: filter_empty_conv)
      with 1 turns(2,3) show ?thesis by (simp add: members_def s3(1))
    next
      case 2
      have "filter (\<lambda>t. t_waveId t = Some (w_waveId w)) ts = []"
        using turns(2) ids[OF 2] by (auto simp: filter_empty_conv)
      with 2 pop show ?thesis by (simp add: members_def s3(1) populated_def)
    qed
  qed
  moreover have "closed_justified s3"
    unfolding closed_justified_def
  proof (intro ballI impI)
    fix w assume w: "w \<in> set (st_waves s3)" "w_state w \<noteq> WS_open"
    then have w': "w \<in> set (st_waves s)" using s3(2) ins(2) by auto
    have "filter (\<lambda>t. t_waveId t = Some (w_waveId w)) ts = []"
      using turns(2) ids[OF w'] by (auto simp: filter_empty_conv)
    then have "members s3 w = members s w" by (simp add: members_def s3(1))
    with just w w' show "justified s3 w" by (auto simp: closed_justified_def justified_def sealed_wave_def s3(3))
  qed
  ultimately show ?thesis using \<open>tables_ok s3\<close> by (simp add: store_inv_def)
qed

lemma validateWavePlan_facts:
  assumes "validateWavePlan L wave turns s = Inr u"
  shows "w_state wave = WS_open" "w_expectedMembers wave = int (length turns)"
    "\<forall>t\<in>set turns. t_waveId t = Some (w_waveId wave)" "turns \<noteq> []"
proof -
  from assms obtain seen where "w_state wave = WS_open" "w_expectedMembers wave = int (length turns)" "turns \<noteq> []"
    and loop: "for_each (checkMember wave (length turns)) turns ([], [], []) = Inr seen"
    by (auto simp: validateWavePlan_def Let_def bind_eq_Inr split: option.splits)
  then show "w_state wave = WS_open" "w_expectedMembers wave = int (length turns)" "turns \<noteq> []" by auto
  show "\<forall>t\<in>set turns. t_waveId t = Some (w_waveId wave)"
    by (rule for_each_inv[OF loop, where P = "\<lambda>ts seen. \<forall>t\<in>set ts. t_waveId t = Some (w_waveId wave)"])
      (auto simp: checkMember_def valid_member_def bind_eq_Inr split: prod.splits)
qed

lemma kept_decided:
  "kept_discussion d (decided i d)" "kept_discussion d ((decided i d)\<lparr>d_terminalAt := t\<rparr>)"
  by (simp_all add: kept_discussion_def decided_def)

lemma quiet_events: "for_each insertBudgetEvent es s = Inr s' \<Longrightarrow> quiet s s'"
  by (rule quiet_for_each) (auto intro: quiet_inserts)

lemma create_inv:
  assumes "store_inv s" "createDiscussion d ps e s = Inr s'" "d_currentWave d \<in> {None, Some 0}"
  shows "store_inv s'"
proof -
  let ?row = "d\<lparr>d_executionModel := Some (case d_executionModel d of None \<Rightarrow> Exec_sequential | Some m \<Rightarrow> m),
           d_currentWave := Some (case d_currentWave d of None \<Rightarrow> 0 | Some n \<Rightarrow> n)\<rparr>"
  let ?s1 = "s\<lparr>st_discussions := st_discussions s @ [?row]\<rparr>"
  from assms(2) obtain s2 where cf: "conflict_free discussion_conflict (st_discussions s @ [?row])"
    and ps: "for_each insertParticipant ps ?s1 = Inr s2" and ev: "insertBudgetEvent e s2 = Inr s'"
    by (auto simp: createDiscussion_def Let_def bind_eq_Inr insert_row_Inr)
  have row: "d_currentWave ?row = Some 0" using assms(3) by auto
  from assms(1) have parts: "tables_ok s" "numbered s" "populated s" "closed_justified s"
    by (simp_all add: store_inv_def)
  have "numbered ?s1"
    unfolding numbered_def
  proof (intro conjI ballI)
    fix w assume "w \<in> set (st_waves ?s1)"
    with parts(2) show "\<exists>d\<in>set (st_discussions ?s1). \<exists>n. d_discussionId d = w_discussionId w \<and>
        d_currentWave d = Some n \<and> 1 \<le> w_ordinal w \<and> w_ordinal w \<le> n \<and> (w_state w = WS_open \<longrightarrow> w_ordinal w = n)"
      unfolding numbered_def by auto
  next
    fix x assume "x \<in> set (st_discussions ?s1)"
    then consider "x = ?row" | "x \<in> set (st_discussions s)" by auto
    then show "\<exists>n\<ge>0. d_currentWave x = Some n \<and>
        (\<forall>k. 1 \<le> k \<and> k \<le> n \<longrightarrow> (\<exists>w\<in>set (st_waves ?s1). w_discussionId w = d_discussionId x \<and> w_ordinal w = k))"
    proof cases
      case 1
      with row show ?thesis by (intro exI[of _ 0]) auto
    next
      case 2
      with parts(2) show ?thesis unfolding numbered_def by simp
    qed
  qed
  then have "store_inv ?s1"
    using parts cf by (simp add: store_inv_def tables_ok_def populated_def closed_justified_def justified_def
        members_def sealed_wave_def)
  moreover have "quiet ?s1 s2" by (rule quiet_for_each[OF ps]) (rule quiet_inserts)
  moreover have "quiet s2 s'" using ev by (rule quiet_inserts)
  ultimately show ?thesis by (meson quiet_inv)
qed

lemma quiet_requireDiscussion:
  "bind (requireDiscussion i s) (\<lambda>d. Inr (d, s)) = Inr (d', s') \<Longrightarrow> s' = s"
  by (auto simp: bind_eq_Inr)

lemma reanchor_quiet: "reanchorPlannedWave waveId m now s = Inr (w, s') \<Longrightarrow> quiet s s'"
proof -
  assume "reanchorPlannedWave waveId m now s = Inr (w, s')"
  then obtain wave :: DiscussionWave and n rows k rows' where
    t: "update_rows turn_conflict (\<lambda>t. t_waveId t = Some waveId \<and> t_runId t = None \<and> t_state t = TS_planned)
      (\<lambda>t. t\<lparr>t_inputMessageId := m, t_updatedAt := now\<rparr>) (st_turns s) = Inr (n, rows)"
    and w: "update_rows wave_conflict (\<lambda>w. w_waveId w = waveId \<and> w_version w = w_version wave \<and> w_state w = WS_open)
      (\<lambda>w. w\<lparr>w_inputMessageId := m, w_version := w_version w + 1, w_updatedAt := now\<rparr>) (st_waves s) = Inr (k, rows')"
    and s': "s' = s\<lparr>st_turns := rows\<rparr>\<lparr>st_waves := rows'\<rparr>"
    by (auto simp: reanchorPlannedWave_def bind_eq_Inr Let_def)
  have "quiet s (s\<lparr>st_turns := rows\<rparr>)"
    by (rule quiet_turns[OF t]) (simp add: kept_turn_def)
  also have "quiet \<dots> s'"
    unfolding s' using w by (intro quiet_waves) (auto simp: kept_wave_def)
  finally show ?thesis .
qed

lemma close_option_quiet:
  assumes "(case cw of None \<Rightarrow> Inr s | Some c \<Rightarrow> bind (closeReadyWaveRow (cw_waveId c) i (cw_state c) (clk c)
        (cw_expectedVersion c) False s) (\<lambda>(closed, s). bind (ensure closed err) (\<lambda>_. Inr s))) = Inr s'"
    and "case cw of None \<Rightarrow> True | Some c \<Rightarrow> closed_state (cw_state c)"
  shows "quiet s s'"
  using assms by (auto simp: bind_eq_Inr split: option.splits prod.splits intro: quiet_close_plain)

lemma plan_step_inv:
  assumes "store_inv s" "recordDecisionAndPlanWave L di wave turns s = Inr (d, s')"
  shows "store_inv s'"
proof -
  let ?i = "de_discussionId (in_decision di)"
  from assms(2) obtain s0 s1 s2 s3 where v: "validateWavePlan L wave turns s = Inr ()" and i: "?i = w_discussionId wave"
    and dec: "insertDecision (in_decision di) s = Inr s0"
    and upd: "updateDiscussions (\<lambda>d. expected ?i (in_expectedVersion di) d \<and> d_currentWave d = Some (w_ordinal wave - 1))
       (\<lambda>d. (decided di d)\<lparr>d_executionModel := Some Exec_parallel_wave,
          d_currentTurn := max_ordinal turns, d_currentWave := Some (w_ordinal wave)\<rparr>)
       ''Stale Discussion aggregate version'' s0 = Inr s1"
    and ins: "insertWave wave s1 = Inr s2" "for_each insertTurn turns s2 = Inr s3"
    and ev: "for_each insertBudgetEvent (in_budgetEvents di) s3 = Inr s'"
    by (auto simp: recordDecisionAndPlanWave_def Let_def bind_eq_Inr)
  note facts = validateWavePlan_facts[OF v]
  have "store_inv s0" using quiet_inserts(1)[OF dec] assms(1) quiet_inv by blast
  from plan_inv[OF this upd _ _ _ ins(1) facts(1) ins(2) facts(3,2)]
  have "store_inv s3" using i by (auto simp: expected_def decided_def)
  with quiet_events[OF ev] show ?thesis using quiet_inv by blast
qed

lemma apply_step_inv:
  assumes "store_inv s" "closeReadyWaveAndApply L ri s = Inr (ar, s')" "closed_state (rw_closeState ri)"
  shows "store_inv s'"
proof -
  let ?i = "de_discussionId (in_decision ri)"
  have checked: "check_ready_wave L ri s = Inr ()"
    using assms(2) by (auto simp: closeReadyWaveAndApply_def Let_def bind_eq_Inr)
  from assms(2) consider "s' = s" | s1 where "wave_applies ri s"
    "closeReadyWaveRow (rw_waveId ri) ?i (rw_closeState ri) (rw_closedAt ri)
       (Some (rw_expectedWaveVersion ri)) (rw_seal ri \<noteq> None) s = Inr (True, s1)" "apply_ready_wave ri s1 = Inr s'"
    by (auto simp: closeReadyWaveAndApply_def Let_def bind_eq_Inr split: if_splits prod.splits)
  then show ?thesis
  proof cases
    case 2
    note applies = 2(1) and close = 2(2)
    from 2(3) obtain s2 s3 s4 s5 where
      seal: "(case rw_seal ri of None \<Rightarrow> Inr s1 | Some seal \<Rightarrow> insertWaveSeal seal s1) = Inr s2"
      and dec: "insertDecision (in_decision ri) s2 = Inr s3"
      and upd: "updateDiscussions (expected ?i (in_expectedVersion ri))
       (\<lambda>d. (decided (decision_input.truncate ri) d)\<lparr>
          d_currentTurn := (case rw_nextWave ri of None \<Rightarrow> d_currentTurn d
             | Some plan \<Rightarrow> max_ordinal (wp_turns plan)),
          d_currentWave := (case rw_nextWave ri of None \<Rightarrow> d_currentWave d
             | Some plan \<Rightarrow> Some (w_ordinal (wp_wave plan))),
          d_terminalAt := rw_terminalAt ri\<rparr>) ''Stale Discussion aggregate version'' s3 = Inr s4"
      and nxt: "(case rw_nextWave ri of None \<Rightarrow> Inr s4
       | Some plan \<Rightarrow> bind (insertWave (wp_wave plan) s4) (for_each insertTurn (wp_turns plan))) = Inr s5"
      and ev: "for_each insertBudgetEvent (in_budgetEvents ri) s5 = Inr s'"
      by (auto simp: apply_ready_wave_def Let_def bind_eq_Inr)
    have s1: "st_turns s1 = st_turns s" "st_discussions s1 = st_discussions s"
      using close by (auto simp: closeReadyWaveRow_Inr)
    have "quiet s s2"
    proof (cases "rw_seal ri")
      case None
      with close seal assms(3) show ?thesis by (auto intro: quiet_close_plain)
    next
      case (Some q)
      with seal have ins: "insertWaveSeal q s1 = Inr s2" by simp
      then have s2: "st_waves s2 = st_waves s1" "st_turns s2 = st_turns s1" "q \<in> set (st_seals s2)"
        by (auto simp: insertWaveSeal_def Let_def bind_eq_Inr insert_row_Inr)
      have "sl_waveId q = rw_waveId ri"
        using checked Some by (auto simp: check_ready_wave_def bind_eq_Inr)
      with quiet_close[OF close assms(3)] quiet_inserts(4)[OF ins] s2 s1 show ?thesis
        unfolding quiet_def by auto
    qed
    moreover have "quiet s2 s3" using dec by (rule quiet_inserts)
    ultimately have inv3: "store_inv s3" using assms(1) quiet_inv by blast
    have same: "st_discussions s3 = st_discussions s"
      using dec seal s1 by (auto simp: insertDecision_def insertWaveSeal_def Let_def bind_eq_Inr insert_row_Inr
          split: option.splits)
    have "store_inv s5"
    proof (cases "rw_nextWave ri")
      case None
      have "quiet s3 s4" by (rule quiet_updateDiscussions[OF upd]) (simp add: None kept_discussion_def decided_def)
      with nxt None inv3 quiet_inv show ?thesis by auto
    next
      case (Some plan)
      with nxt obtain s4' where ins: "insertWave (wp_wave plan) s4 = Inr s4'"
        "for_each insertTurn (wp_turns plan) s4' = Inr s5" by (auto simp: bind_eq_Inr)
      from checked Some have v: "validateWavePlan L (wp_wave plan) (wp_turns plan) s = Inr ()"
        "w_discussionId (wp_wave plan) = ?i" by (auto simp: check_ready_wave_def bind_eq_Inr)
      note facts = validateWavePlan_facts[OF v(1)]
      from applies Some obtain agg and cur :: DiscussionWave where agg: "getDiscussion ?i s = Some agg"
        "d_currentWave agg = Some (w_ordinal cur)" "w_ordinal (wp_wave plan) = w_ordinal cur + 1"
        by (auto simp: wave_applies_def split: option.splits)
      have cf: "conflict_free discussion_conflict (st_discussions s)"
        using assms(1) by (simp add: store_inv_def tables_ok_def)
      have cur: "d_currentWave d = Some (w_ordinal (wp_wave plan) - 1)"
        if "expected ?i (in_expectedVersion ri) d" "d \<in> set (st_discussions s3)" for d
        using that agg discussions.find_row[OF cf, of ?i d] unfolding same getDiscussion_def expected_def by auto
      show ?thesis
        by (rule plan_inv[OF inv3 upd _ _ _ ins(1) facts(1) ins(2) facts(3,2)])
          (use cur v(2) Some in \<open>auto simp: expected_def decided_def\<close>)
    qed
    with quiet_events[OF ev] show ?thesis using quiet_inv by blast
  qed (use assms(1) in simp)
qed

lemma bind_quiet: "bindTurnRun turnId runId state now s = Inr (t, s') \<Longrightarrow> quiet s s'"
proof -
  assume "bindTurnRun turnId runId state now s = Inr (t, s')"
  then obtain n rows where upd: "update_rows turn_conflict
      (\<lambda>t. t_turnId t = turnId \<and> t_runId t = None \<and> t_state t = TS_planned)
      (\<lambda>t. t\<lparr>t_runId := Some runId, t_state := state, t_updatedAt := now\<rparr>) (st_turns s) = Inr (n, rows)"
    and s': "s' = s\<lparr>st_turns := rows\<rparr>"
    by (clarsimp simp: bindTurnRun_def Let_def bind_eq_Inr; blast)
  show "quiet s s'" unfolding s' by (rule quiet_turns[OF upd]) (simp add: kept_turn_def)
qed

lemma settle_quiet: "settleTurn input s = Inr (r, s') \<Longrightarrow> terminalTurnState (si_state input) \<Longrightarrow> quiet s s'"
  by (auto simp: settleTurn_def Let_def bind_eq_Inr kept_turn_def settled_turn_def intro!: quiet_turns)

lemma update_quiet:
  assumes "recordDecisionAndUpdate di terminalAt cw s = Inr (d, s')"
    and "case cw of None \<Rightarrow> True | Some c \<Rightarrow> closed_state (cw_state c)"
  shows "quiet s s'"
proof -
  let ?i = "de_discussionId (in_decision di)"
  from assms(1) obtain s1 s2 s3 where
    a: "(case cw of None \<Rightarrow> Inr s | Some c \<Rightarrow> bind (closeReadyWaveRow (cw_waveId c) ?i (cw_state c) (cw_completedAt c)
        (cw_expectedVersion c) False s) (\<lambda>(closed, s). bind (ensure closed
          (Error ''Discussion Wave is not ready or already closed'')) (\<lambda>_. Inr s))) = Inr s1"
    and b: "insertDecision (in_decision di) s1 = Inr s2"
    and c: "updateDiscussions (expected ?i (in_expectedVersion di))
       (\<lambda>d. (decided di d)\<lparr>d_terminalAt := terminalAt\<rparr>) ''Stale Discussion aggregate version'' s2 = Inr s3"
    and e: "for_each insertBudgetEvent (in_budgetEvents di) s3 = Inr s'"
    by (auto simp: recordDecisionAndUpdate_def Let_def bind_eq_Inr)
  have "quiet s s1" using close_option_quiet[OF a] assms(2) by simp
  also have "quiet s1 s2" using b by (rule quiet_inserts)
  also have "quiet s2 s3" using c kept_decided(2) by (rule quiet_updateDiscussions)
  also have "quiet s3 s'" using e by (rule quiet_events)
  finally show ?thesis .
qed

lemma closeWave_quiet: "closeWave waveId v state now s = Inr (r, s') \<Longrightarrow> closed_state state \<Longrightarrow> quiet s s'"
  by (auto simp: closeWave_def bind_eq_Inr split: prod.splits intro: quiet_close_plain)

lemma request_quiet: "requestAction i v a st sr now s = Inr (d, s') \<Longrightarrow> quiet s s'"
  by (auto simp: requestAction_def bind_eq_Inr kept_discussion_def intro: quiet_updateDiscussions)

lemma goal_quiet: "updateGoal i v goal now s = Inr (d, s') \<Longrightarrow> quiet s s'"
  by (auto simp: updateGoal_def bind_eq_Inr kept_discussion_def intro: quiet_updateDiscussions)

lemma finish_quiet:
  assumes "closeFinalizationAndFinish i v st waveId wv wst now s = Inr (d, s')" and "closed_state wst"
  shows "quiet s s'"
proof -
  let ?c = "Some \<lparr>cw_waveId = waveId, cw_state = wst, cw_completedAt = now, cw_expectedVersion = Some wv\<rparr>"
  from assms(1) obtain s1 where
    a: "(case ?c of None \<Rightarrow> Inr s | Some c \<Rightarrow> bind (closeReadyWaveRow (cw_waveId c) i (cw_state c) now
        (cw_expectedVersion c) False s) (\<lambda>(closed, s). bind (ensure closed
          (Error ''Finalization Wave is not ready or already closed'')) (\<lambda>_. Inr s))) = Inr s1"
    and c: "updateDiscussions (\<lambda>d. expected i v d \<and> d_state d = DS_finalizing)
      (\<lambda>d. d\<lparr>d_state := st, d_requestedAction := None, d_version := d_version d + 1,
         d_updatedAt := now, d_terminalAt := Some now\<rparr>) ''Stale or non-finalizing Discussion aggregate'' s1 = Inr s'"
    by (auto simp: closeFinalizationAndFinish_def finishFinalization_def bind_eq_Inr)
  have "quiet s s1" by (rule close_option_quiet[OF a]) (use assms(2) in simp)
  also have "quiet s1 s'" using c by (rule quiet_updateDiscussions) (simp add: kept_discussion_def)
  finally show ?thesis .
qed

lemma evidence_quiet: "retainSupplementalEvidence ev s = Inr (r, s') \<Longrightarrow> quiet s s'"
  by (auto simp: retainSupplementalEvidence_def Let_def bind_eq_Inr insert_row_Inr quiet_def calm_def tables_ok_def
      kept_wave_def split: option.splits intro!: list_all2_refl)

lemmas quiet_operations = bind_quiet reanchor_quiet settle_quiet update_quiet closeWave_quiet request_quiet
  goal_quiet finish_quiet evidence_quiet quiet_inserts(2)

theorem step_inv:
  assumes "repo_step L s s'" "store_inv s"
  shows "store_inv s'"
  using assms(1)
proof (cases rule: repo_step.cases)
  case step_create
  then show ?thesis by (rule create_inv[OF assms(2)])
next
  case step_plan
  then show ?thesis by (rule plan_step_inv[OF assms(2)])
next
  case step_apply
  then show ?thesis by (rule apply_step_inv[OF assms(2)])
qed (rule quiet_inv[OF assms(2)], (rule quiet_operations; assumption))+

theorem reachable_inv: "reachable_store L s \<Longrightarrow> store_inv s"
proof (induction rule: reachable_store.induct)
  case start
  show ?case by (simp add: store_inv_def tables_ok_def numbered_def populated_def closed_justified_def empty_store_def)
qed (rule step_inv)

end
