(* ===== verification/Discussion_History.thy ===== *)
theory Discussion_History
  imports Discussion_Invariant
begin

text \<open>
  What the store of Discussions guarantees: plans of the planner are accepted, Waves are numbered
  without gaps, history is not taken back, and stale writers change nothing.
\<close>

section \<open>Plans pass the validation of the repository\<close>

lemma checkMembers_ok:
  assumes "\<forall>t\<in>set ts. valid_member wave n t"
    and "distinct (map t_waveMemberOrdinal ts)" "set a \<inter> t_waveMemberOrdinal ` set ts = {}"
    and "distinct (map t_speakerAgentId ts)" "set b \<inter> t_speakerAgentId ` set ts = {}"
    and "distinct (map t_ordinal ts)" "set c \<inter> t_ordinal ` set ts = {}"
  shows "\<exists>seen. for_each (checkMember wave n) ts (a, b, c) = Inr seen"
  using assms
proof (induction ts arbitrary: a b c)
  case (Cons t ts)
  have "\<exists>seen. for_each (checkMember wave n) ts
      (a @ [t_waveMemberOrdinal t], b @ [t_speakerAgentId t], c @ [t_ordinal t]) = Inr seen"
    by (rule Cons.IH) (use Cons.prems in auto)
  moreover have "checkMember wave n t (a, b, c) =
      Inr (a @ [t_waveMemberOrdinal t], b @ [t_speakerAgentId t], c @ [t_ordinal t])"
    using Cons.prems by (auto simp: checkMember_def ensure_def)
  ultimately show ?case by simp
qed simp

lemma selection_snapshot_fields:
  assumes "selection_snapshot L strategy es qs cs selected rr limit = Inr sel"
  shows "sel_eligibleAgentIds (ps_snapshot sel) = map (\<lambda>c. p_agentId (cd_participant c)) cs"
    "sel_requiredRoles (ps_snapshot sel) = (if rr then [Role_reviewer] else [])"
    "ps_participants sel = map cd_participant selected" "sel_strategy (ps_snapshot sel) = strategy"
  using assms by (auto simp: selection_snapshot_def Let_def bind_eq_Inr createDiscussionWaveSelection_def)

lemma selection_fields:
  assumes "selectDiscussionParticipants L d cs fin = Inr sel"
  shows "sel_eligibleAgentIds (ps_snapshot sel) = map (\<lambda>c. p_agentId (cd_participant c)) (sort_by by_ordinal cs)"
    and "sel_requiredRoles (ps_snapshot sel) =
      (if requiredReviewer d (sort_by by_ordinal cs) \<noteq> None then [Role_reviewer] else [])"
    and "fin \<Longrightarrow> requiredReviewer d (sort_by by_ordinal cs) \<noteq> None \<Longrightarrow>
      \<exists>p\<in>set (ps_participants sel). p_role p = Role_reviewer"
    and "fin \<longleftrightarrow> sel_strategy (ps_snapshot sel) = Strat_finalizer"
proof -
  show "sel_eligibleAgentIds (ps_snapshot sel) = map (\<lambda>c. p_agentId (cd_participant c)) (sort_by by_ordinal cs)"
    using assms by (auto simp: selectDiscussionParticipants_def Let_def dest: selection_snapshot_fields(1)
        split: if_splits option.splits)
  show "sel_requiredRoles (ps_snapshot sel) =
      (if requiredReviewer d (sort_by by_ordinal cs) \<noteq> None then [Role_reviewer] else [])"
    using assms by (auto simp: selectDiscussionParticipants_def Let_def dest!: selection_snapshot_fields(2)
        split: if_splits)
  show "fin \<longleftrightarrow> sel_strategy (ps_snapshot sel) = Strat_finalizer"
    using assms by (auto simp: selectDiscussionParticipants_def Let_def dest!: selection_snapshot_fields(4)
        split: if_splits)
  assume fin: "fin" and "requiredReviewer d (sort_by by_ordinal cs) \<noteq> None"
  then obtain r where r: "List.find (\<lambda>c. p_role (cd_participant c) = Role_reviewer) (sort_by by_ordinal cs) = Some r"
    by (auto simp: requiredReviewer_def split: if_splits)
  with fin assms have "ps_participants sel = [cd_participant r]"
    by (auto simp: selectDiscussionParticipants_def Let_def dest!: selection_snapshot_fields(3) split: if_splits)
  with find_Some[OF r] show "\<exists>p\<in>set (ps_participants sel). p_role p = Role_reviewer" by simp
qed

lemma planned_wave_ok:
  assumes sel: "selectable L d cs" "selectDiscussionParticipants L d cs fin = Inr sel"
    and plan: "buildWavePlan L wid tid d (ps_participants sel) m
      (if fin then Kind_finalization else Kind_discussion) (ps_snapshot sel) now = Inr plan"
    and store: "\<forall>c\<in>set cs. cd_participant c \<in> set (listParticipants (d_discussionId d) s)"
      "\<forall>p\<in>set (listParticipants (d_discussionId d) s). \<forall>q\<in>set (listParticipants (d_discussionId d) s).
         p_role p = Role_reviewer \<longrightarrow> p_role q = Role_reviewer \<longrightarrow> p = q"
    and size: "length cs \<le> 5"
  shows "validateWavePlan L (wp_wave plan) (wp_turns plan) s = Inr ()"
proof -
  let ?ps = "ps_participants sel" and ?id = "d_discussionId d"
  let ?k = "if fin then Kind_finalization else Kind_discussion"
  let ?order = "\<lambda>t. case t_waveMemberOrdinal t of None \<Rightarrow> - 1 | Some k \<Rightarrow> k"
  note ok = selection_ok[OF sel] and f = buildWavePlan_Inr[OF plan] and sf = selection_fields[OF sel(2)]
  note sound = selection_facts[OF sel]
  have ids: "map t_speakerAgentId (wp_turns plan) = map p_agentId ?ps"
    "map t_ordinal (wp_turns plan) = map (\<lambda>i. d_currentTurn d + int i + 1) [0..<length ?ps]"
    "map t_waveMemberOrdinal (wp_turns plan) = map (\<lambda>i. Some (int i)) [0..<length ?ps]"
    by (rule planned_turns[OF plan])+
  have len: "length (wp_turns plan) = length ?ps" using ids(1) by (metis length_map)
  have wave: "w_selection (wp_wave plan) = Some (ps_snapshot sel)" "w_closedAt (wp_wave plan) = None"
    "w_discussionId (wp_wave plan) = ?id" "w_inputMessageId (wp_wave plan) = m"
    "w_phase (wp_wave plan) = (if fin then Phase_finalization else Phase_contribution)"
    using plan by (auto simp: buildWavePlan_def bind_eq_Inr Let_def split: if_splits)
  have small: "length ?ps \<le> 5"
  proof -
    have "set (map p_agentId ?ps) \<subseteq> set (map (\<lambda>c. p_agentId (cd_participant c)) cs)"
      using sound by auto
    then have "card (set (map p_agentId ?ps)) \<le> card (set (map (\<lambda>c. p_agentId (cd_participant c)) cs))"
      by (rule card_mono[OF List.finite_set])
    also have "\<dots> \<le> length cs" using card_length[of "map (\<lambda>c. p_agentId (cd_participant c)) cs"] by simp
    finally show ?thesis using size sound distinct_card[of "map p_agentId ?ps"] by simp
  qed
  have sorted: "sort_by (\<lambda>a b. ?order a - ?order b) (wp_turns plan) = wp_turns plan"
  proof (rule sort_by_sorted_id)
    have "map ?order (wp_turns plan) = map int [0..<length ?ps]"
      using arg_cong[OF ids(3), of "map (\<lambda>x. case x of None \<Rightarrow> - 1 | Some k \<Rightarrow> k)"] by (simp add: comp_def)
    then have "sorted (map ?order (wp_turns plan))" by (simp add: sorted_map)
    then show "sorted_wrt (\<lambda>x y. ?order x - ?order y \<le> 0) (wp_turns plan)" by (simp add: sorted_map)
  qed
  have strategy: "fin \<longleftrightarrow> sel_strategy (ps_snapshot sel) = Strat_finalizer"
    by (rule sf(4))
  have valid: "\<forall>t\<in>set (wp_turns plan). valid_member (wp_wave plan) (length (wp_turns plan)) t"
  proof
    fix t assume "t \<in> set (wp_turns plan)"
    then obtain i p where "(i, p) \<in> set (enumerate 0 ?ps)" "t = planned_turn d m ?k now wid tid i p"
      unfolding f(3) by auto
    moreover from this have "i < length ?ps" by (simp add: in_set_enumerate_eq)
    ultimately show "valid_member (wp_wave plan) (length (wp_turns plan)) t"
      using small wave f(5) len by (auto simp: valid_member_def planned_turn_def is_safe_integer_def max_safe_integer_def)
  qed
  have members: "\<exists>seen. for_each (checkMember (wp_wave plan) (length (wp_turns plan))) (wp_turns plan) ([], [], []) = Inr seen"
  proof (rule checkMembers_ok[OF valid])
    show "distinct (map t_waveMemberOrdinal (wp_turns plan))" unfolding ids(3) by (simp add: distinct_map inj_on_def)
    show "distinct (map t_ordinal (wp_turns plan))" unfolding ids(2) by (simp add: distinct_map inj_on_def)
    show "distinct (map t_speakerAgentId (wp_turns plan))" using sound ids(1) by simp
  qed simp_all
  have eligible: "\<not> (\<exists>a\<in>set (sel_eligibleAgentIds (ps_snapshot sel)). a \<notin> set (map p_agentId (listParticipants ?id s)))"
    unfolding sf(1) using store(1) by auto
  have reviewer: "Role_reviewer \<in> set (sel_requiredRoles (ps_snapshot sel)) \<longrightarrow>
      (case find (\<lambda>p. p_role p = Role_reviewer) (listParticipants ?id s) of
         None \<Rightarrow> False | Some r \<Rightarrow> p_agentId r \<in> set (map t_speakerAgentId (wp_turns plan)))"
  proof
    assume "Role_reviewer \<in> set (sel_requiredRoles (ps_snapshot sel))"
    then have need: "requiredReviewer d (sort_by by_ordinal cs) \<noteq> None" unfolding sf(2) by (auto split: if_splits)
    then have "review_needed d" by (auto simp: requiredReviewer_def review_needed_def split: if_splits)
    with sound sf(3)[OF _ need] obtain p where p: "p \<in> set ?ps" "p_role p = Role_reviewer" by (cases fin) auto
    then have mem: "p \<in> set (listParticipants ?id s)" using sound store(1) by auto
    then obtain r where r: "find (\<lambda>p. p_role p = Role_reviewer) (listParticipants ?id s) = Some r"
      using p(2) find_ex[of "listParticipants ?id s" "\<lambda>p. p_role p = Role_reviewer"] by blast
    from find_Some[OF r] store(2) mem p have "r = p" by blast
    with r p(1) ids(1) show "case find (\<lambda>p. p_role p = Role_reviewer) (listParticipants ?id s) of
         None \<Rightarrow> False | Some r \<Rightarrow> p_agentId r \<in> set (map t_speakerAgentId (wp_turns plan))" by simp
  qed
  from members obtain seen where
    "for_each (checkMember (wp_wave plan) (length (wp_turns plan))) (wp_turns plan) ([], [], []) = Inr seen" by blast
  then show ?thesis
    unfolding validateWavePlan_def wave option.simps Let_def sorted ids(1)[symmetric]
    using f(4,6) len small ok(2) strategy eligible reviewer wave selectedIds_of_assert[OF ok(2)] ids(1) f(1)
    by (simp add: ensure_def is_safe_integer_def max_safe_integer_def)
qed

section \<open>History\<close>

text \<open>What no operation takes back: terminal Turns, closed Waves, seals, decisions, events and
  evidence stay, and a Discussion that changes gets a higher version.\<close>

definition history_kept :: "discussion_store \<Rightarrow> discussion_store \<Rightarrow> bool" where
  "history_kept s s' \<longleftrightarrow>
     (\<forall>t\<in>set (st_turns s). terminalTurnState (t_state t) \<longrightarrow> t \<in> set (st_turns s')) \<and>
     (\<forall>w\<in>set (st_waves s). w_state w \<noteq> WS_open \<longrightarrow> w \<in> set (st_waves s')) \<and>
     (\<forall>d\<in>set (st_discussions s). d \<in> set (st_discussions s') \<or>
        (\<exists>d'\<in>set (st_discussions s'). d_discussionId d' = d_discussionId d \<and> d_version d < d_version d')) \<and>
     prefix (st_seals s) (st_seals s') \<and> prefix (st_decisions s) (st_decisions s') \<and>
     prefix (st_events s) (st_events s') \<and> prefix (st_evidence s) (st_evidence s')"

lemma history_refl [simp]: "history_kept s s"
  by (simp add: history_kept_def)

lemma history_trans [trans]:
  assumes "history_kept s s1" "history_kept s1 s2"
  shows "history_kept s s2"
proof -
  have "d \<in> set (st_discussions s2) \<or>
      (\<exists>d'\<in>set (st_discussions s2). d_discussionId d' = d_discussionId d \<and> d_version d < d_version d')"
    if "d \<in> set (st_discussions s)" for d
  proof -
    from assms(1) that consider "d \<in> set (st_discussions s1)" | d1 where "d1 \<in> set (st_discussions s1)"
      "d_discussionId d1 = d_discussionId d" "d_version d < d_version d1" unfolding history_kept_def by blast
    then show ?thesis
    proof cases
      case 2
      with assms(2) have "d1 \<in> set (st_discussions s2) \<or> (\<exists>d'\<in>set (st_discussions s2).
          d_discussionId d' = d_discussionId d1 \<and> d_version d1 < d_version d')" unfolding history_kept_def by blast
      with 2 show ?thesis by force
    qed (use assms(2) in \<open>auto simp: history_kept_def\<close>)
  qed
  moreover have "\<forall>t\<in>set (st_turns s). terminalTurnState (t_state t) \<longrightarrow> t \<in> set (st_turns s2)"
    "\<forall>w\<in>set (st_waves s). w_state w \<noteq> WS_open \<longrightarrow> w \<in> set (st_waves s2)"
    using assms unfolding history_kept_def by simp_all
  moreover have "prefix (st_seals s) (st_seals s2)" "prefix (st_decisions s) (st_decisions s2)"
    "prefix (st_events s) (st_events s2)" "prefix (st_evidence s) (st_evidence s2)"
    using assms unfolding history_kept_def by (blast intro: prefix_order.trans)+
  ultimately show ?thesis unfolding history_kept_def by blast
qed

lemma history_for_each:
  assumes "for_each f xs s = Inr s'" and "\<And>x s s'. f x s = Inr s' \<Longrightarrow> history_kept s s'"
  shows "history_kept s s'"
  by (rule for_each_inv[OF assms(1), where P = "\<lambda>_ s'. history_kept s s'"])
    (auto intro: history_trans dest: assms(2))

lemma history_inserts:
  "insertDecision e s = Inr s' \<Longrightarrow> history_kept s s'"
  "insertBudgetEvent b s = Inr s' \<Longrightarrow> history_kept s s'"
  "insertParticipant q s = Inr s' \<Longrightarrow> history_kept s s'"
  "insertWaveSeal seal s = Inr s' \<Longrightarrow> history_kept s s'"
  "insertTurn t s = Inr s' \<Longrightarrow> history_kept s s'"
  "insertWave w s = Inr s' \<Longrightarrow> history_kept s s'"
  by (auto simp: insertDecision_def insertBudgetEvent_def insertParticipant_def insertWaveSeal_def insertTurn_def
      insertWave_def Let_def bind_eq_Inr insert_row_Inr history_kept_def)

lemma history_updateDiscussions:
  assumes "updateDiscussions P f m s = Inr s'"
    and "\<And>d. d_discussionId (f d) = d_discussionId d \<and> d_version (f d) = d_version d + 1"
  shows "history_kept s s'"
proof -
  have "d \<in> set (map (\<lambda>d. if P d then f d else d) ds) \<or>
      (\<exists>d'\<in>set (map (\<lambda>d. if P d then f d else d) ds). d_discussionId d' = d_discussionId d \<and> d_version d < d_version d')"
    if "d \<in> set ds" for d ds
    using that assms(2)[of d] by (cases "P d") (force simp: image_iff)+
  with assms(1) show ?thesis by (auto simp: updateDiscussions_Inr history_kept_def)
qed

lemma history_close:
  "closeReadyWaveRow waveId i state closedAt v allow s = Inr (done, s') \<Longrightarrow> history_kept s s'"
  by (auto simp: closeReadyWaveRow_Inr history_kept_def wave_ready_def Let_def image_iff)

lemma history_turns:
  assumes "update_rows turn_conflict P f (st_turns s) = Inr (n, rows)"
    and "\<And>t. P t \<Longrightarrow> \<not> terminalTurnState (t_state t)"
  shows "history_kept s (s\<lparr>st_turns := rows\<rparr>)"
  using assms by (auto simp: update_rows_Inr history_kept_def image_iff)

lemma history_waves:
  assumes "update_rows wave_conflict P f (st_waves s) = Inr (n, rows)" and "\<And>w. P w \<Longrightarrow> w_state w = WS_open"
  shows "history_kept s (s\<lparr>st_waves := rows\<rparr>)"
  using assms by (auto simp: update_rows_Inr history_kept_def image_iff)

lemma history_decided:
  "d_discussionId (decided i d) = d_discussionId d \<and> d_version (decided i d) = d_version d + 1"
  by (simp add: decided_def)

lemma history_events: "for_each insertBudgetEvent es s = Inr s' \<Longrightarrow> history_kept s s'"
  by (rule history_for_each) (auto intro: history_inserts)

lemma history_insert_turns: "for_each insertTurn ts s = Inr s' \<Longrightarrow> history_kept s s'"
  by (rule history_for_each) (auto intro: history_inserts)

lemma close_option_history:
  assumes "(case cw of None \<Rightarrow> Inr s | Some c \<Rightarrow> bind (closeReadyWaveRow (cw_waveId c) i (cw_state c) (clk c)
        (cw_expectedVersion c) False s) (\<lambda>(closed, s). bind (ensure closed err) (\<lambda>_. Inr s))) = Inr s'"
  shows "history_kept s s'"
  using assms by (auto simp: bind_eq_Inr split: option.splits prod.splits intro: history_close)

lemma reanchor_history: "reanchorPlannedWave waveId m now s = Inr (w, s') \<Longrightarrow> history_kept s s'"
proof -
  assume "reanchorPlannedWave waveId m now s = Inr (w, s')"
  then obtain wave :: DiscussionWave and n rows k rows' where
    t: "update_rows turn_conflict (\<lambda>t. t_waveId t = Some waveId \<and> t_runId t = None \<and> t_state t = TS_planned)
      (\<lambda>t. t\<lparr>t_inputMessageId := m, t_updatedAt := now\<rparr>) (st_turns s) = Inr (n, rows)"
    and w: "update_rows wave_conflict (\<lambda>w. w_waveId w = waveId \<and> w_version w = w_version wave \<and> w_state w = WS_open)
      (\<lambda>w. w\<lparr>w_inputMessageId := m, w_version := w_version w + 1, w_updatedAt := now\<rparr>) (st_waves s) = Inr (k, rows')"
    and s': "s' = s\<lparr>st_turns := rows\<rparr>\<lparr>st_waves := rows'\<rparr>"
    by (auto simp: reanchorPlannedWave_def bind_eq_Inr Let_def)
  have "history_kept s (s\<lparr>st_turns := rows\<rparr>)" by (rule history_turns[OF t]) auto
  also have "history_kept \<dots> s'"
    unfolding s' by (rule history_waves[where P = "\<lambda>w. w_waveId w = waveId \<and> w_version w = w_version wave \<and> w_state w = WS_open"])
      (use w in auto)
  finally show ?thesis .
qed

lemma apply_history:
  assumes "apply_ready_wave ri s = Inr s'"
  shows "history_kept s s'"
proof -
  let ?i = "de_discussionId (in_decision ri)"
  from assms obtain s2 s3 s4 s5 where
    seal: "(case rw_seal ri of None \<Rightarrow> Inr s | Some seal \<Rightarrow> insertWaveSeal seal s) = Inr s2"
    and dec: "insertDecision (in_decision ri) s2 = Inr s3"
    and upd: "updateDiscussions (expected ?i (in_expectedVersion ri))
     (\<lambda>d. (decided (decision_input.truncate ri) d)\<lparr>
        d_currentTurn := (case rw_nextWave ri of None \<Rightarrow> d_currentTurn d
           | Some plan \<Rightarrow> max_ordinal (wp_turns plan)),
        d_currentWave := (case rw_nextWave ri of None \<Rightarrow> d_currentWave d
           | Some plan \<Rightarrow> Some (w_ordinal (wp_wave plan))),
        d_terminalAt := rw_terminalAt ri\<rparr>) ''Stale Discussion aggregate version'' s3 = Inr s4"
    and nxt: "(case rw_nextWave ri of None \<Rightarrow> Inr s4
     | Some plan \<Rightarrow> bind (insertWave (wp_wave plan) s4) (for_each insertTurn (wp_turns plan))) = Inr s5"
    and ev: "for_each insertBudgetEvent (in_budgetEvents ri) s5 = Inr s'"
    by (auto simp: apply_ready_wave_def Let_def bind_eq_Inr)
  have "history_kept s s2" using seal by (auto split: option.splits intro: history_inserts)
  also have "history_kept s2 s3" using dec by (rule history_inserts)
  also have "history_kept s3 s4" by (rule history_updateDiscussions[OF upd]) (simp add: decided_def)
  also have "history_kept s4 s5"
    using nxt by (auto simp: bind_eq_Inr split: option.splits intro: history_trans history_inserts history_insert_turns)
  also have "history_kept s5 s'" using ev by (rule history_events)
  finally show ?thesis .
qed

lemma plan_history:
  assumes "recordDecisionAndPlanWave L di wave turns s = Inr (d, s')"
  shows "history_kept s s'"
proof -
  let ?i = "de_discussionId (in_decision di)"
  from assms obtain s0 s1 s2 s3 where dec: "insertDecision (in_decision di) s = Inr s0"
    and upd: "updateDiscussions (\<lambda>d. expected ?i (in_expectedVersion di) d \<and> d_currentWave d = Some (w_ordinal wave - 1))
       (\<lambda>d. (decided di d)\<lparr>d_executionModel := Some Exec_parallel_wave,
          d_currentTurn := max_ordinal turns, d_currentWave := Some (w_ordinal wave)\<rparr>)
       ''Stale Discussion aggregate version'' s0 = Inr s1"
    and ins: "insertWave wave s1 = Inr s2" "for_each insertTurn turns s2 = Inr s3"
    and ev: "for_each insertBudgetEvent (in_budgetEvents di) s3 = Inr s'"
    by (auto simp: recordDecisionAndPlanWave_def Let_def bind_eq_Inr)
  have "history_kept s s0" using dec by (rule history_inserts)
  also have "history_kept s0 s1" by (rule history_updateDiscussions[OF upd]) (simp add: decided_def)
  also have "history_kept s1 s2" using ins(1) by (rule history_inserts)
  also have "history_kept s2 s3" using ins(2) by (rule history_insert_turns)
  also have "history_kept s3 s'" using ev by (rule history_events)
  finally show ?thesis .
qed

lemma update_history:
  assumes "recordDecisionAndUpdate di terminalAt cw s = Inr (d, s')"
  shows "history_kept s s'"
proof -
  let ?i = "de_discussionId (in_decision di)"
  from assms obtain s1 s2 s3 where
    a: "(case cw of None \<Rightarrow> Inr s | Some c \<Rightarrow> bind (closeReadyWaveRow (cw_waveId c) ?i (cw_state c) (cw_completedAt c)
        (cw_expectedVersion c) False s) (\<lambda>(closed, s). bind (ensure closed
          (Error ''Discussion Wave is not ready or already closed'')) (\<lambda>_. Inr s))) = Inr s1"
    and b: "insertDecision (in_decision di) s1 = Inr s2"
    and c: "updateDiscussions (expected ?i (in_expectedVersion di))
       (\<lambda>d. (decided di d)\<lparr>d_terminalAt := terminalAt\<rparr>) ''Stale Discussion aggregate version'' s2 = Inr s3"
    and e: "for_each insertBudgetEvent (in_budgetEvents di) s3 = Inr s'"
    by (auto simp: recordDecisionAndUpdate_def Let_def bind_eq_Inr)
  have "history_kept s s1" using a by (rule close_option_history)
  also have "history_kept s1 s2" using b by (rule history_inserts)
  also have "history_kept s2 s3" using c by (rule history_updateDiscussions) (simp add: decided_def)
  also have "history_kept s3 s'" using e by (rule history_events)
  finally show ?thesis .
qed

lemma create_history:
  assumes "createDiscussion d ps e s = Inr s'"
  shows "history_kept s s'"
proof -
  from assms obtain x s2 where
    ps: "for_each insertParticipant ps (s\<lparr>st_discussions := st_discussions s @ [x]\<rparr>) = Inr s2"
    and ev: "insertBudgetEvent e s2 = Inr s'"
    by (auto simp: createDiscussion_def Let_def bind_eq_Inr insert_row_Inr)
  have "history_kept s (s\<lparr>st_discussions := st_discussions s @ [x]\<rparr>)" by (simp add: history_kept_def)
  also have "history_kept \<dots> s2" by (rule history_for_each[OF ps]) (rule history_inserts)
  also have "history_kept s2 s'" using ev by (rule history_inserts)
  finally show ?thesis .
qed

lemma step_history:
  assumes "repo_step L s s'"
  shows "history_kept s s'"
  using assms
proof (cases rule: repo_step.cases)
  case (step_create d ps e)
  then show ?thesis by (blast intro: create_history)
next
  case (step_bind turnId runId state now t)
  then obtain n rows where upd: "update_rows turn_conflict
      (\<lambda>t. t_turnId t = turnId \<and> t_runId t = None \<and> t_state t = TS_planned)
      (\<lambda>t. t\<lparr>t_runId := Some runId, t_state := state, t_updatedAt := now\<rparr>) (st_turns s) = Inr (n, rows)"
    and s': "s' = s\<lparr>st_turns := rows\<rparr>"
    by (clarsimp simp: bindTurnRun_def Let_def bind_eq_Inr; blast)
  show ?thesis unfolding s' by (rule history_turns[OF upd]) auto
next
  case (step_reanchor waveId m now w)
  then show ?thesis by (rule reanchor_history)
next
  case (step_settle input r)
  then obtain n rows where upd: "update_rows turn_conflict
      (\<lambda>t. t_turnId t = si_turnId input \<and> t_state t \<notin> {TS_completed, TS_failed, TS_canceled})
      (settled_turn input) (st_turns s) = Inr (n, rows)" and s': "s' = s\<lparr>st_turns := rows\<rparr>"
    by (auto simp: settleTurn_def Let_def bind_eq_Inr)
  show ?thesis unfolding s' by (rule history_turns[OF upd]) (auto simp: enum_simps)
next
  case (step_update di terminalAt cw d)
  then show ?thesis by (auto intro: update_history)
next
  case (step_plan di wave turns d)
  then show ?thesis by (rule plan_history)
next
  case (step_close waveId v state now r)
  then show ?thesis by (auto simp: closeWave_def bind_eq_Inr split: prod.splits intro: history_close)
next
  case (step_apply ri ar)
  then show ?thesis
    by (auto simp: closeReadyWaveAndApply_def Let_def bind_eq_Inr split: if_splits prod.splits
        intro: history_trans[OF history_close apply_history])
next
  case (step_request i v a st sr now d)
  then show ?thesis by (auto simp: requestAction_def bind_eq_Inr intro: history_updateDiscussions)
next
  case (step_goal i v goal now d)
  then show ?thesis by (auto simp: updateGoal_def bind_eq_Inr intro: history_updateDiscussions)
next
  case (step_finish i v st waveId wv wst now d)
  let ?c = "Some \<lparr>cw_waveId = waveId, cw_state = wst, cw_completedAt = now, cw_expectedVersion = Some wv\<rparr>"
  from step_finish obtain s1 where
    a: "(case ?c of None \<Rightarrow> Inr s | Some c \<Rightarrow> bind (closeReadyWaveRow (cw_waveId c) i (cw_state c) now
        (cw_expectedVersion c) False s) (\<lambda>(closed, s). bind (ensure closed
          (Error ''Finalization Wave is not ready or already closed'')) (\<lambda>_. Inr s))) = Inr s1"
    and c: "updateDiscussions (\<lambda>d. expected i v d \<and> d_state d = DS_finalizing)
      (\<lambda>d. d\<lparr>d_state := st, d_requestedAction := None, d_version := d_version d + 1,
         d_updatedAt := now, d_terminalAt := Some now\<rparr>) ''Stale or non-finalizing Discussion aggregate'' s1 = Inr s'"
    by (auto simp: closeFinalizationAndFinish_def finishFinalization_def bind_eq_Inr)
  have "history_kept s s1" by (rule close_option_history[OF a])
  also have "history_kept s1 s'" using c by (rule history_updateDiscussions) simp
  finally show ?thesis .
next
  case (step_event e)
  then show ?thesis by (rule history_inserts)
next
  case (step_evidence ev r2)
  then show ?thesis
    by (auto simp: retainSupplementalEvidence_def Let_def bind_eq_Inr insert_row_Inr history_kept_def
        split: option.splits)
qed

section \<open>A concrete history\<close>

definition demo_event :: "string \<Rightarrow> int \<Rightarrow> DiscussionBudgetEvent" where
  "demo_event i n = \<lparr>be_budgetEventId = lit i, be_discussionId = lit ''d'', be_ordinal = n,
     be_eventType = BE_lease_granted, be_turns = 4, be_durationSeconds = 0, be_metadata = CNull, be_createdAt = 0\<rparr>"

definition demo_decision :: "decision_input" where
  "demo_decision = \<lparr>in_decision = \<lparr>de_decisionId = lit ''x'', de_discussionId = lit ''d'', de_aggregateVersion = 1,
       de_progressVersion = 0, de_action = DA_continue, de_reason = None, de_nextAgentId = None,
       de_outputMode = OM_none, de_createdAt = 0\<rparr>,
     in_expectedVersion = 1, in_state = DS_active, in_stateReason = None, in_outputMode = OM_final_answer,
     in_progress = emptyProgressSnapshot, in_budget = emptyBudgetSnapshot 4, in_nextSpeakerIndex = 0,
     in_requestedAction = None, in_budgetEvents = []\<rparr>"

abbreviation demo_cs :: "DiscussionParticipantCandidate list" where
  "demo_cs \<equiv> [demo_participant 1 ''a1'' Role_reviewer, demo_participant 0 ''a0'' Role_participant]"

abbreviation demo_members :: "DiscussionParticipant list" where
  "demo_members \<equiv> map cd_participant [demo_participant 0 ''a0'' Role_participant, demo_participant 1 ''a1'' Role_reviewer]"

definition demo_store :: discussion_store where
  "demo_store = empty_store\<lparr>st_discussions := [demo_discussion], st_participants := demo_members,
     st_events := [demo_event ''e'' 1]\<rparr>"

lemma demo_created: "createDiscussion demo_discussion demo_members (demo_event ''e'' 1) empty_store = Inr demo_store"
  by (simp add: createDiscussion_def demo_discussion_def insert_row_def commit_rows_def insertParticipant_def
      insertBudgetEvent_def empty_store_def demo_store_def ensure_def participant_conflict_def demo_participant_def)

lemma demo_store_reachable: "reachable_store L demo_store"
  by (rule reachable_store.step[OF reachable_store.start step_create[OF demo_created]])
    (simp add: demo_discussion_def)

lemma conflict_free_pairs:
  "conflict_free c xs \<longleftrightarrow> (\<forall>i j. i < j \<longrightarrow> j < length xs \<longrightarrow> \<not> c (xs ! i) (xs ! j))"
proof (induction xs)
  case (Cons x xs)
  show ?case
  proof
    assume l: "conflict_free c (x # xs)"
    show "\<forall>i j. i < j \<longrightarrow> j < length (x # xs) \<longrightarrow> \<not> c ((x # xs) ! i) ((x # xs) ! j)"
    proof (intro allI impI)
      fix i j assume "i < j" "j < length (x # xs)"
      with l Cons show "\<not> c ((x # xs) ! i) ((x # xs) ! j)"
        by (cases i; cases j) (auto simp: list_all_length)
    qed
  next
    assume r: "\<forall>i j. i < j \<longrightarrow> j < length (x # xs) \<longrightarrow> \<not> c ((x # xs) ! i) ((x # xs) ! j)"
    have "\<not> c x (xs ! j)" if "j < length xs" for j using r[rule_format, of 0 "Suc j"] that by simp
    moreover have "\<not> c (xs ! i) (xs ! j)" if "i < j" "j < length xs" for i j
      using r[rule_format, of "Suc i" "Suc j"] that by simp
    ultimately show "conflict_free c (x # xs)" using Cons by (simp add: list_all_length)
  qed
qed simp

lemma insert_turns_ok:
  "conflict_free turn_conflict (st_turns s @ ts) \<Longrightarrow>
   for_each insertTurn ts s = Inr (s\<lparr>st_turns := st_turns s @ ts\<rparr>)"
proof (induction ts arbitrary: s)
  case (Cons t ts)
  have "insertTurn t s = Inr (s\<lparr>st_turns := st_turns s @ [t]\<rparr>)"
    using Cons.prems by (simp add: insertTurn_def insert_row_def commit_rows_def ensure_def
        conflict_free_append list_all_iff)
  with Cons.IH[of "s\<lparr>st_turns := st_turns s @ [t]\<rparr>"] Cons.prems show ?case by simp
qed simp

lemma planned_turns_free:
  assumes "distinct (map p_agentId ps)" and "inj tid"
  shows "conflict_free turn_conflict (map (\<lambda>(i, p). planned_turn d m k now wid tid i p) (enumerate 0 ps))"
  unfolding conflict_free_pairs
proof (intro allI impI)
  fix i j assume ij: "i < j" "j < length (map (\<lambda>(i, p). planned_turn d m k now wid tid i p) (enumerate 0 ps))"
  then have at: "map (\<lambda>(i, p). planned_turn d m k now wid tid i p) (enumerate 0 ps) ! x =
      planned_turn d m k now wid tid x (ps ! x)" if "x \<in> {i, j}" for x
    using that by (auto simp: nth_enumerate_eq)
  have "p_agentId (ps ! i) \<noteq> p_agentId (ps ! j)"
    using assms(1) ij by (auto simp: distinct_conv_nth)
  moreover have "tid i \<noteq> tid j" using assms(2) ij(1) by (auto dest: injD)
  ultimately show "\<not> turn_conflict (map (\<lambda>(i, p). planned_turn d m k now wid tid i p) (enumerate 0 ps) ! i)
      (map (\<lambda>(i, p). planned_turn d m k now wid tid i p) (enumerate 0 ps) ! j)"
    using ij(1) unfolding at[of i, simplified] at[of j, simplified]
    by (simp add: turn_conflict_def planned_turn_def some_eq_def)
qed

lemma demo_selectable: "selectable ascii_lib demo_discussion demo_cs"
  by (simp add: selectable_def ascii_tables demo_discussion_def defaultDiscussionPolicy_def
      demo_participant_def emptyProgressSnapshot_def trim_def lit_def is_space_def)

lemma demo_listing: "listParticipants (lit ''d'') demo_store = demo_members"
  by (simp add: listParticipants_def demo_store_def demo_participant_def sort_by_def)

lemma demo_planned:
  "\<exists>sel plan. selectDiscussionParticipants ascii_lib demo_discussion demo_cs False = Inr sel \<and>
    buildWavePlan ascii_lib (lit ''w'') nat_text demo_discussion (ps_participants sel) (lit ''m'')
      Kind_discussion (ps_snapshot sel) 0 = Inr plan"
proof -
  obtain sel where sel: "selectDiscussionParticipants ascii_lib demo_discussion demo_cs False = Inr sel"
    using select_accepted[OF demo_selectable, of False] by (auto simp: accepted_def demo_participant_def)
  from buildWavePlan_ok[OF selection_ok[OF demo_selectable sel]] sel show ?thesis by blast
qed

section \<open>Properties\<close>

lemma distinct_ordinals:
  "conflict_free wave_conflict ws \<Longrightarrow> distinct (map w_ordinal (filter (\<lambda>w. w_discussionId w = i) ws))"
  by (induction ws) (auto simp: list_all_iff wave_conflict_def)

lemma listWaves_ordinals:
  assumes "store_inv s" "d \<in> set (st_discussions s)"
  shows "\<exists>n. d_currentWave d = Some n \<and> map w_ordinal (listWaves (d_discussionId d) s) = [1..n]"
proof -
  let ?ws = "filter (\<lambda>w. w_discussionId w = d_discussionId d) (st_waves s)"
  from assms obtain n where n: "n \<ge> 0" "d_currentWave d = Some n"
    "\<forall>k. 1 \<le> k \<and> k \<le> n \<longrightarrow> (\<exists>w\<in>set (st_waves s). w_discussionId w = d_discussionId d \<and> w_ordinal w = k)"
    unfolding store_inv_def numbered_def by blast
  have cf: "conflict_free wave_conflict (st_waves s)" "conflict_free discussion_conflict (st_discussions s)"
    using assms(1) by (simp_all add: store_inv_def tables_ok_def)
  have upper: "1 \<le> w_ordinal w \<and> w_ordinal w \<le> n" if "w \<in> set ?ws" for w
  proof -
    from that assms(1) obtain d' k where "d' \<in> set (st_discussions s)" "d_discussionId d' = d_discussionId d"
      "d_currentWave d' = Some k" "1 \<le> w_ordinal w" "w_ordinal w \<le> k"
      unfolding store_inv_def numbered_def by fastforce
    moreover from this have "d' = d"
      using discussions.distinct_keys[OF cf(2)] assms(2) by (auto simp: distinct_map inj_on_def)
    ultimately show ?thesis using n(2) by simp
  qed
  have "distinct (map w_ordinal ?ws)" using cf(1) by (rule distinct_ordinals)
  then have dist: "distinct (map w_ordinal (listWaves (d_discussionId d) s))"
    unfolding listWaves_def by (metis mset_map mset_sort_by mset_eq_imp_distinct_iff)
  have "set (map w_ordinal (listWaves (d_discussionId d) s)) = set [1..n]"
  proof -
    have "w_ordinal ` set ?ws = {1..n}"
      using upper n(3) by (force simp: image_iff)
    then show ?thesis by (simp add: listWaves_def)
  qed
  moreover have "sorted (map w_ordinal (listWaves (d_discussionId d) s))"
    unfolding listWaves_def sorted_map using key_cmp.sorted_sort_by[of w_ordinal] by simp
  ultimately have "map w_ordinal (listWaves (d_discussionId d) s) = [1..n]"
    using dist by (intro sorted_distinct_set_unique) auto
  with n(2) show ?thesis by blast
qed

text \<open>
  (C1) In every reachable store the Waves of a Discussion are numbered from one to its current
  Wave without gaps, only the last of them may be open, each has exactly its expected members,
  and a closed Wave has only terminal members unless a seal is stored for it.
\<close>

theorem wave_history_numbered:
  assumes "reachable_store L s" and "d \<in> set (st_discussions s)"
  shows "\<exists>n. d_currentWave d = Some n \<and> map w_ordinal (listWaves (d_discussionId d) s) = [1..n] \<and>
    (\<forall>w\<in>set (listWaves (d_discussionId d) s).
       (w_state w = WS_open \<longrightarrow> w_ordinal w = n) \<and>
       w_expectedMembers w = int (length (listTurnsForWave (w_waveId w) s)) \<and>
       (w_state w = WS_open \<or> (\<exists>seal\<in>set (st_seals s). sl_waveId seal = w_waveId w) \<or>
        (\<forall>t\<in>set (listTurnsForWave (w_waveId w) s). terminalTurnState (t_state t))))"
proof -
  have inv: "store_inv s" using assms(1) by (rule reachable_inv)
  from listWaves_ordinals[OF this assms(2)] obtain n where
    n: "d_currentWave d = Some n" "map w_ordinal (listWaves (d_discussionId d) s) = [1..n]" by blast
  have "(w_state w = WS_open \<longrightarrow> w_ordinal w = n) \<and>
      w_expectedMembers w = int (length (listTurnsForWave (w_waveId w) s)) \<and>
      (w_state w = WS_open \<or> (\<exists>seal\<in>set (st_seals s). sl_waveId seal = w_waveId w) \<or>
       (\<forall>t\<in>set (listTurnsForWave (w_waveId w) s). terminalTurnState (t_state t)))"
    if "w \<in> set (listWaves (d_discussionId d) s)" for w
  proof -
    have w: "w \<in> set (st_waves s)" "w_discussionId w = d_discussionId d" using that by (auto simp: listWaves_def)
    from w(1) inv obtain d' k where "d' \<in> set (st_discussions s)" "d_discussionId d' = w_discussionId w"
      "d_currentWave d' = Some k" "w_state w = WS_open \<longrightarrow> w_ordinal w = k"
      unfolding store_inv_def numbered_def by blast
    moreover from this have "d' = d"
      using discussions.distinct_keys[of "st_discussions s"] inv assms(2) w(2)
      by (auto simp: distinct_map inj_on_def store_inv_def tables_ok_def)
    moreover have "members s w = filter (\<lambda>t. t_waveId t = Some (w_waveId w)) (st_turns s)" by (simp add: members_def)
    moreover have "w_expectedMembers w = int (length (members s w))" "w_state w \<noteq> WS_open \<longrightarrow> justified s w"
      using inv w(1) by (auto simp: store_inv_def populated_def closed_justified_def)
    ultimately show ?thesis
      using n(1) by (auto simp: listTurnsForWave_def justified_def sealed_wave_def)
  qed
  with n show ?thesis by blast
qed

text \<open>
  (C14) No operation takes history back: a terminal Turn and a closed Wave keep every field, seals,
  decisions, budget events and evidence are only appended, and a Discussion is either unchanged
  or replaced by one with a higher version.
\<close>

theorem store_history_immutable:
  assumes "repo_step L s s'"
  shows "(\<forall>t\<in>set (st_turns s). terminalTurnState (t_state t) \<longrightarrow> t \<in> set (st_turns s')) \<and>
     (\<forall>w\<in>set (st_waves s). w_state w \<noteq> WS_open \<longrightarrow> w \<in> set (st_waves s')) \<and>
     (\<forall>d\<in>set (st_discussions s). d \<in> set (st_discussions s') \<or>
        (\<exists>d'\<in>set (st_discussions s'). d_discussionId d' = d_discussionId d \<and> d_version d < d_version d')) \<and>
     prefix (st_seals s) (st_seals s') \<and> prefix (st_decisions s) (st_decisions s') \<and>
     prefix (st_events s) (st_events s') \<and> prefix (st_evidence s) (st_evidence s')"
  using step_history[OF assms] unfolding history_kept_def .

text \<open>A write that expects an outdated version finds no row, whatever it was going to change.\<close>

lemma isl_bindI: "(\<And>y. m = Inr y \<Longrightarrow> isl (f y)) \<Longrightarrow> isl (bind m f)"
  by (cases m) auto

lemma stale_and_update:
  assumes "conflict_free discussion_conflict (st_discussions s)"
    and "getDiscussion i s = Some d" and "d_version d \<noteq> v" and "st_discussions s' = st_discussions s"
  shows "isl (bind (updateDiscussions (\<lambda>d. expected i v d \<and> Q d) f m s') k)"
proof -
  have "x = d" if "x \<in> set (st_discussions s)" "d_discussionId x = i" for x
    using discussions.find_row[OF assms(1), of i x] assms(2) that by (simp add: getDiscussion_def)
  with assms(3,4) have "filter (\<lambda>d. expected i v d \<and> Q d) (st_discussions s') = []"
    by (auto simp: filter_empty_conv expected_def)
  then show ?thesis by (auto simp: updateDiscussions_def update_rows_def bind_def split: sum.splits)
qed

lemmas stale_update = stale_and_update[where Q = "\<lambda>_. True", simplified]

lemma close_option_discussions:
  "(case cw of None \<Rightarrow> Inr s | Some c \<Rightarrow> bind (closeReadyWaveRow (cw_waveId c) i (cw_state c) (t c)
      (cw_expectedVersion c) False s) (\<lambda>(closed, s). bind (ensure closed e) (\<lambda>_. Inr s))) = Inr y \<Longrightarrow>
   st_discussions y = st_discussions s"
  by (auto simp: bind_eq_Inr closeReadyWaveRow_Inr split: option.splits prod.splits)

lemma insertDecision_discussions: "insertDecision x s = Inr s' \<Longrightarrow> st_discussions s' = st_discussions s"
  by (auto simp: bind_eq_Inr insertDecision_def)

lemma stale_decision:
  assumes stale: "conflict_free discussion_conflict (st_discussions s)"
    "getDiscussion i s = Some d" "d_version d \<noteq> v"
    and di: "de_discussionId (in_decision di) = i" "in_expectedVersion di = v"
  shows "isl (recordDecisionAndUpdate di terminalAt cw s)"
    and "isl (recordDecisionAndPlanWave L di wave turns s)"
  unfolding recordDecisionAndUpdate_def recordDecisionAndPlanWave_def Let_def di
  by (intro isl_bindI stale_update[OF stale] stale_and_update[OF stale],
      simp add: close_option_discussions insertDecision_discussions)+

lemma stale_ready_wave:
  assumes "getDiscussion (de_discussionId (in_decision ri)) s = Some d" and "d_version d \<noteq> in_expectedVersion ri"
  shows "case closeReadyWaveAndApply L ri s of Inl e \<Rightarrow> True | Inr (r, s') \<Rightarrow> \<not> aw_applied r \<and> s' = s"
proof -
  have "\<not> wave_applies ri s" using assms by (auto simp: wave_applies_def split: option.splits)
  then show ?thesis by (auto simp: closeReadyWaveAndApply_def Let_def bind_eq_Inr split: sum.splits)
qed

text \<open>
  (C38) A writer that read an older version changes nothing: every decision operation throws, and
  closing a Wave either throws or reports that it was not applied and leaves the store as it was.
\<close>

theorem stale_writer_rejected:
  assumes "conflict_free discussion_conflict (st_discussions s)"
    and "getDiscussion i s = Some d" and "d_version d \<noteq> v"
  shows "isl (requestAction i v a st sr now s) \<and> isl (updateGoal i v goal now s) \<and>
    isl (finishFinalization i v st now cw s) \<and>
    (de_discussionId (in_decision di) = i \<and> in_expectedVersion di = v \<longrightarrow>
       isl (recordDecisionAndUpdate di terminalAt cw s) \<and> isl (recordDecisionAndPlanWave L di wave turns s)) \<and>
    (de_discussionId (in_decision ri) = i \<and> in_expectedVersion ri = v \<longrightarrow>
       (case closeReadyWaveAndApply L ri s of Inl e \<Rightarrow> True | Inr (r, s') \<Rightarrow> \<not> aw_applied r \<and> s' = s))"
proof (intro conjI impI)
  show "isl (requestAction i v a st sr now s)" "isl (updateGoal i v goal now s)"
    unfolding requestAction_def updateGoal_def by (rule stale_update[OF assms refl])+
  show "isl (finishFinalization i v st now cw s)"
    unfolding finishFinalization_def
    by (rule isl_bindI, rule stale_and_update[OF assms close_option_discussions])
qed (use stale_decision[OF assms] stale_ready_wave assms(2,3) in auto)

lemma demo_validated:
  "\<exists>sel plan. selectDiscussionParticipants ascii_lib demo_discussion demo_cs False = Inr sel \<and>
    buildWavePlan ascii_lib (lit ''w'') nat_text demo_discussion (ps_participants sel) (lit ''m'')
      Kind_discussion (ps_snapshot sel) 0 = Inr plan \<and>
    validateWavePlan ascii_lib (wp_wave plan) (wp_turns plan) demo_store = Inr ()"
proof -
  obtain sel plan where sel: "selectDiscussionParticipants ascii_lib demo_discussion demo_cs False = Inr sel"
    and plan: "buildWavePlan ascii_lib (lit ''w'') nat_text demo_discussion (ps_participants sel) (lit ''m'')
      Kind_discussion (ps_snapshot sel) 0 = Inr plan" using demo_planned by blast
  have id: "d_discussionId demo_discussion = lit ''d''" by (simp add: demo_discussion_def)
  have "validateWavePlan ascii_lib (wp_wave plan) (wp_turns plan) demo_store = Inr ()"
  proof (rule planned_wave_ok[OF demo_selectable sel])
    show "buildWavePlan ascii_lib (lit ''w'') nat_text demo_discussion (ps_participants sel) (lit ''m'')
      (if False then Kind_finalization else Kind_discussion) (ps_snapshot sel) 0 = Inr plan" using plan by simp
  qed (simp_all add: id demo_listing, simp_all add: demo_participant_def)
  with sel plan show ?thesis by blast
qed

lemma demo_first_wave:
  "\<exists>d (plan :: WavePlan) s. recordDecisionAndPlanWave ascii_lib demo_decision (wp_wave plan) (wp_turns plan) demo_store = Inr (d, s) \<and>
    st_waves s = [wp_wave plan] \<and> w_state (wp_wave plan) = WS_open \<and> w_ordinal (wp_wave plan) = 1 \<and>
    st_discussions s = [d] \<and> d_discussionId d = lit ''d'' \<and> d_version d = 2"
proof -
  obtain sel plan where sel: "selectDiscussionParticipants ascii_lib demo_discussion demo_cs False = Inr sel"
    and plan: "buildWavePlan ascii_lib (lit ''w'') nat_text demo_discussion (ps_participants sel) (lit ''m'')
      Kind_discussion (ps_snapshot sel) 0 = Inr plan"
    and valid: "validateWavePlan ascii_lib (wp_wave plan) (wp_turns plan) demo_store = Inr ()"
    using demo_validated by blast
  note f = buildWavePlan_Inr[OF plan]
  have wave: "w_selection (wp_wave plan) = Some (ps_snapshot sel)" "w_discussionId (wp_wave plan) = lit ''d''"
    "w_ordinal (wp_wave plan) = 1"
    using plan by (auto simp: buildWavePlan_def bind_eq_Inr Let_def demo_discussion_def split: if_splits)
  have "distinct (map p_agentId (ps_participants sel))"
    using selectedIds_of_assert[OF selection_ok(2)[OF demo_selectable sel]] by simp
  then have free: "conflict_free turn_conflict (wp_turns plan)"
    unfolding f(3) by (rule planned_turns_free) (auto simp: inj_def dest: nat_text_inj)
  let ?s = "demo_store\<lparr>st_decisions := [in_decision demo_decision],
      st_discussions := [(decided demo_decision demo_discussion)\<lparr>d_executionModel := Some Exec_parallel_wave,
        d_currentTurn := max_ordinal (wp_turns plan), d_currentWave := Some 1\<rparr>], st_waves := [wp_wave plan]\<rparr>"
  have "for_each insertTurn (wp_turns plan) ?s = Inr (?s\<lparr>st_turns := wp_turns plan\<rparr>)"
    using insert_turns_ok[of ?s "wp_turns plan"] free by (simp add: demo_store_def empty_store_def)
  then have "recordDecisionAndPlanWave ascii_lib demo_decision (wp_wave plan) (wp_turns plan) demo_store =
      Inr (hd (st_discussions ?s), ?s\<lparr>st_turns := wp_turns plan\<rparr>)"
    using valid wave
    by (simp add: recordDecisionAndPlanWave_def Let_def insertDecision_def insert_row_def commit_rows_def
        updateDiscussions_def update_rows_def insertWave_def ensure_def demo_decision_def demo_store_def
        empty_store_def expected_def decided_def demo_discussion_def requireDiscussion_def getDiscussion_def)
  with f(6) wave(3) show ?thesis
    by (intro exI[of _ "hd (st_discussions ?s)"] exI[of _ plan] exI[of _ "?s\<lparr>st_turns := wp_turns plan\<rparr>"])
      (simp add: decided_def demo_discussion_def)
qed

theorem wave_history_numbered_witness:
  "\<exists>s w. reachable_store ascii_lib s \<and> listWaves (lit ''d'') s = [w] \<and> w_ordinal w = 1 \<and>
    w_expectedMembers w = int (length (listTurnsForWave (w_waveId w) s))"
proof -
  obtain d s and plan :: WavePlan where run: "recordDecisionAndPlanWave ascii_lib demo_decision (wp_wave plan) (wp_turns plan)
      demo_store = Inr (d, s)" and s: "st_waves s = [wp_wave plan]" "st_discussions s = [d]" "d_discussionId d = lit ''d''"
    "w_ordinal (wp_wave plan) = 1"
    using demo_first_wave by blast
  have reach: "reachable_store ascii_lib s"
    by (rule reachable_store.step[OF demo_store_reachable step_plan[OF run]])
  have "w_discussionId (wp_wave plan) = lit ''d''"
    using run by (auto simp: recordDecisionAndPlanWave_def Let_def bind_eq_Inr demo_decision_def)
  then have waves: "listWaves (lit ''d'') s = [wp_wave plan]" by (simp add: listWaves_def s(1) sort_by_def)
  from wave_history_numbered[OF reach, of d] s waves reach show ?thesis by auto
qed

theorem store_history_immutable_witness:
  "\<exists>s. repo_step ascii_lib demo_store s \<and> prefix (st_events demo_store) (st_events s)"
proof -
  obtain d s and plan :: WavePlan where run: "recordDecisionAndPlanWave ascii_lib demo_decision (wp_wave plan) (wp_turns plan)
      demo_store = Inr (d, s)" using demo_first_wave by blast
  from step_plan[OF run] store_history_immutable[OF step_plan[OF run]] show ?thesis by blast
qed

theorem stale_writer_rejected_witness:
  "isl (updateGoal (lit ''d'') 7 (lit ''g'') 0 demo_store)"
proof -
  have "conflict_free discussion_conflict (st_discussions demo_store)" by (simp add: demo_store_def)
  moreover have "getDiscussion (lit ''d'') demo_store = Some demo_discussion"
    by (simp add: getDiscussion_def demo_store_def demo_discussion_def)
  moreover have "d_version demo_discussion \<noteq> 7" by (simp add: demo_discussion_def)
  ultimately show ?thesis using stale_writer_rejected by blast
qed

text \<open>
  From planner to store: the plan built from any selection among a Discussion's participants
  passes the repository's validation of Wave plans.
\<close>

theorem planned_wave_validated:
  assumes sel: "selectable L d cs" "selectDiscussionParticipants L d cs fin = Inr sel"
    and plan: "buildWavePlan L wid tid d (ps_participants sel) m
      (if fin then Kind_finalization else Kind_discussion) (ps_snapshot sel) now = Inr plan"
    and store: "\<forall>c\<in>set cs. cd_participant c \<in> set (listParticipants (d_discussionId d) s)"
      "\<forall>p\<in>set (listParticipants (d_discussionId d) s). \<forall>q\<in>set (listParticipants (d_discussionId d) s).
         p_role p = Role_reviewer \<longrightarrow> p_role q = Role_reviewer \<longrightarrow> p = q"
    and size: "length cs \<le> 5"
  shows "validateWavePlan L (wp_wave plan) (wp_turns plan) s = Inr ()"
  using assms by (rule planned_wave_ok)

theorem planned_wave_validated_witness:
  "\<exists>sel plan. selectDiscussionParticipants ascii_lib demo_discussion demo_cs False = Inr sel \<and>
    buildWavePlan ascii_lib (lit ''w'') nat_text demo_discussion (ps_participants sel) (lit ''m'')
      Kind_discussion (ps_snapshot sel) 0 = Inr plan \<and>
    validateWavePlan ascii_lib (wp_wave plan) (wp_turns plan) demo_store = Inr ()"
proof -
  obtain sel plan where sel: "selectDiscussionParticipants ascii_lib demo_discussion demo_cs False = Inr sel"
    and plan: "buildWavePlan ascii_lib (lit ''w'') nat_text demo_discussion (ps_participants sel) (lit ''m'')
      Kind_discussion (ps_snapshot sel) 0 = Inr plan" using demo_planned by blast
  have id: "d_discussionId demo_discussion = lit ''d''" by (simp add: demo_discussion_def)
  have "validateWavePlan ascii_lib (wp_wave plan) (wp_turns plan) demo_store = Inr ()"
  proof (rule planned_wave_validated[OF demo_selectable sel])
    show "buildWavePlan ascii_lib (lit ''w'') nat_text demo_discussion (ps_participants sel) (lit ''m'')
      (if False then Kind_finalization else Kind_discussion) (ps_snapshot sel) 0 = Inr plan" using plan by simp
  qed (simp_all add: id demo_listing, simp_all add: demo_participant_def)
  with sel plan show ?thesis by blast
qed

end
