(* ===== verification/Agent_Mentions.thy ===== *)
theory Agent_Mentions
  imports Text_Library
begin

text \<open>
  Which Agents a message names (\<^verbatim>\<open>apps/server/src/team-room/exact-agent-mentions.ts\<close>). A mention
  is \<^verbatim>\<open>@name\<close> between boundaries; where several names match at one place the longest
  counts, and a name of several Agents is ambiguous. An \<^verbatim>\<open>Iterable\<close> of map keys is the list of
  the distinct names in the order of their first Agent.
\<close>

section \<open>Finding mentions\<close>

record MentionableAgent =
  ma_agentId :: jstring
  ma_name :: jstring

record ExactAgentMentionResolution =
  mr_agentIds :: "jstring list"
  mr_ambiguousNames :: "jstring list"
  mr_usesAll :: bool

definition mentionBoundaryPunctuation :: "code_unit set" where
  "mentionBoundaryPunctuation =
    {0x28, 0x29, 0x5B, 0x5D, 0x7B, 0x7D, 0x3C, 0x3E, 0x2C, 0x2E, 0x21, 0x3F, 0x3B, 0x3A, 0x27, 0x22,
     0xFF0C, 0x3002, 0xFF01, 0xFF1F, 0xFF1B, 0xFF1A, 0xFF08, 0xFF09, 0x3010, 0x3011, 0x300A, 0x300B}"

definition isMentionBoundary :: "code_unit option \<Rightarrow> bool" where
  "isMentionBoundary character =
    (case character of None \<Rightarrow> True | Some c \<Rightarrow> is_space c \<or> c \<in> mentionBoundaryPunctuation)"

text \<open>\<^verbatim>\<open>content.indexOf(token, from)\<close> and \<^verbatim>\<open>content[index]\<close>.\<close>

definition occurs_at :: "jstring \<Rightarrow> jstring \<Rightarrow> nat \<Rightarrow> bool" where
  "occurs_at content token i \<longleftrightarrow> take (length token) (drop i content) = token"

definition index_of :: "jstring \<Rightarrow> jstring \<Rightarrow> nat \<Rightarrow> nat option" where
  "index_of content token start = find (occurs_at content token) [start..<Suc (length content)]"

definition char_at :: "jstring \<Rightarrow> nat \<Rightarrow> code_unit option" where
  "char_at content i = (if i < length content then Some (content ! i) else None)"

definition mention_token :: "jstring \<Rightarrow> jstring" where
  "mention_token name = 0x40 # name"

definition bounded_at :: "jstring \<Rightarrow> jstring \<Rightarrow> nat \<Rightarrow> bool" where
  "bounded_at content token i \<longleftrightarrow>
     isMentionBoundary (if i = 0 then None else char_at content (i - 1)) \<and>
     isMentionBoundary (char_at content (i + length token))"

lemma index_of_Some:
  "index_of content token start = Some i \<longleftrightarrow>
     start \<le> i \<and> i \<le> length content \<and> occurs_at content token i \<and>
     (\<forall>j. start \<le> j \<and> j < i \<longrightarrow> \<not> occurs_at content token j)"
proof -
  have nth: "k < Suc (length content) - start \<Longrightarrow> [start..<Suc (length content)] ! k = start + k" for k
    by (simp only: nth_upt)
  show ?thesis unfolding index_of_def find_Some_iff
    apply (auto simp: nth simp del: upt_Suc)
     apply (metis add.commute add_less_imp_less_right le_iff_add)
    apply (rule exI[of _ "i - start"], auto simp: nth simp del: upt_Suc)
    done
qed

lemma index_of_None:
  "index_of content token start = None \<longleftrightarrow>
     (\<forall>i. start \<le> i \<and> i \<le> length content \<longrightarrow> \<not> occurs_at content token i)"
  unfolding index_of_def find_None_iff by (auto simp del: upt_Suc)

text \<open>The loop of \<open>findMentionTokens\<close>, from the place the next search starts at.\<close>

function mention_loop :: "jstring \<Rightarrow> jstring \<Rightarrow> nat \<Rightarrow> nat list" where
  "mention_loop content name start =
     (case index_of content (mention_token name) start of
        None \<Rightarrow> []
      | Some index \<Rightarrow>
          let rest = mention_loop content name (index + length (mention_token name))
          in if bounded_at content (mention_token name) index then index # rest else rest)"
  by pat_completeness auto

termination
  by (relation "measure (\<lambda>(content, name, start). Suc (length content) - start)")
    (auto simp: index_of_Some mention_token_def)

declare mention_loop.simps [simp del]

definition findMentionTokens :: "jstring \<Rightarrow> jstring \<Rightarrow> nat list" where
  "findMentionTokens content name = mention_loop content name 0"

definition findMentionToken :: "jstring \<Rightarrow> jstring \<Rightarrow> nat option" where
  "findMentionToken content name = (case findMentionTokens content name of [] \<Rightarrow> None | i # _ \<Rightarrow> Some i)"

section \<open>Resolving mentions\<close>

definition mention_candidates :: "jstring \<Rightarrow> jstring list \<Rightarrow> (nat \<times> jstring) list" where
  "mention_candidates content names =
     concat (map (\<lambda>name. map (\<lambda>i. (i, name)) (findMentionTokens content name)) names)"

fun keep_longest :: "nat \<Rightarrow> nat \<Rightarrow> nat \<times> jstring \<Rightarrow> nat" where
  "keep_longest i m (j, name) = (if j = i then max m (length name) else m)"

definition longest_at :: "(nat \<times> jstring) list \<Rightarrow> nat \<Rightarrow> nat" where
  "longest_at candidates i = foldl (keep_longest i) 0 candidates"

fun keep_first :: "(nat \<Rightarrow> nat) \<Rightarrow> jstring \<Rightarrow> nat option \<Rightarrow> nat \<times> jstring \<Rightarrow> nat option" where
  "keep_first longest n m (j, name) =
     (if length name \<noteq> longest j \<or> name \<noteq> n then m
      else Some (min (case m of None \<Rightarrow> j | Some k \<Rightarrow> k) j))"

definition first_index :: "(nat \<times> jstring) list \<Rightarrow> jstring \<Rightarrow> nat option" where
  "first_index candidates n = foldl (keep_first (longest_at candidates) n) None candidates"

definition longestMentionIndexes :: "jstring \<Rightarrow> jstring list \<Rightarrow> jstring \<Rightarrow> nat option" where
  "longestMentionIndexes content names = first_index (mention_candidates content names)"

abbreviation by_index :: "nat \<times> 'a \<Rightarrow> nat \<times> 'a \<Rightarrow> int" where
  "by_index a b \<equiv> int (fst a) - int (fst b)"

definition same_name :: "MentionableAgent list \<Rightarrow> jstring \<Rightarrow> MentionableAgent list" where
  "same_name knownAgents name = filter (\<lambda>a. ma_name a = name) knownAgents"

text \<open>The body of the loop over the names: a match or an ambiguity, with its place.\<close>

definition match_of :: "jstring list \<Rightarrow> MentionableAgent list \<Rightarrow> nat option \<Rightarrow> (nat \<times> jstring) list" where
  "match_of eligible same index =
    (case index of None \<Rightarrow> []
     | Some i \<Rightarrow> if length same \<noteq> 1 then []
         else if ma_agentId (same ! 0) \<in> set eligible then [(i, ma_agentId (same ! 0))] else [])"

definition ambiguity_of ::
  "jstring list \<Rightarrow> MentionableAgent list \<Rightarrow> jstring \<Rightarrow> nat option \<Rightarrow> (nat \<times> jstring) list" where
  "ambiguity_of eligible same name index =
    (case index of None \<Rightarrow> []
     | Some i \<Rightarrow> if length same \<noteq> 1 \<and> (\<exists>a\<in>set same. ma_agentId a \<in> set eligible) then [(i, name)] else [])"

definition resolveExactAgentMentions ::
  "jstring \<Rightarrow> MentionableAgent list \<Rightarrow> MentionableAgent list \<Rightarrow> ExactAgentMentionResolution" where
  "resolveExactAgentMentions content agents knownAgents =
    (if findMentionToken content (lit ''all'') \<noteq> None
     then \<lparr>mr_agentIds = js_set (map ma_agentId agents), mr_ambiguousNames = [], mr_usesAll = True\<rparr>
     else
     let eligible = map ma_agentId agents;
         names = js_set (map ma_name knownAgents);
         indexes = longestMentionIndexes content names;
         matches = concat (map (\<lambda>name. match_of eligible (same_name knownAgents name) (indexes name)) names);
         ambiguous = concat (map (\<lambda>name. ambiguity_of eligible (same_name knownAgents name) name (indexes name)) names)
     in \<lparr>mr_agentIds = map snd (sort_by by_index matches),
         mr_ambiguousNames = map snd (sort_by by_index ambiguous), mr_usesAll = False\<rparr>)"

definition containsExactAllMention :: "jstring \<Rightarrow> bool" where
  "containsExactAllMention content \<longleftrightarrow> findMentionToken content (lit ''all'') \<noteq> None"

section \<open>Lemmas\<close>

text \<open>A place of a message that names an Agent: \<^verbatim>\<open>@name\<close> between boundaries.\<close>

definition mentioned_at :: "jstring \<Rightarrow> jstring \<Rightarrow> nat \<Rightarrow> bool" where
  "mentioned_at content name i \<longleftrightarrow> i < length content \<and>
     occurs_at content (mention_token name) i \<and> bounded_at content (mention_token name) i"

lemma occurs_at_nth:
  assumes "occurs_at content token i" "k < length token"
  shows "i + k < length content" "content ! (i + k) = token ! k"
proof -
  have len: "length (take (length token) (drop i content)) = length token"
    using assms(1) by (simp add: occurs_at_def)
  then show "i + k < length content" using assms(2) by simp
  have "take (length token) (drop i content) ! k = token ! k" using assms(1) by (simp add: occurs_at_def)
  then show "content ! (i + k) = token ! k" using assms(2) len by simp
qed

text \<open>Without an \<^verbatim>\<open>@\<close> in the name two mentions of it cannot overlap.\<close>

lemma no_overlap:
  assumes "0x40 \<notin> set name" and "occurs_at content (mention_token name) i"
    and "occurs_at content (mention_token name) j" and "i < j"
  shows "i + length (mention_token name) \<le> j"
proof (rule ccontr)
  assume "\<not> ?thesis"
  then have k: "j - i < length (mention_token name)" using assms(4) by simp
  from occurs_at_nth(2)[OF assms(2) k] assms(4) have "content ! j = mention_token name ! (j - i)" by simp
  moreover have "content ! j = 0x40"
    using occurs_at_nth(2)[OF assms(3), of 0] by (simp add: mention_token_def)
  moreover have "mention_token name ! (j - i) \<in> set name"
    using k assms(4) by (cases "j - i") (auto simp: mention_token_def)
  ultimately show False using assms(1) by simp
qed

lemma mention_loop_sound: "i \<in> set (mention_loop content name start) \<Longrightarrow> mentioned_at content name i"
proof (induction content name start rule: mention_loop.induct)
  case (1 content name start)
  note loop = mention_loop.simps[of content name start]
  show ?case
  proof (cases "index_of content (mention_token name) start")
    case None
    with 1(2) loop show ?thesis by simp
  next
    case (Some index)
    then have "index < length content" "occurs_at content (mention_token name) index"
      using occurs_at_nth(1)[of content "mention_token name" index 0]
      by (auto simp: mention_token_def index_of_Some)
    then have here: "bounded_at content (mention_token name) index \<Longrightarrow> mentioned_at content name index"
      by (simp add: mentioned_at_def)
    from 1(2) loop Some consider "i = index" "bounded_at content (mention_token name) index"
      | "i \<in> set (mention_loop content name (index + length (mention_token name)))"
      by (auto simp: Let_def split: if_splits)
    then show ?thesis using here 1(1)[OF Some] by cases simp_all
  qed
qed

lemma mention_loop_complete:
  assumes "0x40 \<notin> set name" "mentioned_at content name i"
  shows "start \<le> i \<Longrightarrow> i \<in> set (mention_loop content name start)"
  using assms
proof (induction content name start rule: mention_loop.induct)
  case (1 content name start)
  from 1 have occ: "occurs_at content (mention_token name) i" "i \<le> length content"
    by (simp_all add: mentioned_at_def)
  with 1 obtain index where index: "index_of content (mention_token name) start = Some index" "index \<le> i"
    by (metis index_of_None index_of_Some not_less option.exhaust)
  then have at_index: "occurs_at content (mention_token name) index" by (simp add: index_of_Some)
  show ?case
  proof (cases "index = i")
    case True
    with index 1 show ?thesis
      by (subst mention_loop.simps) (simp add: Let_def mentioned_at_def)
  next
    case False
    with index no_overlap[OF 1(3) at_index occ(1)] have "index + length (mention_token name) \<le> i" by simp
    from 1(1)[OF index(1) this 1(3,4)] index show ?thesis
      by (subst mention_loop.simps) (simp add: Let_def)
  qed
qed

lemma findMentionTokens_exact:
  "0x40 \<notin> set name \<Longrightarrow> set (findMentionTokens content name) = {i. mentioned_at content name i}"
  unfolding findMentionTokens_def using mention_loop_sound mention_loop_complete[of name content _ 0] by blast

lemma longest_bounds:
  "m0 \<le> foldl (keep_longest i) m0 candidates \<and>
   (\<forall>name. (i, name) \<in> set candidates \<longrightarrow> length name \<le> foldl (keep_longest i) m0 candidates)"
proof (induction candidates arbitrary: m0)
  case (Cons c cs)
  have up: "m0 \<le> keep_longest i m0 c" "c = (i, n) \<Longrightarrow> length n \<le> keep_longest i m0 c" for n
    by (cases c; simp)+
  from Cons[of "keep_longest i m0 c"] up show ?case by (auto intro: le_trans)
qed simp

lemma longest_attained:
  "foldl (keep_longest i) m0 candidates = m0 \<or>
   (\<exists>name. (i, name) \<in> set candidates \<and> length name = foldl (keep_longest i) m0 candidates)"
proof (induction candidates arbitrary: m0)
  case (Cons c cs)
  have "keep_longest i m0 c = m0 \<or> (\<exists>n. c = (i, n) \<and> keep_longest i m0 c = length n)"
    by (cases c) (simp add: max_def)
  with Cons[of "keep_longest i m0 c"] show ?case by auto
qed simp

lemma longest_at_iff:
  "(i, n) \<in> set candidates \<Longrightarrow>
   length n = longest_at candidates i \<longleftrightarrow> (\<forall>m. (i, m) \<in> set candidates \<longrightarrow> length m \<le> length n)"
  using longest_bounds[of 0 i candidates] longest_attained[of i 0 candidates]
  unfolding longest_at_def by (metis le_antisym le_zero_eq)

lemma first_index_None:
  "foldl (keep_first l n) m0 candidates = None \<longleftrightarrow>
   m0 = None \<and> (\<forall>j. (j, n) \<in> set candidates \<longrightarrow> length n \<noteq> l j)"
proof (induction candidates arbitrary: m0)
  case (Cons c cs)
  have "keep_first l n m0 c = None \<longleftrightarrow> m0 = None \<and> (\<forall>j. c = (j, n) \<longrightarrow> length n \<noteq> l j)"
    by (cases c) auto
  with Cons[of "keep_first l n m0 c"] show ?case by auto
qed simp

lemma mention_candidates_iff:
  assumes "\<forall>name\<in>set names. 0x40 \<notin> set name"
  shows "(i, name) \<in> set (mention_candidates content names) \<longleftrightarrow>
    name \<in> set names \<and> mentioned_at content name i"
  using assms findMentionTokens_exact by (auto simp: mention_candidates_def)

text \<open>A name counts when, at some place, it is mentioned and no longer known name is.\<close>

definition named_in :: "jstring \<Rightarrow> jstring list \<Rightarrow> jstring \<Rightarrow> bool" where
  "named_in content names name \<longleftrightarrow>
     name \<in> set names \<and> (\<exists>i<length content. mentioned_at content name i \<and>
       (\<forall>other\<in>set names. mentioned_at content other i \<longrightarrow> length other \<le> length name))"

lemma longestMentionIndexes_iff:
  assumes "\<forall>name\<in>set names. 0x40 \<notin> set name"
  shows "longestMentionIndexes content names name \<noteq> None \<longleftrightarrow> named_in content names name"
proof -
  let ?C = "mention_candidates content names"
  have "longestMentionIndexes content names name \<noteq> None \<longleftrightarrow>
      (\<exists>j. (j, name) \<in> set ?C \<and> length name = longest_at ?C j)"
    unfolding longestMentionIndexes_def first_index_def first_index_None by auto
  also have "\<dots> \<longleftrightarrow> (\<exists>j. (j, name) \<in> set ?C \<and> (\<forall>m. (j, m) \<in> set ?C \<longrightarrow> length m \<le> length name))"
    using longest_at_iff by blast
  also have "\<dots> \<longleftrightarrow> named_in content names name"
    unfolding mention_candidates_iff[OF assms] named_in_def mentioned_at_def by blast
  finally show ?thesis .
qed

lemma named_in_set: "set ns = set ms \<Longrightarrow> named_in content ns name = named_in content ms name"
  by (simp add: named_in_def)

lemma set_match_of:
  "(i, x) \<in> set (match_of eligible same index) \<longleftrightarrow>
     index = Some i \<and> (\<exists>a. same = [a] \<and> x = ma_agentId a \<and> x \<in> set eligible)"
  by (auto simp: match_of_def length_Suc_conv One_nat_def split: option.splits)

lemma set_ambiguity_of:
  "(i, x) \<in> set (ambiguity_of eligible same name index) \<longleftrightarrow>
     index = Some i \<and> x = name \<and> length same \<noteq> 1 \<and> (\<exists>a\<in>set same. ma_agentId a \<in> set eligible)"
  by (auto simp: ambiguity_of_def split: option.splits)

lemma same_name_single: "same_name knownAgents name = [a] \<Longrightarrow> ma_name a = name \<and> a \<in> set knownAgents"
  using set_filter[of "\<lambda>a. ma_name a = name" knownAgents] by (auto simp: same_name_def)

section \<open>Properties\<close>

text \<open>\<^verbatim>\<open>@all\<close> counts like a name: it stands somewhere between boundaries.\<close>

lemma findMentionToken_None: "findMentionToken content name = None \<longleftrightarrow> findMentionTokens content name = []"
  by (simp add: findMentionToken_def split: list.split)

lemma containsExactAllMention_iff: "containsExactAllMention content \<longleftrightarrow> (\<exists>i. mentioned_at content (lit ''all'') i)"
proof -
  have "0x40 \<notin> set (lit ''all'')" by code_simp
  from findMentionTokens_exact[OF this, of content] show ?thesis
    unfolding containsExactAllMention_def findMentionToken_None by (auto simp flip: set_empty)
qed

lemma mentions_without_all:
  assumes "\<forall>a\<in>set knownAgents. 0x40 \<notin> set (ma_name a)" and "\<not> containsExactAllMention content"
  shows "set (mr_agentIds (resolveExactAgentMentions content agents knownAgents)) =
      {ma_agentId a | a. same_name knownAgents (ma_name a) = [a] \<and> ma_agentId a \<in> ma_agentId ` set agents \<and>
         named_in content (map ma_name knownAgents) (ma_name a)} \<and>
    set (mr_ambiguousNames (resolveExactAgentMentions content agents knownAgents)) =
      {name. named_in content (map ma_name knownAgents) name \<and> length (same_name knownAgents name) \<noteq> 1 \<and>
         (\<exists>a\<in>set (same_name knownAgents name). ma_agentId a \<in> ma_agentId ` set agents)}"
proof -
  let ?names = "js_set (map ma_name knownAgents)" and ?e = "map ma_agentId agents"
  let ?r = "resolveExactAgentMentions content agents knownAgents"
  have names: "\<forall>name\<in>set ?names. 0x40 \<notin> set name" using assms(1) by auto
  have found: "(\<exists>i. longestMentionIndexes content ?names name = Some i) \<longleftrightarrow>
      named_in content (map ma_name knownAgents) name" for name
    using longestMentionIndexes_iff[OF names, of content name] named_in_set[of ?names "map ma_name knownAgents"]
    by simp
  have known: "named_in content (map ma_name knownAgents) name \<Longrightarrow> name \<in> set ?names" for name
    by (simp add: named_in_def)
  have r: "mr_agentIds ?r = map snd (sort_by by_index (concat (map (\<lambda>name. match_of ?e
        (same_name knownAgents name) (longestMentionIndexes content ?names name)) ?names)))"
    "mr_ambiguousNames ?r = map snd (sort_by by_index (concat (map (\<lambda>name. ambiguity_of ?e
        (same_name knownAgents name) name (longestMentionIndexes content ?names name)) ?names)))"
    using assms(2) by (simp_all add: resolveExactAgentMentions_def containsExactAllMention_def Let_def)
  have "x \<in> set (mr_agentIds ?r) \<longleftrightarrow> (\<exists>a. x = ma_agentId a \<and> same_name knownAgents (ma_name a) = [a] \<and>
      x \<in> set ?e \<and> named_in content (map ma_name knownAgents) (ma_name a))" for x
  proof -
    have "x \<in> set (mr_agentIds ?r) \<longleftrightarrow> (\<exists>name\<in>set ?names. \<exists>i. (i, x) \<in> set (match_of ?e
        (same_name knownAgents name) (longestMentionIndexes content ?names name)))"
      unfolding r by (simp add: image_iff Bex_def) blast
    then show ?thesis unfolding set_match_of using found known same_name_single by blast
  qed
  moreover have "x \<in> set (mr_ambiguousNames ?r) \<longleftrightarrow> named_in content (map ma_name knownAgents) x \<and>
      length (same_name knownAgents x) \<noteq> 1 \<and> (\<exists>a\<in>set (same_name knownAgents x). ma_agentId a \<in> set ?e)" for x
  proof -
    have "x \<in> set (mr_ambiguousNames ?r) \<longleftrightarrow> (\<exists>name\<in>set ?names. \<exists>i. (i, x) \<in> set (ambiguity_of ?e
        (same_name knownAgents name) name (longestMentionIndexes content ?names name)))"
      unfolding r by (simp add: image_iff Bex_def) blast
    then show ?thesis unfolding set_ambiguity_of using found known by blast
  qed
  ultimately show ?thesis by (simp only: set_eq_iff mem_Collect_eq set_map) blast
qed

text \<open>
  (C27) A message is addressed to all exactly when \<^verbatim>\<open>@all\<close> stands in it between boundaries; it is then
  routed to every eligible Agent and names nobody ambiguously. Any other message is routed to exactly
  the eligible Agents with a unique name that is mentioned, between boundaries, at a place where no
  longer known name is, and its ambiguous names are exactly those that several Agents share, one of
  them eligible, and that are mentioned so. No known Agent name holds an \<^verbatim>\<open>@\<close> here: the search
  goes on behind a match, so the places of such a name can hide one another.
\<close>

theorem mentions_exact:
  assumes "\<forall>a\<in>set knownAgents. 0x40 \<notin> set (ma_name a)"
  shows "mr_usesAll (resolveExactAgentMentions content agents knownAgents) =
      (\<exists>i. mentioned_at content (lit ''all'') i) \<and>
    set (mr_agentIds (resolveExactAgentMentions content agents knownAgents)) =
      (if \<exists>i. mentioned_at content (lit ''all'') i then ma_agentId ` set agents
       else {ma_agentId a | a. same_name knownAgents (ma_name a) = [a] \<and> ma_agentId a \<in> ma_agentId ` set agents \<and>
         named_in content (map ma_name knownAgents) (ma_name a)}) \<and>
    set (mr_ambiguousNames (resolveExactAgentMentions content agents knownAgents)) =
      (if \<exists>i. mentioned_at content (lit ''all'') i then {}
       else {name. named_in content (map ma_name knownAgents) name \<and> length (same_name knownAgents name) \<noteq> 1 \<and>
         (\<exists>a\<in>set (same_name knownAgents name). ma_agentId a \<in> ma_agentId ` set agents)})"
proof (cases "containsExactAllMention content")
  case True
  moreover from True have "\<exists>i. mentioned_at content (lit ''all'') i" by (simp add: containsExactAllMention_iff)
  ultimately show ?thesis by (simp add: resolveExactAgentMentions_def containsExactAllMention_def)
next
  case False
  moreover from False have "mr_usesAll (resolveExactAgentMentions content agents knownAgents) = False"
    by (simp add: resolveExactAgentMentions_def containsExactAllMention_def Let_def)
  moreover from False have "\<not> (\<exists>i. mentioned_at content (lit ''all'') i)" by (simp add: containsExactAllMention_iff)
  ultimately show ?thesis using mentions_without_all[OF assms False, of agents] by (simp only: if_False simp_thms)
qed

definition demo_agents :: "MentionableAgent list" where
  "demo_agents = [\<lparr>ma_agentId = [1], ma_name = [0x61]\<rparr>, \<lparr>ma_agentId = [2], ma_name = [0x61, 0x62]\<rparr>,
     \<lparr>ma_agentId = [3], ma_name = [0x63]\<rparr>, \<lparr>ma_agentId = [4], ma_name = [0x63]\<rparr>]"

definition demo_text :: jstring where
  "demo_text = [0x40, 0x61, 0x62, 0x20, 0x40, 0x63, 0x21]"

theorem mentions_exact_witness:
  "set (mr_agentIds (resolveExactAgentMentions demo_text demo_agents demo_agents)) =
      {ma_agentId a | a. same_name demo_agents (ma_name a) = [a] \<and> ma_agentId a \<in> ma_agentId ` set demo_agents \<and>
         named_in demo_text (map ma_name demo_agents) (ma_name a)} \<and>
   mr_agentIds (resolveExactAgentMentions demo_text demo_agents demo_agents) = [[2]] \<and>
   mr_ambiguousNames (resolveExactAgentMentions demo_text demo_agents demo_agents) = [[0x63]] \<and>
   set (mr_agentIds (resolveExactAgentMentions (lit ''@all'') demo_agents demo_agents)) = ma_agentId ` set demo_agents"
proof -
  have names: "\<forall>a\<in>set demo_agents. 0x40 \<notin> set (ma_name a)" by (simp add: demo_agents_def)
  have "\<not> containsExactAllMention demo_text" "containsExactAllMention (lit ''@all'')" by code_simp+
  then have mentioned: "\<not> (\<exists>i. mentioned_at demo_text (lit ''all'') i)" "\<exists>i. mentioned_at (lit ''@all'') (lit ''all'') i"
    by (simp_all only: containsExactAllMention_iff not_False_eq_True)
  have "set (mr_agentIds (resolveExactAgentMentions demo_text demo_agents demo_agents)) =
      {ma_agentId a | a. same_name demo_agents (ma_name a) = [a] \<and> ma_agentId a \<in> ma_agentId ` set demo_agents \<and>
         named_in demo_text (map ma_name demo_agents) (ma_name a)}"
    using mentions_exact[OF names, of demo_text demo_agents] mentioned(1) by (simp only: if_False simp_thms)
  moreover have "mr_agentIds (resolveExactAgentMentions demo_text demo_agents demo_agents) = [[2]]"
    "mr_ambiguousNames (resolveExactAgentMentions demo_text demo_agents demo_agents) = [[0x63]]"
    by code_simp+
  moreover have "set (mr_agentIds (resolveExactAgentMentions (lit ''@all'') demo_agents demo_agents)) = ma_agentId ` set demo_agents"
    using mentions_exact[OF names, of "lit ''@all''" demo_agents] mentioned(2) by (simp only: if_True simp_thms)
  ultimately show ?thesis by blast
qed

end
