(* ===== verification/Team_Room.thy ===== *)
theory Team_Room
  imports Discussion_Store Agent_Mentions
begin

text \<open>
  The records of a Team and its Rooms (\<^verbatim>\<open>apps/server/src/data/core-repository.ts\<close>,
  \<^verbatim>\<open>task/task-repository.ts\<close>, \<^verbatim>\<open>security/auth-service.ts\<close>) and the Room messages
  (\<^verbatim>\<open>data/message-repository.ts\<close>, \<^verbatim>\<open>team-room/message-service.ts\<close>). The tables are lists of
  records in the store \<open>team_room\<close>. The counter \<^verbatim>\<open>next_message_sequence\<close> is a column
  of the Room's row and not of the record, so the store pairs it with the Room's id.
\<close>

section \<open>Records\<close>

record TeamRecord =
  tm_teamId :: jstring
  tm_name :: jstring
  tm_createdAt :: timestamp
  tm_archivedAt :: "timestamp option"

datatype member_role = Owner | Member

record MemberRecord =
  mb_memberId :: jstring
  mb_teamId :: jstring
  mb_userId :: "jstring option"
  mb_displayName :: jstring
  mb_role :: member_role
  mb_createdAt :: timestamp

record RoomCollaborationPolicy =
  allowDiscussion :: bool
  allowAll :: bool
  allowAgentMentions :: bool
  maxAgentMentionDepth :: int

record RoomRecord =
  r_roomId :: jstring
  r_teamId :: jstring
  r_name :: jstring
  r_collaborationPolicy :: RoomCollaborationPolicy
  r_settingsRevision :: int
  r_createdAt :: timestamp
  r_archivedAt :: "timestamp option"

datatype device_status = Device_active | Device_revoked

record DeviceRecord =
  dv_deviceId :: jstring
  dv_teamId :: jstring
  dv_ownerMemberId :: jstring
  dv_name :: jstring
  dv_status :: device_status
  dv_createdAt :: timestamp
  dv_revokedAt :: "timestamp option"

record AgentCapabilities =
  governedExecution :: "json option"
  supportsHandoff :: bool
  supportsInterrupt :: bool
  supportsResume :: bool
  supportsStart :: bool
  supportsStreaming :: bool
  supportsRoomContextCoverage :: "bool option"
  supportsWorkspaceLeases :: "bool option"
  supportsArtifactPublication :: "bool option"
  supportsArtifactMaterialization :: "bool option"
  supportsDiscussionSupplementalEvidence :: "bool option"

datatype filesystem_access = FS_read_only | FS_workspace_write | FS_local_policy
datatype integration_mode = IM_managed | IM_manual | IM_fake | IM_hosted
datatype agent_presence = AP_ready | AP_busy | AP_degraded | AP_manual | AP_offline

text \<open>The runtime policy has one field, \<^verbatim>\<open>filesystemAccess\<close>.\<close>

record AgentRecord =
  a_agentId :: jstring
  a_teamId :: jstring
  a_ownerMemberId :: jstring
  a_deviceId :: "jstring option"
  a_name :: jstring
  a_role :: jstring
  a_integrationMode :: integration_mode
  a_capabilities :: AgentCapabilities
  a_runtimePolicy :: "filesystem_access option"
  a_runtimeScopeId :: "jstring option"
  a_workspaceRef :: "jstring option"
  a_workspaceGeneration :: "jstring option"
  a_workspaceAlias :: "jstring option"
  a_enabled :: bool
  a_presence :: agent_presence
  a_createdAt :: timestamp
  a_updatedAt :: timestamp

record MentionRecord =
  mn_targetAgentId :: jstring
  mn_displayLabel :: jstring

datatype sender_type = Sender_member | Sender_agent | Sender_system

text \<open>\<^verbatim>\<open>AppendMessageInput\<close>; the stored record has a trace, a Task and a sequence.\<close>

record AppendMessageInput =
  m_messageId :: jstring
  m_roomId :: jstring
  m_senderType :: sender_type
  m_senderId :: jstring
  m_content :: jstring
  m_mentions :: "MentionRecord list"
  m_parentMessageId :: "jstring option"
  m_clientMessageId :: "jstring option"
  m_createdAt :: timestamp
  m_traceId :: "jstring option"
  m_taskId :: "jstring option"

record MessageRecord =
  msg_messageId :: jstring
  msg_traceId :: jstring
  msg_roomId :: jstring
  msg_taskId :: jstring
  msg_sequence :: int
  msg_senderType :: sender_type
  msg_senderId :: jstring
  msg_content :: jstring
  msg_mentions :: "MentionRecord list"
  msg_parentMessageId :: "jstring option"
  msg_clientMessageId :: "jstring option"
  msg_createdAt :: timestamp

datatype AgentTaskState = AT_open | AT_working | AT_blocked | AT_review | AT_completed | AT_canceled
datatype TaskLifecycleState = TL_draft | TL_ready | TL_active | TL_review | TL_completed | TL_canceled
datatype TaskSchedulingState = Sched_enabled | Sched_paused
datatype TaskAssignmentRole = TA_primary | TA_contributor | TA_reviewer

record TaskAssignment =
  ta_agentId :: jstring
  ta_role :: TaskAssignmentRole
  ta_assignedByMemberId :: jstring
  ta_assignedAt :: timestamp

record TaskBudgetPolicy =
  maxRunAttempts :: int
  maxExecutionDurationSeconds :: int

text \<open>
  The row of a Task with its assignments: the columns the modelled statements and the
  Orchestrator read.
\<close>

record TaskRow =
  tk_taskId :: jstring
  tk_roomId :: jstring
  tk_state :: AgentTaskState
  tk_lifecycleState :: TaskLifecycleState
  tk_schedulingState :: TaskSchedulingState
  tk_assignments :: "TaskAssignment list"
  tk_budgetPolicy :: TaskBudgetPolicy
  tk_budgetRunAttempts :: int
  tk_budgetExecutionDurationSeconds :: int
  tk_isDefault :: bool
  tk_taskRevision :: int
  tk_lastRoomSequence :: int
  tk_updatedAt :: timestamp

record team_room =
  tr_teams :: "TeamRecord list"
  tr_members :: "MemberRecord list"
  tr_rooms :: "RoomRecord list"
  tr_sequences :: "jstring \<Rightarrow> int"
  tr_roomMembers :: "(jstring \<times> jstring) list"
  tr_roomAgents :: "(jstring \<times> jstring) list"
  tr_devices :: "DeviceRecord list"
  tr_agents :: "AgentRecord list"
  tr_tasks :: "TaskRow list"
  tr_messages :: "MessageRecord list"

text \<open>A string used as a condition: absent and empty are the same.\<close>

definition truthy :: "jstring option \<Rightarrow> jstring option" where
  "truthy v = (if v = Some [] then None else v)"

section \<open>Lookups\<close>

definition getRoom :: "jstring \<Rightarrow> team_room \<Rightarrow> RoomRecord option" where
  "getRoom roomId s = find (\<lambda>r. r_roomId r = roomId) (tr_rooms s)"

definition getAgent :: "jstring \<Rightarrow> team_room \<Rightarrow> AgentRecord option" where
  "getAgent agentId s = find (\<lambda>a. a_agentId a = agentId) (tr_agents s)"

definition getDevice :: "jstring \<Rightarrow> team_room \<Rightarrow> DeviceRecord option" where
  "getDevice deviceId s = find (\<lambda>d. dv_deviceId d = deviceId) (tr_devices s)"

definition isRoomAgent :: "jstring \<Rightarrow> jstring \<Rightarrow> team_room \<Rightarrow> bool" where
  "isRoomAgent roomId agentId s \<longleftrightarrow> (roomId, agentId) \<in> set (tr_roomAgents s)"

definition getTask :: "jstring \<Rightarrow> team_room \<Rightarrow> TaskRow option" where
  "getTask taskId s = find (\<lambda>t. tk_taskId t = taskId) (tr_tasks s)"

definition getDefaultForRoom :: "jstring \<Rightarrow> team_room \<Rightarrow> TaskRow option" where
  "getDefaultForRoom roomId s = find (\<lambda>t. tk_roomId t = roomId \<and> tk_isDefault t) (tr_tasks s)"

definition getMessage :: "jstring \<Rightarrow> team_room \<Rightarrow> MessageRecord option" where
  "getMessage messageId s = find (\<lambda>m. msg_messageId m = messageId) (tr_messages s)"

record WebPrincipal =
  wp_clientAccess :: "(jstring \<times> jstring) option"
  wp_userId :: jstring
  wp_sessionId :: jstring

record MemberPrincipal = WebPrincipal +
  mp_memberId :: jstring
  mp_teamId :: jstring
  mp_role :: member_role

text \<open>A client access scope is the pair of its Team and Member.\<close>

definition requireRoomMember :: "WebPrincipal \<Rightarrow> jstring \<Rightarrow> team_room \<Rightarrow> MemberPrincipal throwing" where
  "requireRoomMember who roomId s =
    (case List.find (\<lambda>(r, m). r_roomId r = roomId \<and> r_archivedAt r = None \<and>
         (\<exists>t\<in>set (tr_teams s). tm_teamId t = r_teamId r \<and> tm_archivedAt t = None) \<and>
         mb_teamId m = r_teamId r \<and> mb_userId m = Some (wp_userId who) \<and>
         (roomId, mb_memberId m) \<in> set (tr_roomMembers s)) (List.product (tr_rooms s) (tr_members s)) of
       None \<Rightarrow> Inl (Error ''Room access denied'')
     | Some (r, m) \<Rightarrow>
         if (case wp_clientAccess who of None \<Rightarrow> False
             | Some (teamId, memberId) \<Rightarrow> teamId \<noteq> r_teamId r \<or> memberId \<noteq> mb_memberId m)
         then Inl (Error ''Room access denied'')
         else Inr (WebPrincipal.extend who
           \<lparr>mp_memberId = mb_memberId m, mp_teamId = r_teamId r,
            mp_role = (if wp_clientAccess who \<noteq> None then Member else mb_role m)\<rparr>))"

section \<open>Appending a message\<close>

definition message_conflict :: "MessageRecord \<Rightarrow> MessageRecord \<Rightarrow> bool" where
  "message_conflict a b \<longleftrightarrow>
     msg_messageId a = msg_messageId b \<or>
     msg_roomId a = msg_roomId b \<and> msg_sequence a = msg_sequence b \<or>
     msg_roomId a = msg_roomId b \<and> msg_senderType a = msg_senderType b \<and> msg_senderId a = msg_senderId b \<and>
       some_eq (msg_clientMessageId a) (msg_clientMessageId b)"

interpretation messages: keyed_table message_conflict msg_messageId
  by unfold_locales (simp add: message_conflict_def)

definition parent_task :: "AppendMessageInput \<Rightarrow> team_room \<Rightarrow> jstring option" where
  "parent_task message s =
    (case truthy (m_parentMessageId message) of None \<Rightarrow> None
     | Some p \<Rightarrow> map_option msg_taskId
         (find (\<lambda>m. msg_messageId m = p \<and> msg_roomId m = m_roomId message) (tr_messages s)))"

text \<open>The Task of a message: its own, else its parent's, else the default Task of the Room.\<close>

definition resolve_task :: "AppendMessageInput \<Rightarrow> team_room \<Rightarrow> TaskRow option" where
  "resolve_task message s =
    (case (case m_taskId message of Some t \<Rightarrow> Some t | None \<Rightarrow> parent_task message s) of
       Some t \<Rightarrow> find (\<lambda>k. tk_taskId k = t \<and> tk_roomId k = m_roomId message) (tr_tasks s)
     | None \<Rightarrow> find (\<lambda>k. tk_roomId k = m_roomId message \<and> tk_isDefault k) (tr_tasks s))"

definition task_runnable :: "TaskRow \<Rightarrow> bool" where
  "task_runnable k \<longleftrightarrow>
     \<not> (tk_lifecycleState k \<notin> {TL_ready, TL_active, TL_review} \<or> tk_schedulingState k \<noteq> Sched_enabled \<or>
        tk_budgetRunAttempts k \<ge> maxRunAttempts (tk_budgetPolicy k) \<or>
        tk_budgetExecutionDurationSeconds k \<ge> maxExecutionDurationSeconds (tk_budgetPolicy k))"

definition check_mention :: "RoomRecord \<Rightarrow> TaskRow \<Rightarrow> team_room \<Rightarrow> MentionRecord \<Rightarrow> unit throwing" where
  "check_mention rm task s mention =
    bind (ensure (case getAgent (mn_targetAgentId mention) s of None \<Rightarrow> False
        | Some agent \<Rightarrow> a_teamId agent = r_teamId rm \<and> a_enabled agent)
      (ErrorText ''Mention target is unavailable: '' (mn_targetAgentId mention))) (\<lambda>_.
    ensure (tk_isDefault task \<or> (\<exists>a\<in>set (tk_assignments task). ta_agentId a = mn_targetAgentId mention))
      (ErrorText ''Mention target is not assigned to Task: '' (mn_targetAgentId mention)))"

definition same_client_message :: "AppendMessageInput \<Rightarrow> MessageRecord \<Rightarrow> bool" where
  "same_client_message message m \<longleftrightarrow>
     msg_roomId m = m_roomId message \<and> msg_senderType m = m_senderType message \<and>
     msg_senderId m = m_senderId message \<and> msg_clientMessageId m = m_clientMessageId message"

definition stored_message :: "AppendMessageInput \<Rightarrow> jstring \<Rightarrow> jstring \<Rightarrow> int \<Rightarrow> MessageRecord" where
  "stored_message message traceId taskId seq =
    \<lparr>msg_messageId = m_messageId message,
     msg_traceId = (case m_traceId message of Some t \<Rightarrow> t | None \<Rightarrow> traceId),
     msg_roomId = m_roomId message, msg_taskId = taskId, msg_sequence = seq,
     msg_senderType = m_senderType message, msg_senderId = m_senderId message,
     msg_content = m_content message, msg_mentions = m_mentions message,
     msg_parentMessageId = m_parentMessageId message, msg_clientMessageId = m_clientMessageId message,
     msg_createdAt = m_createdAt message\<rparr>"

fun lifecycle_text :: "TaskLifecycleState \<Rightarrow> jstring" where
  "lifecycle_text TL_draft = lit ''draft''"
| "lifecycle_text TL_ready = lit ''ready''"
| "lifecycle_text TL_active = lit ''active''"
| "lifecycle_text TL_review = lit ''review''"
| "lifecycle_text TL_completed = lit ''completed''"
| "lifecycle_text TL_canceled = lit ''canceled''"

text \<open>
  \<open>freshTrace\<close> is the opaque id drawn when no trace is given. The index on the mentions of one
  message refuses a repeated target, the foreign key of a reply a parent outside its Room.
\<close>

definition insert_message :: "RoomRecord \<Rightarrow> TaskRow \<Rightarrow> jstring \<Rightarrow> AppendMessageInput \<Rightarrow> team_room \<Rightarrow>
    ((bool \<times> MessageRecord) \<times> team_room) throwing" where
  "insert_message rm task freshTrace message s =
    bind (ensure (m_mentions message = [] \<or> task_runnable task) (ErrorText ''Task is not runnable in state '' (lifecycle_text (tk_lifecycleState task)))) (\<lambda>_.
    bind (check_each (check_mention rm task s) (m_mentions message)) (\<lambda>_.
    let seq = tr_sequences s (m_roomId message) + 1;
        row = stored_message message freshTrace (tk_taskId task) seq in
    bind (ensure (case m_parentMessageId message of None \<Rightarrow> True
        | Some p \<Rightarrow> \<exists>m\<in>set (tr_messages s). msg_messageId m = p \<and> msg_roomId m = m_roomId message)
      (Error ''FOREIGN KEY constraint failed'')) (\<lambda>_.
    bind (insert_row message_conflict row (tr_messages s)) (\<lambda>rows.
    bind (ensure (distinct (map mn_targetAgentId (m_mentions message))) (Error ''UNIQUE constraint failed'')) (\<lambda>_.
    Inr ((True, row), s\<lparr>tr_messages := rows, tr_sequences := (tr_sequences s)(m_roomId message := seq)\<rparr>))))))"

definition appendWithResult :: "jstring \<Rightarrow> AppendMessageInput \<Rightarrow> team_room \<Rightarrow>
    ((bool \<times> MessageRecord) \<times> team_room) throwing" where
  "appendWithResult freshTrace message s =
    (case getRoom (m_roomId message) s of
       None \<Rightarrow> Inl (ErrorText ''Room not found: '' (m_roomId message))
     | Some rm \<Rightarrow>
    bind (ensure (case (truthy (m_taskId message), parent_task message s) of (Some t, Some p) \<Rightarrow> t = p | _ \<Rightarrow> True)
      (Error ''Reply Message must use its parent Task'')) (\<lambda>_.
    case resolve_task message s of
      None \<Rightarrow> Inl (Error ''Message Task must belong to its Room'')
    | Some task \<Rightarrow>
        case (if truthy (m_clientMessageId message) = None then None
              else find (same_client_message message) (tr_messages s)) of
          Some existing \<Rightarrow>
            bind (ensure (msg_taskId existing = tk_taskId task)
              (Error ''Client Message ID is already bound to another Task'')) (\<lambda>_.
            Inr ((False, existing), s))
        | None \<Rightarrow> insert_message rm task freshTrace message s))"

definition appendMessage :: "jstring \<Rightarrow> AppendMessageInput \<Rightarrow> team_room \<Rightarrow>
    (MessageRecord \<times> team_room) throwing" where
  "appendMessage freshTrace message s =
    bind (appendWithResult freshTrace message s) (\<lambda>((created, m), s). Inr (m, s))"

text \<open>
  The writers of \<^verbatim>\<open>run-repository.ts\<close> number and insert a message themselves; the sequence of
  \<open>row\<close> is replaced.
\<close>

definition insertRoomMessage :: "MessageRecord \<Rightarrow> team_room \<Rightarrow> team_room throwing" where
  "insertRoomMessage row s =
    (case getRoom (msg_roomId row) s of
       None \<Rightarrow> Inl (ErrorText ''Run Room not found: '' (msg_roomId row))
     | Some _ \<Rightarrow>
    let seq = tr_sequences s (msg_roomId row) + 1 in
    bind (ensure (case msg_parentMessageId row of None \<Rightarrow> True
        | Some p \<Rightarrow> \<exists>m\<in>set (tr_messages s). msg_messageId m = p \<and> msg_roomId m = msg_roomId row)
      (Error ''FOREIGN KEY constraint failed'')) (\<lambda>_.
    bind (insert_row message_conflict (row\<lparr>msg_sequence := seq\<rparr>) (tr_messages s)) (\<lambda>rows.
    Inr (s\<lparr>tr_messages := rows, tr_sequences := (tr_sequences s)(msg_roomId row := seq)\<rparr>))))"

section \<open>Reading messages\<close>

abbreviation by_sequence :: "MessageRecord \<Rightarrow> MessageRecord \<Rightarrow> int" where
  "by_sequence a b \<equiv> msg_sequence a - msg_sequence b"

definition findAgentReply :: "jstring \<Rightarrow> jstring \<Rightarrow> team_room \<Rightarrow> MessageRecord option" where
  "findAgentReply parentMessageId agentId s =
    (case sort_by (\<lambda>a b. by_sequence b a) (filter (\<lambda>m. msg_parentMessageId m = Some parentMessageId \<and>
         msg_senderType m = Sender_agent \<and> msg_senderId m = agentId) (tr_messages s)) of
       [] \<Rightarrow> None | m # _ \<Rightarrow> Some m)"

definition listAfter :: "jstring \<Rightarrow> int \<Rightarrow> nat \<Rightarrow> team_room \<Rightarrow> MessageRecord list" where
  "listAfter roomId seq limit s =
    take limit (sort_by by_sequence
      (filter (\<lambda>m. msg_roomId m = roomId \<and> msg_sequence m > seq) (tr_messages s)))"

definition listRange :: "jstring \<Rightarrow> int \<Rightarrow> int \<Rightarrow> nat \<Rightarrow> team_room \<Rightarrow> MessageRecord list" where
  "listRange roomId fromExclusive throughInclusive limit s =
    take limit (sort_by by_sequence (filter (\<lambda>m. msg_roomId m = roomId \<and>
      msg_sequence m > fromExclusive \<and> msg_sequence m \<le> throughInclusive) (tr_messages s)))"

text \<open>The newest \<open>limit\<close> rows, in ascending order.\<close>

definition newest :: "nat \<Rightarrow> MessageRecord list \<Rightarrow> MessageRecord list" where
  "newest limit ms = sort_by by_sequence (take limit (sort_by (\<lambda>a b. by_sequence b a) ms))"

definition listThrough :: "jstring \<Rightarrow> int \<Rightarrow> nat \<Rightarrow> team_room \<Rightarrow> MessageRecord list" where
  "listThrough roomId seq limit s =
    newest limit (filter (\<lambda>m. msg_roomId m = roomId \<and> msg_sequence m \<le> seq) (tr_messages s))"

definition listTaskThrough :: "jstring \<Rightarrow> int \<Rightarrow> nat \<Rightarrow> team_room \<Rightarrow> MessageRecord list" where
  "listTaskThrough taskId seq limit s =
    newest limit (filter (\<lambda>m. msg_taskId m = taskId \<and> msg_sequence m \<le> seq) (tr_messages s))"

definition latestSequence :: "jstring \<Rightarrow> team_room \<Rightarrow> int throwing" where
  "latestSequence roomId s =
    (case getRoom roomId s of
       None \<Rightarrow> Inl (ErrorText ''Room not found: '' roomId) | Some r \<Rightarrow> Inr (tr_sequences s roomId))"

section \<open>Member messages\<close>

record CreateMemberMessageInput =
  cm_roomId :: jstring
  cm_taskId :: "jstring option"
  cm_content :: jstring
  cm_mentions :: "MentionRecord list option"
  cm_parentMessageId :: "jstring option"
  cm_clientMessageId :: "jstring option"
  cm_now :: timestamp

text \<open>\<^verbatim>\<open>/^client_[A-Za-z0-9_-]{8,128}$/u\<close>\<close>

definition is_id_char :: "code_unit \<Rightarrow> bool" where
  "is_id_char u \<longleftrightarrow> 0x41 \<le> u \<and> u \<le> 0x5A \<or> 0x61 \<le> u \<and> u \<le> 0x7A \<or> 0x30 \<le> u \<and> u \<le> 0x39 \<or>
     u = 0x5F \<or> u = 0x2D"

definition valid_client_message_id :: "jstring \<Rightarrow> bool" where
  "valid_client_message_id s \<longleftrightarrow>
     take 7 s = lit ''client_'' \<and> 8 \<le> length (drop 7 s) \<and> length (drop 7 s) \<le> 128 \<and>
     list_all is_id_char (drop 7 s)"

definition maximumAgentMentionDisplayLabelCodePoints :: int where
  "maximumAgentMentionDisplayLabelCodePoints = 160"

definition agentMentionDisplayLabel :: "jstring \<Rightarrow> jstring \<Rightarrow> jstring" where
  "agentMentionDisplayLabel name role =
    (let label = name @ lit '' / '' @ role in
     if exceedsUnicodeCodePointLimit label maximumAgentMentionDisplayLabelCodePoints
     then concat (take 160 (code_points label)) else label)"

definition checkMention :: "CreateMemberMessageInput \<Rightarrow> MemberPrincipal \<Rightarrow> team_room \<Rightarrow> MentionRecord \<Rightarrow>
    jstring list \<Rightarrow> jstring list throwing" where
  "checkMention input member s mention targets =
    bind (ensure (\<not> (length (trim (mn_displayLabel mention)) = 0 \<or>
        exceedsUnicodeCodePointLimit (mn_displayLabel mention) maximumAgentMentionDisplayLabelCodePoints))
      (Error ''Malformed structured Agent Mention'')) (\<lambda>_.
    bind (ensure (mn_targetAgentId mention \<notin> set targets)
      (ErrorText ''Duplicate Agent Mention: '' (mn_targetAgentId mention))) (\<lambda>_.
    bind (ensure (case getAgent (mn_targetAgentId mention) s of None \<Rightarrow> False
        | Some agent \<Rightarrow> \<not> (a_teamId agent \<noteq> mp_teamId member \<or> \<not> a_enabled agent \<or>
            \<not> isRoomAgent (cm_roomId input) (a_agentId agent) s))
      (ErrorText ''Mention target is unavailable: '' (mn_targetAgentId mention))) (\<lambda>_.
    Inr (targets @ [mn_targetAgentId mention]))))"

text \<open>\<open>freshId\<close> is the message id drawn.\<close>

definition createMemberMessageResult :: "jstring \<Rightarrow> jstring \<Rightarrow> WebPrincipal \<Rightarrow> CreateMemberMessageInput \<Rightarrow>
    team_room \<Rightarrow> ((bool \<times> MessageRecord) \<times> team_room) throwing" where
  "createMemberMessageResult freshId freshTrace who input s =
    bind (requireRoomMember who (cm_roomId input) s) (\<lambda>member.
    case getRoom (cm_roomId input) s of
      None \<Rightarrow> Inl (ErrorText ''Room not found: '' (cm_roomId input))
    | Some rm \<Rightarrow>
    bind (ensure (\<not> (length (trim (cm_content input)) = 0 \<or> length (cm_content input) > 20000))
      (Error ''Message content must contain 1 to 20000 characters'')) (\<lambda>_.
    bind (ensure (\<not> (containsExactAllMention (cm_content input) \<and> \<not> allowAll (r_collaborationPolicy rm)))
      (Error ''Room policy does not allow the @all command'')) (\<lambda>_.
    bind (ensure (case cm_clientMessageId input of None \<Rightarrow> True | Some c \<Rightarrow> valid_client_message_id c)
      (Error ''Client Message ID is invalid'')) (\<lambda>_.
    let parent = (case truthy (cm_parentMessageId input) of None \<Rightarrow> None | Some p \<Rightarrow> getMessage p s) in
    bind (ensure (truthy (cm_parentMessageId input) = None \<or>
        (case parent of None \<Rightarrow> False | Some p \<Rightarrow> msg_roomId p = cm_roomId input))
      (Error ''Parent Message must belong to the same Room'')) (\<lambda>_.
    let mentions = (case cm_mentions input of None \<Rightarrow> [] | Some ms \<Rightarrow> ms) in
    bind (ensure (length mentions \<le> 5)
      (Error ''A Room Message cannot route to more than 5 Agents'')) (\<lambda>_.
    bind (for_each (checkMention input member s) mentions []) (\<lambda>_.
    appendWithResult freshTrace
      \<lparr>m_messageId = freshId, m_roomId = cm_roomId input, m_senderType = Sender_member,
       m_senderId = mp_memberId member, m_content = cm_content input, m_mentions = mentions,
       m_parentMessageId = cm_parentMessageId input, m_clientMessageId = cm_clientMessageId input,
       m_createdAt = cm_now input, m_traceId = map_option msg_traceId parent,
       m_taskId = truthy (cm_taskId input)\<rparr> s)))))))"

section \<open>Pages of a Room\<close>

text \<open>The cursor in its decoded form, and the check of \<open>decodeCursor\<close> on what it decodes to.\<close>

record MessageCursor =
  cu_roomId :: jstring
  cu_sequence :: int

record MessagePage =
  pg_items :: "MessageRecord list"
  pg_nextCursor :: "MessageCursor option"
  pg_olderCursor :: "MessageCursor option"
  pg_syncCursor :: MessageCursor

definition decodeCursor :: "MessageCursor \<Rightarrow> jstring \<Rightarrow> int throwing" where
  "decodeCursor cursor roomId =
    bind (ensure (\<not> (cu_roomId cursor \<noteq> roomId \<or> \<not> is_safe_integer (cu_sequence cursor) \<or> cu_sequence cursor < 0))
      (Error ''Invalid Room message cursor'')) (\<lambda>_. Inr (cu_sequence cursor))"

record list_messages_input =
  lm_roomId :: jstring
  lm_cursor :: "MessageCursor option"
  lm_beforeCursor :: "MessageCursor option"
  lm_limit :: "int option"
  lm_tail :: bool

definition backward_page :: "jstring \<Rightarrow> int \<Rightarrow> nat \<Rightarrow> team_room \<Rightarrow> MessagePage" where
  "backward_page roomId through limit s =
    (let rows = (if through \<le> 0 then [] else listThrough roomId through (limit + 1) s);
         items = last_n limit rows
     in \<lparr>pg_items = items, pg_nextCursor = None,
         pg_olderCursor = (if length rows > limit
           then (case items of [] \<Rightarrow> None
             | first # _ \<Rightarrow> Some \<lparr>cu_roomId = roomId, cu_sequence = msg_sequence first\<rparr>) else None),
         pg_syncCursor = \<lparr>cu_roomId = roomId, cu_sequence = max 0 through\<rparr>\<rparr>)"

definition forward_page :: "jstring \<Rightarrow> int \<Rightarrow> nat \<Rightarrow> team_room \<Rightarrow> MessagePage" where
  "forward_page roomId after limit s =
    (let rows = listAfter roomId after (limit + 1) s;
         hasMore = length rows > limit;
         items = (if hasMore then take limit rows else rows)
     in \<lparr>pg_items = items,
         pg_nextCursor = (if hasMore \<and> items \<noteq> []
           then Some \<lparr>cu_roomId = roomId, cu_sequence = msg_sequence (last items)\<rparr> else None),
         pg_olderCursor = None,
         pg_syncCursor = \<lparr>cu_roomId = roomId,
           cu_sequence = (if items = [] then after else msg_sequence (last items))\<rparr>\<rparr>)"

definition listMessages :: "WebPrincipal \<Rightarrow> list_messages_input \<Rightarrow> team_room \<Rightarrow> MessagePage throwing" where
  "listMessages who input s =
    bind (requireRoomMember who (lm_roomId input) s) (\<lambda>_.
    let limit = (case lm_limit input of None \<Rightarrow> 50 | Some n \<Rightarrow> n) in
    bind (ensure (\<not> (\<not> is_safe_integer limit \<or> limit < 1 \<or> limit > 100))
      (Error ''Message page limit must be between 1 and 100'')) (\<lambda>_.
    bind (ensure (\<not> (lm_cursor input \<noteq> None \<and> lm_tail input))
      (Error ''Message cursor and tail mode cannot be combined'')) (\<lambda>_.
    bind (ensure (\<not> (lm_beforeCursor input \<noteq> None \<and> (lm_cursor input \<noteq> None \<or> lm_tail input)))
      (Error ''Message backward cursor cannot be combined with cursor or tail mode'')) (\<lambda>_.
    if lm_tail input \<or> lm_beforeCursor input \<noteq> None
    then bind (case lm_beforeCursor input of
        Some c \<Rightarrow> bind (decodeCursor c (lm_roomId input)) (\<lambda>n. Inr (n - 1))
      | None \<Rightarrow> latestSequence (lm_roomId input) s) (\<lambda>through.
      Inr (backward_page (lm_roomId input) through (nat limit) s))
    else bind (case lm_cursor input of None \<Rightarrow> Inr 0 | Some c \<Rightarrow> decodeCursor c (lm_roomId input)) (\<lambda>after.
      Inr (forward_page (lm_roomId input) after (nat limit) s))))))"

end
