(* ===== verification/Message_Log.thy ===== *)
theory Message_Log
  imports Team_Room
begin

text \<open>
  What the message table promises: the messages of a Room are numbered without gaps in the
  order of their insertion, an appended reply lives in the Room and the Task of its parent, a retry
  with the same client id finds the stored message, and following the cursors of the pages yields
  every message once. The rows that the Run repository writes itself are the subject of
  \<open>Message_Threads\<close>.
\<close>

section \<open>The log of a Room\<close>

definition room_messages :: "jstring \<Rightarrow> team_room \<Rightarrow> MessageRecord list" where
  "room_messages roomId s = filter (\<lambda>m. msg_roomId m = roomId) (tr_messages s)"

text \<open>
  The stores of messages: a message is appended on behalf of a Member, an Agent or the system, or
  a transaction of the Run repository inserts a row of its own; everything but the messages and
  their counters may change in between.
\<close>

inductive message_store :: "team_room \<Rightarrow> bool" where
  empty: "tr_messages s = [] \<Longrightarrow> (\<And>r. tr_sequences s r = 0) \<Longrightarrow> message_store s"
| append: "message_store s \<Longrightarrow> appendWithResult freshTrace message s = Inr (r, s') \<Longrightarrow> message_store s'"
| insert: "message_store s \<Longrightarrow> insertRoomMessage row s = Inr s' \<Longrightarrow> message_store s'"
| other: "message_store s \<Longrightarrow> tr_messages s' = tr_messages s \<Longrightarrow> tr_sequences s' = tr_sequences s \<Longrightarrow>
    message_store s'"

definition threaded :: "team_room \<Rightarrow> MessageRecord \<Rightarrow> bool" where
  "threaded s m \<longleftrightarrow> (\<forall>p. truthy (msg_parentMessageId m) = Some p \<longrightarrow>
     (\<exists>q\<in>set (tr_messages s). msg_messageId q = p \<and> msg_roomId q = msg_roomId m \<and>
        msg_taskId q = msg_taskId m \<and> msg_sequence q < msg_sequence m))"

definition log_inv :: "team_room \<Rightarrow> bool" where
  "log_inv s \<longleftrightarrow> conflict_free message_conflict (tr_messages s) \<and>
     (\<forall>r. 0 \<le> tr_sequences s r \<and> map msg_sequence (room_messages r s) = [1..tr_sequences s r])"

lemma insert_message_Inr:
  assumes "insert_message rm task freshTrace message s = Inr (res, s')"
  shows "\<exists>row. res = (True, row) \<and>
      row = stored_message message freshTrace (tk_taskId task) (tr_sequences s (m_roomId message) + 1) \<and>
      conflict_free message_conflict (tr_messages s @ [row]) \<and>
      (\<forall>p. m_parentMessageId message = Some p \<longrightarrow>
         (\<exists>m\<in>set (tr_messages s). msg_messageId m = p \<and> msg_roomId m = m_roomId message)) \<and>
      s' = s\<lparr>tr_messages := tr_messages s @ [row],
             tr_sequences := (tr_sequences s)(m_roomId message := tr_sequences s (m_roomId message) + 1)\<rparr>"
  using assms by (auto simp: insert_message_def Let_def bind_eq_Inr insert_row_Inr split: option.splits)

lemma appendWithResult_Inr:
  assumes "appendWithResult freshTrace message s = Inr (res, s')"
  obtains (existing) m task where "res = (False, m)" "s' = s" "truthy (m_clientMessageId message) \<noteq> None"
      "find (same_client_message message) (tr_messages s) = Some m" "resolve_task message s = Some task"
      "msg_taskId m = tk_taskId task" "getRoom (m_roomId message) s \<noteq> None"
      "case (truthy (m_taskId message), parent_task message s) of (Some t, Some p) \<Rightarrow> t = p | _ \<Rightarrow> True"
  | (created) rm task where "getRoom (m_roomId message) s = Some rm" "resolve_task message s = Some task"
      "truthy (m_clientMessageId message) \<noteq> None \<Longrightarrow> find (same_client_message message) (tr_messages s) = None"
      "insert_message rm task freshTrace message s = Inr (res, s')"
      "case (truthy (m_taskId message), parent_task message s) of (Some t, Some p) \<Rightarrow> t = p | _ \<Rightarrow> True"
proof -
  obtain rm where rm: "getRoom (m_roomId message) s = Some rm"
    using assms by (auto simp: appendWithResult_def split: option.splits)
  have chk: "case (truthy (m_taskId message), parent_task message s) of (Some t, Some p) \<Rightarrow> t = p | _ \<Rightarrow> True"
    using assms rm unfolding appendWithResult_def by (simp add: bind_ensure_eq_Inr)
  obtain task where task: "resolve_task message s = Some task"
    using assms rm unfolding appendWithResult_def by (auto simp: bind_ensure_eq_Inr split: option.splits)
  let ?look = "if truthy (m_clientMessageId message) = None then None
              else find (same_client_message message) (tr_messages s)"
  have rest: "(case ?look of
          Some existing \<Rightarrow> bind (ensure (msg_taskId existing = tk_taskId task)
              (Error ''Client Message ID is already bound to another Task'')) (\<lambda>_. Inr ((False, existing), s))
        | None \<Rightarrow> insert_message rm task freshTrace message s) = Inr (res, s')"
    using assms rm task unfolding appendWithResult_def by (simp add: bind_ensure_eq_Inr)
  show ?thesis
  proof (cases ?look)
    case None
    with rest have "insert_message rm task freshTrace message s = Inr (res, s')" by simp
    moreover from None have "truthy (m_clientMessageId message) \<noteq> None \<Longrightarrow>
        find (same_client_message message) (tr_messages s) = None" by (auto split: if_splits)
    ultimately show ?thesis using rm task chk created by blast
  next
    case (Some m)
    then have "truthy (m_clientMessageId message) \<noteq> None" "find (same_client_message message) (tr_messages s) = Some m"
      by (simp_all split: if_splits)
    moreover from rest Some have "res = (False, m)" "s' = s" "msg_taskId m = tk_taskId task"
      by (auto simp: bind_ensure_eq_Inr)
    ultimately show ?thesis using rm task chk existing by blast
  qed
qed

lemma append_existing:
  assumes "getRoom (m_roomId message) s \<noteq> None" "resolve_task message s = Some task"
    and "case (truthy (m_taskId message), parent_task message s) of (Some t, Some p) \<Rightarrow> t = p | _ \<Rightarrow> True"
    and "truthy (m_clientMessageId message) \<noteq> None" "find (same_client_message message) (tr_messages s) = Some m"
    and "msg_taskId m = tk_taskId task"
  shows "appendWithResult freshTrace message s = Inr ((False, m), s)"
proof -
  obtain rm c where "getRoom (m_roomId message) s = Some rm" "truthy (m_clientMessageId message) = Some c"
    using assms(1,4) by blast
  with assms(2,3,5,6) show ?thesis unfolding appendWithResult_def by (simp add: ensure_def)
qed

lemma parent_task_of_row:
  assumes "truthy (m_parentMessageId message) = Some p" "conflict_free message_conflict (tr_messages s)"
    and "m \<in> set (tr_messages s)" "msg_messageId m = p" "msg_roomId m = m_roomId message"
  shows "parent_task message s = Some (msg_taskId m)"
proof -
  have "find (\<lambda>m. msg_messageId m = p \<and> msg_roomId m = m_roomId message) (tr_messages s) = Some m"
  proof -
    obtain q where q: "find (\<lambda>m. msg_messageId m = p \<and> msg_roomId m = m_roomId message) (tr_messages s) = Some q"
      using assms(3-5) by (cases "find (\<lambda>m. msg_messageId m = p \<and> msg_roomId m = m_roomId message) (tr_messages s)")
        (auto simp: find_None_iff)
    then have "q \<in> set (tr_messages s)" "msg_messageId q = p" by (auto simp: find_Some_iff)
    with messages.find_row[OF assms(2)] assms(3,4) have "q = m" by (metis option.inject)
    with q show ?thesis by simp
  qed
  with assms(1) show ?thesis by (simp add: parent_task_def)
qed

lemma resolve_task_parent:
  assumes "parent_task message s = Some p" "resolve_task message s = Some task"
    and "case (truthy (m_taskId message), parent_task message s) of (Some t, Some p) \<Rightarrow> t = p | _ \<Rightarrow> True"
    and "m_taskId message \<noteq> Some []"
  shows "tk_taskId task = p"
  using assms by (cases "m_taskId message") (auto simp: resolve_task_def truthy_def find_Some_iff)

lemma seq_bound:
  assumes "log_inv s" "m \<in> set (tr_messages s)"
  shows "msg_sequence m \<le> tr_sequences s (msg_roomId m)"
proof -
  have num: "map msg_sequence (room_messages (msg_roomId m) s) = [1..tr_sequences s (msg_roomId m)]"
    using assms(1) by (simp add: log_inv_def)
  from assms(2) have "msg_sequence m \<in> set (map msg_sequence (room_messages (msg_roomId m) s))"
    by (simp add: room_messages_def)
  then show ?thesis unfolding num by simp
qed

lemma log_inv_snoc:
  assumes inv: "log_inv s" and cf: "conflict_free message_conflict (tr_messages s @ [row])"
    and seq: "msg_sequence row = tr_sequences s (msg_roomId row) + 1"
    and s': "s' = s\<lparr>tr_messages := tr_messages s @ [row],
      tr_sequences := (tr_sequences s)(msg_roomId row := msg_sequence row)\<rparr>"
  shows "log_inv s'"
proof -
  have num: "0 \<le> tr_sequences s r" "map msg_sequence (room_messages r s) = [1..tr_sequences s r]" for r
    using inv by (simp_all add: log_inv_def)
  have "map msg_sequence (room_messages r s') = [1..tr_sequences s' r]" for r
    using num[of r] seq by (cases "r = msg_roomId row") (simp_all add: room_messages_def s' upto_rec2)
  moreover have "0 \<le> tr_sequences s' r" for r using num seq by (simp add: s' add_nonneg_nonneg)
  ultimately show ?thesis using cf by (simp add: log_inv_def s')
qed

lemma threaded_snoc:
  assumes inv: "log_inv s" and old: "\<forall>m\<in>set (tr_messages s). threaded s m"
    and seq: "msg_sequence row = tr_sequences s (msg_roomId row) + 1"
    and s': "tr_messages s' = tr_messages s @ [row]"
    and fits: "\<And>p. truthy (msg_parentMessageId row) = Some p \<Longrightarrow>
      \<exists>q\<in>set (tr_messages s). msg_messageId q = p \<and> msg_roomId q = msg_roomId row \<and> msg_taskId q = msg_taskId row"
  shows "\<forall>m\<in>set (tr_messages s'). threaded s' m"
proof -
  have "threaded s' row"
    unfolding threaded_def
  proof (intro allI impI)
    fix p assume "truthy (msg_parentMessageId row) = Some p"
    then obtain q where q: "q \<in> set (tr_messages s)" "msg_messageId q = p" "msg_roomId q = msg_roomId row"
      "msg_taskId q = msg_taskId row" using fits by blast
    then have "msg_sequence q < msg_sequence row" using seq_bound[OF inv q(1)] seq by simp
    with q show "\<exists>q\<in>set (tr_messages s'). msg_messageId q = p \<and> msg_roomId q = msg_roomId row \<and>
        msg_taskId q = msg_taskId row \<and> msg_sequence q < msg_sequence row" by (auto simp: s')
  qed
  moreover have "threaded s' m" if "threaded s m" for m using that by (fastforce simp: threaded_def s')
  ultimately show ?thesis using old by (simp add: s')
qed

text \<open>What either writer stores: the next row of its Room, whose parent lies in the Room.\<close>

lemma insertRoomMessage_Inr:
  assumes "insertRoomMessage row s = Inr s'"
  obtains stored where "stored = row\<lparr>msg_sequence := tr_sequences s (msg_roomId row) + 1\<rparr>"
    "conflict_free message_conflict (tr_messages s @ [stored])"
    "s' = s\<lparr>tr_messages := tr_messages s @ [stored],
       tr_sequences := (tr_sequences s)(msg_roomId stored := msg_sequence stored)\<rparr>"
    "\<And>p. msg_parentMessageId row = Some p \<Longrightarrow> \<exists>m\<in>set (tr_messages s). msg_messageId m = p \<and> msg_roomId m = msg_roomId row"
proof (rule that[OF refl])
  show "conflict_free message_conflict (tr_messages s @ [row\<lparr>msg_sequence := tr_sequences s (msg_roomId row) + 1\<rparr>])"
    "s' = s\<lparr>tr_messages := tr_messages s @ [row\<lparr>msg_sequence := tr_sequences s (msg_roomId row) + 1\<rparr>],
      tr_sequences := (tr_sequences s)(msg_roomId (row\<lparr>msg_sequence := tr_sequences s (msg_roomId row) + 1\<rparr>) :=
        msg_sequence (row\<lparr>msg_sequence := tr_sequences s (msg_roomId row) + 1\<rparr>))\<rparr>"
    using assms by (auto simp: insertRoomMessage_def Let_def bind_eq_Inr insert_row_Inr split: option.splits)
  show "\<exists>m\<in>set (tr_messages s). msg_messageId m = p \<and> msg_roomId m = msg_roomId row"
    if "msg_parentMessageId row = Some p" for p
    using assms that by (auto simp: insertRoomMessage_def Let_def bind_eq_Inr split: option.splits)
qed

lemma insert_room_log: "insertRoomMessage row s = Inr s' \<Longrightarrow> log_inv s \<Longrightarrow> log_inv s'"
  by (erule insertRoomMessage_Inr) (rule log_inv_snoc, auto)

lemma insert_message_log:
  assumes "insert_message rm task freshTrace message s = Inr (res, s')" and "log_inv s"
  shows "log_inv s'"
  using insert_message_Inr[OF assms(1)] by (auto intro!: log_inv_snoc[OF assms(2)] simp: stored_message_def)

lemma append_log: "appendWithResult freshTrace message s = Inr (r, s') \<Longrightarrow> log_inv s \<Longrightarrow> log_inv s'"
  by (erule appendWithResult_Inr) (simp_all add: insert_message_log)

text \<open>A message that is appended lies in the Task of its parent.\<close>

lemma insert_message_threaded:
  assumes ins: "insert_message rm task freshTrace message s = Inr (res, s')"
    and inv: "log_inv s" "\<forall>m\<in>set (tr_messages s). threaded s m"
    and task: "resolve_task message s = Some task" "m_taskId message \<noteq> Some []"
    and chk: "case (truthy (m_taskId message), parent_task message s) of (Some t, Some p) \<Rightarrow> t = p | _ \<Rightarrow> True"
  shows "\<forall>m\<in>set (tr_messages s'). threaded s' m"
proof -
  obtain row where row: "row = stored_message message freshTrace (tk_taskId task) (tr_sequences s (m_roomId message) + 1)"
    and fk: "\<forall>p. m_parentMessageId message = Some p \<longrightarrow>
         (\<exists>m\<in>set (tr_messages s). msg_messageId m = p \<and> msg_roomId m = m_roomId message)"
    and s': "tr_messages s' = tr_messages s @ [row]"
    using insert_message_Inr[OF ins] by auto
  have cf: "conflict_free message_conflict (tr_messages s)" using inv(1) by (simp add: log_inv_def)
  show ?thesis
  proof (rule threaded_snoc[OF inv _ s'])
    show "msg_sequence row = tr_sequences s (msg_roomId row) + 1" by (simp add: row stored_message_def)
    fix p assume "truthy (msg_parentMessageId row) = Some p"
    then have p: "truthy (m_parentMessageId message) = Some p" by (simp add: row stored_message_def)
    then have "m_parentMessageId message = Some p" by (auto simp: truthy_def split: if_splits)
    with fk obtain q where q: "q \<in> set (tr_messages s)" "msg_messageId q = p" "msg_roomId q = m_roomId message" by blast
    from resolve_task_parent[OF parent_task_of_row[OF p cf q] task(1) chk task(2)] q
    show "\<exists>q\<in>set (tr_messages s). msg_messageId q = p \<and> msg_roomId q = msg_roomId row \<and> msg_taskId q = msg_taskId row"
      by (auto simp: row stored_message_def)
  qed
qed

lemma append_threaded:
  assumes "appendWithResult freshTrace message s = Inr (r, s')" and "log_inv s"
    and "\<forall>m\<in>set (tr_messages s). threaded s m" and "m_taskId message \<noteq> Some []"
  shows "\<forall>m\<in>set (tr_messages s'). threaded s' m"
  using assms(1)
proof (cases rule: appendWithResult_Inr)
  case (created rm task)
  show ?thesis by (rule insert_message_threaded[OF created(4) assms(2,3) created(2) assms(4) created(5)])
qed (use assms in simp)

lemma message_store_inv: "message_store s \<Longrightarrow> log_inv s"
proof (induction rule: message_store.induct)
  case (other s s')
  then show ?case by (simp add: log_inv_def room_messages_def)
next
  case (empty s)
  then show ?case by (simp add: log_inv_def room_messages_def)
qed (blast intro: append_log insert_room_log)+

section \<open>Pages\<close>

lemma map_upto_Cons:
  assumes "map f (x # L) = [c..(k :: int)]"
  shows "c \<le> k" "f x = c" "map f L = [c + 1..k]"
proof -
  show "c \<le> k" using assms by (cases "c \<le> k") simp_all
  then show "f x = c" "map f L = [c + 1..k]" using assms upto_rec1[of c k] by simp_all
qed

lemma filter_upto_drop:
  fixes a c :: int
  assumes "map f L = [c..k]" "c \<le> a + 1"
  shows "filter (\<lambda>m. f m > a) L = drop (nat (a + 1 - c)) L"
  using assms
proof (induction L arbitrary: c)
  case (Cons x L)
  note c = map_upto_Cons[OF Cons.prems(1)]
  show ?case
  proof (cases "c \<le> a")
    case True
    then have "nat (a + 1 - c) = Suc (nat (a + 1 - (c + 1)))" by simp
    with Cons.IH[OF c(3)] c True show ?thesis by simp
  next
    case False
    have "f m > a" if "m \<in> set L" for m
    proof -
      from that have "f m \<in> set (map f L)" by simp
      then show ?thesis unfolding c(3) using False by simp
    qed
    with False Cons.prems(2) c show ?thesis by simp
  qed
qed simp

lemma sorted_upto_map: "map f L = [c..k] \<Longrightarrow> sorted_wrt (\<lambda>x y. (f x :: int) - f y \<le> 0) L"
  by (metis (mono_tags, lifting) diff_le_0_iff_le sorted_map sorted_upto sorted_wrt_mono_rel)

lemma listAfter_log:
  assumes "log_inv s" "0 \<le> after"
  shows "listAfter roomId after limit s = take limit (drop (nat after) (room_messages roomId s))"
proof -
  have num: "map msg_sequence (room_messages roomId s) = [1..tr_sequences s roomId]"
    using assms(1) by (simp add: log_inv_def)
  have "filter (\<lambda>m. msg_roomId m = roomId \<and> msg_sequence m > after) (tr_messages s) =
      filter (\<lambda>m. msg_sequence m > after) (room_messages roomId s)"
    by (simp add: room_messages_def conj_commute)
  also have "\<dots> = drop (nat after) (room_messages roomId s)"
    using filter_upto_drop[OF num] assms(2) by simp
  finally have "listAfter roomId after limit s = take limit (sort_by by_sequence (drop (nat after) (room_messages roomId s)))"
    by (simp add: listAfter_def)
  moreover have "sort_by by_sequence (drop (nat after) (room_messages roomId s)) = drop (nat after) (room_messages roomId s)"
    by (rule sort_by_sorted_id) (rule sorted_wrt_drop[OF sorted_upto_map[OF num]])
  ultimately show ?thesis by simp
qed

lemma log_nth:
  assumes "log_inv s" "k < length (room_messages roomId s)"
  shows "msg_sequence (room_messages roomId s ! k) = int k + 1"
proof -
  let ?L = "room_messages roomId s"
  have num: "map msg_sequence ?L = [1..tr_sequences s roomId]"
    using assms(1) by (simp add: log_inv_def)
  have "length (map msg_sequence ?L) = length [1..tr_sequences s roomId]" unfolding num by (rule refl)
  then have "1 + int k \<le> tr_sequences s roomId" using assms(2) by simp
  from nth_upto[OF this] have "map msg_sequence ?L ! k = 1 + int k" unfolding num by simp
  with assms(2) show ?thesis by simp
qed

lemma forward_page_log:
  assumes "log_inv s" "0 < limit"
  shows "pg_items (forward_page roomId (int after) limit s) = take limit (drop after (room_messages roomId s)) \<and>
    pg_nextCursor (forward_page roomId (int after) limit s) =
      (if after + limit < length (room_messages roomId s)
       then Some \<lparr>cu_roomId = roomId, cu_sequence = int (after + limit)\<rparr> else None)"
proof -
  let ?L = "room_messages roomId s"
  have rows: "listAfter roomId (int after) (limit + 1) s = take (limit + 1) (drop after ?L)"
    using listAfter_log[OF assms(1), of "int after"] by simp
  have more: "limit < length (take (limit + 1) (drop after ?L)) \<longleftrightarrow> after + limit < length ?L"
    by (auto simp: min_def)
  have items: "(if limit < length (take (limit + 1) (drop after ?L)) then take limit (take (limit + 1) (drop after ?L))
      else take (limit + 1) (drop after ?L)) = take limit (drop after ?L)"
    by (auto simp: min_def)
  have last: "last (take limit (drop after ?L)) = ?L ! (after + (limit - 1))"
    if "after + limit < length ?L"
  proof -
    have "take limit (drop after ?L) \<noteq> []" using that assms(2) by auto
    then show ?thesis using that assms(2) by (simp add: last_conv_nth)
  qed
  have next_seq: "msg_sequence (last (take limit (drop after ?L))) = int (after + limit)"
    if "after + limit < length ?L"
    unfolding last[OF that] using log_nth[OF assms(1), of "after + (limit - 1)" roomId] that assms(2) by simp
  show ?thesis
    unfolding forward_page_def Let_def rows items more MessagePage.select_convs
    using next_seq assms(2) by auto
qed

text \<open>A client that follows the next cursor, for at most \<open>fuel\<close> pages.\<close>

primrec walk :: "nat \<Rightarrow> WebPrincipal \<Rightarrow> jstring \<Rightarrow> int \<Rightarrow> MessageCursor option \<Rightarrow> team_room \<Rightarrow>
    MessageRecord list throwing" where
  "walk 0 who roomId limit cursor s = Inr []"
| "walk (Suc fuel) who roomId limit cursor s =
    bind (listMessages who \<lparr>lm_roomId = roomId, lm_cursor = cursor, lm_beforeCursor = None,
        lm_limit = Some limit, lm_tail = False\<rparr> s) (\<lambda>page.
    bind (case pg_nextCursor page of None \<Rightarrow> Inr [] | Some c \<Rightarrow> walk fuel who roomId limit (Some c) s) (\<lambda>rest.
    Inr (pg_items page @ rest)))"

definition cursor_after :: "jstring \<Rightarrow> nat \<Rightarrow> MessageCursor option" where
  "cursor_after roomId after =
    (if after = 0 then None else Some \<lparr>cu_roomId = roomId, cu_sequence = int after\<rparr>)"

lemma listMessages_forward:
  assumes "requireRoomMember who roomId s = Inr member" "1 \<le> limit" "limit \<le> 100" "int after \<le> max_safe_integer"
  shows "listMessages who \<lparr>lm_roomId = roomId, lm_cursor = cursor_after roomId after, lm_beforeCursor = None,
        lm_limit = Some limit, lm_tail = False\<rparr> s = Inr (forward_page roomId (int after) (nat limit) s)"
  using assms
  by (simp add: listMessages_def cursor_after_def decodeCursor_def ensure_def is_safe_integer_def max_safe_integer_def)

lemma walk_log:
  assumes "log_inv s" "requireRoomMember who roomId s = Inr member" "1 \<le> limit" "limit \<le> 100"
    and "int (length (room_messages roomId s)) \<le> max_safe_integer"
  shows "length (room_messages roomId s) < after + fuel \<Longrightarrow> after \<le> length (room_messages roomId s) \<Longrightarrow>
    walk fuel who roomId limit (cursor_after roomId after) s = Inr (drop after (room_messages roomId s))"
proof (induction fuel arbitrary: after)
  case (Suc fuel)
  let ?L = "room_messages roomId s"
  have n: "0 < nat limit" using assms(3) by simp
  note page = forward_page_log[OF assms(1) n, of roomId after]
  have req: "listMessages who \<lparr>lm_roomId = roomId, lm_cursor = cursor_after roomId after, lm_beforeCursor = None,
        lm_limit = Some limit, lm_tail = False\<rparr> s = Inr (forward_page roomId (int after) (nat limit) s)"
    using listMessages_forward[OF assms(2-4), of after] assms(5) Suc.prems(2) by simp
  show ?case
  proof (cases "after + nat limit < length ?L")
    case True
    have "cursor_after roomId (after + nat limit) = Some \<lparr>cu_roomId = roomId, cu_sequence = int (after + nat limit)\<rparr>"
      using n by (simp add: cursor_after_def)
    with Suc.IH[of "after + nat limit"] Suc.prems n True page req
    show ?thesis
      using append_take_drop_id[of "nat limit" "drop after ?L"] by (simp add: add.commute)
  next
    case False
    with page req show ?thesis by simp
  qed
qed simp

section \<open>Properties\<close>

text \<open>What a retry reads, before and after the message is stored.\<close>

lemma retry_inputs:
  "m_roomId (message\<lparr>m_messageId := i\<rparr>) = m_roomId message"
  "m_taskId (message\<lparr>m_messageId := i\<rparr>) = m_taskId message"
  "m_clientMessageId (message\<lparr>m_messageId := i\<rparr>) = m_clientMessageId message"
  "m_parentMessageId (message\<lparr>m_messageId := i\<rparr>) = m_parentMessageId message"
  "same_client_message (message\<lparr>m_messageId := i\<rparr>) = same_client_message message"
  by (auto simp: same_client_message_def)

lemma retry_tasks:
  "parent_task (message\<lparr>m_messageId := i\<rparr>) s = parent_task message s"
  "resolve_task (message\<lparr>m_messageId := i\<rparr>) s = resolve_task message s"
  unfolding parent_task_def resolve_task_def retry_inputs by (rule refl)+

lemma find_snoc:
  "find P (xs @ [x]) = (case find P xs of None \<Rightarrow> if P x then Some x else None | Some y \<Rightarrow> Some y)"
  by (induction xs) auto

lemma stored_parent_task:
  assumes "\<forall>p. m_parentMessageId message = Some p \<longrightarrow>
      (\<exists>m\<in>set (tr_messages s). msg_messageId m = p \<and> msg_roomId m = m_roomId message)"
    and "tr_messages s' = tr_messages s @ [row]"
  shows "parent_task message s' = parent_task message s"
proof (cases "truthy (m_parentMessageId message)")
  case (Some p)
  then have "m_parentMessageId message = Some p" by (auto simp: truthy_def split: if_splits)
  with assms(1) have "find (\<lambda>m. msg_messageId m = p \<and> msg_roomId m = m_roomId message) (tr_messages s) \<noteq> None"
    by (auto simp: find_None_iff)
  then show ?thesis unfolding parent_task_def Some assms(2) by (auto simp: find_snoc)
qed (simp add: parent_task_def)

lemma resolve_task_cong:
  "parent_task message s' = parent_task message s \<Longrightarrow> tr_tasks s' = tr_tasks s \<Longrightarrow>
   resolve_task message s' = resolve_task message s"
  unfolding resolve_task_def by (simp only:)

text \<open>
  Retrying a message under the same client id, even with another message and trace id,
  returns the stored message as not created and leaves the store as it is.
\<close>

theorem retry_returns_stored:
  assumes "appendWithResult freshTrace message s = Inr ((created, m), s')"
    and "truthy (m_clientMessageId message) \<noteq> None"
  shows "appendWithResult freshTrace' (message\<lparr>m_messageId := i\<rparr>) s' = Inr ((False, m), s')"
  using assms(1)
proof (cases rule: appendWithResult_Inr)
  case (existing e task)
  then have "appendWithResult freshTrace' (message\<lparr>m_messageId := i\<rparr>) s = Inr ((False, e), s)"
    by (intro append_existing) (simp_all only: retry_inputs retry_tasks not_False_eq_True)
  with existing show ?thesis by simp
next
  case (created rm task)
  from insert_message_Inr[OF created(4)] obtain row where
    row: "(created, m) = (True, row)"
      "row = stored_message message freshTrace (tk_taskId task) (tr_sequences s (m_roomId message) + 1)"
    and fk: "\<forall>p. m_parentMessageId message = Some p \<longrightarrow>
       (\<exists>m\<in>set (tr_messages s). msg_messageId m = p \<and> msg_roomId m = m_roomId message)"
    and s': "s' = s\<lparr>tr_messages := tr_messages s @ [row],
           tr_sequences := (tr_sequences s)(m_roomId message := tr_sequences s (m_roomId message) + 1)\<rparr>"
    by blast
  have parent: "parent_task message s' = parent_task message s" by (rule stored_parent_task[OF fk]) (simp add: s')
  have "resolve_task message s' = resolve_task message s" by (rule resolve_task_cong[OF parent]) (simp add: s')
  moreover have "getRoom (m_roomId message) s' = Some rm" using created(1) by (simp add: getRoom_def s')
  moreover have "find (same_client_message message) (tr_messages s') = Some row"
    using created(3)[OF assms(2)] by (simp add: s' find_snoc row(2) same_client_message_def stored_message_def)
  moreover have "msg_taskId row = tk_taskId task" by (simp add: row(2) stored_message_def)
  ultimately have "appendWithResult freshTrace' (message\<lparr>m_messageId := i\<rparr>) s' = Inr ((False, row), s')"
    using created(2,5) assms(2) parent
    by (intro append_existing) (simp_all only: retry_inputs retry_tasks option.distinct not_False_eq_True)
  with row(1) show ?thesis by simp
qed

text \<open>
  (C26) A client of a Room that follows the next cursors gets every message of the Room exactly
  once and in order, in at most one page per message and one more: no page is skipped, repeated
  or refused.
\<close>

theorem page_walk_complete:
  assumes "message_store s" "requireRoomMember who roomId s = Inr member" "1 \<le> limit" "limit \<le> 100"
    and "tr_sequences s roomId \<le> max_safe_integer" "tr_sequences s roomId < int fuel"
  shows "walk fuel who roomId limit None s = Inr (room_messages roomId s)"
proof -
  have inv: "log_inv s" by (rule message_store_inv[OF assms(1)])
  then have num: "map msg_sequence (room_messages roomId s) = [1..tr_sequences s roomId]" "0 \<le> tr_sequences s roomId"
    by (simp_all add: log_inv_def)
  have "length (room_messages roomId s) = nat (tr_sequences s roomId)"
    using arg_cong[OF num(1), of length] by simp
  with num(2) have "int (length (room_messages roomId s)) = tr_sequences s roomId" by simp
  with walk_log[OF inv assms(2-4), of 0 fuel] assms(5,6) show ?thesis by (simp add: cursor_after_def)
qed

section \<open>Witnesses\<close>

definition demo_team :: team_room where
  "demo_team =
    \<lparr>tr_teams = [\<lparr>tm_teamId = [1], tm_name = [], tm_createdAt = 0, tm_archivedAt = None\<rparr>],
     tr_members = [\<lparr>mb_memberId = [2], mb_teamId = [1], mb_userId = Some [3], mb_displayName = [],
       mb_role = Owner, mb_createdAt = 0\<rparr>],
     tr_rooms = [\<lparr>r_roomId = [4], r_teamId = [1], r_name = [],
       r_collaborationPolicy = \<lparr>allowDiscussion = True, allowAll = True, allowAgentMentions = True,
         maxAgentMentionDepth = 4\<rparr>,
       r_settingsRevision = 1, r_createdAt = 0, r_archivedAt = None\<rparr>],
     tr_sequences = (\<lambda>_. 0), tr_roomMembers = [([4], [2])], tr_roomAgents = [], tr_devices = [],
     tr_agents = [],
     tr_tasks = [\<lparr>tk_taskId = [5], tk_roomId = [4], tk_state = AT_open, tk_lifecycleState = TL_ready,
       tk_schedulingState = Sched_enabled, tk_assignments = [],
       tk_budgetPolicy = \<lparr>maxRunAttempts = 9, maxExecutionDurationSeconds = 9\<rparr>,
       tk_budgetRunAttempts = 0, tk_budgetExecutionDurationSeconds = 0, tk_isDefault = True, tk_taskRevision = 1,
       tk_lastRoomSequence = 0, tk_updatedAt = 0\<rparr>],
     tr_messages = []\<rparr>"

definition demo_message :: "jstring \<Rightarrow> jstring option \<Rightarrow> AppendMessageInput" where
  "demo_message i p =
    \<lparr>m_messageId = i, m_roomId = [4], m_senderType = Sender_member, m_senderId = [2], m_content = [9],
     m_mentions = [], m_parentMessageId = p, m_clientMessageId = Some i, m_createdAt = 0,
     m_traceId = None, m_taskId = None\<rparr>"

definition demo_log :: team_room where
  "demo_log = (case appendWithResult [7] (demo_message [10] None) demo_team of
     Inl _ \<Rightarrow> demo_team
   | Inr (_, s) \<Rightarrow> (case appendWithResult [7] (demo_message [11] (Some [10])) s of
       Inl _ \<Rightarrow> demo_team | Inr (_, s) \<Rightarrow> s))"

lemmas demo_append_simps = appendWithResult_def insert_message_def Let_def getRoom_def parent_task_def
  resolve_task_def truthy_def stored_message_def same_client_message_def check_each_def insert_row_def
  commit_rows_def message_conflict_def some_eq_def demo_message_def demo_team_def ensure_def

lemma demo_first: "\<exists>r s. appendWithResult [7] (demo_message [10] None) demo_team = Inr ((True, r), s) \<and>
    (\<exists>r' s'. appendWithResult [7] (demo_message [11] (Some [10])) s = Inr ((True, r'), s') \<and> demo_log = s' \<and>
       map msg_sequence (tr_messages s') = [1, 2] \<and> tr_sequences s' [4] = 2)"
  unfolding demo_log_def by (simp add: demo_append_simps)

lemma demo_log_store: "message_store demo_log"
proof -
  obtain r s r' s' where s: "appendWithResult [7] (demo_message [10] None) demo_team = Inr ((True, r), s)"
    "appendWithResult [7] (demo_message [11] (Some [10])) s = Inr ((True, r'), s')" "demo_log = s'"
    using demo_first by blast
  have "message_store demo_team" by (rule message_store.empty) (simp_all add: demo_team_def)
  from message_store.append[OF message_store.append[OF this s(1)] s(2)] s(3)
  show ?thesis by simp
qed

theorem retry_returns_stored_witness:
  "\<exists>m s'. appendWithResult [8] ((demo_message [10] None)\<lparr>m_messageId := [12]\<rparr>) s' = Inr ((False, m), s') \<and>
     msg_messageId m = [10]"
proof -
  obtain r s where s: "appendWithResult [7] (demo_message [10] None) demo_team = Inr ((True, r), s)"
    "msg_messageId r = [10]"
    by (simp add: demo_append_simps)
  moreover have "truthy (m_clientMessageId (demo_message [10] None)) \<noteq> None"
    by (simp add: demo_message_def truthy_def)
  ultimately show ?thesis using retry_returns_stored[OF s(1), of "[8]" "[12]"] by blast
qed

theorem page_walk_complete_witness:
  "walk 3 \<lparr>wp_clientAccess = None, wp_userId = [3], wp_sessionId = []\<rparr> [4] 1 None demo_log =
     Inr (room_messages [4] demo_log)"
proof -
  have "\<exists>m. requireRoomMember \<lparr>wp_clientAccess = None, wp_userId = [3], wp_sessionId = []\<rparr> [4] demo_log = Inr m"
    unfolding demo_log_def by (simp add: demo_append_simps requireRoomMember_def)
  then obtain m where "requireRoomMember \<lparr>wp_clientAccess = None, wp_userId = [3], wp_sessionId = []\<rparr> [4] demo_log = Inr m"
    by blast
  moreover have "tr_sequences demo_log [4] = 2" using demo_first by auto
  ultimately show ?thesis
    using page_walk_complete[OF demo_log_store, of _ "[4]" m 1 3] by (simp add: max_safe_integer_def)
qed

end
