(* ===== verification/Run_Repository.thy ===== *)
theory Run_Repository
  imports Message_Log
begin

text \<open>
  Runs and their events (\<^verbatim>\<open>apps/server/src/run/run-repository.ts\<close>): creation, the application
  of Runtime events, replies, cancellation, retries and the projection of replies to messages.
  The column \<^verbatim>\<open>context_manifest_json\<close> and the context fence a trigger captures are not part of
  the model. An operation is one transaction. The opaque ids an operation draws are arguments.
\<close>

section \<open>Records\<close>

datatype RunState = RS_queued | RS_delivered | RS_working | RS_input_required | RS_completed
  | RS_failed | RS_canceled | RS_expired | RS_outcome_unknown

record RunRecord =
  run_runId :: jstring
  run_traceId :: jstring
  run_roomId :: jstring
  run_taskId :: jstring
  run_triggerMessageId :: jstring
  run_requesterMemberId :: jstring
  run_targetAgentId :: jstring
  run_parentRunId :: "jstring option"
  run_attemptNumber :: "int option"
  run_retryOfRunId :: "jstring option"
  run_instruction :: jstring
  run_state :: RunState
  run_lastSequence :: int
  run_deadlineAt :: timestamp
  run_createdAt :: timestamp
  run_updatedAt :: timestamp
  run_terminalAt :: "timestamp option"
  run_orchestrationKey :: "jstring option"

fun terminalRunState :: "RunState \<Rightarrow> bool" where
  "terminalRunState RS_completed = True"
| "terminalRunState RS_failed = True"
| "terminalRunState RS_canceled = True"
| "terminalRunState RS_expired = True"
| "terminalRunState RS_outcome_unknown = True"
| "terminalRunState _ = False"

record RuntimeError =
  re_code :: jstring
  re_message :: jstring
  re_retryable :: bool
  re_details :: "json option"

datatype session_disposition = Session_started | Session_resumed | Session_recreated

record RuntimeSession =
  ss_disposition :: session_disposition
  ss_contextCursor :: int
  ss_runtimeScopeId :: "jstring option"
  ss_resultEvidenceRevision :: "int option"
  ss_roomContextConsumption :: "json option"

record RuntimeTaskClarification =
  tc_question :: jstring
  tc_choices :: "jstring list option"

datatype activity_kind = Act_reasoning | Act_tool
datatype activity_phase = Phase_started | Phase_updated | Phase_completed | Phase_failed

record RuntimeActivity =
  ac_activityId :: jstring
  ac_kind :: activity_kind
  ac_phase :: activity_phase
  ac_label :: "jstring option"
  ac_content :: "jstring option"
  ac_reset :: "bool option"

text \<open>The Runtime status of an event is a Run state other than \<open>RS_queued\<close>.\<close>

datatype RuntimeEvent =
    StatusEvent (ev_sequence: int) RunState "RuntimeError option" "RuntimeSession option"
      "RuntimeTaskClarification option"
  | ActivityEvent (ev_sequence: int) RuntimeActivity
  | OutputEvent (ev_sequence: int) jstring "bool option"
  | ReplyEvent (ev_sequence: int) jstring "json option"

record RunEventRecord =
  rv_runId :: jstring
  rv_traceId :: jstring
  rv_sequence :: int
  rv_event :: RuntimeEvent
  rv_createdAt :: timestamp

datatype intent_state = Intent_pending | Intent_resolved

record RunCancellationIntent =
  ci_runId :: jstring
  ci_messageId :: jstring
  ci_agentId :: jstring
  ci_deviceId :: jstring
  ci_requestedByMemberId :: jstring
  ci_reason :: jstring
  ci_state :: intent_state
  ci_createdAt :: timestamp
  ci_lastSentAt :: "timestamp option"
  ci_sendCount :: int
  ci_ackDeadlineAt :: timestamp
  ci_resolvedAt :: "timestamp option"
  ci_terminalStatus :: "RunState option"

record RunCancellationRequest =
  cr_run :: RunRecord
  cr_intent :: "RunCancellationIntent option"
  cr_created :: bool

datatype delivery_state = Delivery_pending | Delivery_accepted

record RunCancellationDelivery =
  cd_deviceId :: jstring
  cd_state :: delivery_state
  cd_sendCount :: int
  cd_lastSentAt :: "timestamp option"

datatype routing_state = Routing_pending | Routing_completed

record RunReplyRoutingIntent =
  ri_parentRunId :: jstring
  ri_replySequence :: int
  ri_content :: jstring
  ri_state :: routing_state
  ri_createdAt :: timestamp
  ri_completedAt :: "timestamp option"

record RunReplyMessageProjection =
  pj_runId :: jstring
  pj_replySequence :: int
  pj_messageId :: jstring
  pj_projectedAt :: timestamp

datatype RunReplyProjectionFailureCode = INVALID_REPLY_EVENT | MULTIPLE_EXACT_MESSAGES
  | MESSAGE_ALREADY_PROJECTED | TIMESTAMP_MISMATCH

record RunReplyProjectionFailure =
  pf_runId :: jstring
  pf_replySequence :: int
  pf_errorCode :: RunReplyProjectionFailureCode
  pf_candidateCount :: int
  pf_recordedAt :: timestamp

datatype RunReplyProjectionReconciliation =
    Projected bool RunReplyMessageProjection
  | Unreconciled RunReplyProjectionFailure

record RunAmbiguityAcknowledgement =
  aa_runId :: jstring
  aa_operationId :: jstring
  aa_taskId :: jstring
  aa_acknowledgedByMemberId :: jstring
  aa_reason :: jstring
  aa_taskRevisionBefore :: int
  aa_taskRevisionAfter :: int
  aa_acknowledgedAt :: timestamp

record task_clarification =
  cl_clarificationId :: jstring
  cl_taskId :: jstring
  cl_roomId :: jstring
  cl_requestingRunId :: jstring
  cl_targetAgentId :: jstring
  cl_question :: jstring
  cl_choices :: "jstring list option"
  cl_questionMessageId :: jstring
  cl_createdAt :: timestamp

record retry_operation =
  ro_operationId :: jstring
  ro_parentRunId :: jstring
  ro_retryRunId :: jstring
  ro_createdByMemberId :: jstring
  ro_createdAt :: timestamp

record run_store =
  rs_team :: team_room
  rs_runs :: "RunRecord list"
  rs_events :: "RunEventRecord list"
  rs_cancellations :: "RunCancellationIntent list"
  rs_deliveries :: "(jstring \<times> RunCancellationDelivery) list"
  rs_routing :: "RunReplyRoutingIntent list"
  rs_projections :: "RunReplyMessageProjection list"
  rs_failures :: "RunReplyProjectionFailure list"
  rs_acknowledgements :: "RunAmbiguityAcknowledgement list"
  rs_clarifications :: "task_clarification list"
  rs_retries :: "retry_operation list"

section \<open>Unique indexes\<close>

definition run_conflict :: "RunRecord \<Rightarrow> RunRecord \<Rightarrow> bool" where
  "run_conflict a b \<longleftrightarrow>
     run_runId a = run_runId b \<or>
     run_triggerMessageId a = run_triggerMessageId b \<and> run_targetAgentId a = run_targetAgentId b \<or>
     some_eq (run_orchestrationKey a) (run_orchestrationKey b) \<or>
     run_taskId a = run_taskId b \<and> run_attemptNumber a = run_attemptNumber b"

definition run_event_conflict :: "RunEventRecord \<Rightarrow> RunEventRecord \<Rightarrow> bool" where
  "run_event_conflict a b \<longleftrightarrow> rv_runId a = rv_runId b \<and> rv_sequence a = rv_sequence b"

definition cancellation_conflict :: "RunCancellationIntent \<Rightarrow> RunCancellationIntent \<Rightarrow> bool" where
  "cancellation_conflict a b \<longleftrightarrow> ci_runId a = ci_runId b \<or> ci_messageId a = ci_messageId b"

definition routing_conflict :: "RunReplyRoutingIntent \<Rightarrow> RunReplyRoutingIntent \<Rightarrow> bool" where
  "routing_conflict a b \<longleftrightarrow> ri_parentRunId a = ri_parentRunId b \<and> ri_replySequence a = ri_replySequence b"

definition projection_conflict :: "RunReplyMessageProjection \<Rightarrow> RunReplyMessageProjection \<Rightarrow> bool" where
  "projection_conflict a b \<longleftrightarrow>
     pj_runId a = pj_runId b \<and> pj_replySequence a = pj_replySequence b \<or> pj_messageId a = pj_messageId b"

definition failure_conflict :: "RunReplyProjectionFailure \<Rightarrow> RunReplyProjectionFailure \<Rightarrow> bool" where
  "failure_conflict a b \<longleftrightarrow> pf_runId a = pf_runId b \<and> pf_replySequence a = pf_replySequence b"

definition acknowledgement_conflict :: "RunAmbiguityAcknowledgement \<Rightarrow> RunAmbiguityAcknowledgement \<Rightarrow> bool" where
  "acknowledgement_conflict a b \<longleftrightarrow> aa_runId a = aa_runId b \<or> aa_operationId a = aa_operationId b"

definition clarification_conflict :: "task_clarification \<Rightarrow> task_clarification \<Rightarrow> bool" where
  "clarification_conflict a b \<longleftrightarrow> cl_clarificationId a = cl_clarificationId b \<or>
     cl_requestingRunId a = cl_requestingRunId b \<or> cl_questionMessageId a = cl_questionMessageId b"

definition retry_conflict :: "retry_operation \<Rightarrow> retry_operation \<Rightarrow> bool" where
  "retry_conflict a b \<longleftrightarrow> ro_operationId a = ro_operationId b \<or> ro_retryRunId a = ro_retryRunId b"

interpretation runs: keyed_table run_conflict run_runId
  by unfold_locales (simp add: run_conflict_def)

interpretation run_events: keyed_table run_event_conflict "\<lambda>e. (rv_runId e, rv_sequence e)"
  by unfold_locales (simp add: run_event_conflict_def)

interpretation cancellations: keyed_table cancellation_conflict ci_runId
  by unfold_locales (simp add: cancellation_conflict_def)

section \<open>Queries\<close>

definition getRun :: "jstring \<Rightarrow> run_store \<Rightarrow> RunRecord option" where
  "getRun runId s = find (\<lambda>r. run_runId r = runId) (rs_runs s)"

definition getCancellationIntent :: "jstring \<Rightarrow> run_store \<Rightarrow> RunCancellationIntent option" where
  "getCancellationIntent runId s = find (\<lambda>c. ci_runId c = runId) (rs_cancellations s)"

definition getCancellationDelivery :: "jstring \<Rightarrow> run_store \<Rightarrow> RunCancellationDelivery option" where
  "getCancellationDelivery runId s = map_of (rs_deliveries s) runId"

definition findByTrigger :: "jstring \<Rightarrow> run_store \<Rightarrow> RunRecord list" where
  "findByTrigger messageId s =
    sort_by (\<lambda>a b. binaryCompare (run_targetAgentId a) (run_targetAgentId b))
      (filter (\<lambda>r. run_triggerMessageId r = messageId) (rs_runs s))"

definition findByOrchestrationKey :: "jstring \<Rightarrow> run_store \<Rightarrow> RunRecord option" where
  "findByOrchestrationKey key s = find (\<lambda>r. run_orchestrationKey r = Some key) (rs_runs s)"

abbreviation by_creation :: "RunRecord \<Rightarrow> RunRecord \<Rightarrow> int" where
  "by_creation a b \<equiv> or_else (run_createdAt a - run_createdAt b) (binaryCompare (run_runId a) (run_runId b))"

definition listRoomRuns :: "jstring \<Rightarrow> run_store \<Rightarrow> RunRecord list" where
  "listRoomRuns roomId s = sort_by by_creation (filter (\<lambda>r. run_roomId r = roomId) (rs_runs s))"

definition listTaskRuns :: "jstring \<Rightarrow> run_store \<Rightarrow> RunRecord list" where
  "listTaskRuns taskId s = sort_by by_creation (filter (\<lambda>r. run_taskId r = taskId) (rs_runs s))"

definition listAgentRuns :: "jstring \<Rightarrow> run_store \<Rightarrow> RunRecord list" where
  "listAgentRuns agentId s = sort_by by_creation (filter (\<lambda>r. run_targetAgentId r = agentId) (rs_runs s))"

definition listDeviceRevocationRuns :: "jstring \<Rightarrow> run_store \<Rightarrow> (RunRecord \<times> bool) list" where
  "listDeviceRevocationRuns deviceId s =
    map (\<lambda>r. (r, (case getCancellationDelivery (run_runId r) s of
          None \<Rightarrow> False | Some d \<Rightarrow> cd_state d = Delivery_accepted) \<or> run_state r \<noteq> RS_queued))
      (sort_by by_creation (filter (\<lambda>r. (\<exists>a\<in>set (tr_agents (rs_team s)). a_agentId a = run_targetAgentId r \<and>
          a_deviceId a = Some deviceId) \<and> \<not> terminalRunState (run_state r)) (rs_runs s)))"

definition listEvents :: "jstring \<Rightarrow> int \<Rightarrow> run_store \<Rightarrow> RunEventRecord list" where
  "listEvents runId afterSequence s =
    sort_by (\<lambda>a b. rv_sequence a - rv_sequence b)
      (filter (\<lambda>e. rv_runId e = runId \<and> rv_sequence e > afterSequence) (rs_events s))"

definition getReplyMessageProjection :: "jstring \<Rightarrow> int \<Rightarrow> run_store \<Rightarrow> RunReplyMessageProjection option" where
  "getReplyMessageProjection runId n s =
    find (\<lambda>p. pj_runId p = runId \<and> pj_replySequence p = n) (rs_projections s)"

definition getReplyProjectionFailure :: "jstring \<Rightarrow> int \<Rightarrow> run_store \<Rightarrow> RunReplyProjectionFailure option" where
  "getReplyProjectionFailure runId n s =
    find (\<lambda>p. pf_runId p = runId \<and> pf_replySequence p = n) (rs_failures s)"

definition is_reply :: "RuntimeEvent \<Rightarrow> bool" where
  "is_reply e \<longleftrightarrow> (case e of ReplyEvent _ _ _ \<Rightarrow> True | _ \<Rightarrow> False)"

definition listUnprojectedReplyEvents :: "run_store \<Rightarrow> (jstring \<times> int) list" where
  "listUnprojectedReplyEvents s =
    map (\<lambda>e. (rv_runId e, rv_sequence e))
      (sort_by (\<lambda>a b. or_else (rv_createdAt a - rv_createdAt b)
          (or_else (binaryCompare (rv_runId a) (rv_runId b)) (rv_sequence a - rv_sequence b)))
        (filter (\<lambda>e. is_reply (rv_event e) \<and>
          getReplyMessageProjection (rv_runId e) (rv_sequence e) s = None \<and>
          getReplyProjectionFailure (rv_runId e) (rv_sequence e) s = None) (rs_events s)))"

definition listPendingReplyRoutingIntents :: "jstring option \<Rightarrow> run_store \<Rightarrow> RunReplyRoutingIntent list" where
  "listPendingReplyRoutingIntents parentRunId s =
    (case truthy parentRunId of
       Some p \<Rightarrow> sort_by (\<lambda>a b. ri_replySequence a - ri_replySequence b)
         (filter (\<lambda>r. ri_state r = Routing_pending \<and> ri_parentRunId r = p) (rs_routing s))
     | None \<Rightarrow> sort_by (\<lambda>a b. or_else (ri_createdAt a - ri_createdAt b)
           (or_else (binaryCompare (ri_parentRunId a) (ri_parentRunId b)) (ri_replySequence a - ri_replySequence b)))
         (filter (\<lambda>r. ri_state r = Routing_pending) (rs_routing s)))"

definition getAmbiguityAcknowledgement :: "jstring \<Rightarrow> run_store \<Rightarrow> RunAmbiguityAcknowledgement option" where
  "getAmbiguityAcknowledgement runId s = find (\<lambda>a. aa_runId a = runId) (rs_acknowledgements s)"

section \<open>Creating Runs\<close>

definition nextAttemptNumber :: "jstring \<Rightarrow> run_store \<Rightarrow> int" where
  "nextAttemptNumber taskId s =
    foldl (\<lambda>m r. case run_attemptNumber r of None \<Rightarrow> m | Some n \<Rightarrow> max m n) 0
      (filter (\<lambda>r. run_taskId r = taskId) (rs_runs s)) + 1"

definition insertRunIdentity :: "RunRecord \<Rightarrow> run_store \<Rightarrow> run_store throwing" where
  "insertRunIdentity run s =
    (let attemptNumber = (case run_attemptNumber run of Some n \<Rightarrow> n | None \<Rightarrow> nextAttemptNumber (run_taskId run) s) in
     bind (insert_row run_conflict (run\<lparr>run_attemptNumber := Some attemptNumber\<rparr>) (rs_runs s)) (\<lambda>rows.
     Inr (s\<lparr>rs_runs := rows\<rparr>)))"

text \<open>The foreign key and the index of a new Run refuse a missing trigger and a repeated target.\<close>

definition createRuns :: "RunRecord list \<Rightarrow> run_store \<Rightarrow> (RunRecord option list \<times> run_store) throwing" where
  "createRuns runs s =
    bind (for_each insertRunIdentity runs s) (\<lambda>s. Inr (map (\<lambda>r. getRun (run_runId r) s) runs, s))"

section \<open>Applying an event\<close>

definition resolveCancellationIntent :: "jstring \<Rightarrow> RunState \<Rightarrow> timestamp \<Rightarrow> run_store \<Rightarrow> run_store throwing" where
  "resolveCancellationIntent runId terminalStatus resolvedAt s =
    bind (update_rows cancellation_conflict (\<lambda>c. ci_runId c = runId \<and> ci_state c = Intent_pending)
      (\<lambda>c. c\<lparr>ci_state := Intent_resolved, ci_resolvedAt := Some resolvedAt, ci_terminalStatus := Some terminalStatus\<rparr>)
      (rs_cancellations s)) (\<lambda>(n, rows). Inr (s\<lparr>rs_cancellations := rows\<rparr>))"

text \<open>A message the target Agent of a Run sends in answer to its trigger.\<close>

definition run_message :: "jstring \<Rightarrow> RunRecord \<Rightarrow> jstring \<Rightarrow> timestamp \<Rightarrow> MessageRecord" where
  "run_message messageId run content createdAt =
    \<lparr>msg_messageId = messageId, msg_traceId = run_traceId run, msg_roomId = run_roomId run,
     msg_taskId = run_taskId run, msg_sequence = 0, msg_senderType = Sender_agent,
     msg_senderId = run_targetAgentId run, msg_content = content, msg_mentions = [],
     msg_parentMessageId = Some (run_triggerMessageId run), msg_clientMessageId = None,
     msg_createdAt = createdAt\<rparr>"

definition on_team :: "(team_room \<Rightarrow> team_room throwing) \<Rightarrow> run_store \<Rightarrow> run_store throwing" where
  "on_team f s = bind (f (rs_team s)) (\<lambda>t. Inr (s\<lparr>rs_team := t\<rparr>))"

definition openClarification :: "jstring \<Rightarrow> jstring \<Rightarrow> RunRecord \<Rightarrow> RunState \<Rightarrow> RuntimeTaskClarification \<Rightarrow>
    timestamp \<Rightarrow> run_store \<Rightarrow> run_store throwing" where
  "openClarification questionMessageId clarificationId current status clarification now s =
    bind (ensure (\<not> (status \<noteq> RS_input_required \<or> truthy (run_orchestrationKey current) \<noteq> None))
      (Error ''Task clarification is allowed only for a non-Discussion input-required Run'')) (\<lambda>_.
    bind (ensure (\<not> (\<exists>c\<in>set (rs_clarifications s). cl_requestingRunId c = run_runId current))
      (Error ''Run already owns a Task clarification'')) (\<lambda>_.
    bind (on_team (insertRoomMessage (run_message questionMessageId current (tc_question clarification) now)) s) (\<lambda>s.
    bind (insert_row clarification_conflict
      \<lparr>cl_clarificationId = clarificationId, cl_taskId = run_taskId current, cl_roomId = run_roomId current,
       cl_requestingRunId = run_runId current, cl_targetAgentId = run_targetAgentId current,
       cl_question = tc_question clarification, cl_choices = tc_choices clarification,
       cl_questionMessageId = questionMessageId, cl_createdAt = now\<rparr> (rs_clarifications s)) (\<lambda>rows.
    Inr (s\<lparr>rs_clarifications := rows\<rparr>)))))"

definition recordSession :: "jstring \<Rightarrow> RuntimeSession \<Rightarrow> timestamp \<Rightarrow> run_store \<Rightarrow> run_store" where
  "recordSession taskId session now s = s\<lparr>rs_team := (rs_team s)\<lparr>tr_tasks :=
     map (\<lambda>t. if tk_taskId t = taskId
       then t\<lparr>tk_lastRoomSequence := max (tk_lastRoomSequence t) (ss_contextCursor session), tk_updatedAt := now\<rparr>
       else t) (tr_tasks (rs_team s))\<rparr>\<rparr>"

definition next_run_state :: "RuntimeEvent \<Rightarrow> RunState \<Rightarrow> RunState" where
  "next_run_state event state = (case event of StatusEvent _ status _ _ _ \<Rightarrow> status | _ \<Rightarrow> state)"

text \<open>The two ids are those of a clarification and its question.\<close>

definition event_effects :: "jstring \<Rightarrow> jstring \<Rightarrow> RunRecord \<Rightarrow> RuntimeEvent \<Rightarrow> timestamp \<Rightarrow> run_store \<Rightarrow>
    run_store throwing" where
  "event_effects questionMessageId clarificationId current event now s =
    (case event of
       StatusEvent _ status _ session clarification \<Rightarrow>
         bind (case clarification of None \<Rightarrow> Inr s
           | Some c \<Rightarrow> openClarification questionMessageId clarificationId current status c now s) (\<lambda>s.
         Inr (case session of None \<Rightarrow> s | Some x \<Rightarrow> recordSession (run_taskId current) x now s))
     | ReplyEvent n content _ \<Rightarrow>
         bind (insert_row routing_conflict
           \<lparr>ri_parentRunId = run_runId current, ri_replySequence = n, ri_content = content,
            ri_state = Routing_pending, ri_createdAt = now, ri_completedAt = None\<rparr> (rs_routing s)) (\<lambda>rows.
         Inr (s\<lparr>rs_routing := rows\<rparr>))
     | _ \<Rightarrow> Inr s)"

definition applyRuntimeEvent :: "jstring \<Rightarrow> jstring \<Rightarrow> jstring \<Rightarrow> RuntimeEvent \<Rightarrow> timestamp \<Rightarrow> run_store \<Rightarrow>
    ((bool \<times> RunRecord) \<times> run_store) throwing" where
  "applyRuntimeEvent questionMessageId clarificationId runId event now s =
    (case getRun runId s of
       None \<Rightarrow> Inl (ErrorText ''Run not found: '' runId)
     | Some current \<Rightarrow>
    if ev_sequence event \<le> run_lastSequence current \<or> terminalRunState (run_state current)
    then Inr ((False, current), s)
    else
    bind (ensure (ev_sequence event = run_lastSequence current + 1)
      (ErrorNumber ''Run event sequence gap: '' (ev_sequence event))) (\<lambda>_.
    let nextState = next_run_state event (run_state current);
        terminalAt = (if terminalRunState nextState then Some now else None) in
    bind (insert_row run_event_conflict
      \<lparr>rv_runId = runId, rv_traceId = run_traceId current, rv_sequence = ev_sequence event, rv_event = event,
       rv_createdAt = now\<rparr> (rs_events s)) (\<lambda>rows.
    bind (event_effects questionMessageId clarificationId current event now (s\<lparr>rs_events := rows\<rparr>)) (\<lambda>s.
    bind (update_rows run_conflict (\<lambda>r. run_runId r = runId)
      (\<lambda>r. r\<lparr>run_state := nextState, run_lastSequence := ev_sequence event, run_updatedAt := now,
         run_terminalAt := terminalAt\<rparr>) (rs_runs s)) (\<lambda>(n, rows).
    bind (if terminalRunState nextState
      then resolveCancellationIntent runId nextState now (s\<lparr>rs_runs := rows\<rparr>)
      else Inr (s\<lparr>rs_runs := rows\<rparr>)) (\<lambda>s.
    case getRun runId s of
      None \<Rightarrow> Inl (ErrorText ''Run disappeared after event: '' runId)
    | Some updated \<Rightarrow> Inr ((True, updated), s)))))))"

text \<open>The transitions the server makes itself carry no clarification, so they draw no ids.\<close>

definition applyStatus :: "jstring \<Rightarrow> RunState \<Rightarrow> RuntimeError option \<Rightarrow> int \<Rightarrow> timestamp \<Rightarrow> run_store \<Rightarrow>
    ((bool \<times> RunRecord) \<times> run_store) throwing" where
  "applyStatus runId status err n now s =
    applyRuntimeEvent [] [] runId (StatusEvent n status err None None) now s"

section \<open>Replies\<close>

definition insertReplyMessageProjection :: "jstring \<Rightarrow> int \<Rightarrow> jstring \<Rightarrow> timestamp \<Rightarrow> run_store \<Rightarrow>
    (RunReplyMessageProjection \<times> run_store) throwing" where
  "insertReplyMessageProjection runId n messageId projectedAt s =
    (let row = \<lparr>pj_runId = runId, pj_replySequence = n, pj_messageId = messageId, pj_projectedAt = projectedAt\<rparr> in
     bind (insert_row projection_conflict row (rs_projections s)) (\<lambda>rows. Inr (row, s\<lparr>rs_projections := rows\<rparr>)))"

definition insertReplyProjectionFailure :: "jstring \<Rightarrow> int \<Rightarrow> RunReplyProjectionFailureCode \<Rightarrow> int \<Rightarrow> timestamp \<Rightarrow>
    run_store \<Rightarrow> (RunReplyProjectionFailure \<times> run_store) throwing" where
  "insertReplyProjectionFailure runId n code candidateCount recordedAt s =
    (let row = \<lparr>pf_runId = runId, pf_replySequence = n, pf_errorCode = code, pf_candidateCount = candidateCount,
        pf_recordedAt = recordedAt\<rparr> in
     bind (insert_row failure_conflict row (rs_failures s)) (\<lambda>rows. Inr (row, s\<lparr>rs_failures := rows\<rparr>)))"

definition insertReplyMessage :: "jstring \<Rightarrow> RunRecord \<Rightarrow> jstring \<Rightarrow> timestamp \<Rightarrow> run_store \<Rightarrow> run_store throwing" where
  "insertReplyMessage messageId run content createdAt s =
    on_team (insertRoomMessage (run_message messageId run content createdAt)) s"

definition applyReply :: "jstring \<Rightarrow> jstring \<Rightarrow> int \<Rightarrow> jstring \<Rightarrow> json option \<Rightarrow> timestamp \<Rightarrow> run_store \<Rightarrow>
    ((bool \<times> RunRecord) \<times> run_store) throwing" where
  "applyReply messageId runId n content assessment now s =
    bind (applyRuntimeEvent [] [] runId (ReplyEvent n content assessment) now s) (\<lambda>((applied, run), s).
    if \<not> applied then Inr ((applied, run), s)
    else bind (insertReplyMessage messageId run content now s) (\<lambda>s.
         bind (insertReplyMessageProjection runId n messageId now s) (\<lambda>(_, s).
         Inr ((applied, run), s))))"

definition applyReplyAndTerminal :: "jstring \<Rightarrow> jstring \<Rightarrow> int \<Rightarrow> jstring \<Rightarrow> json option \<Rightarrow>
    int \<Rightarrow> RuntimeError option \<Rightarrow> RuntimeSession option \<Rightarrow> timestamp \<Rightarrow> run_store \<Rightarrow>
    ((bool \<times> RunRecord) \<times> run_store) throwing" where
  "applyReplyAndTerminal messageId runId n content assessment m err session now s =
    bind (ensure (m = n + 1) (Error ''Runtime reply and completion sequences must be contiguous'')) (\<lambda>_.
    bind (applyReply messageId runId n content assessment now s) (\<lambda>((applied, run), s).
    if \<not> applied then Inr ((applied, run), s)
    else bind (applyRuntimeEvent [] [] runId (StatusEvent m RS_completed err session None) now s) (\<lambda>((applied, run), s).
         bind (ensure applied (Error ''Runtime completion was not applied with its reply'')) (\<lambda>_.
         Inr ((applied, run), s)))))"

definition completeReplyRoutingIntent :: "jstring \<Rightarrow> int \<Rightarrow> timestamp \<Rightarrow> run_store \<Rightarrow> run_store throwing" where
  "completeReplyRoutingIntent parentRunId n now s =
    bind (update_rows routing_conflict
      (\<lambda>r. ri_parentRunId r = parentRunId \<and> ri_replySequence r = n \<and> ri_state r = Routing_pending)
      (\<lambda>r. r\<lparr>ri_state := Routing_completed, ri_completedAt := Some now\<rparr>) (rs_routing s)) (\<lambda>(_, rows).
    Inr (s\<lparr>rs_routing := rows\<rparr>))"

end
