(* ===== verification/Run_Control.thy ===== *)
theory Run_Control
  imports Run_Repository
begin

text \<open>
  The operations of \<^verbatim>\<open>RunRepository\<close> that end, repeat and repair Runs
  (\<^verbatim>\<open>apps/server/src/run/run-repository.ts\<close>): cancellation, expiry, the acknowledgement of an
  unknown outcome, retries, and the projection of a reply event to its Room message.
\<close>

section \<open>Cancellation\<close>

fun run_state_text :: "RunState \<Rightarrow> jstring" where
  "run_state_text RS_queued = lit ''queued''"
| "run_state_text RS_delivered = lit ''delivered''"
| "run_state_text RS_working = lit ''working''"
| "run_state_text RS_input_required = lit ''input_required''"
| "run_state_text RS_completed = lit ''completed''"
| "run_state_text RS_failed = lit ''failed''"
| "run_state_text RS_canceled = lit ''canceled''"
| "run_state_text RS_expired = lit ''expired''"
| "run_state_text RS_outcome_unknown = lit ''outcome_unknown''"

record cancellation_input =
  rc_runId :: jstring
  rc_messageId :: jstring
  rc_requestedByMemberId :: jstring
  rc_reason :: jstring
  rc_now :: timestamp
  rc_ackDeadlineAt :: timestamp

definition insertCancellationIntent :: "RunRecord \<Rightarrow> RunCancellationDelivery \<Rightarrow> cancellation_input \<Rightarrow> run_store \<Rightarrow>
    run_store throwing" where
  "insertCancellationIntent run delivery input s =
    bind (insert_row cancellation_conflict
      \<lparr>ci_runId = run_runId run, ci_messageId = rc_messageId input, ci_agentId = run_targetAgentId run,
       ci_deviceId = cd_deviceId delivery, ci_requestedByMemberId = rc_requestedByMemberId input,
       ci_reason = rc_reason input, ci_state = Intent_pending, ci_createdAt = rc_now input,
       ci_lastSentAt = None, ci_sendCount = 0, ci_ackDeadlineAt = rc_ackDeadlineAt input,
       ci_resolvedAt = None, ci_terminalStatus = None\<rparr> (rs_cancellations s)) (\<lambda>rows.
    Inr (s\<lparr>rs_cancellations := rows\<rparr>))"

definition cancelNow :: "RunRecord \<Rightarrow> timestamp \<Rightarrow> run_store \<Rightarrow> (RunCancellationRequest \<times> run_store) throwing" where
  "cancelNow run now s =
    bind (applyStatus (run_runId run) RS_canceled None (run_lastSequence run + 1) now s) (\<lambda>((applied, canceled), s).
    Inr (\<lparr>cr_run = canceled, cr_intent = None, cr_created = False\<rparr>, s))"

text \<open>
  A queued Run without a delivery is canceled at once, as is one that waits for input; any other
  live Run is canceled by its Bridge, which the intent asks for.
\<close>

definition requestCancellation :: "cancellation_input \<Rightarrow> run_store \<Rightarrow> (RunCancellationRequest \<times> run_store) throwing" where
  "requestCancellation input s =
    (case getRun (rc_runId input) s of
       None \<Rightarrow> Inl (ErrorText ''Run not found: '' (rc_runId input))
     | Some run \<Rightarrow>
    let existing = getCancellationIntent (run_runId run) s in
    if terminalRunState (run_state run)
    then bind (if (case existing of None \<Rightarrow> False | Some i \<Rightarrow> ci_state i = Intent_pending)
           then resolveCancellationIntent (run_runId run) (run_state run) (rc_now input) s else Inr s) (\<lambda>s.
         Inr (\<lparr>cr_run = run, cr_intent = getCancellationIntent (run_runId run) s, cr_created = False\<rparr>, s))
    else if run_state run = RS_input_required then cancelNow run (rc_now input) s
    else if existing \<noteq> None then Inr (\<lparr>cr_run = run, cr_intent = existing, cr_created = False\<rparr>, s)
    else
    let delivery = getCancellationDelivery (run_runId run) s;
        queuedMayHaveReachedBridge = (run_state run = RS_queued \<and> delivery \<noteq> None) in
    if run_state run = RS_queued \<and> \<not> queuedMayHaveReachedBridge then cancelNow run (rc_now input) s
    else
    bind (ensure (\<not> (run_state run \<noteq> RS_queued \<and> run_state run \<noteq> RS_delivered \<and> run_state run \<noteq> RS_working))
      (ErrorText ''Run cannot be canceled from state: '' (run_state_text (run_state run)))) (\<lambda>_.
    case delivery of
      None \<Rightarrow> Inl (Error ''Remote Run cancellation requires its frozen delivery Device'')
    | Some d \<Rightarrow>
        bind (insertCancellationIntent run d input s) (\<lambda>s.
        Inr (\<lparr>cr_run = run, cr_intent = getCancellationIntent (run_runId run) s, cr_created = True\<rparr>, s))))"

text \<open>\<^verbatim>\<open>Math.max(1, Math.min(500, Math.trunc(limit)))\<close> for an integer limit.\<close>

definition bounded_limit :: "int \<Rightarrow> nat" where
  "bounded_limit limit = nat (max 1 (min 500 limit))"

definition listDispatchableCancellationIntents :: "timestamp \<Rightarrow> timestamp \<Rightarrow> int \<Rightarrow> jstring option \<Rightarrow> run_store \<Rightarrow>
    RunCancellationIntent list" where
  "listDispatchableCancellationIntents now sentBefore limit deviceId s =
    take (bounded_limit limit) (sort_by (\<lambda>a b. or_else (ci_createdAt a - ci_createdAt b)
        (binaryCompare (ci_runId a) (ci_runId b)))
      (filter (\<lambda>i. ci_state i = Intent_pending \<and> ci_ackDeadlineAt i > now \<and>
          (case ci_lastSentAt i of None \<Rightarrow> True | Some t \<Rightarrow> t \<le> sentBefore) \<and>
          (deviceId = None \<or> deviceId = Some (ci_deviceId i))) (rs_cancellations s)))"

definition markCancellationIntentSent :: "jstring \<Rightarrow> jstring \<Rightarrow> timestamp \<Rightarrow> run_store \<Rightarrow>
    (RunCancellationIntent option \<times> run_store) throwing" where
  "markCancellationIntentSent runId messageId sentAt s =
    bind (update_rows cancellation_conflict
      (\<lambda>i. ci_runId i = runId \<and> ci_messageId i = messageId \<and> ci_state i = Intent_pending)
      (\<lambda>i. i\<lparr>ci_sendCount := ci_sendCount i + 1, ci_lastSentAt := Some sentAt\<rparr>) (rs_cancellations s)) (\<lambda>(_, rows).
    let s = s\<lparr>rs_cancellations := rows\<rparr> in Inr (getCancellationIntent runId s, s))"

definition cancel_timeout_error :: RuntimeError where
  "cancel_timeout_error =
    \<lparr>re_code = lit ''RUN_CANCEL_ACK_TIMEOUT'',
     re_message = lit ''The managed Runtime did not confirm a terminal outcome before the cancellation deadline.'',
     re_retryable = False, re_details = None\<rparr>"

text \<open>One round of the loop of \<open>expireCancellationIntents\<close>, a transaction of its own.\<close>

definition expireIntent :: "timestamp \<Rightarrow> jstring \<Rightarrow> RunRecord list \<times> run_store \<Rightarrow>
    (RunRecord list \<times> run_store) throwing" where
  "expireIntent now runId acc = (case acc of (expired, s) \<Rightarrow>
    (case (getCancellationIntent runId s, getRun runId s) of
       (Some intent, Some run) \<Rightarrow>
         if ci_state intent \<noteq> Intent_pending then Inr (expired @ [run], s)
         else if terminalRunState (run_state run)
         then bind (resolveCancellationIntent (run_runId run) (run_state run) now s) (\<lambda>s. Inr (expired @ [run], s))
         else bind (applyStatus (run_runId run) RS_outcome_unknown (Some cancel_timeout_error)
             (run_lastSequence run + 1) now s) (\<lambda>((_, updated), s). Inr (expired @ [updated], s))
     | _ \<Rightarrow> Inl (ErrorText ''Run not found: '' runId)))"

definition expireCancellationIntents :: "timestamp \<Rightarrow> int \<Rightarrow> run_store \<Rightarrow> (RunRecord list \<times> run_store) throwing" where
  "expireCancellationIntents now limit s =
    (let due = take (bounded_limit limit) (sort_by (\<lambda>a b. or_else (ci_ackDeadlineAt a - ci_ackDeadlineAt b)
          (or_else (ci_createdAt a - ci_createdAt b) (binaryCompare (ci_runId a) (ci_runId b))))
        (filter (\<lambda>i. ci_state i = Intent_pending \<and> ci_ackDeadlineAt i \<le> now) (rs_cancellations s)))
     in for_each (expireIntent now) (map ci_runId due) ([], s))"

definition run_expired_error :: RuntimeError where
  "run_expired_error =
    \<lparr>re_code = lit ''RUN_EXPIRED'', re_message = lit ''Run expired before its target Agent accepted delivery.'',
     re_retryable = False, re_details = None\<rparr>"

definition expireRun :: "timestamp \<Rightarrow> jstring \<Rightarrow> RunRecord list \<times> run_store \<Rightarrow> (RunRecord list \<times> run_store) throwing" where
  "expireRun now runId acc = (case acc of (expired, s) \<Rightarrow>
    bind (applyStatus runId RS_expired (Some run_expired_error)
      ((case getRun runId s of None \<Rightarrow> 0 | Some r \<Rightarrow> run_lastSequence r) + 1) now s) (\<lambda>((_, run), s).
    Inr (expired @ [run], s)))"

definition expireQueued :: "jstring \<Rightarrow> timestamp \<Rightarrow> run_store \<Rightarrow> (RunRecord list \<times> run_store) throwing" where
  "expireQueued roomId now s =
    for_each (expireRun now) (map run_runId (sort_by by_creation
      (filter (\<lambda>r. run_roomId r = roomId \<and> run_state r = RS_queued \<and> run_deadlineAt r \<le> now) (rs_runs s)))) ([], s)"

section \<open>Unknown outcomes and retries\<close>

record acknowledgement_input =
  ak_runId :: jstring
  ak_operationId :: jstring
  ak_expectedTaskRevision :: int
  ak_memberId :: jstring
  ak_reason :: jstring
  ak_now :: timestamp

definition acknowledgeAmbiguity :: "acknowledgement_input \<Rightarrow> run_store \<Rightarrow>
    (RunAmbiguityAcknowledgement option \<times> run_store) throwing" where
  "acknowledgeAmbiguity input s =
    bind (case find (\<lambda>a. aa_operationId a = ak_operationId input) (rs_acknowledgements s) of
       Some operation \<Rightarrow>
         bind (ensure (aa_runId operation = ak_runId input)
           (Error ''Ambiguity operation is bound to another Run'')) (\<lambda>_. Inr s)
     | None \<Rightarrow>
         (case getRun (ak_runId input) s of
            None \<Rightarrow> Inl (Error ''Only an outcome_unknown Run may be acknowledged'')
          | Some run \<Rightarrow>
         bind (ensure (run_state run = RS_outcome_unknown)
           (Error ''Only an outcome_unknown Run may be acknowledged'')) (\<lambda>_.
         bind (ensure (getAmbiguityAcknowledgement (ak_runId input) s = None)
           (Error ''Run ambiguity is already acknowledged'')) (\<lambda>_.
         bind (update_rows (\<lambda>a b. tk_taskId a = tk_taskId b)
           (\<lambda>t. tk_taskId t = run_taskId run \<and> tk_taskRevision t = ak_expectedTaskRevision input)
           (\<lambda>t. t\<lparr>tk_taskRevision := tk_taskRevision t + 1, tk_updatedAt := ak_now input\<rparr>)
           (tr_tasks (rs_team s))) (\<lambda>(changes, tasks).
         bind (ensure (changes = 1) (Error ''Task revision conflict'')) (\<lambda>_.
         bind (insert_row acknowledgement_conflict
           \<lparr>aa_runId = ak_runId input, aa_operationId = ak_operationId input, aa_taskId = run_taskId run,
            aa_acknowledgedByMemberId = ak_memberId input, aa_reason = ak_reason input,
            aa_taskRevisionBefore = ak_expectedTaskRevision input,
            aa_taskRevisionAfter = ak_expectedTaskRevision input + 1, aa_acknowledgedAt = ak_now input\<rparr>
           (rs_acknowledgements s)) (\<lambda>rows.
         Inr (s\<lparr>rs_team := (rs_team s)\<lparr>tr_tasks := tasks\<rparr>, rs_acknowledgements := rows\<rparr>)))))))) (\<lambda>s.
    Inr (getAmbiguityAcknowledgement (ak_runId input) s, s))"

record retry_input =
  rt_parentRunId :: jstring
  rt_operationId :: jstring
  rt_expectedTaskRevision :: int
  rt_memberId :: jstring
  rt_now :: timestamp
  rt_deadlineAt :: timestamp

text \<open>The Run a retry queues and the message that triggers it.\<close>

definition retry_run :: "jstring \<Rightarrow> jstring \<Rightarrow> retry_input \<Rightarrow> RunRecord \<Rightarrow> RunRecord" where
  "retry_run runId triggerMessageId input parent =
    \<lparr>run_runId = runId, run_traceId = run_traceId parent, run_roomId = run_roomId parent,
     run_taskId = run_taskId parent, run_triggerMessageId = triggerMessageId,
     run_requesterMemberId = rt_memberId input, run_targetAgentId = run_targetAgentId parent,
     run_parentRunId = None, run_attemptNumber = None, run_retryOfRunId = Some (run_runId parent),
     run_instruction = run_instruction parent, run_state = RS_queued, run_lastSequence = 0,
     run_deadlineAt = rt_deadlineAt input, run_createdAt = rt_now input, run_updatedAt = rt_now input,
     run_terminalAt = None, run_orchestrationKey = None\<rparr>"

definition retry_trigger :: "jstring \<Rightarrow> retry_input \<Rightarrow> RunRecord \<Rightarrow> MessageRecord" where
  "retry_trigger messageId input parent =
    \<lparr>msg_messageId = messageId, msg_traceId = run_traceId parent, msg_roomId = run_roomId parent,
     msg_taskId = run_taskId parent, msg_sequence = 0, msg_senderType = Sender_member,
     msg_senderId = rt_memberId input, msg_content = run_instruction parent, msg_mentions = [],
     msg_parentMessageId = Some (run_triggerMessageId parent), msg_clientMessageId = None,
     msg_createdAt = rt_now input\<rparr>"

definition check_retry :: "retry_input \<Rightarrow> RunRecord \<Rightarrow> run_store \<Rightarrow> unit throwing" where
  "check_retry input parent s =
    bind (ensure (\<not> (\<not> terminalRunState (run_state parent) \<or> run_state parent = RS_completed))
      (Error ''Only an unsuccessful terminal Run may be retried'')) (\<lambda>_.
    bind (ensure (\<not> (run_state parent = RS_outcome_unknown \<and> getAmbiguityAcknowledgement (run_runId parent) s = None))
      (Error ''Ambiguous Run outcome requires acknowledgement before retry'')) (\<lambda>_.
    case getTask (run_taskId parent) (rs_team s) of
      None \<Rightarrow> Inl (Error ''Task revision conflict'')
    | Some task \<Rightarrow>
    bind (ensure (tk_taskRevision task = rt_expectedTaskRevision input) (Error ''Task revision conflict'')) (\<lambda>_.
    bind (ensure (\<not> (tk_lifecycleState task \<notin> {TL_ready, TL_active, TL_review} \<or> tk_schedulingState task \<noteq> Sched_enabled))
      (Error ''Run Task is not schedulable'')) (\<lambda>_.
    bind (ensure (\<not> (tk_budgetRunAttempts task \<ge> maxRunAttempts (tk_budgetPolicy task) \<or>
        tk_budgetExecutionDurationSeconds task \<ge> maxExecutionDurationSeconds (tk_budgetPolicy task)))
      (Error ''Task budget is exhausted'')) (\<lambda>_.
    ensure (tk_isDefault task \<or> (\<exists>a\<in>set (tk_assignments task). ta_agentId a = run_targetAgentId parent))
      (Error ''Retry target is no longer assigned to the Task''))))))"

definition createRetry :: "jstring \<Rightarrow> jstring \<Rightarrow> retry_input \<Rightarrow> run_store \<Rightarrow> (RunRecord option \<times> run_store) throwing" where
  "createRetry runId triggerMessageId input s =
    (case find (\<lambda>o'. ro_operationId o' = rt_operationId input) (rs_retries s) of
       Some replay \<Rightarrow>
         bind (ensure (ro_parentRunId replay = rt_parentRunId input)
           (Error ''Retry operation is bound to another Run'')) (\<lambda>_. Inr (getRun (ro_retryRunId replay) s, s))
     | None \<Rightarrow>
         (case getRun (rt_parentRunId input) s of
            None \<Rightarrow> Inl (Error ''Only an unsuccessful terminal Run may be retried'')
          | Some parent \<Rightarrow>
         bind (check_retry input parent s) (\<lambda>_.
         bind (on_team (insertRoomMessage (retry_trigger triggerMessageId input parent)) s) (\<lambda>s.
         bind (createRuns [retry_run runId triggerMessageId input parent] s) (\<lambda>(_, s).
         bind (insert_row retry_conflict
           \<lparr>ro_operationId = rt_operationId input, ro_parentRunId = rt_parentRunId input, ro_retryRunId = runId,
            ro_createdByMemberId = rt_memberId input, ro_createdAt = rt_now input\<rparr> (rs_retries s)) (\<lambda>rows.
         let s = s\<lparr>rs_retries := rows\<rparr> in Inr (getRun runId s, s)))))))"

section \<open>Projecting a reply event to its message\<close>

text \<open>A candidate is a message and the Run event it already projects, if any.\<close>

definition findReplyMessageCandidates :: "RunRecord \<Rightarrow> jstring \<Rightarrow> timestamp \<Rightarrow> bool \<Rightarrow> run_store \<Rightarrow>
    (jstring \<times> RunReplyMessageProjection option) list" where
  "findReplyMessageCandidates run content eventCreatedAt exact s =
    map (\<lambda>m. (msg_messageId m, find (\<lambda>p. pj_messageId p = msg_messageId m) (rs_projections s)))
      (sort_by (\<lambda>a b. or_else (msg_sequence a - msg_sequence b) (binaryCompare (msg_messageId a) (msg_messageId b)))
        (filter (\<lambda>m. msg_traceId m = run_traceId run \<and> msg_roomId m = run_roomId run \<and>
            msg_taskId m = run_taskId run \<and> msg_senderType m = Sender_agent \<and>
            msg_senderId m = run_targetAgentId run \<and> msg_parentMessageId m = Some (run_triggerMessageId run) \<and>
            msg_content m = content \<and> (msg_createdAt m = eventCreatedAt \<longleftrightarrow> exact)) (tr_messages (rs_team s))))"

definition reply_content :: "RuntimeEvent \<Rightarrow> jstring" where
  "reply_content e = (case e of ReplyEvent _ content _ \<Rightarrow> content | _ \<Rightarrow> [])"

definition reconcileSource :: "jstring \<Rightarrow> RunRecord \<Rightarrow> RunEventRecord \<Rightarrow> timestamp \<Rightarrow> run_store \<Rightarrow>
    (RunReplyProjectionReconciliation \<times> run_store) throwing" where
  "reconcileSource freshId run event now s =
    (let runId = rv_runId event; n = rv_sequence event; content = reply_content (rv_event event);
         fail = (\<lambda>code count. bind (insertReplyProjectionFailure runId n code count now s)
           (\<lambda>(f, s). Inr (Unreconciled f, s)));
         project = (\<lambda>created messageId s. bind (insertReplyMessageProjection runId n messageId now s)
           (\<lambda>(p, s). Inr (Projected created p, s))) in
     if rv_traceId event \<noteq> run_traceId run \<or> length content < 1 \<or> exceedsUnicodeCodePointLimit content 20000
     then fail INVALID_REPLY_EVENT 0
     else
     (case findReplyMessageCandidates run content (rv_createdAt event) True s of
        (messageId, projected) # others \<Rightarrow>
          if others \<noteq> [] then fail MULTIPLE_EXACT_MESSAGES (int (length others) + 1)
          else if projected \<noteq> None then fail MESSAGE_ALREADY_PROJECTED 1
          else project False messageId s
      | [] \<Rightarrow>
          let mismatches = findReplyMessageCandidates run content (rv_createdAt event) False s in
          if mismatches \<noteq> [] then fail TIMESTAMP_MISMATCH (int (length mismatches))
          else bind (insertReplyMessage freshId run content (rv_createdAt event) s) (project True freshId)))"

definition reconcileReplyMessageProjection :: "jstring \<Rightarrow> jstring \<Rightarrow> int \<Rightarrow> timestamp \<Rightarrow> run_store \<Rightarrow>
    (RunReplyProjectionReconciliation \<times> run_store) throwing" where
  "reconcileReplyMessageProjection freshId runId n now s =
    (case getReplyMessageProjection runId n s of
       Some p \<Rightarrow> Inr (Projected False p, s)
     | None \<Rightarrow>
    (case getReplyProjectionFailure runId n s of
       Some f \<Rightarrow> Inr (Unreconciled f, s)
     | None \<Rightarrow>
    (case (find (\<lambda>e. rv_runId e = runId \<and> rv_sequence e = n \<and> is_reply (rv_event e)) (rs_events s), getRun runId s) of
       (Some event, Some run) \<Rightarrow> reconcileSource freshId run event now s
     | _ \<Rightarrow> Inl (ErrorText ''Run reply event not found: '' (runId @ lit ''/'' @ int_text n)))))"

end
