(* ===== verification/Run_History.thy ===== *)
theory Run_History
  imports Run_Control
begin

text \<open>
  What the Run tables promise. Every operation of \<open>Run_Repository\<close> and \<open>Run_Control\<close> is a
  sequence of steps of \<open>run_step\<close>, the relation that says how the Runs, their events and their
  cancellation intents may change; the invariant and the frozen outcome are proved once, on the
  steps.
\<close>

section \<open>Steps\<close>

text \<open>How one event changes its Run and, at the end of the Run, the pending intent.\<close>

definition advanced_run :: "RunState \<Rightarrow> int \<Rightarrow> timestamp \<Rightarrow> RunRecord \<Rightarrow> RunRecord" where
  "advanced_run state n now r =
     r\<lparr>run_state := state, run_lastSequence := n, run_updatedAt := now,
       run_terminalAt := (if terminalRunState state then Some now else None)\<rparr>"

definition resolved_intent :: "RunState \<Rightarrow> timestamp \<Rightarrow> RunCancellationIntent \<Rightarrow> RunCancellationIntent" where
  "resolved_intent state now c =
     c\<lparr>ci_state := Intent_resolved, ci_resolvedAt := Some now, ci_terminalStatus := Some state\<rparr>"

definition resolve_intents :: "jstring \<Rightarrow> RunState \<Rightarrow> timestamp \<Rightarrow> RunCancellationIntent list \<Rightarrow>
    RunCancellationIntent list" where
  "resolve_intents runId state now =
     map (\<lambda>c. if ci_runId c = runId \<and> ci_state c = Intent_pending then resolved_intent state now c else c)"

definition fresh_run :: "RunRecord \<Rightarrow> bool" where
  "fresh_run r \<longleftrightarrow> run_state r = RS_queued \<and> run_lastSequence r = 0 \<and> run_terminalAt r = None"

definition same_runs :: "run_store \<Rightarrow> run_store \<Rightarrow> bool" where
  "same_runs s s' \<longleftrightarrow> rs_runs s' = rs_runs s \<and> rs_events s' = rs_events s \<and> rs_cancellations s' = rs_cancellations s"

inductive run_step :: "run_store \<Rightarrow> run_store \<Rightarrow> bool" where
  step_create: "conflict_free run_conflict (rs_runs s @ [r]) \<Longrightarrow> fresh_run r \<Longrightarrow> rs_runs s' = rs_runs s @ [r] \<Longrightarrow>
    rs_events s' = rs_events s \<Longrightarrow> rs_cancellations s' = rs_cancellations s \<Longrightarrow> run_step s s'"
| step_event: "getRun runId s = Some current \<Longrightarrow> \<not> terminalRunState (run_state current) \<Longrightarrow>
    ev_sequence event = run_lastSequence current + 1 \<Longrightarrow>
    rs_events s' = rs_events s @ [\<lparr>rv_runId = runId, rv_traceId = run_traceId current,
      rv_sequence = ev_sequence event, rv_event = event, rv_createdAt = now\<rparr>] \<Longrightarrow>
    rs_runs s' = map (\<lambda>r. if run_runId r = runId
      then advanced_run (next_run_state event (run_state current)) (ev_sequence event) now r else r) (rs_runs s) \<Longrightarrow>
    rs_cancellations s' = (if terminalRunState (next_run_state event (run_state current))
      then resolve_intents runId (next_run_state event (run_state current)) now (rs_cancellations s)
      else rs_cancellations s) \<Longrightarrow> run_step s s'"
| step_resolve: "getRun runId s = Some current \<Longrightarrow> terminalRunState (run_state current) \<Longrightarrow>
    rs_runs s' = rs_runs s \<Longrightarrow> rs_events s' = rs_events s \<Longrightarrow>
    rs_cancellations s' = resolve_intents runId (run_state current) now (rs_cancellations s) \<Longrightarrow> run_step s s'"
| step_intent: "getRun (ci_runId c) s = Some current \<Longrightarrow> \<not> terminalRunState (run_state current) \<Longrightarrow>
    conflict_free cancellation_conflict (rs_cancellations s @ [c]) \<Longrightarrow> ci_state c = Intent_pending \<Longrightarrow>
    rs_runs s' = rs_runs s \<Longrightarrow> rs_events s' = rs_events s \<Longrightarrow> rs_cancellations s' = rs_cancellations s @ [c] \<Longrightarrow>
    run_step s s'"
| step_sent: "rs_runs s' = rs_runs s \<Longrightarrow> rs_events s' = rs_events s \<Longrightarrow>
    rs_cancellations s' = map (\<lambda>i. if ci_runId i = runId \<and> ci_messageId i = messageId \<and> ci_state i = Intent_pending
      then i\<lparr>ci_sendCount := ci_sendCount i + 1, ci_lastSentAt := Some sentAt\<rparr> else i) (rs_cancellations s) \<Longrightarrow>
    run_step s s'"
| step_other: "same_runs s s' \<Longrightarrow> run_step s s'"

abbreviation run_steps :: "run_store \<Rightarrow> run_store \<Rightarrow> bool" where
  "run_steps \<equiv> run_step\<^sup>*\<^sup>*"

section \<open>The operations are sequences of steps\<close>

named_theorems run_transactions

lemma same_steps: "same_runs s s' \<Longrightarrow> run_steps s s'"
  by (rule r_into_rtranclp) (rule step_other)

lemma steps_other: "run_steps s s1 \<Longrightarrow> same_runs s1 s2 \<Longrightarrow> run_steps s s2"
  by (rule rtranclp.rtrancl_into_rtrancl) (auto intro: step_other)

lemma for_each_steps:
  assumes "for_each f xs s = Inr t" and "\<And>x s s'. x \<in> set xs \<Longrightarrow> f x s = Inr s' \<Longrightarrow> run_steps (g s) (g s')"
  shows "run_steps (g s) (g t)"
  using assms
proof (induction xs arbitrary: s)
  case (Cons x xs)
  then obtain s1 where "f x s = Inr s1" "for_each f xs s1 = Inr t" by (auto simp: bind_eq_Inr)
  with Cons.IH[of s1] Cons.prems(2) show ?case by (meson list.set_intros rtranclp_trans)
qed simp

lemma on_team_same: "on_team f s = Inr s' \<Longrightarrow> same_runs s s'"
  by (auto simp: on_team_def same_runs_def bind_eq_Inr)

lemma event_effects_same: "event_effects q c current event now s = Inr s' \<Longrightarrow> same_runs s s'"
proof -
  have open_same: "openClarification q c current st cl now s = Inr s1 \<Longrightarrow> same_runs s s1" for st cl s1
    by (auto simp: openClarification_def bind_eq_Inr bind_ensure_eq_Inr same_runs_def dest!: on_team_same)
  assume "event_effects q c current event now s = Inr s'"
  then show ?thesis
    by (cases event) (auto simp: event_effects_def bind_eq_Inr recordSession_def same_runs_def
        dest!: open_same split: option.splits)
qed

lemma resolve_Inr:
  "resolveCancellationIntent runId st now s = Inr s' \<Longrightarrow>
   s' = s\<lparr>rs_cancellations := resolve_intents runId st now (rs_cancellations s)\<rparr>"
  by (auto simp: resolveCancellationIntent_def bind_eq_Inr update_rows_Inr resolve_intents_def resolved_intent_def)

lemma getRun_id: "getRun runId s = Some r \<Longrightarrow> run_runId r = runId"
  by (auto simp: getRun_def find_Some_iff)

lemma getRun_advance:
  assumes "rs_runs s' = map (\<lambda>r. if run_runId r = runId then advanced_run st n now r else r) (rs_runs s)"
  shows "getRun i s' = map_option (\<lambda>r. if i = runId then advanced_run st n now r else r) (getRun i s)"
proof -
  have "getRun i s' = map_option (\<lambda>r. if run_runId r = runId then advanced_run st n now r else r) (getRun i s)"
    unfolding getRun_def assms by (rule runs.find_update) (simp add: advanced_run_def)
  then show ?thesis by (cases "getRun i s") (auto dest: getRun_id)
qed

lemma applyRuntimeEvent_step:
  assumes "applyRuntimeEvent q c runId event now s = Inr ((applied, r), s')"
  shows "(\<not> applied \<and> s' = s \<and> getRun runId s = Some r \<and>
      (ev_sequence event \<le> run_lastSequence r \<or> terminalRunState (run_state r))) \<or>
    (applied \<and> run_step s s' \<and> getRun runId s' = Some r \<and> run_lastSequence r = ev_sequence event)"
proof -
  obtain current where cur: "getRun runId s = Some current"
    using assms by (auto simp: applyRuntimeEvent_def split: option.splits)
  show ?thesis
  proof (cases "ev_sequence event \<le> run_lastSequence current \<or> terminalRunState (run_state current)")
    case True
    with assms cur show ?thesis by (simp add: applyRuntimeEvent_def)
  next
    case False
    let ?next = "next_run_state event (run_state current)"
    let ?e = "\<lparr>rv_runId = runId, rv_traceId = run_traceId current, rv_sequence = ev_sequence event,
      rv_event = event, rv_createdAt = now\<rparr>"
    let ?rows = "\<lambda>s. map (\<lambda>r. if run_runId r = runId then advanced_run ?next (ev_sequence event) now r else r) (rs_runs s)"
    from assms cur False obtain s1 s3 where seq: "ev_sequence event = run_lastSequence current + 1"
      and ev: "event_effects q c current event now (s\<lparr>rs_events := rs_events s @ [?e]\<rparr>) = Inr s1"
      and fin: "(if terminalRunState ?next then resolveCancellationIntent runId ?next now (s1\<lparr>rs_runs := ?rows s1\<rparr>)
        else Inr (s1\<lparr>rs_runs := ?rows s1\<rparr>)) = Inr s3"
      and res: "(case getRun runId s3 of None \<Rightarrow> Inl (ErrorText ''Run disappeared after event: '' runId)
        | Some updated \<Rightarrow> Inr ((True, updated), s3)) = Inr ((applied, r), s')"
      unfolding applyRuntimeEvent_def Let_def advanced_run_def
      by (auto simp: bind_eq_Inr bind_ensure_eq_Inr insert_row_Inr update_rows_Inr)
    from res have fine: "applied" "getRun runId s3 = Some r" "s' = s3" by (auto split: option.splits)
    have same: "rs_runs s1 = rs_runs s" "rs_events s1 = rs_events s @ [?e]" "rs_cancellations s1 = rs_cancellations s"
      using event_effects_same[OF ev] by (simp_all add: same_runs_def)
    have rows: "rs_runs s3 = ?rows s" and "rs_events s3 = rs_events s @ [?e]" and
      "rs_cancellations s3 = (if terminalRunState ?next then resolve_intents runId ?next now (rs_cancellations s)
         else rs_cancellations s)"
      using fin same by (auto split: if_splits dest!: resolve_Inr)
    then have "run_step s s3" using cur False seq by (intro step_event) auto
    moreover have "run_lastSequence r = ev_sequence event"
      using getRun_advance[OF rows, of runId] cur fine(2) by (simp add: advanced_run_def)
    ultimately show ?thesis using fine by simp
  qed
qed

lemma applyRuntimeEvent_steps [run_transactions]: "applyRuntimeEvent q c runId event now s = Inr (x, s') \<Longrightarrow> run_steps s s'"
  using applyRuntimeEvent_step[of q c runId event now s "fst x" "snd x" s'] by (cases x) (auto intro: r_into_rtranclp)

lemma applyStatus_steps [run_transactions]: "applyStatus runId status err n now s = Inr (x, s') \<Longrightarrow> run_steps s s'"
  unfolding applyStatus_def by (rule applyRuntimeEvent_steps)

lemma insertRunIdentity_steps:
  "insertRunIdentity run s = Inr s' \<Longrightarrow> fresh_run run \<Longrightarrow> run_steps s s'"
  by (rule r_into_rtranclp, rule step_create[where r = "run\<lparr>run_attemptNumber := Some (case run_attemptNumber run of
        None \<Rightarrow> nextAttemptNumber (run_taskId run) s | Some n \<Rightarrow> n)\<rparr>"])
    (auto simp: insertRunIdentity_def Let_def bind_eq_Inr insert_row_Inr fresh_run_def)

lemma createRuns_steps [run_transactions]:
  assumes "createRuns runs s = Inr (x, s')" and "list_all fresh_run runs"
  shows "run_steps s s'"
proof -
  from assms(1) have "for_each insertRunIdentity runs s = Inr s'" by (auto simp: createRuns_def bind_eq_Inr)
  then show ?thesis
    by (rule for_each_steps[where g = "\<lambda>s. s"]) (use assms(2) in \<open>auto simp: list_all_iff intro: insertRunIdentity_steps\<close>)
qed

lemma reply_rows_same:
  "insertReplyMessage m run content t s = Inr s' \<Longrightarrow> same_runs s s'"
  "insertReplyMessageProjection runId n m t s = Inr (p, s') \<Longrightarrow> same_runs s s'"
  "insertReplyProjectionFailure runId n code k t s = Inr (f, s') \<Longrightarrow> same_runs s s'"
  by (auto simp: insertReplyMessage_def insertReplyMessageProjection_def insertReplyProjectionFailure_def Let_def
      bind_eq_Inr same_runs_def dest!: on_team_same)

lemma applyReply_steps [run_transactions]: "applyReply m runId n content a now s = Inr (x, s') \<Longrightarrow> run_steps s s'"
  by (auto simp: applyReply_def bind_eq_Inr split: prod.splits if_splits
      dest!: applyRuntimeEvent_steps reply_rows_same intro: steps_other)

lemma applyReplyAndTerminal_steps [run_transactions]:
  "applyReplyAndTerminal messageId runId n content a m err session now s = Inr (x, s') \<Longrightarrow> run_steps s s'"
  by (auto simp: applyReplyAndTerminal_def bind_eq_Inr bind_ensure_eq_Inr split: prod.splits if_splits
      dest!: applyRuntimeEvent_steps applyReply_steps)

lemma completeReplyRoutingIntent_steps [run_transactions]:
  "completeReplyRoutingIntent p n now s = Inr s' \<Longrightarrow> run_steps s s'"
  by (rule same_steps) (auto simp: completeReplyRoutingIntent_def bind_eq_Inr same_runs_def)

lemma resolve_steps:
  "resolveCancellationIntent runId (run_state run) now s = Inr s' \<Longrightarrow> getRun runId s = Some run \<Longrightarrow>
   terminalRunState (run_state run) \<Longrightarrow> run_steps s s'"
  by (rule r_into_rtranclp, rule step_resolve) (auto dest!: resolve_Inr)

lemma cancelNow_steps: "cancelNow run now s = Inr (x, s') \<Longrightarrow> run_steps s s'"
  by (auto simp: cancelNow_def bind_eq_Inr split: prod.splits dest!: applyStatus_steps)

lemma insertCancellationIntent_steps:
  "insertCancellationIntent run d input s = Inr s' \<Longrightarrow> getRun (run_runId run) s = Some run \<Longrightarrow>
   \<not> terminalRunState (run_state run) \<Longrightarrow> run_steps s s'"
  by (rule r_into_rtranclp, rule step_intent) (auto simp: insertCancellationIntent_def bind_eq_Inr insert_row_Inr)

lemma requestCancellation_steps [run_transactions]:
  assumes "requestCancellation input s = Inr (x, s')"
  shows "run_steps s s'"
proof -
  obtain run where run: "getRun (rc_runId input) s = Some run"
    using assms by (auto simp: requestCancellation_def split: option.splits)
  with getRun_id[OF run] assms show ?thesis
    by (auto simp: requestCancellation_def Let_def bind_eq_Inr bind_ensure_eq_Inr split: if_splits option.splits
        dest!: cancelNow_steps resolve_steps insertCancellationIntent_steps)
qed

lemma markCancellationIntentSent_steps [run_transactions]:
  "markCancellationIntentSent runId messageId t s = Inr (x, s') \<Longrightarrow> run_steps s s'"
  by (rule r_into_rtranclp, rule step_sent[of _ _ runId messageId t])
    (auto simp: markCancellationIntentSent_def Let_def bind_eq_Inr update_rows_Inr)

lemma expireIntent_steps: "expireIntent now runId p = Inr q \<Longrightarrow> run_steps (snd p) (snd q)"
  by (auto simp: expireIntent_def bind_eq_Inr getRun_id split: option.splits if_splits prod.splits
      dest!: applyStatus_steps resolve_steps)

lemma expireRun_steps: "expireRun now runId p = Inr q \<Longrightarrow> run_steps (snd p) (snd q)"
  by (auto simp: expireRun_def bind_eq_Inr split: prod.splits dest!: applyStatus_steps)

lemma expireCancellationIntents_steps [run_transactions]:
  assumes "expireCancellationIntents now limit s = Inr (x, s')"
  shows "run_steps s s'"
proof -
  obtain ids where "for_each (expireIntent now) ids ([], s) = Inr (x, s')"
    using assms by (auto simp: expireCancellationIntents_def Let_def)
  from for_each_steps[where g = snd, OF this expireIntent_steps] show ?thesis by simp
qed

lemma expireQueued_steps [run_transactions]:
  assumes "expireQueued roomId now s = Inr (x, s')"
  shows "run_steps s s'"
proof -
  obtain ids where "for_each (expireRun now) ids ([], s) = Inr (x, s')"
    using assms by (auto simp: expireQueued_def)
  from for_each_steps[where g = snd, OF this expireRun_steps] show ?thesis by simp
qed

lemma acknowledgeAmbiguity_steps [run_transactions]:
  "acknowledgeAmbiguity input s = Inr (x, s') \<Longrightarrow> run_steps s s'"
  by (rule same_steps)
    (auto simp: acknowledgeAmbiguity_def bind_eq_Inr bind_ensure_eq_Inr same_runs_def split: option.splits)

lemma createRetry_steps [run_transactions]:
  assumes "createRetry runId trig input s = Inr (x, s')"
  shows "run_steps s s'"
proof (cases "find (\<lambda>o'. ro_operationId o' = rt_operationId input) (rs_retries s)")
  case None
  with assms obtain parent s1 s2 y rows where
    team: "on_team (insertRoomMessage (retry_trigger trig input parent)) s = Inr s1" and
    runs: "createRuns [retry_run runId trig input parent] s1 = Inr (y, s2)" and s': "s' = s2\<lparr>rs_retries := rows\<rparr>"
    by (auto simp: createRetry_def bind_eq_Inr Let_def split: option.splits)
  have "run_steps s1 s2" by (rule createRuns_steps[OF runs]) (simp add: fresh_run_def retry_run_def)
  then have "run_steps s s2" using same_steps[OF on_team_same[OF team]] by (rule rtranclp_trans[rotated])
  then show ?thesis by (rule steps_other) (simp add: s' same_runs_def)
qed (use assms in \<open>auto simp: createRetry_def bind_ensure_eq_Inr\<close>)

lemma reconcileSource_same: "reconcileSource freshId run event now s = Inr (x, s') \<Longrightarrow> same_runs s s'"
  by (auto simp: reconcileSource_def Let_def bind_eq_Inr split: if_splits list.splits prod.splits option.splits
      dest!: reply_rows_same) (auto simp: same_runs_def)

lemma reconcile_steps [run_transactions]:
  "reconcileReplyMessageProjection freshId runId n now s = Inr (x, s') \<Longrightarrow> run_steps s s'"
  by (auto simp: reconcileReplyMessageProjection_def same_runs_def split: option.splits
      intro!: same_steps dest!: reconcileSource_same)

section \<open>The log of a Run\<close>

definition run_events :: "jstring \<Rightarrow> run_store \<Rightarrow> RunEventRecord list" where
  "run_events runId s = filter (\<lambda>e. rv_runId e = runId) (rs_events s)"

definition replay_state :: "RunEventRecord list \<Rightarrow> RunState" where
  "replay_state es = foldl (\<lambda>st e. next_run_state (rv_event e) st) RS_queued es"

text \<open>
  The events of a Run are numbered from 1 without a gap; its state is what they replay to; only
  the last one may have ended it; and the time of its end is set exactly when it has ended.
\<close>

definition log_of_run :: "RunEventRecord list \<Rightarrow> RunRecord \<Rightarrow> bool" where
  "log_of_run es r \<longleftrightarrow>
     map rv_sequence es = [1..run_lastSequence r] \<and> run_lastSequence r = int (length es) \<and>
     run_state r = replay_state es \<and>
     list_all (\<lambda>n. \<not> terminalRunState (replay_state (take n es))) [0..<length es] \<and>
     (run_terminalAt r \<noteq> None \<longleftrightarrow> terminalRunState (run_state r))"

definition intent_of_run :: "run_store \<Rightarrow> RunCancellationIntent \<Rightarrow> bool" where
  "intent_of_run s c \<longleftrightarrow> (case getRun (ci_runId c) s of
     None \<Rightarrow> False
   | Some r \<Rightarrow> (case ci_state c of
       Intent_pending \<Rightarrow> \<not> terminalRunState (run_state r)
     | Intent_resolved \<Rightarrow> terminalRunState (run_state r) \<and> ci_terminalStatus c = Some (run_state r)))"

definition run_inv :: "run_store \<Rightarrow> bool" where
  "run_inv s \<longleftrightarrow>
     conflict_free run_conflict (rs_runs s) \<and> conflict_free cancellation_conflict (rs_cancellations s) \<and>
     (\<forall>e\<in>set (rs_events s). \<exists>r\<in>set (rs_runs s). run_runId r = rv_runId e) \<and>
     (\<forall>r\<in>set (rs_runs s). log_of_run (run_events (run_runId r) s) r) \<and>
     (\<forall>c\<in>set (rs_cancellations s). intent_of_run s c)"

lemma run_invD:
  assumes "run_inv s"
  shows "conflict_free run_conflict (rs_runs s)" "conflict_free cancellation_conflict (rs_cancellations s)"
    "e \<in> set (rs_events s) \<Longrightarrow> \<exists>r\<in>set (rs_runs s). run_runId r = rv_runId e"
    "r \<in> set (rs_runs s) \<Longrightarrow> log_of_run (run_events (run_runId r) s) r"
    "c \<in> set (rs_cancellations s) \<Longrightarrow> intent_of_run s c"
  using assms by (auto simp: run_inv_def)

lemma conflict_free_map:
  assumes "\<And>x y. conflict (f x) (f y) \<longleftrightarrow> conflict x y"
  shows "conflict_free conflict (map f rows) \<longleftrightarrow> conflict_free conflict rows"
  by (induction rows) (auto simp: assms list_all_iff)

lemma advanced_conflict_free:
  "conflict_free run_conflict (map (\<lambda>r. if P r then advanced_run st n now r else r) rows) =
   conflict_free run_conflict rows"
  by (rule conflict_free_map) (simp add: run_conflict_def advanced_run_def)

lemma resolve_conflict_free [simp]:
  "conflict_free cancellation_conflict (resolve_intents runId st now rows) = conflict_free cancellation_conflict rows"
  unfolding resolve_intents_def
  by (rule conflict_free_map) (simp add: cancellation_conflict_def resolved_intent_def)

lemma getRun_iff:
  "conflict_free run_conflict (rs_runs s) \<Longrightarrow> getRun i s = Some r \<longleftrightarrow> r \<in> set (rs_runs s) \<and> run_runId r = i"
  unfolding getRun_def by (rule runs.find_row)

lemma replay_snoc: "replay_state (es @ [e]) = next_run_state (rv_event e) (replay_state es)"
  by (simp add: replay_state_def)

lemma log_of_run_snoc:
  assumes "log_of_run es r" and "\<not> terminalRunState (run_state r)" and "rv_sequence e = run_lastSequence r + 1"
  shows "log_of_run (es @ [e]) (advanced_run (next_run_state (rv_event e) (run_state r)) (rv_sequence e) now r)"
  using assms by (auto simp: log_of_run_def advanced_run_def replay_snoc list_all_iff less_Suc_eq upto_rec2)

lemma intent_same_runs:
  "rs_runs s' = rs_runs s \<Longrightarrow> intent_of_run s' c = intent_of_run s c"
  by (simp add: intent_of_run_def getRun_def)

lemma intent_of_sent [simp]: "intent_of_run s (c\<lparr>ci_sendCount := n, ci_lastSentAt := t\<rparr>) = intent_of_run s c"
  by (cases "getRun (ci_runId c) s"; cases "ci_state c") (simp_all add: intent_of_run_def)

lemma intent_of_resolved:
  assumes "getRun runId s = Some r" and "terminalRunState (run_state r)"
    and "c \<in> set (resolve_intents runId (run_state r) now cs)"
    and "\<And>c. c \<in> set cs \<Longrightarrow> ci_runId c \<noteq> runId \<or> ci_state c = Intent_resolved \<Longrightarrow> intent_of_run s c"
  shows "intent_of_run s c"
proof -
  from assms(3) obtain c0 where c0: "c0 \<in> set cs"
    "c = (if ci_runId c0 = runId \<and> ci_state c0 = Intent_pending then resolved_intent (run_state r) now c0 else c0)"
    by (auto simp: resolve_intents_def)
  show ?thesis
  proof (cases "ci_runId c0 = runId \<and> ci_state c0 = Intent_pending")
    case True
    with c0(2) assms(1,2) show ?thesis by (simp add: intent_of_run_def resolved_intent_def)
  next
    case False
    with c0 assms(4)[of c0] show ?thesis by (cases "ci_state c0") auto
  qed
qed

lemma step_event_inv:
  assumes inv: "run_inv s" and cur: "getRun runId s = Some current" and live: "\<not> terminalRunState (run_state current)"
    and seq: "ev_sequence event = run_lastSequence current + 1" and st: "st = next_run_state event (run_state current)"
    and ev: "rs_events s' = rs_events s @ [\<lparr>rv_runId = runId, rv_traceId = run_traceId current,
      rv_sequence = ev_sequence event, rv_event = event, rv_createdAt = now\<rparr>]"
    and rn: "rs_runs s' = map (\<lambda>r. if run_runId r = runId then advanced_run st (ev_sequence event) now r else r) (rs_runs s)"
    and cn: "rs_cancellations s' = (if terminalRunState st then resolve_intents runId st now (rs_cancellations s)
      else rs_cancellations s)"
  shows "run_inv s'"
proof -
  note inv' = run_invD[OF inv]
  let ?e = "\<lparr>rv_runId = runId, rv_traceId = run_traceId current, rv_sequence = ev_sequence event, rv_event = event,
    rv_createdAt = now\<rparr>"
  have current: "current \<in> set (rs_runs s)" "run_runId current = runId" using cur by (simp_all add: getRun_iff[OF inv'(1)])
  have only: "r = current" if "r \<in> set (rs_runs s)" "run_runId r = runId" for r
    using cur that getRun_iff[OF inv'(1), of runId r] by simp
  have look: "getRun i s' = map_option (\<lambda>r. if i = runId then advanced_run st (ev_sequence event) now r else r) (getRun i s)" for i
    by (rule getRun_advance) (rule rn)
  have "log_of_run (run_events (run_runId r) s') r" if "r \<in> set (rs_runs s')" for r
  proof -
    from that rn obtain r0 where r0: "r0 \<in> set (rs_runs s)"
      "r = (if run_runId r0 = runId then advanced_run st (ev_sequence event) now r0 else r0)" by auto
    show ?thesis
    proof (cases "run_runId r0 = runId")
      case True
      with r0 only have r: "r0 = current" "r = advanced_run st (ev_sequence event) now current" by auto
      have "log_of_run (run_events runId s @ [?e]) (advanced_run (next_run_state (rv_event ?e) (run_state current)) (rv_sequence ?e) now current)"
        using inv'(4)[OF current(1)] current(2) live seq by (intro log_of_run_snoc) simp_all
      then show ?thesis using r current(2) by (simp add: run_events_def ev st advanced_run_def)
    next
      case False
      with r0 inv'(4)[OF r0(1)] show ?thesis by (simp add: run_events_def ev)
    qed
  qed
  moreover have "intent_of_run s' c" if "c \<in> set (rs_cancellations s')" for c
  proof (cases "terminalRunState st")
    case True
    let ?r = "advanced_run st (ev_sequence event) now current"
    have "getRun runId s' = Some ?r" "run_state ?r = st" using look[of runId] cur by (simp_all add: advanced_run_def)
    moreover have "intent_of_run s' d" if "d \<in> set (rs_cancellations s)" "ci_runId d \<noteq> runId \<or> ci_state d = Intent_resolved" for d
      using inv'(5)[OF that(1)] that(2) cur live look by (auto simp: intent_of_run_def split: option.splits intent_state.splits)
    ultimately show ?thesis using that True cn intent_of_resolved[of runId s' ?r c now "rs_cancellations s"] by auto
  next
    case False
    with that cn have "c \<in> set (rs_cancellations s)" by simp
    from inv'(5)[OF this] False live cur look show ?thesis
      by (auto simp: intent_of_run_def advanced_run_def split: option.splits intent_state.splits if_splits)
  qed
  moreover have "\<exists>r\<in>set (rs_runs s'). run_runId r = rv_runId e" if "e \<in> set (rs_events s')" for e
  proof -
    have "map run_runId (rs_runs s') = map run_runId (rs_runs s)" by (auto simp: rn advanced_run_def)
    from arg_cong[OF this, of set] have ids: "run_runId ` set (rs_runs s') = run_runId ` set (rs_runs s)" by simp
    have "rv_runId e \<in> run_runId ` set (rs_runs s)" using that ev inv'(3) current by force
    then show ?thesis unfolding ids[symmetric] by auto
  qed
  moreover have "conflict_free run_conflict (rs_runs s')" unfolding rn using inv'(1) by (simp add: advanced_conflict_free)
  moreover have "conflict_free cancellation_conflict (rs_cancellations s')" using inv'(2) by (simp add: cn)
  ultimately show ?thesis by (simp add: run_inv_def)
qed

lemma step_create_inv:
  assumes inv: "run_inv s" and cf: "conflict_free run_conflict (rs_runs s @ [r])" and fresh: "fresh_run r"
    and rn: "rs_runs s' = rs_runs s @ [r]" and ev: "rs_events s' = rs_events s"
    and cn: "rs_cancellations s' = rs_cancellations s"
  shows "run_inv s'"
proof -
  note inv' = run_invD[OF inv]
  have new: "run_runId q \<noteq> run_runId r" if "q \<in> set (rs_runs s)" for q
    using cf that by (auto simp: conflict_free_append run_conflict_def)
  have "run_events (run_runId r) s' = []"
    using inv'(3) new by (fastforce simp: run_events_def ev filter_empty_conv)
  then have "log_of_run (run_events (run_runId r) s') r"
    using fresh by (simp add: log_of_run_def fresh_run_def replay_state_def)
  moreover have "getRun i s' = (if i = run_runId r then Some r else getRun i s)" for i
    unfolding getRun_def rn using runs.find_insert[OF cf, of i] by auto
  then have "intent_of_run s' c" if "intent_of_run s c" for c
    using that new by (auto simp: intent_of_run_def getRun_iff[OF inv'(1)] split: option.splits)
  ultimately show ?thesis
    using inv' cf unfolding run_inv_def by (auto simp: rn cn run_events_def ev)
qed

lemma run_step_inv: "run_step s s' \<Longrightarrow> run_inv s \<Longrightarrow> run_inv s'"
proof (induction rule: run_step.induct)
  case (step_create s r s')
  then show ?case by (auto intro: step_create_inv)
next
  case (step_event runId s current event s' now)
  show ?case by (rule step_event_inv[OF step_event(7,1,2,3) refl step_event(4,5,6)])
next
  case (step_resolve runId s current s' now)
  note inv' = run_invD[OF \<open>run_inv s\<close>]
  have "intent_of_run s' c" if "c \<in> set (rs_cancellations s')" for c
    by (rule intent_of_resolved[of runId s' current])
      (use step_resolve that inv'(5) in \<open>auto simp: intent_same_runs[OF step_resolve(3)] getRun_def\<close>)
  with step_resolve inv' show ?case by (simp add: run_inv_def run_events_def)
next
  case (step_intent c s current s')
  note inv' = run_invD[OF \<open>run_inv s\<close>]
  from step_intent have "intent_of_run s' c" by (simp add: intent_of_run_def getRun_def)
  with step_intent inv' show ?case by (auto simp: run_inv_def run_events_def intent_same_runs[OF step_intent(5)])
next
  case (step_sent s' s runId messageId sentAt)
  note inv' = run_invD[OF \<open>run_inv s\<close>]
  have "conflict_free cancellation_conflict (rs_cancellations s')"
    unfolding step_sent(3) using inv'(2) by (subst conflict_free_map) (auto simp: cancellation_conflict_def)
  moreover have "intent_of_run s' c" if "c \<in> set (rs_cancellations s')" for c
    using that inv'(5) unfolding step_sent(3) by (auto simp: intent_same_runs[OF step_sent(1)])
  ultimately show ?case using step_sent inv' by (simp add: run_inv_def run_events_def)
next
  case (step_other s s')
  then show ?case by (simp add: run_inv_def same_runs_def run_events_def intent_same_runs[of s' s])
qed

lemma run_steps_inv: "run_steps s s' \<Longrightarrow> run_inv s \<Longrightarrow> run_inv s'"
  by (induction rule: rtranclp_induct) (auto intro: run_step_inv)

section \<open>Histories\<close>

text \<open>
  One transaction of the repository. A Run is created queued, with no event, as the callers of
  \<open>createRuns\<close> do.
\<close>

inductive run_op :: "run_store \<Rightarrow> run_store \<Rightarrow> bool" where
  op_create: "createRuns runs s = Inr (x, s') \<Longrightarrow> list_all fresh_run runs \<Longrightarrow> run_op s s'"
| op_event: "applyRuntimeEvent q c runId event now s = Inr (y, s') \<Longrightarrow> run_op s s'"
| op_reply: "applyReply m runId n content a now s = Inr (y, s') \<Longrightarrow> run_op s s'"
| op_finish: "applyReplyAndTerminal m runId n content a k err session now s = Inr (y, s') \<Longrightarrow> run_op s s'"
| op_cancel: "requestCancellation input s = Inr (z, s') \<Longrightarrow> run_op s s'"
| op_sent: "markCancellationIntentSent runId m now s = Inr (i, s') \<Longrightarrow> run_op s s'"
| op_expire_intents: "expireCancellationIntents now limit s = Inr (rs, s') \<Longrightarrow> run_op s s'"
| op_expire: "expireQueued roomId now s = Inr (rs, s') \<Longrightarrow> run_op s s'"
| op_acknowledge: "acknowledgeAmbiguity ainput s = Inr (aa, s') \<Longrightarrow> run_op s s'"
| op_retry: "createRetry runId m rinput s = Inr (r, s') \<Longrightarrow> run_op s s'"
| op_reconcile: "reconcileReplyMessageProjection m runId n now s = Inr (v, s') \<Longrightarrow> run_op s s'"
| op_routed: "completeReplyRoutingIntent runId n now s = Inr s' \<Longrightarrow> run_op s s'"
| op_team: "run_op s (s\<lparr>rs_team := team, rs_deliveries := deliveries\<rparr>)"

abbreviation run_ops :: "run_store \<Rightarrow> run_store \<Rightarrow> bool" where
  "run_ops \<equiv> run_op\<^sup>*\<^sup>*"

definition no_runs :: "run_store \<Rightarrow> bool" where
  "no_runs s \<longleftrightarrow> rs_runs s = [] \<and> rs_events s = [] \<and> rs_cancellations s = []"

lemma run_op_steps: "run_op s s' \<Longrightarrow> run_steps s s'"
  by (induction rule: run_op.induct) (auto dest: run_transactions intro: same_steps simp: same_runs_def)

lemma run_ops_steps: "run_ops s s' \<Longrightarrow> run_steps s s'"
  by (induction rule: rtranclp_induct) (auto dest: run_op_steps)

lemma run_history_inv: "no_runs s0 \<Longrightarrow> run_ops s0 s \<Longrightarrow> run_inv s"
  by (rule run_steps_inv[OF run_ops_steps]) (auto simp: run_inv_def no_runs_def)

section \<open>Ended Runs\<close>

lemma terminal_step:
  assumes "run_step s s'" and "run_inv s" and "getRun i s = Some r" and "terminalRunState (run_state r)"
  shows "getRun i s' = Some r \<and> run_events i s' = run_events i s"
  using assms
proof (induction rule: run_step.induct)
  case (step_create s q s')
  then show ?case
    using getRun_iff[of s i r] by (auto simp: getRun_def runs.find_insert run_events_def run_inv_def conflict_free_append run_conflict_def)
next
  case (step_event runId s current event s' now)
  then have "i \<noteq> runId" by auto
  with step_event show ?case
    using getRun_advance[OF step_event(5), of i] by (simp add: run_events_def)
qed (simp_all add: getRun_def run_events_def same_runs_def)

lemma terminal_steps:
  "run_steps s s' \<Longrightarrow> run_inv s \<Longrightarrow> getRun i s = Some r \<Longrightarrow> terminalRunState (run_state r) \<Longrightarrow>
   getRun i s' = Some r \<and> run_events i s' = run_events i s"
proof (induction rule: rtranclp_induct)
  case (step t u)
  then show ?case using terminal_step[OF step(2) run_steps_inv[OF step(1)], of i r] by auto
qed simp

section \<open>Overdue cancellations\<close>

lemma event_fits:
  assumes "run_inv s" and "getRun i s = Some r" and "rv_runId e = i" and "rv_sequence e = run_lastSequence r + 1"
    and "conflict_free run_event_conflict (rs_events s)"
  shows "conflict_free run_event_conflict (rs_events s @ [e])"
proof -
  have r: "r \<in> set (rs_runs s)" "run_runId r = i"
    using assms(2) by (simp_all add: getRun_iff[OF run_invD(1)[OF assms(1)]])
  have "rv_sequence q \<noteq> rv_sequence e" if "q \<in> set (rs_events s)" "rv_runId q = i" for q
  proof -
    have "rv_sequence q \<in> set (map rv_sequence (run_events i s))" using that by (auto simp: run_events_def)
    moreover have "map rv_sequence (run_events i s) = [1..run_lastSequence r]"
      using run_invD(4)[OF assms(1) r(1)] r(2) by (simp add: log_of_run_def)
    ultimately have "rv_sequence q \<le> run_lastSequence r" by simp
    with assms(4) show ?thesis by simp
  qed
  with assms(3,5) show ?thesis by (auto simp: conflict_free_append run_event_conflict_def)
qed

lemma run_step_events:
  "run_step s s' \<Longrightarrow> run_inv s \<Longrightarrow> conflict_free run_event_conflict (rs_events s) \<Longrightarrow>
   conflict_free run_event_conflict (rs_events s')"
  by (induction rule: run_step.induct) (auto simp: same_runs_def intro: event_fits)

lemma run_steps_events:
  "run_steps s s' \<Longrightarrow> run_inv s \<Longrightarrow> conflict_free run_event_conflict (rs_events s) \<Longrightarrow>
   conflict_free run_event_conflict (rs_events s')"
  by (induction rule: rtranclp_induct) (auto intro: run_step_events run_steps_inv)

lemma run_history_events:
  "no_runs s0 \<Longrightarrow> run_ops s0 s \<Longrightarrow> conflict_free run_event_conflict (rs_events s)"
  by (rule run_steps_events[OF run_ops_steps]) (auto simp: run_inv_def no_runs_def)

lemma applyStatus_live:
  assumes inv: "run_inv s" "conflict_free run_event_conflict (rs_events s)"
    and cur: "getRun i s = Some r" "\<not> terminalRunState (run_state r)" and st: "terminalRunState st"
  obtains s' where "applyStatus i st err (run_lastSequence r + 1) now s =
      Inr ((True, advanced_run st (run_lastSequence r + 1) now r), s')"
    "rs_cancellations s' = resolve_intents i st now (rs_cancellations s)"
    "rs_runs s' = map (\<lambda>q. if run_runId q = i then advanced_run st (run_lastSequence r + 1) now q else q) (rs_runs s)"
proof -
  let ?n = "run_lastSequence r + 1"
  let ?e = "\<lparr>rv_runId = i, rv_traceId = run_traceId r, rv_sequence = ?n, rv_event = StatusEvent ?n st err None None,
    rv_createdAt = now\<rparr>"
  let ?rows = "map (\<lambda>q. if run_runId q = i then advanced_run st ?n now q else q) (rs_runs s)"
  let ?s = "s\<lparr>rs_events := rs_events s @ [?e], rs_runs := ?rows,
    rs_cancellations := resolve_intents i st now (rs_cancellations s)\<rparr>"
  have ev: "insert_row run_event_conflict ?e (rs_events s) = Inr (rs_events s @ [?e])"
    unfolding insert_row_Inr by (simp add: event_fits[OF inv(1) cur(1) _ _ inv(2)])
  have rw: "update_rows run_conflict (\<lambda>r. run_runId r = i)
      (\<lambda>r. r\<lparr>run_state := st, run_lastSequence := ?n, run_updatedAt := now, run_terminalAt := Some now\<rparr>) (rs_runs s) =
    Inr (length (filter (\<lambda>r. run_runId r = i) (rs_runs s)), ?rows)"
  proof -
    have "?rows = map (\<lambda>q. if run_runId q = i then q\<lparr>run_state := st, run_lastSequence := ?n, run_updatedAt := now,
        run_terminalAt := Some now\<rparr> else q) (rs_runs s)" using st by (simp add: advanced_run_def)
    moreover have "conflict_free run_conflict ?rows" using run_invD(1)[OF inv(1)] by (simp add: advanced_conflict_free)
    ultimately show ?thesis by (simp add: update_rows_Inr)
  qed
  have cn: "resolveCancellationIntent i st now t = Inr (t\<lparr>rs_cancellations := resolve_intents i st now (rs_cancellations t)\<rparr>)"
    if "rs_cancellations t = rs_cancellations s" for t
    using run_invD(2)[OF inv(1)] that
    by (auto simp: resolveCancellationIntent_def bind_eq_Inr update_rows_Inr resolve_intents_def[symmetric] resolved_intent_def[symmetric])
  have "getRun i ?s = Some (advanced_run st ?n now r)"
    using getRun_advance[of ?s i st ?n now s i] cur(1) by simp
  then have "applyStatus i st err ?n now s = Inr ((True, advanced_run st ?n now r), ?s)"
    using cur st by (simp add: applyStatus_def applyRuntimeEvent_def ev rw cn next_run_state_def event_effects_def ensure_def)
  then show ?thesis by (rule that) simp_all
qed

text \<open>Each intent keeps its Run and its deadline; those of \<open>ids\<close> are settled.\<close>

definition settled_for :: "jstring set \<Rightarrow> RunCancellationIntent list \<Rightarrow> RunCancellationIntent list \<Rightarrow> bool" where
  "settled_for ids cs cs' \<longleftrightarrow> list_all2 (\<lambda>c c'. ci_runId c' = ci_runId c \<and> ci_ackDeadlineAt c' = ci_ackDeadlineAt c \<and>
     (ci_state c' = Intent_pending \<longleftrightarrow> ci_state c = Intent_pending \<and> ci_runId c \<notin> ids)) cs cs'"

lemma settled_none: "settled_for {} cs cs"
  by (simp add: settled_for_def list_all2_same)

lemma settled_resolve: "settled_for {i} cs (resolve_intents i st now cs)"
  unfolding settled_for_def resolve_intents_def list.rel_map by (rule list.rel_refl_strong) (auto simp: resolved_intent_def)

lemma settled_trans:
  assumes "settled_for A cs cs1" and "settled_for B cs1 cs2"
  shows "settled_for (A \<union> B) cs cs2"
  using assms unfolding settled_for_def by (rule list_all2_trans[rotated]) auto

lemma settled_row:
  assumes "settled_for ids cs cs'" and "c' \<in> set cs'"
  obtains c where "c \<in> set cs" "ci_ackDeadlineAt c' = ci_ackDeadlineAt c"
    "ci_state c' = Intent_pending \<longleftrightarrow> ci_state c = Intent_pending \<and> ci_runId c \<notin> ids"
proof -
  have "\<exists>c\<in>set cs. ci_ackDeadlineAt c' = ci_ackDeadlineAt c \<and>
      (ci_state c' = Intent_pending \<longleftrightarrow> ci_state c = Intent_pending \<and> ci_runId c \<notin> ids)"
    using assms unfolding settled_for_def by (induction rule: list_all2_induct) auto
  with that show thesis by blast
qed

lemma settled_idle:
  assumes "\<And>c. c \<in> set cs \<Longrightarrow> ci_runId c = i \<Longrightarrow> ci_state c \<noteq> Intent_pending"
  shows "settled_for {i} cs cs"
  using assms by (auto simp: settled_for_def intro!: list.rel_refl_strong)

lemma expireIntent_total:
  assumes inv: "run_inv s" "conflict_free run_event_conflict (rs_events s)"
    and c: "c \<in> set (rs_cancellations s)" "ci_runId c = i"
  obtains r s' where "expireIntent now i (done, s) = Inr (done @ [r], s')"
    "settled_for {i} (rs_cancellations s) (rs_cancellations s')"
proof -
  from c have look: "getCancellationIntent i s = Some c"
    using cancellations.find_row[OF run_invD(2)[OF inv(1)]] by (simp add: getCancellationIntent_def)
  from run_invD(5)[OF inv(1) c(1)] c(2) obtain r where r: "getRun i s = Some r"
    "ci_state c = Intent_pending \<longleftrightarrow> \<not> terminalRunState (run_state r)"
    by (auto simp: intent_of_run_def split: option.splits intent_state.splits)
  show thesis
  proof (cases "ci_state c = Intent_pending")
    case True
    obtain s' where "applyStatus i RS_outcome_unknown (Some cancel_timeout_error) (run_lastSequence r + 1) now s =
        Inr ((True, advanced_run RS_outcome_unknown (run_lastSequence r + 1) now r), s')"
      "rs_cancellations s' = resolve_intents i RS_outcome_unknown now (rs_cancellations s)"
      by (rule applyStatus_live[OF inv r(1), of RS_outcome_unknown]) (use True r(2) in auto)
    with True look r getRun_id[OF r(1)] show ?thesis
      by (intro that[of "advanced_run RS_outcome_unknown (run_lastSequence r + 1) now r" s'])
        (simp_all add: expireIntent_def settled_resolve)
  next
    case False
    have "d = c" if "d \<in> set (rs_cancellations s)" "ci_runId d = i" for d
      using that look cancellations.find_row[OF run_invD(2)[OF inv(1)], of i d]
      by (simp add: getCancellationIntent_def)
    then have "settled_for {i} (rs_cancellations s) (rs_cancellations s)"
      using False by (intro settled_idle) auto
    with False look r show ?thesis by (intro that[of r s]) (simp_all add: expireIntent_def)
  qed
qed

lemma expireIntents_total:
  assumes "run_inv s" "conflict_free run_event_conflict (rs_events s)"
    and "set ids \<subseteq> ci_runId ` set (rs_cancellations s)"
  shows "\<exists>rs s'. for_each (expireIntent now) ids (done, s) = Inr (done @ rs, s') \<and> length rs = length ids \<and>
    settled_for (set ids) (rs_cancellations s) (rs_cancellations s')"
  using assms
proof (induction ids arbitrary: s "done")
  case Nil
  then show ?case by (simp add: settled_none)
next
  case (Cons i ids)
  from Cons.prems obtain c where c: "c \<in> set (rs_cancellations s)" "ci_runId c = i" by auto
  obtain r s1 where s1: "expireIntent now i (done, s) = Inr (done @ [r], s1)"
    "settled_for {i} (rs_cancellations s) (rs_cancellations s1)"
    by (rule expireIntent_total[OF Cons.prems(1,2) c])
  have steps: "run_steps s s1" using expireIntent_steps[OF s1(1)] by simp
  have same: "ci_runId ` set (rs_cancellations s1) = ci_runId ` set (rs_cancellations s)"
  proof -
    have "map ci_runId (rs_cancellations s1) = map ci_runId (rs_cancellations s)"
      using s1(2) by (auto simp: settled_for_def list_all2_conv_all_nth intro: nth_equalityI)
    then show ?thesis by (metis set_map)
  qed
  obtain rs s' where "for_each (expireIntent now) ids (done @ [r], s1) = Inr ((done @ [r]) @ rs, s')"
    "length rs = length ids" "settled_for (set ids) (rs_cancellations s1) (rs_cancellations s')"
    using Cons.IH[of s1 "done @ [r]"] Cons.prems same run_steps_inv[OF steps] run_steps_events[OF steps] by auto
  with s1 settled_trans[OF s1(2)] show ?case by (intro exI[of _ "r # rs"] exI[of _ s']) (auto simp: insert_is_Un[symmetric])
qed

text \<open>The intents whose deadline has passed while they are pending.\<close>

definition overdue :: "timestamp \<Rightarrow> run_store \<Rightarrow> RunCancellationIntent list" where
  "overdue now s = filter (\<lambda>c. ci_state c = Intent_pending \<and> ci_ackDeadlineAt c \<le> now) (rs_cancellations s)"

lemma settled_overdue:
  assumes "settled_for ids (rs_cancellations s) (rs_cancellations s')"
  shows "length (overdue now s') = length (filter (\<lambda>c. ci_runId c \<notin> ids) (overdue now s))"
proof -
  have "length (filter (\<lambda>c. ci_state c = Intent_pending \<and> ci_ackDeadlineAt c \<le> now) cs') =
      length (filter (\<lambda>c. ci_state c = Intent_pending \<and> ci_ackDeadlineAt c \<le> now \<and> ci_runId c \<notin> ids) cs)"
    if "settled_for ids cs cs'" for cs cs'
    using that unfolding settled_for_def by (induction rule: list_all2_induct) auto
  from this[OF assms] show ?thesis by (simp add: overdue_def)
qed

lemma length_outside_prefix:
  assumes "mset ys = mset xs" and "distinct (map f ys)"
  shows "length (filter (\<lambda>x. f x \<notin> set (map f (take n ys))) xs) = length xs - n"
proof -
  have "mset (filter P xs) = mset (filter P ys)" for P using assms(1) by simp
  then have len: "length (filter P xs) = length (filter P ys)" for P by (metis size_mset)
  have "distinct (map f (take n ys @ drop n ys))" using assms(2) by simp
  then have "filter (\<lambda>x. f x \<notin> set (map f (take n ys))) (drop n ys) = drop n ys"
    unfolding map_append distinct_append by (intro filter_True) auto
  moreover have "filter (\<lambda>x. f x \<notin> set (map f (take n ys))) (take n ys) = []"
    by (auto simp: filter_empty_conv)
  moreover have "filter P ys = filter P (take n ys) @ filter P (drop n ys)" for P
    by (metis append_take_drop_id filter_append)
  moreover have "length ys = length xs" using assms(1) by (metis size_mset)
  ultimately show ?thesis by (simp add: len)
qed

lemma intent_ids_distinct: "conflict_free cancellation_conflict cs \<Longrightarrow> distinct (map ci_runId cs)"
  by (induction cs) (auto simp: list_all_iff cancellation_conflict_def)

lemma expire_due:
  assumes inv: "run_inv s" "conflict_free run_event_conflict (rs_events s)"
  obtains rs s' where "expireCancellationIntents now limit s = Inr (rs, s')"
    "length rs = min (bounded_limit limit) (length (overdue now s))"
    "length (overdue now s') = length (overdue now s) - bounded_limit limit" "run_inv s'"
proof -
  define due where "due = sort_by (\<lambda>a b. or_else (ci_ackDeadlineAt a - ci_ackDeadlineAt b)
    (or_else (ci_createdAt a - ci_createdAt b) (binaryCompare (ci_runId a) (ci_runId b)))) (overdue now s)"
  define ids where "ids = map ci_runId (take (bounded_limit limit) due)"
  have due: "mset due = mset (overdue now s)" by (simp add: due_def)
  then have lens: "length due = length (overdue now s)" by (metis size_mset)
  have "distinct (map ci_runId (overdue now s))"
    using intent_ids_distinct[OF run_invD(2)[OF inv(1)]] by (simp add: overdue_def distinct_map_filter)
  then have dist: "distinct (map ci_runId due)"
    by (metis due mset_map mset_eq_imp_distinct_iff)
  have "set due \<subseteq> set (rs_cancellations s)" by (auto simp: due_def overdue_def)
  then have "set ids \<subseteq> ci_runId ` set (rs_cancellations s)" unfolding ids_def by (auto dest: in_set_takeD)
  from expireIntents_total[OF inv this, of now "[]"] obtain rs s' where
    loop: "for_each (expireIntent now) ids ([], s) = Inr (rs, s')" "length rs = length ids" and
    settled: "settled_for (set ids) (rs_cancellations s) (rs_cancellations s')" by auto
  have expiry: "expireCancellationIntents now limit s = Inr (rs, s')"
    using loop(1) by (simp add: expireCancellationIntents_def ids_def due_def overdue_def)
  moreover have "length rs = min (bounded_limit limit) (length (overdue now s))"
    using loop(2) lens by (simp add: ids_def)
  moreover have "length (overdue now s') = length (overdue now s) - bounded_limit limit"
    unfolding settled_overdue[OF settled] ids_def by (rule length_outside_prefix[OF due dist])
  moreover have "run_inv s'"
    using run_steps_inv[OF expireCancellationIntents_steps[OF expiry] inv(1)] .
  ultimately show thesis by (rule that)
qed

text \<open>An intent that is not overdue any more, although its deadline has passed, is that of an ended Run.\<close>

lemma intent_ended:
  assumes "run_inv s" and "c \<in> set (rs_cancellations s)" and "ci_ackDeadlineAt c \<le> now" and "c \<notin> set (overdue now s)"
  shows "\<exists>r. getRun (ci_runId c) s = Some r \<and> terminalRunState (run_state r) \<and> ci_terminalStatus c = Some (run_state r)"
proof -
  have "ci_state c = Intent_resolved" using assms(2-4) by (cases "ci_state c") (auto simp: overdue_def)
  then show ?thesis using run_invD(5)[OF assms(1,2)] by (auto simp: intent_of_run_def split: option.splits)
qed

text \<open>The timer of the cancellation service: one expiry after another.\<close>

primrec expiry_rounds :: "timestamp \<Rightarrow> int \<Rightarrow> nat \<Rightarrow> run_store \<Rightarrow> run_store throwing" where
  "expiry_rounds now limit 0 s = Inr s"
| "expiry_rounds now limit (Suc n) s =
    bind (expireCancellationIntents now limit s) (\<lambda>(_, s'). expiry_rounds now limit n s')"

lemma expiry_rounds_end:
  assumes "run_inv s" and "conflict_free run_event_conflict (rs_events s)"
  shows "\<exists>s'. expiry_rounds now limit n s = Inr s' \<and>
    length (overdue now s') = length (overdue now s) - n * bounded_limit limit \<and> run_inv s'"
  using assms
proof (induction n arbitrary: s)
  case 0
  then show ?case by simp
next
  case (Suc n)
  obtain rs s1 where s1: "expireCancellationIntents now limit s = Inr (rs, s1)"
    "length (overdue now s1) = length (overdue now s) - bounded_limit limit" "run_inv s1"
    by (rule expire_due[OF Suc.prems])
  have "conflict_free run_event_conflict (rs_events s1)"
    using run_steps_events[OF expireCancellationIntents_steps[OF s1(1)]] Suc.prems by simp
  from Suc.IH[OF s1(3) this] s1 show ?case by auto
qed

section \<open>Delivering an event twice, projecting a reply twice\<close>

lemma event_again:
  assumes "applyRuntimeEvent q c i event now s = Inr ((applied, r), s')"
  shows "applyRuntimeEvent q' c' i event now' s' = Inr ((False, r), s')"
  using applyRuntimeEvent_step[OF assms] by (auto simp: applyRuntimeEvent_def)

interpretation projections: keyed_table projection_conflict "\<lambda>p. (pj_runId p, pj_replySequence p)"
  by unfold_locales (simp add: projection_conflict_def)

interpretation failures: keyed_table failure_conflict "\<lambda>f. (pf_runId f, pf_replySequence f)"
  by unfold_locales (simp add: failure_conflict_def)

lemma projection_found:
  assumes "insertReplyMessageProjection i n m t s = Inr (p, s')"
  shows "getReplyMessageProjection i n s' = Some p"
  using assms projections.find_insert[of "rs_projections s" p "(i, n)"]
  by (auto simp: insertReplyMessageProjection_def Let_def bind_eq_Inr insert_row_Inr getReplyMessageProjection_def)

lemma failure_found:
  assumes "insertReplyProjectionFailure i n code k t s = Inr (f, s')"
  shows "getReplyProjectionFailure i n s' = Some f \<and>
    getReplyMessageProjection i n s' = getReplyMessageProjection i n s"
  using assms failures.find_insert[of "rs_failures s" f "(i, n)"]
  by (auto simp: insertReplyProjectionFailure_def Let_def bind_eq_Inr insert_row_Inr getReplyProjectionFailure_def
      getReplyMessageProjection_def)

lemma reconcileSource_found:
  assumes "reconcileSource freshId run event now s = Inr (x, s')"
    and "getReplyMessageProjection (rv_runId event) (rv_sequence event) s = None"
  shows "case x of
      Projected _ p \<Rightarrow> getReplyMessageProjection (rv_runId event) (rv_sequence event) s' = Some p
    | Unreconciled f \<Rightarrow> getReplyMessageProjection (rv_runId event) (rv_sequence event) s' = None \<and>
        getReplyProjectionFailure (rv_runId event) (rv_sequence event) s' = Some f"
  using assms by (auto simp: reconcileSource_def Let_def bind_eq_Inr split: if_splits list.splits prod.splits option.splits
      dest!: projection_found failure_found)

definition settled_reply :: "RunReplyProjectionReconciliation \<Rightarrow> RunReplyProjectionReconciliation" where
  "settled_reply x = (case x of Projected _ p \<Rightarrow> Projected False p | Unreconciled f \<Rightarrow> Unreconciled f)"

lemma reconcile_again:
  assumes "reconcileReplyMessageProjection freshId runId n now s = Inr (x, s')"
  shows "reconcileReplyMessageProjection freshId' runId n now' s' = Inr (settled_reply x, s')"
proof (cases "getReplyMessageProjection runId n s = None \<and> getReplyProjectionFailure runId n s = None")
  case True
  with assms obtain event run where "rv_runId event = runId" "rv_sequence event = n"
    "reconcileSource freshId run event now s = Inr (x, s')"
    by (auto simp: reconcileReplyMessageProjection_def find_Some_iff split: option.splits)
  from reconcileSource_found[OF this(3)] this(1,2) True show ?thesis
    by (auto simp: reconcileReplyMessageProjection_def settled_reply_def
        split: RunReplyProjectionReconciliation.splits)
qed (use assms in \<open>auto simp: reconcileReplyMessageProjection_def settled_reply_def split: option.splits\<close>)

section \<open>Properties\<close>

text \<open>
  (C13) The log of a Run is exact: after any sequence of transactions the events of a Run are
  numbered 1, 2, ... up to its last sequence, its state is what these events replay to, no event
  follows one that ended it, and its end time is set exactly when it has ended.
\<close>

theorem run_log_exact:
  assumes "no_runs s0" and "run_ops s0 s" and "getRun i s = Some r"
  shows "map rv_sequence (run_events i s) = [1..run_lastSequence r] \<and>
    run_state r = replay_state (run_events i s) \<and>
    list_all (\<lambda>n. \<not> terminalRunState (replay_state (take n (run_events i s)))) [0..<length (run_events i s)] \<and>
    (run_terminalAt r \<noteq> None \<longleftrightarrow> terminalRunState (run_state r))"
  using run_invD(4)[OF run_history_inv[OF assms(1,2)], of r] assms(3) getRun_iff[OF run_invD(1)[OF run_history_inv[OF assms(1,2)]]]
  by (auto simp: log_of_run_def)

text \<open>
  (C5) A Run that has ended is frozen: no later transaction changes the Run, its outcome or its
  events.
\<close>

theorem terminal_run_frozen:
  assumes "no_runs s0" and "run_ops s0 s" and "getRun i s = Some r" and "terminalRunState (run_state r)"
    and "run_ops s s'"
  shows "getRun i s' = Some r \<and> run_events i s' = run_events i s"
  by (rule terminal_steps[OF run_ops_steps[OF assms(5)] run_history_inv[OF assms(1,2)] assms(3,4)])

text \<open>
  (C19) Cancellations end. The expiry of overdue cancellation intents returns on every store a Run
  operation can reach. One call handles as many overdue intents as its limit, clamped to the range
  1 to 500, admits, and that many fewer are overdue afterwards; every intent whose deadline has
  passed is then either still among the overdue ones or belongs to a Run that has ended, whose
  final state it records. Calls repeated until their limits cover the overdue intents leave none:
  then the Run of every intent whose deadline has passed has ended.
\<close>

theorem overdue_cancellations_end:
  assumes "no_runs s0" and "run_ops s0 s"
  shows "(\<exists>rs s'. expireCancellationIntents now limit s = Inr (rs, s') \<and>
      length rs = min (bounded_limit limit) (length (overdue now s)) \<and>
      length (overdue now s') = length (overdue now s) - bounded_limit limit \<and>
      (\<forall>c\<in>set (rs_cancellations s'). ci_ackDeadlineAt c \<le> now \<longrightarrow> c \<notin> set (overdue now s') \<longrightarrow>
        (\<exists>r. getRun (ci_runId c) s' = Some r \<and> terminalRunState (run_state r) \<and>
          ci_terminalStatus c = Some (run_state r)))) \<and>
    (length (overdue now s) \<le> n * bounded_limit limit \<longrightarrow>
      (\<exists>s'. expiry_rounds now limit n s = Inr s' \<and>
        (\<forall>c\<in>set (rs_cancellations s'). ci_ackDeadlineAt c \<le> now \<longrightarrow>
          (\<exists>r. getRun (ci_runId c) s' = Some r \<and> terminalRunState (run_state r) \<and>
            ci_terminalStatus c = Some (run_state r)))))"
proof -
  note inv = run_history_inv[OF assms] run_history_events[OF assms]
  obtain rs s' where one: "expireCancellationIntents now limit s = Inr (rs, s')"
    "length rs = min (bounded_limit limit) (length (overdue now s))"
    "length (overdue now s') = length (overdue now s) - bounded_limit limit" "run_inv s'"
    by (rule expire_due[OF inv])
  obtain t where many: "expiry_rounds now limit n s = Inr t"
    "length (overdue now t) = length (overdue now s) - n * bounded_limit limit" "run_inv t"
    using expiry_rounds_end[OF inv] by blast
  have none: "c \<notin> set (overdue now t)" if "length (overdue now s) \<le> n * bounded_limit limit" for c
    using many(2) that by simp
  show ?thesis using one(1-3) intent_ended[OF one(4)] many(1) none intent_ended[OF many(3)] by blast
qed

text \<open>
  Runtime events are applied at most once: delivering an event again, at any later time,
  changes nothing and answers with the Run as the first delivery left it.
\<close>

theorem event_applied_once:
  assumes "applyRuntimeEvent q c i event now s = Inr ((applied, r), s')"
  shows "applyRuntimeEvent q' c' i event now' s' = Inr ((False, r), s')"
  using assms by (rule event_again)

text \<open>
  Reconciling the projection of a reply is idempotent: a second call, whatever fresh message
  id it carries, inserts nothing and returns the projection or the failure the first one stored.
\<close>

theorem reply_projected_once:
  assumes "reconcileReplyMessageProjection freshId runId n now s = Inr (x, s')"
  shows "reconcileReplyMessageProjection freshId' runId n now' s' = Inr (settled_reply x, s')"
  using assms by (rule reconcile_again)

section \<open>Concrete Runs\<close>

definition demo_runs :: run_store where
  "demo_runs = \<lparr>rs_team = demo_team, rs_runs = [], rs_events = [], rs_cancellations = [],
     rs_deliveries = [([20], \<lparr>cd_deviceId = [30], cd_state = Delivery_accepted, cd_sendCount = 1,
       cd_lastSentAt = None\<rparr>)], rs_routing = [], rs_projections = [], rs_failures = [],
     rs_acknowledgements = [], rs_clarifications = [], rs_retries = []\<rparr>"

definition demo_run :: RunRecord where
  "demo_run = \<lparr>run_runId = [20], run_traceId = [21], run_roomId = [4], run_taskId = [5],
     run_triggerMessageId = [10], run_requesterMemberId = [2], run_targetAgentId = [6], run_parentRunId = None,
     run_attemptNumber = None, run_retryOfRunId = None, run_instruction = [9], run_state = RS_queued,
     run_lastSequence = 0, run_deadlineAt = 50, run_createdAt = 0, run_updatedAt = 0, run_terminalAt = None,
     run_orchestrationKey = None\<rparr>"

definition demo_cancel :: cancellation_input where
  "demo_cancel = \<lparr>rc_runId = [20], rc_messageId = [40], rc_requestedByMemberId = [2], rc_reason = [9],
     rc_now = 5, rc_ackDeadlineAt = 9\<rparr>"

lemmas demo_run_simps = demo_runs_def demo_run_def createRuns_def insertRunIdentity_def Let_def insert_row_def
  commit_rows_def nextAttemptNumber_def getRun_def ensure_def applyStatus_def applyRuntimeEvent_def
  next_run_state_def event_effects_def update_rows_def resolveCancellationIntent_def run_conflict_def
  run_event_conflict_def cancellation_conflict_def some_eq_def

definition demo_finishes :: "run_store \<Rightarrow> bool" where
  "demo_finishes s \<longleftrightarrow> (\<exists>z t r. applyStatus [20] RS_completed None 2 3 s = Inr (z, t) \<and> getRun [20] t = Some r \<and>
     run_state r = RS_completed \<and> run_lastSequence r = 2)"

definition demo_cancels :: "run_store \<Rightarrow> bool" where
  "demo_cancels s \<longleftrightarrow> (\<exists>z t c. requestCancellation demo_cancel s = Inr (z, t) \<and> rs_cancellations t = [c] \<and>
     ci_runId c = [20] \<and> ci_state c = Intent_pending \<and> ci_ackDeadlineAt c = 9)"

lemma demo_run_created: "\<exists>x s. createRuns [demo_run] demo_runs = Inr (x, s) \<and>
    (\<exists>y s'. applyStatus [20] RS_working None 1 2 s = Inr (y, s') \<and> demo_finishes s' \<and> demo_cancels s')"
  by (simp add: demo_run_simps demo_cancel_def requestCancellation_def getCancellationIntent_def
      getCancellationDelivery_def insertCancellationIntent_def demo_finishes_def demo_cancels_def) (rule exI[of _ True], simp)

lemma no_demo_runs: "no_runs demo_runs"
  by (simp add: no_runs_def demo_runs_def)

lemma demo_working:
  obtains s where "run_ops demo_runs s" "demo_finishes s" "demo_cancels s"
proof -
  obtain x s y s' where s: "createRuns [demo_run] demo_runs = Inr (x, s)" "applyStatus [20] RS_working None 1 2 s = Inr (y, s')"
    and t: "demo_finishes s'" "demo_cancels s'"
    using demo_run_created by blast
  have "run_op demo_runs s" by (rule op_create[OF s(1)]) (simp add: fresh_run_def demo_run_def)
  moreover have "run_op s s'" by (rule op_event) (rule s(2)[unfolded applyStatus_def])
  ultimately have "run_ops demo_runs s'" by simp
  then show thesis using t by (rule that)
qed

lemma demo_finished:
  obtains s r where "run_ops demo_runs s" "getRun [20] s = Some r" "run_state r = RS_completed" "run_lastSequence r = 2"
proof (rule demo_working)
  fix s assume s: "run_ops demo_runs s" and "demo_finishes s"
  then obtain z t r where t: "applyStatus [20] RS_completed None 2 3 s = Inr (z, t)" "getRun [20] t = Some r"
      "run_state r = RS_completed" "run_lastSequence r = 2" by (auto simp: demo_finishes_def)
  have "run_op s t" by (rule op_event) (rule t(1)[unfolded applyStatus_def])
  with s have "run_ops demo_runs t" by simp
  then show thesis using t(2-4) by (rule that)
qed

theorem run_log_exact_witness:
  "\<exists>s r. run_ops demo_runs s \<and> getRun [20] s = Some r \<and> map rv_sequence (run_events [20] s) = [1, 2] \<and>
     run_terminalAt r \<noteq> None"
proof (rule demo_finished)
  fix s r assume s: "run_ops demo_runs s" "getRun [20] s = Some r" "run_state r = RS_completed" "run_lastSequence r = 2"
  from run_log_exact[OF no_demo_runs s(1,2)] s show ?thesis by (auto simp: upto_rec1)
qed

theorem terminal_run_frozen_witness:
  "\<exists>s r. getRun [20] s = Some r \<and> run_state r = RS_completed \<and> getRun [20] (s\<lparr>rs_team := demo_log\<rparr>) = Some r"
proof (rule demo_finished)
  fix s r assume s: "run_ops demo_runs s" "getRun [20] s = Some r" "run_state r = RS_completed"
  have "run_ops s (s\<lparr>rs_team := demo_log\<rparr>)"
    using op_team[of s "rs_deliveries s" demo_log] by (simp add: r_into_rtranclp)
  from terminal_run_frozen[OF no_demo_runs s(1,2) _ this] s show ?thesis by auto
qed

theorem overdue_cancellations_end_witness:
  "\<exists>s rs s'. run_ops demo_runs s \<and> length (overdue 10 s) = 1 \<and> expireCancellationIntents 10 100 s = Inr (rs, s') \<and>
     length rs = 1 \<and> overdue 10 s' = [] \<and>
     (\<exists>t. expiry_rounds 10 100 1 s = Inr t \<and>
       list_all (\<lambda>c. \<exists>r. getRun (ci_runId c) t = Some r \<and> terminalRunState (run_state r))
         (filter (\<lambda>c. ci_ackDeadlineAt c \<le> 10) (rs_cancellations t)))"
proof (rule demo_working)
  fix s assume s: "run_ops demo_runs s" and "demo_cancels s"
  then obtain z t c where t: "requestCancellation demo_cancel s = Inr (z, t)" "rs_cancellations t = [c]"
      "ci_state c = Intent_pending" "ci_ackDeadlineAt c = 9"
    by (auto simp: demo_cancels_def)
  have "run_op s t" by (rule op_cancel[OF t(1)])
  with s have hist: "run_ops demo_runs t" by simp
  have len: "length (overdue 10 t) = 1" "bounded_limit 100 = 100" using t by (simp_all add: overdue_def bounded_limit_def)
  note ended = overdue_cancellations_end[OF no_demo_runs hist, of 10 100 1, unfolded len]
  then obtain rs s' where s': "expireCancellationIntents 10 100 t = Inr (rs, s')" "length rs = 1" "overdue 10 s' = []"
    by auto
  from ended obtain u where u: "expiry_rounds 10 100 1 t = Inr u"
    "\<forall>c\<in>set (rs_cancellations u). ci_ackDeadlineAt c \<le> 10 \<longrightarrow> (\<exists>r. getRun (ci_runId c) u = Some r \<and>
      terminalRunState (run_state r) \<and> ci_terminalStatus c = Some (run_state r))" by auto
  from u(2) have "list_all (\<lambda>c. \<exists>r. getRun (ci_runId c) u = Some r \<and> terminalRunState (run_state r))
       (filter (\<lambda>c. ci_ackDeadlineAt c \<le> 10) (rs_cancellations u))" unfolding list_all_iff by auto
  with hist len(1) s' u(1) show ?thesis by blast
qed

theorem event_applied_once_witness:
  "\<exists>r s. applyRuntimeEvent [] [] [20] (StatusEvent 2 RS_completed None None None) 9 s = Inr ((False, r), s) \<and>
     run_state r = RS_completed"
proof (rule demo_working)
  fix s assume "demo_finishes s"
  then obtain a q t r where t: "applyStatus [20] RS_completed None 2 3 s = Inr ((a, q), t)" "getRun [20] t = Some r"
    "run_state r = RS_completed" by (auto simp: demo_finishes_def)
  then have "applyRuntimeEvent [] [] [20] (StatusEvent 2 RS_completed None None None) 3 s = Inr ((a, q), t)"
    by (simp add: applyStatus_def)
  from event_applied_once[OF this] have again:
    "applyRuntimeEvent [] [] [20] (StatusEvent 2 RS_completed None None None) 9 t = Inr ((False, q), t)" .
  from applyRuntimeEvent_step[OF this] t(2) have "q = r" by simp
  with again t(3) show ?thesis by blast
qed

definition demo_replied :: run_store where
  "demo_replied = demo_runs\<lparr>rs_team := demo_team\<lparr>tr_messages := [run_message [10] demo_run [8] 0]\<rparr>, rs_runs := [demo_run\<lparr>run_lastSequence := 1\<rparr>],
     rs_events := [\<lparr>rv_runId = [20], rv_traceId = [21], rv_sequence = 1, rv_event = ReplyEvent 1 [9] None,
       rv_createdAt = 4\<rparr>]\<rparr>"

lemma demo_reconcile: "\<exists>p s. reconcileReplyMessageProjection [60] [20] 1 5 demo_replied = Inr (Projected True p, s) \<and>
    pj_messageId p = [60]"
  by (simp add: reconcileReplyMessageProjection_def demo_replied_def getReplyMessageProjection_def
      getReplyProjectionFailure_def is_reply_def reconcileSource_def reply_content_def findReplyMessageCandidates_def
      insertReplyMessage_def on_team_def insertRoomMessage_def insertReplyMessageProjection_def demo_run_simps
      demo_team_def run_message_def exceedsUnicodeCodePointLimit_def getRoom_def message_conflict_def projection_conflict_def)

theorem reply_projected_once_witness:
  "\<exists>p s. reconcileReplyMessageProjection [61] [20] 1 6 s = Inr (Projected False p, s) \<and> pj_messageId p = [60]"
proof -
  obtain p s where s: "reconcileReplyMessageProjection [60] [20] 1 5 demo_replied = Inr (Projected True p, s)"
    "pj_messageId p = [60]"
    using demo_reconcile by blast
  from reply_projected_once[OF s(1), of "[61]" 6] s(2) show ?thesis by (auto simp: settled_reply_def)
qed

end
