(* ===== verification/Message_Threads.thy ===== *)
theory Message_Threads
  imports Run_History
begin

text \<open>
  The messages of a Room together with the Runs that answer them. Besides the messages that are
  appended, the Run repository writes rows of its own: the reply of an Agent, the question of a
  clarification, the trigger of a retry and the reply a reconciliation finds missing. Each of them
  answers the trigger of a Run, and every such row lies in the Room and the Task of its parent.
\<close>

section \<open>The histories of messages and Runs\<close>

text \<open>
  A Run is created for a stored message and takes its Task (\<^verbatim>\<open>run-service.ts\<close>,
  \<^verbatim>\<open>run-projection-reconciler.ts\<close>, the anchors of a Discussion), or it is handed on
  and takes the trigger and the Task of its parent Run (\<^verbatim>\<open>handoff-service.ts\<close>).
\<close>

definition for_message :: "run_store \<Rightarrow> RunRecord \<Rightarrow> bool" where
  "for_message s r \<longleftrightarrow> (\<exists>m\<in>set (tr_messages (rs_team s)).
     msg_messageId m = run_triggerMessageId r \<and> msg_taskId m = run_taskId r)"

definition handed_on :: "run_store \<Rightarrow> RunRecord \<Rightarrow> bool" where
  "handed_on s r \<longleftrightarrow> (\<exists>p\<in>set (rs_runs s).
     run_triggerMessageId r = run_triggerMessageId p \<and> run_taskId r = run_taskId p)"

text \<open>No caller appends a message with an empty Task id.\<close>

inductive message_history :: "run_store \<Rightarrow> bool" where
  log_empty: "tr_messages (rs_team s) = [] \<Longrightarrow> (\<And>r. tr_sequences (rs_team s) r = 0) \<Longrightarrow> rs_runs s = [] \<Longrightarrow>
    message_history s"
| log_append: "message_history s \<Longrightarrow> appendWithResult freshTrace message (rs_team s) = Inr (r, t) \<Longrightarrow>
    m_taskId message \<noteq> Some [] \<Longrightarrow> message_history (s\<lparr>rs_team := t\<rparr>)"
| log_create: "message_history s \<Longrightarrow> createRuns runs s = Inr (x, s') \<Longrightarrow>
    list_all (\<lambda>r. for_message s r \<or> handed_on s r) runs \<Longrightarrow> message_history s'"
| log_event: "message_history s \<Longrightarrow> applyRuntimeEvent q c runId event now s = Inr (y, s') \<Longrightarrow> message_history s'"
| log_reply: "message_history s \<Longrightarrow> applyReply m runId n content a now s = Inr (y, s') \<Longrightarrow> message_history s'"
| log_finish: "message_history s \<Longrightarrow> applyReplyAndTerminal m runId n content a k err session now s = Inr (y, s') \<Longrightarrow>
    message_history s'"
| log_cancel: "message_history s \<Longrightarrow> requestCancellation input s = Inr (z, s') \<Longrightarrow> message_history s'"
| log_sent: "message_history s \<Longrightarrow> markCancellationIntentSent runId m now s = Inr (i, s') \<Longrightarrow> message_history s'"
| log_expire_intents: "message_history s \<Longrightarrow> expireCancellationIntents now limit s = Inr (rs, s') \<Longrightarrow> message_history s'"
| log_expire: "message_history s \<Longrightarrow> expireQueued roomId now s = Inr (rs, s') \<Longrightarrow> message_history s'"
| log_acknowledge: "message_history s \<Longrightarrow> acknowledgeAmbiguity ainput s = Inr (aa, s') \<Longrightarrow> message_history s'"
| log_retry: "message_history s \<Longrightarrow> createRetry runId m rinput s = Inr (r, s') \<Longrightarrow> message_history s'"
| log_reconcile: "message_history s \<Longrightarrow> reconcileReplyMessageProjection m runId n now s = Inr (v, s') \<Longrightarrow>
    message_history s'"
| log_routed: "message_history s \<Longrightarrow> completeReplyRoutingIntent runId n now s = Inr s' \<Longrightarrow> message_history s'"
| log_team: "message_history s \<Longrightarrow> tr_messages team = tr_messages (rs_team s) \<Longrightarrow>
    tr_sequences team = tr_sequences (rs_team s) \<Longrightarrow> message_history (s\<lparr>rs_team := team, rs_deliveries := deliveries\<rparr>)"

section \<open>The invariant\<close>

definition triggers :: "run_store \<Rightarrow> (jstring \<times> jstring) set" where
  "triggers s = (\<lambda>r. (run_triggerMessageId r, run_taskId r)) ` set (rs_runs s)"

definition sent :: "run_store \<Rightarrow> (jstring \<times> jstring) set" where
  "sent s = (\<lambda>m. (msg_messageId m, msg_taskId m)) ` set (tr_messages (rs_team s))"

definition thread_inv :: "run_store \<Rightarrow> bool" where
  "thread_inv s \<longleftrightarrow> log_inv (rs_team s) \<and> (\<forall>m\<in>set (tr_messages (rs_team s)). threaded (rs_team s) m) \<and>
     triggers s \<subseteq> sent s"

text \<open>What a transaction does to the log: nothing, or new rows that answer triggers.\<close>

definition same_log :: "run_store \<Rightarrow> run_store \<Rightarrow> bool" where
  "same_log s s' \<longleftrightarrow> tr_messages (rs_team s') = tr_messages (rs_team s) \<and>
     tr_sequences (rs_team s') = tr_sequences (rs_team s) \<and> triggers s' = triggers s"

definition answers :: "run_store \<Rightarrow> run_store \<Rightarrow> bool" where
  "answers s s' \<longleftrightarrow> (thread_inv s \<longrightarrow> thread_inv s') \<and> triggers s' = triggers s"

lemma same_log_inv: "same_log s s' \<Longrightarrow> answers s s'"
  by (auto simp: same_log_def answers_def thread_inv_def log_inv_def room_messages_def threaded_def sent_def)

lemma answers_refl [simp]: "answers s s"
  by (simp add: answers_def)

lemma answersD: "answers s s' \<Longrightarrow> thread_inv s \<Longrightarrow> thread_inv s'"
  by (simp add: answers_def)

lemma answers_trans: "answers s s1 \<Longrightarrow> answers s1 s2 \<Longrightarrow> answers s s2"
  by (simp add: answers_def)

lemma same_log_after: "answers s s1 \<Longrightarrow> same_log s1 s2 \<Longrightarrow> answers s s2"
  by (blast intro: answers_trans same_log_inv)

lemma write_row:
  assumes ins: "on_team (insertRoomMessage row) s = Inr s'" and inv: "thread_inv s"
    and fits: "msg_parentMessageId row = Some p" "(p, msg_taskId row) \<in> triggers s"
  shows "thread_inv s'" "triggers s' = triggers s" "(msg_messageId row, msg_taskId row) \<in> sent s'"
proof -
  obtain t where t: "insertRoomMessage row (rs_team s) = Inr t" "s' = s\<lparr>rs_team := t\<rparr>"
    using ins by (auto simp: on_team_def bind_eq_Inr)
  note log = inv[unfolded thread_inv_def]
  from t(1) obtain stored where st: "stored = row\<lparr>msg_sequence := tr_sequences (rs_team s) (msg_roomId row) + 1\<rparr>"
    and t': "tr_messages t = tr_messages (rs_team s) @ [stored]"
    and fk: "\<exists>m\<in>set (tr_messages (rs_team s)). msg_messageId m = p \<and> msg_roomId m = msg_roomId row"
    using fits(1) by (auto elim!: insertRoomMessage_Inr)
  have cf: "conflict_free message_conflict (tr_messages (rs_team s))" using log by (simp add: log_inv_def)
  obtain m where m: "m \<in> set (tr_messages (rs_team s))" "msg_messageId m = p" "msg_roomId m = msg_roomId row" using fk by blast
  moreover obtain q where "q \<in> set (tr_messages (rs_team s))" "msg_messageId q = p" "msg_taskId q = msg_taskId row"
    using fits(2) log by (auto simp: sent_def)
  ultimately have task: "msg_taskId m = msg_taskId row" using messages.find_row[OF cf] by (metis option.inject)
  have "\<forall>m\<in>set (tr_messages t). threaded t m"
  proof (rule threaded_snoc[OF _ _ _ t'])
    fix p' assume "truthy (msg_parentMessageId stored) = Some p'"
    then have "p' = p" using fits(1) by (auto simp: st truthy_def split: if_splits)
    with m task show "\<exists>q\<in>set (tr_messages (rs_team s)). msg_messageId q = p' \<and> msg_roomId q = msg_roomId stored \<and>
        msg_taskId q = msg_taskId stored" by (auto simp: st)
  qed (use log st in auto)
  moreover have "log_inv t" using insert_room_log[OF t(1)] log by blast
  moreover show "triggers s' = triggers s" "(msg_messageId row, msg_taskId row) \<in> sent s'"
    by (simp_all add: t triggers_def sent_def t' st)
  moreover have "sent s \<subseteq> sent s'" by (auto simp: sent_def t t')
  ultimately show "thread_inv s'" using log by (auto simp: thread_inv_def t(2))
qed

lemma write_answers:
  assumes "on_team (insertRoomMessage row) s = Inr s'"
    and "msg_parentMessageId row = Some p" "(p, msg_taskId row) \<in> triggers s"
  shows "answers s s'"
proof -
  have "triggers s' = triggers s" using assms(1) by (auto simp: on_team_def bind_eq_Inr triggers_def)
  then show ?thesis using write_row(1)[OF assms(1) _ assms(2,3)] by (simp add: answers_def)
qed

lemma getRun_trigger: "getRun i s = Some r \<Longrightarrow> (run_triggerMessageId r, run_taskId r) \<in> triggers s"
  by (auto simp: triggers_def getRun_def find_Some_iff intro!: image_eqI[of _ _ r])

section \<open>The transactions of the Run repository\<close>

lemma same_log_triv [simp]:
  "same_log s (s\<lparr>rs_events := x1\<rparr>)" "same_log s (s\<lparr>rs_routing := x2\<rparr>)" "same_log s (s\<lparr>rs_clarifications := x3\<rparr>)"
  "same_log s (s\<lparr>rs_cancellations := x4\<rparr>)" "same_log s (s\<lparr>rs_projections := x5\<rparr>)" "same_log s (s\<lparr>rs_failures := x6\<rparr>)"
  "same_log s (s\<lparr>rs_retries := x7\<rparr>)" "same_log s (recordSession task session now s)"
  by (simp_all add: same_log_def triggers_def recordSession_def)

lemma message_answers:
  "on_team (insertRoomMessage (run_message m run content t)) s = Inr s' \<Longrightarrow> getRun i s = Some run \<Longrightarrow> answers s s'"
  by (erule write_answers) (auto simp: run_message_def dest: getRun_trigger)

lemma clarification_answers:
  "openClarification q c run st cl now s = Inr s' \<Longrightarrow> getRun i s = Some run \<Longrightarrow> answers s s'"
  by (auto simp: openClarification_def bind_eq_Inr bind_ensure_eq_Inr dest!: message_answers intro: same_log_after)

lemma event_effects_answers:
  assumes "event_effects q c run event now s = Inr s'" and "getRun i s = Some run"
  shows "answers s s'"
proof (cases event)
  case (StatusEvent n status err session clarification)
  with assms(1) obtain s1 where s1: "(case clarification of None \<Rightarrow> Inr s
      | Some c' \<Rightarrow> openClarification q c run status c' now s) = Inr s1"
    "s' = (case session of None \<Rightarrow> s1 | Some x \<Rightarrow> recordSession (run_taskId run) x now s1)"
    by (auto simp: event_effects_def bind_eq_Inr)
  then have "answers s s1" using assms(2) by (auto split: option.splits dest: clarification_answers)
  then show ?thesis using s1(2) by (auto split: option.splits intro: same_log_after)
qed (use assms(1) in \<open>auto simp: event_effects_def bind_eq_Inr intro: same_log_inv\<close>)

lemma advance_log: "same_log s (s\<lparr>rs_runs := map (\<lambda>r. if run_runId r = i then advanced_run st n now r else r) (rs_runs s)\<rparr>)"
proof -
  have "run_triggerMessageId (if run_runId r = i then advanced_run st n now r else r) = run_triggerMessageId r"
    "run_taskId (if run_runId r = i then advanced_run st n now r else r) = run_taskId r" for r
    by (simp_all add: advanced_run_def)
  then have "map (\<lambda>r. (run_triggerMessageId r, run_taskId r))
      (map (\<lambda>r. if run_runId r = i then advanced_run st n now r else r) (rs_runs s)) =
    map (\<lambda>r. (run_triggerMessageId r, run_taskId r)) (rs_runs s)" by (simp only: map_map comp_def)
  then show ?thesis by (simp add: same_log_def triggers_def del: map_map flip: set_map)
qed

lemma event_answers:
  assumes "applyRuntimeEvent q c runId event now s = Inr ((applied, r), s')"
  shows "answers s s' \<and> getRun runId s' = Some r"
proof -
  obtain current where cur: "getRun runId s = Some current"
    using assms by (auto simp: applyRuntimeEvent_def split: option.splits)
  have "answers s s'"
  proof (cases "ev_sequence event \<le> run_lastSequence current \<or> terminalRunState (run_state current)")
    case True
    with assms cur show ?thesis by (simp add: applyRuntimeEvent_def)
  next
    case False
    let ?next = "next_run_state event (run_state current)"
    let ?rows = "\<lambda>s. map (\<lambda>r. if run_runId r = runId then advanced_run ?next (ev_sequence event) now r else r) (rs_runs s)"
    from assms cur False obtain rows s1 s3 where
      ev: "event_effects q c current event now (s\<lparr>rs_events := rows\<rparr>) = Inr s1"
      and fin: "(if terminalRunState ?next then resolveCancellationIntent runId ?next now (s1\<lparr>rs_runs := ?rows s1\<rparr>)
        else Inr (s1\<lparr>rs_runs := ?rows s1\<rparr>)) = Inr s3"
      and res: "(case getRun runId s3 of None \<Rightarrow> Inl (ErrorText ''Run disappeared after event: '' runId)
        | Some updated \<Rightarrow> Inr ((True, updated), s3)) = Inr ((applied, r), s')"
      unfolding applyRuntimeEvent_def Let_def advanced_run_def
      by (auto simp: bind_eq_Inr bind_ensure_eq_Inr update_rows_Inr)
    have "getRun runId (s\<lparr>rs_events := rows\<rparr>) = Some current" using cur by (simp add: getRun_def)
    from event_effects_answers[OF ev this] have "answers s s1"
      by (rule answers_trans[OF same_log_inv[OF same_log_triv(1)]])
    then have "answers s (s1\<lparr>rs_runs := ?rows s1\<rparr>)" using advance_log by (rule same_log_after)
    then have "answers s s3" using fin by (auto split: if_splits dest!: resolve_Inr intro: same_log_after)
    then show ?thesis using res by (auto split: option.splits)
  qed
  with applyRuntimeEvent_step[OF assms] show ?thesis by auto
qed

lemma event_log: "applyRuntimeEvent q c runId event now s = Inr (y, s') \<Longrightarrow> answers s s'"
  by (cases y) (auto dest: event_answers)

lemma status_answers: "applyStatus runId st err n now s = Inr (x, s') \<Longrightarrow> answers s s'"
  unfolding applyStatus_def by (rule event_log)

lemma projection_log:
  "insertReplyMessageProjection runId n m t s = Inr (p, s') \<Longrightarrow> same_log s s'"
  "insertReplyProjectionFailure runId n code k t s = Inr (f, s') \<Longrightarrow> same_log s s'"
  by (auto simp: insertReplyMessageProjection_def insertReplyProjectionFailure_def Let_def bind_eq_Inr)

lemma reply_answers: "applyReply m runId n content a now s = Inr (x, s') \<Longrightarrow> answers s s'"
  by (auto simp: applyReply_def bind_eq_Inr insertReplyMessage_def split: if_splits
      dest!: event_answers message_answers projection_log intro: same_log_after answers_trans)

lemma finish_answers:
  "applyReplyAndTerminal messageId runId n content a m err session now s = Inr (x, s') \<Longrightarrow> answers s s'"
  by (auto simp: applyReplyAndTerminal_def bind_eq_Inr bind_ensure_eq_Inr split: if_splits
      dest!: event_answers reply_answers intro: answers_trans)

lemma resolve_log: "resolveCancellationIntent runId st now s = Inr s' \<Longrightarrow> answers s s'"
  by (auto dest!: resolve_Inr intro: same_log_inv)

lemma cancel_answers: "requestCancellation input s = Inr (x, s') \<Longrightarrow> answers s s'"
  by (auto simp: requestCancellation_def cancelNow_def insertCancellationIntent_def Let_def bind_eq_Inr bind_ensure_eq_Inr
      split: if_splits option.splits dest!: status_answers resolve_log intro: same_log_inv)

lemma for_each_answers:
  assumes "for_each f xs p = Inr q" and "\<And>x p q. f x p = Inr q \<Longrightarrow> answers (snd p) (snd q)"
  shows "answers (snd p) (snd q)"
  using assms(1)
proof (induction xs arbitrary: p)
  case (Cons x xs)
  then obtain p1 where "f x p = Inr p1" "for_each f xs p1 = Inr q" by (auto simp: bind_eq_Inr)
  with Cons.IH assms(2) show ?case by (blast intro: answers_trans)
qed simp

lemma expireIntent_answers: "expireIntent now runId p = Inr q \<Longrightarrow> answers (snd p) (snd q)"
  by (auto simp: expireIntent_def bind_eq_Inr split: option.splits if_splits prod.splits
      dest!: status_answers resolve_log)

lemma expireRun_answers: "expireRun now runId p = Inr q \<Longrightarrow> answers (snd p) (snd q)"
  by (auto simp: expireRun_def bind_eq_Inr split: prod.splits dest!: status_answers)

lemma expire_intents_answers:
  assumes "expireCancellationIntents now limit s = Inr (x, s')"
  shows "answers s s'"
proof -
  obtain ids where "for_each (expireIntent now) ids ([], s) = Inr (x, s')"
    using assms by (auto simp: expireCancellationIntents_def Let_def)
  from for_each_answers[OF this expireIntent_answers] show ?thesis by simp
qed

lemma expire_queued_answers:
  assumes "expireQueued roomId now s = Inr (x, s')"
  shows "answers s s'"
proof -
  obtain ids where "for_each (expireRun now) ids ([], s) = Inr (x, s')"
    using assms by (auto simp: expireQueued_def)
  from for_each_answers[OF this expireRun_answers] show ?thesis by simp
qed

lemma other_answers:
  "markCancellationIntentSent runId m now s = Inr (i, s') \<Longrightarrow> answers s s'"
  "completeReplyRoutingIntent runId n now s = Inr s' \<Longrightarrow> answers s s'"
  "acknowledgeAmbiguity ainput s = Inr (aa, s') \<Longrightarrow> answers s s'"
  by (auto simp: markCancellationIntentSent_def completeReplyRoutingIntent_def acknowledgeAmbiguity_def Let_def
      bind_eq_Inr bind_ensure_eq_Inr same_log_def triggers_def split: option.splits intro!: same_log_inv)

lemma reconcile_answers:
  assumes "reconcileReplyMessageProjection m runId n now s = Inr (v, s')"
  shows "answers s s'"
proof -
  have "answers s s'" if "reconcileSource m run event now s = Inr (v, s')" "getRun runId s = Some run" for run event
    using that by (auto simp: reconcileSource_def Let_def bind_eq_Inr insertReplyMessage_def
        split: if_splits list.splits dest!: message_answers projection_log intro: same_log_after same_log_inv)
  then show ?thesis
    using assms by (auto simp: reconcileReplyMessageProjection_def split: option.splits)
qed

section \<open>New Runs\<close>

lemma createRuns_log:
  assumes "createRuns runs s = Inr (x, s')"
  shows "rs_team s' = rs_team s \<and>
    triggers s' = triggers s \<union> (\<lambda>r. (run_triggerMessageId r, run_taskId r)) ` set runs"
proof -
  have "for_each insertRunIdentity runs s = Inr s'" using assms by (auto simp: createRuns_def bind_eq_Inr)
  then show ?thesis
  proof (induction runs arbitrary: s)
    case (Cons r runs)
    then obtain s1 where s1: "insertRunIdentity r s = Inr s1" "for_each insertRunIdentity runs s1 = Inr s'"
      by (auto simp: bind_eq_Inr)
    then have "rs_team s1 = rs_team s" "triggers s1 = insert (run_triggerMessageId r, run_taskId r) (triggers s)"
      by (auto simp: insertRunIdentity_def Let_def bind_eq_Inr insert_row_Inr triggers_def)
    with Cons.IH[OF s1(2)] show ?case by auto
  qed simp
qed

lemma createRuns_threads:
  assumes "createRuns runs s = Inr (x, s')" and "thread_inv s"
    and "\<And>r. r \<in> set runs \<Longrightarrow> (run_triggerMessageId r, run_taskId r) \<in> sent s"
  shows "thread_inv s'"
proof -
  have "sent s' = sent s" using createRuns_log[OF assms(1)] by (simp add: sent_def)
  with createRuns_log[OF assms(1)] assms(2,3) show ?thesis by (auto simp: thread_inv_def)
qed

lemma retry_threads:
  assumes "createRetry runId trig input s = Inr (x, s')" and inv: "thread_inv s"
  shows "thread_inv s'"
proof (cases "find (\<lambda>o'. ro_operationId o' = rt_operationId input) (rs_retries s)")
  case None
  with assms obtain parent s1 s2 y rows where
    parent: "getRun (rt_parentRunId input) s = Some parent" and
    team: "on_team (insertRoomMessage (retry_trigger trig input parent)) s = Inr s1" and
    runs: "createRuns [retry_run runId trig input parent] s1 = Inr (y, s2)" and s': "s' = s2\<lparr>rs_retries := rows\<rparr>"
    by (auto simp: createRetry_def bind_eq_Inr Let_def split: option.splits)
  note row = write_row[OF team inv, of "run_triggerMessageId parent"]
  have fits: "msg_parentMessageId (retry_trigger trig input parent) = Some (run_triggerMessageId parent)"
    "(run_triggerMessageId parent, msg_taskId (retry_trigger trig input parent)) \<in> triggers s"
    using getRun_trigger[OF parent] by (simp_all add: retry_trigger_def)
  have "thread_inv s2" using row(3)[OF fits]
    by (intro createRuns_threads[OF runs row(1)[OF fits]]) (simp add: retry_run_def retry_trigger_def)
  then show ?thesis using same_log_inv[OF same_log_triv(7)] by (simp add: s' answers_def)
qed (use assms in \<open>auto simp: createRetry_def bind_ensure_eq_Inr\<close>)

lemma history_threads: "message_history s \<Longrightarrow> thread_inv s"
proof (induction rule: message_history.induct)
  case (log_empty s)
  then show ?case by (simp add: thread_inv_def log_inv_def room_messages_def triggers_def)
next
  case (log_append s freshTrace message r t)
  have inv: "log_inv (rs_team s)" "\<forall>m\<in>set (tr_messages (rs_team s)). threaded (rs_team s) m" "triggers s \<subseteq> sent s"
    using log_append.IH by (simp_all add: thread_inv_def)
  have "set (tr_messages (rs_team s)) \<subseteq> set (tr_messages t)"
    using log_append.hyps(2) by (cases rule: appendWithResult_Inr) (auto dest!: insert_message_Inr)
  then have "sent s \<subseteq> sent (s\<lparr>rs_team := t\<rparr>)" by (auto simp: sent_def)
  moreover have "triggers (s\<lparr>rs_team := t\<rparr>) = triggers s" by (simp add: triggers_def)
  ultimately show ?case
    using append_log[OF log_append.hyps(2) inv(1)] append_threaded[OF log_append.hyps(2) inv(1,2) log_append.hyps(3)] inv(3)
    by (auto simp: thread_inv_def)
next
  case (log_create s runs x s')
  from log_create.IH have old: "triggers s \<subseteq> sent s" by (simp add: thread_inv_def)
  have "(run_triggerMessageId r, run_taskId r) \<in> sent s" if "r \<in> set runs" for r
  proof (cases "for_message s r")
    case True
    then show ?thesis unfolding for_message_def sent_def by force
  next
    case False
    with log_create.hyps(3) that have "handed_on s r" by (auto simp: list_all_iff)
    then have "(run_triggerMessageId r, run_taskId r) \<in> triggers s" unfolding handed_on_def triggers_def by force
    with old show ?thesis by blast
  qed
  then show ?case by (rule createRuns_threads[OF log_create.hyps(2) log_create.IH])
next
  case (log_team s team deliveries)
  then show ?case by (simp add: thread_inv_def log_inv_def room_messages_def threaded_def sent_def triggers_def)
next
  case log_event
  show ?case by (rule answersD[OF event_log[OF log_event.hyps(2)] log_event.IH])
next
  case log_reply
  show ?case by (rule answersD[OF reply_answers[OF log_reply.hyps(2)] log_reply.IH])
next
  case log_finish
  show ?case by (rule answersD[OF finish_answers[OF log_finish.hyps(2)] log_finish.IH])
next
  case log_cancel
  show ?case by (rule answersD[OF cancel_answers[OF log_cancel.hyps(2)] log_cancel.IH])
next
  case log_sent
  show ?case by (rule answersD[OF other_answers(1)[OF log_sent.hyps(2)] log_sent.IH])
next
  case log_expire_intents
  show ?case by (rule answersD[OF expire_intents_answers[OF log_expire_intents.hyps(2)] log_expire_intents.IH])
next
  case log_expire
  show ?case by (rule answersD[OF expire_queued_answers[OF log_expire.hyps(2)] log_expire.IH])
next
  case log_acknowledge
  show ?case by (rule answersD[OF other_answers(3)[OF log_acknowledge.hyps(2)] log_acknowledge.IH])
next
  case log_reconcile
  show ?case by (rule answersD[OF reconcile_answers[OF log_reconcile.hyps(2)] log_reconcile.IH])
next
  case log_routed
  show ?case by (rule answersD[OF other_answers(2)[OF log_routed.hyps(2)] log_routed.IH])
next
  case log_retry
  show ?case by (rule retry_threads[OF log_retry.hyps(2) log_retry.IH])
qed

section \<open>Properties\<close>

text \<open>
  (C28) The message log of a Room: its messages, in the order of their insertion, are numbered
  1, 2, \<dots> up to the counter of the Room, their ids are distinct, and every reply has its parent in
  the same Room and the same Task, earlier in the log. This covers the messages that are appended
  and those that the transactions of the Run repository write: replies, questions, triggers of
  retries and reconciled replies. Runs are created with the Task of their trigger or of the Run
  that hands on to them.
\<close>

theorem message_log_exact:
  assumes "message_history s"
  shows "map msg_sequence (room_messages roomId (rs_team s)) = [1..tr_sequences (rs_team s) roomId] \<and>
    (\<forall>m\<in>set (tr_messages (rs_team s)). threaded (rs_team s) m) \<and>
    distinct (map msg_messageId (tr_messages (rs_team s)))"
  using history_threads[OF assms] messages.distinct_keys by (simp add: thread_inv_def log_inv_def)

text \<open>A Member writes, a Run answers the message, and its reply is the second message of the Room.\<close>

definition demo_answers :: "run_store \<Rightarrow> bool" where
  "demo_answers s \<longleftrightarrow> (\<exists>y s'. applyReply [50] [20] 1 [9] None 5 s = Inr (y, s') \<and>
     map (\<lambda>m. (msg_messageId m, msg_parentMessageId m, msg_taskId m)) (tr_messages (rs_team s')) =
       [([10], None, [5]), ([50], Some [10], [5])])"

lemma demo_answered: "\<exists>r t x s. appendWithResult [7] (demo_message [10] None) demo_team = Inr (r, t) \<and>
    createRuns [demo_run] (demo_runs\<lparr>rs_team := t\<rparr>) = Inr (x, s) \<and> demo_answers s"
  by (simp add: demo_append_simps demo_run_simps demo_answers_def applyReply_def insertReplyMessage_def on_team_def
      insertRoomMessage_def insertReplyMessageProjection_def run_message_def projection_conflict_def routing_conflict_def)
    (rule exI[of _ True], simp)

theorem message_log_exact_witness:
  "\<exists>s :: run_store. map (\<lambda>m. (msg_messageId m, msg_parentMessageId m, msg_taskId m)) (tr_messages (rs_team s)) =
       [([10], None, [5]), ([50], Some [10], [5])] \<and>
     map msg_sequence (room_messages [4] (rs_team s)) = [1..tr_sequences (rs_team s) [4]] \<and>
     list_all (threaded (rs_team s)) (tr_messages (rs_team s))"
proof -
  obtain r t x s where s: "appendWithResult [7] (demo_message [10] None) demo_team = Inr (r, t)"
    "createRuns [demo_run] (demo_runs\<lparr>rs_team := t\<rparr>) = Inr (x, s)" "demo_answers s"
    using demo_answered by blast
  from s(3) obtain y s' where s': "applyReply [50] [20] 1 [9] None 5 s = Inr (y, s')"
    "map (\<lambda>m. (msg_messageId m, msg_parentMessageId m, msg_taskId m)) (tr_messages (rs_team s')) =
       [([10], None, [5]), ([50], Some [10], [5])]" by (auto simp: demo_answers_def)
  have "message_history demo_runs" by (rule log_empty) (simp_all add: demo_runs_def demo_team_def)
  moreover have "rs_team demo_runs = demo_team" by (simp add: demo_runs_def)
  ultimately have "message_history (demo_runs\<lparr>rs_team := t\<rparr>)"
    using log_append[of demo_runs "[7]" "demo_message [10] None" r t] s(1) by (simp add: demo_message_def)
  moreover have "for_message (demo_runs\<lparr>rs_team := t\<rparr>) demo_run"
    using s(1) by (auto simp: demo_append_simps for_message_def demo_run_def)
  ultimately have "message_history s" by (intro log_create[OF _ s(2)]) simp_all
  from message_log_exact[OF log_reply[OF this s'(1)], of "[4]"] s'(2)
  have "map msg_sequence (room_messages [4] (rs_team s')) = [1..tr_sequences (rs_team s') [4]] \<and>
     list_all (threaded (rs_team s')) (tr_messages (rs_team s'))" by (simp add: list_all_iff)
  with s'(2) show ?thesis by (simp only: exI[of _ s'] simp_thms)
qed

end
