(* ===== verification/Discussion_World.thy ===== *)
theory Discussion_World
  imports Run_History Discussion_History
begin

text \<open>
  The state the Discussion services work on: the Discussion store, the Run store with the Room
  messages, the supply of opaque ids and the clock. A service operation is an action: it yields
  a value or an error, and in both cases the world it leaves behind, because the transactions it
  has committed before it throws stay. One call of a repository is one transaction, which throws
  and leaves the tables as they were, or commits.
\<close>

section \<open>Actions\<close>

record world =
  wd_store :: discussion_store
  wd_runs :: run_store
  wd_ids :: "nat \<Rightarrow> jstring"
  wd_drawn :: nat
  wd_clock :: "nat \<Rightarrow> timestamp"
  wd_ticks :: nat

abbreviation wd_team :: "world \<Rightarrow> team_room" where
  "wd_team w \<equiv> rs_team (wd_runs w)"

type_synonym 'a action = "world \<Rightarrow> 'a throwing \<times> world"

definition ret :: "'a \<Rightarrow> 'a action" where
  "ret x w = (Inr x, w)"

definition raise :: "js_error \<Rightarrow> 'a action" where
  "raise e w = (Inl e, w)"

definition andThen :: "'a action \<Rightarrow> ('a \<Rightarrow> 'b action) \<Rightarrow> 'b action" where
  "andThen m f w = (case m w of (Inl e, w') \<Rightarrow> (Inl e, w') | (Inr x, w') \<Rightarrow> f x w')"

definition check :: "bool \<Rightarrow> js_error \<Rightarrow> unit action" where
  "check c e w = (ensure c e, w)"

definition look :: "(world \<Rightarrow> 'a) \<Rightarrow> 'a action" where
  "look f w = (Inr (f w), w)"

text \<open>A computation that may throw and changes nothing.\<close>

definition pure :: "'a throwing \<Rightarrow> 'a action" where
  "pure r w = (r, w)"

fun perform_each :: "('a \<Rightarrow> unit action) \<Rightarrow> 'a list \<Rightarrow> unit action" where
  "perform_each f [] = ret ()"
| "perform_each f (x # xs) = andThen (f x) (\<lambda>_. perform_each f xs)"

fun collect_each :: "('a \<Rightarrow> 'b action) \<Rightarrow> 'a list \<Rightarrow> 'b list action" where
  "collect_each f [] = ret []"
| "collect_each f (x # xs) = andThen (f x) (\<lambda>y. andThen (collect_each f xs) (\<lambda>ys. ret (y # ys)))"

definition on_store :: "(discussion_store \<Rightarrow> ('a \<times> discussion_store) throwing) \<Rightarrow> 'a action" where
  "on_store f w = (case f (wd_store w) of Inl e \<Rightarrow> (Inl e, w) | Inr (x, s) \<Rightarrow> (Inr x, w\<lparr>wd_store := s\<rparr>))"

definition on_runs :: "(run_store \<Rightarrow> ('a \<times> run_store) throwing) \<Rightarrow> 'a action" where
  "on_runs f w = (case f (wd_runs w) of Inl e \<Rightarrow> (Inl e, w) | Inr (x, s) \<Rightarrow> (Inr x, w\<lparr>wd_runs := s\<rparr>))"

definition on_messages :: "(team_room \<Rightarrow> ('a \<times> team_room) throwing) \<Rightarrow> 'a action" where
  "on_messages f w = (case f (wd_team w) of Inl e \<Rightarrow> (Inl e, w)
     | Inr (x, t) \<Rightarrow> (Inr x, w\<lparr>wd_runs := (wd_runs w)\<lparr>rs_team := t\<rparr>\<rparr>))"

definition now :: "timestamp action" where
  "now w = (Inr (wd_clock w (wd_ticks w)), w\<lparr>wd_ticks := wd_ticks w + 1\<rparr>)"

definition createOpaqueId :: "string \<Rightarrow> jstring action" where
  "createOpaqueId label w =
     (Inr (lit label @ lit ''_'' @ wd_ids w (wd_drawn w)), w\<lparr>wd_drawn := wd_drawn w + 1\<rparr>)"

text \<open>An enclosing transaction: an error takes back what was done in it.\<close>

definition atomic :: "'a action \<Rightarrow> 'a action" where
  "atomic m w = (case m w of (Inl e, w') \<Rightarrow> (Inl e, w'\<lparr>wd_store := wd_store w, wd_runs := wd_runs w\<rparr>)
     | r \<Rightarrow> r)"

definition append_message :: "AppendMessageInput \<Rightarrow> MessageRecord action" where
  "append_message message = andThen (createOpaqueId ''trace'') (\<lambda>trace. on_messages (appendMessage trace message))"

section \<open>Relations between worlds\<close>

text \<open>
  \<open>goes R m\<close>: whatever the action \<open>m\<close> does, and even when it throws, the old and the new world
  are related by \<open>R\<close>. The rules prove it along the structure of an action. \<open>yields P m\<close>: every
  value \<open>m\<close> returns satisfies \<open>P\<close>.
\<close>

definition goes :: "(world \<Rightarrow> world \<Rightarrow> bool) \<Rightarrow> 'a action \<Rightarrow> bool" where
  "goes R m \<longleftrightarrow> (\<forall>w. R w (snd (m w)))"

definition yields :: "('a \<Rightarrow> bool) \<Rightarrow> 'a action \<Rightarrow> bool" where
  "yields P m \<longleftrightarrow> (\<forall>w x w'. m w = (Inr x, w') \<longrightarrow> P x)"

locale world_relation =
  fixes R :: "world \<Rightarrow> world \<Rightarrow> bool"
  assumes keep: "R w w" and trans: "R w w1 \<Longrightarrow> R w1 w2 \<Longrightarrow> R w w2"
    and clock: "R w (w\<lparr>wd_ticks := n\<rparr>)" and drawn: "R w (w\<lparr>wd_drawn := n\<rparr>)"
begin

lemma goes_ret [simp, intro!]: "goes R (ret x)"
  by (simp add: goes_def ret_def keep)

lemma goes_raise [simp, intro!]: "goes R (raise e)"
  by (simp add: goes_def raise_def keep)

lemma goes_look [simp, intro!]: "goes R (look f)"
  by (simp add: goes_def look_def keep)

lemma goes_pure [simp, intro!]: "goes R (pure r)"
  by (simp add: goes_def pure_def keep)

lemma goes_check [simp, intro!]: "goes R (check c e)"
  by (simp add: goes_def check_def keep)

lemma goes_now [simp, intro!]: "goes R now"
  by (simp add: goes_def now_def clock)

lemma goes_createOpaqueId [simp, intro!]: "goes R (createOpaqueId label)"
  by (simp add: goes_def createOpaqueId_def drawn)

lemma goes_andThen [intro!]: "goes R m \<Longrightarrow> (\<And>x. goes R (f x)) \<Longrightarrow> goes R (andThen m f)"
  unfolding goes_def andThen_def
  by (auto split: sum.splits prod.splits) (metis snd_conv trans)+

text \<open>Values that were looked up or computed are known to what follows.\<close>

lemma goes_look_then [intro!]: "(\<And>w. goes R (g (f w))) \<Longrightarrow> goes R (andThen (look f) g)"
  by (auto simp: goes_def andThen_def look_def)

lemma goes_pure_then [intro!]: "(\<And>x. r = Inr x \<Longrightarrow> goes R (g x)) \<Longrightarrow> goes R (andThen (pure r) g)"
  by (cases r) (auto simp: goes_def andThen_def pure_def keep)

lemma goes_yields:
  "goes R m \<Longrightarrow> yields P m \<Longrightarrow> (\<And>x. P x \<Longrightarrow> goes R (f x)) \<Longrightarrow> goes R (andThen m f)"
  unfolding goes_def yields_def andThen_def
  by (auto split: sum.splits prod.splits) (metis snd_conv trans)+

lemma goes_if [intro!]: "(c \<Longrightarrow> goes R m) \<Longrightarrow> (\<not> c \<Longrightarrow> goes R n) \<Longrightarrow> goes R (if c then m else n)"
  by simp

lemma goes_option [intro!]:
  "(v = None \<Longrightarrow> goes R m) \<Longrightarrow> (\<And>x. v = Some x \<Longrightarrow> goes R (f x)) \<Longrightarrow>
   goes R (case v of None \<Rightarrow> m | Some x \<Rightarrow> f x)"
  by (cases v) auto

lemma goes_pair [intro!]: "(\<And>x y. v = (x, y) \<Longrightarrow> goes R (f x y)) \<Longrightarrow> goes R (case v of (x, y) \<Rightarrow> f x y)"
  by (cases v) auto

lemma goes_each [intro!]: "(\<And>x. goes R (f x)) \<Longrightarrow> goes R (perform_each f xs)"
  by (induction xs) auto

lemma goes_collect [intro!]: "(\<And>x. goes R (f x)) \<Longrightarrow> goes R (collect_each f xs)"
  by (induction xs) auto

lemma goes_on_store [intro]:
  "(\<And>w x s. f (wd_store w) = Inr (x, s) \<Longrightarrow> R w (w\<lparr>wd_store := s\<rparr>)) \<Longrightarrow> goes R (on_store f)"
  by (auto simp: goes_def on_store_def keep split: sum.splits)

lemma goes_on_runs [intro]:
  "(\<And>w x s. f (wd_runs w) = Inr (x, s) \<Longrightarrow> R w (w\<lparr>wd_runs := s\<rparr>)) \<Longrightarrow> goes R (on_runs f)"
  by (auto simp: goes_def on_runs_def keep split: sum.splits)

lemma goes_on_messages [intro]:
  "(\<And>w x t. f (wd_team w) = Inr (x, t) \<Longrightarrow> R w (w\<lparr>wd_runs := (wd_runs w)\<lparr>rs_team := t\<rparr>\<rparr>)) \<Longrightarrow>
   goes R (on_messages f)"
  by (auto simp: goes_def on_messages_def keep split: sum.splits)

end

section \<open>Steps of the world\<close>

text \<open>
  What the services may do to the world: a step of the Discussion store, a transaction of the Run
  store, an appended message, a drawn id or a tick of the clock.
\<close>

inductive world_step :: "text_lib \<Rightarrow> world \<Rightarrow> world \<Rightarrow> bool" for L where
  world_store: "repo_step L (wd_store w) s \<Longrightarrow> world_step L w (w\<lparr>wd_store := s\<rparr>)"
| world_run: "run_op (wd_runs w) s \<Longrightarrow> world_step L w (w\<lparr>wd_runs := s\<rparr>)"
| world_message: "appendWithResult trace message (wd_team w) = Inr (r, t) \<Longrightarrow>
    world_step L w (w\<lparr>wd_runs := (wd_runs w)\<lparr>rs_team := t\<rparr>\<rparr>)"
| world_tick: "world_step L w (w\<lparr>wd_ticks := n\<rparr>)"
| world_draw: "world_step L w (w\<lparr>wd_drawn := n\<rparr>)"

abbreviation world_steps :: "text_lib \<Rightarrow> world \<Rightarrow> world \<Rightarrow> bool" where
  "world_steps L \<equiv> (world_step L)\<^sup>*\<^sup>*"

interpretation steps: world_relation "world_steps L" for L
  by unfold_locales (auto intro: world_tick world_draw)

lemma steps_store: "repo_step L (wd_store w) s \<Longrightarrow> world_steps L w (w\<lparr>wd_store := s\<rparr>)"
  by (blast intro: world_store)

lemma steps_run: "run_op (wd_runs w) s \<Longrightarrow> world_steps L w (w\<lparr>wd_runs := s\<rparr>)"
  by (blast intro: world_run)

text \<open>Both stores stay reachable, so what is proved of their histories holds of the world.\<close>

lemma world_steps_store:
  "world_steps L w w' \<Longrightarrow> reachable_store L (wd_store w) \<Longrightarrow> reachable_store L (wd_store w')"
  by (induction rule: rtranclp_induct) (auto elim!: world_step.cases intro: reachable_store.step)

lemma world_steps_runs: "world_steps L w w' \<Longrightarrow> run_ops (wd_runs w) (wd_runs w')"
proof (induction rule: rtranclp_induct)
  case (step w1 w2)
  have "run_ops (wd_runs w1) (wd_runs w2)"
    using step(2)
  proof cases
    case (world_message trace message r t)
    have "run_op (wd_runs w1) ((wd_runs w1)\<lparr>rs_team := t, rs_deliveries := rs_deliveries (wd_runs w1)\<rparr>)" by (rule op_team)
    then show ?thesis using world_message by (simp add: r_into_rtranclp)
  qed auto
  with step.IH show ?case by simp
qed simp

end
