(* ===== verification/Redaction.thy ===== *)
theory Redaction
  imports Text_Library
begin

text \<open>
  \<open>redactSensitiveText\<close> of \<^verbatim>\<open>apps/server/src/security/redaction.ts\<close>. Each rule is the match of
  its regular expression at the start of a text, which yields the text after the match; the
  greedy repetitions of the rules never give back what they took, because what follows them is
  outside their class. \<^verbatim>\<open>replace\<close> with the flag \<^verbatim>\<open>g\<close> scans from left to right. The flags
  \<^verbatim>\<open>iu\<close> fold case, and with it U+017F and U+212A to \<^verbatim>\<open>s\<close> and \<^verbatim>\<open>k\<close>.
\<close>

section \<open>Pieces of a rule\<close>

type_synonym matcher = "jstring \<Rightarrow> jstring option"

definition fold_case :: "code_unit \<Rightarrow> code_unit" where
  "fold_case u = (if 0x41 \<le> u \<and> u \<le> 0x5A then u + 0x20 else if u = 0x212A then 0x6B
     else if u = 0x017F then 0x73 else u)"

definition same_unit :: "code_unit \<Rightarrow> code_unit" where
  "same_unit u = u"

fun literal :: "(code_unit \<Rightarrow> code_unit) \<Rightarrow> jstring \<Rightarrow> matcher" where
  "literal f [] s = Some s"
| "literal f (c # cs) [] = None"
| "literal f (c # cs) (u # s) = (if f u = c then literal f cs s else None)"

definition one_of :: "(code_unit \<Rightarrow> bool) \<Rightarrow> matcher" where
  "one_of P s = (case s of [] \<Rightarrow> None | u # r \<Rightarrow> if P u then Some r else None)"

text \<open>\<^verbatim>\<open>[...]{n,}\<close>; a class that excludes surrogates counts code units.\<close>

definition at_least :: "nat \<Rightarrow> (code_unit \<Rightarrow> bool) \<Rightarrow> matcher" where
  "at_least n P s = (if n \<le> length (code_points (takeWhile P s)) then Some (dropWhile P s) else None)"

definition exactly :: "nat \<Rightarrow> (code_unit \<Rightarrow> bool) \<Rightarrow> matcher" where
  "exactly n P s = (if n \<le> length (takeWhile P s) then Some (drop n s) else None)"

definition chain :: "matcher \<Rightarrow> matcher \<Rightarrow> matcher" where
  "chain f g s = (case f s of None \<Rightarrow> None | Some r \<Rightarrow> g r)"

definition either :: "matcher \<Rightarrow> matcher \<Rightarrow> matcher" where
  "either f g s = (case f s of None \<Rightarrow> g s | Some r \<Rightarrow> Some r)"

definition lower :: "code_unit \<Rightarrow> bool" where
  "lower u \<longleftrightarrow> 0x61 \<le> fold_case u \<and> fold_case u \<le> 0x7A"

definition digit :: "code_unit \<Rightarrow> bool" where
  "digit u \<longleftrightarrow> 0x30 \<le> u \<and> u \<le> 0x39"

section \<open>The rules\<close>

definition bearer_rule :: matcher where
  "bearer_rule = chain (literal fold_case (lit ''bearer'')) (chain (at_least 1 is_space)
     (at_least 12 (\<lambda>u. lower u \<or> digit u \<or> u \<in> set (lit ''._~+/=-''))))"

definition sk_rule :: matcher where
  "sk_rule = chain (literal fold_case (lit ''sk-'')) (at_least 16 (\<lambda>u. lower u \<or> digit u \<or> u \<in> set (lit ''_-'')))"

definition gh_rule :: matcher where
  "gh_rule = chain (literal fold_case (lit ''gh'')) (chain (one_of (\<lambda>u. fold_case u \<in> set (lit ''pousr'')))
     (chain (literal fold_case (lit ''_'')) (at_least 20 (\<lambda>u. lower u \<or> digit u))))"

definition akia_rule :: matcher where
  "akia_rule = chain (literal same_unit (lit ''AKIA'')) (exactly 16 (\<lambda>u. digit u \<or> 0x41 \<le> u \<and> u \<le> 0x5A))"

definition secret_rule :: matcher where
  "secret_rule = chain (either (literal fold_case (lit ''password''))
       (either (literal fold_case (lit ''secret'')) (literal fold_case (lit ''token''))))
     (chain (at_least 0 is_space) (chain (one_of (\<lambda>u. u \<in> set (lit ''=:'')))
       (chain (at_least 0 is_space) (at_least 8 (\<lambda>u. \<not> is_space u \<and> u \<notin> set (lit '',;''))))))"

section \<open>Replacing\<close>

definition redacted :: jstring where
  "redacted = lit ''[REDACTED]''"

function replace_all :: "matcher \<Rightarrow> jstring \<Rightarrow> jstring" where
  "replace_all f [] = []"
| "replace_all f (u # s) = (case f (u # s) of
       Some r \<Rightarrow> if length r \<le> length s then redacted @ replace_all f r else u # replace_all f s
     | None \<Rightarrow> u # replace_all f s)"
  by pat_completeness auto
termination by (relation "measure (\<lambda>(f, s). length s)") auto

definition sensitiveRules :: "matcher list" where
  "sensitiveRules = [bearer_rule, sk_rule, gh_rule, akia_rule, secret_rule]"

definition redactSensitiveText :: "jstring \<Rightarrow> jstring" where
  "redactSensitiveText value = foldl (\<lambda>s rule. replace_all rule s) value sensitiveRules"

section \<open>Lemmas\<close>

definition shrinks :: "matcher \<Rightarrow> bool" where
  "shrinks f \<longleftrightarrow> (\<forall>s r. f s = Some r \<longrightarrow> length r \<le> length s)"

definition consumes :: "matcher \<Rightarrow> bool" where
  "consumes f \<longleftrightarrow> (\<forall>s r. f s = Some r \<longrightarrow> length r < length s)"

lemma literal_shorter: "literal f cs s = Some r \<Longrightarrow> length r + length cs = length s"
  by (induction f cs s rule: literal.induct) (auto split: if_splits)

lemma shrinks_pieces [simp]:
  "shrinks (literal f cs)" "shrinks (one_of P)" "shrinks (at_least n P)" "shrinks (exactly n P)"
  using literal_shorter[of f cs]
  by (fastforce simp: shrinks_def one_of_def at_least_def exactly_def length_dropWhile_le
      split: list.splits if_splits)+

lemma shrinks_chain [simp]: "shrinks f \<Longrightarrow> shrinks g \<Longrightarrow> shrinks (chain f g)"
  by (fastforce simp: shrinks_def chain_def split: option.splits)

lemma consumes_literal [simp]: "consumes (literal f (lit (c # cs)))"
  using literal_shorter[of f "lit (c # cs)"] by (fastforce simp: consumes_def lit_def)

lemma consumes_chain [simp]: "consumes f \<Longrightarrow> shrinks g \<Longrightarrow> consumes (chain f g)"
  by (fastforce simp: shrinks_def consumes_def chain_def split: option.splits)

lemma consumes_either [simp]: "consumes f \<Longrightarrow> consumes g \<Longrightarrow> consumes (either f g)"
  by (fastforce simp: consumes_def either_def split: option.splits)

text \<open>Every rule takes at least one code unit, so the guard of \<open>replace_all\<close> always holds.\<close>

lemma rule_consumes: "rule \<in> set sensitiveRules \<Longrightarrow> consumes rule"
  by (auto simp: sensitiveRules_def bearer_rule_def sk_rule_def gh_rule_def akia_rule_def secret_rule_def)

section \<open>Tokens\<close>

text \<open>
  What a rule takes is a prefix of the text. A piece is \<open>exact\<close> when that prefix matches before
  any other text too with the same end, and \<open>robust\<close> when it still matches; neither takes an
  opening bracket, the first character of the replacement.
\<close>

definition bracket :: code_unit where
  "bracket = 0x5B"

definition exact :: "matcher \<Rightarrow> bool" where
  "exact f \<longleftrightarrow> (\<forall>s t. f s = Some t \<longrightarrow> (\<exists>m. s = m @ t \<and> bracket \<notin> set m \<and> (\<forall>u. f (m @ u) = Some u)))"

definition robust :: "matcher \<Rightarrow> bool" where
  "robust f \<longleftrightarrow> (\<forall>s t. f s = Some t \<longrightarrow> (\<exists>m. s = m @ t \<and> bracket \<notin> set m \<and> (\<forall>u. f (m @ u) \<noteq> None)))"

definition suffixes :: "matcher \<Rightarrow> bool" where
  "suffixes f \<longleftrightarrow> (\<forall>s t. f s = Some t \<longrightarrow> suffix t s)"

lemma exact_robust: "exact f \<Longrightarrow> robust f"
  unfolding exact_def robust_def by (metis option.distinct(1))

lemma robust_chain:
  assumes "exact f" and "robust g"
  shows "robust (chain f g)"
  unfolding robust_def
proof (intro allI impI)
  fix s t assume "chain f g s = Some t"
  then obtain r where r: "f s = Some r" "g r = Some t" by (auto simp: chain_def split: option.splits)
  obtain m where m: "s = m @ r" "bracket \<notin> set m" "\<And>u. f (m @ u) = Some u"
    using assms(1) r(1) unfolding exact_def by blast
  obtain n where n: "r = n @ t" "bracket \<notin> set n" "\<And>u. g (n @ u) \<noteq> None"
    using assms(2) r(2) unfolding robust_def by blast
  have "chain f g ((m @ n) @ u) \<noteq> None" for u using m(3)[of "n @ u"] n(3)[of u] by (simp add: chain_def)
  with m(1,2) n(1,2) show "\<exists>m. s = m @ t \<and> bracket \<notin> set m \<and> (\<forall>u. chain f g (m @ u) \<noteq> None)"
    by (intro exI[of _ "m @ n"]) auto
qed

lemma literal_prefix: "literal f cs s = Some t \<Longrightarrow> \<exists>m. s = m @ t \<and> map f m = cs \<and> (\<forall>u. literal f cs (m @ u) = Some u)"
proof (induction f cs s rule: literal.induct)
  case (3 f c cs u s)
  from "3.prems" have u: "f u = c" and s: "literal f cs s = Some t" by (auto split: if_splits)
  from "3.IH"[OF u s] obtain m where "s = m @ t" "map f m = cs" "\<And>v. literal f cs (m @ v) = Some v" by blast
  with u show ?case by (intro exI[of _ "u # m"]) auto
qed auto

lemma fold_bracket [simp]: "fold_case bracket = bracket" "same_unit bracket = bracket"
  by (simp_all add: fold_case_def same_unit_def bracket_def)

lemma exact_literal [simp]: "f bracket = bracket \<Longrightarrow> bracket \<notin> set cs \<Longrightarrow> exact (literal f cs)"
  unfolding exact_def using literal_prefix[of f cs] by (metis image_eqI list.set_map)

lemma exact_one_of [simp]: "\<not> P bracket \<Longrightarrow> exact (one_of P)"
  unfolding exact_def
proof (intro allI impI)
  fix s t assume "\<not> P bracket" "one_of P s = Some t"
  then obtain v where "s = v # t" "P v" "v \<noteq> bracket" by (auto simp: one_of_def split: list.splits if_splits)
  then show "\<exists>m. s = m @ t \<and> bracket \<notin> set m \<and> (\<forall>u. one_of P (m @ u) = Some u)"
    by (intro exI[of _ "[v]"]) (auto simp: one_of_def)
qed

lemma takeWhile_bracket: "\<not> P bracket \<Longrightarrow> bracket \<notin> set (takeWhile P s)"
  by (auto dest: set_takeWhileD)

lemma exact_exactly [simp]:
  assumes "\<not> P bracket"
  shows "exact (exactly n P)"
  unfolding exact_def
proof (intro allI impI)
  fix s t assume "exactly n P s = Some t"
  then have n: "n \<le> length (takeWhile P s)" and t: "t = drop n s" by (auto simp: exactly_def split: if_splits)
  then have take: "take n s = take n (takeWhile P s)"
    by (metis append_take_drop_id length_takeWhile_le take_append take_all_iff takeWhile_dropWhile_id
        cancel_comm_monoid_add_class.diff_cancel diff_is_0_eq take0 append_Nil2 take_eq_Nil)
  then have P: "\<forall>x\<in>set (take n s). P x" by (metis in_set_takeD set_takeWhileD)
  moreover have "length (take n s) = n" using n length_takeWhile_le[of P s] by simp
  ultimately have "exactly n P (take n s @ u) = Some u" for u by (simp add: exactly_def takeWhile_append2)
  moreover have "bracket \<notin> set (take n s)" using P assms by blast
  ultimately show "\<exists>m. s = m @ t \<and> bracket \<notin> set m \<and> (\<forall>u. exactly n P (m @ u) = Some u)"
    unfolding t by (intro exI[of _ "take n s"]) auto
qed

text \<open>A class without surrogates counts code units.\<close>

definition basic :: "(code_unit \<Rightarrow> bool) \<Rightarrow> bool" where
  "basic P \<longleftrightarrow> (\<forall>u. P u \<longrightarrow> \<not> is_high_surrogate u)"

lemma units_of_basic: "\<forall>u\<in>set s. \<not> is_high_surrogate u \<Longrightarrow> length (code_points s) = length s"
  by (induction s rule: code_points.induct) auto

lemma at_least_basic:
  "basic P \<Longrightarrow> at_least n P s = (if n \<le> length (takeWhile P s) then Some (dropWhile P s) else None)"
  using units_of_basic[of "takeWhile P s"] set_takeWhileD[of _ P s] unfolding at_least_def basic_def by metis

lemma takeWhile_again: "takeWhile P (takeWhile P s @ u) = takeWhile P s @ takeWhile P u"
  "dropWhile P (takeWhile P s @ u) = dropWhile P u"
  by (induction s) auto

lemma robust_at_least [simp]:
  assumes "basic P" and "\<not> P bracket"
  shows "robust (at_least n P)"
  unfolding robust_def
proof (intro allI impI)
  fix s t assume "at_least n P s = Some t"
  then have n: "n \<le> length (takeWhile P s)" and t: "t = dropWhile P s"
    by (auto simp: at_least_basic[OF assms(1)] split: if_splits)
  have "at_least n P (takeWhile P s @ u) \<noteq> None" for u
    using n by (simp add: at_least_basic[OF assms(1)] takeWhile_again)
  then show "\<exists>m. s = m @ t \<and> bracket \<notin> set m \<and> (\<forall>u. at_least n P (m @ u) \<noteq> None)"
    unfolding t using takeWhile_bracket[of P s, OF assms(2)] by (intro exI[of _ "takeWhile P s"]) auto
qed

lemma robust_spaced:
  assumes "basic P" "basic Q" "\<not> P bracket" "\<not> Q bracket" and apart: "\<And>u. Q u \<Longrightarrow> \<not> P u" and "0 < n"
  shows "robust (chain (at_least k P) (at_least n Q))"
  unfolding robust_def
proof (intro allI impI)
  fix s t assume match: "chain (at_least k P) (at_least n Q) s = Some t"
  define r where "r = dropWhile P s"
  from match have k: "k \<le> length (takeWhile P s)" and n: "n \<le> length (takeWhile Q r)" and t: "t = dropWhile Q r"
    by (auto simp: chain_def at_least_basic assms r_def split: if_splits)
  from n assms(6) obtain q qs where q: "takeWhile Q r = q # qs" by (cases "takeWhile Q r") auto
  then have "Q q" by (metis list.set_intros(1) set_takeWhileD)
  with apart have "\<not> P q" by blast
  have P: "takeWhile P (takeWhile P s @ takeWhile Q r @ u) = takeWhile P s"
    "dropWhile P (takeWhile P s @ takeWhile Q r @ u) = takeWhile Q r @ u" for u
    using \<open>\<not> P q\<close> by (simp_all add: q takeWhile_again)
  have "chain (at_least k P) (at_least n Q) ((takeWhile P s @ takeWhile Q r) @ u) \<noteq> None" for u
    using k n by (simp add: chain_def at_least_basic[OF assms(1)] at_least_basic[OF assms(2)] P takeWhile_again[of Q])
  moreover have "s = (takeWhile P s @ takeWhile Q r) @ t" by (simp add: t r_def)
  ultimately show "\<exists>m. s = m @ t \<and> bracket \<notin> set m \<and>
      (\<forall>u. chain (at_least k P) (at_least n Q) (m @ u) \<noteq> None)"
    using takeWhile_bracket assms(3,4) by (metis UnE set_append)
qed

section \<open>Rules of tokens\<close>

text \<open>No position of the text matches.\<close>

definition clean :: "matcher \<Rightarrow> jstring \<Rightarrow> bool" where
  "clean f s \<longleftrightarrow> (\<forall>i. f (drop i s) = None)"

lemma clean_Cons: "clean f (c # s) \<longleftrightarrow> f (c # s) = None \<and> clean f s"
  unfolding clean_def by (metis drop0 drop_Suc_Cons not0_implies_Suc)

lemma clean_suffix: "clean f s \<Longrightarrow> suffix t s \<Longrightarrow> clean f t"
  unfolding clean_def suffix_def by (metis append_eq_conv_conj drop_drop)

lemma replace_all_prefix:
  "replace_all g s = m @ u \<Longrightarrow> bracket \<notin> set m \<Longrightarrow> \<exists>v. s = m @ v"
proof (induction g s arbitrary: m rule: replace_all.induct)
  case (2 g c s)
  have kept: "\<exists>v. c # s = m @ v" if "c # replace_all g s = m @ u"
      and IH: "\<And>n. replace_all g s = n @ u \<Longrightarrow> bracket \<notin> set n \<Longrightarrow> \<exists>v. s = n @ v"
    using that "2.prems"(2) by (cases m) auto
  have new: "m = []" if "redacted @ w = m @ u" for w
    using that "2.prems"(2) by (cases m) (auto simp: redacted_def lit_def bracket_def)
  show ?case
  proof (cases "g (c # s)")
    case None
    then show ?thesis using "2.prems"(1) kept "2.IH"(1)[OF None] by simp
  next
    case (Some r)
    show ?thesis
    proof (cases "length r \<le> length s")
      case True
      then show ?thesis using "2.prems"(1) Some new[of "replace_all g r"] by simp
    next
      case False
      then show ?thesis using "2.prems"(1) Some kept "2.IH"(3)[OF Some False] by simp
    qed
  qed
qed auto

locale token_rule =
  fixes f :: matcher
  assumes robust: "robust f" and consuming: "consumes f"
    and inside: "k < 10 \<Longrightarrow> f (drop k redacted @ u) = None"
begin

lemma none_Nil: "f [] = None"
  using consuming unfolding consumes_def by (metis list.size(3) not_Some_eq not_less_zero)

lemma clean_redacted: "clean f w \<Longrightarrow> clean f (redacted @ w)"
  unfolding clean_def
proof
  fix i assume w: "\<forall>i. f (drop i w) = None"
  have "length redacted = 10" by (simp add: redacted_def lit_def)
  with w inside[of i w] show "f (drop i (redacted @ w)) = None" by (cases "i < 10") auto
qed

text \<open>Before a replaced rest nothing matches that did not match before.\<close>

lemma none_before: "f (c # s) = None \<Longrightarrow> f (c # replace_all g s) = None"
proof (rule ccontr)
  assume none: "f (c # s) = None" and "f (c # replace_all g s) \<noteq> None"
  then obtain t where t: "f (c # replace_all g s) = Some t" by blast
  obtain m where m: "c # replace_all g s = m @ t" "bracket \<notin> set m" "\<And>u. f (m @ u) \<noteq> None"
    using robust t unfolding robust_def by blast
  have "m \<noteq> []" using m(3)[of "[]"] none_Nil by auto
  with m(1) obtain n where n: "m = c # n" "replace_all g s = n @ t" by (cases m) auto
  with m(2) obtain v where "s = n @ v" using replace_all_prefix[of g s n t] by auto
  with n m(3)[of v] none show False by simp
qed

lemma clean_replace:
  assumes "consumes g" and "suffixes g" and "\<And>i. g (drop i s) = None \<Longrightarrow> f (drop i s) = None"
  shows "clean f (replace_all g s)"
  using assms
proof (induction g s rule: replace_all.induct)
  case (1 g)
  then show ?case by (simp add: clean_def none_Nil)
next
  case (2 g c s)
  have later: "g (drop i s) = None \<Longrightarrow> f (drop i s) = None" for i using "2.prems"(3)[of "Suc i"] by simp
  show ?case
  proof (cases "g (c # s)")
    case None
    then show ?thesis using "2.prems"(3)[of 0] "2.IH"(1)[OF None "2.prems"(1,2) later] none_before
      by (simp add: clean_Cons)
  next
    case (Some r)
    have len: "length r \<le> length s" using Some "2.prems"(1) by (fastforce simp: consumes_def)
    have "suffix r (c # s)" using Some "2.prems"(2) by (simp add: suffixes_def)
    then obtain p where "c # s = p @ r" by (auto simp: suffix_def)
    then have r: "r = drop (length p) (c # s)" by simp
    have "g (drop i r) = None \<Longrightarrow> f (drop i r) = None" for i
      using "2.prems"(3)[of "i + length p"] unfolding r by simp
    from "2.IH"(2)[OF Some len "2.prems"(1,2) this] show ?thesis
      using Some len clean_redacted by simp
  qed
qed

lemma clean_after: "suffixes f \<Longrightarrow> clean f (replace_all f s)"
  by (rule clean_replace[OF consuming])

lemma clean_kept: "consumes g \<Longrightarrow> suffixes g \<Longrightarrow> clean f s \<Longrightarrow> clean f (replace_all g s)"
  by (rule clean_replace) (auto simp: clean_def)

end

section \<open>The four kinds of tokens\<close>

lemma suffixes_pieces [simp]:
  "suffixes (literal f cs)" "suffixes (one_of P)" "suffixes (at_least n P)" "suffixes (exactly n P)"
proof -
  show "suffixes (literal f cs)" unfolding suffixes_def suffix_def using literal_prefix by metis
  show "suffixes (one_of P)" by (auto simp: suffixes_def one_of_def suffix_def split: list.splits)
qed (auto simp: suffixes_def at_least_def exactly_def suffix_dropWhile suffix_drop)

lemma suffixes_chain [simp]: "suffixes f \<Longrightarrow> suffixes g \<Longrightarrow> suffixes (chain f g)"
  unfolding suffixes_def chain_def by (auto split: option.splits) (metis suffix_order.trans)

lemma suffixes_either [simp]: "suffixes f \<Longrightarrow> suffixes g \<Longrightarrow> suffixes (either f g)"
  unfolding suffixes_def either_def by (auto split: option.splits)

lemma rule_suffixes: "rule \<in> set sensitiveRules \<Longrightarrow> suffixes rule"
  by (auto simp: sensitiveRules_def bearer_rule_def sk_rule_def gh_rule_def akia_rule_def secret_rule_def)

lemma below_ten: "(k::nat) < 10 \<Longrightarrow> k \<in> {0, 1, 2, 3, 4, 5, 6, 7, 8, 9}"
  by auto

lemmas redacted_simps = redacted_def lit_def chain_def one_of_def fold_case_def same_unit_def

lemma basic_class:
  assumes "\<And>u. P u \<Longrightarrow> u < 0xD800 \<or> 0xDFFF < u"
  shows "basic P"
  unfolding basic_def is_high_surrogate_def
proof (intro allI impI notI)
  fix u assume P: "P u" and u: "0xD800 \<le> u \<and> u \<le> 0xDBFF"
  have "(0xDBFF :: code_unit) \<le> 0xDFFF" by simp
  with u have "u \<le> 0xDFFF" by (meson order.trans)
  with assms[OF P] u show False by (simp add: linorder_not_less[symmetric])
qed

lemma basic_classes [simp]:
  "basic is_space" "basic lower" "basic digit"
proof -
  show "basic is_space" by (rule basic_class) (auto simp: is_space_def)
  show "basic lower"
  proof (rule basic_class)
    fix u assume "lower u"
    moreover have "u \<le> 0x7A" if "u \<le> 0x5A" by (rule order.trans[OF that]) simp
    ultimately have "u \<le> 0x7A \<or> u = 0x212A \<or> u = 0x017F"
      by (auto simp: lower_def fold_case_def split: if_splits)
    moreover have "u < 0xD800" if "u \<le> 0x7A" by (rule order.strict_trans1[OF that]) simp
    ultimately show "u < 0xD800 \<or> 0xDFFF < u" by auto
  qed
  show "basic digit"
  proof (rule basic_class)
    fix u assume "digit u"
    then have "u \<le> 0x39" by (simp add: digit_def)
    then have "u < 0xD800" by (rule order.strict_trans1) simp
    then show "u < 0xD800 \<or> 0xDFFF < u" ..
  qed
qed

lemma basic_or [simp]: "basic P \<Longrightarrow> basic Q \<Longrightarrow> basic (\<lambda>u. P u \<or> Q u)"
  by (auto simp: basic_def)

lemma basic_lit [simp]: "basic (\<lambda>u. u \<in> set (lit s))"
  by (rule basic_class) (auto simp: lit_def of_char_def intro: order.strict_trans1)

lemma no_bracket [simp]: "\<not> is_space bracket" "\<not> lower bracket" "\<not> digit bracket"
  by (simp_all add: is_space_def lower_def digit_def fold_case_def bracket_def)

lemma space_apart: "lower u \<or> digit u \<or> u \<in> set (lit ''._~+/=-'') \<Longrightarrow> \<not> is_space u"
  by (auto simp: is_space_def lower_def digit_def fold_case_def lit_def)

interpretation bearer: token_rule bearer_rule
proof
  have "bracket \<notin> set (lit ''bearer'')" "bracket \<notin> set (lit ''._~+/=-'')" by (simp_all add: bracket_def lit_def)
  then show "robust bearer_rule"
    unfolding bearer_rule_def by (intro robust_chain robust_spaced exact_literal) (auto simp: space_apart)
  show "consumes bearer_rule" by (rule rule_consumes) (simp add: sensitiveRules_def)
  show "bearer_rule (drop k redacted @ u) = None" if "k < 10" for k u
    using below_ten[OF that] by (auto simp: bearer_rule_def redacted_simps)
qed

interpretation sk: token_rule sk_rule
proof
  have "bracket \<notin> set (lit ''sk-'')" "bracket \<notin> set (lit ''_-'')" by (simp_all add: bracket_def lit_def)
  then show "robust sk_rule"
    unfolding sk_rule_def by (intro robust_chain robust_at_least exact_literal) auto
  show "consumes sk_rule" by (rule rule_consumes) (simp add: sensitiveRules_def)
  show "sk_rule (drop k redacted @ u) = None" if "k < 10" for k u
    using below_ten[OF that] by (auto simp: sk_rule_def redacted_simps)
qed

interpretation gh: token_rule gh_rule
proof
  have "bracket \<notin> set (lit ''gh'')" "bracket \<notin> set (lit ''_'')" "fold_case bracket \<notin> set (lit ''pousr'')"
    by (simp_all add: bracket_def lit_def fold_case_def)
  then show "robust gh_rule"
    unfolding gh_rule_def by (intro robust_chain robust_at_least exact_literal exact_one_of) auto
  show "consumes gh_rule" by (rule rule_consumes) (simp add: sensitiveRules_def)
  show "gh_rule (drop k redacted @ u) = None" if "k < 10" for k u
    using below_ten[OF that] by (auto simp: gh_rule_def redacted_simps)
qed

interpretation akia: token_rule akia_rule
proof
  have "bracket \<notin> set (lit ''AKIA'')" "\<not> (digit bracket \<or> 0x41 \<le> bracket \<and> bracket \<le> 0x5A)"
    by (simp_all add: bracket_def lit_def digit_def)
  then show "robust akia_rule"
    unfolding akia_rule_def by (intro robust_chain exact_robust exact_exactly exact_literal) auto
  show "consumes akia_rule" by (rule rule_consumes) (simp add: sensitiveRules_def)
  show "akia_rule (drop k redacted @ u) = None" if "k < 10" for k u
    using below_ten[OF that] by (auto simp: akia_rule_def redacted_simps)
qed

section \<open>Property\<close>

text \<open>
  (C15) A redacted text holds no bearer token, API key, GitHub token or AWS key id at any position:
  the five replacements, which run one after the other and each see the replacements of the
  others, neither leave a token behind nor compose one.
\<close>

theorem redacted_text_holds_no_token:
  "bearer_rule (drop i (redactSensitiveText s)) = None \<and> sk_rule (drop i (redactSensitiveText s)) = None \<and>
   gh_rule (drop i (redactSensitiveText s)) = None \<and> akia_rule (drop i (redactSensitiveText s)) = None"
proof -
  have rules: "consumes r \<and> suffixes r" if "r \<in> set sensitiveRules" for r
    using that rule_consumes rule_suffixes by blast
  note facts = rules[unfolded sensitiveRules_def, simplified]
  let ?s = "redactSensitiveText s"
  have eq: "?s = replace_all secret_rule (replace_all akia_rule (replace_all gh_rule
      (replace_all sk_rule (replace_all bearer_rule s))))"
    by (simp add: redactSensitiveText_def sensitiveRules_def)
  have "clean bearer_rule ?s" "clean sk_rule ?s" "clean gh_rule ?s" "clean akia_rule ?s"
    unfolding eq by (intro bearer.clean_kept bearer.clean_after sk.clean_kept sk.clean_after gh.clean_kept
        gh.clean_after akia.clean_kept akia.clean_after; simp add: facts)+
  then show ?thesis by (simp add: clean_def)
qed

end
