(* ===== verification/Discussion_Evidence.thy ===== *)
theory Discussion_Evidence
  imports Discussion_World Redaction
begin

text \<open>
  The evidence service of a Discussion
  (\<^verbatim>\<open>apps/server/src/discussion/discussion-evidence-service.ts\<close>,
  \<^verbatim>\<open>discussion-evidence-reference.ts\<close>): the anchors a Wave hangs from, the transcript and the
  instruction an Agent receives, the check of claimed evidence. The text of a number, which
  \<^verbatim>\<open>`Confidence: ${...}`\<close> writes, and the Artifact, Result and Memory tables are parameters.
\<close>

section \<open>Sections of bounded length\<close>

definition maximumInstructionCodePoints :: int where
  "maximumInstructionCodePoints = 20000"

definition maximumGoalCodePoints :: int where
  "maximumGoalCodePoints = 8000"

definition maximumProgressCodePoints :: int where
  "maximumProgressCodePoints = 6000"

definition newline :: jstring where
  "newline = [0x000A]"

definition truncationMarker :: jstring where
  "truncationMarker = newline @ lit ''[... truncated to preserve required instruction sections ...]''"

definition codePointLength :: "jstring \<Rightarrow> int" where
  "codePointLength value = int (length (code_points value))"

definition truncateSection :: "jstring \<Rightarrow> int \<Rightarrow> jstring" where
  "truncateSection value maximum =
    (if \<not> exceedsUnicodeCodePointLimit value maximum then value
     else let markerLength = codePointLength truncationMarker in
     if maximum \<le> markerLength then truncateUnicodeCodePoints value maximum
     else truncateUnicodeCodePoints value (maximum - markerLength) @ truncationMarker)"

text \<open>The loop from the last line backwards; the first list is what is left, newest first.\<close>

fun select_lines :: "jstring list \<Rightarrow> int \<Rightarrow> jstring list \<Rightarrow> jstring list" where
  "select_lines [] remaining selected = selected"
| "select_lines (line # older) remaining selected =
     (let separatorLength = (if selected = [] then 0 else 1); lineLength = codePointLength line in
      if lineLength + separatorLength \<le> remaining
      then select_lines older (remaining - (lineLength + separatorLength)) (line # selected)
      else if selected = [] then [truncateUnicodeCodePoints line remaining] else selected)"

definition truncateTranscript :: "jstring list \<Rightarrow> int \<Rightarrow> jstring" where
  "truncateTranscript lines maximum =
    (if maximum \<le> 0 then []
     else let complete = join newline lines in
     if \<not> exceedsUnicodeCodePointLimit complete maximum then complete
     else let marker = dropWhile is_space truncationMarker; markerLength = codePointLength marker in
     if maximum \<le> markerLength then truncateUnicodeCodePoints marker maximum
     else let selected = select_lines (rev lines) (maximum - markerLength - 1) [] in
     if selected = [] then marker else marker @ newline @ join newline selected)"

section \<open>Claimed evidence\<close>

record evidence_scope =
  es_roomId :: jstring
  es_taskId :: "jstring option"

text \<open>The optional sources of \<^verbatim>\<open>DiscussionEvidenceReferenceSources\<close>.\<close>

record reference_sources =
  rf_artifact :: "jstring \<Rightarrow> evidence_scope option"
  rf_result :: "jstring \<Rightarrow> evidence_scope option"
  rf_memory :: "jstring \<Rightarrow> evidence_scope option"

definition resolveReference :: "reference_sources \<Rightarrow> world \<Rightarrow> jstring \<Rightarrow> evidence_scope option" where
  "resolveReference sources w reference =
    (if prefix (lit ''msg_'') reference
     then map_option (\<lambda>m. \<lparr>es_roomId = msg_roomId m, es_taskId = Some (msg_taskId m)\<rparr>) (getMessage reference (wd_team w))
     else if prefix (lit ''run_'') reference
     then map_option (\<lambda>r. \<lparr>es_roomId = run_roomId r, es_taskId = Some (run_taskId r)\<rparr>) (getRun reference (wd_runs w))
     else if prefix (lit ''artifact_'') reference then rf_artifact sources reference
     else if prefix (lit ''result_'') reference then rf_result sources reference
     else if prefix (lit ''memory_'') reference then rf_memory sources reference
     else if prefix (lit ''discussion_'') reference
     then map_option (\<lambda>d. \<lparr>es_roomId = d_roomId d, es_taskId = Some (d_taskId d)\<rparr>) (getDiscussion reference (wd_store w))
     else None)"

definition verifyEvidenceRefs :: "text_lib \<Rightarrow> reference_sources \<Rightarrow> DiscussionRecord \<Rightarrow> jstring list \<Rightarrow> world \<Rightarrow>
    jstring list" where
  "verifyEvidenceRefs L sources discussion references w =
    sort_by (localeCompare L) (filter (\<lambda>reference.
      (case resolveReference sources w reference of None \<Rightarrow> False
       | Some scope \<Rightarrow> es_roomId scope = d_roomId discussion \<and> es_taskId scope = Some (d_taskId discussion)))
      (js_set references))"

section \<open>Messages of a Discussion\<close>

definition waveResultMessageId :: "jstring \<Rightarrow> jstring" where
  "waveResultMessageId waveId = lit ''msg_wave_'' @ drop 5 waveId"

definition found_messages :: "team_room \<Rightarrow> jstring option list \<Rightarrow> MessageRecord list" where
  "found_messages t ids = List.map_filter (\<lambda>i. case truthy i of None \<Rightarrow> None | Some m \<Rightarrow> getMessage m t) ids"

definition latestOutputMessageId :: "DiscussionRecord \<Rightarrow> world \<Rightarrow> jstring" where
  "latestOutputMessageId discussion w =
    (let closed = filter (\<lambda>v. w_state v \<noteq> WS_open) (listWaves (d_discussionId discussion) (wd_store w));
         outputs = sort_by by_sequence (found_messages (wd_team w)
           (map t_outputMessageId (listTurns (d_discussionId discussion) (wd_store w))));
         latest = (if outputs = [] then d_rootMessageId discussion else msg_messageId (last outputs)) in
     if closed = [] then latest
     else let anchorId = waveResultMessageId (w_waveId (last closed)) in
          if getMessage anchorId (wd_team w) \<noteq> None then anchorId else latest)"

text \<open>The fixed Chinese sentences, as code units.\<close>

definition continuation_text :: jstring where
  "continuation_text = [0x7EE7, 0x7EED, 0x8BA8, 0x8BBA, 0xFF1A, 0x4E0A, 0x4E00, 0x8F6E, 0x6CA1, 0x6709,
     0x4EA7, 0x751F, 0x53EF, 0x590D, 0x7528, 0x7684, 0x65B0, 0x8F93, 0x5165, 0xFF0C, 0x5DF2, 0x521B,
     0x5EFA, 0x65B0, 0x7684, 0x6267, 0x884C, 0x951A, 0x70B9, 0x3002]"

definition settled_text :: "int \<Rightarrow> jstring" where
  "settled_text n = [0x7B2C, 0x0020] @ int_text n @ [0x0020, 0x8F6E, 0x5DF2, 0x6536, 0x655B, 0x3002]"

definition stopped_text :: jstring where
  "stopped_text = [0x8BA8, 0x8BBA, 0x5DF2, 0x505C, 0x6B62, 0xFF0C, 0x6700, 0x7EC8, 0x751F, 0x6210, 0x5668,
     0x672A, 0x80FD, 0x5B8C, 0x6210, 0x3002, 0x000A, 0x000A, 0x672A, 0x51B3, 0x95EE, 0x9898, 0xFF1A, 0x000A]"

definition no_questions_text :: jstring where
  "no_questions_text = [0x6682, 0x65E0, 0x8BB0, 0x5F55, 0x7684, 0x672A, 0x51B3, 0x95EE, 0x9898, 0x3002]"

definition system_message :: "DiscussionRecord \<Rightarrow> jstring \<Rightarrow> jstring \<Rightarrow> jstring \<Rightarrow> jstring option \<Rightarrow> timestamp \<Rightarrow>
    AppendMessageInput" where
  "system_message discussion messageId content parentMessageId traceId createdAt =
    \<lparr>m_messageId = messageId, m_roomId = d_roomId discussion, m_senderType = Sender_system,
     m_senderId = d_discussionId discussion, m_content = content, m_mentions = [],
     m_parentMessageId = Some parentMessageId, m_clientMessageId = None, m_createdAt = createdAt,
     m_traceId = traceId, m_taskId = Some (d_taskId discussion)\<rparr>"

definition uniqueWaveAnchor :: "DiscussionRecord \<Rightarrow> DiscussionParticipant list \<Rightarrow> jstring \<Rightarrow> timestamp \<Rightarrow>
    jstring action" where
  "uniqueWaveAnchor discussion participants candidateMessageId at_time =
    andThen (look (\<lambda>w. map run_targetAgentId (findByTrigger candidateMessageId (wd_runs w)))) (\<lambda>existingAgents.
    if \<not> (\<exists>p\<in>set participants. p_agentId p \<in> set existingAgents) then ret candidateMessageId
    else andThen (look (\<lambda>w. getMessage candidateMessageId (wd_team w))) (\<lambda>parent.
    case parent of
      None \<Rightarrow> raise (ErrorText ''Discussion continuation Message not found: '' candidateMessageId)
    | Some m \<Rightarrow>
        andThen (createOpaqueId ''msg'') (\<lambda>messageId.
        andThen (append_message (system_message discussion messageId continuation_text candidateMessageId
          (Some (msg_traceId m)) at_time)) (\<lambda>_. ret messageId))))"

fun turn_state_text :: "turn_state \<Rightarrow> jstring" where
  "turn_state_text TS_planned = lit ''planned''"
| "turn_state_text TS_queued = lit ''queued''"
| "turn_state_text TS_working = lit ''working''"
| "turn_state_text TS_completed = lit ''completed''"
| "turn_state_text TS_failed = lit ''failed''"
| "turn_state_text TS_canceled = lit ''canceled''"

definition agentName :: "team_room \<Rightarrow> jstring \<Rightarrow> jstring" where
  "agentName t agentId = (case getAgent agentId t of None \<Rightarrow> agentId | Some a \<Rightarrow> a_name a)"

definition member_ordinal :: "DiscussionTurn \<Rightarrow> int" where
  "member_ordinal t = (case t_waveMemberOrdinal t of None \<Rightarrow> 0 | Some n \<Rightarrow> n)"

definition wave_result_text :: "team_room \<Rightarrow> DiscussionWave \<Rightarrow> DiscussionTurn list \<Rightarrow> jstring" where
  "wave_result_text t wave turns = join newline (settled_text (w_ordinal wave) #
     map (\<lambda>x. lit ''- '' @ agentName t (t_speakerAgentId x) @ lit '': '' @ turn_state_text (t_state x))
       (sort_by (\<lambda>a b. member_ordinal a - member_ordinal b) turns))"

definition ensureWaveResultAnchor :: "DiscussionRecord \<Rightarrow> DiscussionWave \<Rightarrow> DiscussionTurn list \<Rightarrow> timestamp \<Rightarrow>
    jstring action" where
  "ensureWaveResultAnchor discussion wave turns at_time =
    (let messageId = waveResultMessageId (w_waveId wave) in
     andThen (look (\<lambda>w. getMessage messageId (wd_team w))) (\<lambda>present.
     if present \<noteq> None then ret messageId
     else andThen (look (\<lambda>w. getMessage (w_inputMessageId wave) (wd_team w))) (\<lambda>parent.
     andThen (look (\<lambda>w. wave_result_text (wd_team w) wave turns)) (\<lambda>content.
     andThen (append_message (system_message discussion messageId content (w_inputMessageId wave)
       (map_option msg_traceId parent) at_time)) (\<lambda>_. ret messageId)))))"

fun importance_text :: "importance \<Rightarrow> jstring" where
  "importance_text Imp_low = lit ''low''"
| "importance_text Imp_medium = lit ''medium''"
| "importance_text Imp_high = lit ''high''"

definition question_lines :: "OpenQuestion list \<Rightarrow> jstring" where
  "question_lines questions = join newline (map (\<lambda>q. lit ''- ['' @ importance_text (oq_importance q) @ lit ''] '' @
     oq_question q) questions)"

definition appendFallbackConclusion :: "DiscussionRecord \<Rightarrow> jstring \<Rightarrow> unit action" where
  "appendFallbackConclusion discussion parentMessageId =
    (let messageId = lit ''msg_fallback_'' @ drop 11 (d_discussionId discussion);
         questions = pg_openQuestions (d_progress discussion);
         unresolved = (if questions = [] then no_questions_text else question_lines questions) in
     andThen (look (\<lambda>w. getMessage messageId (wd_team w))) (\<lambda>present.
     if present \<noteq> None then ret ()
     else andThen (look (\<lambda>w. getMessage parentMessageId (wd_team w))) (\<lambda>parent.
     andThen now (\<lambda>createdAt.
     andThen (append_message (system_message discussion messageId (stopped_text @ unresolved) parentMessageId
       (map_option msg_traceId parent) createdAt)) (\<lambda>_. ret ())))))"

section \<open>The transcript\<close>

definition accepted_turn :: "(jstring \<times> jstring list) list \<Rightarrow> DiscussionTurn \<Rightarrow> bool" where
  "accepted_turn seals t = (case t_waveId t of None \<Rightarrow> False
     | Some i \<Rightarrow> (case map_of seals i of None \<Rightarrow> True | Some turnIds \<Rightarrow> t_turnId t \<in> set turnIds))"

definition acceptedPriorTurnMessages :: "text_lib \<Rightarrow> DiscussionRecord \<Rightarrow> DiscussionWave \<Rightarrow> world \<Rightarrow>
    MessageRecord list throwing" where
  "acceptedPriorTurnMessages L discussion currentWave w =
    (let waves = map (\<lambda>v. (w_waveId v, w_ordinal v)) (listWaves (d_discussionId discussion) (wd_store w)) in
     bind (listWaveSeals L (d_discussionId discussion) (wd_store w)) (\<lambda>seals.
     let sealedAcceptedTurns = map (\<lambda>s. (sl_waveId s, map sm_turnId (sl_acceptedMembers s))) seals;
         prior = filter (\<lambda>t. (case truthy (t_waveId t) of None \<Rightarrow> False
           | Some i \<Rightarrow> (case map_of waves i of None \<Rightarrow> False
             | Some n \<Rightarrow> n < w_ordinal currentWave)) \<and> accepted_turn sealedAcceptedTurns t)
           (listTurns (d_discussionId discussion) (wd_store w)) in
     Inr (found_messages (wd_team w) (map t_outputMessageId prior))))"

definition recentAcceptedReplies :: "text_lib \<Rightarrow> DiscussionRecord \<Rightarrow> DiscussionWave \<Rightarrow> world \<Rightarrow>
    jstring list throwing" where
  "recentAcceptedReplies L discussion currentWave w =
    bind (acceptedPriorTurnMessages L discussion currentWave w) (\<lambda>ms. Inr (map msg_content (last_n 10 ms)))"

definition discussionTranscript :: "text_lib \<Rightarrow> DiscussionRecord \<Rightarrow> DiscussionWave \<Rightarrow> MessageRecord option \<Rightarrow> world \<Rightarrow>
    MessageRecord list throwing" where
  "discussionTranscript L discussion currentWave trigger w =
    bind (acceptedPriorTurnMessages L discussion currentWave w) (\<lambda>prior.
    let messages = (case getMessage (d_rootMessageId discussion) (wd_team w) of None \<Rightarrow> [] | Some m \<Rightarrow> [m]) @ prior;
        all_messages = (case trigger of None \<Rightarrow> messages
          | Some t \<Rightarrow> if msg_messageId t \<noteq> d_rootMessageId discussion \<and>
              msg_messageId t \<notin> set (map msg_messageId messages) then messages @ [t] else messages) in
    Inr (last_n 24 all_messages))"

definition senderName :: "team_room \<Rightarrow> MessageRecord \<Rightarrow> jstring" where
  "senderName t message = (case msg_senderType message of
       Sender_agent \<Rightarrow> agentName t (msg_senderId message)
     | Sender_member \<Rightarrow> (case find (\<lambda>m. mb_memberId m = msg_senderId message) (tr_members t) of
         None \<Rightarrow> msg_senderId message | Some m \<Rightarrow> mb_displayName m)
     | Sender_system \<Rightarrow> lit ''System'')"

section \<open>The instruction of a Turn\<close>

fun output_mode_text :: "DiscussionOutputMode \<Rightarrow> jstring" where
  "output_mode_text OM_none = lit ''none''"
| "output_mode_text OM_summary = lit ''summary''"
| "output_mode_text OM_final_answer = lit ''final_answer''"
| "output_mode_text OM_artifact = lit ''artifact''"
| "output_mode_text OM_decision_record = lit ''decision_record''"
| "output_mode_text OM_unresolved_issues = lit ''unresolved_issues''"

fun mode_text :: "DiscussionMode \<Rightarrow> jstring" where
  "mode_text Mode_round_robin = lit ''round_robin''"
| "mode_text Mode_review = lit ''review''"

fun disagreement_text :: "disagreement option \<Rightarrow> jstring" where
  "disagreement_text None = lit ''unknown''"
| "disagreement_text (Some Dis_none) = lit ''none''"
| "disagreement_text (Some Dis_low) = lit ''low''"
| "disagreement_text (Some Dis_medium) = lit ''medium''"
| "disagreement_text (Some Dis_high) = lit ''high''"

definition plan_proposal_instruction :: "DiscussionRecord \<Rightarrow> DiscussionParticipant list \<Rightarrow> jstring" where
  \<open>plan_proposal_instruction discussion participants = join newline [
     lit ''For a structured execution-plan draft, append exactly one final line:'',
     lit ''<convenewire-plan-proposal>{"schemaVersion":"1.0",...}</convenewire-plan-proposal>'',
     lit ''The JSON must contain only title, decision summary/items/unresolvedQuestions, '' @
       lit ''nodes, edges, externalInputs and policy. Do not set the root Task, sources, '' @
       lit ''revisions, author, operation, approval or execution state.'',
     lit ''The Server-owned root Task is '' @ d_taskId discussion @ lit ''; available Agent IDs: '' @
       join (lit '', '') (map p_agentId participants) @ lit ''.'',
     lit ''If you cannot produce a complete closed-schema draft, omit the envelope; prose is preserved.'']\<close>

definition task_instruction :: "DiscussionRecord \<Rightarrow> DiscussionParticipant list \<Rightarrow> DiscussionTurn \<Rightarrow> jstring" where
  "task_instruction discussion participants turn =
    (if t_kind turn = Kind_finalization
     then lit ''Produce the final '' @ map (\<lambda>u. if u = 0x5F then 0x20 else u) (output_mode_text (d_outputMode discussion)) @
       lit '' now. Synthesize the best supported conclusion, important unresolved issues, and next actions.'' @
       (if d_outputMode discussion = OM_decision_record
        then newline @ plan_proposal_instruction discussion participants else [])
     else lit ''Make an independent, useful contribution for this Wave. Resolve a question, add evidence, '' @
       lit ''or challenge the current conclusion; do not merely repeat agreement.'')"

definition progress_section :: "(rat \<Rightarrow> jstring) \<Rightarrow> ProgressSnapshot \<Rightarrow> jstring" where
  "progress_section numberText progress = truncateSection (join newline [
     lit ''Confidence: '' @ (case pg_confidence progress of None \<Rightarrow> lit ''unknown'' | Some c \<Rightarrow> numberText c),
     lit ''Disagreement: '' @ disagreement_text (pg_disagreementRemaining progress),
     lit ''Plateau count: '' @ int_text (pg_plateauCount progress),
     lit ''Verified evidence references: '' @ (if pg_verifiedEvidenceRefs progress = [] then lit ''None''
       else join (lit '', '') (pg_verifiedEvidenceRefs progress)),
     lit ''Important unresolved questions:'',
     if pg_openQuestions progress = [] then lit ''None recorded'' else question_lines (pg_openQuestions progress)])
     maximumProgressCodePoints"

definition assessment_example :: jstring where
  \<open>assessment_example = lit ''<agentroom-assessment>{"goalSatisfied":false,'' @
     lit ''"confidence":0.75,"resolvedQuestionIds":["q1"],'' @
     lit ''"openQuestions":[{"id":"q2","question":"What remains?",'' @
     lit ''"importance":"high"}],"newEvidenceRefs":["msg_example1"],'' @
     lit ''"disagreementRemaining":"medium","newInformationAdded":true,'' @
     lit ''"reviewerApproved":false,"recommendation":"continue"}'' @ lit ''</agentroom-assessment>''\<close>

text \<open>The role of the speaker, \<^verbatim>\<open>"participant"\<close> when it is not among the participants.\<close>

definition speaker_role :: "DiscussionParticipant list \<Rightarrow> DiscussionTurn \<Rightarrow> participant_role" where
  "speaker_role participants turn = (case find (\<lambda>p. p_agentId p = t_speakerAgentId turn) participants of
     None \<Rightarrow> Role_participant | Some p \<Rightarrow> p_role p)"

definition instruction_leading :: "(rat \<Rightarrow> jstring) \<Rightarrow> DiscussionRecord \<Rightarrow> DiscussionWave \<Rightarrow> DiscussionTurn \<Rightarrow>
    world \<Rightarrow> jstring" where
  "instruction_leading numberText discussion wave turn w =
    (let participants = listParticipants (d_discussionId discussion) (wd_store w);
         remainingLease = max 0 (leaseEndTurn (d_budget discussion) - turnsUsed (d_budget discussion)) in
     join newline [
       lit ''# ConveneWire Discussion Context'',
       lit ''Discussion ID: '' @ d_discussionId discussion,
       lit ''Task ID: '' @ d_taskId discussion,
       lit ''Wave: '' @ int_text (w_ordinal wave),
       lit ''Wave member: '' @ int_text (member_ordinal turn + 1) @ lit ''/'' @ int_text (w_expectedMembers wave),
       lit ''Mode: '' @ mode_text (d_mode discussion),
       lit ''Current Agent: '' @ agentName (wd_team w) (t_speakerAgentId turn) @ lit '' ('' @
         role_text (speaker_role participants turn) @ lit '')'',
       lit ''Participants: '' @ join (lit '', '') (map (\<lambda>p. agentName (wd_team w) (p_agentId p) @ lit '' ('' @
         role_text (p_role p) @ lit '')'') participants),
       [],
       lit ''## Goal'',
       truncateSection (d_goal discussion) maximumGoalCodePoints,
       [],
       lit ''## Progress'',
       progress_section numberText (d_progress discussion),
       [],
       lit ''## Remaining Lease'',
       int_text remainingLease @ lit '' ordinary waves.'',
       [],
       lit ''## Recent Room Transcript''])"

definition instruction_trailing :: "DiscussionRecord \<Rightarrow> DiscussionTurn \<Rightarrow> world \<Rightarrow> jstring" where
  "instruction_trailing discussion turn w =
    (let participants = listParticipants (d_discussionId discussion) (wd_store w) in
     join newline ([
       lit ''## Your Task'',
       task_instruction discussion participants turn,
       lit ''Other participants in this Wave run concurrently and cannot see this reply until the next Wave.'',
       lit ''The Orchestrator, not you, decides whether the Discussion continues. '' @
         lit ''A plain-text reply is always valid when structured assessment is unsupported.'',
       lit ''When supported, append exactly one final line in this complete optional-field form:'',
       assessment_example,
       lit ''Only report fields you can justify. Do not invent question IDs or evidence references.''] @
      (if speaker_role participants turn = Role_reviewer
       then [lit ''As the designated Reviewer, always report reviewerApproved as true or false.''] else []) @
      [lit ''The assessment is evidence only; it does not control the next action.'']))"

definition transcript_line :: "team_room \<Rightarrow> MessageRecord \<Rightarrow> jstring" where
  "transcript_line t message = lit ''['' @ msg_messageId message @ lit '' | '' @ senderName t message @ lit ''] '' @
     redactSensitiveText (msg_content message)"

definition assemble_instruction :: "jstring \<Rightarrow> jstring list \<Rightarrow> jstring \<Rightarrow> jstring throwing" where
  "assemble_instruction leading transcriptLines trailing =
    (let framingCodePoints = codePointLength leading + codePointLength trailing + 3 in
     bind (ensure (\<not> (framingCodePoints > maximumInstructionCodePoints))
       (Error ''Required Discussion instruction exceeds its character boundary'')) (\<lambda>_.
     let transcriptBudget = maximumInstructionCodePoints - framingCodePoints;
         transcript = truncateTranscript transcriptLines transcriptBudget;
         transcriptText = (if transcript = [] then lit ''None available.'' else transcript);
         instruction = leading @ newline @ transcriptText @ newline @ newline @ trailing in
     bind (ensure (\<not> exceedsUnicodeCodePointLimit instruction maximumInstructionCodePoints)
       (Error ''Discussion instruction exceeds its character boundary'')) (\<lambda>_.
     Inr instruction)))"

definition buildInstruction :: "text_lib \<Rightarrow> (rat \<Rightarrow> jstring) \<Rightarrow> DiscussionRecord \<Rightarrow> DiscussionWave \<Rightarrow>
    DiscussionTurn \<Rightarrow> world \<Rightarrow> jstring throwing" where
  "buildInstruction L numberText discussion wave turn w =
    bind (discussionTranscript L discussion wave (getMessage (t_inputMessageId turn) (wd_team w)) w) (\<lambda>messages.
    assemble_instruction (instruction_leading numberText discussion wave turn w)
      (map (transcript_line (wd_team w)) messages) (instruction_trailing discussion turn w))"

section \<open>Lengths\<close>

lemma code_points_Cons:
  "length (code_points b) \<le> length (code_points (u # b)) \<and>
   length (code_points (u # b)) \<le> Suc (length (code_points b))"
proof (induction b arbitrary: u)
  case (Cons x r)
  from Cons.IH[of x] show ?case by auto
qed simp

lemma code_points_append: "length (code_points (a @ b)) \<le> length (code_points a) + length (code_points b)"
proof (induction a rule: code_points.induct)
  case (2 u)
  from code_points_Cons[of b u] show ?case by simp
next
  case (3 u v r)
  then show ?case by (auto split: if_splits)
qed simp

lemma codePointLength_append: "codePointLength (a @ b) \<le> codePointLength a + codePointLength b"
  using code_points_append[of a b] by (simp add: codePointLength_def)

lemma codePointLength_Nil [simp]: "codePointLength [] = 0"
  by (simp add: codePointLength_def)

lemma codePointLength_newline [simp]: "codePointLength newline = 1"
  by (simp add: codePointLength_def newline_def)

lemma codePointLength_nonneg [simp]: "0 \<le> codePointLength s"
  by (simp add: codePointLength_def)

lemma exceeds_codePointLength:
  "0 \<le> m \<Longrightarrow> exceedsUnicodeCodePointLimit s m \<longleftrightarrow> codePointLength s > m"
  by (auto simp: exceeds_iff codePointLength_def)

lemma codePointLength_truncate: "0 \<le> m \<Longrightarrow> codePointLength (truncateUnicodeCodePoints s m) \<le> m"
  by (simp add: codePointLength_def truncate_eq code_points_concat_take)

lemma truncateSection_bound: "0 \<le> m \<Longrightarrow> codePointLength (truncateSection s m) \<le> m"
  using codePointLength_truncate[of m s] codePointLength_truncate[of "m - codePointLength truncationMarker" s]
    codePointLength_append[of "truncateUnicodeCodePoints s (m - codePointLength truncationMarker)" truncationMarker]
  by (auto simp: truncateSection_def Let_def exceeds_codePointLength)

lemma join_step: "join sep (x # xs) = (if xs = [] then x else x @ sep @ join sep xs)"
  by (cases xs) auto

lemma join_newline_Cons:
  "codePointLength (join newline (x # xs)) \<le>
   codePointLength x + (if xs = [] then 0 else 1) + codePointLength (join newline xs)"
  using codePointLength_append[of x "newline @ join newline xs"] codePointLength_append[of newline "join newline xs"]
  by (auto simp: join_step)

lemma select_lines_bound:
  "0 \<le> remaining \<Longrightarrow> codePointLength (join newline (select_lines ls remaining selected)) \<le>
     codePointLength (join newline selected) + remaining"
proof (induction ls remaining selected rule: select_lines.induct)
  case (2 line older remaining selected)
  let ?n = "codePointLength line + (if selected = [] then 0 else 1)"
  show ?case
  proof (cases "?n \<le> remaining")
    case True
    have "codePointLength (join newline (select_lines older (remaining - ?n) (line # selected)))
        \<le> codePointLength (join newline (line # selected)) + (remaining - ?n)"
      using 2(1)[OF refl refl] True by simp
    with True join_newline_Cons[of line selected] show ?thesis by (simp add: Let_def split: if_splits)
  next
    case False
    with 2(2) codePointLength_truncate[of remaining line] show ?thesis by (auto simp: Let_def split: if_splits)
  qed
qed simp

lemma truncateTranscript_bound: "0 \<le> m \<Longrightarrow> codePointLength (truncateTranscript ls m) \<le> m"
proof -
  assume m: "0 \<le> m"
  define marker where "marker = dropWhile is_space truncationMarker"
  define selected where "selected = select_lines (rev ls) (m - codePointLength marker - 1) []"
  have "codePointLength (join newline selected) \<le> m - codePointLength marker - 1" if "codePointLength marker < m"
    unfolding selected_def using select_lines_bound[of "m - codePointLength marker - 1" "rev ls" "[]"] that by simp
  moreover have "codePointLength (marker @ newline @ join newline selected)
      \<le> codePointLength marker + 1 + codePointLength (join newline selected)"
    using codePointLength_append[of marker "newline @ join newline selected"]
      codePointLength_append[of newline "join newline selected"] by simp
  ultimately show ?thesis
    using m codePointLength_truncate[of m marker]
    unfolding truncateTranscript_def Let_def marker_def[symmetric] selected_def[symmetric]
    by (auto simp: exceeds_codePointLength)
qed

text \<open>The instruction that is assembled, when one is.\<close>

lemma assemble_instruction_Inr:
  assumes "assemble_instruction leading ls trailing = Inr text"
  shows "codePointLength text \<le> maximumInstructionCodePoints \<and>
    (\<exists>transcript. text = leading @ newline @ transcript @ newline @ newline @ trailing)"
  using assms by (auto simp: assemble_instruction_def Let_def bind_ensure_eq_Inr exceeds_codePointLength
      maximumInstructionCodePoints_def)

lemma assemble_instruction_fits:
  assumes "codePointLength leading + codePointLength trailing + 18 \<le> maximumInstructionCodePoints"
  shows "\<exists>text. assemble_instruction leading ls trailing = Inr text"
proof -
  let ?budget = "maximumInstructionCodePoints - (codePointLength leading + codePointLength trailing + 3)"
  let ?t = "if truncateTranscript ls ?budget = [] then lit ''None available.'' else truncateTranscript ls ?budget"
  have "codePointLength (lit ''None available.'') = 15"
    by (simp add: codePointLength_def lit_def is_high_surrogate_def)
  then have "codePointLength ?t \<le> ?budget"
    using truncateTranscript_bound[of ?budget ls] assms by auto
  moreover have "codePointLength (leading @ newline @ ?t @ newline @ newline @ trailing)
      \<le> codePointLength leading + 1 + codePointLength ?t + 1 + 1 + codePointLength trailing"
    using codePointLength_append[of leading "newline @ ?t @ newline @ newline @ trailing"]
      codePointLength_append[of newline "?t @ newline @ newline @ trailing"]
      codePointLength_append[of ?t "newline @ newline @ trailing"]
      codePointLength_append[of newline "newline @ trailing"] codePointLength_append[of newline trailing]
    unfolding codePointLength_newline by linarith
  ultimately have "\<not> exceedsUnicodeCodePointLimit (leading @ newline @ ?t @ newline @ newline @ trailing)
      maximumInstructionCodePoints"
    by (simp add: exceeds_codePointLength maximumInstructionCodePoints_def)
  then show ?thesis using assms by (simp add: assemble_instruction_def Let_def ensure_def)
qed

end
