(* ===== verification/Discussion_Settlement.thy ===== *)
theory Discussion_Settlement
  imports Discussion_Evidence
begin

text \<open>
  How a terminal Run settles its Turn
  (\<^verbatim>\<open>apps/server/src/discussion/wave-settlement-service.ts\<close>), what recovery does to the Waves of
  canceled Discussions and to overdue Waves (\<^verbatim>\<open>discussion-recovery-service.ts\<close>), and the usage
  a Discussion reports (\<^verbatim>\<open>discussion-usage.ts\<close>).
\<close>

section \<open>Settlement\<close>

record WaveSettlement =
  ws_discussionId :: jstring
  ws_wave :: "DiscussionWave option"
  ws_turns :: "DiscussionTurn list"
  ws_ready :: bool

definition is_input_required :: "RuntimeEvent \<Rightarrow> bool" where
  "is_input_required e = (case e of StatusEvent _ status _ _ _ \<Rightarrow> status = RS_input_required | _ \<Rightarrow> False)"

definition terminalReason :: "RunRecord \<Rightarrow> bool \<Rightarrow> run_store \<Rightarrow> jstring" where
  "terminalReason run hasOutput s =
    (if \<exists>e\<in>set (listEvents (run_runId run) 0 s). is_input_required (rv_event e) then lit ''input_required''
     else if run_state run = RS_completed \<and> \<not> hasOutput then lit ''completed_without_reply''
     else take 160 (lit ''run_'' @ run_state_text (run_state run)))"

definition reply_assessment :: "RuntimeEvent \<Rightarrow> json option" where
  "reply_assessment e = (case e of ReplyEvent _ _ assessment \<Rightarrow> assessment | _ \<Rightarrow> None)"

definition last_reply_assessment :: "jstring \<Rightarrow> run_store \<Rightarrow> json option" where
  "last_reply_assessment runId s =
    (let replies = filter (\<lambda>e. is_reply (rv_event e)) (listEvents runId 0 s) in
     if replies = [] then None else reply_assessment (rv_event (last replies)))"

definition turn_settlement :: "text_lib \<Rightarrow> RunRecord \<Rightarrow> DiscussionTurn \<Rightarrow> timestamp \<Rightarrow> world \<Rightarrow> settle_turn_input" where
  "turn_settlement L run turn at_time w =
    (let output = findAgentReply (t_inputMessageId turn) (t_speakerAgentId turn) (wd_team w);
         successful = (if run_state run = RS_completed then output else None) in
     \<lparr>si_turnId = t_turnId turn,
      si_outputMessageId = map_option msg_messageId successful,
      si_state = (if successful \<noteq> None then TS_completed
        else if run_state run = RS_canceled then TS_canceled else TS_failed),
      si_assessment = (if successful \<noteq> None
        then parseAgentAssessment (last_reply_assessment (run_runId run) (wd_runs w)) else None),
      si_replyHash = map_option (\<lambda>m. hashDiscussionReply L (msg_content m)) successful,
      si_terminalReason = (if successful \<noteq> None then None
        else Some (terminalReason run (output \<noteq> None) (wd_runs w))),
      si_now = at_time\<rparr>)"

definition settle :: "text_lib \<Rightarrow> jstring \<Rightarrow> timestamp \<Rightarrow> WaveSettlement option action" where
  "settle L runId at_time =
    andThen (look (\<lambda>w. (getRun runId (wd_runs w), findTurnByRun runId (wd_store w)))) (\<lambda>found.
    case found of
      (Some run, Some turn) \<Rightarrow>
        if \<not> terminalRunState (run_state run) then ret None
        else (case truthy (t_waveId turn) of
          None \<Rightarrow> raise (ErrorText ''Discussion Turn has no Wave: '' (t_turnId turn))
        | Some waveId \<Rightarrow>
            andThen (look (turn_settlement L run turn at_time)) (\<lambda>input.
            andThen (on_store (settleTurn input)) (\<lambda>_.
            look (\<lambda>w. let wave = getWave waveId (wd_store w); turns = listTurnsForWave waveId (wd_store w) in
              Some \<lparr>ws_discussionId = t_discussionId turn, ws_wave = wave, ws_turns = turns,
                ws_ready = (case wave of None \<Rightarrow> False | Some v \<Rightarrow> w_state v = WS_open) \<and>
                  list_all (\<lambda>t. terminalTurnState (t_state t)) turns\<rparr>))))
    | _ \<Rightarrow> ret None)"

section \<open>Recovery\<close>

definition unavailable_turn :: "jstring \<Rightarrow> turn_state \<Rightarrow> string \<Rightarrow> timestamp \<Rightarrow> settle_turn_input" where
  "unavailable_turn turnId state reason at_time =
    \<lparr>si_turnId = turnId, si_outputMessageId = None, si_state = state, si_assessment = None,
     si_replyHash = None, si_terminalReason = Some (lit reason), si_now = at_time\<rparr>"

definition runtime_error :: "string \<Rightarrow> string \<Rightarrow> RuntimeError" where
  "runtime_error code message =
    \<lparr>re_code = lit code, re_message = lit message, re_retryable = False, re_details = None\<rparr>"

text \<open>The server ends a Run that has not ended yet, with the next sequence number.\<close>

definition end_run :: "RunRecord \<Rightarrow> RunState \<Rightarrow> RuntimeError \<Rightarrow> timestamp \<Rightarrow> RunRecord action" where
  "end_run run status err at_time =
    andThen (on_runs (applyStatus (run_runId run) status (Some err) (run_lastSequence run + 1) at_time))
      (\<lambda>(applied, r). ret r)"

definition cancel_error :: "bool \<Rightarrow> RuntimeError" where
  "cancel_error neverAccepted =
    (if neverAccepted
     then runtime_error ''DISCUSSION_CANCELED'' ''The Discussion was canceled before this Run was accepted.''
     else runtime_error ''DISCUSSION_CANCEL_RECOVERY_UNKNOWN''
       ''The server restarted before cancellation reached a known Runtime outcome.'')"

definition cancelMember :: "timestamp \<Rightarrow> (jstring \<Rightarrow> unit action) \<Rightarrow> DiscussionTurn \<Rightarrow> unit action" where
  "cancelMember at_time onRunTerminal turn =
    (if terminalTurnState (t_state turn) then ret ()
     else case truthy (t_runId turn) of
       None \<Rightarrow> andThen (on_store (settleTurn (unavailable_turn (t_turnId turn) TS_canceled
           ''discussion_canceled_before_dispatch'' at_time))) (\<lambda>_. ret ())
     | Some runId \<Rightarrow>
         andThen (look (\<lambda>w. getRun runId (wd_runs w))) (\<lambda>found.
         case found of
           None \<Rightarrow> ret ()
         | Some run \<Rightarrow>
             andThen (if terminalRunState (run_state run) then ret run
               else let neverAccepted = (run_state run = RS_queued) in
                 end_run run (if neverAccepted then RS_canceled else RS_outcome_unknown)
                   (cancel_error neverAccepted) at_time) (\<lambda>run.
             onRunTerminal (run_runId run))))"

definition closeCanceledWave :: "timestamp \<Rightarrow> (jstring \<Rightarrow> unit action) \<Rightarrow> DiscussionWave \<Rightarrow> unit action" where
  "closeCanceledWave at_time onRunTerminal wave =
    andThen (look (\<lambda>w. getDiscussion (w_discussionId wave) (wd_store w))) (\<lambda>discussion.
    if (case discussion of None \<Rightarrow> True | Some d \<Rightarrow> d_state d \<noteq> DS_canceled) then ret ()
    else andThen (look (\<lambda>w. listTurnsForWave (w_waveId wave) (wd_store w))) (\<lambda>turns.
    andThen (perform_each (cancelMember at_time onRunTerminal) turns) (\<lambda>_.
    andThen (look (\<lambda>w. (getWave (w_waveId wave) (wd_store w), listTurnsForWave (w_waveId wave) (wd_store w)))) (\<lambda>current.
    case current of
      (Some currentWave, wave_turns) \<Rightarrow>
        if w_state currentWave = WS_open \<and> list_all (\<lambda>t. terminalTurnState (t_state t)) wave_turns
        then andThen (on_store (closeWave (w_waveId wave) (w_version currentWave)
          (waveCloseState (map t_state wave_turns)) at_time)) (\<lambda>_. ret ())
        else ret ()
    | _ \<Rightarrow> ret ()))))"

definition closeCanceledWaves :: "(jstring \<Rightarrow> unit action) \<Rightarrow> unit action" where
  "closeCanceledWaves onRunTerminal =
    andThen now (\<lambda>at_time.
    andThen (look (\<lambda>w. listOpenWaves (wd_store w))) (\<lambda>waves.
    perform_each (closeCanceledWave at_time onRunTerminal) waves))"

text \<open>A \<^verbatim>\<open>Map\<close> of Runs by id, in insertion order.\<close>

definition add_runs :: "RunRecord list \<Rightarrow> (jstring \<times> RunRecord) list \<Rightarrow> (jstring \<times> RunRecord) list" where
  "add_runs rs scheduled = fold (\<lambda>r. AList.update (run_runId r) r) rs scheduled"

definition deadline_error :: "bool \<Rightarrow> RuntimeError" where
  "deadline_error accepted_run =
    (if accepted_run
     then runtime_error ''DISCUSSION_WAVE_DEADLINE_UNKNOWN''
       ''The Discussion Wave deadline passed before a terminal Runtime outcome.''
     else runtime_error ''RUN_EXPIRED'' ''The Run expired before its Discussion Wave deadline.'')"

definition expireMember :: "timestamp \<Rightarrow> (DiscussionTurn \<Rightarrow> RunRecord option action) \<Rightarrow>
    (jstring \<Rightarrow> RunRecord list action) \<Rightarrow> DiscussionTurn \<Rightarrow> RunRecord list action" where
  "expireMember at_time ensureRun onRunTerminal turn =
    andThen (case truthy (t_runId turn) of
        Some runId \<Rightarrow> look (\<lambda>w. getRun runId (wd_runs w))
      | None \<Rightarrow> ensureRun turn) (\<lambda>found.
    case found of
      None \<Rightarrow> ret []
    | Some run \<Rightarrow>
        andThen (if terminalRunState (run_state run) then ret run
          else let accepted_run = (run_state run \<noteq> RS_queued) in
            end_run run (if accepted_run then RS_outcome_unknown else RS_expired)
              (deadline_error accepted_run) at_time) (\<lambda>run.
        andThen (onRunTerminal (run_runId run)) (\<lambda>scheduled.
        ret (filter (\<lambda>r. run_state r = RS_queued) scheduled))))"

definition expireDueWaves :: "(DiscussionTurn \<Rightarrow> RunRecord option action) \<Rightarrow> (jstring \<Rightarrow> RunRecord list action) \<Rightarrow>
    RunRecord list action" where
  "expireDueWaves ensureRun onRunTerminal =
    andThen now (\<lambda>at_time.
    andThen (look (\<lambda>w. filter (\<lambda>v. w_deadlineAt v \<le> at_time) (listOpenWaves (wd_store w)))) (\<lambda>dueWaves.
    andThen (collect_each (\<lambda>wave.
      andThen (look (\<lambda>w. listTurnsForWave (w_waveId wave) (wd_store w))) (\<lambda>turns.
      collect_each (expireMember at_time ensureRun onRunTerminal) turns)) dueWaves) (\<lambda>scheduled.
    ret (map snd (add_runs (concat (concat scheduled)) [])))))"

section \<open>Observed usage\<close>

record DiscussionObservedUsage =
  us_observedAt :: timestamp
  us_createdRuns :: int
  us_runsByState :: "RunState \<Rightarrow> int"
  us_unboundMemberSlots :: int
  us_unavailableRunRecords :: int
  us_wallDurationSeconds :: "int option"

definition run_of_turn :: "DiscussionRecord \<Rightarrow> DiscussionTurn \<Rightarrow> jstring \<Rightarrow> RunRecord option \<Rightarrow> bool" where
  "run_of_turn discussion turn runId found = (case found of None \<Rightarrow> False
     | Some run \<Rightarrow> \<not> (run_runId run \<noteq> runId \<or> run_roomId run \<noteq> d_roomId discussion \<or>
         run_taskId run \<noteq> d_taskId discussion \<or> run_targetAgentId run \<noteq> t_speakerAgentId turn \<or>
         run_triggerMessageId run \<noteq> t_inputMessageId turn))"

fun observe_turns :: "DiscussionRecord \<Rightarrow> (jstring \<Rightarrow> RunRecord option) \<Rightarrow> DiscussionTurn list \<Rightarrow> jstring list \<Rightarrow>
    DiscussionObservedUsage \<Rightarrow> DiscussionObservedUsage" where
  "observe_turns discussion get [] seen usage = usage"
| "observe_turns discussion get (turn # turns) seen usage =
    (if t_discussionId turn \<noteq> d_discussionId discussion then observe_turns discussion get turns seen usage
     else case truthy (t_runId turn) of
       None \<Rightarrow> observe_turns discussion get turns seen
         (usage\<lparr>us_unboundMemberSlots := us_unboundMemberSlots usage + 1\<rparr>)
     | Some runId \<Rightarrow>
         if runId \<in> set seen then observe_turns discussion get turns seen usage
         else observe_turns discussion get turns (seen @ [runId])
           (if run_of_turn discussion turn runId (get runId)
            then usage\<lparr>us_createdRuns := us_createdRuns usage + 1,
              us_runsByState := (let st = run_state (the (get runId)) in
                (us_runsByState usage)(st := us_runsByState usage st + 1))\<rparr>
            else usage\<lparr>us_unavailableRunRecords := us_unavailableRunRecords usage + 1\<rparr>))"

definition observeDiscussionUsage :: "DiscussionRecord \<Rightarrow> DiscussionTurn list \<Rightarrow> (jstring \<Rightarrow> RunRecord option) \<Rightarrow>
    timestamp \<Rightarrow> DiscussionObservedUsage" where
  "observeDiscussionUsage discussion turns get at_time =
    (let usage = observe_turns discussion get turns []
        \<lparr>us_observedAt = at_time, us_createdRuns = 0, us_runsByState = (\<lambda>_. 0), us_unboundMemberSlots = 0,
         us_unavailableRunRecords = 0, us_wallDurationSeconds = None\<rparr>;
         elapsed = (case d_terminalAt discussion of None \<Rightarrow> at_time | Some t \<Rightarrow> t) - d_createdAt discussion in
     if elapsed \<ge> 0 then usage\<lparr>us_wallDurationSeconds := Some (elapsed div 1000)\<rparr> else usage)"

end
