(* ===== verification/Discussion_Orchestrator.thy ===== *)
theory Discussion_Orchestrator
  imports Discussion_Settlement Policy_Engine
begin

text \<open>
  The orchestrator of Discussions
  (\<^verbatim>\<open>apps/server/src/discussion/discussion-orchestrator.ts\<close>) without a plan proposal service:
  the choice of participants, the advance of a settled Wave, the Runs of planned Turns, the
  control operations, recovery. Each method is an action on the \<open>world\<close>. The mutual recursion
  between reconciling a Discussion and advancing its Waves is given fuel two: a Turn is anchored
  again once, and a Wave planned by \<open>reconcile\<close> has Turns of available Agents only, so that
  reconciling it advances nothing further.
\<close>

record services =
  sv_lib :: text_lib
  sv_numberText :: "rat \<Rightarrow> jstring"
  sv_sources :: reference_sources

section \<open>Participants\<close>

definition isQuorumCapableAgent :: "AgentRecord \<Rightarrow> team_room \<Rightarrow> bool" where
  "isQuorumCapableAgent agent t \<longleftrightarrow>
     a_enabled agent \<and> a_integrationMode agent = IM_managed \<and>
     a_runtimePolicy agent = Some FS_read_only \<and>
     supportsDiscussionSupplementalEvidence (a_capabilities agent) = Some True \<and>
     (case truthy (a_deviceId agent) of None \<Rightarrow> False | Some deviceId \<Rightarrow>
       (case getDevice deviceId t of None \<Rightarrow> False | Some d \<Rightarrow> dv_status d = Device_active))"

definition task_open :: "TaskRow \<Rightarrow> bool" where
  "task_open task \<longleftrightarrow> \<not> (tk_state task = AT_completed \<or> tk_state task = AT_canceled \<or>
     tk_lifecycleState task = TL_completed \<or> tk_lifecycleState task = TL_canceled)"

definition eligible_agent :: "DiscussionRecord \<Rightarrow> RoomRecord \<Rightarrow> TaskRow \<Rightarrow> team_room \<Rightarrow> jstring \<Rightarrow> bool" where
  "eligible_agent discussion rm task t agentId = (case getAgent agentId t of None \<Rightarrow> False
     | Some agent \<Rightarrow> a_enabled agent \<and> a_teamId agent = r_teamId rm \<and> isRoomAgent (r_roomId rm) agentId t \<and>
         (tk_isDefault task \<or> (\<exists>a\<in>set (tk_assignments task). ta_agentId a = agentId)) \<and>
         (waveCompletionMode (d_policy discussion) \<noteq> WC_read_only_quorum \<or> isQuorumCapableAgent agent t))"

definition eligibleParticipants :: "DiscussionRecord \<Rightarrow> DiscussionParticipant list \<Rightarrow> team_room \<Rightarrow>
    DiscussionParticipant list" where
  "eligibleParticipants discussion participants t =
    (case (getRoom (d_roomId discussion) t, getTask (d_taskId discussion) t) of
       (Some rm, Some task) \<Rightarrow>
         if \<not> allowDiscussion (r_collaborationPolicy rm) \<or> tk_roomId task \<noteq> d_roomId discussion \<or> \<not> task_open task
         then []
         else filter (\<lambda>p. eligible_agent discussion rm task t (p_agentId p)) participants
     | _ \<Rightarrow> [])"

definition wave_ordinal_of :: "DiscussionTurn \<Rightarrow> jstring \<Rightarrow> discussion_store \<Rightarrow> int" where
  "wave_ordinal_of turn discussionId s = (case truthy (t_waveId turn) of None \<Rightarrow> 0
     | Some i \<Rightarrow> (case find (\<lambda>v. w_waveId v = i) (listWaves discussionId s) of None \<Rightarrow> 0 | Some v \<Rightarrow> w_ordinal v))"

definition live_agents :: "jstring \<Rightarrow> int \<Rightarrow> discussion_store \<Rightarrow> jstring list" where
  "live_agents discussionId throughWaveOrdinal s =
    map t_speakerAgentId (filter (\<lambda>t. \<not> terminalTurnState (t_state t) \<and>
      wave_ordinal_of t discussionId s \<le> throughWaveOrdinal) (listTurns discussionId s))"

definition eligibleParticipantsForNextWave :: "DiscussionRecord \<Rightarrow> DiscussionParticipant list \<Rightarrow> int \<Rightarrow> world \<Rightarrow>
    DiscussionParticipant list" where
  "eligibleParticipantsForNextWave discussion participants throughWaveOrdinal w =
    filter (\<lambda>p. p_agentId p \<notin> set (live_agents (d_discussionId discussion) throughWaveOrdinal (wd_store w)))
      (eligibleParticipants discussion participants (wd_team w))"

definition requiredParticipantRolesAvailable :: "DiscussionRecord \<Rightarrow> DiscussionParticipant list \<Rightarrow> bool" where
  "requiredParticipantRolesAvailable discussion participants \<longleftrightarrow>
     d_mode discussion \<noteq> Mode_review \<and> \<not> requireReviewer (d_policy discussion) \<or>
     (\<exists>p\<in>set participants. p_role p = Role_reviewer)"

fun task_role_of :: "TaskAssignmentRole \<Rightarrow> task_role" where
  "task_role_of TA_primary = TR_primary"
| "task_role_of TA_contributor = TR_contributor"
| "task_role_of TA_reviewer = TR_reviewer"

definition reported_questions :: "DiscussionTurn list \<Rightarrow> jstring \<Rightarrow> jstring list" where
  "reported_questions turns agentId =
    js_set (concat (map (\<lambda>t. case t_assessment t of None \<Rightarrow> []
        | Some a \<Rightarrow> (case as_openQuestions a of None \<Rightarrow> [] | Some qs \<Rightarrow> map oq_id qs))
      (filter (\<lambda>t. t_state t = TS_completed \<and> t_speakerAgentId t = agentId) turns)))"

definition selection_candidate :: "text_lib \<Rightarrow> DiscussionRecord \<Rightarrow> world \<Rightarrow> DiscussionParticipant \<Rightarrow>
    DiscussionParticipantCandidate option" where
  "selection_candidate L discussion w participant =
    map_option (\<lambda>agent. \<lparr>cd_participant = participant, cd_agentRole = a_role agent,
      cd_taskRole = (case getTask (d_taskId discussion) (wd_team w) of None \<Rightarrow> None
        | Some task \<Rightarrow> map_option (task_role_of \<circ> ta_role)
            (find (\<lambda>a. ta_agentId a = p_agentId participant) (tk_assignments task))),
      cd_reportedQuestionIds = sort_by (localeCompare L)
        (reported_questions (listTurns (d_discussionId discussion) (wd_store w)) (p_agentId participant))\<rparr>)
      (getAgent (p_agentId participant) (wd_team w))"

definition selectParticipants :: "text_lib \<Rightarrow> DiscussionRecord \<Rightarrow> DiscussionParticipant list \<Rightarrow> bool \<Rightarrow> world \<Rightarrow>
    DiscussionParticipantSelection throwing" where
  "selectParticipants L discussion participants finalization w =
    selectDiscussionParticipants L discussion
      (List.map_filter (selection_candidate L discussion w)
        (eligibleParticipants discussion participants (wd_team w))) finalization"

section \<open>Budget\<close>

definition refreshElapsedBudget :: "DiscussionRecord \<Rightarrow> timestamp \<Rightarrow> BudgetSnapshot" where
  "refreshElapsedBudget discussion at_time =
    (let elapsed = max 0 ((at_time - d_createdAt discussion) div 1000) in
     (d_budget discussion)\<lparr>durationSeconds := max (durationSeconds (d_budget discussion)) elapsed\<rparr>)"

definition newBudgetEvent :: "DiscussionRecord \<Rightarrow> budget_event_type \<Rightarrow> int \<Rightarrow> int option \<Rightarrow> cjson \<Rightarrow> int \<Rightarrow>
    DiscussionBudgetEvent action" where
  "newBudgetEvent discussion eventType grantedTurns duration metadata ordinalOffset =
    andThen (createOpaqueId ''budget'') (\<lambda>budgetEventId.
    andThen (look (\<lambda>w. int (length (listBudgetEvents (d_discussionId discussion) (wd_store w))))) (\<lambda>count.
    andThen now (\<lambda>createdAt.
    ret \<lparr>be_budgetEventId = budgetEventId, be_discussionId = d_discussionId discussion,
      be_ordinal = count + ordinalOffset + 1, be_eventType = eventType, be_turns = grantedTurns,
      be_durationSeconds = (case duration of None \<Rightarrow> durationSeconds (d_budget discussion) | Some n \<Rightarrow> n),
      be_metadata = metadata, be_createdAt = createdAt\<rparr>)))"

definition lease_metadata :: "string \<Rightarrow> cjson" where
  "lease_metadata source = CObj [(lit ''source'', CStr (lit source)), (lit ''unit'', CStr (lit ''wave''))]"

definition prepareResumeBudget :: "DiscussionRecord \<Rightarrow> int option \<Rightarrow>
    (BudgetSnapshot \<times> DiscussionBudgetEvent option) action" where
  "prepareResumeBudget discussion requestedTurns =
    (let status = inspectBudget (d_budget discussion) (d_policy discussion) in
     if \<not> leaseBoundaryReached status \<or> hardBoundaryReached status then ret (d_budget discussion, None)
     else andThen (pure (grantDiscussionLease (d_budget discussion) (d_policy discussion) requestedTurns Lease_user)) (\<lambda>budget.
       andThen (newBudgetEvent discussion BE_extension_granted (leaseEndTurn budget - leaseEndTurn (d_budget discussion))
         None (lease_metadata ''user'') 0) (\<lambda>event. ret (budget, Some event))))"

section \<open>Decisions and plans\<close>

fun user_intent :: "requested_action \<Rightarrow> DiscussionUserIntent" where
  "user_intent RA_finish = Intent_finish"
| "user_intent RA_stop_after_turn = Intent_stop_after_turn"
| "user_intent RA_pause = Intent_pause"

definition decision_of :: "DiscussionRecord \<Rightarrow> DiscussionUserIntent option \<Rightarrow> PolicyDecision" where
  "decision_of discussion intent = decideDiscussion
    \<lparr>di_progress = d_progress discussion, di_budget = d_budget discussion, di_policy = d_policy discussion,
     di_requestedOutputMode = d_outputMode discussion, di_userIntent = intent,
     di_runtimeInputRequired = False, di_runtimeFailed = False\<rparr>"

definition newDecision :: "DiscussionRecord \<Rightarrow> PolicyDecision \<Rightarrow> ProgressSnapshot \<Rightarrow> jstring option \<Rightarrow> timestamp \<Rightarrow>
    DiscussionDecision action" where
  "newDecision discussion decision progress nextAgentId at_time =
    andThen (createOpaqueId ''decision'') (\<lambda>decisionId.
    ret \<lparr>de_decisionId = decisionId, de_discussionId = d_discussionId discussion,
      de_aggregateVersion = d_version discussion, de_progressVersion = pg_version progress,
      de_action = pd_action decision, de_reason = pd_reason decision, de_nextAgentId = nextAgentId,
      de_outputMode = pd_outputMode decision, de_createdAt = at_time\<rparr>)"

definition decision_record :: "DiscussionRecord \<Rightarrow> PolicyDecision \<Rightarrow> DiscussionDecision \<Rightarrow> ProgressSnapshot \<Rightarrow>
    BudgetSnapshot \<Rightarrow> DiscussionBudgetEvent list \<Rightarrow> Discussion_Repository.decision_input" where
  "decision_record discussion decision row progress budget events =
    \<lparr>in_decision = row, in_expectedVersion = d_version discussion, in_state = pd_state decision,
     in_stateReason = pd_reason decision,
     in_outputMode = (if pd_action decision = DA_finalize then pd_outputMode decision else d_outputMode discussion),
     in_progress = progress, in_budget = budget, in_nextSpeakerIndex = d_nextSpeakerIndex discussion,
     in_requestedAction = None, in_budgetEvents = events\<rparr>"

definition persistDecision :: "DiscussionRecord \<Rightarrow> PolicyDecision \<Rightarrow> DiscussionBudgetEvent list \<Rightarrow> timestamp option \<Rightarrow>
    DiscussionRecord action" where
  "persistDecision discussion decision events terminalAt =
    andThen now (\<lambda>at_time.
    andThen (newDecision discussion decision (d_progress discussion) None at_time) (\<lambda>row.
    on_store (recordDecisionAndUpdate
      (decision_record discussion decision row (d_progress discussion) (d_budget discussion) events) terminalAt None)))"

text \<open>The ids of a plan: that of the Wave and one for each member.\<close>

definition plan_wave :: "text_lib \<Rightarrow> DiscussionRecord \<Rightarrow> DiscussionParticipantSelection \<Rightarrow> jstring \<Rightarrow> turn_kind \<Rightarrow>
    timestamp \<Rightarrow> WavePlan action" where
  "plan_wave L discussion selection inputMessageId kind at_time =
    andThen (createOpaqueId ''wave'') (\<lambda>waveId.
    andThen (collect_each (\<lambda>_. createOpaqueId ''turn'') (ps_participants selection)) (\<lambda>turnIds.
    pure (buildWavePlan L waveId (\<lambda>i. turnIds ! i) discussion (ps_participants selection) inputMessageId kind
      (ps_snapshot selection) at_time)))"

definition first_speaker :: "turn_kind \<Rightarrow> WavePlan \<Rightarrow> jstring option" where
  "first_speaker kind plan = (if kind = Kind_finalization
     then (case wp_turns plan of [] \<Rightarrow> None | t # _ \<Rightarrow> Some (t_speakerAgentId t)) else None)"

definition persistWavePlan :: "services \<Rightarrow> DiscussionRecord \<Rightarrow> DiscussionParticipant list \<Rightarrow> jstring \<Rightarrow> turn_kind \<Rightarrow>
    PolicyDecision \<Rightarrow> BudgetSnapshot \<Rightarrow> DiscussionBudgetEvent list \<Rightarrow> WavePlan action" where
  "persistWavePlan sv discussion participants candidateMessageId kind decision budget events =
    andThen now (\<lambda>at_time.
    andThen (look (selectParticipants (sv_lib sv) discussion participants (kind = Kind_finalization))) (\<lambda>selected.
    andThen (pure selected) (\<lambda>selection.
    andThen (uniqueWaveAnchor discussion (ps_participants selection) candidateMessageId at_time) (\<lambda>inputMessageId.
    andThen (plan_wave (sv_lib sv) discussion selection inputMessageId kind at_time) (\<lambda>plan.
    andThen (newDecision discussion decision (d_progress discussion) (first_speaker kind plan) at_time) (\<lambda>row.
    andThen (on_store (recordDecisionAndPlanWave (sv_lib sv)
      (decision_record discussion decision row (d_progress discussion) budget events)
      (wp_wave plan) (wp_turns plan))) (\<lambda>_. ret plan)))))))"

section \<open>The Run of a Turn\<close>

definition new_run :: "services \<Rightarrow> DiscussionRecord \<Rightarrow> DiscussionWave \<Rightarrow> DiscussionTurn \<Rightarrow> MessageRecord \<Rightarrow>
    jstring option \<Rightarrow> RunRecord action" where
  "new_run sv discussion wave turn inputMessage previousRun =
    andThen now (\<lambda>at_time.
    andThen (createOpaqueId ''run'') (\<lambda>runId.
    andThen (look (buildInstruction (sv_lib sv) (sv_numberText sv) discussion wave turn)) (\<lambda>built.
    andThen (pure built) (\<lambda>instruction.
    ret \<lparr>run_runId = runId, run_traceId = msg_traceId inputMessage, run_roomId = d_roomId discussion,
      run_taskId = d_taskId discussion, run_triggerMessageId = t_inputMessageId turn,
      run_requesterMemberId = d_requesterMemberId discussion, run_targetAgentId = t_speakerAgentId turn,
      run_parentRunId = previousRun, run_attemptNumber = None, run_retryOfRunId = None,
      run_instruction = instruction, run_state = RS_queued, run_lastSequence = 0,
      run_deadlineAt = w_deadlineAt wave, run_createdAt = at_time, run_updatedAt = at_time,
      run_terminalAt = None, run_orchestrationKey = Some (t_turnId turn)\<rparr>))))"

definition previous_run :: "DiscussionTurn \<Rightarrow> discussion_store \<Rightarrow> jstring option" where
  "previous_run turn s =
    (let earlier = filter (\<lambda>c. t_ordinal c < t_ordinal turn \<and> t_waveId c \<noteq> t_waveId turn)
       (listTurns (t_discussionId turn) s) in
     if earlier = [] then None else t_runId (last earlier))"

definition getDiscussion_or_throw :: "jstring \<Rightarrow> DiscussionRecord action" where
  "getDiscussion_or_throw discussionId =
    andThen (look (\<lambda>w. requireDiscussion discussionId (wd_store w))) pure"

definition create_run :: "services \<Rightarrow> DiscussionRecord \<Rightarrow> DiscussionTurn \<Rightarrow> RunRecord option action" where
  "create_run sv discussion turn =
    andThen (look (\<lambda>w. (previous_run turn (wd_store w), getMessage (t_inputMessageId turn) (wd_team w),
      case truthy (t_waveId turn) of None \<Rightarrow> None | Some i \<Rightarrow> getWave i (wd_store w)))) (\<lambda>(previousRun, inputMessage, wave).
    case inputMessage of
      None \<Rightarrow> raise (ErrorText ''Discussion input Message not found: '' (t_inputMessageId turn))
    | Some m \<Rightarrow> (case wave of
        None \<Rightarrow> raise (ErrorText ''Discussion Wave not found for Turn: '' (t_turnId turn))
      | Some v \<Rightarrow>
          andThen (new_run sv discussion v turn m previousRun) (\<lambda>run.
          andThen (on_runs (createRuns [run])) (\<lambda>_.
          andThen (on_store (bindTurnRun (t_turnId turn) (run_runId run) TS_queued (run_createdAt run))) (\<lambda>_.
          ret (Some run))))))"

fun ensureRun :: "nat \<Rightarrow> services \<Rightarrow> DiscussionTurn \<Rightarrow> RunRecord option action" where
  "ensureRun 0 sv turn = raise (Error ''ensureRun recursion'')"
| "ensureRun (Suc n) sv turn =
    (case truthy (t_runId turn) of
       Some runId \<Rightarrow> look (\<lambda>w. getRun runId (wd_runs w))
     | None \<Rightarrow>
    andThen (look (\<lambda>w. findByOrchestrationKey (t_turnId turn) (wd_runs w))) (\<lambda>byKey.
    case byKey of
      Some run \<Rightarrow>
        andThen now (\<lambda>at_time.
        andThen (on_store (bindTurnRun (t_turnId turn) (run_runId run)
          (if run_state run = RS_working then TS_working else TS_queued) at_time)) (\<lambda>_. ret (Some run)))
    | None \<Rightarrow>
    andThen (getDiscussion_or_throw (t_discussionId turn)) (\<lambda>discussion.
    andThen (look (\<lambda>w. find (\<lambda>r. run_targetAgentId r = t_speakerAgentId turn)
      (findByTrigger (t_inputMessageId turn) (wd_runs w)))) (\<lambda>collision.
    case collision of
      None \<Rightarrow> create_run sv discussion turn
    | Some run \<Rightarrow>
        andThen (look (latestOutputMessageId discussion)) (\<lambda>latestAnchor.
        case truthy (t_waveId turn) of
          Some waveId \<Rightarrow>
            if latestAnchor \<noteq> t_inputMessageId turn
            then andThen now (\<lambda>at_time.
              andThen (on_store (reanchorPlannedWave waveId latestAnchor at_time)) (\<lambda>_.
              andThen (look (\<lambda>w. getTurn (t_turnId turn) (wd_store w))) (\<lambda>reanchored.
              case reanchored of None \<Rightarrow> ret None | Some t \<Rightarrow> ensureRun n sv t)))
            else raise (ErrorText ''Discussion Run anchor conflicts with existing Run: '' (run_runId run))
        | None \<Rightarrow> raise (ErrorText ''Discussion Run anchor conflicts with existing Run: '' (run_runId run)))))))"

definition anchor_collision :: "DiscussionTurn list \<Rightarrow> run_store \<Rightarrow> bool" where
  "anchor_collision turns s \<longleftrightarrow> (\<exists>t\<in>set turns. \<exists>r\<in>set (findByTrigger (t_inputMessageId t) s).
     run_targetAgentId r = t_speakerAgentId t \<and> run_orchestrationKey r \<noteq> Some (t_turnId t))"

definition preparePlannedWaveAnchor :: "jstring \<Rightarrow> unit action" where
  "preparePlannedWaveAnchor waveId =
    andThen (look (\<lambda>w. (getWave waveId (wd_store w), listTurnsForWave waveId (wd_store w)))) (\<lambda>(found, turns).
    case found of
      None \<Rightarrow> ret ()
    | Some wave \<Rightarrow>
    if w_state wave \<noteq> WS_open \<or> (\<exists>t\<in>set turns. t_runId t \<noteq> None \<or> t_state t \<noteq> TS_planned) then ret ()
    else andThen (look (\<lambda>w. anchor_collision turns (wd_runs w))) (\<lambda>hasCollision.
    if \<not> hasCollision then ret ()
    else andThen (getDiscussion_or_throw (w_discussionId wave)) (\<lambda>discussion.
    andThen (look (latestOutputMessageId discussion)) (\<lambda>latestAnchor.
    andThen (look (\<lambda>w. filter (\<lambda>p. p_agentId p \<in> set (map t_speakerAgentId turns))
      (listParticipants (d_discussionId discussion) (wd_store w)))) (\<lambda>participants.
    andThen now (\<lambda>at_time.
    andThen (uniqueWaveAnchor discussion participants latestAnchor at_time) (\<lambda>replacement.
    andThen now (\<lambda>at_time.
    andThen (on_store (reanchorPlannedWave waveId replacement at_time)) (\<lambda>_. ret ())))))))))"

end
