(* ===== verification/Discussion_Advance.thy ===== *)
theory Discussion_Advance
  imports Discussion_Orchestrator Progress_Properties
begin

text \<open>
  The course of a Discussion: what follows a settled Wave, and the reconciliation that gives
  every planned Turn its Run (\<^verbatim>\<open>advanceSettledWave\<close>, \<^verbatim>\<open>advanceReadyWave\<close>,
  \<^verbatim>\<open>reconcileDiscussion\<close>, \<^verbatim>\<open>planContinuation\<close>, \<^verbatim>\<open>planFinalization\<close> of
  \<^verbatim>\<open>apps/server/src/discussion/discussion-orchestrator.ts\<close>).
\<close>

section \<open>Views\<close>

record DiscussionView =
  vw_observedUsage :: DiscussionObservedUsage
  vw_discussion :: DiscussionRecord
  vw_participants :: "DiscussionParticipant list"
  vw_waves :: "DiscussionWave list"
  vw_turns :: "DiscussionTurn list"
  vw_decisions :: "DiscussionDecision list"
  vw_seals :: "DiscussionWaveSeal list"
  vw_supplementalEvidence :: "DiscussionSupplementalEvidence list"

record DiscussionMutationResult = DiscussionView +
  mu_scheduledRuns :: "RunRecord list"
  mu_cancelRunIds :: "jstring list"

definition view :: "services \<Rightarrow> jstring \<Rightarrow> DiscussionView action" where
  "view sv discussionId =
    andThen (getDiscussion_or_throw discussionId) (\<lambda>discussion.
    andThen now (\<lambda>at_time.
    andThen (look (\<lambda>w. listWaveSeals (sv_lib sv) discussionId (wd_store w))) (\<lambda>listed.
    andThen (pure listed) (\<lambda>seals.
    look (\<lambda>w. let s = wd_store w; turns = listTurns discussionId s in
      \<lparr>vw_observedUsage = observeDiscussionUsage discussion turns (\<lambda>i. getRun i (wd_runs w)) at_time,
       vw_discussion = discussion, vw_participants = listParticipants discussionId s,
       vw_waves = listWaves discussionId s, vw_turns = turns, vw_decisions = listDecisions discussionId s,
       vw_seals = seals, vw_supplementalEvidence = listSupplementalEvidence discussionId s\<rparr>)))))"

definition mutationResult :: "services \<Rightarrow> jstring \<Rightarrow> RunRecord list \<Rightarrow> jstring list \<Rightarrow>
    DiscussionMutationResult action" where
  "mutationResult sv discussionId scheduledRuns cancelRunIds =
    andThen (view sv discussionId) (\<lambda>v.
    ret (DiscussionView.extend v \<lparr>mu_scheduledRuns = scheduledRuns, mu_cancelRunIds = cancelRunIds\<rparr>))"

section \<open>After a Wave has settled\<close>

definition successful_result :: "services \<Rightarrow> DiscussionRecord \<Rightarrow> world \<Rightarrow> DiscussionTurn \<Rightarrow>
    SuccessfulWaveResult option" where
  "successful_result sv discussion w turn =
    (if t_state turn \<noteq> TS_completed then None
     else case truthy (t_outputMessageId turn) of None \<Rightarrow> None
     | Some m \<Rightarrow> map_option (\<lambda>output. \<lparr>sr_participantOrdinal = member_ordinal turn,
         sr_reply = msg_content output, sr_assessment = map_option assessment_json (t_assessment turn),
         sr_speakerIsReviewer = (\<exists>p\<in>set (listParticipants (d_discussionId discussion) (wd_store w)).
           p_agentId p = t_speakerAgentId turn \<and> p_role p = Role_reviewer),
         sr_verifiedEvidenceRefs = verifyEvidenceRefs (sv_lib sv) (sv_sources sv) discussion
           (case t_assessment turn of None \<Rightarrow> [] | Some a \<Rightarrow>
             (case as_newEvidenceRefs a of None \<Rightarrow> [] | Some refs \<Rightarrow> refs)) w\<rparr>)
         (getMessage m (wd_team w)))"

definition wait_decision :: "DiscussionStateReason \<Rightarrow> PolicyDecision" where
  "wait_decision reason =
    \<lparr>pd_action = DA_wait_human, pd_state = DS_waiting_human, pd_reason = Some reason,
     pd_outputMode = OM_none, pd_grantAutomaticLease = False\<rparr>"

text \<open>A finalization nobody can write: the server concludes the Discussion itself.\<close>

definition concluded :: "PolicyDecision \<Rightarrow> PolicyDecision" where
  "concluded decision =
    (if pd_reason decision = Some SR_hard_budget_exhausted
     then decision\<lparr>pd_state := DS_terminated, pd_reason := Some SR_hard_budget_exhausted\<rparr>
     else decision\<lparr>pd_state := DS_completed, pd_reason := Some SR_runtime_failure\<rparr>)"

definition feasible_decision :: "DiscussionRecord \<Rightarrow> DiscussionParticipant list \<Rightarrow> jstring \<Rightarrow> PolicyDecision \<Rightarrow>
    PolicyDecision action" where
  "feasible_decision discussion eligible anchor decision =
    (if eligible = [] \<and> pd_action decision = DA_continue then ret (wait_decision SR_runtime_failure)
     else if pd_action decision = DA_continue \<and> \<not> requiredParticipantRolesAvailable discussion eligible
     then ret (wait_decision SR_policy_violation)
     else if eligible = [] \<and> pd_action decision = DA_finalize
     then andThen (appendFallbackConclusion discussion anchor) (\<lambda>_. ret (concluded decision))
     else ret decision)"

definition automatic_lease :: "DiscussionRecord \<Rightarrow> PolicyDecision \<Rightarrow> BudgetSnapshot \<Rightarrow> DiscussionBudgetEvent list \<Rightarrow>
    (BudgetSnapshot \<times> DiscussionBudgetEvent list) action" where
  "automatic_lease discussion decision budget events =
    (if \<not> pd_grantAutomaticLease decision then ret (budget, events)
     else andThen (pure (grantDiscussionLease budget (d_policy discussion) None Lease_automatic)) (\<lambda>extended.
       andThen (newBudgetEvent discussion BE_extension_granted (leaseEndTurn extended - leaseEndTurn budget)
         (Some (durationSeconds extended)) (lease_metadata ''automatic'') (int (length events))) (\<lambda>event.
       ret (extended, events @ [event]))))"

definition outcomes_json :: "DiscussionTurn list \<Rightarrow> DiscussionWaveSeal option \<Rightarrow> cjson" where
  "outcomes_json allTurns seal =
    (let count = (\<lambda>P. CInt (int (length (filter (\<lambda>t. P (t_state t)) allTurns)))) in
     CObj [(lit ''completed'', count (\<lambda>s. s = TS_completed)), (lit ''failed'', count (\<lambda>s. s = TS_failed)),
       (lit ''canceled'', count (\<lambda>s. s = TS_canceled)), (lit ''live'', count (\<lambda>s. \<not> terminalTurnState s)),
       (lit ''quorumSealId'', case seal of None \<Rightarrow> CNull | Some x \<Rightarrow> CStr (sl_sealId x))])"

definition turn_metadata :: "DiscussionWave \<Rightarrow> cjson \<Rightarrow> cjson" where
  "turn_metadata wave outcomes = CObj [(lit ''unit'', CStr (lit ''wave'')), (lit ''waveId'', CStr (w_waveId wave)),
     (lit ''waveOrdinal'', CInt (w_ordinal wave)), (lit ''agentRuns'', CInt (w_expectedMembers wave)),
     (lit ''outcomes'', outcomes)]"

definition reserve_metadata :: "jstring \<Rightarrow> cjson" where
  "reserve_metadata waveId = CObj [(lit ''waveId'', CStr waveId), (lit ''unit'', CStr (lit ''wave'')),
     (lit ''agentRuns'', CInt 1)]"

text \<open>The next Wave, with the budget and the events it changes.\<close>

definition next_wave :: "services \<Rightarrow> DiscussionRecord \<Rightarrow> DiscussionParticipant list \<Rightarrow> jstring \<Rightarrow> PolicyDecision \<Rightarrow>
    ProgressSnapshot \<Rightarrow> BudgetSnapshot \<Rightarrow> DiscussionBudgetEvent list \<Rightarrow> timestamp \<Rightarrow>
    (WavePlan option \<times> BudgetSnapshot \<times> DiscussionBudgetEvent list) action" where
  "next_wave sv discussion eligible inputMessageId decision progress budget events at_time =
    (let current = discussion\<lparr>d_progress := progress, d_budget := budget\<rparr>;
         plan = (\<lambda>finalization kind.
           andThen (look (selectParticipants (sv_lib sv) current eligible finalization)) (\<lambda>selected.
           andThen (pure selected) (\<lambda>selection.
           plan_wave (sv_lib sv) discussion selection inputMessageId kind at_time))) in
     if pd_action decision = DA_continue
     then andThen (plan False Kind_discussion) (\<lambda>p. ret (Some p, budget, events))
     else if pd_action decision = DA_finalize \<and> eligible \<noteq> []
     then andThen (plan True Kind_finalization) (\<lambda>p.
       andThen (newBudgetEvent discussion BE_finalization_reserved 1 (Some (durationSeconds budget))
         (reserve_metadata (w_waveId (wp_wave p))) (int (length events))) (\<lambda>event.
       ret (Some p, budget\<lparr>agentRunsUsed := agentRunsUsed budget + 1\<rparr>, events @ [event])))
     else ret (None, budget, events))"

definition evaluate_wave :: "services \<Rightarrow> DiscussionRecord \<Rightarrow> DiscussionWave \<Rightarrow> SuccessfulWaveResult list \<Rightarrow>
    ProgressSnapshot action" where
  "evaluate_wave sv discussion wave successfulResults =
    andThen (look (recentAcceptedReplies (sv_lib sv) discussion wave)) (\<lambda>replies.
    andThen (pure replies) (\<lambda>previousReplies.
    andThen (pure (evaluateWaveProgress (sv_lib sv) (d_progress discussion) successfulResults (d_policy discussion)
      previousReplies)) (\<lambda>evaluation. ret (we_snapshot evaluation))))"

definition wave_decision :: "DiscussionRecord \<Rightarrow> ProgressSnapshot \<Rightarrow> BudgetSnapshot \<Rightarrow> DiscussionTurn list \<Rightarrow> bool \<Rightarrow>
    PolicyDecision" where
  "wave_decision discussion progress budget projectionTurns runtimeFailed = decideDiscussion
    \<lparr>di_progress = progress, di_budget = budget, di_policy = d_policy discussion,
     di_requestedOutputMode = d_outputMode discussion,
     di_userIntent = map_option user_intent (d_requestedAction discussion),
     di_runtimeInputRequired = (\<exists>t\<in>set projectionTurns. t_terminalReason t = Some (lit ''input_required'')),
     di_runtimeFailed = runtimeFailed\<rparr>"

definition ready_wave :: "DiscussionRecord \<Rightarrow> DiscussionWave \<Rightarrow> PolicyDecision \<Rightarrow> DiscussionDecision \<Rightarrow> ProgressSnapshot \<Rightarrow>
    BudgetSnapshot \<Rightarrow> DiscussionBudgetEvent list \<Rightarrow> DiscussionWaveState \<Rightarrow> WavePlan option \<Rightarrow>
    DiscussionWaveSeal option \<Rightarrow> timestamp \<Rightarrow> ready_wave_input" where
  "ready_wave discussion wave decision row progress budget events closeState nextWave seal at_time =
    Discussion_Repository.decision_input.extend (decision_record discussion decision row progress budget events)
      \<lparr>rw_waveId = w_waveId wave, rw_expectedWaveVersion = w_version wave, rw_closeState = closeState,
       rw_closedAt = at_time,
       rw_terminalAt = (if terminalDiscussionState (pd_state decision) then Some at_time else None),
       rw_nextWave = nextWave, rw_seal = seal\<rparr>"

text \<open>\<open>reconcile\<close> is \<^verbatim>\<open>this.reconcileDiscussion\<close>.\<close>

definition advanceSettledWave :: "services \<Rightarrow> (jstring \<Rightarrow> RunRecord list action) \<Rightarrow> DiscussionRecord \<Rightarrow>
    DiscussionWave \<Rightarrow> DiscussionTurn list \<Rightarrow> DiscussionTurn list \<Rightarrow> DiscussionWaveSeal option \<Rightarrow>
    DiscussionMutationResult action" where
  "advanceSettledWave sv reconcile discussion wave projectionTurns allTurns seal =
    andThen (look (\<lambda>w. eligibleParticipantsForNextWave discussion
      (listParticipants (d_discussionId discussion) (wd_store w)) (w_ordinal wave) w)) (\<lambda>eligible.
    andThen (look (\<lambda>w. List.map_filter (successful_result sv discussion w) projectionTurns)) (\<lambda>successfulResults.
    andThen (evaluate_wave sv discussion wave successfulResults) (\<lambda>progress.
    andThen now (\<lambda>anchored.
    andThen (ensureWaveResultAnchor discussion wave projectionTurns anchored) (\<lambda>nextInputMessageId.
    andThen now (\<lambda>measured.
    andThen (pure (recordTurnUsage (d_budget discussion) (Some (w_expectedMembers wave)) (d_createdAt discussion) measured)) (\<lambda>used.
    andThen (newBudgetEvent discussion BE_turn_recorded 1 (Some (durationSeconds used))
      (turn_metadata wave (outcomes_json allTurns seal)) 0) (\<lambda>event.
    andThen (feasible_decision discussion eligible nextInputMessageId
      (wave_decision discussion progress used projectionTurns (successfulResults = []))) (\<lambda>decision.
    andThen (automatic_lease discussion decision used [event]) (\<lambda>(leased, leaseEvents).
    andThen now (\<lambda>at_time.
    andThen (next_wave sv discussion eligible nextInputMessageId decision progress leased leaseEvents at_time)
      (\<lambda>(nextWave, budget, events).
    andThen (newDecision discussion decision progress (if pd_action decision = DA_finalize
        then (case nextWave of None \<Rightarrow> None | Some p \<Rightarrow> first_speaker Kind_finalization p) else None) at_time) (\<lambda>row.
    andThen (on_store (closeReadyWaveAndApply (sv_lib sv) (ready_wave discussion wave decision row progress budget events
      (if seal \<noteq> None then WS_partial else waveCloseState (map t_state allTurns)) nextWave seal at_time))) (\<lambda>persisted.
    if \<not> aw_applied persisted then mutationResult sv (d_discussionId discussion) [] []
    else andThen (if nextWave \<noteq> None then reconcile (d_discussionId discussion) else ret []) (\<lambda>scheduled.
      mutationResult sv (d_discussionId discussion) scheduled [])))))))))))))))"

definition advanceReadyWave :: "services \<Rightarrow> (jstring \<Rightarrow> RunRecord list action) \<Rightarrow> DiscussionRecord \<Rightarrow>
    DiscussionWave \<Rightarrow> DiscussionTurn list \<Rightarrow> DiscussionMutationResult action" where
  "advanceReadyWave sv reconcile discussion wave turns =
    (let closeState = waveCloseState (map t_state turns) in
     if terminalDiscussionState (d_state discussion)
     then andThen now (\<lambda>at_time.
       andThen (on_store (closeWave (w_waveId wave) (w_version wave) closeState at_time)) (\<lambda>_.
       mutationResult sv (d_discussionId discussion) [] []))
     else if w_phase wave = Phase_finalization
     then let finalizationSucceeded = (\<exists>t\<in>set turns. t_state t = TS_completed);
              terminalState = (if d_stateReason discussion = Some SR_hard_budget_exhausted
                then DS_terminated else DS_completed) in
       andThen (if finalizationSucceeded then ret ()
         else appendFallbackConclusion discussion (w_inputMessageId wave)) (\<lambda>_.
       andThen now (\<lambda>at_time.
       andThen (on_store (closeFinalizationAndFinish (d_discussionId discussion) (d_version discussion) terminalState
         (w_waveId wave) (w_version wave) closeState at_time)) (\<lambda>_.
       mutationResult sv (d_discussionId discussion) [] [])))
     else advanceSettledWave sv reconcile discussion wave turns turns None)"

section \<open>Reconciliation\<close>

definition check_open_wave :: "services \<Rightarrow> DiscussionWave \<Rightarrow> unit action" where
  "check_open_wave sv wave =
    (case (w_state wave, w_selection wave) of
       (WS_open, Some selection) \<Rightarrow>
         andThen (look (\<lambda>w. assertDiscussionWaveSelection (sv_lib sv) selection
           (Some (map t_speakerAgentId (listTurnsForWave (w_waveId wave) (wd_store w)))))) pure
     | _ \<Rightarrow> ret ())"

definition settle_unavailable :: "DiscussionTurn \<Rightarrow> unit action" where
  "settle_unavailable turn =
    andThen now (\<lambda>at_time.
    andThen (on_store (settleTurn (unavailable_turn (t_turnId turn) TS_failed ''agent_unavailable'' at_time))) (\<lambda>_. ret ()))"

definition advance_affected :: "services \<Rightarrow> (jstring \<Rightarrow> RunRecord list action) \<Rightarrow> jstring \<Rightarrow> jstring \<Rightarrow>
    RunRecord list action" where
  "advance_affected sv reconcile discussionId waveId =
    andThen (look (\<lambda>w. (getWave waveId (wd_store w), listTurnsForWave waveId (wd_store w)))) (\<lambda>(found, turns).
    case found of
      None \<Rightarrow> ret []
    | Some wave \<Rightarrow>
        if w_state wave \<noteq> WS_open \<or> \<not> list_all (\<lambda>t. terminalTurnState (t_state t)) turns then ret []
        else andThen (getDiscussion_or_throw discussionId) (\<lambda>discussion.
          andThen (advanceReadyWave sv reconcile discussion wave turns) (\<lambda>result. ret (mu_scheduledRuns result))))"

definition truthy_ids :: "jstring option list \<Rightarrow> jstring list" where
  "truthy_ids ids = js_set (List.map_filter truthy ids)"

fun reconcileDiscussion :: "nat \<Rightarrow> services \<Rightarrow> jstring \<Rightarrow> RunRecord list action" where
  "reconcileDiscussion 0 sv discussionId = raise (Error ''reconcileDiscussion recursion'')"
| "reconcileDiscussion (Suc n) sv discussionId =
    andThen (getDiscussion_or_throw discussionId) (\<lambda>discussion.
    andThen (look (\<lambda>w. map p_agentId (eligibleParticipants discussion
      (listParticipants discussionId (wd_store w)) (wd_team w)))) (\<lambda>eligibleAgentIds.
    andThen (look (\<lambda>w. listWaves discussionId (wd_store w))) (\<lambda>waves.
    andThen (perform_each (check_open_wave sv) waves) (\<lambda>_.
    andThen (look (\<lambda>w. filter (\<lambda>t. t_state t = TS_planned \<and> t_speakerAgentId t \<notin> set eligibleAgentIds)
      (listTurns discussionId (wd_store w)))) (\<lambda>unavailable.
    andThen (perform_each settle_unavailable unavailable) (\<lambda>_.
    andThen (look (\<lambda>w. truthy_ids (map t_waveId (filter (\<lambda>t. t_state t = TS_planned)
      (listTurns discussionId (wd_store w)))))) (\<lambda>plannedWaves.
    andThen (perform_each preparePlannedWaveAnchor plannedWaves) (\<lambda>_.
    andThen (look (\<lambda>w. filter (\<lambda>t. t_state t = TS_planned \<or> t_state t = TS_queued)
      (listTurns discussionId (wd_store w)))) (\<lambda>live.
    andThen (collect_each (ensureRun 2 sv) live) (\<lambda>ensured.
    andThen (collect_each (advance_affected sv (reconcileDiscussion n sv) discussionId)
      (truthy_ids (map t_waveId unavailable))) (\<lambda>advanced.
    ret (map snd (add_runs (filter (\<lambda>r. run_state r = RS_queued) (List.map_filter id ensured) @ concat advanced) [])))))))))))))"

section \<open>Planning without a settled Wave\<close>

definition current_wave :: "DiscussionRecord \<Rightarrow> int" where
  "current_wave discussion = (case d_currentWave discussion of None \<Rightarrow> 0 | Some n \<Rightarrow> n)"

definition continue_decision :: PolicyDecision where
  "continue_decision =
    \<lparr>pd_action = DA_continue, pd_state = DS_active, pd_reason = None, pd_outputMode = OM_none,
     pd_grantAutomaticLease = False\<rparr>"

definition planContinuation :: "services \<Rightarrow> (jstring \<Rightarrow> RunRecord list action) \<Rightarrow> DiscussionRecord \<Rightarrow>
    DiscussionBudgetEvent list \<Rightarrow> RunRecord list action" where
  "planContinuation sv reconcile discussion events =
    andThen (look (\<lambda>w. eligibleParticipantsForNextWave discussion
      (listParticipants (d_discussionId discussion) (wd_store w)) (current_wave discussion) w)) (\<lambda>participants.
    if participants = []
    then andThen (persistDecision discussion (wait_decision SR_runtime_failure) events None) (\<lambda>_. ret [])
    else if \<not> requiredParticipantRolesAvailable discussion participants
    then andThen (persistDecision discussion (wait_decision SR_policy_violation) events None) (\<lambda>_. ret [])
    else andThen (look (latestOutputMessageId discussion)) (\<lambda>inputMessageId.
      andThen (persistWavePlan sv discussion participants inputMessageId Kind_discussion continue_decision
        (d_budget discussion) events) (\<lambda>_. reconcile (d_discussionId discussion))))"

definition planFinalization :: "services \<Rightarrow> (jstring \<Rightarrow> RunRecord list action) \<Rightarrow> DiscussionRecord \<Rightarrow>
    PolicyDecision \<Rightarrow> DiscussionBudgetEvent list \<Rightarrow> RunRecord list action" where
  "planFinalization sv reconcile discussion decision usageEvents =
    andThen (look (\<lambda>w. eligibleParticipantsForNextWave discussion
      (listParticipants (d_discussionId discussion) (wd_store w)) (current_wave discussion) w)) (\<lambda>participants.
    if participants = []
    then andThen (look (latestOutputMessageId discussion)) (\<lambda>anchor.
      andThen (appendFallbackConclusion discussion anchor) (\<lambda>_.
      andThen now (\<lambda>at_time.
      andThen (persistDecision discussion (concluded decision) usageEvents (Some at_time)) (\<lambda>_. ret []))))
    else andThen (newBudgetEvent discussion BE_finalization_reserved 1 (Some (durationSeconds (d_budget discussion)))
        (CObj [(lit ''unit'', CStr (lit ''wave'')), (lit ''agentRuns'', CInt 1)]) (int (length usageEvents))) (\<lambda>event.
      andThen (look (latestOutputMessageId discussion)) (\<lambda>inputMessageId.
      andThen (persistWavePlan sv discussion participants inputMessageId Kind_finalization decision
        ((d_budget discussion)\<lparr>agentRunsUsed := agentRunsUsed (d_budget discussion) + 1\<rparr>)
        (usageEvents @ [event])) (\<lambda>_. reconcile (d_discussionId discussion)))))"

end
