(* ===== verification/Discussion_Control.thy ===== *)
theory Discussion_Control
  imports Discussion_Advance
begin

text \<open>
  The entry points of the orchestrator
  (\<^verbatim>\<open>apps/server/src/discussion/discussion-orchestrator.ts\<close>): creation, the control actions of
  a member, the end of a Run, the sweep of due Waves and the recovery after a restart.
\<close>

text \<open>\<^verbatim>\<open>reconcileDiscussion\<close> with the fuel that is enough.\<close>

definition reconcile :: "services \<Rightarrow> jstring \<Rightarrow> RunRecord list action" where
  "reconcile sv discussionId = reconcileDiscussion 2 sv discussionId"

section \<open>Quorum\<close>

definition accepted_member :: "DiscussionParticipant list \<Rightarrow> world \<Rightarrow> DiscussionTurn \<Rightarrow> DiscussionWaveSealMember option" where
  "accepted_member participants w turn =
    (case (truthy (t_runId turn), truthy (t_outputMessageId turn), truthy (t_replyHash turn), t_waveMemberOrdinal turn) of
       (Some runId, Some outputId, Some hash, Some ordinal) \<Rightarrow>
         if t_state turn \<noteq> TS_completed then None
         else (case (getMessage outputId (wd_team w),
             find (\<lambda>e. (case getReplyMessageProjection runId (rv_sequence e) (wd_runs w) of None \<Rightarrow> False
               | Some p \<Rightarrow> pj_messageId p = outputId))
               (filter (\<lambda>e. is_reply (rv_event e)) (listEvents runId 0 (wd_runs w))),
             find (\<lambda>p. p_agentId p = t_speakerAgentId turn) participants) of
           (Some message, Some reply, Some participant) \<Rightarrow>
             Some \<lparr>sm_turnId = t_turnId turn, sm_waveMemberOrdinal = ordinal, sm_agentId = t_speakerAgentId turn,
               sm_role = p_role participant, sm_runId = runId, sm_sourceReplySequence = rv_sequence reply,
               sm_outputMessageId = msg_messageId message, sm_sourceMessageSequence = msg_sequence message,
               sm_replyHash = hash\<rparr>
         | _ \<Rightarrow> None)
     | _ \<Rightarrow> None)"

definition accepted_members :: "DiscussionRecord \<Rightarrow> DiscussionTurn list \<Rightarrow> world \<Rightarrow> DiscussionWaveSealMember list" where
  "accepted_members discussion turns w =
    sort_by (\<lambda>l r. sm_waveMemberOrdinal l - sm_waveMemberOrdinal r)
      (List.map_filter (accepted_member (listParticipants (d_discussionId discussion) (wd_store w)) w) turns)"

definition quorum_reached :: "DiscussionRecord \<Rightarrow> participant_role list \<Rightarrow> DiscussionWaveSealMember list \<Rightarrow> bool" where
  "quorum_reached discussion requiredRoles acceptedMembers \<longleftrightarrow>
     \<not> (int (length acceptedMembers) < quorumMinimumCompleted (d_policy discussion) \<or>
        (\<exists>role\<in>set requiredRoles. \<not> (\<exists>m\<in>set acceptedMembers. sm_role m = role)))"

definition quorumSealIfReady :: "services \<Rightarrow> DiscussionRecord \<Rightarrow> DiscussionWave \<Rightarrow> DiscussionTurn list \<Rightarrow>
    DiscussionWaveSeal option action" where
  "quorumSealIfReady sv discussion wave turns =
    (let softDeadline = quorumSoftDeadline (w_createdAt wave) (quorumSoftDeadlineSeconds (d_policy discussion)) in
     if waveCompletionMode (d_policy discussion) \<noteq> WC_read_only_quorum \<or> w_phase wave = Phase_finalization \<or>
        w_state wave \<noteq> WS_open
     then ret None
     else andThen now (\<lambda>at_time.
     if at_time < softDeadline then ret None
     else andThen (look (accepted_members discussion turns)) (\<lambda>acceptedMembers.
     let requiredRoles = (case w_selection wave of None \<Rightarrow> [] | Some s \<Rightarrow> sel_requiredRoles s) in
     if \<not> quorum_reached discussion requiredRoles acceptedMembers then ret None
     else andThen (createOpaqueId ''seal'') (\<lambda>sealId.
     andThen now (\<lambda>sealedAt.
     andThen (pure (createDiscussionWaveSeal (sv_lib sv)
       \<lparr>sl_sealId = sealId, sl_discussionId = d_discussionId discussion, sl_waveId = w_waveId wave,
        sl_softDeadlineAt = softDeadline, sl_minimumCompleted = quorumMinimumCompleted (d_policy discussion),
        sl_requiredRoles = requiredRoles, sl_acceptedMembers = acceptedMembers, sl_sealedAt = sealedAt\<rparr>)) (\<lambda>seal.
     ret (Some seal)))))))"

definition settle_terminal_run :: "services \<Rightarrow> DiscussionTurn \<Rightarrow> unit action" where
  "settle_terminal_run sv turn =
    (if terminalTurnState (t_state turn) then ret ()
     else case truthy (t_runId turn) of None \<Rightarrow> ret ()
     | Some runId \<Rightarrow>
         andThen (look (\<lambda>w. getRun runId (wd_runs w))) (\<lambda>found.
         if (case found of None \<Rightarrow> True | Some run \<Rightarrow> \<not> terminalRunState (run_state run)) then ret ()
         else andThen now (\<lambda>at_time. andThen (settle (sv_lib sv) runId at_time) (\<lambda>_. ret ()))))"

definition reconcileTerminalWaveTurns :: "services \<Rightarrow> DiscussionWave \<Rightarrow> DiscussionTurn list \<Rightarrow>
    DiscussionTurn list action" where
  "reconcileTerminalWaveTurns sv wave turns =
    andThen (perform_each (settle_terminal_run sv) turns) (\<lambda>_.
    look (\<lambda>w. listTurnsForWave (w_waveId wave) (wd_store w)))"

section \<open>The end of a Run\<close>

definition advance_after :: "services \<Rightarrow> DiscussionRecord \<Rightarrow> DiscussionWave \<Rightarrow> DiscussionTurn list \<Rightarrow>
    DiscussionTurn list \<Rightarrow> DiscussionMutationResult action" where
  "advance_after sv discussion wave settledTurns turns =
    (if list_all (\<lambda>t. terminalTurnState (t_state t)) turns
     then advanceReadyWave sv (reconcile sv) discussion wave turns
     else andThen (quorumSealIfReady sv discussion wave turns) (\<lambda>sealed.
       case sealed of
         None \<Rightarrow> mutationResult sv (d_discussionId discussion) [] []
       | Some seal \<Rightarrow>
           let acceptedTurnIds = map sm_turnId (sl_acceptedMembers seal) in
           advanceSettledWave sv (reconcile sv) discussion wave
             (filter (\<lambda>t. t_turnId t \<in> set acceptedTurnIds) settledTurns) settledTurns (Some seal)))"

definition onRunTerminal :: "services \<Rightarrow> jstring \<Rightarrow> DiscussionMutationResult option action" where
  "onRunTerminal sv runId =
    andThen now (\<lambda>at_time.
    andThen (settle (sv_lib sv) runId at_time) (\<lambda>settlement.
    case settlement of
      None \<Rightarrow> ret None
    | Some settled \<Rightarrow>
        andThen (getDiscussion_or_throw (ws_discussionId settled)) (\<lambda>discussion.
        andThen (case ws_wave settled of
            None \<Rightarrow> mutationResult sv (d_discussionId discussion) [] []
          | Some wave \<Rightarrow>
              if w_state wave \<noteq> WS_open then mutationResult sv (d_discussionId discussion) [] []
              else andThen (if waveCompletionMode (d_policy discussion) = WC_read_only_quorum
                  then reconcileTerminalWaveTurns sv wave (ws_turns settled) else ret (ws_turns settled)) (\<lambda>turns.
                advance_after sv discussion wave (ws_turns settled) turns)) (\<lambda>result.
        ret (Some result)))))"

definition scheduled_by :: "DiscussionMutationResult option \<Rightarrow> RunRecord list" where
  "scheduled_by result = (case result of None \<Rightarrow> [] | Some r \<Rightarrow> mu_scheduledRuns r)"

definition onRunInputRequired :: "services \<Rightarrow> jstring \<Rightarrow> DiscussionMutationResult option action" where
  "onRunInputRequired sv runId =
    andThen (look (\<lambda>w. (getRun runId (wd_runs w), findTurnByRun runId (wd_store w)))) (\<lambda>(found, turn).
    case found of
      None \<Rightarrow> ret None
    | Some run \<Rightarrow>
        if run_state run \<noteq> RS_input_required \<or> turn = None then ret None
        else andThen now (\<lambda>at_time.
          andThen (end_run run RS_outcome_unknown (runtime_error ''DISCUSSION_INPUT_REQUIRED''
            ''This Discussion Runtime requires human input that the Wave cannot resume.'') at_time) (\<lambda>terminal.
          onRunTerminal sv (run_runId terminal))))"

section \<open>Sweeps and recovery\<close>

definition terminal_run_results :: "services \<Rightarrow> DiscussionTurn \<Rightarrow> RunRecord list action" where
  "terminal_run_results sv turn =
    (case truthy (t_runId turn) of None \<Rightarrow> ret []
     | Some runId \<Rightarrow>
         andThen (look (\<lambda>w. getRun runId (wd_runs w))) (\<lambda>found.
         case found of
           None \<Rightarrow> ret []
         | Some run \<Rightarrow>
             if \<not> terminalRunState (run_state run) then ret []
             else andThen (onRunTerminal sv (run_runId run)) (\<lambda>result. ret (scheduled_by result))))"

text \<open>The loop over the Turns of a Wave that stops once the Wave is no longer open.\<close>

fun quorum_turns :: "services \<Rightarrow> jstring \<Rightarrow> DiscussionTurn list \<Rightarrow> RunRecord list action" where
  "quorum_turns sv waveId [] = ret []"
| "quorum_turns sv waveId (turn # turns) =
    (case truthy (t_runId turn) of None \<Rightarrow> quorum_turns sv waveId turns
     | Some runId \<Rightarrow>
         andThen (look (\<lambda>w. getRun runId (wd_runs w))) (\<lambda>found.
         if (case found of None \<Rightarrow> True | Some run \<Rightarrow> \<not> terminalRunState (run_state run))
         then quorum_turns sv waveId turns
         else andThen (onRunTerminal sv runId) (\<lambda>result.
           andThen (look (\<lambda>w. case getWave waveId (wd_store w) of None \<Rightarrow> False | Some v \<Rightarrow> w_state v = WS_open)) (\<lambda>still_open.
           andThen (if still_open then quorum_turns sv waveId turns else ret []) (\<lambda>others.
           ret (scheduled_by result @ others))))))"

definition due_quorum :: "services \<Rightarrow> timestamp \<Rightarrow> DiscussionWave \<Rightarrow> RunRecord list action" where
  "due_quorum sv at_time wave =
    andThen (look (\<lambda>w. getDiscussion (w_discussionId wave) (wd_store w))) (\<lambda>found.
    if (case found of None \<Rightarrow> True | Some d \<Rightarrow> waveCompletionMode (d_policy d) \<noteq> WC_read_only_quorum \<or>
        quorumSoftDeadline (w_createdAt wave) (quorumSoftDeadlineSeconds (d_policy d)) > at_time)
    then ret []
    else andThen (look (\<lambda>w. listTurnsForWave (w_waveId wave) (wd_store w))) (quorum_turns sv (w_waveId wave)))"

definition reconcileDueQuorums :: "services \<Rightarrow> timestamp \<Rightarrow> RunRecord list action" where
  "reconcileDueQuorums sv at_time =
    andThen (look (\<lambda>w. listOpenWaves (wd_store w))) (\<lambda>waves.
    andThen (collect_each (due_quorum sv at_time) waves) (\<lambda>scheduled.
    ret (map snd (add_runs (concat scheduled) []))))"

definition on_terminal :: "services \<Rightarrow> jstring \<Rightarrow> RunRecord list action" where
  "on_terminal sv runId = andThen (onRunTerminal sv runId) (\<lambda>result. ret (scheduled_by result))"

definition expireDue :: "services \<Rightarrow> RunRecord list action" where
  "expireDue sv = expireDueWaves (ensureRun 2 sv) (on_terminal sv)"

definition sweepDueWaves :: "services \<Rightarrow> RunRecord list action" where
  "sweepDueWaves sv =
    andThen now (\<lambda>at_time.
    andThen (reconcileDueQuorums sv at_time) (\<lambda>quorums.
    andThen (expireDue sv) (\<lambda>expired.
    ret (map snd (add_runs (quorums @ expired) [])))))"

definition recoverActiveWithoutWave :: "services \<Rightarrow> DiscussionRecord \<Rightarrow> RunRecord list action" where
  "recoverActiveWithoutWave sv discussion =
    andThen now (\<lambda>measured.
    let current = discussion\<lparr>d_budget := refreshElapsedBudget discussion measured\<rparr>;
        decision = decision_of current None in
    andThen (if \<not> pd_grantAutomaticLease decision then ret (current, [])
      else andThen (pure (grantDiscussionLease (d_budget current) (d_policy current) None Lease_automatic)) (\<lambda>extended.
        let leased = current\<lparr>d_budget := extended\<rparr> in
        andThen (newBudgetEvent leased BE_extension_granted (leaseEndTurn extended - leaseEndTurn (d_budget current))
          (Some (durationSeconds extended)) (lease_metadata ''automatic'') 0) (\<lambda>event. ret (leased, [event])))) (\<lambda>(leased, events).
    if pd_action decision = DA_continue then planContinuation sv (reconcile sv) leased events
    else if pd_action decision = DA_finalize
    then andThen (look (\<lambda>w. pd_reason decision = Some SR_hard_budget_exhausted \<and> current_wave leased = 0 \<and>
        listWaves (d_discussionId leased) (wd_store w) = [])) (\<lambda>never_started.
      if never_started
      then andThen (appendFallbackConclusion leased (d_rootMessageId leased)) (\<lambda>_.
        andThen now (\<lambda>at_time.
        andThen (persistDecision leased (decision\<lparr>pd_state := DS_terminated\<rparr>) events (Some at_time)) (\<lambda>_. ret [])))
      else planFinalization sv (reconcile sv) leased (decision\<lparr>pd_grantAutomaticLease := False\<rparr>) events)
    else andThen (if pd_action decision = DA_cancel \<or> pd_action decision = DA_terminate
        then andThen now (\<lambda>t. ret (Some t)) else ret None) (\<lambda>terminalAt.
      andThen (persistDecision leased (decision\<lparr>pd_grantAutomaticLease := False\<rparr>) events terminalAt) (\<lambda>_. ret []))))"

definition recover_active :: "services \<Rightarrow> DiscussionRecord \<Rightarrow> RunRecord list action" where
  "recover_active sv discussion =
    andThen (look (\<lambda>w. \<exists>v\<in>set (listWaves (d_discussionId discussion) (wd_store w)). w_state v = WS_open)) (\<lambda>has_open.
    if d_state discussion \<noteq> DS_active \<or> has_open then ret [] else recoverActiveWithoutWave sv discussion)"

definition still_scheduled :: "timestamp \<Rightarrow> world \<Rightarrow> RunRecord \<Rightarrow> bool" where
  "still_scheduled at_time w run \<longleftrightarrow>
     run_state run = RS_queued \<and>
     (case findTurnByRun (run_runId run) (wd_store w) of None \<Rightarrow> False
      | Some turn \<Rightarrow> (case truthy (t_waveId turn) of None \<Rightarrow> False
        | Some i \<Rightarrow> (case getWave i (wd_store w) of None \<Rightarrow> False
          | Some v \<Rightarrow> w_state v = WS_open \<and> w_deadlineAt v > at_time \<and>
              (case getDiscussion (t_discussionId turn) (wd_store w) of None \<Rightarrow> False
               | Some d \<Rightarrow> \<not> terminalDiscussionState (d_state d)))))"

definition recover :: "services \<Rightarrow> RunRecord list action" where
  "recover sv =
    andThen (closeCanceledWaves (\<lambda>runId. andThen (onRunTerminal sv runId) (\<lambda>_. ret ()))) (\<lambda>_.
    andThen now (\<lambda>at_time.
    andThen (reconcileDueQuorums sv at_time) (\<lambda>quorums.
    andThen (expireDue sv) (\<lambda>expired.
    andThen (look (\<lambda>w. listOpen (wd_store w))) (\<lambda>open1.
    andThen (collect_each (recover_active sv) open1) (\<lambda>recovered.
    andThen (look (\<lambda>w. listOpen (wd_store w))) (\<lambda>open2.
    andThen (collect_each (\<lambda>d. reconcile sv (d_discussionId d)) open2) (\<lambda>reconciled.
    andThen (look (\<lambda>w. listOpenWaves (wd_store w))) (\<lambda>waves.
    andThen (collect_each (\<lambda>wave.
      andThen (look (\<lambda>w. listTurnsForWave (w_waveId wave) (wd_store w))) (\<lambda>turns.
      collect_each (terminal_run_results sv) turns)) waves) (\<lambda>ended.
    look (\<lambda>w. filter (still_scheduled at_time w) (map snd (add_runs
      (quorums @ expired @ concat recovered @ concat reconciled @ concat (concat ended)) [])))))))))))))"

section \<open>Control\<close>

datatype control_action = Ctl_finish | Ctl_stop_after_turn | Ctl_pause | Ctl_cancel | Ctl_continue | Ctl_adjust_goal

fun control_text :: "control_action \<Rightarrow> jstring" where
  "control_text Ctl_finish = lit ''finish''"
| "control_text Ctl_stop_after_turn = lit ''stop_after_turn''"
| "control_text Ctl_pause = lit ''pause''"
| "control_text Ctl_cancel = lit ''cancel''"
| "control_text Ctl_continue = lit ''continue''"
| "control_text Ctl_adjust_goal = lit ''adjust_goal''"

fun discussion_state_text :: "DiscussionState \<Rightarrow> jstring" where
  "discussion_state_text DS_active = lit ''active''"
| "discussion_state_text DS_stop_requested = lit ''stop_requested''"
| "discussion_state_text DS_waiting_human = lit ''waiting_human''"
| "discussion_state_text DS_awaiting_extension = lit ''awaiting_extension''"
| "discussion_state_text DS_paused = lit ''paused''"
| "discussion_state_text DS_finalizing = lit ''finalizing''"
| "discussion_state_text DS_completed = lit ''completed''"
| "discussion_state_text DS_canceled = lit ''canceled''"
| "discussion_state_text DS_terminated = lit ''terminated''"

record control_input =
  ct_action :: control_action
  ct_goal :: "jstring option"
  ct_extensionTurns :: "int option"

definition resumable :: "DiscussionState \<Rightarrow> bool" where
  "resumable st \<longleftrightarrow> st \<in> {DS_awaiting_extension, DS_waiting_human, DS_paused}"

definition latestOpenWave :: "jstring \<Rightarrow> discussion_store \<Rightarrow> DiscussionWave option" where
  "latestOpenWave discussionId s =
    (let waves = filter (\<lambda>v. w_state v = WS_open) (listWaves discussionId s) in
     if waves = [] then None else Some (last waves))"

definition scheduled_result :: "services \<Rightarrow> jstring \<Rightarrow> RunRecord list action \<Rightarrow> DiscussionMutationResult action" where
  "scheduled_result sv discussionId m = andThen m (\<lambda>scheduled. mutationResult sv discussionId scheduled [])"

definition control_cancel :: "services \<Rightarrow> DiscussionRecord \<Rightarrow> DiscussionWave option \<Rightarrow> DiscussionMutationResult action" where
  "control_cancel sv discussion activeWave =
    andThen (look (\<lambda>w. case activeWave of None \<Rightarrow> []
      | Some wave \<Rightarrow> List.map_filter (\<lambda>t. if terminalTurnState (t_state t) then None else truthy (t_runId t))
          (listTurnsForWave (w_waveId wave) (wd_store w)))) (\<lambda>cancelRunIds.
    andThen now (\<lambda>terminalAt.
    andThen (persistDecision discussion (decision_of discussion (Some Intent_cancel)) [] (Some terminalAt)) (\<lambda>_.
    mutationResult sv (d_discussionId discussion) [] cancelRunIds)))"

text \<open>Both ways to resume a Discussion, with the budget already prepared.\<close>

definition resume :: "services \<Rightarrow> DiscussionRecord \<Rightarrow> DiscussionRecord \<Rightarrow> DiscussionBudgetEvent option \<Rightarrow>
    DiscussionMutationResult action" where
  "resume sv bounded active event =
    (let events = (case event of None \<Rightarrow> [] | Some e \<Rightarrow> [e]) in
     if hardBoundaryReached (inspectBudget (d_budget bounded) (d_policy bounded))
     then scheduled_result sv (d_discussionId bounded)
       (planFinalization sv (reconcile sv) bounded (decision_of bounded None) events)
     else scheduled_result sv (d_discussionId bounded) (planContinuation sv (reconcile sv) active events))"

definition control_adjust_goal :: "services \<Rightarrow> DiscussionRecord \<Rightarrow> DiscussionWave option \<Rightarrow> control_input \<Rightarrow>
    DiscussionMutationResult action" where
  "control_adjust_goal sv discussion activeWave input =
    andThen (check (\<not> (activeWave \<noteq> None \<or> \<not> resumable (d_state discussion)))
      (ErrorText ''Discussion cannot adjust its goal from '' (discussion_state_text (d_state discussion)))) (\<lambda>_.
    let goal = (case ct_goal input of None \<Rightarrow> [] | Some g \<Rightarrow> trim g) in
    andThen (check (\<not> (length goal = 0 \<or> length goal > 20000))
      (Error ''Adjusted goal must contain 1 to 20000 characters'')) (\<lambda>_.
    andThen (prepareResumeBudget discussion (ct_extensionTurns input)) (\<lambda>(budget, event).
    andThen now (\<lambda>at_time.
    andThen (on_store (updateGoal (d_discussionId discussion) (d_version discussion) goal at_time)) (\<lambda>updated.
    let adjusted = updated\<lparr>d_budget := budget\<rparr> in resume sv adjusted adjusted event)))))"

definition control_continue :: "services \<Rightarrow> DiscussionRecord \<Rightarrow> DiscussionWave option \<Rightarrow> control_input \<Rightarrow>
    DiscussionMutationResult action" where
  "control_continue sv discussion activeWave input =
    andThen (check (resumable (d_state discussion))
      (ErrorText ''Discussion cannot continue from '' (discussion_state_text (d_state discussion)))) (\<lambda>_.
    andThen (check (activeWave = None) (Error ''Discussion cannot continue while a Wave is still open'')) (\<lambda>_.
    andThen (prepareResumeBudget discussion (ct_extensionTurns input)) (\<lambda>(budget, event).
    let bounded = discussion\<lparr>d_budget := budget\<rparr> in
    resume sv bounded
      (bounded\<lparr>d_state := DS_active, d_stateReason := None, d_requestedAction := None\<rparr>) event)))"

definition requested_of :: "control_action \<Rightarrow> requested_action" where
  "requested_of a = (case a of Ctl_pause \<Rightarrow> RA_pause | Ctl_stop_after_turn \<Rightarrow> RA_stop_after_turn | _ \<Rightarrow> RA_finish)"

definition control_stop :: "services \<Rightarrow> DiscussionRecord \<Rightarrow> DiscussionWave option \<Rightarrow> control_action \<Rightarrow>
    DiscussionMutationResult action" where
  "control_stop sv discussion activeWave a =
    (if activeWave \<noteq> None
     then andThen now (\<lambda>at_time.
       andThen (on_store (requestAction (d_discussionId discussion) (d_version discussion) (Some (requested_of a))
         DS_stop_requested (Some (if a = Ctl_pause then SR_user_paused else SR_user_requested_finish)) at_time)) (\<lambda>_.
       mutationResult sv (d_discussionId discussion) [] []))
     else let decision = decision_of discussion (Some (user_intent (requested_of a))) in
       if pd_action decision = DA_finalize
       then scheduled_result sv (d_discussionId discussion) (planFinalization sv (reconcile sv) discussion decision [])
       else andThen (persistDecision discussion decision [] None) (\<lambda>_.
         mutationResult sv (d_discussionId discussion) [] []))"

definition control :: "services \<Rightarrow> WebPrincipal \<Rightarrow> jstring \<Rightarrow> control_input \<Rightarrow> DiscussionMutationResult action" where
  "control sv who discussionId input =
    andThen (getDiscussion_or_throw discussionId) (\<lambda>discussion.
    andThen (look (\<lambda>w. requireRoomMember who (d_roomId discussion) (wd_team w))) (\<lambda>allowed.
    andThen (pure allowed) (\<lambda>member.
    andThen (check (\<not> (mp_memberId member \<noteq> d_requesterMemberId discussion \<and> mp_role member \<noteq> Owner))
      (Error ''Discussion control is limited to its requester or Team Owner'')) (\<lambda>_.
    if terminalDiscussionState (d_state discussion) then mutationResult sv discussionId [] []
    else andThen (look (\<lambda>w. latestOpenWave discussionId (wd_store w))) (\<lambda>activeWave.
    if ct_action input = Ctl_cancel then control_cancel sv discussion activeWave
    else if d_state discussion = DS_finalizing
    then (if ct_action input = Ctl_finish \<or> ct_action input = Ctl_stop_after_turn
      then mutationResult sv discussionId [] []
      else raise (ErrorText ''Discussion cannot '' (control_text (ct_action input) @ lit '' while finalizing'')))
    else if ct_action input = Ctl_adjust_goal then control_adjust_goal sv discussion activeWave input
    else if ct_action input = Ctl_continue then control_continue sv discussion activeWave input
    else control_stop sv discussion activeWave (ct_action input))))))"

section \<open>Creation\<close>

record create_input =
  ci_roomId :: jstring
  ci_taskId :: "jstring option"
  ci_goal :: jstring
  ci_participantAgentIds :: "jstring list"
  ci_mode :: "DiscussionMode option"
  ci_outputMode :: "DiscussionOutputMode option"
  ci_policy :: policy_overrides

definition creation_task :: "create_input \<Rightarrow> team_room \<Rightarrow> TaskRow option" where
  "creation_task input t = (case truthy (ci_taskId input) of
     Some i \<Rightarrow> getTask i t | None \<Rightarrow> getDefaultForRoom (ci_roomId input) t)"

definition participant_agent :: "RoomRecord \<Rightarrow> TaskRow \<Rightarrow> team_room \<Rightarrow> jstring \<Rightarrow> AgentRecord throwing" where
  "participant_agent rm task t agentId = (case getAgent agentId t of
       None \<Rightarrow> Inl (ErrorText ''Discussion participant is unavailable: '' agentId)
     | Some agent \<Rightarrow>
         bind (ensure (\<not> (\<not> a_enabled agent \<or> a_teamId agent \<noteq> r_teamId rm \<or> \<not> isRoomAgent (r_roomId rm) agentId t))
           (ErrorText ''Discussion participant is unavailable: '' agentId)) (\<lambda>_.
         bind (ensure (tk_isDefault task \<or> (\<exists>a\<in>set (tk_assignments task). ta_agentId a = agentId))
           (ErrorText ''Discussion participant is not assigned: '' agentId)) (\<lambda>_. Inr agent)))"

text \<open>The checks before anything is written: the Task, the Agents and the policy.\<close>

definition check_creation :: "WebPrincipal \<Rightarrow> create_input \<Rightarrow> world \<Rightarrow>
    (MemberPrincipal \<times> TaskRow \<times> AgentRecord list \<times> DiscussionPolicy) throwing" where
  "check_creation who input w = (let t = wd_team w; ids = ci_participantAgentIds input in
    bind (requireRoomMember who (ci_roomId input) t) (\<lambda>member.
    bind (ensure (\<not> (length (trim (ci_goal input)) = 0 \<or> length (ci_goal input) > 20000))
      (Error ''Discussion goal must contain 1 to 20000 characters'')) (\<lambda>_.
    bind (ensure (\<not> (length ids < 2 \<or> int (length ids) > maximumParticipants))
      (Error ''Discussion requires 2 to 5 participants'')) (\<lambda>_.
    bind (ensure (length (js_set ids) = length ids) (Error ''Discussion participants must be unique'')) (\<lambda>_.
    case getRoom (ci_roomId input) t of
      None \<Rightarrow> Inl (ErrorText ''Room not found: '' (ci_roomId input))
    | Some rm \<Rightarrow>
    bind (ensure (allowDiscussion (r_collaborationPolicy rm))
      (Error ''Room policy does not allow Agent Discussions'')) (\<lambda>_.
    case creation_task input t of
      None \<Rightarrow> Inl (Error ''Discussion Task must be runnable in the target Room'')
    | Some task \<Rightarrow>
    bind (ensure (\<not> (tk_roomId task \<noteq> ci_roomId input \<or> \<not> task_open task))
      (Error ''Discussion Task must be runnable in the target Room'')) (\<lambda>_.
    bind (case find (\<lambda>d. d_taskId d = tk_taskId task \<and> \<not> terminalDiscussionState (d_state d))
        (listForRoom (ci_roomId input) (wd_store w)) of
        None \<Rightarrow> Inr ()
      | Some d \<Rightarrow> Inl (ErrorText ''Task already has an active Discussion: '' (d_discussionId d))) (\<lambda>_.
    bind (for_each (\<lambda>i acc. bind (participant_agent rm task t i) (\<lambda>a. Inr (acc @ [a]))) (js_set ids) []) (\<lambda>agents.
    bind (resolvePolicy (ci_policy input)) (\<lambda>policy.
    bind (ensure (\<not> (requireReviewer policy \<and> ci_mode input \<noteq> Some Mode_review))
      (Error ''Reviewer-required Discussion policy requires review mode'')) (\<lambda>_.
    bind (ensure (\<not> (waveCompletionMode policy = WC_read_only_quorum \<and>
        (quorumMinimumCompleted policy > int (length agents) \<or> (\<exists>a\<in>set agents. \<not> isQuorumCapableAgent a t))))
      (Error ''Read-only quorum requires managed supplemental-capable read-only participants'')) (\<lambda>_.
    Inr (member, task, agents, policy)))))))))))))"

definition new_discussion :: "jstring \<Rightarrow> create_input \<Rightarrow> MemberPrincipal \<Rightarrow> TaskRow \<Rightarrow> jstring \<Rightarrow> DiscussionPolicy \<Rightarrow>
    timestamp \<Rightarrow> DiscussionRecord" where
  "new_discussion discussionId input member task rootMessageId policy at_time =
    \<lparr>d_discussionId = discussionId, d_roomId = ci_roomId input, d_taskId = tk_taskId task,
     d_rootMessageId = rootMessageId, d_requesterMemberId = mp_memberId member, d_goal = trim (ci_goal input),
     d_mode = (case ci_mode input of None \<Rightarrow> Mode_round_robin | Some m \<Rightarrow> m), d_state = DS_active,
     d_stateReason = None,
     d_outputMode = (case ci_outputMode input of None \<Rightarrow> OM_final_answer | Some m \<Rightarrow> m), d_policy = policy,
     d_progress = emptyProgressSnapshot, d_budget = emptyBudgetSnapshot (initialLeaseTurns policy),
     d_executionModel = Some Exec_parallel_wave, d_currentTurn = 0, d_currentWave = Some 0,
     d_nextSpeakerIndex = 0, d_requestedAction = None, d_version = 1,
     d_deadlineAt = at_time + maxDurationSeconds policy * 1000, d_createdAt = at_time, d_updatedAt = at_time,
     d_terminalAt = None\<rparr>"

definition new_participants :: "DiscussionRecord \<Rightarrow> jstring list \<Rightarrow> DiscussionParticipant list" where
  "new_participants discussion ids =
    map (\<lambda>(i, agentId). \<lparr>p_discussionId = d_discussionId discussion, p_ordinal = int i, p_agentId = agentId,
      p_role = (if d_mode discussion = Mode_review \<and> i = length ids - 1 then Role_reviewer else Role_participant)\<rparr>)
      (enumerate 0 ids)"

definition initial_event :: "jstring \<Rightarrow> DiscussionRecord \<Rightarrow> DiscussionBudgetEvent" where
  "initial_event budgetEventId discussion =
    \<lparr>be_budgetEventId = budgetEventId, be_discussionId = d_discussionId discussion, be_ordinal = 1,
     be_eventType = BE_lease_granted, be_turns = initialLeaseTurns (d_policy discussion), be_durationSeconds = 0,
     be_metadata = lease_metadata ''initial'', be_createdAt = d_createdAt discussion\<rparr>"

definition create_root_message :: "WebPrincipal \<Rightarrow> create_input \<Rightarrow> TaskRow \<Rightarrow> AgentRecord list \<Rightarrow> timestamp \<Rightarrow>
    MessageRecord action" where
  "create_root_message who input task agents at_time =
    andThen (createOpaqueId ''msg'') (\<lambda>messageId.
    andThen (createOpaqueId ''trace'') (\<lambda>trace.
    andThen (on_messages (createMemberMessageResult messageId trace who
      \<lparr>cm_roomId = ci_roomId input, cm_taskId = Some (tk_taskId task), cm_content = trim (ci_goal input),
       cm_mentions = Some (map (\<lambda>a. \<lparr>mn_targetAgentId = a_agentId a,
         mn_displayLabel = agentMentionDisplayLabel (a_name a) (a_role a)\<rparr>) agents),
       cm_parentMessageId = None, cm_clientMessageId = None, cm_now = at_time\<rparr>)) (\<lambda>(created, m). ret m)))"

definition createWithinTransaction :: "services \<Rightarrow> WebPrincipal \<Rightarrow> create_input \<Rightarrow> DiscussionMutationResult action" where
  "createWithinTransaction sv who input =
    andThen now (\<lambda>at_time.
    andThen (look (check_creation who input)) (\<lambda>checked.
    andThen (pure checked) (\<lambda>(member, task, agents, policy).
    andThen (create_root_message who input task agents at_time) (\<lambda>root_message.
    andThen (createOpaqueId ''discussion'') (\<lambda>discussionId.
    let discussion = new_discussion discussionId input member task (msg_messageId root_message) policy at_time;
        participants = new_participants discussion (js_set (ci_participantAgentIds input)) in
    andThen (createOpaqueId ''budget'') (\<lambda>budgetEventId.
    andThen (on_store (\<lambda>s. bind (createDiscussion discussion participants (initial_event budgetEventId discussion) s)
      (\<lambda>s. Inr ((), s)))) (\<lambda>_.
    andThen (persistWavePlan sv discussion participants (msg_messageId root_message) Kind_discussion continue_decision
      (d_budget discussion) []) (\<lambda>_.
    scheduled_result sv discussionId (reconcile sv discussionId)))))))))"

definition create :: "services \<Rightarrow> WebPrincipal \<Rightarrow> create_input \<Rightarrow> DiscussionMutationResult action" where
  "create sv who input = atomic (createWithinTransaction sv who input)"

section \<open>Queries\<close>

definition list_discussions :: "services \<Rightarrow> WebPrincipal \<Rightarrow> jstring \<Rightarrow> DiscussionView list action" where
  "list_discussions sv who roomId =
    andThen (look (\<lambda>w. requireRoomMember who roomId (wd_team w))) (\<lambda>allowed.
    andThen (pure allowed) (\<lambda>_.
    andThen (look (\<lambda>w. listForRoom roomId (wd_store w))) (collect_each (\<lambda>d. view sv (d_discussionId d)))))"

definition get_discussion :: "services \<Rightarrow> WebPrincipal \<Rightarrow> jstring \<Rightarrow> DiscussionView action" where
  "get_discussion sv who discussionId =
    andThen (getDiscussion_or_throw discussionId) (\<lambda>discussion.
    andThen (look (\<lambda>w. requireRoomMember who (d_roomId discussion) (wd_team w))) (\<lambda>allowed.
    andThen (pure allowed) (\<lambda>_. view sv discussionId)))"

end
