(* ===== verification/Orchestrator_Relation.thy ===== *)
theory Orchestrator_Relation
  imports Discussion_Control
begin

text \<open>
  What every method of the orchestrator does to the world, for any reflexive and transitive
  relation that the steps of a method respect. The locales follow the layers of the services:
  methods that only read, draw ids and append messages; methods that also use the operations of
  the repositories which plan no Wave; reconciliation; the entry points. A relation that
  satisfies the laws of a layer is respected by all its methods.
\<close>

named_theorems orchestrator

lemma closed_waveCloseState [simp]: "closed_state (waveCloseState ts)"
  by (simp add: closed_state_def waveCloseState_def Let_def)

lemma goesD: "goes R m \<Longrightarrow> R w (snd (m w))"
  by (simp add: goes_def)

lemma new_run_fresh: "yields fresh_run (new_run sv d v t m p)"
  by (auto simp: yields_def new_run_def andThen_def now_def createOpaqueId_def look_def pure_def ret_def fresh_run_def
      split: sum.splits)

lemma ready_wave_close [simp]: "rw_closeState (ready_wave d v dec row p b es st nw seal t) = st"
  by (simp add: ready_wave_def Discussion_Repository.decision_input.defs)

section \<open>Reading, ids and messages\<close>

locale message_relation = world_relation +
  assumes message: "appendWithResult trace message (wd_team w) = Inr (r, t) \<Longrightarrow>
    R w (w\<lparr>wd_runs := (wd_runs w)\<lparr>rs_team := t\<rparr>\<rparr>)"
begin

lemma goes_append_message [simp, intro!]: "goes R (append_message m)"
  unfolding append_message_def
proof (intro goes_andThen goes_createOpaqueId goes_on_messages)
  fix trace w x t
  assume "appendMessage trace m (wd_team w) = Inr (x, t)"
  then obtain r where "appendWithResult trace m (wd_team w) = Inr (r, t)"
    by (auto simp: appendMessage_def bind_eq_Inr)
  then show "R w (w\<lparr>wd_runs := (wd_runs w)\<lparr>rs_team := t\<rparr>\<rparr>)" by (rule message)
qed

lemma goes_anchor [orchestrator]:
  "goes R (uniqueWaveAnchor d ps m t)"
  "goes R (ensureWaveResultAnchor d v ts t)"
  "goes R (appendFallbackConclusion d m)"
  unfolding uniqueWaveAnchor_def ensureWaveResultAnchor_def appendFallbackConclusion_def Let_def by auto

lemma goes_getDiscussion [orchestrator]: "goes R (getDiscussion_or_throw i)"
  unfolding getDiscussion_or_throw_def by auto

lemma goes_newBudgetEvent [orchestrator]: "goes R (newBudgetEvent d ty n dur md off)"
  unfolding newBudgetEvent_def by auto

lemma goes_newDecision [orchestrator]: "goes R (newDecision d dec p a t)"
  unfolding newDecision_def by auto

lemma goes_prepare [orchestrator]: "goes R (prepareResumeBudget d n)"
  unfolding prepareResumeBudget_def Let_def by (auto intro!: orchestrator)

lemma goes_plan_wave [orchestrator]: "goes R (plan_wave L d sel m k t)"
  unfolding plan_wave_def by auto

lemma goes_new_run [orchestrator]: "goes R (new_run sv d v t m p)"
  unfolding new_run_def by auto

lemma goes_view [orchestrator]: "goes R (view sv i)"
  unfolding view_def by (auto intro!: orchestrator)

lemma goes_mutationResult [orchestrator]: "goes R (mutationResult sv i rs cs)"
  unfolding mutationResult_def by (auto intro!: orchestrator)

lemma goes_evaluate [orchestrator]: "goes R (evaluate_wave sv d v rs)"
  unfolding evaluate_wave_def by auto

lemma goes_feasible [orchestrator]: "goes R (feasible_decision d ps m dec)"
  unfolding feasible_decision_def by (auto intro!: orchestrator)

lemma goes_lease [orchestrator]: "goes R (automatic_lease d dec b es)"
  unfolding automatic_lease_def by (auto intro!: orchestrator)

lemma goes_next_wave [orchestrator]: "goes R (next_wave sv d ps m dec p b es t)"
  unfolding next_wave_def Let_def by (auto intro!: orchestrator)

lemma goes_check_open_wave [orchestrator]: "goes R (check_open_wave sv v)"
  unfolding check_open_wave_def by (auto split: option.splits DiscussionWaveState.splits)

lemma goes_quorumSeal [orchestrator]: "goes R (quorumSealIfReady sv d v ts)"
  unfolding quorumSealIfReady_def Let_def by auto

lemma goes_scheduled [orchestrator]: "goes R m \<Longrightarrow> goes R (scheduled_result sv i m)"
  unfolding scheduled_result_def by (auto intro!: orchestrator)

lemma goes_member_message:
  "goes R (on_messages (createMemberMessageResult i tr who input))"
proof (rule goes_on_messages)
  fix w x t assume "createMemberMessageResult i tr who input (wd_team w) = Inr (x, t)"
  then obtain message where "appendWithResult tr message (wd_team w) = Inr (x, t)"
    by (auto simp: createMemberMessageResult_def bind_eq_Inr bind_ensure_eq_Inr Let_def split: option.splits)
  then show "R w (w\<lparr>wd_runs := (wd_runs w)\<lparr>rs_team := t\<rparr>\<rparr>)" by (rule message)
qed

lemma goes_root_message [orchestrator]: "goes R (create_root_message who input task agents t)"
  unfolding create_root_message_def by (auto intro!: goes_member_message)

end

section \<open>Operations that plan no Wave\<close>

locale service_relation = message_relation +
  fixes L :: text_lib
  assumes run: "run_op (wd_runs w) s \<Longrightarrow> R w (w\<lparr>wd_runs := s\<rparr>)"
    and store: "repo_step L (wd_store w) d \<Longrightarrow> quiet (wd_store w) d \<Longrightarrow> R w (w\<lparr>wd_store := d\<rparr>)"
begin

lemma goes_settleTurn [intro]: "terminalTurnState (si_state input) \<Longrightarrow> goes R (on_store (settleTurn input))"
  by (auto intro!: goes_on_store store step_settle settle_quiet)

lemma goes_bind_run [simp, intro!]:
  "goes R (on_store (bindTurnRun i r TS_queued t))"
  "goes R (on_store (bindTurnRun i r (if c then TS_working else TS_queued) t))"
  by (auto intro!: goes_on_store store bind_quiet elim!: step_bind)

lemma goes_reanchor [simp, intro!]: "goes R (on_store (reanchorPlannedWave i m t))"
  by (auto intro!: goes_on_store store reanchor_quiet step_reanchor)

lemma goes_update [simp, intro!]: "goes R (on_store (recordDecisionAndUpdate di t None))"
  by (auto intro!: goes_on_store store elim!: update_quiet step_update)

lemma goes_close [intro]: "closed_state st \<Longrightarrow> goes R (on_store (closeWave i v st t))"
  by (auto intro!: goes_on_store store closeWave_quiet step_close)

lemma goes_finish [intro]:
  "closed_state wst \<Longrightarrow> goes R (on_store (closeFinalizationAndFinish i v st wi wv wst t))"
  by (auto intro!: goes_on_store store finish_quiet step_finish)

lemma goes_request [simp, intro!]: "goes R (on_store (requestAction i v a st sr t))"
  by (auto intro!: goes_on_store store request_quiet step_request)

lemma goes_goal [simp, intro!]: "goes R (on_store (updateGoal i v g t))"
  by (auto intro!: goes_on_store store goal_quiet step_goal)

lemma goes_applyStatus [simp, intro!]: "goes R (on_runs (applyStatus i st err n t))"
  unfolding applyStatus_def by (intro goes_on_runs run) (rule op_event)

lemma goes_createRuns [intro]: "fresh_run r \<Longrightarrow> goes R (on_runs (createRuns [r]))"
  by (intro goes_on_runs run) (erule op_create, simp)

lemma goes_end_run [orchestrator]: "goes R (end_run run st err t)"
  unfolding end_run_def by (intro goes_andThen goes_pair) simp_all

lemma goes_settle [orchestrator]: "goes R (settle lib runId t)"
  unfolding settle_def
  by (auto simp: turn_settlement_def Let_def split: option.splits)

lemma goes_persistDecision [orchestrator]: "goes R (persistDecision d dec es t)"
  unfolding persistDecision_def by (auto intro!: orchestrator)

lemma goes_create_run [orchestrator]: "goes R (create_run sv d t)"
  unfolding create_run_def
  by (auto intro!: goes_yields[OF goes_new_run new_run_fresh] goes_createRuns split: option.splits)

lemma goes_ensureRun [orchestrator]: "goes R (ensureRun n sv t)"
proof (induction n arbitrary: t)
  case 0
  then show ?case by simp
next
  case (Suc n)
  then show ?case unfolding ensureRun.simps by (auto intro!: orchestrator)
qed

lemma goes_prepare_anchor [orchestrator]: "goes R (preparePlannedWaveAnchor i)"
  unfolding preparePlannedWaveAnchor_def by (auto intro!: orchestrator split: option.splits)

lemma goes_settle_unavailable [orchestrator]: "goes R (settle_unavailable t)"
  unfolding settle_unavailable_def by (auto simp: unavailable_turn_def)

lemma goes_settle_terminal [orchestrator]: "goes R (settle_terminal_run sv t)"
  unfolding settle_terminal_run_def by (auto intro!: orchestrator)

lemma goes_reconcileTurns [orchestrator]: "goes R (reconcileTerminalWaveTurns sv v ts)"
  unfolding reconcileTerminalWaveTurns_def by (auto intro!: orchestrator)

lemma goes_closeCanceledWaves [orchestrator]:
  assumes "\<And>i. goes R (f i)"
  shows "goes R (closeCanceledWaves f)"
  unfolding closeCanceledWaves_def closeCanceledWave_def cancelMember_def Let_def
  by (auto intro!: orchestrator assms goes_settleTurn goes_close simp: unavailable_turn_def split: option.splits)

end

section \<open>Reconciliation\<close>

locale reconciling = service_relation +
  fixes sv :: services
  assumes advance: "(\<And>i. goes R (again i)) \<Longrightarrow> goes R (advance_affected sv again i v)"
begin

lemma goes_reconcileDiscussion [orchestrator]: "goes R (reconcileDiscussion n sv i)"
proof (induction n arbitrary: i)
  case 0
  then show ?case by simp
next
  case (Suc n)
  then show ?case unfolding reconcileDiscussion.simps by (auto intro!: orchestrator advance)
qed

lemma goes_reconcile [orchestrator]: "goes R (reconcile sv i)"
  unfolding reconcile_def by (rule goes_reconcileDiscussion)

end

section \<open>Entry points\<close>

text \<open>
  The calls that reach the orchestrator, in any order and interleaved with what the rest of the
  server does to Runs and messages.
\<close>

inductive service_op :: "services \<Rightarrow> world \<Rightarrow> world \<Rightarrow> bool" for sv where
  op_create: "service_op sv w (snd (create sv who input w))"
| op_control: "service_op sv w (snd (control sv who i cinput w))"
| op_run_terminal: "service_op sv w (snd (onRunTerminal sv i w))"
| op_input_required: "service_op sv w (snd (onRunInputRequired sv i w))"
| op_sweep: "service_op sv w (snd (sweepDueWaves sv w))"
| op_recover: "service_op sv w (snd (recover sv w))"
| op_reconcile: "service_op sv w (snd (reconcile sv i w))"
| op_runs: "run_op (wd_runs w) s \<Longrightarrow> service_op sv w (w\<lparr>wd_runs := s\<rparr>)"
| op_message: "appendWithResult tr message (wd_team w) = Inr (r, t) \<Longrightarrow>
    service_op sv w (w\<lparr>wd_runs := (wd_runs w)\<lparr>rs_team := t\<rparr>\<rparr>)"

abbreviation service_ops :: "services \<Rightarrow> world \<Rightarrow> world \<Rightarrow> bool" where
  "service_ops sv \<equiv> (service_op sv)\<^sup>*\<^sup>*"

locale orchestrator_relation = reconciling +
  assumes terminal: "goes R (onRunTerminal sv i)"
    and continuation: "goes R (planContinuation sv (reconcile sv) d es)"
    and finalization: "goes R (planFinalization sv (reconcile sv) d dec es)"
    and creation: "goes R (create sv who input)"
begin

lemmas plans [orchestrator] = terminal continuation finalization creation

lemma goes_onRunInputRequired [orchestrator]: "goes R (onRunInputRequired sv i)"
  unfolding onRunInputRequired_def by (auto intro!: orchestrator split: option.splits)

lemma goes_terminal_run_results [orchestrator]: "goes R (terminal_run_results sv t)"
  unfolding terminal_run_results_def by (auto intro!: orchestrator)

lemma goes_quorum_turns [orchestrator]: "goes R (quorum_turns sv i ts)"
  by (induction ts) (auto intro!: orchestrator)

lemma goes_reconcileDueQuorums [orchestrator]: "goes R (reconcileDueQuorums sv t)"
  unfolding reconcileDueQuorums_def due_quorum_def by (auto intro!: orchestrator)

lemma goes_expireDue [orchestrator]: "goes R (expireDue sv)"
  unfolding expireDue_def expireDueWaves_def expireMember_def on_terminal_def Let_def by (auto intro!: orchestrator)

lemma goes_sweepDueWaves [orchestrator]: "goes R (sweepDueWaves sv)"
  unfolding sweepDueWaves_def by (auto intro!: orchestrator)

lemma goes_recoverActive [orchestrator]: "goes R (recoverActiveWithoutWave sv d)"
  unfolding recoverActiveWithoutWave_def Let_def by (auto intro!: orchestrator)

lemma goes_recover [orchestrator]: "goes R (recover sv)"
  unfolding recover_def recover_active_def by (auto intro!: orchestrator)

lemma goes_control [orchestrator]: "goes R (control sv who i input)"
  unfolding control_def control_cancel_def control_adjust_goal_def control_continue_def control_stop_def resume_def Let_def
  by (auto intro!: orchestrator)

text \<open>So the relation holds between the worlds before and after any calls.\<close>

lemma service_op: "service_op sv w w' \<Longrightarrow> R w w'"
proof (induction rule: service_op.induct)
  case (op_runs w s)
  then show ?case by (rule run)
next
  case (op_message tr m w r t)
  then show ?case by (rule message)
qed (auto intro!: goesD orchestrator)

lemma service_ops: "service_ops sv w w' \<Longrightarrow> R w w'"
  by (induction rule: rtranclp_induct) (auto intro: keep trans service_op)

end

end
