(* ===== verification/Orchestrator_Refinement.thy ===== *)
theory Orchestrator_Refinement
  imports Orchestrator_Relation
begin

text \<open>
  The orchestrator touches the stores only through the operations of the repositories: whatever
  one of its entry points does, and whenever it throws, the world it leaves is reached by steps
  of the Discussion store, transactions of the Run store and appended messages. So the
  invariants of both stores hold in every world the orchestrator can produce.
\<close>

section \<open>Steps of the world\<close>

interpretation steps: service_relation "world_steps L" L for L
  by unfold_locales (blast intro: world_message steps_run steps_store)+

lemma goes_apply [intro]:
  "closed_state (rw_closeState ri) \<Longrightarrow> goes (world_steps L) (on_store (closeReadyWaveAndApply L ri))"
  by (intro steps.goes_on_store steps_store) (rule step_apply)

lemma goes_plan [simp, intro!]: "goes (world_steps L) (on_store (recordDecisionAndPlanWave L di wave ts))"
  by (intro steps.goes_on_store steps_store) (rule step_plan)

lemma goes_persistWavePlan [orchestrator]:
  "goes (world_steps (sv_lib sv)) (persistWavePlan sv d ps m k dec b es)"
  unfolding persistWavePlan_def by (auto intro!: orchestrator)

lemma goes_advanceSettledWave [orchestrator]:
  assumes "\<And>i. goes (world_steps (sv_lib sv)) (again i)"
  shows "goes (world_steps (sv_lib sv)) (advanceSettledWave sv again d v ps ts seal)"
  unfolding advanceSettledWave_def
  by (auto intro!: orchestrator assms goes_apply simp: closed_state_def[of WS_partial])

lemma goes_advanceReadyWave [orchestrator]:
  assumes "\<And>i. goes (world_steps (sv_lib sv)) (again i)"
  shows "goes (world_steps (sv_lib sv)) (advanceReadyWave sv again d v ts)"
  unfolding advanceReadyWave_def Let_def by (auto intro!: orchestrator assms steps.goes_close steps.goes_finish)

lemma goes_advance_affected [orchestrator]:
  assumes "\<And>i. goes (world_steps (sv_lib sv)) (again i)"
  shows "goes (world_steps (sv_lib sv)) (advance_affected sv again i v)"
  unfolding advance_affected_def by (auto intro!: orchestrator assms split: option.splits)

interpretation steps: reconciling "world_steps (sv_lib sv)" "sv_lib sv" sv for sv
  by unfold_locales (rule goes_advance_affected)

lemma goes_planContinuation [orchestrator]:
  "goes (world_steps (sv_lib sv)) (planContinuation sv (reconcile sv) d es)"
  unfolding planContinuation_def by (auto intro!: orchestrator)

lemma goes_planFinalization [orchestrator]:
  "goes (world_steps (sv_lib sv)) (planFinalization sv (reconcile sv) d dec es)"
  unfolding planFinalization_def by (auto intro!: orchestrator)

lemma goes_advance_after [orchestrator]: "goes (world_steps (sv_lib sv)) (advance_after sv d v ts us)"
  unfolding advance_after_def Let_def by (auto intro!: orchestrator)

lemma goes_onRunTerminal [orchestrator]: "goes (world_steps (sv_lib sv)) (onRunTerminal sv i)"
  unfolding onRunTerminal_def by (auto intro!: orchestrator)

lemma steps_supply:
  "world_steps L w w' \<Longrightarrow> wd_ids w' = wd_ids w \<and> wd_clock w' = wd_clock w"
  by (induction rule: rtranclp_induct) (auto elim!: world_step.cases)

lemma goes_atomic: "goes (world_steps L) m \<Longrightarrow> goes (world_steps L) (atomic m)"
  unfolding goes_def
proof
  fix w assume m: "\<forall>w. world_steps L w (snd (m w))"
  obtain r w' where run: "m w = (r, w')" by (cases "m w")
  with m have steps: "world_steps L w w'" by (metis snd_conv)
  have "w'\<lparr>wd_store := wd_store w, wd_runs := wd_runs w\<rparr> = w\<lparr>wd_ticks := wd_ticks w', wd_drawn := wd_drawn w'\<rparr>"
    using steps_supply[OF steps] by (cases w; cases w') auto
  moreover have "world_steps L w (w\<lparr>wd_ticks := wd_ticks w', wd_drawn := wd_drawn w'\<rparr>)"
    by (rule steps.trans[OF steps.clock steps.drawn])
  ultimately show "world_steps L w (snd (atomic m w))" using run steps by (cases r) (auto simp: atomic_def)
qed

lemma goes_create_discussion:
  "d_currentWave d = Some 0 \<Longrightarrow>
   goes (world_steps L) (on_store (\<lambda>s. bind (createDiscussion d ps e s) (\<lambda>s. Inr ((), s))))"
  by (intro steps.goes_on_store steps_store) (auto simp: bind_eq_Inr intro: step_create)

lemma goes_create [orchestrator]: "goes (world_steps (sv_lib sv)) (create sv who input)"
  unfolding create_def createWithinTransaction_def create_root_message_def Let_def
  by (rule goes_atomic)
    (auto intro!: orchestrator steps.goes_member_message goes_create_discussion simp: new_discussion_def)

interpretation steps: orchestrator_relation "world_steps (sv_lib sv)" "sv_lib sv" sv for sv
  by unfold_locales (rule goes_onRunTerminal goes_planContinuation goes_planFinalization goes_create)+

definition initial_world :: "world \<Rightarrow> bool" where
  "initial_world w \<longleftrightarrow> wd_store w = empty_store \<and> no_runs (wd_runs w)"

section \<open>Property\<close>

text \<open>
  (C6) The orchestrator refines the repositories. From an empty database, whatever sequence of
  calls the orchestrator serves, interleaved with Runtime events and messages, and even when
  calls throw half way, the Discussion store is one the repository operations reach, and the Run
  store one that the Run transactions reach. In particular every Discussion has Waves numbered
  up to its current one with only the last possibly open, and every Run is the replay of its
  events.
\<close>

theorem orchestrator_refines_repositories:
  assumes "initial_world w0" and "service_ops sv w0 w"
  shows "reachable_store (sv_lib sv) (wd_store w) \<and> run_ops (wd_runs w0) (wd_runs w) \<and>
    store_inv (wd_store w) \<and> run_inv (wd_runs w)"
proof -
  have steps: "world_steps (sv_lib sv) w0 w" by (rule steps.service_ops[OF assms(2)])
  have "reachable_store (sv_lib sv) (wd_store w)"
    by (rule world_steps_store[OF steps]) (use assms(1) in \<open>simp add: initial_world_def reachable_store.start\<close>)
  moreover have "run_ops (wd_runs w0) (wd_runs w)" by (rule world_steps_runs[OF steps])
  ultimately show ?thesis
    using assms(1) run_history_inv[of "wd_runs w0" "wd_runs w"] reachable_inv[of "sv_lib sv" "wd_store w"]
    by (simp add: initial_world_def)
qed

section \<open>A concrete history\<close>

definition demo_services :: services where
  "demo_services = \<lparr>sv_lib = ascii_lib, sv_numberText = (\<lambda>_. lit ''0''),
     sv_sources = \<lparr>rf_artifact = (\<lambda>_. None), rf_result = (\<lambda>_. None), rf_memory = (\<lambda>_. None)\<rparr>\<rparr>"

definition demo_world :: world where
  "demo_world = \<lparr>wd_store = empty_store, wd_runs = demo_runs, wd_ids = (\<lambda>n. [of_nat n]), wd_drawn = 0,
     wd_clock = (\<lambda>n. 1000 * int n), wd_ticks = 0\<rparr>"

lemma demo_recovered: "wd_team (snd (recover demo_services demo_world)) = demo_team"
  by (simp add: recover_def closeCanceledWaves_def reconcileDueQuorums_def expireDue_def expireDueWaves_def
      andThen_def now_def look_def ret_def demo_world_def empty_store_def listOpenWaves_def listOpen_def demo_runs_def)

lemma demo_initial: "initial_world demo_world"
  by (simp add: initial_world_def demo_world_def no_demo_runs)

lemma demo_history: "\<exists>w. service_ops demo_services demo_world w \<and> tr_messages (wd_team w) \<noteq> []"
proof -
  define w where "w = snd (recover demo_services demo_world)"
  obtain r s where s: "appendWithResult [7] (demo_message [10] None) demo_team = Inr ((True, r), s)"
    "tr_messages s \<noteq> []"
    by (simp add: demo_append_simps)
  have "service_op demo_services demo_world w" unfolding w_def by (rule op_recover)
  moreover have "service_op demo_services w (w\<lparr>wd_runs := (wd_runs w)\<lparr>rs_team := s\<rparr>\<rparr>)"
    by (rule op_message[of "[7]" "demo_message [10] None" _ "(True, r)"]) (simp add: w_def demo_recovered s)
  ultimately have "service_ops demo_services demo_world (w\<lparr>wd_runs := (wd_runs w)\<lparr>rs_team := s\<rparr>\<rparr>)" by simp
  with s(2) show ?thesis by (intro exI[of _ "w\<lparr>wd_runs := (wd_runs w)\<lparr>rs_team := s\<rparr>\<rparr>"]) simp
qed

theorem orchestrator_refines_repositories_witness:
  "\<exists>w. service_ops demo_services demo_world w \<and> tr_messages (wd_team w) \<noteq> [] \<and>
     reachable_store ascii_lib (wd_store w) \<and> run_ops demo_runs (wd_runs w)"
proof -
  obtain w where hist: "service_ops demo_services demo_world w" "tr_messages (wd_team w) \<noteq> []"
    using demo_history by blast
  from orchestrator_refines_repositories[OF demo_initial hist(1)] hist show ?thesis
    by (intro exI[of _ w]) (simp add: demo_services_def demo_world_def)
qed

end
