(* ===== verification/Turn_Booking.thy ===== *)
theory Turn_Booking
  imports Orchestrator_Refinement
begin

text \<open>
  A quorum seal closes a Wave while some of its Turns are still running, so the next Wave must
  not give their Agents a second Turn. The rule sits in \<open>eligibleParticipantsForNextWave\<close>, far
  from the tables: it is shown here to keep every Agent at one live Turn per Discussion in every
  world the orchestrator reaches.
\<close>

section \<open>The store\<close>

definition one_turn_each :: "discussion_store \<Rightarrow> bool" where
  "one_turn_each s \<longleftrightarrow> (\<forall>t\<in>set (st_turns s). \<forall>u\<in>set (st_turns s).
     t_discussionId t = t_discussionId u \<longrightarrow> t_speakerAgentId t = t_speakerAgentId u \<longrightarrow>
     \<not> terminalTurnState (t_state t) \<longrightarrow> \<not> terminalTurnState (t_state u) \<longrightarrow> t_turnId t = t_turnId u)"

definition turns_homed :: "discussion_store \<Rightarrow> bool" where
  "turns_homed s \<longleftrightarrow> (\<forall>t\<in>set (st_turns s). \<exists>w\<in>set (st_waves s).
     t_waveId t = Some (w_waveId w) \<and> w_discussionId w = t_discussionId t)"

definition booked :: "discussion_store \<Rightarrow> bool" where
  "booked s \<longleftrightarrow> store_inv s \<and> one_turn_each s \<and> turns_homed s"

text \<open>No Agent of the list has a live Turn in the Discussion.\<close>

definition free_agents :: "jstring \<Rightarrow> jstring list \<Rightarrow> discussion_store \<Rightarrow> bool" where
  "free_agents i agents s \<longleftrightarrow> (\<forall>t\<in>set (st_turns s). t_discussionId t = i \<longrightarrow> t_speakerAgentId t \<in> set agents \<longrightarrow>
     terminalTurnState (t_state t))"

lemma kept_one_turn:
  assumes "list_all2 kept_turn (st_turns s) (st_turns s')" and "one_turn_each s"
  shows "one_turn_each s'"
  unfolding one_turn_each_def
proof (intro ballI impI)
  fix t' u' assume t': "t' \<in> set (st_turns s')" and u': "u' \<in> set (st_turns s')"
    and same: "t_discussionId t' = t_discussionId u'" "t_speakerAgentId t' = t_speakerAgentId u'"
    and live: "\<not> terminalTurnState (t_state t')" "\<not> terminalTurnState (t_state u')"
  obtain t u where "t \<in> set (st_turns s)" "kept_turn t t'" "u \<in> set (st_turns s)" "kept_turn u u'"
    using list_all2_mem[OF assms(1) t'] list_all2_mem[OF assms(1) u'] by blast
  with assms(2) same live show "t_turnId t' = t_turnId u'"
    unfolding one_turn_each_def kept_turn_def by metis
qed

lemma quiet_homed:
  assumes "calm s s'" and "turns_homed s"
  shows "turns_homed s'"
  unfolding turns_homed_def
proof
  fix t' assume "t' \<in> set (st_turns s')"
  then obtain t where t: "t \<in> set (st_turns s)" "kept_turn t t'"
    using assms(1) list_all2_mem[of kept_turn] unfolding calm_def by blast
  with assms(2) obtain w where w: "w \<in> set (st_waves s)" "t_waveId t = Some (w_waveId w)" "w_discussionId w = t_discussionId t"
    unfolding turns_homed_def by blast
  then obtain w' where "w' \<in> set (st_waves s')" "kept_wave s' w w'"
    using assms(1) list_all2_mem'[of "kept_wave s'"] unfolding calm_def by blast
  with t w show "\<exists>w\<in>set (st_waves s'). t_waveId t' = Some (w_waveId w) \<and> w_discussionId w = t_discussionId t'"
    unfolding kept_turn_def kept_wave_def by (intro bexI[of _ w']) auto
qed

lemma quiet_booked: "booked s \<Longrightarrow> quiet s s' \<Longrightarrow> booked s'"
  unfolding booked_def
  using quiet_inv kept_one_turn[of s s'] quiet_homed[of s s'] unfolding quiet_def calm_def by blast

lemma quiet_free:
  assumes "list_all2 kept_turn (st_turns s) (st_turns s')" and "free_agents i agents s"
  shows "free_agents i agents s'"
  unfolding free_agents_def
proof (intro ballI impI)
  fix t' assume "t' \<in> set (st_turns s')" and t': "t_discussionId t' = i" "t_speakerAgentId t' \<in> set agents"
  then obtain t where "t \<in> set (st_turns s)" "kept_turn t t'" using list_all2_mem[OF assms(1)] by blast
  with t' assms(2) show "terminalTurnState (t_state t')" unfolding free_agents_def kept_turn_def by metis
qed

text \<open>A planned Wave adds Turns of distinct Agents without a live Turn.\<close>

lemma plan_booked:
  assumes "booked s" and "store_inv s'" and "st_turns s' = st_turns s @ ts"
    and kept: "\<And>w. w \<in> set (st_waves s) \<Longrightarrow>
      \<exists>w'\<in>set (st_waves s'). w_waveId w' = w_waveId w \<and> w_discussionId w' = w_discussionId w"
    and home: "\<forall>t\<in>set ts. \<exists>w\<in>set (st_waves s'). t_waveId t = Some (w_waveId w) \<and> w_discussionId w = t_discussionId t"
    and same_id: "\<forall>t\<in>set ts. t_discussionId t = i" and "distinct (map t_speakerAgentId ts)"
    and "free_agents i (map t_speakerAgentId ts) s"
  shows "booked s'"
proof -
  have "one_turn_each s'"
    unfolding one_turn_each_def
  proof (intro ballI impI)
    fix t u assume tu: "t \<in> set (st_turns s')" "u \<in> set (st_turns s')"
      and same: "t_discussionId t = t_discussionId u" "t_speakerAgentId t = t_speakerAgentId u"
      and live: "\<not> terminalTurnState (t_state t)" "\<not> terminalTurnState (t_state u)"
    have mixed: False if "x \<in> set (st_turns s)" "y \<in> set ts" "\<not> terminalTurnState (t_state x)"
        "t_discussionId x = t_discussionId y" "t_speakerAgentId x = t_speakerAgentId y" for x y
      using same_id assms(8) that unfolding free_agents_def by auto
    have new: "t = u" if "t \<in> set ts" "u \<in> set ts"
      using assms(7) that same(2) by (auto simp: distinct_map inj_on_def)
    consider "t \<in> set (st_turns s)" "u \<in> set (st_turns s)" | "t \<in> set (st_turns s)" "u \<in> set ts"
      | "t \<in> set ts" "u \<in> set (st_turns s)" | "t \<in> set ts" "u \<in> set ts"
      using tu unfolding assms(3) by auto
    then show "t_turnId t = t_turnId u"
    proof cases
      case 1
      then show ?thesis using assms(1) same live unfolding booked_def one_turn_each_def by blast
    qed (use mixed same live new in metis)+
  qed
  moreover have "turns_homed s'"
    unfolding turns_homed_def
  proof
    fix t assume "t \<in> set (st_turns s')"
    then consider "t \<in> set (st_turns s)" | "t \<in> set ts" unfolding assms(3) by auto
    then show "\<exists>w\<in>set (st_waves s'). t_waveId t = Some (w_waveId w) \<and> w_discussionId w = t_discussionId t"
    proof cases
      case 1
      then show ?thesis using assms(1) kept unfolding booked_def turns_homed_def by metis
    next
      case 2
      then show ?thesis using home by blast
    qed
  qed
  ultimately show ?thesis using assms(2) by (simp add: booked_def)
qed

lemma validated_turns:
  assumes "validateWavePlan L wave turns s = Inr u"
  shows "\<forall>t\<in>set turns. t_waveId t = Some (w_waveId wave) \<and> t_discussionId t = w_discussionId wave"
    and "distinct (map t_speakerAgentId turns)"
proof -
  from assms obtain seen where
    loop: "for_each (checkMember wave (length turns)) turns ([], [], []) = Inr seen"
    by (auto simp: validateWavePlan_def Let_def bind_eq_Inr split: option.splits)
  have "(\<forall>t\<in>set turns. t_waveId t = Some (w_waveId wave) \<and> t_discussionId t = w_discussionId wave) \<and>
      distinct (map t_speakerAgentId turns) \<and> fst (snd seen) = map t_speakerAgentId turns"
    by (rule for_each_inv[OF loop, where P = "\<lambda>ts seen. (\<forall>t\<in>set ts. t_waveId t = Some (w_waveId wave) \<and>
        t_discussionId t = w_discussionId wave) \<and> distinct (map t_speakerAgentId ts) \<and>
        fst (snd seen) = map t_speakerAgentId ts"])
      (auto simp: checkMember_def valid_member_def bind_eq_Inr split: prod.splits)
  then show "\<forall>t\<in>set turns. t_waveId t = Some (w_waveId wave) \<and> t_discussionId t = w_discussionId wave"
    "distinct (map t_speakerAgentId turns)" by auto
qed

lemma insertTurns_rows:
  "for_each insertTurn ts s = Inr s' \<Longrightarrow> st_turns s' = st_turns s @ ts \<and> st_waves s' = st_waves s"
  by (erule for_each_inv[where P = "\<lambda>ts s'. st_turns s' = st_turns s @ ts \<and> st_waves s' = st_waves s"])
    (auto simp: insertTurn_def bind_eq_Inr insert_row_Inr)

lemma events_rows:
  "for_each insertBudgetEvent es s = Inr s' \<Longrightarrow> st_turns s' = st_turns s \<and> st_waves s' = st_waves s"
  by (erule for_each_inv[where P = "\<lambda>ts s'. st_turns s' = st_turns s \<and> st_waves s' = st_waves s"])
    (auto simp: insertBudgetEvent_def bind_eq_Inr insert_row_Inr)

lemma step_plan_booked:
  assumes "booked s" and "recordDecisionAndPlanWave L di wave turns s = Inr (d, s')"
    and "free_agents (w_discussionId wave) (map t_speakerAgentId turns) s"
  shows "booked s'"
proof -
  from assms(2) obtain s0 s1 s2 s3 where v: "validateWavePlan L wave turns s = Inr ()"
    and dec: "insertDecision (in_decision di) s = Inr s0"
    and upd: "\<exists>P f m. updateDiscussions P f m s0 = Inr s1"
    and ins: "insertWave wave s1 = Inr s2" "for_each insertTurn turns s2 = Inr s3"
    and ev: "for_each insertBudgetEvent (in_budgetEvents di) s3 = Inr s'"
    by (auto simp: recordDecisionAndPlanWave_def Let_def bind_eq_Inr) blast
  have "st_turns s2 = st_turns s \<and> st_waves s2 = st_waves s @ [wave]"
    using dec upd ins(1) by (auto simp: insertDecision_def insertWave_def updateDiscussions_Inr bind_eq_Inr insert_row_Inr)
  then have "st_turns s' = st_turns s @ turns" "st_waves s' = st_waves s @ [wave]"
    using insertTurns_rows[OF ins(2)] events_rows[OF ev] by simp_all
  then show ?thesis
    using validated_turns[OF v] assms(1,3) plan_step_inv[OF _ assms(2)]
    by (intro plan_booked[of s s' turns "w_discussionId wave"]) (auto simp: booked_def)
qed

lemma apply_Inr:
  assumes "closeReadyWaveAndApply L ri s = Inr (ar, s')" "aw_applied ar"
  shows "wave_applies ri s" and "\<exists>s1. closeReadyWaveRow (rw_waveId ri) (de_discussionId (in_decision ri))
    (rw_closeState ri) (rw_closedAt ri) (Some (rw_expectedWaveVersion ri)) (rw_seal ri \<noteq> None) s = Inr (True, s1) \<and>
    apply_ready_wave ri s1 = Inr s'"
  using assms by (auto simp: closeReadyWaveAndApply_def Let_def bind_eq_Inr split: if_splits prod.splits)

lemma apply_rows:
  assumes "closeReadyWaveRow i d st t v allow s = Inr (done, s1)" "apply_ready_wave ri s1 = Inr s'"
  shows "st_turns s' = st_turns s @ (case rw_nextWave ri of None \<Rightarrow> [] | Some plan \<Rightarrow> wp_turns plan) \<and>
    st_waves s' = st_waves s1 @ (case rw_nextWave ri of None \<Rightarrow> [] | Some plan \<Rightarrow> [wp_wave plan])"
proof -
  from assms(2) obtain s2 s3 s4 s5 where
    a: "(case rw_seal ri of None \<Rightarrow> Inr s1 | Some seal \<Rightarrow> insertWaveSeal seal s1) = Inr s2"
    and b: "insertDecision (in_decision ri) s2 = Inr s3" and c: "\<exists>P f m. updateDiscussions P f m s3 = Inr s4"
    and n: "(case rw_nextWave ri of None \<Rightarrow> Inr s4
       | Some plan \<Rightarrow> bind (insertWave (wp_wave plan) s4) (for_each insertTurn (wp_turns plan))) = Inr s5"
    and e: "for_each insertBudgetEvent (in_budgetEvents ri) s5 = Inr s'"
    by (auto simp: apply_ready_wave_def Let_def bind_eq_Inr) blast
  have "st_turns s4 = st_turns s1 \<and> st_waves s4 = st_waves s1"
    using a b c by (auto simp: insertWaveSeal_def insertDecision_def updateDiscussions_Inr Let_def bind_eq_Inr insert_row_Inr
        split: option.splits)
  moreover have "st_turns s1 = st_turns s" using assms(1) by (auto simp: closeReadyWaveRow_Inr)
  moreover have "st_turns s5 = st_turns s4 @ (case rw_nextWave ri of None \<Rightarrow> [] | Some plan \<Rightarrow> wp_turns plan) \<and>
    st_waves s5 = st_waves s4 @ (case rw_nextWave ri of None \<Rightarrow> [] | Some plan \<Rightarrow> [wp_wave plan])"
    using n insertTurns_rows by (fastforce simp: insertWave_def bind_eq_Inr insert_row_Inr split: option.splits)
  ultimately show ?thesis using events_rows[OF e] by simp
qed

lemma step_apply_booked:
  assumes "booked s" and step: "closeReadyWaveAndApply L ri s = Inr (ar, s')" and "closed_state (rw_closeState ri)"
    and free: "\<And>plan. rw_nextWave ri = Some plan \<Longrightarrow> wave_applies ri s \<Longrightarrow>
      free_agents (w_discussionId (wp_wave plan)) (map t_speakerAgentId (wp_turns plan)) s"
  shows "booked s'"
proof (cases "aw_applied ar")
  case False
  with step assms(1) show ?thesis by (auto simp: closeReadyWaveAndApply_def Let_def bind_eq_Inr split: if_splits prod.splits)
next
  case True
  from apply_Inr[OF step True] obtain s1 where applies: "wave_applies ri s"
    and close: "closeReadyWaveRow (rw_waveId ri) (de_discussionId (in_decision ri)) (rw_closeState ri) (rw_closedAt ri)
      (Some (rw_expectedWaveVersion ri)) (rw_seal ri \<noteq> None) s = Inr (True, s1)"
    and app: "apply_ready_wave ri s1 = Inr s'" by blast
  note rows = apply_rows[OF close app]
  have inv: "store_inv s'" using apply_step_inv[OF _ step assms(3)] assms(1) by (simp add: booked_def)
  have kept: "\<exists>w'\<in>set (st_waves s'). w_waveId w' = w_waveId w \<and> w_discussionId w' = w_discussionId w"
    if "w \<in> set (st_waves s)" for w
  proof -
    have "list_all2 (\<lambda>w w'. w_waveId w' = w_waveId w \<and> w_discussionId w' = w_discussionId w) (st_waves s) (st_waves s1)"
      using close by (auto simp: closeReadyWaveRow_Inr intro!: list_all2_map_if)
    from list_all2_mem'[OF this that] rows show ?thesis by auto
  qed
  show ?thesis
  proof (cases "rw_nextWave ri")
    case None
    then show ?thesis using rows inv kept assms(1)
      by (intro plan_booked[of s s' "[]" "[]"]) (auto simp: free_agents_def)
  next
    case (Some plan)
    then have "validateWavePlan L (wp_wave plan) (wp_turns plan) s = Inr ()"
      using step by (auto simp: closeReadyWaveAndApply_def check_ready_wave_def Let_def bind_eq_Inr)
    note turns = validated_turns[OF this]
    show ?thesis using rows Some inv kept turns assms(1) free[OF Some applies]
      by (intro plan_booked[of s s' "wp_turns plan" "w_discussionId (wp_wave plan)"]) auto
  qed
qed

section \<open>Live Agents\<close>

text \<open>
  Through the ordinal of the current Wave, \<open>live_agents\<close> lists the Agents of all live Turns.
\<close>

lemma live_agents_all:
  assumes "numbered s" and "d \<in> set (st_discussions s)" "d_discussionId d = i" "d_currentWave d = Some n" "n \<le> m"
    and "conflict_free discussion_conflict (st_discussions s)"
    and "t \<in> set (st_turns s)" "t_discussionId t = i" "\<not> terminalTurnState (t_state t)"
  shows "t_speakerAgentId t \<in> set (live_agents i m s)"
proof -
  have "0 \<le> n" using assms(1,2,4) unfolding numbered_def by fastforce
  have "w_ordinal w \<le> n" if "w \<in> set (st_waves s)" "w_discussionId w = i" for w
  proof -
    from assms(1) that obtain d' k where "d' \<in> set (st_discussions s)" "d_discussionId d' = i"
        "d_currentWave d' = Some k" "w_ordinal w \<le> k"
      unfolding numbered_def by blast
    moreover from this assms(2,3) have "d' = d"
      using discussions.distinct_keys[OF assms(6)] by (auto simp: distinct_map inj_on_def)
    ultimately show ?thesis using assms(4) by simp
  qed
  then have "wave_ordinal_of t i s \<le> m"
    using \<open>0 \<le> n\<close> assms(5) by (fastforce simp: wave_ordinal_of_def listWaves_def split: option.splits dest: find_Some)
  with assms(7-9) show ?thesis by (auto simp: live_agents_def listTurns_def)
qed

lemma not_live_free:
  assumes "booked s" and "d \<in> set (st_discussions s)" "d_discussionId d = i" "d_currentWave d = Some n" "n \<le> m"
    and "set agents \<inter> set (live_agents i m s) = {}"
  shows "free_agents i agents s"
  unfolding free_agents_def
proof (intro ballI impI)
  fix t assume t: "t \<in> set (st_turns s)" "t_discussionId t = i" "t_speakerAgentId t \<in> set agents"
  have inv: "numbered s" "conflict_free discussion_conflict (st_discussions s)"
    using assms(1) by (simp_all add: booked_def store_inv_def tables_ok_def)
  show "terminalTurnState (t_state t)"
    using live_agents_all[OF inv(1) assms(2-5) inv(2) t(1,2)] t(3) assms(6) by blast
qed

section \<open>Actions on a booked store\<close>

definition same_store :: "world \<Rightarrow> world \<Rightarrow> bool" where
  "same_store w w' \<longleftrightarrow> wd_store w' = wd_store w"

definition same_waves :: "world \<Rightarrow> world \<Rightarrow> bool" where
  "same_waves w w' \<longleftrightarrow> st_waves (wd_store w') = st_waves (wd_store w)"

definition keeps_booked :: "world \<Rightarrow> world \<Rightarrow> bool" where
  "keeps_booked w w' \<longleftrightarrow> (booked (wd_store w) \<longrightarrow> booked (wd_store w'))"

interpretation still: message_relation same_store
  by unfold_locales (auto simp: same_store_def)

interpretation waves: message_relation same_waves
  by unfold_locales (auto simp: same_waves_def)

interpretation booking: service_relation keeps_booked L for L
  by unfold_locales (auto simp: keeps_booked_def intro: quiet_booked)

lemma goes_booked: "goes same_store m \<Longrightarrow> goes keeps_booked m"
  by (simp add: goes_def same_store_def keeps_booked_def)

text \<open>The action keeps the store booked when \<open>P\<close> holds of it before; \<open>Q\<close> holds after it returned.\<close>

definition booked_from :: "(discussion_store \<Rightarrow> bool) \<Rightarrow> 'a action \<Rightarrow> bool" where
  "booked_from P m \<longleftrightarrow> (\<forall>w. booked (wd_store w) \<longrightarrow> P (wd_store w) \<longrightarrow> booked (wd_store (snd (m w))))"

definition ensures :: "('a \<Rightarrow> discussion_store \<Rightarrow> bool) \<Rightarrow> 'a action \<Rightarrow> bool" where
  "ensures Q m \<longleftrightarrow> (\<forall>w x w'. booked (wd_store w) \<longrightarrow> m w = (Inr x, w') \<longrightarrow> Q x (wd_store w'))"

lemma from_goes: "goes keeps_booked m \<Longrightarrow> booked_from P m"
  by (simp add: goes_def keeps_booked_def booked_from_def)

lemma from_andThen:
  "goes same_store m \<Longrightarrow> (\<And>x. booked_from P (f x)) \<Longrightarrow> booked_from P (andThen m f)"
  unfolding goes_def same_store_def booked_from_def andThen_def
  by (auto split: sum.splits prod.splits) (metis snd_conv)+

lemma from_yields:
  "goes same_store m \<Longrightarrow> yields Q m \<Longrightarrow> (\<And>x. Q x \<Longrightarrow> booked_from P (f x)) \<Longrightarrow> booked_from P (andThen m f)"
  unfolding goes_def same_store_def booked_from_def yields_def andThen_def
  by (auto split: sum.splits prod.splits) (metis snd_conv)+

lemma from_waves:
  assumes "goes same_waves m" "goes keeps_booked m" and "\<And>x. booked_from P (f x)"
    and "\<And>s s'. st_waves s' = st_waves s \<Longrightarrow> P s \<Longrightarrow> P s'"
  shows "booked_from P (andThen m f)"
  unfolding booked_from_def
proof (intro allI impI)
  fix w :: world assume w: "booked (wd_store w)" "P (wd_store w)"
  obtain r w' where m: "m w = (r, w')" by (cases "m w")
  from assms(1,2) w m assms(4) have "booked (wd_store w')" "P (wd_store w')"
    unfolding goes_def same_waves_def keeps_booked_def by (metis snd_conv)+
  with m assms(3) show "booked (wd_store (snd (andThen m f w)))"
    by (cases r) (auto simp: andThen_def booked_from_def)
qed

lemma from_look:
  "(\<And>w. booked (wd_store w) \<Longrightarrow> P (wd_store w) \<Longrightarrow> booked_from (\<lambda>s. s = wd_store w) (g (f w))) \<Longrightarrow>
   booked_from P (andThen (look f) g)"
  by (auto simp: booked_from_def andThen_def look_def)

lemma from_pure: "(\<And>x. r = Inr x \<Longrightarrow> booked_from P (g x)) \<Longrightarrow> booked_from P (andThen (pure r) g)"
  by (cases r) (auto simp: booked_from_def andThen_def pure_def)

lemma from_store:
  assumes "\<And>s x s'. booked s \<Longrightarrow> P s \<Longrightarrow> f s = Inr (x, s') \<Longrightarrow> booked s'" and "\<And>x. goes keeps_booked (g x)"
  shows "booked_from P (andThen (on_store f) g)"
  using assms unfolding booked_from_def goes_def keeps_booked_def andThen_def on_store_def
  by (auto split: sum.splits prod.splits)

lemma from_pair: "(\<And>x y. v = (x, y) \<Longrightarrow> booked_from P (f x y)) \<Longrightarrow> booked_from P (case v of (x, y) \<Rightarrow> f x y)"
  by (cases v) auto

lemma from_ensures:
  assumes "goes keeps_booked m" "ensures Q m" and "\<And>x. booked_from (Q x) (f x)"
  shows "goes keeps_booked (andThen m f)"
  unfolding goes_def keeps_booked_def
proof (intro allI impI)
  fix w :: world assume w: "booked (wd_store w)"
  obtain r w' where m: "m w = (r, w')" by (cases "m w")
  with w assms(1) have "booked (wd_store w')" unfolding goes_def keeps_booked_def by (metis snd_conv)
  with w m assms(2,3) show "booked (wd_store (snd (andThen m f w)))"
    by (cases r) (auto simp: andThen_def booked_from_def ensures_def)
qed

lemma yields_andThen: "(\<And>x. yields Q (f x)) \<Longrightarrow> yields Q (andThen m f)"
  unfolding yields_def andThen_def by (auto split: sum.splits prod.splits)

lemma yields_pure_then: "(\<And>x. r = Inr x \<Longrightarrow> yields Q (f x)) \<Longrightarrow> yields Q (andThen (pure r) f)"
  by (cases r) (auto simp: yields_def andThen_def pure_def)

lemma yields_look_then: "(\<And>w. yields Q (f (g w))) \<Longrightarrow> yields Q (andThen (look g) f)"
  by (auto simp: yields_def andThen_def look_def)

lemma yields_then: "yields P m \<Longrightarrow> (\<And>x. P x \<Longrightarrow> yields Q (f x)) \<Longrightarrow> yields Q (andThen m f)"
  unfolding yields_def andThen_def by (fastforce split: sum.splits prod.splits)

lemma yields_ret [simp]: "yields Q (ret x) \<longleftrightarrow> Q x"
  by (simp add: yields_def ret_def)

lemma yields_pure [simp]: "yields Q (pure r) \<longleftrightarrow> (\<forall>x. r = Inr x \<longrightarrow> Q x)"
  by (auto simp: yields_def pure_def)

section \<open>Plans\<close>

definition planned_among :: "DiscussionRecord \<Rightarrow> DiscussionParticipant list \<Rightarrow> WavePlan \<Rightarrow> bool" where
  "planned_among d ps plan \<longleftrightarrow> w_discussionId (wp_wave plan) = d_discussionId d \<and>
     w_ordinal (wp_wave plan) = current_wave d + 1 \<and>
     set (map t_speakerAgentId (wp_turns plan)) \<subseteq> set (map p_agentId ps)"

lemma plan_wave_among:
  assumes "selectParticipants L d' ps fin w = Inr sel"
  shows "yields (planned_among d ps) (plan_wave L d sel m k t)"
  unfolding plan_wave_def
proof (intro yields_andThen, unfold yields_pure, intro allI impI)
  fix wid tids plan
  assume plan: "buildWavePlan L wid (\<lambda>i. tids ! i) d (ps_participants sel) m k (ps_snapshot sel) t = Inr plan"
  let ?cs = "List.map_filter (selection_candidate L d' w) (eligibleParticipants d' ps (wd_team w))"
  have speakers: "map t_speakerAgentId (wp_turns plan) = map p_agentId (ps_participants sel)"
    by (rule planned_turns[OF plan])
  have check: "assertDiscussionWaveSelection L (ps_snapshot sel) (Some (map p_agentId (ps_participants sel))) = Inr ()"
    by (rule buildWavePlan_Inr[OF plan])
  then have "set (map p_agentId (ps_participants sel)) \<subseteq> set (sel_eligibleAgentIds (ps_snapshot sel))"
    using selectedIds_of_assert[OF check] by (auto simp: assertDiscussionWaveSelection_def)
  also have "\<dots> = (\<lambda>c. p_agentId (cd_participant c)) ` set ?cs"
    using selection_fields(1)[OF assms[unfolded selectParticipants_def]] by simp
  also have "\<dots> \<subseteq> set (map p_agentId ps)"
    by (auto simp: map_filter_def selection_candidate_def eligibleParticipants_def split: option.splits if_splits)
  finally show "planned_among d ps plan"
    using plan speakers buildWavePlan_Inr(8)[OF plan]
    by (auto simp: planned_among_def current_wave_def buildWavePlan_def bind_eq_Inr Let_def split: if_splits)
qed

lemma free_subset: "free_agents i bs s \<Longrightarrow> set as \<subseteq> set bs \<Longrightarrow> free_agents i as s"
  by (auto simp: free_agents_def)

text \<open>Before a Wave is planned outside \<open>advanceSettledWave\<close>: its candidates are free, provided the
  Discussion is still at the Wave the caller read.\<close>

definition candidates_free :: "DiscussionRecord \<Rightarrow> DiscussionParticipant list \<Rightarrow> discussion_store \<Rightarrow> bool" where
  "candidates_free d ps s \<longleftrightarrow>
    (\<forall>row\<in>set (st_discussions s). d_discussionId row = d_discussionId d \<longrightarrow> d_currentWave row = Some (current_wave d) \<longrightarrow>
       free_agents (d_discussionId d) (map p_agentId ps) s)"

lemma eligible_free:
  assumes "booked (wd_store w)"
  shows "candidates_free d (eligibleParticipantsForNextWave d ps (current_wave d) w) (wd_store w)"
  unfolding candidates_free_def
proof (intro ballI impI)
  fix row assume "row \<in> set (st_discussions (wd_store w))" "d_discussionId row = d_discussionId d"
    "d_currentWave row = Some (current_wave d)"
  then show "free_agents (d_discussionId d)
      (map p_agentId (eligibleParticipantsForNextWave d ps (current_wave d) w)) (wd_store w)"
    by (rule not_live_free[OF assms _ _ _ order.refl]) (auto simp: eligibleParticipantsForNextWave_def)
qed

lemma plan_row:
  assumes "recordDecisionAndPlanWave L di wave turns s = Inr (x, s')"
  shows "\<exists>row\<in>set (st_discussions s). d_discussionId row = w_discussionId wave \<and>
    d_currentWave row = Some (w_ordinal wave - 1)"
proof -
  let ?P = "\<lambda>d. expected (de_discussionId (in_decision di)) (in_expectedVersion di) d \<and>
      d_currentWave d = Some (w_ordinal wave - 1)"
  from assms have i: "de_discussionId (in_decision di) = w_discussionId wave"
    and len: "length (filter ?P (st_discussions s)) = 1"
    by (auto simp: recordDecisionAndPlanWave_def Let_def bind_eq_Inr updateDiscussions_Inr insertDecision_def)
  then have "filter ?P (st_discussions s) \<noteq> []" by auto
  then have "hd (filter ?P (st_discussions s)) \<in> set (filter ?P (st_discussions s))" by (rule hd_in_set)
  with i show ?thesis by (auto simp: expected_def)
qed

lemma from_persistWavePlan:
  assumes "\<And>x. goes keeps_booked (g x)"
  shows "booked_from (candidates_free d ps) (andThen (persistWavePlan sv d ps m k dec b es) g)"
proof -
  have assoc: "andThen (andThen a f) g = andThen a (\<lambda>x. andThen (f x) g)" for a :: "'x action" and f :: "'x \<Rightarrow> 'y action"
      and g :: "'y \<Rightarrow> 'z action"
    by (rule ext) (simp add: andThen_def split: sum.splits prod.splits)
  have planned: "booked s'" if "booked s" "candidates_free d ps s" "planned_among d ps plan"
      "recordDecisionAndPlanWave L di (wp_wave plan) (wp_turns plan) s = Inr (x, s')" for L di plan s x s'
  proof (rule step_plan_booked[OF that(1,4)])
    from plan_row[OF that(4)] that(3) obtain row where "row \<in> set (st_discussions s)"
      "d_discussionId row = d_discussionId d" "d_currentWave row = Some (current_wave d)"
      by (auto simp: planned_among_def)
    with that(2,3) show "free_agents (w_discussionId (wp_wave plan)) (map t_speakerAgentId (wp_turns plan)) s"
      unfolding candidates_free_def planned_among_def by (metis free_subset)
  qed
  show ?thesis
    unfolding persistWavePlan_def assoc
    apply (rule from_andThen, simp)
    apply (rule from_look)
    apply (rule from_pure)
    apply (rule from_andThen, simp add: still.goes_anchor)
    apply (rule from_yields[OF still.goes_plan_wave plan_wave_among], assumption)
    apply (rule from_andThen, simp add: still.goes_newDecision)
    apply (rule from_store)
    subgoal using planned by blast
    apply (rule booking.goes_andThen)
     apply simp
    apply (rule assms)
    done
qed

section \<open>After a settled Wave\<close>

definition current_row :: "DiscussionWave \<Rightarrow> discussion_store \<Rightarrow> bool" where
  "current_row wave s \<longleftrightarrow> (\<forall>v. getWave (w_waveId wave) s = Some v \<longrightarrow> w_ordinal v = w_ordinal wave)"

lemma next_wave_among:
  "yields (\<lambda>(plan, _). \<forall>p. plan = Some p \<longrightarrow> planned_among d ps p) (next_wave sv d ps m dec p b es t)"
proof -
  have plan: "yields (planned_among d ps) (andThen (look (selectParticipants L current ps fin)) (\<lambda>selected.
      andThen (pure selected) (\<lambda>selection. plan_wave L d selection m k t)))" for L current fin k
    by (intro yields_look_then yields_pure_then) (rule plan_wave_among)
  show ?thesis
    unfolding next_wave_def Let_def by (auto intro!: yields_then[OF plan] intro: yields_andThen)
qed

lemma ready_next [simp]:
  "rw_nextWave (ready_wave d v dec row p b es st nw seal t) = nw"
  "rw_waveId (ready_wave d v dec row p b es st nw seal t) = w_waveId v"
  by (simp_all add: ready_wave_def Discussion_Repository.decision_input.defs)

lemma applied_free:
  assumes "booked s" and "current_row wave s" and "wave_applies ri s" "rw_waveId ri = w_waveId wave"
    "rw_nextWave ri = Some plan" and "de_discussionId (in_decision ri) = d_discussionId d"
    and "planned_among d ps plan" and "set (map p_agentId ps) \<inter> set (live_agents (d_discussionId d) (w_ordinal wave) s) = {}"
  shows "free_agents (w_discussionId (wp_wave plan)) (map t_speakerAgentId (wp_turns plan)) s"
proof -
  from assms(3) obtain agg and v :: DiscussionWave where agg: "getDiscussion (d_discussionId d) s = Some agg"
    and v: "getWave (w_waveId wave) s = Some v" "d_currentWave agg = Some (w_ordinal v)"
    unfolding wave_applies_def assms(4,6) by (auto split: option.splits)
  have "agg \<in> set (st_discussions s)" "d_discussionId agg = d_discussionId d"
    using find_Some[OF agg[unfolded getDiscussion_def]] by auto
  moreover have "w_ordinal v \<le> w_ordinal wave" using assms(2) v(1) by (simp add: current_row_def)
  ultimately have "free_agents (d_discussionId d) (map p_agentId ps) s"
    using not_live_free[OF assms(1) _ _ v(2)] assms(8) by blast
  then show ?thesis using assms(7) free_subset unfolding planned_among_def by metis
qed

lemma ready_decision [simp]:
  "in_decision (ready_wave d v dec row p b es st nw seal t) = row"
  by (simp add: ready_wave_def decision_record_def Discussion_Repository.decision_input.defs)

lemma newDecision_row:
  "yields (\<lambda>row. de_discussionId row = d_discussionId d) (newDecision d dec p a t)"
  unfolding newDecision_def by (intro yields_andThen) simp

lemma from_advanceSettledWave:
  assumes "\<And>i. goes keeps_booked (again i)"
  shows "booked_from (current_row wave) (advanceSettledWave sv again d wave ts us seal)"
proof -
  have step: "booked s'" if "booked s" "current_row wave s"
      "closeReadyWaveAndApply L (ready_wave d wave dec row p b es st nw seal t) s = Inr (x, s')"
      "closed_state st" "\<forall>p. nw = Some p \<longrightarrow> planned_among d ps p" "de_discussionId row = d_discussionId d"
      "set (map p_agentId ps) \<inter> set (live_agents (d_discussionId d) (w_ordinal wave) s) = {}"
    for L dec row p b es st nw t s x s' ps
  proof (rule step_apply_booked[OF that(1,3)])
    fix plan assume "rw_nextWave (ready_wave d wave dec row p b es st nw seal t) = Some plan"
      and applies: "wave_applies (ready_wave d wave dec row p b es st nw seal t) s"
    then have plan: "nw = Some plan" "planned_among d ps plan" using that(5) by auto
    show "free_agents (w_discussionId (wp_wave plan)) (map t_speakerAgentId (wp_turns plan)) s"
      by (rule applied_free[OF that(1,2) applies _ _ _ plan(2) that(7)]) (simp_all add: plan(1) that(6))
  qed (use that(4) in simp)
  have close: "closed_state (if seal \<noteq> None then WS_partial else waveCloseState (map t_state us))"
    by (auto simp: closed_state_def[of WS_partial])
  show ?thesis
    unfolding advanceSettledWave_def
    apply (rule from_look)
    subgoal premises prems for w
      apply (rule from_look)
      apply (rule from_andThen, simp add: still.goes_evaluate)
      apply (rule from_andThen, simp)
      apply (rule from_andThen, simp add: still.goes_anchor)
      apply (rule from_andThen, simp)
      apply (rule from_pure)
      apply (rule from_andThen, simp add: still.goes_newBudgetEvent)
      apply (rule from_andThen, simp add: still.goes_feasible)
      apply (rule from_andThen, simp add: still.goes_lease)
      apply (rule from_pair)
      apply (rule from_andThen, simp)
      apply (rule from_yields[OF still.goes_next_wave next_wave_among])
      apply (rule from_pair, rule from_pair)
      apply (rule from_yields[OF still.goes_newDecision newDecision_row])
      apply (rule from_store)
      subgoal
        by (rule step[OF _ _ _ close]) (use prems in \<open>auto simp: eligibleParticipantsForNextWave_def\<close>)
      apply (intro booking.goes_if booking.goes_andThen booking.goes_ret assms booking.goes_mutationResult)
      done
    done
qed

lemma from_if:
  "(c \<Longrightarrow> booked_from P m) \<Longrightarrow> (\<not> c \<Longrightarrow> booked_from P n) \<Longrightarrow> booked_from P (if c then m else n)"
  by simp

lemma from_advanceReadyWave:
  assumes "\<And>i. goes keeps_booked (again i)"
  shows "booked_from (current_row wave) (advanceReadyWave sv again d wave ts)"
  unfolding advanceReadyWave_def Let_def
proof (intro from_if from_advanceSettledWave assms; rule from_goes)
  show "goes keeps_booked (andThen now (\<lambda>t. andThen (on_store (closeWave (w_waveId wave) (w_version wave)
      (waveCloseState (map t_state ts)) t)) (\<lambda>_. mutationResult sv (d_discussionId d) [] [])))"
    by (auto intro!: orchestrator booking.goes_close)
next
  show "goes keeps_booked (andThen (if \<exists>t\<in>set ts. t_state t = TS_completed then ret ()
      else appendFallbackConclusion d (w_inputMessageId wave)) (\<lambda>_. andThen now (\<lambda>t.
      andThen (on_store (closeFinalizationAndFinish (d_discussionId d) (d_version d)
        (if d_stateReason d = Some SR_hard_budget_exhausted then DS_terminated else DS_completed)
        (w_waveId wave) (w_version wave) (waveCloseState (map t_state ts)) t)) (\<lambda>_.
      mutationResult sv (d_discussionId d) [] []))))"
    by (auto intro!: orchestrator booking.goes_finish)
qed

lemma booked_from_start: "(\<And>s. booked_from (\<lambda>s'. s' = s) m) \<Longrightarrow> goes keeps_booked m"
  by (auto simp: booked_from_def goes_def keeps_booked_def)

lemma from_then_goes:
  assumes "booked_from P m" and "\<And>x. goes keeps_booked (f x)"
  shows "booked_from P (andThen m f)"
  using assms unfolding booked_from_def goes_def keeps_booked_def andThen_def
  by (auto split: sum.splits prod.splits)

lemma current_row_of: "getWave i s = Some wave \<Longrightarrow> current_row wave s"
  using find_Some[of "\<lambda>w. w_waveId w = i" "st_waves s" wave] by (auto simp: current_row_def getWave_def)

lemma booked_from_mono: "booked_from P m \<Longrightarrow> (\<And>s. Q s \<Longrightarrow> P s) \<Longrightarrow> booked_from Q m"
  by (simp add: booked_from_def)

lemma booking_advance_affected:
  assumes "\<And>i. goes keeps_booked (again i)"
  shows "goes keeps_booked (advance_affected sv again i v)"
proof (rule booked_from_start)
  fix s
  have known: "booked_from (\<lambda>s. s = s0) (andThen (getDiscussion_or_throw i) (\<lambda>d.
      andThen (advanceReadyWave sv again d wave ts) (\<lambda>result. ret (mu_scheduledRuns result))))"
    if "getWave v s0 = Some wave" for s0 wave ts
    by (rule from_andThen[OF still.goes_getDiscussion], rule from_then_goes,
        rule booked_from_mono[OF from_advanceReadyWave[OF assms]])
      (use that current_row_of in auto)
  show "booked_from (\<lambda>s'. s' = s) (advance_affected sv again i v)"
    unfolding advance_affected_def
    by (rule from_look) (auto intro: known from_goes split: option.splits)
qed

interpretation booking: reconciling keeps_booked L sv for L sv
  by unfold_locales (rule booking_advance_affected)

section \<open>The entry points\<close>

lemma booking_planContinuation: "goes keeps_booked (planContinuation sv (reconcile sv) d es)"
proof (rule booked_from_start)
  fix s
  show "booked_from (\<lambda>s'. s' = s) (planContinuation sv (reconcile sv) d es)"
    unfolding planContinuation_def
  proof (rule from_look)
    fix w :: world assume w: "booked (wd_store w)" "wd_store w = s"
    let ?ps = "eligibleParticipantsForNextWave d (listParticipants (d_discussionId d) (wd_store w)) (current_wave d) w"
    have free: "candidates_free d ?ps (wd_store w)" by (rule eligible_free[OF w(1)])
    have plan: "booked_from (\<lambda>s. s = wd_store w) (andThen (look (latestOutputMessageId d)) (\<lambda>m.
        andThen (persistWavePlan sv d ?ps m Kind_discussion continue_decision (d_budget d) es)
          (\<lambda>_. reconcile sv (d_discussionId d))))"
      by (rule from_look, rule booked_from_mono[OF from_persistWavePlan[OF booking.goes_reconcile]]) (simp add: free)
    show "booked_from (\<lambda>s. s = wd_store w) (if ?ps = []
       then andThen (persistDecision d (wait_decision SR_runtime_failure) es None) (\<lambda>_. ret [])
       else if \<not> requiredParticipantRolesAvailable d ?ps
       then andThen (persistDecision d (wait_decision SR_policy_violation) es None) (\<lambda>_. ret [])
       else andThen (look (latestOutputMessageId d)) (\<lambda>m.
         andThen (persistWavePlan sv d ?ps m Kind_discussion continue_decision (d_budget d) es)
           (\<lambda>_. reconcile sv (d_discussionId d))))"
      by (intro from_if plan; rule from_goes; auto intro!: booking.goes_persistDecision)
  qed
qed

lemma booking_planFinalization: "goes keeps_booked (planFinalization sv (reconcile sv) d dec es)"
proof (rule booked_from_start)
  fix s
  show "booked_from (\<lambda>s'. s' = s) (planFinalization sv (reconcile sv) d dec es)"
    unfolding planFinalization_def
  proof (rule from_look)
    fix w :: world assume w: "booked (wd_store w)" "wd_store w = s"
    let ?ps = "eligibleParticipantsForNextWave d (listParticipants (d_discussionId d) (wd_store w)) (current_wave d) w"
    have free: "candidates_free d ?ps (wd_store w)" by (rule eligible_free[OF w(1)])
    have plan: "booked_from (\<lambda>s. s = wd_store w) (andThen (look (latestOutputMessageId d)) (\<lambda>m.
        andThen (persistWavePlan sv d ?ps m Kind_finalization dec b (es @ [e])) (\<lambda>_. reconcile sv (d_discussionId d))))" for b e
      by (rule from_look, rule booked_from_mono[OF from_persistWavePlan[OF booking.goes_reconcile]]) (simp add: free)
    have reserved: "booked_from (\<lambda>s. s = wd_store w) (andThen (newBudgetEvent d ty n dur md off) (\<lambda>e.
        andThen (look (latestOutputMessageId d)) (\<lambda>m.
        andThen (persistWavePlan sv d ?ps m Kind_finalization dec b (es @ [e])) (\<lambda>_. reconcile sv (d_discussionId d)))))"
      for ty n dur md off b
      by (rule from_andThen[OF still.goes_newBudgetEvent plan])
    have concluded: "goes keeps_booked (andThen (look (latestOutputMessageId d)) (\<lambda>a.
        andThen (appendFallbackConclusion d a) (\<lambda>_. andThen now (\<lambda>t.
        andThen (persistDecision d (concluded dec) es (Some t)) (\<lambda>_. ret [])))))"
      by (auto intro!: orchestrator)
    show "booked_from (\<lambda>s. s = wd_store w) (if ?ps = []
      then andThen (look (latestOutputMessageId d)) (\<lambda>anchor.
        andThen (appendFallbackConclusion d anchor) (\<lambda>_. andThen now (\<lambda>at_time.
        andThen (persistDecision d (concluded dec) es (Some at_time)) (\<lambda>_. ret []))))
      else andThen (newBudgetEvent d BE_finalization_reserved 1 (Some (durationSeconds (d_budget d)))
        (CObj [(lit ''unit'', CStr (lit ''wave'')), (lit ''agentRuns'', CInt 1)]) (int (length es))) (\<lambda>event.
      andThen (look (latestOutputMessageId d)) (\<lambda>inputMessageId.
      andThen (persistWavePlan sv d ?ps inputMessageId Kind_finalization dec
        ((d_budget d)\<lparr>agentRunsUsed := agentRunsUsed (d_budget d) + 1\<rparr>)
        (es @ [event])) (\<lambda>_. reconcile sv (d_discussionId d)))))"
      by (intro from_if reserved from_goes[OF concluded])
  qed
qed

lemma settle_current:
  "ensures (\<lambda>x s. \<forall>st wave. x = Some st \<longrightarrow> ws_wave st = Some wave \<longrightarrow> current_row wave s) (settle L i t)"
  unfolding settle_def ensures_def
  by (auto simp: andThen_def look_def ret_def raise_def on_store_def Let_def current_row_of
      split: option.splits sum.splits prod.splits if_splits)

lemma settleTurn_waves: "goes same_waves (on_store (settleTurn input))"
  by (rule waves.goes_on_store) (auto simp: settleTurn_def Let_def bind_eq_Inr same_waves_def)

lemma settle_waves: "goes same_waves (settle L i t)"
  unfolding settle_def by (auto intro!: settleTurn_waves split: option.splits)

lemma reconcileTurns_waves: "goes same_waves (reconcileTerminalWaveTurns sv v ts)"
  unfolding reconcileTerminalWaveTurns_def settle_terminal_run_def by (auto intro!: settle_waves)

lemma from_advance_after: "booked_from (current_row wave) (advance_after sv d wave ts us)"
proof -
  have sealed: "booked_from (current_row wave) (case x of
         None \<Rightarrow> mutationResult sv (d_discussionId d) [] []
       | Some seal \<Rightarrow> advanceSettledWave sv (reconcile sv) d wave
             (filter (\<lambda>t. t_turnId t \<in> set (map sm_turnId (sl_acceptedMembers seal))) ts) ts (Some seal))" for x
    by (cases x) (auto intro!: from_goes[OF booking.goes_mutationResult] from_advanceSettledWave booking.goes_reconcile)
  show ?thesis
    unfolding advance_after_def Let_def
    by (intro from_if from_advanceReadyWave booking.goes_reconcile from_andThen[OF still.goes_quorumSeal] sealed)
qed

lemma booking_onRunTerminal: "goes keeps_booked (onRunTerminal sv i)"
proof -
  have wave: "booked_from (current_row wave) (andThen (if c then reconcileTerminalWaveTurns sv wave ts else ret ts)
      (advance_after sv d wave us))" for c d wave ts us
  proof (rule from_waves)
    show "goes same_waves (if c then reconcileTerminalWaveTurns sv wave ts else ret ts)"
      by (auto intro!: reconcileTurns_waves)
    show "goes keeps_booked (if c then reconcileTerminalWaveTurns sv wave ts else ret ts)"
      by (auto intro!: booking.goes_reconcileTurns)
    show "booked_from (current_row wave) (advance_after sv d wave us x)" for x by (rule from_advance_after)
    show "current_row wave s \<Longrightarrow> current_row wave s'" if "st_waves s' = st_waves s" for s s'
      using that by (simp add: current_row_def getWave_def)
  qed
  have settled: "booked_from (\<lambda>s. \<forall>wave. ws_wave st = Some wave \<longrightarrow> current_row wave s)
     (andThen (getDiscussion_or_throw (ws_discussionId st)) (\<lambda>discussion.
        andThen (case ws_wave st of
            None \<Rightarrow> mutationResult sv (d_discussionId discussion) [] []
          | Some wave \<Rightarrow>
              if w_state wave \<noteq> WS_open then mutationResult sv (d_discussionId discussion) [] []
              else andThen (if waveCompletionMode (d_policy discussion) = WC_read_only_quorum
                  then reconcileTerminalWaveTurns sv wave (ws_turns st) else ret (ws_turns st)) (\<lambda>turns.
                advance_after sv discussion wave (ws_turns st) turns)) (\<lambda>result.
        ret (Some result))))" for st
  proof (cases "ws_wave st")
    case None
    then show ?thesis by (auto intro!: from_goes orchestrator)
  next
    case (Some wave)
    show ?thesis unfolding Some
      by (auto intro!: from_andThen[OF still.goes_getDiscussion] from_then_goes from_if wave
          from_goes[OF booking.goes_mutationResult])
  qed
  show ?thesis
    unfolding onRunTerminal_def
  proof (rule booking.goes_andThen[OF booking.goes_now], rule from_ensures[OF booking.goes_settle settle_current])
    fix x and at_time :: timestamp
    show "booked_from (\<lambda>s. \<forall>st wave. x = Some st \<longrightarrow> ws_wave st = Some wave \<longrightarrow> current_row wave s)
      (case x of None \<Rightarrow> ret None | Some settled \<Rightarrow>
        andThen (getDiscussion_or_throw (ws_discussionId settled)) (\<lambda>discussion.
        andThen (case ws_wave settled of
            None \<Rightarrow> mutationResult sv (d_discussionId discussion) [] []
          | Some wave \<Rightarrow>
              if w_state wave \<noteq> WS_open then mutationResult sv (d_discussionId discussion) [] []
              else andThen (if waveCompletionMode (d_policy discussion) = WC_read_only_quorum
                  then reconcileTerminalWaveTurns sv wave (ws_turns settled) else ret (ws_turns settled)) (\<lambda>turns.
                advance_after sv discussion wave (ws_turns settled) turns)) (\<lambda>result.
        ret (Some result))))"
      by (cases x) (auto intro: from_goes booked_from_mono[OF settled])
  qed
qed

text \<open>A Discussion whose id was just inserted has no Turns.\<close>

lemma create_rows:
  assumes "createDiscussion d ps e s = Inr s'"
  shows "st_turns s' = st_turns s" "st_waves s' = st_waves s"
    and "\<forall>row\<in>set (st_discussions s). d_discussionId row \<noteq> d_discussionId d"
proof -
  let ?row = "d\<lparr>d_executionModel := Some (case d_executionModel d of None \<Rightarrow> Exec_sequential | Some m \<Rightarrow> m),
           d_currentWave := Some (case d_currentWave d of None \<Rightarrow> 0 | Some n \<Rightarrow> n)\<rparr>"
  let ?s1 = "s\<lparr>st_discussions := st_discussions s @ [?row]\<rparr>"
  from assms obtain s2 where cf: "conflict_free discussion_conflict (st_discussions s @ [?row])"
    and ps: "for_each insertParticipant ps ?s1 = Inr s2" and ev: "insertBudgetEvent e s2 = Inr s'"
    by (auto simp: createDiscussion_def Let_def bind_eq_Inr insert_row_Inr)
  have "st_turns s2 = st_turns ?s1 \<and> st_waves s2 = st_waves ?s1"
    by (rule for_each_inv[OF ps, where P = "\<lambda>_ s2. st_turns s2 = st_turns ?s1 \<and> st_waves s2 = st_waves ?s1"])
      (auto simp: insertParticipant_def bind_eq_Inr insert_row_Inr)
  then show "st_turns s' = st_turns s" "st_waves s' = st_waves s"
    using ev by (auto simp: insertBudgetEvent_def bind_eq_Inr insert_row_Inr)
  from discussions.distinct_keys[OF cf] show "\<forall>row\<in>set (st_discussions s). d_discussionId row \<noteq> d_discussionId d"
    by (auto simp: image_iff)
qed

lemma create_booked:
  assumes "booked s" and "createDiscussion d ps e s = Inr s'" and "d_currentWave d = Some 0"
  shows "booked s'" and "candidates_free d qs s'"
proof -
  note rows = create_rows[OF assms(2)]
  from assms(1) have s: "store_inv s" "one_turn_each s" "turns_homed s" by (simp_all only: booked_def)
  have "store_inv s'" by (rule create_inv[OF s(1) assms(2)]) (simp add: assms(3))
  moreover have "one_turn_each s'" using s(2) by (simp only: one_turn_each_def rows(1))
  moreover have "turns_homed s'" using s(3) by (simp only: turns_homed_def rows(1,2))
  ultimately show "booked s'" by (simp only: booked_def)
  have "t_discussionId t \<noteq> d_discussionId d" if "t \<in> set (st_turns s)" for t
  proof -
    from s(3) that obtain w where "w \<in> set (st_waves s)" "w_discussionId w = t_discussionId t"
      unfolding turns_homed_def by blast
    moreover have "numbered s" using s(1) by (simp only: store_inv_def)
    ultimately obtain row where "row \<in> set (st_discussions s)" "d_discussionId row = w_discussionId w"
      unfolding numbered_def by blast
    with rows(3) \<open>w_discussionId w = t_discussionId t\<close> show ?thesis by auto
  qed
  then have "free_agents (d_discussionId d) agents s'" for agents
    unfolding free_agents_def rows(1) by blast
  then show "candidates_free d qs s'" unfolding candidates_free_def by blast
qed

lemma booking_create: "goes keeps_booked (create sv who input)"
proof -
  let ?insert = "\<lambda>d ps e. on_store (\<lambda>s. bind (createDiscussion d ps e s) (\<lambda>s. Inr ((), s)))"
  have inserted: "goes keeps_booked (?insert d ps e)" if "d_currentWave d = Some 0" for d ps e
    using that create_booked(1)
    by (auto simp: goes_def keeps_booked_def on_store_def bind_eq_Inr split: sum.splits prod.splits)
  have free: "ensures (\<lambda>_. candidates_free d qs) (?insert d ps e)" if "d_currentWave d = Some 0" for d ps e qs
    using that create_booked(2)
    by (auto simp: ensures_def on_store_def bind_eq_Inr split: sum.splits prod.splits)
  have plan: "goes keeps_booked (andThen (?insert d ps e) (\<lambda>_.
      andThen (persistWavePlan sv d qs m k dec b es) (\<lambda>_. scheduled_result sv i (reconcile sv i))))"
    if "d_currentWave d = Some 0" for d ps e qs m k dec b es i
    by (rule from_ensures[OF inserted[OF that] free[OF that] from_persistWavePlan])
      (auto intro!: orchestrator)
  have "goes keeps_booked (createWithinTransaction sv who input)"
    unfolding createWithinTransaction_def Let_def
    by (auto intro!: orchestrator plan simp: new_discussion_def)
  then show ?thesis
    unfolding create_def goes_def keeps_booked_def atomic_def
    by (auto split: sum.splits prod.splits)
qed

interpretation booking: orchestrator_relation keeps_booked "sv_lib sv" sv for sv
  by unfold_locales (rule booking_onRunTerminal booking_planContinuation booking_planFinalization booking_create)+

lemma empty_booked: "booked empty_store"
  by (simp add: booked_def one_turn_each_def turns_homed_def store_inv_def tables_ok_def numbered_def populated_def
      closed_justified_def empty_store_def)

section \<open>Property\<close>

text \<open>
  (C2) No Agent is double-booked. From an empty database, after any calls of the orchestrator
  interleaved with Runtime events and messages, an Agent has at most one live Turn in a
  Discussion, although a quorum may have sealed a Wave and planned the next one while Turns of
  the sealed Wave still run.
\<close>

theorem no_double_booking:
  assumes "initial_world w0" and "service_ops sv w0 w"
  shows "length (filter (\<lambda>t. t_speakerAgentId t = a \<and> \<not> terminalTurnState (t_state t)) (listTurns i (wd_store w))) \<le> 1"
proof -
  have "booked (wd_store w)"
    using booking.service_ops[OF assms(2)] assms(1) empty_booked by (simp add: keeps_booked_def initial_world_def)
  then have one: "one_turn_each (wd_store w)" and ids: "distinct (map t_turnId (st_turns (wd_store w)))"
    using turns.distinct_keys by (auto simp: booked_def store_inv_def tables_ok_def)
  let ?live = "filter (\<lambda>t. t_speakerAgentId t = a \<and> \<not> terminalTurnState (t_state t)) (listTurns i (wd_store w))"
  have rows: "set ?live \<subseteq> set (st_turns (wd_store w))" by (auto simp: listTurns_def)
  have "distinct (map t_turnId ?live)"
    by (rule distinct_map_filter) (use distinct_map_filter[OF ids] in
      \<open>simp add: listTurns_def mset_eq_imp_distinct_iff[OF arg_cong[where f = "image_mset t_turnId", OF mset_sort_by,
        folded mset_map]]\<close>)
  show ?thesis
  proof (rule ccontr)
    assume "\<not> length ?live \<le> 1"
    then obtain t u rest where live: "?live = t # u # rest" by (cases ?live; cases "tl ?live") auto
    with \<open>distinct (map t_turnId ?live)\<close> have "t_turnId t \<noteq> t_turnId u" by simp
    moreover have "t \<in> set ?live" "u \<in> set ?live" using live by simp_all
    then have "t_turnId t = t_turnId u" using one unfolding one_turn_each_def by (auto simp: listTurns_def)
    ultimately show False by contradiction
  qed
qed

theorem no_double_booking_witness:
  "\<exists>w. service_ops demo_services demo_world w \<and> tr_messages (wd_team w) \<noteq> [] \<and>
     length (filter (\<lambda>t. t_speakerAgentId t = [6] \<and> \<not> terminalTurnState (t_state t)) (listTurns [1] (wd_store w))) \<le> 1"
proof -
  obtain w where hist: "service_ops demo_services demo_world w" "tr_messages (wd_team w) \<noteq> []"
    using demo_history by blast
  from no_double_booking[OF demo_initial hist(1)] hist show ?thesis by blast
qed

end
