(* ===== verification/Instruction_Bounds.thy ===== *)
theory Instruction_Bounds
  imports Discussion_Orchestrator
begin

text \<open>
  The size of the instruction of a Turn
  (\<^verbatim>\<open>apps/server/src/discussion/discussion-evidence-service.ts\<close>): the sections that must not
  be cut are bounded by the limits of goal and progress, the fixed texts and the ids and names
  they mention, and the transcript takes what is left.
\<close>

section \<open>Sizes of texts\<close>

abbreviation size_of :: "jstring \<Rightarrow> int" where
  "size_of \<equiv> codePointLength"

lemma size_lit: "size_of (lit s) \<le> int (length s)"
  using length_code_points_le[of "lit s"] by (simp add: codePointLength_def)

lemma size_append: "size_of a \<le> m \<Longrightarrow> size_of b \<le> n \<Longrightarrow> size_of (a @ b) \<le> m + n"
  using codePointLength_append[of a b] by linarith

lemma size_join: "size_of (join sep xs) \<le> (\<Sum>x\<leftarrow>xs. size_of x + size_of sep)"
proof (induction xs)
  case (Cons x xs)
  have "size_of (x @ sep @ join sep xs) \<le> size_of x + (size_of sep + size_of (join sep xs))"
    by (intro size_append order.refl)
  with Cons codePointLength_nonneg[of sep] show ?case by (auto simp: join_step simp del: codePointLength_nonneg)
qed simp

lemma size_lines: "size_of (join newline xs) \<le> (\<Sum>x\<leftarrow>xs. size_of x + 1)"
  using size_join[of newline xs] by simp

lemma size_role: "size_of (role_text r) \<le> 11"
  using size_lit[of "''participant''"] size_lit[of "''reviewer''"] by (cases r) simp_all

lemma size_mode: "size_of (mode_text m) \<le> 11"
  using size_lit[of "''round_robin''"] size_lit[of "''review''"] by (cases m) simp_all

text \<open>The ids, names and numbers an instruction mentions.\<close>

definition member_text :: "team_room \<Rightarrow> DiscussionParticipant \<Rightarrow> jstring" where
  "member_text t p = agentName t (p_agentId p) @ lit '' ('' @ role_text (p_role p) @ lit '')''"

definition identifiers_length :: "DiscussionRecord \<Rightarrow> DiscussionWave \<Rightarrow> DiscussionTurn \<Rightarrow> world \<Rightarrow> int" where
  "identifiers_length discussion wave turn w =
    size_of (d_discussionId discussion) + 2 * size_of (d_taskId discussion) +
    size_of (int_text (w_ordinal wave)) + size_of (int_text (member_ordinal turn + 1)) +
    size_of (int_text (w_expectedMembers wave)) +
    size_of (int_text (max 0 (leaseEndTurn (d_budget discussion) - turnsUsed (d_budget discussion)))) +
    size_of (agentName (wd_team w) (t_speakerAgentId turn)) +
    (\<Sum>p\<leftarrow>listParticipants (d_discussionId discussion) (wd_store w).
       size_of (agentName (wd_team w) (p_agentId p)) + size_of (p_agentId p) + 18)"

lemma size_member: "size_of (member_text t p) \<le> size_of (agentName t (p_agentId p)) + 14"
proof -
  have "size_of (member_text t p) \<le> size_of (agentName t (p_agentId p)) + (2 + (11 + 1))"
    unfolding member_text_def using size_lit[of "'' (''"] size_lit[of "'')''"] size_role
    by (intro size_append) auto
  then show ?thesis by simp
qed

lemma size_comma: "size_of (lit '', '') \<le> 2"
  using size_lit[of "'', ''"] by simp

lemma size_members:
  "size_of (join (lit '', '') (map (member_text t) ps)) \<le> (\<Sum>p\<leftarrow>ps. size_of (agentName t (p_agentId p)) + 16)"
proof -
  have "(\<Sum>p\<leftarrow>ps. size_of (member_text t p) + size_of (lit '', '')) \<le> (\<Sum>p\<leftarrow>ps. size_of (agentName t (p_agentId p)) + 16)"
    using size_member size_comma by (intro sum_list_mono) (smt (verit, best))
  with size_join[of "lit '', ''" "map (member_text t) ps"] show ?thesis by (simp add: comp_def)
qed

lemma size_goal: "size_of (truncateSection s maximumGoalCodePoints) \<le> 8000"
  using truncateSection_bound[of maximumGoalCodePoints s] by (simp add: maximumGoalCodePoints_def)

lemma size_progress: "size_of (progress_section f p) \<le> 6000"
  unfolding progress_section_def using truncateSection_bound[of maximumProgressCodePoints]
  by (simp add: maximumProgressCodePoints_def)

lemma size_leading:
  "size_of (instruction_leading f d v t w) \<le> 14260 + size_of (d_discussionId d) + size_of (d_taskId d) +
    size_of (int_text (w_ordinal v)) + size_of (int_text (member_ordinal t + 1)) +
    size_of (int_text (w_expectedMembers v)) +
    size_of (int_text (max 0 (leaseEndTurn (d_budget d) - turnsUsed (d_budget d)))) +
    size_of (agentName (wd_team w) (t_speakerAgentId t)) +
    (\<Sum>p\<leftarrow>listParticipants (d_discussionId d) (wd_store w). size_of (agentName (wd_team w) (p_agentId p)) + 16)"
proof -
  let ?ps = "listParticipants (d_discussionId d) (wd_store w)"
  have member: "(\<lambda>p. agentName (wd_team w) (p_agentId p) @ lit '' ('' @ role_text (p_role p) @ lit '')'') =
      member_text (wd_team w)"
    by (rule ext) (simp add: member_text_def)
  note lits = size_lit[of "''# ConveneWire Discussion Context''"] size_lit[of "''## Goal''"]
    size_lit[of "''## Progress''"] size_lit[of "''## Remaining Lease''"] size_lit[of "''## Recent Room Transcript''"]
  have lines:
    "size_of (lit ''Discussion ID: '' @ d_discussionId d) \<le> int (length ''Discussion ID: '') + size_of (d_discussionId d)"
    "size_of (lit ''Task ID: '' @ d_taskId d) \<le> int (length ''Task ID: '') + size_of (d_taskId d)"
    "size_of (lit ''Wave: '' @ int_text (w_ordinal v)) \<le> int (length ''Wave: '') + size_of (int_text (w_ordinal v))"
    "size_of (lit ''Wave member: '' @ int_text (member_ordinal t + 1) @ lit ''/'' @ int_text (w_expectedMembers v))
      \<le> int (length ''Wave member: '') + (size_of (int_text (member_ordinal t + 1)) +
         (int (length ''/'') + size_of (int_text (w_expectedMembers v))))"
    "size_of (lit ''Mode: '' @ mode_text (d_mode d)) \<le> int (length ''Mode: '') + 11"
    "size_of (lit ''Current Agent: '' @ agentName (wd_team w) (t_speakerAgentId t) @ lit '' ('' @
         role_text (speaker_role ?ps t) @ lit '')'') \<le> int (length ''Current Agent: '') +
         (size_of (agentName (wd_team w) (t_speakerAgentId t)) + (int (length '' ('') + (11 + int (length '')''))))"
    "size_of (lit ''Participants: '' @ join (lit '', '') (map (member_text (wd_team w)) ?ps))
      \<le> int (length ''Participants: '') + (\<Sum>p\<leftarrow>?ps. size_of (agentName (wd_team w) (p_agentId p)) + 16)"
    "size_of (int_text (max 0 (leaseEndTurn (d_budget d) - turnsUsed (d_budget d))) @ lit '' ordinary waves.'')
      \<le> size_of (int_text (max 0 (leaseEndTurn (d_budget d) - turnsUsed (d_budget d)))) + int (length '' ordinary waves.'')"
    by (intro size_append size_lit size_members size_role size_mode order.refl)+
  show ?thesis
    unfolding instruction_leading_def Let_def member
    by (rule order.trans[OF size_lines])
      (use lits lines size_goal[of "d_goal d"] size_progress[of f "d_progress d"] in simp)
qed

lemma size_output: "size_of (map g (output_mode_text m)) \<le> 17"
proof -
  have "length (output_mode_text m) \<le> 17" by (cases m) (simp_all add: lit_def)
  then show ?thesis using length_code_points_le[of "map g (output_mode_text m)"] by (simp add: codePointLength_def)
qed

lemma size_agents: "size_of (join (lit '', '') (map p_agentId ps)) \<le> (\<Sum>p\<leftarrow>ps. size_of (p_agentId p) + 2)"
proof -
  have "(\<Sum>p\<leftarrow>ps. size_of (p_agentId p) + size_of (lit '', '')) \<le> (\<Sum>p\<leftarrow>ps. size_of (p_agentId p) + 2)"
    using size_comma by (intro sum_list_mono) simp
  with size_join[of "lit '', ''" "map p_agentId ps"] show ?thesis by (simp add: comp_def)
qed

lemma size_proposal:
  "size_of (plan_proposal_instruction d ps) \<le> 520 + size_of (d_taskId d) + (\<Sum>p\<leftarrow>ps. size_of (p_agentId p) + 2)"
proof -
  have lines:
    "size_of (lit ''The JSON must contain only title, decision summary/items/unresolvedQuestions, '' @
       lit ''nodes, edges, externalInputs and policy. Do not set the root Task, sources, '' @
       lit ''revisions, author, operation, approval or execution state.'')
     \<le> int (length ''The JSON must contain only title, decision summary/items/unresolvedQuestions, '') +
       (int (length ''nodes, edges, externalInputs and policy. Do not set the root Task, sources, '') +
        int (length ''revisions, author, operation, approval or execution state.''))"
    "size_of (lit ''The Server-owned root Task is '' @ d_taskId d @ lit ''; available Agent IDs: '' @
       join (lit '', '') (map p_agentId ps) @ lit ''.'')
     \<le> int (length ''The Server-owned root Task is '') + (size_of (d_taskId d) +
       (int (length ''; available Agent IDs: '') + ((\<Sum>p\<leftarrow>ps. size_of (p_agentId p) + 2) + int (length ''.''))))"
    by (intro size_append size_lit size_agents order.refl)+
  show ?thesis
    unfolding plan_proposal_instruction_def
    by (rule order.trans[OF size_lines])
      (use lines size_lit[of "''For a structured execution-plan draft, append exactly one final line:''"]
        size_lit[of \<open>''<convenewire-plan-proposal>{"schemaVersion":"1.0",...}</convenewire-plan-proposal>''\<close>]
        size_lit[of "''If you cannot produce a complete closed-schema draft, omit the envelope; prose is preserved.''"] in simp)
qed

lemma size_task:
  "size_of (task_instruction d ps t) \<le> 680 + size_of (d_taskId d) + (\<Sum>p\<leftarrow>ps. size_of (p_agentId p) + 2)"
proof -
  let ?rest = "if d_outputMode d = OM_decision_record then newline @ plan_proposal_instruction d ps else []"
  have "0 \<le> (\<Sum>p\<leftarrow>ps. size_of (p_agentId p) + 2)" by (rule sum_list_nonneg) auto
  moreover have "size_of (newline @ plan_proposal_instruction d ps) \<le> 1 + (520 + size_of (d_taskId d) + (\<Sum>p\<leftarrow>ps. size_of (p_agentId p) + 2))"
    by (intro size_append size_proposal) simp
  ultimately have rest: "size_of ?rest \<le> 521 + size_of (d_taskId d) + (\<Sum>p\<leftarrow>ps. size_of (p_agentId p) + 2)" by simp
  have texts: "size_of (lit ''Produce the final '' @ map g (output_mode_text (d_outputMode d)) @
       lit '' now. Synthesize the best supported conclusion, important unresolved issues, and next actions.'' @ ?rest)
     \<le> int (length ''Produce the final '') + (17 +
        (int (length '' now. Synthesize the best supported conclusion, important unresolved issues, and next actions.'') +
         (521 + size_of (d_taskId d) + (\<Sum>p\<leftarrow>ps. size_of (p_agentId p) + 2))))"
    "size_of (lit ''Make an independent, useful contribution for this Wave. Resolve a question, add evidence, '' @
       lit ''or challenge the current conclusion; do not merely repeat agreement.'')
     \<le> int (length ''Make an independent, useful contribution for this Wave. Resolve a question, add evidence, '') +
       int (length ''or challenge the current conclusion; do not merely repeat agreement.'')" for g
    by (intro size_append size_lit size_output rest)+
  from texts(1)[of "\<lambda>u. if u = 0x5F then 0x20 else u"] texts(2) \<open>0 \<le> (\<Sum>p\<leftarrow>ps. size_of (p_agentId p) + 2)\<close>
    codePointLength_nonneg[of "d_taskId d"]
  show ?thesis unfolding task_instruction_def by (auto simp del: codePointLength_nonneg)
qed

lemma size_example: "size_of assessment_example \<le> 400"
proof -
  have "size_of assessment_example \<le> int (length ''<agentroom-assessment>{!goalSatisfied!:false,'') +
      (int (length ''!confidence!:0.75,!resolvedQuestionIds!:[!q1!],'') +
       (int (length ''!openQuestions!:[{!id!:!q2!,!question!:!What remains?!,'') +
        (int (length ''!importance!:!high!}],!newEvidenceRefs!:[!msg_example1!],'') +
         (int (length ''!disagreementRemaining!:!medium!,!newInformationAdded!:true,'') +
          (int (length ''!reviewerApproved!:false,!recommendation!:!continue!}'') +
           int (length ''</agentroom-assessment>''))))))"
    unfolding assessment_example_def by (intro size_append order.trans[OF size_lit]) simp_all
  then show ?thesis by simp
qed

lemma size_trailing:
  "size_of (instruction_trailing d t w) \<le> 1760 + size_of (d_taskId d) +
     (\<Sum>p\<leftarrow>listParticipants (d_discussionId d) (wd_store w). size_of (p_agentId p) + 2)"
proof -
  let ?ps = "listParticipants (d_discussionId d) (wd_store w)"
  have "size_of (lit ''The Orchestrator, not you, decides whether the Discussion continues. '' @
         lit ''A plain-text reply is always valid when structured assessment is unsupported.'')
      \<le> int (length ''The Orchestrator, not you, decides whether the Discussion continues. '') +
        int (length ''A plain-text reply is always valid when structured assessment is unsupported.'')"
    by (intro size_append size_lit)
  then show ?thesis
    unfolding instruction_trailing_def Let_def
    by (intro order.trans[OF size_lines])
      (use size_task[of d ?ps t] size_example size_lit[of "''## Your Task''"]
        size_lit[of "''Other participants in this Wave run concurrently and cannot see this reply until the next Wave.''"]
        size_lit[of "''When supported, append exactly one final line in this complete optional-field form:''"]
        size_lit[of "''Only report fields you can justify. Do not invent question IDs or evidence references.''"]
        size_lit[of "''As the designated Reviewer, always report reviewerApproved as true or false.''"]
        size_lit[of "''The assessment is evidence only; it does not control the next action.''"] in auto)
qed

section \<open>Property\<close>

text \<open>
  (C39) The instruction of a Turn is always built when the ids, names and numbers it mentions take
  at most 3,900 code points together: whatever the length of the goal, the questions and the
  transcript, it has at most 20,000 code points, begins with the whole context of the Discussion
  and ends with the whole task of the Turn. Only the goal, the progress and the transcript are cut.
\<close>

theorem instruction_bounded:
  assumes "identifiers_length discussion wave turn w \<le> 3900"
    and "listWaveSeals L (d_discussionId discussion) (wd_store w) = Inr seals"
  shows "\<exists>instruction transcript.
    buildInstruction L numberText discussion wave turn w = Inr instruction \<and>
    instruction = instruction_leading numberText discussion wave turn w @ newline @ transcript @ newline @ newline @
      instruction_trailing discussion turn w \<and>
    codePointLength instruction \<le> 20000"
proof -
  let ?leading = "instruction_leading numberText discussion wave turn w"
  let ?trailing = "instruction_trailing discussion turn w"
  have framing: "codePointLength ?leading + codePointLength ?trailing + 18 \<le> maximumInstructionCodePoints"
    using assms(1) size_leading[of numberText discussion wave turn w] size_trailing[of discussion turn w]
    by (simp add: identifiers_length_def maximumInstructionCodePoints_def sum_list_addf sum_list_triv)
  from assms(2) obtain messages where "discussionTranscript L discussion wave
      (getMessage (t_inputMessageId turn) (wd_team w)) w = Inr messages"
    by (auto simp: discussionTranscript_def acceptedPriorTurnMessages_def Let_def bind_def)
  moreover obtain instruction where "assemble_instruction ?leading (map (transcript_line (wd_team w)) messages) ?trailing
      = Inr instruction"
    using assemble_instruction_fits[OF framing] by blast
  ultimately show ?thesis
    using assemble_instruction_Inr[of ?leading _ ?trailing instruction]
    by (auto simp: buildInstruction_def maximumInstructionCodePoints_def)
qed

section \<open>A concrete Turn\<close>

definition demo_open_wave :: DiscussionWave where
  "demo_open_wave = \<lparr>w_waveId = lit ''w'', w_discussionId = lit ''d'', w_ordinal = 1,
     w_phase = Phase_contribution, w_inputMessageId = lit ''m'', w_state = WS_open, w_deadlineAt = 300000,
     w_expectedMembers = 2, w_version = 1, w_createdAt = 0, w_updatedAt = 0, w_closedAt = None,
     w_selection = None\<rparr>"

definition demo_turn :: DiscussionTurn where
  "demo_turn = \<lparr>t_turnId = lit ''x'', t_discussionId = lit ''d'', t_ordinal = 1, t_kind = Kind_discussion,
     t_speakerAgentId = lit ''a0'', t_inputMessageId = lit ''m'', t_runId = None, t_outputMessageId = None,
     t_state = TS_planned, t_assessment = None, t_replyHash = None, t_createdAt = 0, t_updatedAt = 0,
     t_completedAt = None, t_waveId = Some (lit ''w''), t_waveMemberOrdinal = Some 0, t_terminalReason = None\<rparr>"

definition created_world :: world where
  "created_world = \<lparr>wd_store = demo_store, wd_runs = demo_runs, wd_ids = (\<lambda>n. [of_nat n]), wd_drawn = 0,
     wd_clock = (\<lambda>n. 1000 * int n), wd_ticks = 0\<rparr>"

theorem instruction_bounded_witness:
  "\<exists>instruction. buildInstruction ascii_lib (\<lambda>_. lit ''0'') (demo_discussion\<lparr>d_goal := replicate 19000 0x4E2D\<rparr>)
     demo_open_wave demo_turn created_world = Inr instruction \<and> codePointLength instruction \<le> 20000"
proof -
  let ?d = "demo_discussion\<lparr>d_goal := replicate 19000 0x4E2D\<rparr>"
  have id: "d_discussionId ?d = lit ''d''" "d_taskId ?d = lit ''t''" "leaseEndTurn (d_budget ?d) - turnsUsed (d_budget ?d) = 4"
    by (simp_all add: demo_discussion_def emptyBudgetSnapshot_def)
  have "int (length (code_points s)) \<le> int (length s)" for s using length_code_points_le[of s] by simp
  then have size: "codePointLength s \<le> int (length s)" for s by (simp add: codePointLength_def)
  have ps: "listParticipants (lit ''d'') demo_store = demo_members" by (rule demo_listing)
  have "agentName (wd_team created_world) a = a" for a
    by (simp add: created_world_def demo_runs_def demo_team_def agentName_def getAgent_def)
  moreover have "length (int_text 1) = 1" "length (int_text 2) = 1" "length (int_text 4) = 1"
    by (simp_all add: int_text_def nat_text.simps)
  ultimately have "identifiers_length ?d demo_open_wave demo_turn created_world \<le> 3900"
    unfolding identifiers_length_def id
    using size[of "lit ''d''"] size[of "lit ''t''"] size[of "int_text 1"] size[of "int_text 2"] size[of "int_text 4"]
      size[of "lit ''a0''"] size[of "lit ''a1''"]
    by (simp add: created_world_def ps demo_open_wave_def demo_turn_def demo_participant_def member_ordinal_def)
  moreover have "listWaveSeals ascii_lib (d_discussionId ?d) (wd_store created_world) = Inr []"
    by (simp add: listWaveSeals_def created_world_def demo_store_def empty_store_def check_each_def)
  ultimately show ?thesis using instruction_bounded by blast
qed

end
