(* ===== verification/Orchestrator_Recursion.thy ===== *)
theory Orchestrator_Recursion
  imports Turn_Booking Instruction_Bounds
begin

text \<open>
  The recursion of the orchestrator ends. \<open>reconcileDiscussion\<close> advances the Waves whose planned
  Turns it had to give up, because their Agents are no longer available; advancing a Wave may plan
  the next one and reconcile again. The next Wave has Turns of available Agents only, so the
  second reconciliation gives up no Turn and advances nothing: two levels are enough. A Turn whose
  Run collides with another is anchored again at the latest message, where it stays.
\<close>

section \<open>Availability\<close>

definition open_agents :: "jstring \<Rightarrow> world \<Rightarrow> jstring set" where
  "open_agents i w = (case getDiscussion i (wd_store w) of None \<Rightarrow> {}
     | Some d \<Rightarrow> p_agentId ` set (eligibleParticipants d (listParticipants i (wd_store w)) (wd_team w)))"

definition planned_agents :: "jstring \<Rightarrow> discussion_store \<Rightarrow> jstring set" where
  "planned_agents i s = t_speakerAgentId ` {t \<in> set (st_turns s). t_discussionId t = i \<and> t_state t = TS_planned}"

text \<open>The Agents that are available are \<open>A\<close>, and every planned Turn is one of theirs.\<close>

definition plannable :: "jstring \<Rightarrow> jstring set \<Rightarrow> world \<Rightarrow> bool" where
  "plannable i A w \<longleftrightarrow> open_agents i w = A \<and> planned_agents i (wd_store w) \<subseteq> A"

definition keeps_plannable :: "jstring \<Rightarrow> jstring set \<Rightarrow> world \<Rightarrow> world \<Rightarrow> bool" where
  "keeps_plannable i A w w' \<longleftrightarrow> (plannable i A w \<longrightarrow> plannable i A w')"

definition same_place :: "DiscussionRecord \<Rightarrow> DiscussionRecord \<Rightarrow> bool" where
  "same_place d d' \<longleftrightarrow> d_discussionId d' = d_discussionId d \<and> d_roomId d' = d_roomId d \<and>
     d_taskId d' = d_taskId d \<and> d_policy d' = d_policy d"

definition steady :: "discussion_store \<Rightarrow> discussion_store \<Rightarrow> bool" where
  "steady s s' \<longleftrightarrow> st_participants s' = st_participants s \<and>
     list_all2 same_place (st_discussions s) (st_discussions s')"

text \<open>The rows of a Room that the availability of an Agent depends on.\<close>

definition same_team :: "team_room \<Rightarrow> team_room \<Rightarrow> bool" where
  "same_team t t' \<longleftrightarrow> tr_rooms t' = tr_rooms t \<and> tr_roomAgents t' = tr_roomAgents t \<and>
     tr_agents t' = tr_agents t \<and> tr_devices t' = tr_devices t \<and> tr_tasks t' = tr_tasks t"

lemma steady_refl [simp]: "steady s s"
  by (simp add: steady_def same_place_def list_all2_refl)

lemma steady_trans [trans]: "steady s s' \<Longrightarrow> steady s' s'' \<Longrightarrow> steady s s''"
  unfolding steady_def
  using list_all2_trans[of same_place same_place same_place "st_discussions s" "st_discussions s'" "st_discussions s''"]
  by (simp add: same_place_def)

lemma same_team_eligible:
  assumes "same_team t t'" and "same_place d d'"
  shows "eligibleParticipants d' ps t' = eligibleParticipants d ps t"
proof -
  note rows = assms[unfolded same_team_def same_place_def]
  then have look: "getDevice x t' = getDevice x t" "getAgent x t' = getAgent x t" "getRoom x t' = getRoom x t"
      "getTask x t' = getTask x t" "isRoomAgent x y t' = isRoomAgent x y t" for x y
    by (simp_all add: getDevice_def getAgent_def getRoom_def getTask_def isRoomAgent_def)
  have places: "d_roomId d' = d_roomId d" "d_taskId d' = d_taskId d" "d_policy d' = d_policy d" using rows by simp_all
  show ?thesis
    unfolding eligibleParticipants_def eligible_agent_def isQuorumCapableAgent_def look places ..
qed

lemma steady_getDiscussion:
  assumes "steady s s'"
  shows "rel_option same_place (getDiscussion i s) (getDiscussion i s')"
proof -
  have "list_all2 same_place ds ds' \<Longrightarrow> rel_option same_place (find (\<lambda>d. d_discussionId d = i) ds)
      (find (\<lambda>d. d_discussionId d = i) ds')" for ds ds'
    by (induction rule: list_all2_induct) (auto simp: same_place_def)
  then show ?thesis using assms by (simp add: steady_def getDiscussion_def)
qed

lemma steady_open_agents:
  assumes "steady (wd_store w) (wd_store w')" and "same_team (wd_team w) (wd_team w')"
  shows "open_agents i w' = open_agents i w"
proof -
  have "listParticipants i (wd_store w') = listParticipants i (wd_store w)"
    using assms(1) by (simp add: steady_def listParticipants_def)
  with steady_getDiscussion[OF assms(1), of i] show ?thesis
    unfolding open_agents_def
    by (auto simp: same_team_eligible[OF assms(2)] elim!: option.rel_cases split: option.splits)
qed

text \<open>A step that plans Turns of available Agents only.\<close>

lemma plannable_step:
  assumes "plannable i A w" and "steady (wd_store w) (wd_store w')" and "same_team (wd_team w) (wd_team w')"
    and "planned_agents i (wd_store w') \<subseteq> planned_agents i (wd_store w) \<union> A"
  shows "plannable i A w'"
  using assms steady_open_agents[OF assms(2,3), of i] by (auto simp: plannable_def)

section \<open>Operations of the stores\<close>

lemma same_place_refl [simp]: "same_place d d" "list_all2 same_place ds ds"
  by (simp_all add: same_place_def list_all2_refl)

definition drops_plans :: "discussion_store \<Rightarrow> discussion_store \<Rightarrow> bool" where
  "drops_plans s s' \<longleftrightarrow> steady s s' \<and> (\<forall>i. planned_agents i s' \<subseteq> planned_agents i s)"

lemma drops_refl [simp]: "drops_plans s s"
  by (simp add: drops_plans_def)

lemma drops_trans [trans]: "drops_plans s s' \<Longrightarrow> drops_plans s' s'' \<Longrightarrow> drops_plans s s''"
  unfolding drops_plans_def using steady_trans by blast

lemma drops_turns:
  assumes "update_rows conflict P f (st_turns s) = Inr (n, rows)"
    and "\<And>t. t_state (f t) = TS_planned \<Longrightarrow> P t \<Longrightarrow>
      t_state t = TS_planned \<and> t_discussionId (f t) = t_discussionId t \<and> t_speakerAgentId (f t) = t_speakerAgentId t"
  shows "drops_plans s (s\<lparr>st_turns := rows\<rparr>)"
proof -
  have rows: "rows = map (\<lambda>t. if P t then f t else t) (st_turns s)" using assms(1) by (auto simp: update_rows_Inr)
  have "planned_agents i (s\<lparr>st_turns := rows\<rparr>) \<subseteq> planned_agents i s" for i
  proof
    fix a assume "a \<in> planned_agents i (s\<lparr>st_turns := rows\<rparr>)"
    then obtain t where "t \<in> set (st_turns s)" "t_state (if P t then f t else t) = TS_planned"
      "t_discussionId (if P t then f t else t) = i" "t_speakerAgentId (if P t then f t else t) = a"
      unfolding rows planned_agents_def by auto
    then show "a \<in> planned_agents i s" using assms(2)[of t] unfolding planned_agents_def
      by (cases "P t") auto
  qed
  then show ?thesis by (simp add: drops_plans_def steady_def list_all2_refl same_place_def)
qed

lemma drops_fields:
  assumes "st_participants s' = st_participants s" "st_turns s' = st_turns s"
    and "list_all2 same_place (st_discussions s) (st_discussions s')"
  shows "drops_plans s s'"
  using assms by (simp add: drops_plans_def steady_def planned_agents_def)


lemma drops_settle:
  assumes "terminalTurnState (si_state input)" and "settleTurn input s = Inr (r, s')"
  shows "drops_plans s s'"
proof -
  from assms(2) obtain n rows where "update_rows turn_conflict
      (\<lambda>t. t_turnId t = si_turnId input \<and> t_state t \<notin> {TS_completed, TS_failed, TS_canceled})
      (settled_turn input) (st_turns s) = Inr (n, rows)" "s' = s\<lparr>st_turns := rows\<rparr>"
    by (auto simp: settleTurn_def bind_eq_Inr Let_def)
  moreover have "si_state input \<noteq> TS_planned" using assms(1) by (auto simp: enum_simps)
  ultimately show ?thesis using drops_turns[of turn_conflict _ "settled_turn input" s] by (simp add: settled_turn_def)
qed

lemma drops_bind:
  assumes "bindTurnRun i r st t s = Inr (x, s')"
  shows "drops_plans s s'"
proof -
  from assms obtain n rows where "update_rows turn_conflict (\<lambda>t. t_turnId t = i \<and> t_runId t = None \<and> t_state t = TS_planned)
      (\<lambda>u. u\<lparr>t_runId := Some r, t_state := st, t_updatedAt := t\<rparr>) (st_turns s) = Inr (n, rows)"
    "s' = s\<lparr>st_turns := rows\<rparr>"
    by (auto simp: bindTurnRun_def bind_eq_Inr Let_def)
  with drops_turns[OF this(1)] show ?thesis by auto
qed

lemma drops_reanchor:
  assumes "reanchorPlannedWave i m t s = Inr (x, s')"
  shows "drops_plans s s'"
proof -
  from assms obtain n rows ws where "update_rows turn_conflict
      (\<lambda>t. t_waveId t = Some i \<and> t_runId t = None \<and> t_state t = TS_planned)
      (\<lambda>u. u\<lparr>t_inputMessageId := m, t_updatedAt := t\<rparr>) (st_turns s) = Inr (n, rows)"
    and s': "s' = s\<lparr>st_turns := rows, st_waves := ws\<rparr>"
    by (auto simp: reanchorPlannedWave_def bind_eq_Inr Let_def)
  from drops_turns[OF this(1)] have "drops_plans s (s\<lparr>st_turns := rows\<rparr>)" by auto
  also have "drops_plans \<dots> s'" unfolding s' by (rule drops_fields) simp_all
  finally show ?thesis .
qed

lemma drops_close: "closeWave i v st t s = Inr (x, s') \<Longrightarrow> drops_plans s s'"
  by (rule drops_fields) (auto simp: closeWave_def bind_eq_Inr closeReadyWaveRow_Inr)

lemma drops_finish: "closeFinalizationAndFinish i v st wi wv wst t s = Inr (x, s') \<Longrightarrow> drops_plans s s'"
  by (rule drops_fields)
    (auto simp: closeFinalizationAndFinish_def finishFinalization_def bind_eq_Inr closeReadyWaveRow_Inr updateDiscussions_Inr
      Let_def same_place_def intro!: list_all2_map_if split: option.splits if_splits)

lemma events_participants: "for_each insertBudgetEvent es s = Inr s' \<Longrightarrow>
    st_participants s' = st_participants s \<and> st_discussions s' = st_discussions s"
  by (erule for_each_inv[where P = "\<lambda>ts s'. st_participants s' = st_participants s \<and> st_discussions s' = st_discussions s"])
    (auto simp: insertBudgetEvent_def bind_eq_Inr insert_row_Inr)

lemma turns_participants: "for_each insertTurn ts s = Inr s' \<Longrightarrow>
    st_participants s' = st_participants s \<and> st_discussions s' = st_discussions s"
  by (erule for_each_inv[where P = "\<lambda>ts s'. st_participants s' = st_participants s \<and> st_discussions s' = st_discussions s"])
    (auto simp: insertTurn_def bind_eq_Inr insert_row_Inr)

lemma steady_apply:
  assumes "closeReadyWaveRow i d st t v allow s = Inr (done, s1)" and "apply_ready_wave ri s1 = Inr s'"
  shows "steady s s'"
proof -
  from assms(2) obtain s2 s3 s4 s5 where
    a: "(case rw_seal ri of None \<Rightarrow> Inr s1 | Some seal \<Rightarrow> insertWaveSeal seal s1) = Inr s2"
    and b: "insertDecision (in_decision ri) s2 = Inr s3"
    and c: "updateDiscussions (expected (de_discussionId (in_decision ri)) (in_expectedVersion ri))
      (\<lambda>d. (decided (Discussion_Repository.decision_input.truncate ri) d)\<lparr>
          d_currentTurn := (case rw_nextWave ri of None \<Rightarrow> d_currentTurn d | Some plan \<Rightarrow> max_ordinal (wp_turns plan)),
          d_currentWave := (case rw_nextWave ri of None \<Rightarrow> d_currentWave d | Some plan \<Rightarrow> Some (w_ordinal (wp_wave plan))),
          d_terminalAt := rw_terminalAt ri\<rparr>) ''Stale Discussion aggregate version'' s3 = Inr s4"
    and n: "(case rw_nextWave ri of None \<Rightarrow> Inr s4
       | Some plan \<Rightarrow> bind (insertWave (wp_wave plan) s4) (for_each insertTurn (wp_turns plan))) = Inr s5"
    and e: "for_each insertBudgetEvent (in_budgetEvents ri) s5 = Inr s'"
    by (auto simp: apply_ready_wave_def Let_def bind_eq_Inr)
  have "steady s s1" using assms(1) by (auto simp: closeReadyWaveRow_Inr steady_def)
  also have "steady s1 s2" using a
    by (auto simp: insertWaveSeal_def Let_def bind_eq_Inr insert_row_Inr steady_def split: option.splits)
  also have "steady s2 s3" using b by (auto simp: insertDecision_def bind_eq_Inr insert_row_Inr steady_def)
  also have "steady s3 s4" using c
    by (auto simp: updateDiscussions_Inr steady_def same_place_def decided_def intro!: list_all2_map_if)
  also have "steady s4 s5" using n turns_participants
    by (fastforce simp: insertWave_def bind_eq_Inr insert_row_Inr steady_def split: option.splits)
  also have "steady s5 s'" using events_participants[OF e] by (simp add: steady_def)
  finally show ?thesis .
qed

lemma apply_plans:
  assumes "closeReadyWaveAndApply L ri s = Inr (ar, s')"
  shows "steady s s' \<and> (\<forall>i. planned_agents i s' \<subseteq> planned_agents i s \<union>
    (case rw_nextWave ri of None \<Rightarrow> {} | Some plan \<Rightarrow> set (map t_speakerAgentId (wp_turns plan))))"
proof (cases "aw_applied ar")
  case False
  with assms have "s' = s" by (auto simp: closeReadyWaveAndApply_def Let_def bind_eq_Inr split: if_splits prod.splits)
  then show ?thesis by simp
next
  case True
  from apply_Inr[OF assms True] obtain s1 where
    close: "closeReadyWaveRow (rw_waveId ri) (de_discussionId (in_decision ri)) (rw_closeState ri) (rw_closedAt ri)
      (Some (rw_expectedWaveVersion ri)) (rw_seal ri \<noteq> None) s = Inr (True, s1)"
    and app: "apply_ready_wave ri s1 = Inr s'" by blast
  from apply_rows[OF close app] have "planned_agents i s' \<subseteq> planned_agents i s \<union>
    (case rw_nextWave ri of None \<Rightarrow> {} | Some plan \<Rightarrow> set (map t_speakerAgentId (wp_turns plan)))" for i
    by (auto simp: planned_agents_def split: option.splits)
  with steady_apply[OF close app] show ?thesis by blast
qed

section \<open>Actions in lockstep\<close>

interpretation plans: message_relation "keeps_plannable i A" for i A
proof
  fix trace message r t and w :: world
  assume "appendWithResult trace message (wd_team w) = Inr (r, t)"
  then have "same_team (wd_team w) t"
    by (cases rule: appendWithResult_Inr) (auto simp: same_team_def dest!: insert_message_Inr)
  then show "keeps_plannable i A w (w\<lparr>wd_runs := (wd_runs w)\<lparr>rs_team := t\<rparr>\<rparr>)"
    by (auto simp: keeps_plannable_def elim: plannable_step)
qed (auto simp: keeps_plannable_def plannable_def open_agents_def cong: option.case_cong)

lemma goes_drops:
  assumes "\<And>s x s'. f s = Inr (x, s') \<Longrightarrow> drops_plans s s'"
  shows "goes (keeps_plannable i A) (on_store f)"
proof (rule plans.goes_on_store)
  fix w :: world and x s assume "f (wd_store w) = Inr (x, s)"
  from assms[OF this] show "keeps_plannable i A w (w\<lparr>wd_store := s\<rparr>)"
    by (fastforce simp: keeps_plannable_def drops_plans_def same_team_def elim!: plannable_step)
qed

lemma goes_runs:
  assumes "\<And>s x s'. f s = Inr (x, s') \<Longrightarrow> rs_team s' = rs_team s"
  shows "goes (keeps_plannable i A) (on_runs f)"
  using assms by (intro plans.goes_on_runs)
    (auto simp: keeps_plannable_def same_team_def elim!: plannable_step)

lemma createRuns_team: "createRuns rs s = Inr (x, s') \<Longrightarrow> rs_team s' = rs_team s"
proof -
  assume "createRuns rs s = Inr (x, s')"
  then have "for_each insertRunIdentity rs s = Inr s'" by (auto simp: createRuns_def bind_eq_Inr)
  then show ?thesis
    by (rule for_each_inv[where P = "\<lambda>_ s'. rs_team s' = rs_team s"])
      (auto simp: insertRunIdentity_def Let_def bind_eq_Inr insert_row_Inr)
qed

lemma goes_plan_free [orchestrator]:
  "terminalTurnState (si_state input) \<Longrightarrow> goes (keeps_plannable i A) (on_store (settleTurn input))"
  "goes (keeps_plannable i A) (on_store (bindTurnRun j r st t))"
  "goes (keeps_plannable i A) (on_store (reanchorPlannedWave j m t))"
  "goes (keeps_plannable i A) (on_store (closeWave j v wst t))"
  "goes (keeps_plannable i A) (on_store (closeFinalizationAndFinish j n dst wi wv wst t))"
  "goes (keeps_plannable i A) (on_runs (createRuns rs))"
  by (auto intro!: goes_drops goes_runs createRuns_team
      intro: drops_settle drops_bind drops_reanchor drops_close drops_finish)

definition lockstep :: "jstring \<Rightarrow> jstring set \<Rightarrow> 'a action \<Rightarrow> 'a action \<Rightarrow> bool" where
  "lockstep i A m m' \<longleftrightarrow> (\<forall>w. plannable i A w \<longrightarrow> m' w = m w \<and> plannable i A (snd (m w)))"

lemma lockstep_goes: "goes (keeps_plannable i A) m \<Longrightarrow> lockstep i A m m"
  by (simp add: lockstep_def goes_def keeps_plannable_def)

lemma lockstep_andThen:
  "lockstep i A m m' \<Longrightarrow> (\<And>x. lockstep i A (f x) (f' x)) \<Longrightarrow> lockstep i A (andThen m f) (andThen m' f')"
  unfolding lockstep_def andThen_def by (auto split: sum.splits prod.splits)

lemma lockstep_then:
  "goes (keeps_plannable i A) m \<Longrightarrow> (\<And>x. lockstep i A (f x) (f' x)) \<Longrightarrow> lockstep i A (andThen m f) (andThen m f')"
  by (intro lockstep_andThen lockstep_goes)

lemma lockstep_yields:
  "goes (keeps_plannable i A) m \<Longrightarrow> yields Q m \<Longrightarrow> (\<And>x. Q x \<Longrightarrow> lockstep i A (f x) (f' x)) \<Longrightarrow>
   lockstep i A (andThen m f) (andThen m f')"
  unfolding lockstep_def andThen_def goes_def keeps_plannable_def yields_def
  by (auto split: sum.splits prod.splits) (metis snd_conv)+

lemma lockstep_look:
  "(\<And>w. plannable i A w \<Longrightarrow> lockstep i A (g (f w)) (g' (f w))) \<Longrightarrow>
   lockstep i A (andThen (look f) g) (andThen (look f) g')"
  by (auto simp: lockstep_def andThen_def look_def)

lemma lockstep_collect:
  "(\<And>x. lockstep i A (f x) (f' x)) \<Longrightarrow> lockstep i A (collect_each f xs) (collect_each f' xs)"
  by (induction xs) (auto intro!: lockstep_andThen lockstep_goes)

lemma lockstep_at_look:
  "plannable i A w \<Longrightarrow> lockstep i A (g (f w)) (g' (f w)) \<Longrightarrow>
   andThen (look f) g' w = andThen (look f) g w \<and> plannable i A (snd (andThen (look f) g w))"
  by (simp add: lockstep_def andThen_def look_def)

lemma lockstep_pair: "(\<And>x y. v = (x, y) \<Longrightarrow> lockstep i A (f x y) (f' x y)) \<Longrightarrow>
   lockstep i A (case v of (x, y) \<Rightarrow> f x y) (case v of (x, y) \<Rightarrow> f' x y)"
  by (cases v) auto

lemma lockstep_if: "(c \<Longrightarrow> lockstep i A m m') \<Longrightarrow> (\<not> c \<Longrightarrow> lockstep i A n n') \<Longrightarrow>
   lockstep i A (if c then m else n) (if c then m' else n')"
  by simp

section \<open>A settled Wave\<close>

lemma goes_apply_plan:
  assumes "\<And>plan. rw_nextWave ri = Some plan \<Longrightarrow> set (map t_speakerAgentId (wp_turns plan)) \<subseteq> A"
  shows "goes (keeps_plannable i A) (on_store (closeReadyWaveAndApply L ri))"
proof (rule plans.goes_on_store)
  fix w :: world and x s assume "closeReadyWaveAndApply L ri (wd_store w) = Inr (x, s)"
  note plans = apply_plans[OF this]
  have "(case rw_nextWave ri of None \<Rightarrow> {} | Some plan \<Rightarrow> set (map t_speakerAgentId (wp_turns plan))) \<subseteq> A"
    using assms by (cases "rw_nextWave ri") simp_all
  with plans have "steady (wd_store w) s" "planned_agents i s \<subseteq> planned_agents i (wd_store w) \<union> A" by blast+
  then show "keeps_plannable i A w (w\<lparr>wd_store := s\<rparr>)"
    by (auto simp: keeps_plannable_def same_team_def elim!: plannable_step)
qed

lemma eligible_available:
  assumes "plannable i A w" and "getDiscussion i (wd_store w) = Some d"
  shows "p_agentId ` set (eligibleParticipantsForNextWave d (listParticipants (d_discussionId d) (wd_store w)) n w) \<subseteq> A"
proof -
  have "d_discussionId d = i" using assms(2) find_Some[of _ _ d] by (auto simp: getDiscussion_def)
  with assms show ?thesis by (auto simp: plannable_def open_agents_def eligibleParticipantsForNextWave_def)
qed

lemma lockstep_advanceSettledWave:
  assumes again: "lockstep i A (again i) (again' i)"
    and w: "plannable i A w" "getDiscussion i (wd_store w) = Some d"
  shows "advanceSettledWave sv again' d wave ts us seal w = advanceSettledWave sv again d wave ts us seal w \<and>
    plannable i A (snd (advanceSettledWave sv again d wave ts us seal w))"
proof -
  define ps where "ps = eligibleParticipantsForNextWave d (listParticipants (d_discussionId d) (wd_store w)) (w_ordinal wave) w"
  have ps: "p_agentId ` set ps \<subseteq> A" unfolding ps_def by (rule eligible_available[OF w])
  have apply_goes: "goes (keeps_plannable i A) (on_store (closeReadyWaveAndApply L (ready_wave d wave dec row p b es st nw seal t)))"
    if "\<forall>q. nw = Some q \<longrightarrow> planned_among d ps q" for L dec row p b es st nw t
    by (rule goes_apply_plan) (use that ps in \<open>fastforce simp: planned_among_def\<close>)
  have id: "d_discussionId d = i" using w(2) find_Some[of _ _ d] by (auto simp: getDiscussion_def)
  have again_or: "lockstep i A (if c then again (d_discussionId d) else ret []) (if c then again' (d_discussionId d) else ret [])" for c
    using again id by (auto intro: lockstep_goes)
  show ?thesis
    unfolding advanceSettledWave_def
    apply (rule lockstep_at_look[OF w(1)])
    unfolding ps_def[symmetric]
    apply (rule lockstep_look)
    apply (rule lockstep_then, rule plans.goes_evaluate)
    apply (rule lockstep_then, simp)
    apply (rule lockstep_then, rule plans.goes_anchor)
    apply (rule lockstep_then, simp)
    apply (rule lockstep_then, simp)
    apply (rule lockstep_then, rule plans.goes_newBudgetEvent)
    apply (rule lockstep_then, rule plans.goes_feasible)
    apply (rule lockstep_then, rule plans.goes_lease)
    apply (rule lockstep_pair)
    apply (rule lockstep_then, simp)
    apply (rule lockstep_yields[OF plans.goes_next_wave next_wave_among])
    apply (rule lockstep_pair)
    apply (rule lockstep_pair)
    apply (rule lockstep_then, rule plans.goes_newDecision)
    apply (rule lockstep_then, rule apply_goes, simp)
    apply (rule lockstep_if, rule lockstep_goes, rule plans.goes_mutationResult)
    apply (rule lockstep_andThen, rule again_or, rule lockstep_goes, rule plans.goes_mutationResult)
    done
qed

lemma lockstep_advance_affected:
  assumes "lockstep i A (again i) (again' i)"
  shows "lockstep i A (advance_affected sv again i v) (advance_affected sv again' i v)"
proof -
  have ready: "lockstep i A (andThen (getDiscussion_or_throw i) (\<lambda>d. andThen (advanceReadyWave sv again d wave ts) (\<lambda>r. ret (mu_scheduledRuns r))))
      (andThen (getDiscussion_or_throw i) (\<lambda>d. andThen (advanceReadyWave sv again' d wave ts) (\<lambda>r. ret (mu_scheduledRuns r))))"
    for wave ts
    unfolding lockstep_def
  proof (intro allI impI)
    fix w :: world assume w: "plannable i A w"
    have step: "advanceReadyWave sv again' d wave ts w = advanceReadyWave sv again d wave ts w \<and>
        plannable i A (snd (advanceReadyWave sv again d wave ts w))" if d: "getDiscussion i (wd_store w) = Some d" for d
    proof (cases "terminalDiscussionState (d_state d) \<or> w_phase wave = Phase_finalization")
      case True
      have "goes (keeps_plannable i A) (advanceReadyWave sv again d wave ts)"
        unfolding advanceReadyWave_def Let_def using True by (auto intro!: orchestrator)
      moreover have "advanceReadyWave sv again' d wave ts = advanceReadyWave sv again d wave ts"
        using True by (auto simp: advanceReadyWave_def Let_def)
      ultimately show ?thesis using w by (simp add: goes_def keeps_plannable_def)
    next
      case False
      then show ?thesis using lockstep_advanceSettledWave[of i A again again', OF assms w d] by (simp add: advanceReadyWave_def Let_def)
    qed
    show "andThen (getDiscussion_or_throw i) (\<lambda>d. andThen (advanceReadyWave sv again' d wave ts) (\<lambda>r. ret (mu_scheduledRuns r))) w =
        andThen (getDiscussion_or_throw i) (\<lambda>d. andThen (advanceReadyWave sv again d wave ts) (\<lambda>r. ret (mu_scheduledRuns r))) w \<and>
      plannable i A (snd (andThen (getDiscussion_or_throw i) (\<lambda>d. andThen (advanceReadyWave sv again d wave ts) (\<lambda>r. ret (mu_scheduledRuns r))) w))"
      using w step
      by (auto simp: getDiscussion_or_throw_def requireDiscussion_def andThen_def look_def pure_def ret_def
          split: option.splits sum.splits prod.splits)
  qed
  show ?thesis
    unfolding advance_affected_def
  proof (rule lockstep_look)
    fix w :: world
    show "lockstep i A
      (case (getWave v (wd_store w), listTurnsForWave v (wd_store w)) of (found, turns) \<Rightarrow>
        (case found of None \<Rightarrow> ret [] | Some wave \<Rightarrow>
          if w_state wave \<noteq> WS_open \<or> \<not> list_all (\<lambda>t. terminalTurnState (t_state t)) turns then ret []
          else andThen (getDiscussion_or_throw i) (\<lambda>discussion.
            andThen (advanceReadyWave sv again discussion wave turns) (\<lambda>result. ret (mu_scheduledRuns result)))))
      (case (getWave v (wd_store w), listTurnsForWave v (wd_store w)) of (found, turns) \<Rightarrow>
        (case found of None \<Rightarrow> ret [] | Some wave \<Rightarrow>
          if w_state wave \<noteq> WS_open \<or> \<not> list_all (\<lambda>t. terminalTurnState (t_state t)) turns then ret []
          else andThen (getDiscussion_or_throw i) (\<lambda>discussion.
            andThen (advanceReadyWave sv again' discussion wave turns) (\<lambda>result. ret (mu_scheduledRuns result)))))"
      using ready by (auto intro: lockstep_goes split: option.splits)
  qed
qed

section \<open>Reconciliation\<close>

lemma goes_ensure [orchestrator]: "goes (keeps_plannable i A) (ensureRun n sv t)"
proof (induction n arbitrary: t)
  case (Suc n)
  then show ?case unfolding ensureRun.simps create_run_def by (auto intro!: orchestrator split: option.splits)
qed simp

lemma goes_prepare_planned [orchestrator]: "goes (keeps_plannable i A) (preparePlannedWaveAnchor v)"
  unfolding preparePlannedWaveAnchor_def by (auto intro!: orchestrator split: option.splits)

text \<open>What \<open>reconcileDiscussion\<close> does once it has given up the planned Turns \<open>unavailable\<close>.\<close>

definition reconcile_rest :: "services \<Rightarrow> (jstring \<Rightarrow> RunRecord list action) \<Rightarrow> jstring \<Rightarrow> DiscussionTurn list \<Rightarrow>
    RunRecord list action" where
  "reconcile_rest sv again i unavailable =
    andThen (look (\<lambda>w. truthy_ids (map t_waveId (filter (\<lambda>t. t_state t = TS_planned)
      (listTurns i (wd_store w)))))) (\<lambda>plannedWaves.
    andThen (perform_each preparePlannedWaveAnchor plannedWaves) (\<lambda>_.
    andThen (look (\<lambda>w. filter (\<lambda>t. t_state t = TS_planned \<or> t_state t = TS_queued)
      (listTurns i (wd_store w)))) (\<lambda>live.
    andThen (collect_each (ensureRun 2 sv) live) (\<lambda>ensured.
    andThen (collect_each (advance_affected sv again i) (truthy_ids (map t_waveId unavailable))) (\<lambda>advanced.
    ret (map snd (add_runs (filter (\<lambda>r. run_state r = RS_queued) (List.map_filter id ensured) @ concat advanced) [])))))))"

lemma lockstep_rest:
  "lockstep i A (again i) (again' i) \<Longrightarrow>
   lockstep i A (reconcile_rest sv again i us) (reconcile_rest sv again' i us)"
  unfolding reconcile_rest_def
  apply (rule lockstep_look)
  apply (rule lockstep_then, (auto intro!: orchestrator)[1])
  apply (rule lockstep_look)
  apply (rule lockstep_then, (auto intro!: orchestrator)[1])
  apply (rule lockstep_andThen)
   apply (rule lockstep_collect, rule lockstep_advance_affected, assumption)
  apply (rule lockstep_goes, simp)
  done

lemma rest_nothing: "reconcile_rest sv again i [] = reconcile_rest sv again' i []"
  by (simp add: reconcile_rest_def truthy_ids_def map_filter_simps js_set_def)

lemma reconcile_Suc:
  "reconcileDiscussion (Suc n) sv i =
    andThen (getDiscussion_or_throw i) (\<lambda>discussion.
    andThen (look (\<lambda>w. map p_agentId (eligibleParticipants discussion
      (listParticipants i (wd_store w)) (wd_team w)))) (\<lambda>eligibleAgentIds.
    andThen (look (\<lambda>w. listWaves i (wd_store w))) (\<lambda>waves.
    andThen (perform_each (check_open_wave sv) waves) (\<lambda>_.
    andThen (look (\<lambda>w. filter (\<lambda>t. t_state t = TS_planned \<and> t_speakerAgentId t \<notin> set eligibleAgentIds)
      (listTurns i (wd_store w)))) (\<lambda>unavailable.
    andThen (perform_each settle_unavailable unavailable) (\<lambda>_.
    reconcile_rest sv (reconcileDiscussion n sv) i unavailable))))))"
  by (simp add: reconcile_rest_def)

lemma check_waves_world: "snd (perform_each (check_open_wave sv) waves w) = w"
proof (induction waves)
  case (Cons v vs)
  have "snd (check_open_wave sv v w) = w"
    by (auto simp: check_open_wave_def andThen_def look_def pure_def ret_def split: sum.splits prod.splits option.splits
        DiscussionWaveState.splits)
  with Cons show ?case by (auto simp: andThen_def split: sum.splits prod.splits)
qed (simp add: ret_def)

text \<open>How a reconciliation starts: with the Agents that are available and the checks of the Waves.\<close>

lemma reconcile_start:
  obtains e w1 where "\<And>n. reconcileDiscussion (Suc n) sv i w = (Inl e, w1)" "w1 = w"
  | ids us where "set ids = open_agents i w"
      "us = filter (\<lambda>t. t_state t = TS_planned \<and> t_speakerAgentId t \<notin> set ids) (listTurns i (wd_store w))"
      "\<And>n. reconcileDiscussion (Suc n) sv i w =
        andThen (perform_each settle_unavailable us) (\<lambda>_. reconcile_rest sv (reconcileDiscussion n sv) i us) w"
proof (cases "getDiscussion i (wd_store w)")
  case None
  show thesis
    by (rule that(1)) (simp_all add: reconcile_Suc getDiscussion_or_throw_def requireDiscussion_def None andThen_def look_def pure_def
        del: reconcileDiscussion.simps)
next
  case (Some d)
  let ?ids = "map p_agentId (eligibleParticipants d (listParticipants i (wd_store w)) (wd_team w))"
  let ?us = "filter (\<lambda>t. t_state t = TS_planned \<and> t_speakerAgentId t \<notin> set ?ids) (listTurns i (wd_store w))"
  obtain r w1 where checked: "perform_each (check_open_wave sv) (listWaves i (wd_store w)) w = (r, w1)"
    by (cases "perform_each (check_open_wave sv) (listWaves i (wd_store w)) w")
  then have w1: "w1 = w" using check_waves_world[of sv "listWaves i (wd_store w)" w] by simp
  show thesis
  proof (cases r)
    case (Inl e)
    show thesis
      by (rule that(1)[of e w])
        (simp_all add: reconcile_Suc getDiscussion_or_throw_def requireDiscussion_def Some andThen_def look_def pure_def checked Inl w1
          del: reconcileDiscussion.simps)
  next
    case (Inr x)
    show thesis
      by (rule that(2)[of ?ids ?us])
        (simp_all add: reconcile_Suc getDiscussion_or_throw_def requireDiscussion_def Some andThen_def look_def pure_def
          checked Inr w1 open_agents_def del: reconcileDiscussion.simps)
  qed
qed

text \<open>With every planned Turn available, nothing is given up, so nothing is advanced.\<close>

lemma lockstep_reconcile: "lockstep i A (reconcileDiscussion (Suc 0) sv i) (reconcileDiscussion (Suc n) sv i)"
  unfolding lockstep_def
proof (intro allI impI)
  fix w :: world assume w: "plannable i A w"
  show "reconcileDiscussion (Suc n) sv i w = reconcileDiscussion (Suc 0) sv i w \<and>
    plannable i A (snd (reconcileDiscussion (Suc 0) sv i w))"
  proof (cases rule: reconcile_start[of sv i w])
    case 1
    then show ?thesis using w by simp
  next
    case (2 ids us)
    have "us = []" using 2(1,2) w by (auto simp: plannable_def planned_agents_def listTurns_def filter_empty_conv)
    moreover have quiet: "lockstep i A (ret []) (ret [])" by (simp add: lockstep_goes)
    have "plannable i A (snd (reconcile_rest sv (\<lambda>_. ret []) i [] w))"
      using lockstep_rest[of i A "\<lambda>_. ret []" "\<lambda>_. ret []" sv "[]", OF quiet] w by (simp add: lockstep_def)
    ultimately show ?thesis
      using 2(3)[of n] 2(3)[of 0] rest_nothing[of sv "reconcileDiscussion n sv" i "\<lambda>_. ret []"]
        rest_nothing[of sv "reconcileDiscussion 0 sv" i "\<lambda>_. ret []"]
      by (simp add: andThen_def ret_def del: reconcileDiscussion.simps)
  qed
qed

lemma settle_unavailable_step:
  "settle_unavailable u w = (case settleTurn (unavailable_turn (t_turnId u) TS_failed ''agent_unavailable''
       (wd_clock w (wd_ticks w))) (wd_store w) of
     Inl e \<Rightarrow> (Inl e, w\<lparr>wd_ticks := wd_ticks w + 1\<rparr>)
   | Inr (r, s) \<Rightarrow> (Inr (), w\<lparr>wd_ticks := wd_ticks w + 1, wd_store := s\<rparr>))"
  by (auto simp: settle_unavailable_def andThen_def now_def on_store_def ret_def split: sum.splits prod.splits)

lemma given_up:
  "perform_each settle_unavailable us w = (Inr x, w1) \<Longrightarrow>
    drops_plans (wd_store w) (wd_store w1) \<and> wd_runs w1 = wd_runs w \<and>
    (\<forall>t\<in>set (st_turns (wd_store w1)). t_state t = TS_planned \<longrightarrow>
      t \<in> set (st_turns (wd_store w)) \<and> t_turnId t \<notin> t_turnId ` set us)"
proof (induction us arbitrary: w)
  case Nil
  then show ?case by (simp add: ret_def)
next
  case (Cons u us)
  from Cons.prems obtain at_time r s where
    step: "settleTurn (unavailable_turn (t_turnId u) TS_failed ''agent_unavailable'' at_time) (wd_store w) = Inr (r, s)"
    and rest: "perform_each settle_unavailable us (w\<lparr>wd_ticks := wd_ticks w + 1, wd_store := s\<rparr>) = (Inr x, w1)"
    by (auto simp: settle_unavailable_step[of u w] andThen_def split: sum.splits prod.splits)
  have "drops_plans (wd_store w) s"
    by (rule drops_settle[OF _ step]) (simp add: unavailable_turn_def)
  moreover have "t \<in> set (st_turns (wd_store w)) \<and> t_turnId t \<noteq> t_turnId u"
    if "t \<in> set (st_turns s)" "t_state t = TS_planned" for t
    using step that by (auto simp: settleTurn_def bind_eq_Inr Let_def update_rows_Inr settled_turn_def unavailable_turn_def)
  ultimately show ?case
    using Cons.IH[OF rest] drops_trans by auto
qed

section \<open>The anchor of a Turn\<close>

text \<open>Anchoring a Wave again changes neither the messages nor what was said last.\<close>

lemma reanchor_rows:
  assumes "reanchorPlannedWave v m t s = Inr (x, s')"
  obtains f g where "st_turns s' = map f (st_turns s)" "st_waves s' = map g (st_waves s)" "st_discussions s' = st_discussions s"
    "\<And>u. t_ordinal (f u) = t_ordinal u \<and> t_discussionId (f u) = t_discussionId u \<and> t_outputMessageId (f u) = t_outputMessageId u"
    "\<And>u. u \<in> set (st_turns s) \<Longrightarrow> t_waveId (f u) = t_waveId u \<and> t_turnId (f u) = t_turnId u \<and>
       (t_waveId u = Some v \<longrightarrow> t_inputMessageId (f u) = m)"
    "\<And>w. w_ordinal (g w) = w_ordinal w \<and> w_discussionId (g w) = w_discussionId w \<and> w_state (g w) = w_state w \<and>
       w_waveId (g w) = w_waveId w"
proof -
  let ?f = "\<lambda>u. if t_waveId u = Some v \<and> t_runId u = None \<and> t_state u = TS_planned
    then u\<lparr>t_inputMessageId := m, t_updatedAt := t\<rparr> else u"
  from assms obtain wave where wave: "requireWave v s = Inr wave" by (auto simp: reanchorPlannedWave_def bind_eq_Inr)
  with assms have all_planned: "\<forall>u\<in>set (st_turns s). t_waveId u = Some v \<longrightarrow> t_runId u = None \<and> t_state u = TS_planned"
    and s': "st_turns s' = map ?f (st_turns s)" "st_discussions s' = st_discussions s"
    "st_waves s' = map (\<lambda>w. if w_waveId w = v \<and> w_version w = w_version wave \<and> w_state w = WS_open
      then w\<lparr>w_inputMessageId := m, w_version := w_version w + 1, w_updatedAt := t\<rparr> else w) (st_waves s)"
    by (auto simp: reanchorPlannedWave_def bind_eq_Inr Let_def update_rows_Inr listTurnsForWave_def simp del: map_eq_conv)
  show thesis
    by (rule that[OF s'(1,3,2)]) (use all_planned in auto)
qed

lemma reanchor_latest:
  assumes "reanchorPlannedWave v m t (wd_store w) = Inr (x, s')"
  shows "latestOutputMessageId d (w\<lparr>wd_store := s'\<rparr>) = latestOutputMessageId d w"
proof (rule reanchor_rows[OF assms])
  fix f g
  assume rows: "st_turns s' = map f (st_turns (wd_store w))" "st_waves s' = map g (st_waves (wd_store w))"
    and f: "\<And>u. t_ordinal (f u) = t_ordinal u \<and> t_discussionId (f u) = t_discussionId u \<and> t_outputMessageId (f u) = t_outputMessageId u"
    and g: "\<And>w. w_ordinal (g w) = w_ordinal w \<and> w_discussionId (g w) = w_discussionId w \<and> w_state (g w) = w_state w \<and>
       w_waveId (g w) = w_waveId w"
  have "listTurns i s' = map f (listTurns i (wd_store w))" for i
    unfolding listTurns_def rows filter_map using f by (subst sort_by_map) (auto simp: o_def)
  then have turns: "map t_outputMessageId (listTurns i s') = map t_outputMessageId (listTurns i (wd_store w))" for i
    using f by simp
  have "listWaves i s' = map g (listWaves i (wd_store w))" for i
    unfolding listWaves_def rows filter_map using g by (subst sort_by_map) (auto simp: o_def)
  then have "filter (\<lambda>v. w_state v \<noteq> WS_open) (listWaves i s') =
      map g (filter (\<lambda>v. w_state v \<noteq> WS_open) (listWaves i (wd_store w)))" for i
    using g by (simp add: filter_map o_def)
  with turns show ?thesis
    using g unfolding latestOutputMessageId_def Let_def by (simp add: last_map)
qed

text \<open>A Turn anchored at the latest message does not recur.\<close>

lemma ensureRun_anchored:
  assumes "\<And>d. getDiscussion (t_discussionId t) (wd_store w) = Some d \<Longrightarrow> latestOutputMessageId d w = t_inputMessageId t"
  shows "ensureRun (Suc n) sv t w = ensureRun (Suc 0) sv t w"
  using assms
  by (auto simp: andThen_def look_def pure_def getDiscussion_or_throw_def requireDiscussion_def raise_def
      split: option.splits sum.splits prod.splits)

definition known_turn :: "DiscussionTurn \<Rightarrow> discussion_store \<Rightarrow> bool" where
  "known_turn t s \<longleftrightarrow> (\<forall>u\<in>set (st_turns s). t_turnId u = t_turnId t \<longrightarrow>
     t_waveId u = t_waveId t \<and> t_discussionId u = t_discussionId t)"

lemma ensureRun_enough:
  assumes "known_turn t (wd_store w)"
  shows "ensureRun (Suc (Suc n)) sv t w = ensureRun 2 sv t w"
proof -
  have stays: "ensureRun (Suc n) sv u (w'\<lparr>wd_store := s'\<rparr>) = ensureRun (Suc 0) sv u (w'\<lparr>wd_store := s'\<rparr>)"
    if "wd_store w' = wd_store w" "getDiscussion (t_discussionId t) (wd_store w) = Some d" "t_waveId t = Some v"
      and re: "reanchorPlannedWave v (latestOutputMessageId d w') at_time (wd_store w') = Inr (x, s')"
      and found: "getTurn (t_turnId t) s' = Some u" for w' d v at_time x s' u
  proof (rule ensureRun_anchored)
    fix e assume e: "getDiscussion (t_discussionId u) (wd_store (w'\<lparr>wd_store := s'\<rparr>)) = Some e"
    show "latestOutputMessageId e (w'\<lparr>wd_store := s'\<rparr>) = t_inputMessageId u"
    proof (rule reanchor_rows[OF re])
      fix f assume rows: "st_turns s' = map f (st_turns (wd_store w'))" "st_discussions s' = st_discussions (wd_store w')"
        and f: "\<And>u. t_ordinal (f u) = t_ordinal u \<and> t_discussionId (f u) = t_discussionId u \<and> t_outputMessageId (f u) = t_outputMessageId u"
        "\<And>u. u \<in> set (st_turns (wd_store w')) \<Longrightarrow> t_waveId (f u) = t_waveId u \<and> t_turnId (f u) = t_turnId u \<and>
          (t_waveId u = Some v \<longrightarrow> t_inputMessageId (f u) = latestOutputMessageId d w')"
      from find_Some[OF found[unfolded getTurn_def]] rows(1) obtain u0 where
        u0: "u0 \<in> set (st_turns (wd_store w'))" "u = f u0" "t_turnId u = t_turnId t" by auto
      with assms that(1,3) f have "t_inputMessageId u = latestOutputMessageId d w'" "t_discussionId u = t_discussionId t"
        by (auto simp: known_turn_def)
      with e that(1,2) rows(2) reanchor_latest[OF re] show ?thesis by (simp add: getDiscussion_def)
    qed
  qed
  have ticked: "latestOutputMessageId d (w\<lparr>wd_ticks := k\<rparr>) = latestOutputMessageId d w" for d k
    by (simp add: latestOutputMessageId_def Let_def)
  show ?thesis
    unfolding numeral_2_eq_2 ensureRun.simps(2)[of "Suc n"] ensureRun.simps(2)[of "Suc 0"]
    using stays[of "w\<lparr>wd_ticks := wd_ticks w + 1\<rparr>"] ticked
    by (auto simp: andThen_def look_def pure_def getDiscussion_or_throw_def requireDiscussion_def raise_def now_def on_store_def
        truthy_def simp del: ensureRun.simps split: option.splits sum.splits prod.splits)
qed

text \<open>A Turn stays known while the Turns before it in the list get their Runs.\<close>

definition keeps_known :: "DiscussionTurn \<Rightarrow> world \<Rightarrow> world \<Rightarrow> bool" where
  "keeps_known t w w' \<longleftrightarrow> (known_turn t (wd_store w) \<longrightarrow> known_turn t (wd_store w'))"

lemma quiet_known:
  assumes "quiet s s'" and "known_turn t s"
  shows "known_turn t s'"
  unfolding known_turn_def
proof (intro ballI impI)
  fix u' assume "u' \<in> set (st_turns s')" "t_turnId u' = t_turnId t"
  moreover from this obtain u where "u \<in> set (st_turns s)" "kept_turn u u'"
    using assms(1) list_all2_mem[of kept_turn] unfolding quiet_def calm_def by blast
  ultimately show "t_waveId u' = t_waveId t \<and> t_discussionId u' = t_discussionId t"
    using assms(2) unfolding known_turn_def kept_turn_def by metis
qed

interpretation known: service_relation "keeps_known t" L for t L
  by unfold_locales (auto simp: keeps_known_def intro: quiet_known)

lemma ensure_all:
  assumes "\<forall>t\<in>set ts. known_turn t (wd_store w)"
  shows "collect_each (ensureRun (Suc (Suc n)) sv) ts w = collect_each (ensureRun 2 sv) ts w"
  using assms
proof (induction ts arbitrary: w)
  case (Cons t ts)
  obtain r w1 where run: "ensureRun 2 sv t w = (r, w1)" by (cases "ensureRun 2 sv t w")
  have "known_turn u (wd_store w1)" if "u \<in> set ts" for u
    using goesD[OF known.goes_ensureRun, of u w 2 sv t] Cons.prems that by (simp add: keeps_known_def run)
  then have "collect_each (ensureRun (Suc (Suc n)) sv) ts w1 = collect_each (ensureRun 2 sv) ts w1" by (simp add: Cons.IH)
  moreover have "ensureRun (Suc (Suc n)) sv t w = (r, w1)" using ensureRun_enough[of t w n sv] Cons.prems run by simp
  ultimately show ?case using run by (simp add: andThen_def del: ensureRun.simps split: sum.splits)
qed simp

lemma stored_known:
  assumes "store_inv s" and "t \<in> set (listTurns i s)"
  shows "known_turn t s"
proof -
  have "distinct (map t_turnId (st_turns s))"
    using assms(1) turns.distinct_keys by (auto simp: store_inv_def tables_ok_def)
  with assms(2) show ?thesis by (auto simp: known_turn_def listTurns_def distinct_map inj_on_def)
qed

section \<open>Property\<close>

text \<open>
  (C18) Reconciliation ends. The recursion of \<open>reconcileDiscussion\<close> through the advance of its
  Waves is at most two levels deep, whatever the stores hold; that of \<open>ensureRun\<close> through a new
  anchor is at most two deep for the Turns of a Discussion, on every store that satisfies the
  invariant: more fuel than two changes nothing.
\<close>

theorem reconciliation_ends:
  "reconcileDiscussion (Suc (Suc n)) sv i w = reconcileDiscussion 2 sv i w \<and>
   (store_inv (wd_store w) \<longrightarrow> collect_each (ensureRun (Suc (Suc n)) sv) (filter P (listTurns i (wd_store w))) w =
      collect_each (ensureRun 2 sv) (filter P (listTurns i (wd_store w))) w)"
proof (intro conjI impI)
  show "reconcileDiscussion (Suc (Suc n)) sv i w = reconcileDiscussion 2 sv i w"
  proof (cases rule: reconcile_start[of sv i w])
    case (1 e w1)
    then show ?thesis by (simp add: numeral_2_eq_2 del: reconcileDiscussion.simps)
  next
    case (2 ids us)
    obtain r w1 where run: "perform_each settle_unavailable us w = (r, w1)"
      by (cases "perform_each settle_unavailable us w")
    show ?thesis
    proof (cases r)
      case (Inl e)
      then show ?thesis using run 2(3)[of "Suc n"] 2(3)[of "Suc 0"]
        by (simp add: numeral_2_eq_2 andThen_def del: reconcileDiscussion.simps)
    next
      case (Inr x)
      note given = given_up[OF run[unfolded Inr]]
      have "open_agents i w1 = open_agents i w"
        by (rule steady_open_agents) (use given in \<open>simp_all add: drops_plans_def same_team_def\<close>)
      moreover have "planned_agents i (wd_store w1) \<subseteq> set ids"
        using given 2(2) by (auto simp: planned_agents_def listTurns_def)
      ultimately have "plannable i (open_agents i w) w1" using 2(1) by (simp add: plannable_def)
      with lockstep_rest[of i "open_agents i w" "reconcileDiscussion (Suc 0) sv" "reconcileDiscussion (Suc n) sv" sv us,
        OF lockstep_reconcile] have
        "reconcile_rest sv (reconcileDiscussion (Suc n) sv) i us w1 = reconcile_rest sv (reconcileDiscussion (Suc 0) sv) i us w1"
        using \<open>plannable i (open_agents i w) w1\<close> unfolding lockstep_def by blast
      then show ?thesis using run Inr 2(3)[of "Suc n"] 2(3)[of "Suc 0"]
        by (simp add: numeral_2_eq_2 andThen_def del: reconcileDiscussion.simps)
    qed
  qed
qed (rule ensure_all, auto intro: stored_known)

theorem reconciliation_ends_witness:
  "\<exists>s. st_waves s \<noteq> [] \<and>
   reconcileDiscussion 9 demo_services (lit ''d'') (created_world\<lparr>wd_store := s\<rparr>) =
   reconcileDiscussion 2 demo_services (lit ''d'') (created_world\<lparr>wd_store := s\<rparr>) \<and>
   collect_each (ensureRun 7 demo_services) (filter (\<lambda>t. t_state t = TS_planned) (listTurns (lit ''d'') s))
     (created_world\<lparr>wd_store := s\<rparr>) =
   collect_each (ensureRun 2 demo_services) (filter (\<lambda>t. t_state t = TS_planned) (listTurns (lit ''d'') s))
     (created_world\<lparr>wd_store := s\<rparr>)"
proof -
  obtain d s and plan :: WavePlan where run: "recordDecisionAndPlanWave ascii_lib demo_decision (wp_wave plan) (wp_turns plan)
      demo_store = Inr (d, s)" and waves: "st_waves s = [wp_wave plan]"
    using demo_first_wave by blast
  have inv: "store_inv (wd_store (created_world\<lparr>wd_store := s\<rparr>))"
    using reachable_inv[OF reachable_store.step[OF demo_store_reachable step_plan[OF run]]] by simp
  show ?thesis
    using waves reconciliation_ends[of 7 demo_services "lit ''d''" "created_world\<lparr>wd_store := s\<rparr>"]
      reconciliation_ends[of 5 demo_services "lit ''d''" "created_world\<lparr>wd_store := s\<rparr>"] inv
    by (intro exI[of _ s]) (simp add: eval_nat_numeral del: reconcileDiscussion.simps ensureRun.simps)
qed

end
