(* ===== verification/Execution_Store.thy ===== *)
theory Execution_Store
  imports Run_Control Plan_Validation
begin

text \<open>
  The tables of the governed execution of plans, as far as its scheduler reads and writes them
  (\<^verbatim>\<open>apps/server/src/execution/\<close>): plans, their nodes, approvals and proposals, scheduler
  controls, node states, dispatch intents, adopted materializations, and the fairness cursors
  with their history. A row holds the columns the modelled statements use; a stored JSON text is
  the value it denotes. The statements are those of \<^verbatim>\<open>execution-node-state-repository.ts\<close>,
  \<^verbatim>\<open>execution-node-projector.ts\<close>, \<^verbatim>\<open>execution-scheduler-fairness-repository.ts\<close> and
  \<^verbatim>\<open>execution-scheduler-control-repository.ts\<close>.
\<close>

section \<open>Rows\<close>

datatype ExecutionNodeStateValue = EN_blocked | EN_ready | EN_dispatched | EN_working
  | EN_awaiting_result | EN_failed | EN_canceled | EN_outcome_unknown

record ExecutionNodeIdentity =
  en_nodeKey :: jstring
  en_planId :: jstring
  en_planRevision :: int

record ExecutionRunProjection =
  xj_identity :: ExecutionNodeIdentity
  xj_blockerCode :: "string option"
  xj_dispatchGeneration :: "int option"
  xj_lastRunState :: "RunState option"
  xj_runId :: "jstring option"
  xj_state :: ExecutionNodeStateValue

record ExecutionNodeState =
  xn_projection :: ExecutionRunProjection
  xn_projectionRevision :: int
  xn_updatedAt :: timestamp

abbreviation xn_identity :: "ExecutionNodeState \<Rightarrow> ExecutionNodeIdentity" where
  "xn_identity r \<equiv> xj_identity (xn_projection r)"

abbreviation xn_runId :: "ExecutionNodeState \<Rightarrow> jstring option" where
  "xn_runId r \<equiv> xj_runId (xn_projection r)"

datatype ExecutionSchedulerMode = Sched_manual | Sched_supervised | Sched_automatic

record ExecutionSchedulerCandidate =
  ca_identity :: ExecutionNodeIdentity
  ca_agentId :: jstring
  ca_planApprovedAt :: timestamp
  ca_schedulerMode :: ExecutionSchedulerMode
  ca_schedulerModeRevision :: int
  ca_topologicalOrdinal :: int

record ExecutionSchedulerControl =
  xc_planId :: jstring
  xc_mode :: ExecutionSchedulerMode
  xc_modeRevision :: int
  xc_lastOperationId :: "jstring option"
  xc_updatedByMemberId :: "jstring option"
  xc_reason :: jstring
  xc_updatedAt :: timestamp

datatype ExecutionPlanState = XP_draft | XP_approved | XP_running | XP_paused | XP_review
  | XP_completed | XP_canceled

record execution_plan_row =
  xp_planId :: jstring
  xp_rootTaskId :: jstring
  xp_roomId :: jstring
  xp_currentRevision :: int
  xp_controlRevision :: int
  xp_state :: ExecutionPlanState
  xp_updatedAt :: timestamp

record execution_plan_node_row =
  xd_identity :: ExecutionNodeIdentity
  xd_agentId :: jstring
  xd_taskId :: jstring
  xd_definitionRevision :: int
  xd_criteriaRevision :: int

datatype approval_decision = Decision_approved | Decision_rejected

record execution_plan_approval_row =
  xv_planId :: jstring
  xv_revision :: int
  xv_decision :: approval_decision
  xv_digest :: jstring
  xv_reviewedByMemberId :: jstring
  xv_reviewedAt :: timestamp

record execution_plan_proposal_row =
  xq_planId :: jstring
  xq_revision :: int
  xq_definition :: PlanDefinition
  xq_digest :: jstring

datatype admission_source = Source_member_message | Source_scheduler

record execution_dispatch_intent_row =
  xt_intentId :: jstring
  xt_source :: admission_source
  xt_identity :: ExecutionNodeIdentity
  xt_dispatchGeneration :: int
  xt_taskId :: jstring
  xt_agentId :: jstring
  xt_runId :: jstring
  xt_traceMessageId :: jstring
  xt_requesterMemberId :: jstring
  xt_createdAt :: timestamp
  xt_retryOperationId :: "jstring option"
  xt_schedulerOperationId :: "jstring option"

record ExecutionMaterializationArtifactPin =
  ap_artifactId :: jstring
  ap_artifactRevision :: int
  ap_byteLength :: int
  ap_contentDigest :: jstring
  ap_kind :: ExternalInputKind
  ap_outputSlot :: jstring

record AdoptedExecutionMaterialization =
  am_identity :: ExecutionNodeIdentity
  am_adoptionDigest :: jstring
  am_adoptionId :: jstring
  am_artifactPins :: "ExecutionMaterializationArtifactPin list"
  am_gate :: Gate
  am_sourceDigest :: jstring
  am_sourceEvidenceId :: jstring
  am_sourceResultId :: "jstring option"

datatype ExecutionSchedulerFairnessSource = Fair_automatic | Fair_manual | Fair_member_message
  | Fair_node_retry | Fair_supervised

record ExecutionSchedulerFairnessCursor =
  fc_agentId :: jstring
  fc_cursorRevision :: int
  fc_lastDispatchIntentId :: jstring
  fc_lastNode :: ExecutionNodeIdentity
  fc_lastRunId :: jstring
  fc_updatedAt :: timestamp

record fairness_history_row =
  fh_agentId :: jstring
  fh_cursorRevision :: int
  fh_previous :: "ExecutionNodeIdentity option"
  fh_node :: ExecutionNodeIdentity
  fh_source :: ExecutionSchedulerFairnessSource
  fh_schedulerOperationId :: "jstring option"
  fh_dispatchIntentId :: jstring
  fh_runId :: jstring
  fh_admittedAt :: timestamp

text \<open>The columns of \<^verbatim>\<open>agent_tasks\<close> that a Task row of the Run store does not hold.\<close>

record governed_task_row =
  gt_taskId :: jstring
  gt_teamId :: jstring
  gt_goal :: jstring
  gt_ownerMemberId :: jstring
  gt_definitionRevision :: int
  gt_criteriaRevision :: int

text \<open>A claim binds a Task to the node that governs it. \<open>xs_drawn\<close> counts the opaque ids drawn so far.\<close>

record execution_store =
  xs_plans :: "execution_plan_row list"
  xs_nodes :: "execution_plan_node_row list"
  xs_approvals :: "execution_plan_approval_row list"
  xs_proposals :: "execution_plan_proposal_row list"
  xs_controls :: "ExecutionSchedulerControl list"
  xs_states :: "ExecutionNodeState list"
  xs_intents :: "execution_dispatch_intent_row list"
  xs_adopted :: "AdoptedExecutionMaterialization list"
  xs_cursors :: "ExecutionSchedulerFairnessCursor list"
  xs_history :: "fairness_history_row list"
  xs_tasks :: "governed_task_row list"
  xs_claims :: "(jstring \<times> ExecutionNodeIdentity) list"
  xs_runs :: run_store
  xs_drawn :: nat

definition node_state_conflict :: "ExecutionNodeState \<Rightarrow> ExecutionNodeState \<Rightarrow> bool" where
  "node_state_conflict a b \<longleftrightarrow> xn_identity a = xn_identity b"

definition cursor_conflict ::
  "ExecutionSchedulerFairnessCursor \<Rightarrow> ExecutionSchedulerFairnessCursor \<Rightarrow> bool" where
  "cursor_conflict a b \<longleftrightarrow> fc_agentId a = fc_agentId b \<or>
     fc_lastDispatchIntentId a = fc_lastDispatchIntentId b \<or> fc_lastRunId a = fc_lastRunId b"

definition fairness_history_conflict :: "fairness_history_row \<Rightarrow> fairness_history_row \<Rightarrow> bool" where
  "fairness_history_conflict a b \<longleftrightarrow>
     fh_agentId a = fh_agentId b \<and> fh_cursorRevision a = fh_cursorRevision b \<or>
     fh_dispatchIntentId a = fh_dispatchIntentId b \<or> fh_runId a = fh_runId b"

definition control_conflict :: "ExecutionSchedulerControl \<Rightarrow> ExecutionSchedulerControl \<Rightarrow> bool" where
  "control_conflict a b \<longleftrightarrow> xc_planId a = xc_planId b"

definition intent_conflict ::
  "execution_dispatch_intent_row \<Rightarrow> execution_dispatch_intent_row \<Rightarrow> bool" where
  "intent_conflict a b \<longleftrightarrow> xt_intentId a = xt_intentId b \<or> xt_runId a = xt_runId b \<or>
     xt_traceMessageId a = xt_traceMessageId b \<or>
     xt_identity a = xt_identity b \<and> xt_dispatchGeneration a = xt_dispatchGeneration b"

interpretation node_states: keyed_table node_state_conflict "\<lambda>r. xn_identity r"
  by unfold_locales (simp add: node_state_conflict_def)

interpretation cursors: keyed_table cursor_conflict fc_agentId
  by unfold_locales (simp add: cursor_conflict_def)

interpretation fairness_rows: keyed_table fairness_history_conflict
    "\<lambda>h. (fh_agentId h, fh_cursorRevision h)"
  by unfold_locales (simp add: fairness_history_conflict_def)

interpretation controls: keyed_table control_conflict xc_planId
  by unfold_locales (simp add: control_conflict_def)

interpretation intents: keyed_table intent_conflict xt_intentId
  by unfold_locales (simp add: intent_conflict_def)

section \<open>Node states\<close>

definition schedulable :: "ExecutionPlanState \<Rightarrow> bool" where
  "schedulable st \<longleftrightarrow> st \<in> {XP_approved, XP_running}"

text \<open>The states of a plan whose nodes have a row: approved, running, paused and review.\<close>

definition projected :: "ExecutionPlanState \<Rightarrow> bool" where
  "projected st \<longleftrightarrow> st \<in> {XP_approved, XP_running, XP_paused, XP_review}"

definition belongs :: "ExecutionNodeIdentity \<Rightarrow> execution_plan_row \<Rightarrow> bool" where
  "belongs i p \<longleftrightarrow> xp_planId p = en_planId i \<and> xp_currentRevision p = en_planRevision i"

definition recovery_pending :: "timestamp \<Rightarrow> ExecutionNodeIdentity \<Rightarrow> ExecutionNodeState" where
  "recovery_pending now i =
    \<lparr>xn_projection = \<lparr>xj_identity = i, xj_blockerCode = Some ''EXECUTION_RECOVERY_PENDING'',
       xj_dispatchGeneration = None, xj_lastRunState = None, xj_runId = None, xj_state = EN_blocked\<rparr>,
     xn_projectionRevision = 1, xn_updatedAt = now\<rparr>"

definition insert_or_ignore :: "ExecutionNodeState \<Rightarrow> ExecutionNodeState list \<Rightarrow> ExecutionNodeState list" where
  "insert_or_ignore row rows =
    (if list_ex (\<lambda>r. node_state_conflict r row) rows then rows else rows @ [row])"

definition current_nodes :: "execution_store \<Rightarrow> ExecutionNodeIdentity list" where
  "current_nodes s = [xd_identity node. plan \<leftarrow> xs_plans s, projected (xp_state plan),
     node \<leftarrow> xs_nodes s, belongs (xd_identity node) plan]"

definition ensureCurrent :: "timestamp \<Rightarrow> execution_store \<Rightarrow> execution_store" where
  "ensureCurrent now s = s\<lparr>xs_states :=
     fold (\<lambda>i. insert_or_ignore (recovery_pending now i)) (current_nodes s) (xs_states s)\<rparr>"

definition nodeState :: "ExecutionNodeIdentity \<Rightarrow> execution_store \<Rightarrow> ExecutionNodeState option" where
  "nodeState i s = find (\<lambda>r. xn_identity r = i) (xs_states s)"

definition compareExecutionSchedulerCandidates ::
  "ExecutionSchedulerCandidate \<Rightarrow> ExecutionSchedulerCandidate \<Rightarrow> int" where
  "compareExecutionSchedulerCandidates left right =
    or_else (ca_planApprovedAt left - ca_planApprovedAt right)
      (or_else (binaryCompare (en_planId (ca_identity left)) (en_planId (ca_identity right)))
        (or_else (ca_topologicalOrdinal left - ca_topologicalOrdinal right)
          (binaryCompare (en_nodeKey (ca_identity left)) (en_nodeKey (ca_identity right)))))"

fun position_of :: "'a \<Rightarrow> 'a list \<Rightarrow> int" where
  "position_of x [] = -1"
| "position_of x (y # ys) = (if y = x then 0 else let k = position_of x ys in if k < 0 then -1 else k + 1)"

fun map_throwing :: "('a \<Rightarrow> 'b throwing) \<Rightarrow> 'a list \<Rightarrow> 'b list throwing" where
  "map_throwing f [] = Inr []"
| "map_throwing f (x # xs) = bind (f x) (\<lambda>y. bind (map_throwing f xs) (\<lambda>ys. Inr (y # ys)))"

type_synonym candidate_row = "ExecutionNodeState \<times> execution_plan_approval_row \<times>
  execution_plan_proposal_row \<times> execution_plan_node_row \<times> ExecutionSchedulerControl"

definition candidate_rows ::
  "ExecutionSchedulerMode option \<Rightarrow> jstring option \<Rightarrow> execution_store \<Rightarrow> candidate_row list" where
  "candidate_rows mode planId s =
    [(state, approval, proposal, node, control).
       state \<leftarrow> xs_states s,
       plan \<leftarrow> xs_plans s, belongs (xn_identity state) plan,
       node \<leftarrow> xs_nodes s, xd_identity node = xn_identity state,
       approval \<leftarrow> xs_approvals s, xv_planId approval = en_planId (xn_identity state) \<and>
         xv_revision approval = en_planRevision (xn_identity state) \<and> xv_decision approval = Decision_approved,
       proposal \<leftarrow> xs_proposals s, xq_planId proposal = en_planId (xn_identity state) \<and>
         xq_revision proposal = en_planRevision (xn_identity state),
       control \<leftarrow> xs_controls s, xc_planId control = en_planId (xn_identity state),
       schedulable (xp_state plan) \<and> xn_runId state = None \<and>
         \<not> list_ex (\<lambda>a. am_identity a = xn_identity state) (xs_adopted s) \<and>
         (mode = None \<or> mode = Some (xc_mode control)) \<and>
         (planId = None \<or> planId = Some (en_planId (xn_identity state)))]"

definition candidate_of ::
  "text_lib \<Rightarrow> (cjson \<Rightarrow> bool) \<Rightarrow> candidate_row \<Rightarrow> ExecutionSchedulerCandidate throwing" where
  "candidate_of L schema row = (case row of (state, approval, proposal, node, control) \<Rightarrow>
    bind (validateExecutionPlanDefinition L schema (xq_definition proposal)) (\<lambda>validated.
    let ordinal = position_of (en_nodeKey (xn_identity state)) (vd_topologicalOrder validated) in
    bind (ensure (\<not> ordinal < 0) (Error ''Execution scheduler candidate is outside topology'')) (\<lambda>_.
    Inr \<lparr>ca_identity = xn_identity state, ca_agentId = xd_agentId node,
         ca_planApprovedAt = xv_reviewedAt approval, ca_schedulerMode = xc_mode control,
         ca_schedulerModeRevision = xc_modeRevision control, ca_topologicalOrdinal = ordinal\<rparr>)))"

definition listCandidates ::
  "text_lib \<Rightarrow> (cjson \<Rightarrow> bool) \<Rightarrow> ExecutionSchedulerMode option \<Rightarrow> jstring option \<Rightarrow> execution_store \<Rightarrow>
   ExecutionSchedulerCandidate list throwing" where
  "listCandidates L schema mode planId s =
    bind (map_throwing (candidate_of L schema) (candidate_rows mode planId s)) (\<lambda>cs.
    Inr (sort_by compareExecutionSchedulerCandidates cs))"

definition listAllCurrent :: "execution_store \<Rightarrow> ExecutionNodeIdentity list" where
  "listAllCurrent s =
    sort_by (\<lambda>a b. or_else (binaryCompare (en_planId a) (en_planId b)) (binaryCompare (en_nodeKey a) (en_nodeKey b)))
      [xn_identity state. state \<leftarrow> xs_states s, plan \<leftarrow> xs_plans s,
         belongs (xn_identity state) plan, projected (xp_state plan)]"

definition writeProjection ::
  "ExecutionRunProjection \<Rightarrow> timestamp \<Rightarrow> execution_store \<Rightarrow> (ExecutionNodeState \<times> execution_store) throwing" where
  "writeProjection input updatedAt s =
    bind (update_rows node_state_conflict
      (\<lambda>r. xn_identity r = xj_identity input \<and> \<not> xn_projection r = input)
      (\<lambda>r. \<lparr>xn_projection = input, xn_projectionRevision = xn_projectionRevision r + 1, xn_updatedAt = updatedAt\<rparr>)
      (xs_states s)) (\<lambda>(_, rows).
    let s = s\<lparr>xs_states := rows\<rparr> in
    case nodeState (xj_identity input) s of
      None \<Rightarrow> Inl (Error ''Execution node state is unavailable'')
    | Some state \<Rightarrow> Inr (state, s))"

section \<open>The projector\<close>

text \<open>A readiness: ready, or blocked by a code.\<close>

datatype ExecutionReadiness = Ready | Blocked string

definition blocker_of :: "ExecutionReadiness \<Rightarrow> string option" where
  "blocker_of r = (case r of Ready \<Rightarrow> None | Blocked code \<Rightarrow> Some code)"

definition projectReadiness ::
  "ExecutionNodeIdentity \<Rightarrow> ExecutionReadiness \<Rightarrow> timestamp \<Rightarrow> execution_store \<Rightarrow>
   (ExecutionNodeState \<times> execution_store) throwing" where
  "projectReadiness i readiness now s = writeProjection
    \<lparr>xj_identity = i, xj_blockerCode = blocker_of readiness, xj_dispatchGeneration = None,
     xj_lastRunState = None, xj_runId = None,
     xj_state = (if readiness = Ready then EN_ready else EN_blocked)\<rparr> now s"

definition projectRunSettlement ::
  "ExecutionRunProjection \<Rightarrow> timestamp \<Rightarrow> execution_store \<Rightarrow> (ExecutionNodeState \<times> execution_store) throwing" where
  "projectRunSettlement input now s = writeProjection input now s"

section \<open>Fairness cursors\<close>

definition fairnessCursor ::
  "jstring \<Rightarrow> execution_store \<Rightarrow> ExecutionSchedulerFairnessCursor option" where
  "fairnessCursor agentId s = find (\<lambda>c. fc_agentId c = agentId) (xs_cursors s)"

definition fairnessRevision :: "jstring \<Rightarrow> execution_store \<Rightarrow> int" where
  "fairnessRevision agentId s =
    (case fairnessCursor agentId s of None \<Rightarrow> 0 | Some c \<Rightarrow> fc_cursorRevision c)"

record fairness_advance =
  fa_admittedAt :: timestamp
  fa_agentId :: jstring
  fa_dispatchIntentId :: jstring
  fa_expectedCursorRevision :: "int option"
  fa_node :: ExecutionNodeIdentity
  fa_runId :: jstring
  fa_schedulerOperationId :: "jstring option"
  fa_source :: ExecutionSchedulerFairnessSource

definition advanced_cursor :: "fairness_advance \<Rightarrow> int \<Rightarrow> ExecutionSchedulerFairnessCursor" where
  "advanced_cursor input cursorRevision =
    \<lparr>fc_agentId = fa_agentId input, fc_cursorRevision = cursorRevision,
     fc_lastDispatchIntentId = fa_dispatchIntentId input, fc_lastNode = fa_node input,
     fc_lastRunId = fa_runId input, fc_updatedAt = fa_admittedAt input\<rparr>"

text \<open>\<open>inTransaction\<close> tells whether the caller owns a transaction.\<close>

definition advanceFairness ::
  "bool \<Rightarrow> fairness_advance \<Rightarrow> execution_store \<Rightarrow>
   (ExecutionSchedulerFairnessCursor option \<times> execution_store) throwing" where
  "advanceFairness inTransaction input s =
    bind (ensure inTransaction (ExecutionError ''EXECUTION_TRANSACTION_REQUIRED'')) (\<lambda>_.
    let previous = fairnessCursor (fa_agentId input) s;
        previousRevision = (case previous of None \<Rightarrow> 0 | Some c \<Rightarrow> fc_cursorRevision c);
        cursorRevision = previousRevision + 1 in
    bind (ensure (fa_expectedCursorRevision input \<in> {None, Some previousRevision})
      (ExecutionError ''EXECUTION_SCHEDULER_FAIRNESS_CONFLICT'')) (\<lambda>_.
    bind (insert_row fairness_history_conflict
      \<lparr>fh_agentId = fa_agentId input, fh_cursorRevision = cursorRevision,
       fh_previous = map_option fc_lastNode previous, fh_node = fa_node input,
       fh_source = fa_source input, fh_schedulerOperationId = fa_schedulerOperationId input,
       fh_dispatchIntentId = fa_dispatchIntentId input, fh_runId = fa_runId input,
       fh_admittedAt = fa_admittedAt input\<rparr> (xs_history s)) (\<lambda>history.
    bind (case previous of
        Some _ \<Rightarrow>
          bind (update_rows cursor_conflict
            (\<lambda>c. fc_agentId c = fa_agentId input \<and> fc_cursorRevision c = previousRevision)
            (\<lambda>_. advanced_cursor input cursorRevision) (xs_cursors s)) (\<lambda>(changes, rows).
          bind (ensure (changes = 1) (ExecutionError ''EXECUTION_SCHEDULER_FAIRNESS_CONFLICT'')) (\<lambda>_. Inr rows))
      | None \<Rightarrow> insert_row cursor_conflict (advanced_cursor input cursorRevision) (xs_cursors s)) (\<lambda>cursors.
    let s = s\<lparr>xs_history := history, xs_cursors := cursors\<rparr> in
    Inr (fairnessCursor (fa_agentId input) s, s)))))"

section \<open>Scheduler controls\<close>

definition schedulerControl :: "jstring \<Rightarrow> execution_store \<Rightarrow> ExecutionSchedulerControl option" where
  "schedulerControl planId s = find (\<lambda>c. xc_planId c = planId) (xs_controls s)"

definition requireControl ::
  "jstring \<Rightarrow> ExecutionSchedulerMode \<Rightarrow> int \<Rightarrow> execution_store \<Rightarrow> ExecutionSchedulerControl throwing" where
  "requireControl planId mode modeRevision s =
    (case schedulerControl planId s of
       None \<Rightarrow> Inl (ExecutionError ''EXECUTION_SCHEDULER_MODE_CONFLICT'')
     | Some control \<Rightarrow>
         bind (ensure (\<not> (xc_mode control \<noteq> mode \<or> xc_modeRevision control \<noteq> modeRevision))
           (ExecutionError ''EXECUTION_SCHEDULER_MODE_CONFLICT'')) (\<lambda>_. Inr control))"

record mode_transition =
  mt_expectedMode :: ExecutionSchedulerMode
  mt_expectedModeRevision :: int
  mt_memberId :: jstring
  mt_mode :: ExecutionSchedulerMode
  mt_now :: timestamp
  mt_operationId :: jstring
  mt_planId :: jstring
  mt_reason :: jstring

definition transitionControl ::
  "mode_transition \<Rightarrow> execution_store \<Rightarrow> (ExecutionSchedulerControl option \<times> execution_store) throwing" where
  "transitionControl input s =
    bind (update_rows control_conflict
      (\<lambda>c. xc_planId c = mt_planId input \<and> xc_mode c = mt_expectedMode input \<and>
           xc_modeRevision c = mt_expectedModeRevision input)
      (\<lambda>c. c\<lparr>xc_mode := mt_mode input, xc_modeRevision := xc_modeRevision c + 1,
             xc_lastOperationId := Some (mt_operationId input),
             xc_updatedByMemberId := Some (mt_memberId input), xc_reason := mt_reason input,
             xc_updatedAt := mt_now input\<rparr>) (xs_controls s)) (\<lambda>(changes, rows).
    bind (ensure (changes = 1) (ExecutionError ''EXECUTION_SCHEDULER_MODE_CONFLICT'')) (\<lambda>_.
    let s = s\<lparr>xs_controls := rows\<rparr> in
    Inr (schedulerControl (mt_planId input) s, s)))"

end
