(* ===== verification/Execution_Readiness.thy ===== *)
theory Execution_Readiness
  imports Execution_Store
begin

text \<open>
  Whether a node may run: the resolution of its inputs from the materializations its plan has
  adopted (\<^verbatim>\<open>execution-dependency-resolver.ts\<close>), the policy
  (\<^verbatim>\<open>execution-readiness-evaluator.ts\<close>), and the observations it is evaluated on
  (\<^verbatim>\<open>governed-run-admission-service.ts\<close>, \<open>evaluateReadiness\<close>). What the Bridge
  connections hold, and SQLite's arithmetic on Julian days, are parameters.
\<close>

section \<open>Plans\<close>

text \<open>
  The current revision of a plan. The proposal of a revision is found by plan and revision; that
  there is none is an inconsistent history.
\<close>

definition planOf ::
  "jstring \<Rightarrow> execution_store \<Rightarrow> (execution_plan_row \<times> execution_plan_proposal_row) option throwing" where
  "planOf planId s =
    (case find (\<lambda>p. xp_planId p = planId) (xs_plans s) of
       None \<Rightarrow> Inr None
     | Some plan \<Rightarrow>
         (case find (\<lambda>q. xq_planId q = planId \<and> xq_revision q = xp_currentRevision plan) (xs_proposals s) of
            None \<Rightarrow> Inl (ExecutionError ''EXECUTION_HISTORY_INCONSISTENT'')
          | Some current \<Rightarrow> Inr (Some (plan, current))))"

definition approvalOf :: "jstring \<Rightarrow> int \<Rightarrow> execution_store \<Rightarrow> execution_plan_approval_row option" where
  "approvalOf planId revision s =
    find (\<lambda>v. xv_planId v = planId \<and> xv_revision v = revision) (xs_approvals s)"

definition compiledNode ::
  "execution_plan_row \<Rightarrow> jstring \<Rightarrow> execution_store \<Rightarrow> execution_plan_node_row option" where
  "compiledNode plan nodeKey s = find (\<lambda>n. xd_identity n =
     \<lparr>en_nodeKey = nodeKey, en_planId = xp_planId plan, en_planRevision = xp_currentRevision plan\<rparr>) (xs_nodes s)"

definition getAdopted ::
  "ExecutionNodeIdentity \<Rightarrow> Gate \<Rightarrow> execution_store \<Rightarrow> AdoptedExecutionMaterialization option" where
  "getAdopted i gate s = find (\<lambda>m. am_identity m = i \<and> am_gate m = gate) (xs_adopted s)"

section \<open>Dependencies\<close>

record ExecutionInputSelection =
  ei_artifactId :: jstring
  ei_inputSlot :: jstring
  ei_sourceResultId :: "jstring option"
  ei_sourceEvidenceId :: jstring
  ei_sourceDigest :: jstring
  ei_adoptionId :: jstring
  ei_adoptionDigest :: jstring

datatype ExecutionDependencyResolution =
    Resolved "ExecutionInputSelection list"
  | Unresolved string

definition edgeOrder :: "jstring list \<Rightarrow> PlanEdge \<Rightarrow> PlanEdge \<Rightarrow> int" where
  "edgeOrder topologicalOrder left right =
    or_else (position_of (ed_fromNodeKey left) topologicalOrder - position_of (ed_fromNodeKey right) topologicalOrder)
      (binaryCompare (ed_edgeKey left) (ed_edgeKey right))"

definition selection_of ::
  "NodeSlot \<Rightarrow> AdoptedExecutionMaterialization \<Rightarrow> ExecutionMaterializationArtifactPin \<Rightarrow> ExecutionInputSelection" where
  "selection_of input m artifact =
    \<lparr>ei_artifactId = ap_artifactId artifact, ei_inputSlot = ns_slotKey input,
     ei_sourceResultId = am_sourceResultId m, ei_sourceEvidenceId = am_sourceEvidenceId m,
     ei_sourceDigest = am_sourceDigest m, ei_adoptionId = am_adoptionId m,
     ei_adoptionDigest = am_adoptionDigest m\<rparr>"

text \<open>
  The slots in \<open>occupied\<close> are those the selections fill so far. The left value is the blocker the
  loops return at once.
\<close>

fun resolve_bindings ::
  "PlanNode \<Rightarrow> PlanNode \<Rightarrow> AdoptedExecutionMaterialization \<Rightarrow> EdgeBinding list \<Rightarrow>
   ExecutionInputSelection list \<Rightarrow> jstring list \<Rightarrow>
   string + ExecutionInputSelection list \<times> jstring list" where
  "resolve_bindings node source m [] selections occupied = Inr (selections, occupied)"
| "resolve_bindings node source m (binding # bindings) selections occupied =
    (case (find (\<lambda>i. ns_slotKey i = eb_inputSlot binding) (nd_inputs node),
           find (\<lambda>out. ns_slotKey out = eb_outputSlot binding) (nd_outputs source),
           find (\<lambda>a. ap_outputSlot a = eb_outputSlot binding) (am_artifactPins m)) of
       (Some input, Some output, Some artifact) \<Rightarrow>
         if ns_slotKey input \<in> set occupied \<or> ns_kind input \<noteq> ns_kind output \<or>
            ap_kind artifact \<noteq> ns_kind input
         then Inl ''EXECUTION_DEPENDENCY_SELECTION_INVALID''
         else resolve_bindings node source m bindings
                (selections @ [selection_of input m artifact]) (occupied @ [ns_slotKey input])
     | _ \<Rightarrow> Inl ''EXECUTION_DEPENDENCY_SELECTION_INVALID'')"

fun resolve_edges ::
  "ExecutionNodeIdentity \<Rightarrow> PlanDefinition \<Rightarrow> PlanNode \<Rightarrow> execution_store \<Rightarrow> PlanEdge list \<Rightarrow>
   ExecutionInputSelection list \<Rightarrow> jstring list \<Rightarrow>
   string + ExecutionInputSelection list \<times> jstring list" where
  "resolve_edges identity definition node s [] selections occupied = Inr (selections, occupied)"
| "resolve_edges identity definition node s (edge # edges) selections occupied =
    (case (find (\<lambda>n. nd_nodeKey n = ed_fromNodeKey edge) (pl_nodes definition),
           getAdopted (identity\<lparr>en_nodeKey := ed_fromNodeKey edge\<rparr>) (ed_gate edge) s) of
       (Some source, Some m) \<Rightarrow>
         if am_gate m \<noteq> ed_gate edge then Inl ''EXECUTION_DEPENDENCY_NOT_MATERIALIZED''
         else (case resolve_bindings node source m
                 (sort_by (\<lambda>a b. binaryCompare (eb_inputSlot a) (eb_inputSlot b)) (ed_bindings edge))
                 selections occupied of
                 Inl blocker \<Rightarrow> Inl blocker
               | Inr (selections, occupied) \<Rightarrow> resolve_edges identity definition node s edges selections occupied)
     | _ \<Rightarrow> Inl ''EXECUTION_DEPENDENCY_NOT_MATERIALIZED'')"

definition incoming_edges :: "PlanValidation \<Rightarrow> PlanNode \<Rightarrow> PlanEdge list" where
  "incoming_edges validated node =
    sort_by (edgeOrder (vd_topologicalOrder validated))
      (filter (\<lambda>e. ed_toNodeKey e = nd_nodeKey node) (pl_edges (vd_definition validated)))"

definition resolve_node ::
  "ExecutionNodeIdentity \<Rightarrow> PlanValidation \<Rightarrow> execution_store \<Rightarrow> ExecutionDependencyResolution" where
  "resolve_node identity validated s =
    (case find (\<lambda>n. nd_nodeKey n = en_nodeKey identity) (pl_nodes (vd_definition validated)) of
       None \<Rightarrow> Unresolved ''EXECUTION_PLAN_STALE''
     | Some node \<Rightarrow>
         let incoming = incoming_edges validated node in
         (case resolve_edges identity (vd_definition validated) node s incoming [] [] of
            Inl blocker \<Rightarrow> Unresolved blocker
          | Inr (selections, occupied) \<Rightarrow>
              if list_ex (\<lambda>input. ns_required input \<and> ns_slotKey input \<notin> set occupied) (nd_inputs node)
              then Unresolved (if incoming = [] then ''EXECUTION_REQUIRED_INPUT_UNSUPPORTED''
                               else ''EXECUTION_DEPENDENCY_SELECTION_INVALID'')
              else Resolved selections))"

definition resolveDependencies ::
  "text_lib \<Rightarrow> (cjson \<Rightarrow> bool) \<Rightarrow> ExecutionNodeIdentity \<Rightarrow> execution_store \<Rightarrow>
   ExecutionDependencyResolution throwing" where
  "resolveDependencies L schema identity s =
    bind (planOf (en_planId identity) s) (\<lambda>found.
    case found of
      None \<Rightarrow> Inr (Unresolved ''EXECUTION_PLAN_STALE'')
    | Some (plan, current) \<Rightarrow>
        if xp_currentRevision plan \<noteq> en_planRevision identity \<or> \<not> schedulable (xp_state plan)
        then Inr (Unresolved ''EXECUTION_PLAN_STALE'')
        else bind (validateExecutionPlanDefinition L schema (xq_definition current)) (\<lambda>validated.
          if vd_digest validated \<noteq> xq_digest current then Inr (Unresolved ''EXECUTION_PLAN_STALE'')
          else Inr (resolve_node identity validated s)))"

section \<open>The policy\<close>

record ExecutionReadinessSnapshot =
  ob_activeAgentRuns :: int
  ob_activePlanRuns :: int
  ob_agentAvailable :: bool
  ob_capabilityAvailable :: bool
  ob_dependencyBlocker :: "string option"
  ob_existingAttempt :: bool
  ob_grantMatches :: int
  ob_nodeKind :: NodeKind
  ob_nextRunReservationSeconds :: int
  ob_outputsSupported :: bool
  ob_planAttempts :: int
  ob_planCurrent :: bool
  ob_planDurationSeconds :: int
  ob_planMaxConcurrency :: int
  ob_planMaxDurationSeconds :: int
  ob_planMaxRunAttempts :: int
  ob_taskBudgetAvailable :: bool
  ob_taskPinsCurrent :: bool
  ob_taskRunnable :: bool

definition evaluateExecutionReadiness :: "ExecutionReadinessSnapshot \<Rightarrow> ExecutionReadiness" where
  "evaluateExecutionReadiness snapshot =
    (if \<not> ob_planCurrent snapshot then Blocked ''EXECUTION_PLAN_STALE''
     else if ob_existingAttempt snapshot then Blocked ''EXECUTION_ATTEMPT_ALREADY_EXISTS''
     else if ob_nodeKind snapshot \<noteq> Node_implementation then Blocked ''EXECUTION_NODE_KIND_UNSUPPORTED''
     else if ob_dependencyBlocker snapshot \<noteq> None then Blocked (the (ob_dependencyBlocker snapshot))
     else if \<not> ob_taskPinsCurrent snapshot then Blocked ''EXECUTION_TASK_STALE''
     else if \<not> ob_taskRunnable snapshot then Blocked ''EXECUTION_TASK_NOT_RUNNABLE''
     else if \<not> ob_taskBudgetAvailable snapshot then Blocked ''EXECUTION_TASK_BUDGET_EXHAUSTED''
     else if ob_planAttempts snapshot \<ge> ob_planMaxRunAttempts snapshot \<or>
             ob_planDurationSeconds snapshot + ob_nextRunReservationSeconds snapshot > ob_planMaxDurationSeconds snapshot
     then Blocked ''EXECUTION_PLAN_BUDGET_EXHAUSTED''
     else if ob_activePlanRuns snapshot \<ge> ob_planMaxConcurrency snapshot
     then Blocked ''EXECUTION_PLAN_CAPACITY_EXHAUSTED''
     else if ob_activeAgentRuns snapshot > 0 then Blocked ''EXECUTION_AGENT_CAPACITY_EXHAUSTED''
     else if \<not> ob_agentAvailable snapshot then Blocked ''EXECUTION_AGENT_UNAVAILABLE''
     else if \<not> ob_capabilityAvailable snapshot then Blocked ''EXECUTION_CAPABILITY_UNAVAILABLE''
     else if ob_grantMatches snapshot \<noteq> 1
     then Blocked (if ob_grantMatches snapshot = 0 then ''EXECUTION_GRANT_UNAVAILABLE'' else ''EXECUTION_GRANT_AMBIGUOUS'')
     else if \<not> ob_outputsSupported snapshot then Blocked ''EXECUTION_OUTPUT_UNSUPPORTED''
     else Ready)"

section \<open>The environment\<close>

text \<open>
  A grant a Bridge has announced as ready. \<open>ge_readyGrants\<close> and \<open>ge_capabilityAvailable\<close> are the
  answers of the registry of Bridge connections (the latter compares the live capability with the
  one stored for the Agent), \<open>ge_elapsedSeconds\<close> is SQLite's whole seconds between two times,
  and \<open>ge_seal\<close> stands for the frozen inputs, the manifest with its digests and the workspace
  lease of a new Run, which may be refused.
\<close>

datatype governed_operation = Op_prepare | Op_capture | Op_verify | Op_integrate

record ready_grant =
  gr_planId :: jstring
  gr_nodeKey :: jstring
  gr_repositoryId :: jstring
  gr_bindingId :: jstring
  gr_grantId :: jstring
  gr_grantRevision :: int
  gr_profileId :: jstring
  gr_profileRevision :: int
  gr_profileDigest :: jstring
  gr_revokedAt :: "timestamp option"
  gr_operations :: "governed_operation list"
  gr_integrationTargets :: "IntegrationTarget list"
  gr_scopePolicy :: NodeScope
  gr_verificationProfiles :: "(jstring \<times> int \<times> jstring) list"
  gr_issuedAt :: timestamp
  gr_expiresAt :: timestamp

record governed_env =
  ge_lib :: text_lib
  ge_schema :: "cjson \<Rightarrow> bool"
  ge_ids :: "nat \<Rightarrow> jstring"
  ge_readyGrants :: "jstring \<Rightarrow> jstring \<Rightarrow> ready_grant list"
  ge_capabilityAvailable :: "jstring \<Rightarrow> AgentRecord \<Rightarrow> bool"
  ge_elapsedSeconds :: "timestamp \<Rightarrow> timestamp \<Rightarrow> int"
  ge_seal :: "RunRecord \<Rightarrow> ExecutionInputSelection list \<Rightarrow> ready_grant \<Rightarrow> execution_store \<Rightarrow> unit throwing"

definition expected_operations :: "PlanNode \<Rightarrow> governed_operation list" where
  "expected_operations node =
    (if list_ex vp_required (nd_verificationProfiles node) then [Op_prepare, Op_capture, Op_verify]
     else [Op_prepare, Op_capture])"

definition grant_matches :: "jstring \<Rightarrow> PlanNode \<Rightarrow> timestamp \<Rightarrow> ready_grant \<Rightarrow> bool" where
  "grant_matches planId node now g \<longleftrightarrow>
     gr_planId g = planId \<and> gr_nodeKey g = nd_nodeKey node \<and>
     gr_repositoryId g = rp_repositoryId (nd_repository node) \<and>
     gr_bindingId g = rp_bindingId (nd_repository node) \<and>
     gr_grantId g = rp_grantId (nd_repository node) \<and>
     gr_grantRevision g = rp_grantRevision (nd_repository node) \<and>
     gr_profileId g = rp_runtimeProfileId (nd_repository node) \<and>
     gr_profileRevision g = 1 \<and>
     gr_profileDigest g = rp_runtimeProfileDigest (nd_repository node) \<and>
     gr_revokedAt g = None \<and>
     length (gr_operations g) = length (expected_operations node) \<and>
     list_all (\<lambda>p. p \<in> set (gr_operations g)) (expected_operations node) \<and>
     gr_integrationTargets g = [] \<and>
     gr_scopePolicy g = nd_scope node \<and>
     gr_verificationProfiles g =
       map (\<lambda>v. (vp_profileId v, vp_revision v, vp_digest v)) (nd_verificationProfiles node) \<and>
     gr_issuedAt g \<le> now \<and> now < gr_expiresAt g"

definition matchingGrants ::
  "governed_env \<Rightarrow> jstring \<Rightarrow> PlanNode \<Rightarrow> jstring \<Rightarrow> timestamp \<Rightarrow> ready_grant list" where
  "matchingGrants E planId node deviceId now =
    filter (grant_matches planId node now) (ge_readyGrants E deviceId (nd_agentId node))"

section \<open>Observations\<close>

record AgentTask =
  at_row :: TaskRow
  at_governed :: governed_task_row

definition taskOf :: "jstring \<Rightarrow> execution_store \<Rightarrow> AgentTask option" where
  "taskOf taskId s =
    (case (getTask taskId (rs_team (xs_runs s)), find (\<lambda>t. gt_taskId t = taskId) (xs_tasks s)) of
       (Some row, Some governed) \<Rightarrow> Some \<lparr>at_row = row, at_governed = governed\<rparr>
     | _ \<Rightarrow> None)"

definition managedAgent :: "jstring \<Rightarrow> execution_store \<Rightarrow> AgentRecord option" where
  "managedAgent agentId s =
    find (\<lambda>a. a_agentId a = agentId \<and> a_enabled a \<and> a_integrationMode a = IM_managed)
      (tr_agents (rs_team (xs_runs s)))"

definition getMember :: "jstring \<Rightarrow> execution_store \<Rightarrow> MemberRecord option" where
  "getMember memberId s = find (\<lambda>m. mb_memberId m = memberId) (tr_members (rs_team (xs_runs s)))"

definition intent_run :: "execution_store \<Rightarrow> execution_dispatch_intent_row \<Rightarrow> RunRecord option" where
  "intent_run s i = getRun (xt_runId i) (xs_runs s)"

definition active_run :: "RunRecord \<Rightarrow> bool" where
  "active_run r \<longleftrightarrow> run_state r \<in> {RS_queued, RS_delivered, RS_working, RS_input_required}"

text \<open>The Runs of the intents that satisfy a condition: \<^verbatim>\<open>execution_dispatch_intents JOIN runs\<close>.\<close>

definition intent_runs ::
  "(execution_dispatch_intent_row \<Rightarrow> bool) \<Rightarrow> execution_store \<Rightarrow> RunRecord list" where
  "intent_runs P s = List.map_filter (intent_run s) (filter P (xs_intents s))"

definition plan_runs :: "ExecutionNodeIdentity \<Rightarrow> execution_store \<Rightarrow> RunRecord list" where
  "plan_runs identity s = intent_runs (\<lambda>i. en_planId (xt_identity i) = en_planId identity \<and>
     en_planRevision (xt_identity i) = en_planRevision identity) s"

definition agent_runs :: "jstring \<Rightarrow> execution_store \<Rightarrow> RunRecord list" where
  "agent_runs agentId s = intent_runs (\<lambda>i. xt_agentId i = agentId) s"

definition count_active :: "RunRecord list \<Rightarrow> int" where
  "count_active rs = int (length (filter active_run rs))"

definition run_end :: "RunRecord \<Rightarrow> timestamp" where
  "run_end r = (if active_run r then run_deadlineAt r
     else case run_terminalAt r of Some t \<Rightarrow> t | None \<Rightarrow> run_updatedAt r)"

definition plan_duration :: "governed_env \<Rightarrow> RunRecord list \<Rightarrow> int" where
  "plan_duration E rs = sum_list (map (\<lambda>r. max 0 (ge_elapsedSeconds E (run_createdAt r) (run_end r))) rs)"

text \<open>The Task of a node of a compiled plan; a node that still asks for a new Task has none.\<close>

definition node_task_id :: "PlanNode \<Rightarrow> jstring option" where
  "node_task_id node = (case nd_task node of Task_existing t \<Rightarrow> Some (te_taskId t) | Task_new _ \<Rightarrow> None)"

text \<open>A Run of an earlier revision of the Task that is still active, or ended unknown and unacknowledged.\<close>

definition unresolved_run :: "execution_store \<Rightarrow> RunRecord \<Rightarrow> bool" where
  "unresolved_run s r \<longleftrightarrow> active_run r \<or>
     run_state r = RS_outcome_unknown \<and> getAmbiguityAcknowledgement (run_runId r) (xs_runs s) = None"

definition existingAttempt ::
  "ExecutionNodeIdentity \<Rightarrow> PlanNode \<Rightarrow> bool \<Rightarrow> execution_store \<Rightarrow> bool" where
  "existingAttempt identity node ignoreExistingAttempt s \<longleftrightarrow>
     \<not> ignoreExistingAttempt \<and>
       (list_ex (\<lambda>i. xt_identity i = identity) (xs_intents s) \<or>
        list_ex (\<lambda>m. am_identity m = identity) (xs_adopted s)) \<or>
     list_ex (\<lambda>prior. en_planId (xd_identity prior) = en_planId identity \<and>
         en_planRevision (xd_identity prior) < en_planRevision identity \<and>
         node_task_id node = Some (xd_taskId prior) \<and>
         list_ex (unresolved_run s) (intent_runs (\<lambda>i. xt_identity i = xd_identity prior) s)) (xs_nodes s)"

definition defaultRunDurationMilliseconds :: int where
  "defaultRunDurationMilliseconds = 20 * 60 * 1000"

text \<open>\<^verbatim>\<open>Math.ceil(ms / 1_000)\<close>.\<close>

definition ceil_seconds :: "int \<Rightarrow> int" where
  "ceil_seconds ms = - ((- ms) div 1000)"

definition next_reservation :: "ready_grant list \<Rightarrow> timestamp \<Rightarrow> int" where
  "next_reservation grants now =
    (case grants of
       [g] \<Rightarrow> max 0 (ceil_seconds (min (now + defaultRunDurationMilliseconds) (gr_expiresAt g) - now))
     | _ \<Rightarrow> 0)"

definition code_output :: "NodeSlot \<Rightarrow> bool" where
  "code_output out \<longleftrightarrow> ns_kind out \<in> {Slot_patch, Slot_commit}"

definition outputs_supported :: "PlanNode \<Rightarrow> bool" where
  "outputs_supported node \<longleftrightarrow>
     \<not> list_ex (\<lambda>out. ns_required out \<and> \<not> code_output out) (nd_outputs node) \<and> list_ex code_output (nd_outputs node)"

definition reviewer_current ::
  "execution_plan_approval_row option \<Rightarrow> AgentTask option \<Rightarrow> execution_store \<Rightarrow> bool" where
  "reviewer_current approval task s =
    (case (approval, task) of
       (Some v, Some t) \<Rightarrow>
         (case getMember (xv_reviewedByMemberId v) s of
            None \<Rightarrow> False
          | Some reviewer \<Rightarrow>
              mb_teamId reviewer = gt_teamId (at_governed t) \<and>
              (tk_roomId (at_row t), mb_memberId reviewer) \<in> set (tr_roomMembers (rs_team (xs_runs s))) \<and>
              (mb_role reviewer = Owner \<or> mb_memberId reviewer = gt_ownerMemberId (at_governed t)))
     | _ \<Rightarrow> False)"

definition plan_current ::
  "ExecutionNodeIdentity \<Rightarrow> (execution_plan_row \<times> execution_plan_proposal_row) option \<Rightarrow>
   execution_plan_approval_row option \<Rightarrow> bool \<Rightarrow> bool" where
  "plan_current identity found approval rest =
    (case (found, approval) of
       (Some (plan, current), Some v) \<Rightarrow>
         xp_currentRevision plan = en_planRevision identity \<and> schedulable (xp_state plan) \<and>
         xq_digest current = xv_digest v \<and> xv_decision v = Decision_approved \<and> rest
     | _ \<Rightarrow> False)"

definition task_pins_current ::
  "AgentTask option \<Rightarrow> PlanNode option \<Rightarrow> execution_plan_node_row option \<Rightarrow> bool" where
  "task_pins_current task node compiled =
    (case (task, node, compiled) of
       (Some t, Some n, Some c) \<Rightarrow>
         xd_taskId c = tk_taskId (at_row t) \<and>
         xd_definitionRevision c = gt_definitionRevision (at_governed t) \<and>
         xd_criteriaRevision c = gt_criteriaRevision (at_governed t) \<and>
         list_ex (\<lambda>a. ta_agentId a = nd_agentId n) (tk_assignments (at_row t))
     | _ \<Rightarrow> False)"

definition is_some :: "'a option \<Rightarrow> bool" where
  "is_some x \<longleftrightarrow> x \<noteq> None"

definition blocker_code :: "ExecutionDependencyResolution \<Rightarrow> string option" where
  "blocker_code r = (case r of Resolved _ \<Rightarrow> None | Unresolved code \<Rightarrow> Some code)"

definition evaluateReadiness ::
  "governed_env \<Rightarrow> ExecutionNodeIdentity \<Rightarrow> timestamp \<Rightarrow> bool \<Rightarrow> execution_store \<Rightarrow> ExecutionReadiness throwing" where
  "evaluateReadiness E identity now ignoreExistingAttempt s =
    bind (planOf (en_planId identity) s) (\<lambda>found.
    let approval = Option.bind found (\<lambda>_. approvalOf (en_planId identity) (en_planRevision identity) s);
        node = Option.bind found (\<lambda>(_, current).
          find (\<lambda>n. nd_nodeKey n = en_nodeKey identity) (pl_nodes (xq_definition current)));
        compiled = Option.bind found (\<lambda>(plan, _). compiledNode plan (en_nodeKey identity) s);
        task = Option.bind compiled (\<lambda>c. taskOf (xd_taskId c) s) in
    bind (resolveDependencies (ge_lib E) (ge_schema E) identity s) (\<lambda>dependency.
    let agent = Option.bind node (\<lambda>n. managedAgent (nd_agentId n) s);
        deviceId = Option.bind agent (\<lambda>a. truthy (a_deviceId a));
        grants = (case (found, node, deviceId) of
          (Some (plan, _), Some n, Some d) \<Rightarrow> matchingGrants E (xp_planId plan) n d now | _ \<Rightarrow> []);
        reservation = next_reservation grants now;
        policy = map_option (\<lambda>(_, current). pl_policy (xq_definition current)) found in
    Inr (evaluateExecutionReadiness
      \<lparr>ob_activeAgentRuns = (case node of None \<Rightarrow> 0 | Some n \<Rightarrow> count_active (agent_runs (nd_agentId n) s)),
       ob_activePlanRuns = count_active (plan_runs identity s),
       ob_agentAvailable = (case (task, agent, deviceId) of
         (Some t, Some a, Some _) \<Rightarrow> a_teamId a = gt_teamId (at_governed t) | _ \<Rightarrow> False),
       ob_capabilityAvailable = (case (agent, deviceId) of
         (Some a, Some d) \<Rightarrow> ge_capabilityAvailable E d a | _ \<Rightarrow> False),
       ob_dependencyBlocker = blocker_code dependency,
       ob_existingAttempt = (case node of None \<Rightarrow> False
         | Some n \<Rightarrow> existingAttempt identity n ignoreExistingAttempt s),
       ob_grantMatches = int (length grants),
       ob_nodeKind = (case node of None \<Rightarrow> Node_verification | Some n \<Rightarrow> nd_kind n),
       ob_nextRunReservationSeconds = reservation,
       ob_outputsSupported = (case node of None \<Rightarrow> False | Some n \<Rightarrow> outputs_supported n),
       ob_planAttempts = int (length (plan_runs identity s)),
       ob_planCurrent = plan_current identity found approval
         (is_some node \<and> is_some compiled \<and> reviewer_current approval task s),
       ob_planDurationSeconds = plan_duration E (plan_runs identity s),
       ob_planMaxConcurrency = (case policy of None \<Rightarrow> 1 | Some p \<Rightarrow> pp_maxConcurrency p),
       ob_planMaxDurationSeconds = (case policy of None \<Rightarrow> 0 | Some p \<Rightarrow> bu_maxExecutionDurationSeconds (pp_budget p)),
       ob_planMaxRunAttempts = (case policy of None \<Rightarrow> 0 | Some p \<Rightarrow> bu_maxRunAttempts (pp_budget p)),
       ob_taskBudgetAvailable = (case task of None \<Rightarrow> False | Some t \<Rightarrow>
         tk_budgetRunAttempts (at_row t) < maxRunAttempts (tk_budgetPolicy (at_row t)) \<and>
         tk_budgetExecutionDurationSeconds (at_row t) + reservation
           \<le> maxExecutionDurationSeconds (tk_budgetPolicy (at_row t))),
       ob_taskPinsCurrent = task_pins_current task node compiled,
       ob_taskRunnable = (case task of None \<Rightarrow> False | Some t \<Rightarrow>
         tk_lifecycleState (at_row t) \<in> {TL_ready, TL_active, TL_review} \<and>
         tk_schedulingState (at_row t) = Sched_enabled)\<rparr>)))"

definition readiness ::
  "governed_env \<Rightarrow> ExecutionNodeIdentity \<Rightarrow> timestamp \<Rightarrow> execution_store \<Rightarrow> ExecutionReadiness throwing" where
  "readiness E identity now s = evaluateReadiness E identity now False s"

definition retryReadiness ::
  "governed_env \<Rightarrow> ExecutionNodeIdentity \<Rightarrow> timestamp \<Rightarrow> execution_store \<Rightarrow> ExecutionReadiness throwing" where
  "retryReadiness E identity now s = evaluateReadiness E identity now True s"

end
