(* ===== verification/Execution_Admission.thy ===== *)
theory Execution_Admission
  imports Execution_Readiness
begin

text \<open>
  The admission of Runs (\<^verbatim>\<open>apps/server/src/execution/governed-run-admission-service.ts\<close>): by a
  member's message, by the retry of a node, or by the scheduler. An admission is one transaction:
  it appends the dispatch intent, the Run and the fairness entry, or changes nothing. The
  operation digest of the intent and the admission row with the grant are not read again by the
  modelled code and are left out; the manifest and the lease are behind \<open>ge_seal\<close>.
\<close>

section \<open>Queries\<close>

definition findIntentRun :: "ExecutionNodeIdentity \<Rightarrow> execution_store \<Rightarrow> RunRecord option" where
  "findIntentRun identity s =
    (case sort_by (\<lambda>a b. xt_dispatchGeneration b - xt_dispatchGeneration a)
        (filter (\<lambda>i. xt_identity i = identity) (xs_intents s)) of
       [] \<Rightarrow> None
     | i # _ \<Rightarrow> getRun (xt_runId i) (xs_runs s))"

definition nextDispatchGeneration :: "ExecutionNodeIdentity \<Rightarrow> execution_store \<Rightarrow> int throwing" where
  "nextDispatchGeneration identity s =
    (let generation = foldl max 0 (map xt_dispatchGeneration
        (filter (\<lambda>i. xt_identity i = identity) (xs_intents s))) + 1 in
     if \<not> is_safe_integer generation \<or> generation < 1
     then Inl (ExecutionError ''EXECUTION_DISPATCH_GENERATION_EXHAUSTED'') else Inr generation)"

definition drawId :: "governed_env \<Rightarrow> string \<Rightarrow> execution_store \<Rightarrow> jstring \<times> execution_store" where
  "drawId E label s =
    (lit label @ lit ''_'' @ ge_ids E (xs_drawn s), s\<lparr>xs_drawn := xs_drawn s + 1\<rparr>)"

definition demand :: "bool \<Rightarrow> string \<Rightarrow> 'a throwing \<Rightarrow> 'a throwing" where
  "demand c code rest = (if c then rest else Inl (ExecutionError code))"

section \<open>Admission\<close>

record GovernedMessageAdmissionInput =
  gi_memberId :: jstring
  gi_role :: member_role
  gi_message :: MessageRecord
  gi_now :: timestamp
  gi_task :: AgentTask

text \<open>A retry that was authorized, with the Run it repeats.\<close>

record node_retry =
  ry_operationId :: jstring
  ry_previousRunId :: jstring
  ry_previousGeneration :: int
  ry_newRunId :: jstring
  ry_newGeneration :: int
  ry_newDispatchIntentId :: jstring
  ry_previousRun :: RunRecord

record ScheduledAdmissionAuthority =
  au_expectedFairnessCursorRevision :: int
  au_mode :: ExecutionSchedulerMode
  au_modeRevision :: int
  au_operationId :: "jstring option"

type_synonym admission_result = "bool \<times> RunRecord list"

definition fairness_source ::
  "admission_source \<Rightarrow> node_retry option \<Rightarrow> ScheduledAdmissionAuthority option \<Rightarrow>
   ExecutionSchedulerFairnessSource" where
  "fairness_source src retry authority =
    (if retry \<noteq> None then Fair_node_retry
     else if src = Source_member_message then Fair_member_message
     else case authority of
       None \<Rightarrow> Fair_automatic
     | Some a \<Rightarrow> (case au_mode a of Sched_manual \<Rightarrow> Fair_manual | Sched_supervised \<Rightarrow> Fair_supervised
                  | Sched_automatic \<Rightarrow> Fair_automatic))"

text \<open>What the checks of an admission settle before anything is written.\<close>

record admission_scope =
  as_plan :: execution_plan_row
  as_node :: PlanNode
  as_selections :: "ExecutionInputSelection list"
  as_grant :: ready_grant
  as_deadlineAt :: timestamp
  as_generation :: int

definition exactGrant ::
  "governed_env \<Rightarrow> jstring \<Rightarrow> PlanNode \<Rightarrow> jstring \<Rightarrow> timestamp \<Rightarrow> ready_grant throwing" where
  "exactGrant E planId node deviceId now =
    (case matchingGrants E planId node deviceId now of
       [g] \<Rightarrow> Inr g
     | [] \<Rightarrow> Inl (ExecutionError ''EXECUTION_DISPATCH_GRANT_UNAVAILABLE'')
     | _ \<Rightarrow> Inl (ExecutionError ''EXECUTION_DISPATCH_GRANT_AMBIGUOUS''))"

definition retry_current :: "node_retry \<Rightarrow> int \<Rightarrow> bool" where
  "retry_current retry nextGeneration \<longleftrightarrow>
     \<not> (ry_newRunId retry = run_runId (ry_previousRun retry) \<or>
        ry_previousRunId retry \<noteq> run_runId (ry_previousRun retry) \<or>
        ry_previousGeneration retry + 1 \<noteq> ry_newGeneration retry \<or>
        nextGeneration \<noteq> ry_newGeneration retry)"

definition check_node ::
  "execution_plan_node_row option \<Rightarrow> jstring option \<Rightarrow> AgentTask \<Rightarrow> PlanNode \<Rightarrow> bool" where
  "check_node compiled targetAgentId task node \<longleftrightarrow>
     (case compiled of
        None \<Rightarrow> False
      | Some c \<Rightarrow>
          \<not> (xd_taskId c \<noteq> tk_taskId (at_row task) \<or>
             xd_definitionRevision c \<noteq> gt_definitionRevision (at_governed task) \<or>
             xd_criteriaRevision c \<noteq> gt_criteriaRevision (at_governed task) \<or>
             Some (nd_agentId node) \<noteq> targetAgentId \<or>
             \<not> list_ex (\<lambda>a. ta_agentId a = nd_agentId node) (tk_assignments (at_row task)) \<or>
             nd_kind node \<noteq> Node_implementation))"

definition admission_checks ::
  "governed_env \<Rightarrow> GovernedMessageAdmissionInput \<Rightarrow> ExecutionNodeIdentity \<Rightarrow> admission_source \<Rightarrow>
   node_retry option \<Rightarrow> execution_store \<Rightarrow> admission_scope throwing" where
  "admission_checks E input governance src retry s =
    (let message = gi_message input; task = gi_task input; now = gi_now input in
    demand (\<not> (src = Source_member_message \<and> gi_role input \<noteq> Owner \<and>
        gi_memberId input \<noteq> gt_ownerMemberId (at_governed task))) ''EXECUTION_DISPATCH_OWNER_REQUIRED'' (
    demand (\<not> (src = Source_member_message \<and> length (msg_mentions message) \<noteq> 1))
      ''EXECUTION_DISPATCH_TARGET_INVALID'' (
    bind (planOf (en_planId governance) s) (\<lambda>found.
    case (found, Option.bind found (\<lambda>_. approvalOf (en_planId governance) (en_planRevision governance) s)) of
      (Some (plan, current), Some approval) \<Rightarrow>
        demand (\<not> (\<not> schedulable (xp_state plan) \<or> xp_currentRevision plan \<noteq> en_planRevision governance \<or>
            xq_digest current \<noteq> xv_digest approval \<or> xp_controlRevision plan < 1 \<or>
            xv_decision approval \<noteq> Decision_approved)) ''EXECUTION_DISPATCH_PLAN_STALE'' (
        bind (validateExecutionPlanDefinition (ge_lib E) (ge_schema E) (xq_definition current)) (\<lambda>validated.
        demand (vd_digest validated = xq_digest current) ''EXECUTION_DISPATCH_PLAN_STALE'' (
        case find (\<lambda>n. nd_nodeKey n = en_nodeKey governance) (pl_nodes (vd_definition validated)) of
          None \<Rightarrow> Inl (ExecutionError ''EXECUTION_DISPATCH_SCOPE_INVALID'')
        | Some node \<Rightarrow>
            let targetAgentId = (if src = Source_scheduler then Some (nd_agentId node)
              else case msg_mentions message of [] \<Rightarrow> None | m # _ \<Rightarrow> Some (mn_targetAgentId m)) in
            demand (check_node (compiledNode plan (en_nodeKey governance) s) targetAgentId task node)
              ''EXECUTION_DISPATCH_SCOPE_INVALID'' (
            bind (resolveDependencies (ge_lib E) (ge_schema E)
              \<lparr>en_nodeKey = nd_nodeKey node, en_planId = xp_planId plan, en_planRevision = xp_currentRevision plan\<rparr> s)
              (\<lambda>dependency.
            case dependency of
              Unresolved blocker \<Rightarrow> Inl (ExecutionError blocker)
            | Resolved selections \<Rightarrow>
                (case Option.bind (managedAgent (nd_agentId node) s) (\<lambda>a.
                    map_option (\<lambda>d. (a, d)) (truthy (a_deviceId a))) of
                   None \<Rightarrow> Inl (ExecutionError ''EXECUTION_DISPATCH_CAPABILITY_UNAVAILABLE'')
                 | Some (agent, deviceId) \<Rightarrow>
                     demand (a_teamId agent = gt_teamId (at_governed task) \<and> ge_capabilityAvailable E deviceId agent)
                       ''EXECUTION_DISPATCH_CAPABILITY_UNAVAILABLE'' (
                     bind (exactGrant E (xp_planId plan) node deviceId now) (\<lambda>grant.
                     let deadlineAt = min (now + defaultRunDurationMilliseconds) (gr_expiresAt grant) in
                     demand (\<not> deadlineAt \<le> now) ''EXECUTION_DISPATCH_GRANT_UNAVAILABLE'' (
                     demand (outputs_supported node) ''EXECUTION_CAPTURE_OUTPUT_UNSUPPORTED'' (
                     bind (nextDispatchGeneration \<lparr>en_nodeKey = nd_nodeKey node, en_planId = xp_planId plan,
                         en_planRevision = xp_currentRevision plan\<rparr> s) (\<lambda>nextGeneration.
                     let generation = (case retry of None \<Rightarrow> nextGeneration | Some r \<Rightarrow> ry_newGeneration r) in
                     demand (case retry of None \<Rightarrow> True | Some r \<Rightarrow> retry_current r nextGeneration)
                       ''EXECUTION_NODE_RETRY_GENERATION_CONFLICT'' (
                     demand (\<not> (src = Source_scheduler \<and> generation \<noteq> 1)) ''EXECUTION_AUTOMATIC_RETRY_FORBIDDEN'' (
                     Inr \<lparr>as_plan = plan, as_node = node, as_selections = selections, as_grant = grant,
                          as_deadlineAt = deadlineAt, as_generation = generation\<rparr>)))))))))))))
    | _ \<Rightarrow> Inl (ExecutionError ''EXECUTION_DISPATCH_PLAN_STALE'')))))"

definition admitted_run ::
  "GovernedMessageAdmissionInput \<Rightarrow> admission_scope \<Rightarrow> admission_source \<Rightarrow> node_retry option \<Rightarrow> jstring \<Rightarrow> RunRecord" where
  "admitted_run input scope src retry runId =
    (let message = gi_message input; task = gi_task input in
     \<lparr>run_runId = runId, run_traceId = msg_traceId message, run_roomId = msg_roomId message,
      run_taskId = tk_taskId (at_row task), run_triggerMessageId = msg_messageId message,
      run_requesterMemberId = gi_memberId input, run_targetAgentId = nd_agentId (as_node scope),
      run_parentRunId = None, run_attemptNumber = None,
      run_retryOfRunId = map_option (\<lambda>r. run_runId (ry_previousRun r)) retry,
      run_instruction = (if src = Source_scheduler \<or> retry \<noteq> None then gt_goal (at_governed task)
        else msg_content message),
      run_state = RS_queued, run_lastSequence = 0, run_deadlineAt = as_deadlineAt scope,
      run_createdAt = gi_now input, run_updatedAt = gi_now input, run_terminalAt = None,
      run_orchestrationKey = None\<rparr>)"

definition admitted_identity :: "admission_scope \<Rightarrow> ExecutionNodeIdentity" where
  "admitted_identity scope =
    \<lparr>en_nodeKey = nd_nodeKey (as_node scope), en_planId = xp_planId (as_plan scope),
     en_planRevision = xp_currentRevision (as_plan scope)\<rparr>"

definition admitted_intent ::
  "GovernedMessageAdmissionInput \<Rightarrow> admission_scope \<Rightarrow> admission_source \<Rightarrow> node_retry option \<Rightarrow>
   ScheduledAdmissionAuthority option \<Rightarrow> jstring \<Rightarrow> jstring \<Rightarrow> execution_dispatch_intent_row" where
  "admitted_intent input scope src retry authority intentId runId =
    \<lparr>xt_intentId = intentId, xt_source = src, xt_identity = admitted_identity scope,
     xt_dispatchGeneration = as_generation scope, xt_taskId = tk_taskId (at_row (gi_task input)),
     xt_agentId = nd_agentId (as_node scope), xt_runId = runId,
     xt_traceMessageId = msg_messageId (gi_message input), xt_requesterMemberId = gi_memberId input,
     xt_createdAt = gi_now input, xt_retryOperationId = map_option ry_operationId retry,
     xt_schedulerOperationId = Option.bind authority au_operationId\<rparr>"

definition write_admission ::
  "governed_env \<Rightarrow> GovernedMessageAdmissionInput \<Rightarrow> admission_scope \<Rightarrow> admission_source \<Rightarrow> node_retry option \<Rightarrow>
   ScheduledAdmissionAuthority option \<Rightarrow> execution_store \<Rightarrow> (admission_result \<times> execution_store) throwing" where
  "write_admission E input scope src retry authority s =
    (let (runId, s) = (case retry of Some r \<Rightarrow> (ry_newRunId r, s) | None \<Rightarrow> drawId E ''run'' s);
         run = admitted_run input scope src retry runId;
         (intentId, s) = (case retry of Some r \<Rightarrow> (ry_newDispatchIntentId r, s) | None \<Rightarrow> drawId E ''dispatch'' s) in
    bind (insert_row intent_conflict (admitted_intent input scope src retry authority intentId runId) (xs_intents s))
      (\<lambda>intents.
    let s = s\<lparr>xs_intents := intents\<rparr> in
    bind (insertRunIdentity run (xs_runs s)) (\<lambda>runs.
    let s = s\<lparr>xs_runs := runs\<rparr> in
    bind (ge_seal E run (as_selections scope) (as_grant scope) s) (\<lambda>_.
    case getRun runId (xs_runs s) of
      None \<Rightarrow> Inl (Error ''Run is unavailable'')
    | Some created \<Rightarrow>
        bind (advanceFairness True
          \<lparr>fa_admittedAt = gi_now input, fa_agentId = nd_agentId (as_node scope), fa_dispatchIntentId = intentId,
           fa_expectedCursorRevision = map_option au_expectedFairnessCursorRevision authority,
           fa_node = admitted_identity scope, fa_runId = runId,
           fa_schedulerOperationId = Option.bind authority au_operationId,
           fa_source = fairness_source src retry authority\<rparr> s) (\<lambda>(_, s).
        Inr ((True, [created]), s))))))"

definition admit ::
  "governed_env \<Rightarrow> GovernedMessageAdmissionInput \<Rightarrow> ExecutionNodeIdentity \<Rightarrow> admission_source \<Rightarrow>
   node_retry option \<Rightarrow> ScheduledAdmissionAuthority option \<Rightarrow> execution_store \<Rightarrow>
   (admission_result \<times> execution_store) throwing" where
  "admit E input governance src retry authority s =
    (case findByTrigger (msg_messageId (gi_message input)) (xs_runs s) of
       r # rs \<Rightarrow> Inr ((False, r # rs), s)
     | [] \<Rightarrow>
         (case (if retry = None then findIntentRun governance s else None) of
            Some intentRun \<Rightarrow> Inr ((False, [intentRun]), s)
          | None \<Rightarrow>
              bind (admission_checks E input governance src retry s) (\<lambda>scope.
              write_admission E input scope src retry authority s)))"

section \<open>The callers\<close>

text \<open>\<^verbatim>\<open>execution_active_task_governance\<close>: the claim of an approved, running, paused or review plan.\<close>

definition governanceOf :: "jstring \<Rightarrow> execution_store \<Rightarrow> ExecutionNodeIdentity option" where
  "governanceOf taskId s =
    map_option snd (find (\<lambda>(task, i). task = taskId \<and>
      list_ex (\<lambda>p. xp_planId p = en_planId i \<and> projected (xp_state p)) (xs_plans s)) (xs_claims s))"

text \<open>\<open>None\<close>: the Task is not governed.\<close>

definition createRunsForMessage ::
  "governed_env \<Rightarrow> GovernedMessageAdmissionInput \<Rightarrow> execution_store \<Rightarrow>
   (admission_result option \<times> execution_store) throwing" where
  "createRunsForMessage E input s =
    (case governanceOf (tk_taskId (at_row (gi_task input))) s of
       None \<Rightarrow> Inr (None, s)
     | Some governance \<Rightarrow>
         bind (admit E input governance Source_member_message None None s) (\<lambda>(result, s). Inr (Some result, s)))"

definition admitRetry ::
  "governed_env \<Rightarrow> GovernedMessageAdmissionInput \<Rightarrow> ExecutionNodeIdentity \<Rightarrow> node_retry \<Rightarrow> bool \<Rightarrow>
   execution_store \<Rightarrow> (admission_result \<times> execution_store) throwing" where
  "admitRetry E input identity retry inTransaction s =
    bind (ensure inTransaction (Error ''Execution retry admission requires an owned transaction'')) (\<lambda>_.
    admit E input identity Source_member_message (Some retry) None s)"

definition scheduled_message :: "jstring \<Rightarrow> ExecutionNodeIdentity \<Rightarrow> AgentTask \<Rightarrow> timestamp \<Rightarrow> AppendMessageInput" where
  "scheduled_message messageId identity task now =
    \<lparr>m_messageId = messageId, m_roomId = tk_roomId (at_row task), m_senderType = Sender_system,
     m_senderId = lit ''execution-scheduler'',
     m_content = lit ''Execution Plan '' @ en_planId identity @ lit '' scheduled node '' @ en_nodeKey identity @ lit ''.'',
     m_mentions = [], m_parentMessageId = None, m_clientMessageId = None, m_createdAt = now,
     m_traceId = None, m_taskId = Some (tk_taskId (at_row task))\<rparr>"

definition admitScheduled ::
  "governed_env \<Rightarrow> ExecutionNodeIdentity \<Rightarrow> timestamp \<Rightarrow> ScheduledAdmissionAuthority \<Rightarrow> execution_store \<Rightarrow>
   (admission_result \<times> execution_store) throwing" where
  "admitScheduled E identity now authority s =
    (case findIntentRun identity s of
       Some existing \<Rightarrow> Inr ((False, [existing]), s)
     | None \<Rightarrow>
         bind (requireControl (en_planId identity) (au_mode authority) (au_modeRevision authority) s) (\<lambda>_.
         demand ((au_mode authority = Sched_automatic) = (au_operationId authority = None))
           ''EXECUTION_SCHEDULER_AUTHORITY_INVALID'' (
         bind (readiness E identity now s) (\<lambda>ready.
         case ready of
           Blocked blocker \<Rightarrow> Inl (ExecutionError blocker)
         | Ready \<Rightarrow>
             bind (planOf (en_planId identity) s) (\<lambda>found.
             case (found, approvalOf (en_planId identity) (en_planRevision identity) s) of
               (Some (plan, _), Some approval) \<Rightarrow>
                 (case Option.bind (compiledNode plan (en_nodeKey identity) s) (\<lambda>c. taskOf (xd_taskId c) s) of
                    None \<Rightarrow> Inl (Error ''Task is unavailable'')
                  | Some task \<Rightarrow>
                      (case getMember (xv_reviewedByMemberId approval) s of
                         None \<Rightarrow> Inl (ExecutionError ''EXECUTION_DISPATCH_OWNER_REQUIRED'')
                       | Some member \<Rightarrow>
                           let (messageId, s) = drawId E ''msg'' s; (traceId, s) = drawId E ''trace'' s in
                           bind (appendMessage traceId (scheduled_message messageId identity task now)
                             (rs_team (xs_runs s))) (\<lambda>(message, team).
                           admit E \<lparr>gi_memberId = mb_memberId member, gi_role = mb_role member,
                               gi_message = message, gi_now = now, gi_task = task\<rparr>
                             identity Source_scheduler None (Some authority)
                             (s\<lparr>xs_runs := (xs_runs s)\<lparr>rs_team := team\<rparr>\<rparr>))))
             | _ \<Rightarrow> Inl (Error ''Plan is unavailable''))))))"

end
