(* ===== verification/Execution_Settlement.thy ===== *)
theory Execution_Settlement
  imports Execution_Admission
begin

text \<open>
  The settlement of nodes by the state of their Runs (\<^verbatim>\<open>execution-settlement-service.ts\<close>) and the
  recovery of undelivered Runs (\<^verbatim>\<open>execution-recovery-service.ts\<close>). The materialization service is a
  parameter: for a node it tells whether an accepted and whether a verified materialization exists,
  and the adopted materializations after it has reconciled them.
\<close>

type_synonym materializer =
  "ExecutionNodeIdentity \<Rightarrow> execution_store \<Rightarrow>
   ((bool \<times> bool) \<times> AdoptedExecutionMaterialization list) throwing"

fun settleRun :: "RunState \<Rightarrow> ExecutionNodeStateValue \<times> string option" where
  "settleRun RS_queued = (EN_dispatched, None)"
| "settleRun RS_delivered = (EN_dispatched, None)"
| "settleRun RS_working = (EN_working, None)"
| "settleRun RS_input_required = (EN_working, Some ''EXECUTION_RUN_INPUT_REQUIRED'')"
| "settleRun RS_completed = (EN_awaiting_result, Some ''EXECUTION_RESULT_REQUIRED'')"
| "settleRun RS_failed = (EN_failed, Some ''EXECUTION_RUN_FAILED'')"
| "settleRun RS_expired = (EN_failed, Some ''EXECUTION_RUN_EXPIRED'')"
| "settleRun RS_canceled = (EN_canceled, Some ''EXECUTION_RUN_CANCELED'')"
| "settleRun RS_outcome_unknown = (EN_outcome_unknown, Some ''EXECUTION_RUN_OUTCOME_UNKNOWN'')"

text \<open>The intent no other of its node comes after.\<close>

definition latestIntent :: "ExecutionNodeIdentity \<Rightarrow> execution_store \<Rightarrow> execution_dispatch_intent_row option" where
  "latestIntent i s = find (\<lambda>x. xt_identity x = i \<and>
     \<not> list_ex (\<lambda>later. xt_identity later = i \<and> xt_dispatchGeneration later > xt_dispatchGeneration x) (xs_intents s))
     (xs_intents s)"

text \<open>The plan of a current node, with the latest intent and its Run when there are any.\<close>

definition settlementSource ::
  "ExecutionNodeIdentity \<Rightarrow> execution_store \<Rightarrow> (ExecutionPlanState \<times> (int \<times> RunRecord) option) option" where
  "settlementSource i s =
    (case find (belongs i) (xs_plans s) of
       None \<Rightarrow> None
     | Some plan \<Rightarrow>
         if list_ex (\<lambda>n. xd_identity n = i) (xs_nodes s)
         then Some (xp_state plan, Option.bind (latestIntent i s) (\<lambda>x.
           map_option (\<lambda>r. (xt_dispatchGeneration x, r)) (getRun (xt_runId x) (xs_runs s))))
         else None)"

definition not_schedulable_projection :: "ExecutionNodeIdentity \<Rightarrow> ExecutionRunProjection" where
  "not_schedulable_projection i =
    \<lparr>xj_identity = i, xj_blockerCode = Some ''EXECUTION_PLAN_NOT_SCHEDULABLE'',
     xj_dispatchGeneration = None, xj_lastRunState = None, xj_runId = None, xj_state = EN_blocked\<rparr>"

definition run_projection :: "ExecutionNodeIdentity \<Rightarrow> bool \<Rightarrow> int \<Rightarrow> RunRecord \<Rightarrow> ExecutionRunProjection" where
  "run_projection i proven generation run =
    (let (state, blockerCode) = settleRun (run_state run) in
     \<lparr>xj_identity = i,
      xj_blockerCode = (if proven \<and> run_state run = RS_completed then None else blockerCode),
      xj_dispatchGeneration = Some generation, xj_lastRunState = Some (run_state run),
      xj_runId = Some (run_runId run), xj_state = state\<rparr>)"

definition start_plan :: "ExecutionNodeIdentity \<Rightarrow> timestamp \<Rightarrow> execution_store \<Rightarrow> execution_store" where
  "start_plan i now s = s\<lparr>xs_plans := map (\<lambda>p. if belongs i p \<and> xp_state p = XP_approved
     then p\<lparr>xp_state := XP_running, xp_updatedAt := now\<rparr> else p) (xs_plans s)\<rparr>"

text \<open>A Run id is not empty and a generation is positive, so a settled source has both or neither.\<close>

definition reconcileNode ::
  "materializer \<Rightarrow> timestamp \<Rightarrow> ExecutionNodeIdentity \<Rightarrow> execution_store \<Rightarrow>
   (ExecutionNodeState \<times> execution_store) throwing" where
  "reconcileNode M now i s =
    bind (M i s) (\<lambda>((accepted, verified), adopted).
    let s = s\<lparr>xs_adopted := adopted\<rparr> in
    case settlementSource i s of
      None \<Rightarrow> Inl (Error ''Execution settlement source is unavailable'')
    | Some (plan_state, None) \<Rightarrow>
        (case nodeState i s of
           None \<Rightarrow> Inl (Error ''Execution node state is unavailable'')
         | Some current \<Rightarrow>
             if plan_state \<in> {XP_paused, XP_review}
             then projectRunSettlement (not_schedulable_projection i) now s
             else Inr (current, s))
    | Some (plan_state, Some (generation, run)) \<Rightarrow>
        projectRunSettlement (run_projection i (accepted \<or> verified) generation run) now
          (if plan_state = XP_approved then start_plan i now s else s))"

fun reconcile_nodes ::
  "materializer \<Rightarrow> timestamp \<Rightarrow> ExecutionNodeIdentity list \<Rightarrow> execution_store \<Rightarrow>
   (ExecutionNodeState list \<times> execution_store) throwing" where
  "reconcile_nodes M now [] s = Inr ([], s)"
| "reconcile_nodes M now (i # is) s =
    bind (reconcileNode M now i s) (\<lambda>(state, s).
    bind (reconcile_nodes M now is s) (\<lambda>(states, s). Inr (state # states, s)))"

definition reconcileNodes ::
  "materializer \<Rightarrow> timestamp \<Rightarrow> execution_store \<Rightarrow> (ExecutionNodeState list \<times> execution_store) throwing" where
  "reconcileNodes M now s =
    (let s = ensureCurrent now s in reconcile_nodes M now (listAllCurrent s) s)"

definition reconcileOne ::
  "materializer \<Rightarrow> ExecutionNodeIdentity \<Rightarrow> timestamp \<Rightarrow> execution_store \<Rightarrow>
   (ExecutionNodeState \<times> execution_store) throwing" where
  "reconcileOne M i now s = reconcileNode M now i (ensureCurrent now s)"

section \<open>Recovery\<close>

definition intent_order :: "execution_dispatch_intent_row \<Rightarrow> execution_dispatch_intent_row \<Rightarrow> int" where
  "intent_order a b =
    or_else (binaryCompare (en_planId (xt_identity a)) (en_planId (xt_identity b)))
      (or_else (en_planRevision (xt_identity a) - en_planRevision (xt_identity b))
        (or_else (binaryCompare (en_nodeKey (xt_identity a)) (en_nodeKey (xt_identity b)))
          (xt_dispatchGeneration a - xt_dispatchGeneration b)))"

definition undelivered :: "execution_store \<Rightarrow> execution_dispatch_intent_row \<Rightarrow> bool" where
  "undelivered s i \<longleftrightarrow>
    (case intent_run s i of
       None \<Rightarrow> False
     | Some r \<Rightarrow> run_state r \<in> {RS_queued, RS_delivered} \<and>
         (case map_of (rs_deliveries (xs_runs s)) (run_runId r) of
            None \<Rightarrow> True | Some d \<Rightarrow> cd_state d = Delivery_pending))"

definition recoverRuns ::
  "materializer \<Rightarrow> timestamp \<Rightarrow> execution_store \<Rightarrow> (RunRecord list \<times> execution_store) throwing" where
  "recoverRuns M now s =
    bind (reconcileNodes M now s) (\<lambda>(_, s).
    Inr (List.map_filter (intent_run s) (sort_by intent_order (filter (undelivered s) (xs_intents s))), s))"

end
