(* ===== verification/Execution_Scheduler.thy ===== *)
theory Execution_Scheduler
  imports Execution_Settlement
begin

text \<open>
  The scheduler (\<^verbatim>\<open>apps/server/src/execution/execution-scheduler.ts\<close>). A sweep is an action on the
  store: its transactions commit one after another, and an error leaves what was committed. The
  arrays the code shares between \<open>queues\<close> and \<open>orderQueues\<close> are referred to by their
  position in \<open>queues\<close>.
\<close>

section \<open>Queues\<close>

definition queue_key :: "ExecutionSchedulerCandidate \<Rightarrow> timestamp \<times> jstring" where
  "queue_key c = (ca_planApprovedAt c, en_planId (ca_identity c))"

fun add_to_queue ::
  "ExecutionSchedulerCandidate \<Rightarrow> ((timestamp \<times> jstring) \<times> ExecutionSchedulerCandidate list) list \<Rightarrow>
   ((timestamp \<times> jstring) \<times> ExecutionSchedulerCandidate list) list" where
  "add_to_queue c [] = [(queue_key c, [c])]"
| "add_to_queue c ((k, q) # qs) =
    (if k = queue_key c then (k, q @ [c]) # qs else (k, q) # add_to_queue c qs)"

definition planQueues :: "ExecutionSchedulerCandidate list \<Rightarrow> ExecutionSchedulerCandidate list list" where
  "planQueues candidates = map snd (fold add_to_queue candidates [])"

type_synonym queue_ref = "nat \<times> ExecutionSchedulerCandidate list"

fun find_index :: "('a \<Rightarrow> bool) \<Rightarrow> 'a list \<Rightarrow> int" where
  "find_index P [] = -1"
| "find_index P (x # xs) = (if P x then 0 else let k = find_index P xs in if k < 0 then -1 else k + 1)"

definition previous_queue ::
  "ExecutionSchedulerFairnessCursor option \<Rightarrow> (nat \<times> queue_ref) list \<Rightarrow> int" where
  "previous_queue cursor matching =
    (case cursor of
       None \<Rightarrow> -1
     | Some c \<Rightarrow> find_index (\<lambda>(_, _, q). en_planId (ca_identity (hd q)) = en_planId (fc_lastNode c) \<and>
         en_planRevision (ca_identity (hd q)) = en_planRevision (fc_lastNode c)) matching)"

text \<open>The position in \<open>remaining\<close> and the reference of the queue that is served next.\<close>

definition select_queue :: "execution_store \<Rightarrow> queue_ref \<Rightarrow> queue_ref list \<Rightarrow> nat \<times> queue_ref" where
  "select_queue s base rest =
    (let agentId = ca_agentId (hd (snd base));
         remaining = base # rest;
         matching = filter (\<lambda>(_, _, q). ca_agentId (hd q) = agentId) (List.enumerate 0 remaining);
         previous = previous_queue (fairnessCursor agentId s) matching in
     matching ! nat ((previous + 1) mod int (length matching)))"

lemma find_index_bounds: "-1 \<le> find_index P xs \<and> find_index P xs < int (length xs)"
  by (induction xs) (auto simp: Let_def)

lemma find_index_nonneg: "0 \<le> find_index P xs \<Longrightarrow> P (xs ! nat (find_index P xs))"
  by (induction xs) (auto simp: Let_def nat_add_distrib split: if_splits)

lemma find_index_None: "find_index P xs < 0 \<longleftrightarrow> (\<forall>x\<in>set xs. \<not> P x)"
  by (induction xs) (auto simp: Let_def)

lemma select_queue_in:
  "(case select_queue s base rest of (i, r) \<Rightarrow> i < length (base # rest) \<and> (base # rest) ! i = r \<and>
     ca_agentId (hd (snd r)) = ca_agentId (hd (snd base)))"
proof -
  let ?m = "filter (\<lambda>(_, _, q). ca_agentId (hd q) = ca_agentId (hd (snd base))) (List.enumerate 0 (base # rest))"
  let ?p = "previous_queue (fairnessCursor (ca_agentId (hd (snd base))) s) ?m"
  have ne: "0 < length ?m" by (cases base) simp
  then have "0 \<le> (?p + 1) mod int (length ?m)" "(?p + 1) mod int (length ?m) < int (length ?m)"
    by (auto intro!: pos_mod_bound pos_mod_sign simp del: filter.simps)
  then have "nat ((?p + 1) mod int (length ?m)) < length ?m" by linarith
  then have "select_queue s base rest \<in> set ?m"
    unfolding select_queue_def Let_def by (rule nth_mem)
  then show ?thesis
    by (auto simp: in_set_enumerate_eq simp del: filter.simps enumerate_simps split: prod.splits)
qed

function order_remaining :: "execution_store \<Rightarrow> queue_ref list \<Rightarrow> nat list" where
  "order_remaining s [] = []"
| "order_remaining s (base # rest) =
    (let (index, selected) = select_queue s base rest in
     fst selected # order_remaining s (take index (base # rest) @ drop (index + 1) (base # rest)))"
  by pat_completeness auto

lemma select_queue_index: "(index, selected) = select_queue s base rest \<Longrightarrow> index \<le> length rest"
  using select_queue_in[where s = s and base = base and rest = rest] by (auto split: prod.splits)

termination order_remaining
  by (relation "measure (\<lambda>(_, remaining). length remaining)") (auto dest: select_queue_index)

definition orderQueues :: "execution_store \<Rightarrow> ExecutionSchedulerCandidate list list \<Rightarrow> nat list" where
  "orderQueues s queues = order_remaining s (filter (\<lambda>(_, q). q \<noteq> []) (List.enumerate 0 queues))"

section \<open>The sweep\<close>

record sweep_env =
  ve_governed :: governed_env
  ve_materializer :: materializer
  ve_maxCandidateEvaluations :: nat

record ExecutionSchedulerSweepOptions =
  wo_maxAdmissions :: "nat option"
  wo_mode :: "ExecutionSchedulerMode option"
  wo_operationId :: "jstring option"
  wo_planId :: "jstring option"

text \<open>What a sweep knows once it has begun, and what it changes.\<close>

record sweep_frame =
  sf_now :: timestamp
  sf_mode :: ExecutionSchedulerMode
  sf_operationId :: "jstring option"
  sf_maxAdmissions :: nat

record sweep_state =
  sw_queues :: "ExecutionSchedulerCandidate list list"
  sw_evaluated :: nat
  sw_admitted :: "RunRecord list"
  sw_progressed :: bool

type_synonym 'a step = "execution_store \<Rightarrow> 'a throwing \<times> execution_store"

text \<open>One transaction: what it throws takes back what it wrote.\<close>

definition transact :: "(execution_store \<Rightarrow> ('a \<times> execution_store) throwing) \<Rightarrow> 'a step" where
  "transact f s = (case f s of Inl e \<Rightarrow> (Inl e, s) | Inr (x, s') \<Rightarrow> (Inr x, s'))"

definition and_then :: "'a step \<Rightarrow> ('a \<Rightarrow> 'b step) \<Rightarrow> 'b step" where
  "and_then m f s = (case m s of (Inl e, s') \<Rightarrow> (Inl e, s') | (Inr x, s') \<Rightarrow> f x s')"

definition budget_left :: "sweep_env \<Rightarrow> sweep_frame \<Rightarrow> sweep_state \<Rightarrow> bool" where
  "budget_left V F w \<longleftrightarrow>
     sw_evaluated w < ve_maxCandidateEvaluations V \<and> length (sw_admitted w) < sf_maxAdmissions F"

definition push_back :: "nat \<Rightarrow> ExecutionSchedulerCandidate \<Rightarrow> sweep_state \<Rightarrow> sweep_state" where
  "push_back q c w = w\<lparr>sw_queues := (sw_queues w)[q := sw_queues w ! q @ [c]]\<rparr>"

definition scheduled_authority ::
  "sweep_frame \<Rightarrow> ExecutionSchedulerCandidate \<Rightarrow> execution_store \<Rightarrow> ScheduledAdmissionAuthority" where
  "scheduled_authority F c s =
    \<lparr>au_expectedFairnessCursorRevision = fairnessRevision (ca_agentId c) s, au_mode = sf_mode F,
     au_modeRevision = ca_schedulerModeRevision c, au_operationId = sf_operationId F\<rparr>"

text \<open>
  One candidate, taken from the front of queue \<open>q\<close>. The flag tells whether the loop over this
  queue breaks. Only an \<open>ExecutionError\<close> of the admission or of the settlement after it is caught;
  the Runs that were admitted before stay in the list.
\<close>

definition try_admission ::
  "sweep_env \<Rightarrow> sweep_frame \<Rightarrow> ExecutionSchedulerCandidate \<Rightarrow> sweep_state \<Rightarrow>
   execution_store \<Rightarrow> (js_error option \<times> bool \<times> sweep_state) \<times> execution_store" where
  "try_admission V F c w s =
    (case transact (admitScheduled (ve_governed V) (ca_identity c) (sf_now F) (scheduled_authority F c s)) s of
       (Inl e, s) \<Rightarrow> ((Some e, False, w), s)
     | (Inr (created, runs), s) \<Rightarrow>
         if \<not> created then ((None, False, w), s)
         else let w = w\<lparr>sw_admitted := sw_admitted w @ runs\<rparr> in
           (case transact (reconcileOne (ve_materializer V) (ca_identity c) (sf_now F)) s of
              (Inl e, s) \<Rightarrow> ((Some e, False, w), s)
            | (Inr _, s) \<Rightarrow> ((None, True, w\<lparr>sw_progressed := True\<rparr>), s)))"

text \<open>\<^verbatim>\<open>error instanceof ExecutionError\<close>, with its code.\<close>

definition execution_code :: "js_error \<Rightarrow> string option" where
  "execution_code e = (case e of ExecutionError code \<Rightarrow> Some code | _ \<Rightarrow> None)"

definition after_failure ::
  "sweep_frame \<Rightarrow> nat \<Rightarrow> ExecutionSchedulerCandidate \<Rightarrow> js_error \<Rightarrow> sweep_state \<Rightarrow> (bool \<times> sweep_state) step" where
  "after_failure F q c e w =
    (case execution_code e of
       None \<Rightarrow> (\<lambda>s. (Inl e, s))
     | Some code \<Rightarrow>
         and_then (transact (projectReadiness (ca_identity c) (Blocked code) (sf_now F)))
           (\<lambda>_ s. (Inr (False, push_back q c w), s)))"

definition serve_ready ::
  "sweep_env \<Rightarrow> sweep_frame \<Rightarrow> nat \<Rightarrow> ExecutionSchedulerCandidate \<Rightarrow> sweep_state \<Rightarrow> (bool \<times> sweep_state) step" where
  "serve_ready V F q c w s =
    (case try_admission V F c w s of
       ((None, stop, w), s) \<Rightarrow> (Inr (stop, w), s)
     | ((Some e, _, w), s) \<Rightarrow> after_failure F q c e w s)"

definition serve_candidate ::
  "sweep_env \<Rightarrow> sweep_frame \<Rightarrow> nat \<Rightarrow> ExecutionSchedulerCandidate \<Rightarrow> sweep_state \<Rightarrow> (bool \<times> sweep_state) step" where
  "serve_candidate V F q c w =
    and_then (\<lambda>s. (readiness (ve_governed V) (ca_identity c) (sf_now F) s, s)) (\<lambda>ready.
    and_then (transact (projectReadiness (ca_identity c) ready (sf_now F))) (\<lambda>_.
    if ready \<noteq> Ready then (\<lambda>s. (Inr (False, push_back q c w), s)) else serve_ready V F q c w))"

fun serve_queue ::
  "sweep_env \<Rightarrow> sweep_frame \<Rightarrow> nat \<Rightarrow> nat \<Rightarrow> sweep_state \<Rightarrow> sweep_state step" where
  "serve_queue V F q 0 w = (\<lambda>s. (Inr w, s))"
| "serve_queue V F q (Suc k) w =
    (if budget_left V F w
     then (case sw_queues w ! q of
         [] \<Rightarrow> (\<lambda>s. (Inl (Error ''Cannot read properties of undefined''), s))
       | c # rest \<Rightarrow>
           and_then (serve_candidate V F q c
             (w\<lparr>sw_queues := (sw_queues w)[q := rest], sw_evaluated := sw_evaluated w + 1\<rparr>)) (\<lambda>(stop, w).
           if stop then (\<lambda>s. (Inr w, s)) else serve_queue V F q k w))
     else (\<lambda>s. (Inr w, s)))"

fun serve_queues ::
  "sweep_env \<Rightarrow> sweep_frame \<Rightarrow> nat list \<Rightarrow> sweep_state \<Rightarrow> sweep_state step" where
  "serve_queues V F [] w = (\<lambda>s. (Inr w, s))"
| "serve_queues V F (q # qs) w =
    and_then (serve_queue V F q (length (sw_queues w ! q)) w) (\<lambda>w. serve_queues V F qs w)"

definition sweep_round :: "sweep_env \<Rightarrow> sweep_frame \<Rightarrow> sweep_state \<Rightarrow> sweep_state step" where
  "sweep_round V F w =
    and_then (transact (reconcileNodes (ve_materializer V) (sf_now F))) (\<lambda>_ s.
      serve_queues V F (orderQueues s (sw_queues w)) (w\<lparr>sw_progressed := False\<rparr>) s)"

text \<open>How much a served candidate, queue and round have evaluated.\<close>

lemma and_then_Inr:
  "and_then m f s = (Inr y, t) \<longleftrightarrow> (\<exists>x s'. m s = (Inr x, s') \<and> f x s' = (Inr y, t))"
  by (auto simp: and_then_def split: prod.splits sum.splits)

lemma push_back_simps [simp]:
  "sw_evaluated (push_back q c w) = sw_evaluated w" "sw_admitted (push_back q c w) = sw_admitted w"
  "sw_progressed (push_back q c w) = sw_progressed w"
  by (simp_all add: push_back_def)

lemma try_admission_evaluated:
  "try_admission V F c w s = ((e, stop, w'), t) \<Longrightarrow> sw_evaluated w' = sw_evaluated w"
  by (auto simp: try_admission_def Let_def split: prod.splits sum.splits if_splits)

lemma serve_ready_evaluated:
  "serve_ready V F q c w s = (Inr (stop, w'), t) \<Longrightarrow> sw_evaluated w' = sw_evaluated w"
  by (cases "try_admission V F c w s" rule: prod.exhaust)
    (auto simp: serve_ready_def after_failure_def and_then_Inr split: prod.splits option.splits
      dest: try_admission_evaluated)

lemma serve_candidate_evaluated:
  "serve_candidate V F q c w s = (Inr (stop, w'), t) \<Longrightarrow> sw_evaluated w' = sw_evaluated w"
  by (auto simp: serve_candidate_def and_then_Inr split: if_splits dest: serve_ready_evaluated)

lemma serve_queue_evaluated:
  "serve_queue V F q k w s = (Inr w', t) \<Longrightarrow>
   sw_evaluated w \<le> sw_evaluated w' \<and> (w' = w \<or> sw_evaluated w < sw_evaluated w')"
proof (induction V F q k w arbitrary: s rule: serve_queue.induct)
  case (2 V F q k w)
  show ?case
  proof (cases "budget_left V F w \<and> sw_queues w ! q \<noteq> []")
    case True
    then obtain c rest where q: "sw_queues w ! q = c # rest" and b: "budget_left V F w"
      by (cases "sw_queues w ! q") auto
    let ?w = "w\<lparr>sw_queues := (sw_queues w)[q := rest], sw_evaluated := sw_evaluated w + 1\<rparr>"
    from 2(2) b q obtain stop w1 s1 where
      served: "serve_candidate V F q c ?w s = (Inr (stop, w1), s1)" and
      rest: "(if stop then (\<lambda>s. (Inr w1, s)) else serve_queue V F q k w1) s1 = (Inr w', t)"
      by (auto simp: and_then_Inr)
    from serve_candidate_evaluated[OF served] have w1: "sw_evaluated w1 = sw_evaluated w + 1" by simp
    show ?thesis
    proof (cases stop)
      case True
      with rest w1 show ?thesis by simp
    next
      case False
      with rest have "serve_queue V F q k w1 s1 = (Inr w', t)" by simp
      from 2(1)[OF b q False this] w1 show ?thesis by auto
    qed
  next
    case False
    with 2(2) show ?thesis by (auto split: list.splits if_splits)
  qed
qed simp

lemma serve_queues_evaluated:
  "serve_queues V F qs w s = (Inr w', t) \<Longrightarrow>
   sw_evaluated w \<le> sw_evaluated w' \<and> (w' = w \<or> sw_evaluated w < sw_evaluated w')"
proof (induction qs arbitrary: w s)
  case (Cons q qs)
  then obtain w1 s1 where "serve_queue V F q (length (sw_queues w ! q)) w s = (Inr w1, s1)"
    "serve_queues V F qs w1 s1 = (Inr w', t)"
    by (auto simp: and_then_Inr)
  with Cons.IH[OF this(2)] serve_queue_evaluated[OF this(1)] show ?case by auto
qed simp

lemma sweep_round_evaluated:
  "sweep_round V F w s = (Inr w', t) \<Longrightarrow> sw_progressed w' \<Longrightarrow> sw_evaluated w < sw_evaluated w'"
  by (auto simp: sweep_round_def and_then_Inr dest!: serve_queues_evaluated)

text \<open>A round that progressed has evaluated a candidate, so the loop ends.\<close>

function sweep_loop :: "sweep_env \<Rightarrow> sweep_frame \<Rightarrow> sweep_state \<Rightarrow> execution_store \<Rightarrow> sweep_state throwing \<times> execution_store" where
  "sweep_loop V F w s =
    (if budget_left V F w
     then (case sweep_round V F w s of
         (Inl e, s') \<Rightarrow> (Inl e, s')
       | (Inr w', s') \<Rightarrow>
           if \<not> sw_progressed w' \<or> list_all (\<lambda>q. q = []) (sw_queues w') then (Inr w', s')
           else sweep_loop V F w' s')
     else (Inr w, s))"
  by pat_completeness auto

lemma sweep_round_measure:
  "(Inr w', t) = sweep_round V F w s \<Longrightarrow> sw_progressed w' \<Longrightarrow> budget_left V F w \<Longrightarrow>
   ve_maxCandidateEvaluations V - sw_evaluated w' < ve_maxCandidateEvaluations V - sw_evaluated w"
  using sweep_round_evaluated[of V F w s w' t] by (auto simp: budget_left_def)

termination sweep_loop
  by (relation "measure (\<lambda>(V, _, w, _). ve_maxCandidateEvaluations V - sw_evaluated w)")
    (auto intro: sweep_round_measure)

declare sweep_loop.simps [simp del]

text \<open>The last Run of each id, at the place of the first: \<^verbatim>\<open>[...new Map(...).values()]\<close>.\<close>

definition distinct_runs :: "RunRecord list \<Rightarrow> RunRecord list" where
  "distinct_runs runs = map snd (fold (\<lambda>r m. AList.update (run_runId r) r m) runs [])"

definition sweep_frame_of ::
  "sweep_env \<Rightarrow> ExecutionSchedulerSweepOptions \<Rightarrow> timestamp \<Rightarrow> sweep_frame" where
  "sweep_frame_of V options now =
    \<lparr>sf_now = now,
     sf_mode = (case wo_mode options of None \<Rightarrow> Sched_automatic | Some m \<Rightarrow> m),
     sf_operationId = wo_operationId options,
     sf_maxAdmissions = (case wo_maxAdmissions options of None \<Rightarrow> ve_maxCandidateEvaluations V | Some n \<Rightarrow> n)\<rparr>"

text \<open>\<open>sweeping\<close> is the flag of a sweep that is under way; an empty plan id selects every plan.\<close>

definition sweep ::
  "sweep_env \<Rightarrow> bool \<Rightarrow> ExecutionSchedulerSweepOptions \<Rightarrow> timestamp \<Rightarrow> execution_store \<Rightarrow>
   RunRecord list throwing \<times> execution_store" where
  "sweep V sweeping options now s =
    (if sweeping then (Inr [], s)
     else let F = sweep_frame_of V options now in
       if (sf_mode F = Sched_automatic) \<noteq> (sf_operationId F = None)
       then (Inl (ExecutionError ''EXECUTION_SCHEDULER_AUTHORITY_INVALID''), s)
       else and_then (transact (\<lambda>s. Inr ((), ensureCurrent now s))) (\<lambda>_.
         and_then (\<lambda>s. (listCandidates (ge_lib (ve_governed V)) (ge_schema (ve_governed V))
             (Some (sf_mode F)) (truthy (wo_planId options)) s, s)) (\<lambda>candidates.
         and_then (sweep_loop V F \<lparr>sw_queues = planQueues candidates, sw_evaluated = 0,
             sw_admitted = [], sw_progressed = False\<rparr>) (\<lambda>w s.
         (Inr (distinct_runs (sw_admitted w)), s)))) s)"

end
