(* ===== verification/Execution_Sweep.thy ===== *)
theory Execution_Sweep
  imports Execution_Scheduler
begin

text \<open>
  What the operations of a sweep change, and the locale of its invariants: a property of the
  admitted Runs and the store that every primitive step keeps is kept by a whole sweep, whatever
  it returns and wherever it throws.
\<close>

section \<open>Projections\<close>

definition typed_projection :: "ExecutionRunProjection \<Rightarrow> bool" where
  "typed_projection p \<longleftrightarrow>
     (xj_runId p = None \<longleftrightarrow> xj_dispatchGeneration p = None) \<and>
     (xj_runId p = None \<longleftrightarrow> xj_lastRunState p = None)"

definition write_rows ::
  "ExecutionRunProjection \<Rightarrow> timestamp \<Rightarrow> ExecutionNodeState list \<Rightarrow> ExecutionNodeState list" where
  "write_rows p now rows = map (\<lambda>r. if xn_identity r = xj_identity p \<and> \<not> xn_projection r = p
     then \<lparr>xn_projection = p, xn_projectionRevision = xn_projectionRevision r + 1, xn_updatedAt = now\<rparr>
     else r) rows"

lemma writeProjection_Inr:
  "writeProjection p now s = Inr (x, t) \<longleftrightarrow>
     t = s\<lparr>xs_states := write_rows p now (xs_states s)\<rparr> \<and>
     conflict_free node_state_conflict (xs_states t) \<and> nodeState (xj_identity p) t = Some x"
  by (auto simp: writeProjection_def bind_eq_Inr update_rows_Inr write_rows_def Let_def split: option.splits)

lemma write_rows_identity: "map xn_projection (write_rows p now rows) =
    map (\<lambda>q. if xj_identity q = xj_identity p then p else q) (map xn_projection rows)"
  by (auto simp: write_rows_def)

lemma find_map_update:
  assumes "\<And>r. key (f r) = key r"
  shows "find (\<lambda>r. key r = k) (map f rows) = map_option f (find (\<lambda>r. key r = k) rows)"
  by (induction rows) (auto simp: assms)

lemma nodeState_write:
  "nodeState j (s\<lparr>xs_states := write_rows p now (xs_states s)\<rparr>) =
     map_option (\<lambda>r. if xn_identity r = xj_identity p \<and> \<not> xn_projection r = p
       then \<lparr>xn_projection = p, xn_projectionRevision = xn_projectionRevision r + 1, xn_updatedAt = now\<rparr>
       else r) (nodeState j s)"
  unfolding nodeState_def write_rows_def by (subst find_map_update[symmetric]) auto

lemma nodeState_identity: "nodeState j s = Some r \<Longrightarrow> xn_identity r = j"
  by (auto simp: nodeState_def find_Some_iff)

lemma projection_after_write:
  "map_option xn_projection (nodeState j (s\<lparr>xs_states := write_rows p now (xs_states s)\<rparr>)) =
     (if j = xj_identity p then map_option (\<lambda>_. p) (nodeState j s)
      else map_option xn_projection (nodeState j s))"
  by (cases "nodeState j s") (auto simp: nodeState_write dest: nodeState_identity)

lemma typed_readiness: "typed_projection
    \<lparr>xj_identity = i, xj_blockerCode = b, xj_dispatchGeneration = None, xj_lastRunState = None,
     xj_runId = None, xj_state = st\<rparr>"
  by (simp add: typed_projection_def)

lemma typed_run: "typed_projection (run_projection i proven g r)"
  by (simp add: typed_projection_def run_projection_def Let_def split: prod.splits)

section \<open>The three ways a node is settled\<close>

lemma reconcileNode_elim:
  assumes "reconcileNode M now i s = Inr (x, t)"
  obtains (blocked) st ad where
      "settlementSource i (s\<lparr>xs_adopted := ad\<rparr>) = Some (st, None)" "st \<in> {XP_paused, XP_review}"
      "writeProjection (not_schedulable_projection i) now (s\<lparr>xs_adopted := ad\<rparr>) = Inr (x, t)"
    | (unchanged) st ad where
      "settlementSource i (s\<lparr>xs_adopted := ad\<rparr>) = Some (st, None)" "st \<notin> {XP_paused, XP_review}"
      "nodeState i (s\<lparr>xs_adopted := ad\<rparr>) = Some x" "t = s\<lparr>xs_adopted := ad\<rparr>"
    | (run) st ad g r proven where
      "settlementSource i (s\<lparr>xs_adopted := ad\<rparr>) = Some (st, Some (g, r))"
      "writeProjection (run_projection i proven g r) now
        (if st = XP_approved then start_plan i now (s\<lparr>xs_adopted := ad\<rparr>) else s\<lparr>xs_adopted := ad\<rparr>) = Inr (x, t)"
proof -
  from assms obtain a v ad where M: "M i s = Inr ((a, v), ad)" by (auto simp: reconcileNode_def bind_eq_Inr)
  let ?u = "s\<lparr>xs_adopted := ad\<rparr>"
  show thesis
  proof (cases "settlementSource i ?u")
    case None
    with assms M show ?thesis by (simp add: reconcileNode_def Let_def)
  next
    case (Some src)
    obtain st run where src: "src = (st, run)" by fastforce
    show ?thesis
    proof (cases run)
      case r: None
      with assms M Some src obtain y where y: "nodeState i ?u = Some y"
        by (cases "nodeState i ?u") (simp_all add: reconcileNode_def Let_def)
      show ?thesis
      proof (cases "st \<in> {XP_paused, XP_review}")
        case True
        with assms M Some src r y show ?thesis
          by (intro blocked[of ad st]) (auto simp: reconcileNode_def Let_def projectRunSettlement_def)
      next
        case False
        with assms M Some src r y show ?thesis
          by (intro unchanged[of ad st]) (auto simp: reconcileNode_def Let_def)
      qed
    next
      case r: (Some gr)
      obtain g q where gr: "gr = (g, q)" by fastforce
      with assms M Some src r show ?thesis
        by (intro run[of ad st g q "a \<or> v"]) (simp_all add: reconcileNode_def Let_def projectRunSettlement_def)
    qed
  qed
qed

section \<open>Admission\<close>

text \<open>A store after a message was posted and ids were drawn.\<close>

definition posted :: "execution_store \<Rightarrow> team_room \<Rightarrow> nat \<Rightarrow> execution_store" where
  "posted s team n = s\<lparr>xs_drawn := n, xs_runs := (xs_runs s)\<lparr>rs_team := team\<rparr>\<rparr>"

lemma demand_Inr [throw_simps]: "demand c code rest = Inr y \<longleftrightarrow> c \<and> rest = Inr y"
  by (simp add: demand_def)

lemma insertRunIdentity_Inr:
  "insertRunIdentity run s = Inr t \<Longrightarrow>
   \<exists>n. t = s\<lparr>rs_runs := rs_runs s @ [run\<lparr>run_attemptNumber := Some n\<rparr>]\<rparr> \<and>
     conflict_free run_conflict (rs_runs t)"
  by (auto simp: insertRunIdentity_def bind_eq_Inr insert_row_Inr Let_def)

lemma advanceFairness_Inr:
  assumes "advanceFairness b input s = Inr (c, t)"
  shows "\<exists>history cursors. t = s\<lparr>xs_history := history, xs_cursors := cursors\<rparr>"
  using assms by (auto simp: advanceFairness_def bind_eq_Inr Let_def)

text \<open>What an admission writes: an intent and a queued Run with its id, at the end of their tables.\<close>

definition admission_of ::
  "execution_dispatch_intent_row \<Rightarrow> RunRecord \<Rightarrow> nat \<Rightarrow> execution_store \<Rightarrow> execution_store" where
  "admission_of intent run n s = s\<lparr>xs_intents := xs_intents s @ [intent],
     xs_runs := (xs_runs s)\<lparr>rs_runs := rs_runs (xs_runs s) @ [run]\<rparr>, xs_drawn := n\<rparr>"

lemma write_admission_Inr:
  assumes "write_admission E input scope src retry authority s = Inr (result, t)"
  shows "\<exists>intent run n fairness c.
    result = (True, [run]) \<and> run_state run = RS_queued \<and> run_runId run = xt_runId intent \<and>
    run_lastSequence run = 0 \<and> run_terminalAt run = None \<and>
    xt_identity intent = admitted_identity scope \<and> xt_agentId intent = nd_agentId (as_node scope) \<and>
    xt_source intent = src \<and> xt_dispatchGeneration intent = as_generation scope \<and>
    xt_schedulerOperationId intent = Option.bind authority au_operationId \<and>
    conflict_free intent_conflict (xs_intents s @ [intent]) \<and>
    conflict_free run_conflict (rs_runs (xs_runs s) @ [run]) \<and>
    advanceFairness True fairness (admission_of intent run n s) = Inr (c, t)"
proof -
  obtain runId s1 where draw1: "(case retry of Some r \<Rightarrow> (ry_newRunId r, s) | None \<Rightarrow> drawId E ''run'' s) = (runId, s1)"
    by fastforce
  let ?run = "admitted_run input scope src retry runId"
  obtain intentId s2 where draw2: "(case retry of Some r \<Rightarrow> (ry_newDispatchIntentId r, s1) | None \<Rightarrow> drawId E ''dispatch'' s1) = (intentId, s2)"
    by fastforce
  let ?intent = "admitted_intent input scope src retry authority intentId runId"
  obtain d where s2: "s2 = s\<lparr>xs_drawn := d\<rparr>"
  proof (cases retry)
    case None
    with draw1 draw2 have "s2 = s\<lparr>xs_drawn := xs_drawn s + 1 + 1\<rparr>" by (auto simp: drawId_def)
    then show thesis by (rule that)
  next
    case (Some r)
    with draw1 draw2 have "s2 = s\<lparr>xs_drawn := xs_drawn s\<rparr>" by auto
    then show thesis by (rule that)
  qed
  from assms obtain intents runs created c fairness where
    ins: "insert_row intent_conflict ?intent (xs_intents s2) = Inr intents" and
    run: "insertRunIdentity ?run (xs_runs s2) = Inr runs" and
    got: "getRun runId runs = Some created" and
    fair: "advanceFairness True fairness (s2\<lparr>xs_intents := intents, xs_runs := runs\<rparr>) = Inr (c, t)" and
    result: "result = (True, [created])"
    unfolding write_admission_def Let_def draw1 draw2 prod.case
    by (auto simp: bind_eq_Inr split: option.splits)
  from insertRunIdentity_Inr[OF run] obtain n where
    runs: "runs = (xs_runs s2)\<lparr>rs_runs := rs_runs (xs_runs s2) @ [?run\<lparr>run_attemptNumber := Some n\<rparr>]\<rparr>"
    and free: "conflict_free run_conflict (rs_runs runs)" by auto
  let ?row = "?run\<lparr>run_attemptNumber := Some n\<rparr>"
  have id: "run_runId ?row = runId" by (simp add: admitted_run_def Let_def)
  have "getRun runId runs = Some ?row"
    using runs.find_insert[of "rs_runs (xs_runs s2)" ?row runId] free runs id by (simp add: getRun_def)
  with got have created: "created = ?row" by simp
  have step: "s2\<lparr>xs_intents := intents, xs_runs := runs\<rparr> = admission_of ?intent ?row d s"
    using ins runs by (simp add: s2 insert_row_Inr admission_of_def)
  show ?thesis
    using result created fair step ins free runs s2 id
    by (intro exI[of _ ?intent] exI[of _ ?row] exI[of _ d] exI[of _ fairness] exI[of _ c])
      (auto simp: insert_row_Inr admitted_intent_def admitted_run_def Let_def)
qed

lemma admit_Inr:
  assumes "admit E input i src retry authority s = Inr ((created, rs), t)"
  shows "\<not> created \<and> t = s \<or>
    (\<exists>scope. created \<and> (retry = None \<longrightarrow> findIntentRun i s = None) \<and>
       admission_checks E input i src retry s = Inr scope \<and>
       write_admission E input scope src retry authority s = Inr ((True, rs), t))"
proof -
  consider (trigger) r rest where "findByTrigger (msg_messageId (gi_message input)) (xs_runs s) = r # rest"
    | (intent) r where "findByTrigger (msg_messageId (gi_message input)) (xs_runs s) = []"
        "(if retry = None then findIntentRun i s else None) = Some r"
    | (fresh) "findByTrigger (msg_messageId (gi_message input)) (xs_runs s) = []"
        "(if retry = None then findIntentRun i s else None) = None"
    by (cases "findByTrigger (msg_messageId (gi_message input)) (xs_runs s)";
        cases "if retry = None then findIntentRun i s else None") auto
  then show ?thesis
  proof cases
    case fresh
    with assms obtain scope where scope: "admission_checks E input i src retry s = Inr scope"
      and w: "write_admission E input scope src retry authority s = Inr ((created, rs), t)"
      unfolding admit_def by (auto simp: bind_eq_Inr split: if_splits)
    from write_admission_Inr[OF w] have created by auto
    with scope w fresh show ?thesis by auto
  qed (use assms in \<open>auto simp: admit_def\<close>)
qed

text \<open>The authority a sweep passes on: its own mode and operation, which the control of the plan has.\<close>

definition authorizes ::
  "sweep_frame \<Rightarrow> ExecutionNodeIdentity \<Rightarrow> ScheduledAdmissionAuthority \<Rightarrow> execution_store \<Rightarrow> bool" where
  "authorizes F i a s \<longleftrightarrow> au_mode a = sf_mode F \<and> au_operationId a = sf_operationId F \<and>
     (\<exists>c. requireControl (en_planId i) (au_mode a) (au_modeRevision a) s = Inr c)"

lemma admitScheduled_Inr:
  assumes "admitScheduled E i now a s = Inr ((created, rs), t)"
  shows "\<not> created \<and> (t = s \<or> (\<exists>team n. t = posted s team n)) \<or>
    (\<exists>team n input scope c. created \<and> findIntentRun i s = None \<and> readiness E i now s = Inr Ready \<and>
       requireControl (en_planId i) (au_mode a) (au_modeRevision a) s = Inr c \<and>
       admission_checks E input i Source_scheduler None (posted s team n) = Inr scope \<and>
       write_admission E input scope Source_scheduler None (Some a) (posted s team n) = Inr ((True, rs), t))"
proof (cases "findIntentRun i s")
  case (Some r)
  with assms show ?thesis by (simp add: admitScheduled_def)
next
  case None
  consider (error) e where "readiness E i now s = Inl e" | (blocked) b where "readiness E i now s = Inr (Blocked b)"
    | (ready) "readiness E i now s = Inr Ready"
    by (metis ExecutionReadiness.exhaust sum.exhaust)
  then have ready: "readiness E i now s = Inr Ready"
    by cases (use assms None in \<open>auto simp: admitScheduled_def bind_eq_Inr throw_simps\<close>)
  from assms None ready obtain found where found: "planOf (en_planId i) s = Inr found"
    unfolding admitScheduled_def by (auto simp: bind_eq_Inr throw_simps)
  from assms None ready found obtain input team n where
    admit: "admit E input i Source_scheduler None (Some a) (posted s team n) = Inr ((created, rs), t)"
    unfolding admitScheduled_def posted_def drawId_def Let_def
    by (auto simp: bind_eq_Inr throw_simps split: option.split_asm prod.split_asm)
  moreover from assms None obtain c where "requireControl (en_planId i) (au_mode a) (au_modeRevision a) s = Inr c"
    unfolding admitScheduled_def by (auto simp: bind_eq_Inr)
  ultimately show ?thesis using admit_Inr[OF admit] None ready by blast
qed

section \<open>Invariants of a sweep\<close>

definition outcome ::
  "('a \<Rightarrow> execution_store \<Rightarrow> bool) \<Rightarrow> (execution_store \<Rightarrow> bool) \<Rightarrow> 'a throwing \<times> execution_store \<Rightarrow> bool" where
  "outcome Q R r = (case r of (Inr x, t) \<Rightarrow> Q x t | (Inl e, t) \<Rightarrow> R t)"

lemma outcome_simps [simp]: "outcome Q R (Inr x, t) = Q x t" "outcome Q R (Inl e, t) = R t"
  by (simp_all add: outcome_def)

lemma outcome_and_then:
  "outcome Q R (m s) \<Longrightarrow> (\<And>x t. Q x t \<Longrightarrow> outcome Q' R (f x t)) \<Longrightarrow> outcome Q' R (and_then m f s)"
  by (cases "m s"; cases "fst (m s)") (auto simp: and_then_def)

lemma outcome_transact:
  "R s \<Longrightarrow> (\<And>x t. f s = Inr (x, t) \<Longrightarrow> Q x t) \<Longrightarrow> outcome Q R (transact f s)"
  by (auto simp: transact_def split: sum.splits prod.splits)

lemma outcome_look: "(\<And>x. r = Inr x \<Longrightarrow> Q x s) \<Longrightarrow> R s \<Longrightarrow> outcome Q R (r, s)"
  by (cases r) auto

locale sweep_invariant =
  fixes V :: sweep_env and F :: sweep_frame and Inv :: "RunRecord list \<Rightarrow> execution_store \<Rightarrow> bool"
  assumes project: "Inv rs s \<Longrightarrow> typed_projection p \<Longrightarrow> writeProjection p now s = Inr (x, t) \<Longrightarrow> Inv rs t"
    and ensured: "Inv rs s \<Longrightarrow> Inv rs (ensureCurrent now s)"
    and adopted: "Inv rs s \<Longrightarrow> Inv rs (s\<lparr>xs_adopted := a\<rparr>)"
    and started: "Inv rs s \<Longrightarrow> Inv rs (start_plan i now s)"
    and posts: "Inv rs s \<Longrightarrow> Inv rs (posted s team n)"
    and admits: "Inv rs s \<Longrightarrow> length rs < sf_maxAdmissions F \<Longrightarrow> findIntentRun i s = None \<Longrightarrow>
      authorizes F i authority s \<Longrightarrow>
      readiness (ve_governed V) i now s = Inr Ready \<Longrightarrow>
      admission_checks (ve_governed V) input i Source_scheduler None (posted s team n) = Inr scope \<Longrightarrow>
      write_admission (ve_governed V) input scope Source_scheduler None (Some authority) (posted s team n)
        = Inr ((True, rs'), t) \<Longrightarrow> Inv (rs @ rs') t"
begin

abbreviation failed :: "execution_store \<Rightarrow> bool" where
  "failed t \<equiv> \<exists>rs. Inv rs t"

lemma kept_then:
  "outcome (\<lambda>_. Inv rs) failed (m s) \<Longrightarrow> (\<And>x t. Inv rs t \<Longrightarrow> outcome Q failed (f x t)) \<Longrightarrow>
   outcome Q failed (and_then m f s)"
  by (rule outcome_and_then)

lemma kept_transact:
  "Inv rs s \<Longrightarrow> (\<And>x t. f s = Inr (x, t) \<Longrightarrow> Inv rs t) \<Longrightarrow> outcome (\<lambda>_. Inv rs) failed (transact f s)"
  by (rule outcome_transact) auto

lemma kept_look: "Inv rs s \<Longrightarrow> outcome (\<lambda>_. Inv rs) failed (r, s)"
  by (rule outcome_look) auto

lemma reconcileNode_keeps:
  assumes "Inv rs s" and "reconcileNode M now i s = Inr (x, t)"
  shows "Inv rs t"
proof -
  note kept = adopted[OF assms(1)]
  from assms(2) show ?thesis
  proof (cases rule: reconcileNode_elim)
    case blocked
    with kept show ?thesis unfolding not_schedulable_projection_def by (blast intro: project typed_readiness)
  next
    case (run st ad g r proven)
    have "Inv rs (if st = XP_approved then start_plan i now (s\<lparr>xs_adopted := ad\<rparr>) else s\<lparr>xs_adopted := ad\<rparr>)"
      using kept by (auto intro: started)
    then show ?thesis using run(2) by (rule project[OF _ typed_run])
  qed (simp add: kept)
qed

lemma reconcile_nodes_keeps: "Inv rs s \<Longrightarrow> reconcile_nodes M now is s = Inr (xs, t) \<Longrightarrow> Inv rs t"
  by (induction "is" arbitrary: s xs) (auto simp: bind_eq_Inr dest: reconcileNode_keeps)

lemma reconcileNodes_keeps: "Inv rs s \<Longrightarrow> reconcileNodes M now s = Inr (xs, t) \<Longrightarrow> Inv rs t"
  by (auto simp: reconcileNodes_def Let_def intro: reconcile_nodes_keeps ensured)

lemma reconcileOne_keeps: "Inv rs s \<Longrightarrow> reconcileOne M i now s = Inr (x, t) \<Longrightarrow> Inv rs t"
  by (auto simp: reconcileOne_def intro: reconcileNode_keeps ensured)

lemma projectReadiness_keeps: "Inv rs s \<Longrightarrow> projectReadiness i r now s = Inr (x, t) \<Longrightarrow> Inv rs t"
  unfolding projectReadiness_def by (rule project[OF _ typed_readiness])

lemma admitScheduled_keeps:
  assumes "Inv rs s" and "length rs < sf_maxAdmissions F"
    and "au_mode a = sf_mode F" and "au_operationId a = sf_operationId F"
    and "admitScheduled (ve_governed V) i now a s = Inr ((created, rs'), t)"
  shows "Inv (if created then rs @ rs' else rs) t"
  using admitScheduled_Inr[OF assms(5)]
proof (elim disjE exE conjE)
  fix team n input scope c
  assume *: "created" "findIntentRun i s = None" "readiness (ve_governed V) i now s = Inr Ready"
    "requireControl (en_planId i) (au_mode a) (au_modeRevision a) s = Inr c"
    "admission_checks (ve_governed V) input i Source_scheduler None (posted s team n) = Inr scope"
    "write_admission (ve_governed V) input scope Source_scheduler None (Some a) (posted s team n) = Inr ((True, rs'), t)"
  from assms(3,4) *(4) have "authorizes F i a s" by (auto simp: authorizes_def)
  from admits[OF assms(1,2) *(2) this *(3,5,6)] *(1) show ?thesis by simp
qed (use assms(1) in \<open>auto intro: posts\<close>)

lemma try_admission_keeps:
  assumes "Inv (sw_admitted w) s" and "length (sw_admitted w) < sf_maxAdmissions F"
    and "try_admission V F c w s = ((e, stop, w'), t)"
  shows "Inv (sw_admitted w') t"
proof (cases "admitScheduled (ve_governed V) (ca_identity c) (sf_now F) (scheduled_authority F c s) s")
  case (Inl e')
  with assms show ?thesis by (simp add: try_admission_def transact_def)
next
  case (Inr r)
  then obtain created runs s1 where
    r: "admitScheduled (ve_governed V) (ca_identity c) (sf_now F) (scheduled_authority F c s) s = Inr ((created, runs), s1)"
    by (cases r) auto
  note kept = admitScheduled_keeps[OF assms(1,2) _ _ r, unfolded scheduled_authority_def, simplified]
  show ?thesis
  proof (cases created)
    case False
    with assms(3) r kept show ?thesis by (simp add: try_admission_def transact_def)
  next
    case True
    with assms(3) r kept show ?thesis
      by (auto simp: try_admission_def transact_def Let_def split: sum.splits prod.splits
          intro: reconcileOne_keeps)
  qed
qed

lemma serve_ready_keeps:
  assumes "Inv (sw_admitted w) s" and "length (sw_admitted w) < sf_maxAdmissions F"
  shows "outcome (\<lambda>(stop, w). Inv (sw_admitted w)) failed (serve_ready V F q c w s)"
proof -
  obtain e stop w1 s1 where t: "try_admission V F c w s = ((e, stop, w1), s1)" by (metis prod.exhaust)
  note kept = try_admission_keeps[OF assms t]
  show ?thesis
  proof (cases "Option.bind e execution_code")
    case None
    with t kept show ?thesis by (cases e) (auto simp: serve_ready_def after_failure_def)
  next
    case (Some code)
    then obtain e' where e: "e = Some e'" "execution_code e' = Some code" by (cases e) auto
    have "outcome (\<lambda>(stop, w). Inv (sw_admitted w)) failed (after_failure F q c e' w1 s1)"
      unfolding after_failure_def e(2) option.case
      by (rule kept_then, rule kept_transact[OF kept]) (auto intro: projectReadiness_keeps[OF kept])
    with t e show ?thesis by (simp add: serve_ready_def)
  qed
qed

lemma serve_candidate_keeps:
  assumes "Inv (sw_admitted w) s" and "length (sw_admitted w) < sf_maxAdmissions F"
  shows "outcome (\<lambda>(stop, w). Inv (sw_admitted w)) failed (serve_candidate V F q c w s)"
  unfolding serve_candidate_def
proof (rule kept_then, rule kept_look[OF assms(1)])
  fix ready s1
  assume s1: "Inv (sw_admitted w) s1"
  show "outcome (\<lambda>(stop, w). Inv (sw_admitted w)) failed
      (and_then (transact (projectReadiness (ca_identity c) ready (sf_now F)))
        (\<lambda>_. if ready \<noteq> Ready then \<lambda>s. (Inr (False, push_back q c w), s) else serve_ready V F q c w) s1)"
    by (rule kept_then, rule kept_transact[OF s1])
      (auto intro: projectReadiness_keeps[OF s1] serve_ready_keeps[OF _ assms(2)])
qed

lemma serve_queue_keeps:
  "Inv (sw_admitted w) s \<Longrightarrow> outcome (\<lambda>w. Inv (sw_admitted w)) failed (serve_queue V F q k w s)"
proof (induction k arbitrary: w s)
  case (Suc k)
  show ?case
  proof (cases "budget_left V F w")
    case True
    then have len: "length (sw_admitted w) < sf_maxAdmissions F" by (auto simp: budget_left_def)
    show ?thesis
    proof (cases "sw_queues w ! q")
      case Nil
      with Suc.prems True show ?thesis by auto
    next
      case (Cons c rest)
      have "outcome (\<lambda>w. Inv (sw_admitted w)) failed
        (and_then (serve_candidate V F q c
            (w\<lparr>sw_queues := (sw_queues w)[q := rest], sw_evaluated := sw_evaluated w + 1\<rparr>))
          (\<lambda>(stop, w). if stop then (\<lambda>s. (Inr w, s)) else serve_queue V F q k w) s)"
        by (rule outcome_and_then, rule serve_candidate_keeps) (use Suc len in auto)
      with True Cons show ?thesis by simp
    qed
  qed (use Suc.prems in simp)
qed simp

lemma serve_queues_keeps:
  "Inv (sw_admitted w) s \<Longrightarrow>
   outcome (\<lambda>w. Inv (sw_admitted w)) failed (serve_queues V F qs w s)"
proof (induction qs arbitrary: w s)
  case (Cons q qs)
  then show ?case by (auto intro!: outcome_and_then serve_queue_keeps)
qed simp

lemma sweep_loop_keeps:
  "Inv (sw_admitted w) s \<Longrightarrow>
   outcome (\<lambda>w. Inv (sw_admitted w)) failed (sweep_loop V F w s)"
proof (induction "ve_maxCandidateEvaluations V - sw_evaluated w" arbitrary: w s rule: less_induct)
  case less
  have round: "outcome (\<lambda>w. Inv (sw_admitted w)) failed (sweep_round V F w s)"
    unfolding sweep_round_def
    by (rule kept_then, rule kept_transact[OF less.prems])
      (auto intro: reconcileNodes_keeps[OF less.prems] serve_queues_keeps)
  show ?case
  proof (cases "budget_left V F w")
    case True
    show ?thesis
    proof (cases "sweep_round V F w s")
      case (Pair r s1)
      show ?thesis
      proof (cases r)
        case (Inl e)
        with True Pair round show ?thesis by (simp add: sweep_loop.simps[of V F w s])
      next
        case (Inr w1)
        with Pair round have kept: "Inv (sw_admitted w1) s1" by simp
        show ?thesis
        proof (cases "\<not> sw_progressed w1 \<or> list_all (\<lambda>q. q = []) (sw_queues w1)")
          case True
          with \<open>budget_left V F w\<close> Pair Inr kept show ?thesis by (simp add: sweep_loop.simps[of V F w s])
        next
          case False
          with sweep_round_measure[of w1 s1 V F w s] Pair Inr \<open>budget_left V F w\<close>
          have "outcome (\<lambda>w. Inv (sw_admitted w)) failed (sweep_loop V F w1 s1)"
            by (intro less.hyps kept) auto
          with False \<open>budget_left V F w\<close> Pair Inr show ?thesis by (simp add: sweep_loop.simps[of V F w s])
        qed
      qed
    qed
  qed (use less.prems in \<open>simp add: sweep_loop.simps[of V F w s]\<close>)
qed

lemma sweep_keeps:
  assumes "Inv [] s" and "sweep_frame_of V options now = F"
  shows "outcome (\<lambda>runs t. \<exists>rs. runs = distinct_runs rs \<and> Inv rs t) failed (sweep V sweeping options now s)"
proof -
  let ?Q = "\<lambda>runs t. \<exists>rs. runs = distinct_runs rs \<and> Inv rs t"
  have loop: "outcome ?Q failed (and_then (sweep_loop V F w) (\<lambda>w s. (Inr (distinct_runs (sw_admitted w)), s)) t)"
    if "Inv (sw_admitted w) t" for w t
    by (rule outcome_and_then, rule sweep_loop_keeps[OF that]) auto
  have "outcome ?Q failed
    (and_then (transact (\<lambda>s. Inr ((), ensureCurrent now s))) (\<lambda>_.
         and_then (\<lambda>s. (listCandidates (ge_lib (ve_governed V)) (ge_schema (ve_governed V))
             (Some (sf_mode F)) (truthy (wo_planId options)) s, s)) (\<lambda>candidates.
         and_then (sweep_loop V F \<lparr>sw_queues = planQueues candidates, sw_evaluated = 0,
             sw_admitted = [], sw_progressed = False\<rparr>) (\<lambda>w s.
         (Inr (distinct_runs (sw_admitted w)), s)))) s)"
    by (rule kept_then, rule kept_transact[OF assms(1)], use ensured[OF assms(1)] in simp,
        rule kept_then, erule kept_look, rule loop, simp)
  with assms show ?thesis by (auto simp: sweep_def Let_def distinct_runs_def intro: exI[of _ "[]"])
qed

end

end
