(* ===== verification/Execution_Fairness.thy ===== *)
theory Execution_Fairness
  imports Execution_Sweep
begin

text \<open>
  Fairness of the scheduler: the order in which the queues of plans are served is round robin per
  Agent, and the cursor of an Agent is the last row of its numbered and linked history.
\<close>

section \<open>Round robin\<close>

definition last_served :: "ExecutionSchedulerFairnessCursor option \<Rightarrow> ExecutionSchedulerCandidate list \<Rightarrow> bool" where
  "last_served cursor q \<longleftrightarrow>
     (case cursor of
        None \<Rightarrow> False
      | Some c \<Rightarrow> en_planId (ca_identity (hd q)) = en_planId (fc_lastNode c) \<and>
          en_planRevision (ca_identity (hd q)) = en_planRevision (fc_lastNode c))"

text \<open>The reference: what follows the first element with the property, then the rest up to it.\<close>

definition round_robin :: "('a \<Rightarrow> bool) \<Rightarrow> 'a list \<Rightarrow> 'a list" where
  "round_robin P qs = (let k = nat (find_index P qs + 1) in drop k qs @ take k qs)"

definition queue_agent :: "ExecutionSchedulerCandidate list \<Rightarrow> jstring" where
  "queue_agent q = ca_agentId (hd q)"

definition nonempty_queues :: "ExecutionSchedulerCandidate list list \<Rightarrow> queue_ref list" where
  "nonempty_queues queues = filter (\<lambda>(_, q). q \<noteq> []) (List.enumerate 0 queues)"

definition own_queues :: "jstring \<Rightarrow> queue_ref list \<Rightarrow> queue_ref list" where
  "own_queues agentId refs = filter (\<lambda>(_, q). queue_agent q = agentId) refs"

lemma find_index_map: "find_index P (map f xs) = find_index (\<lambda>x. P (f x)) xs"
  by (induction xs) auto

lemma find_index_less: "0 \<le> find_index P xs \<Longrightarrow> nat (find_index P xs) < length xs"
  using find_index_bounds[of P xs] by auto

lemma find_index_append:
  "find_index P (xs @ ys) =
     (if 0 \<le> find_index P xs then find_index P xs
      else if 0 \<le> find_index P ys then int (length xs) + find_index P ys else -1)"
  using find_index_bounds[of P ys] by (induction xs) (auto simp: Let_def)

text \<open>Serving the element after the last one and ordering the rest is one step of the reference.\<close>

lemma round_robin_step:
  assumes "m \<noteq> []"
    and k_def: "k = nat ((find_index P m + 1) mod int (length m))"
  shows "round_robin P m = m ! k # round_robin P (take k m @ drop (k + 1) m)"
proof -
  let ?p = "find_index P m"
  have b: "-1 \<le> ?p" "?p < int (length m)" using find_index_bounds[of P m] by auto
  consider (none) "?p = -1" | (inner) "0 \<le> ?p" "?p + 1 < int (length m)" | (last) "?p + 1 = int (length m)" "0 \<le> ?p"
    using b by linarith
  then show ?thesis
  proof cases
    case none
    obtain x xs where m: "m = x # xs" using assms(1) by (cases m) auto
    from none m have "find_index P xs < 0" by (auto simp: Let_def split: if_splits)
    with find_index_bounds[of P xs] have "find_index P xs = -1" by auto
    with none m show ?thesis by (simp add: k_def round_robin_def)
  next
    case inner
    let ?n = "nat (?p + 1)"
    have k: "k = ?n" using inner by (simp add: k_def)
    have n: "?n < length m" using inner by linarith
    have split: "m = take ?n m @ m ! ?n # drop (Suc ?n) m" using n by (rule id_take_nth_drop)
    have "find_index P (take ?n m) = ?p"
    proof -
      have "find_index P m = (if 0 \<le> find_index P (take ?n m) then find_index P (take ?n m)
          else if 0 \<le> find_index P (drop ?n m) then int (length (take ?n m)) + find_index P (drop ?n m) else -1)"
        using find_index_append[of P "take ?n m" "drop ?n m"] by simp
      with inner n show ?thesis by (auto split: if_splits)
    qed
    then have "find_index P (take ?n m @ drop (Suc ?n) m) = ?p"
      using inner by (simp add: find_index_append)
    then have "round_robin P (take ?n m @ drop (Suc ?n) m) = drop (Suc ?n) m @ take ?n m"
      using n by (simp add: round_robin_def Let_def min_def)
    moreover have "round_robin P m = m ! ?n # drop (Suc ?n) m @ take ?n m"
      using n by (simp add: round_robin_def Let_def Cons_nth_drop_Suc flip: append_Cons)
    ultimately show ?thesis unfolding k by simp
  next
    case last
    obtain x xs where m: "m = x # xs" using assms(1) by (cases m) auto
    have k: "k = 0" using last by (simp add: k_def)
    have "round_robin P m = m" using last by (simp add: round_robin_def Let_def)
    moreover have "round_robin P xs = xs"
    proof (cases "xs = []")
      case False
      then have "find_index P xs + 1 = int (length xs)"
        using last m find_index_bounds[of P xs] by (auto simp: Let_def split: if_splits)
      then show ?thesis by (simp add: round_robin_def Let_def)
    qed (simp add: round_robin_def)
    ultimately show ?thesis using m k by simp
  qed
qed

lemma filter_enumerate_nth:
  "k < length (filter (\<lambda>(_, x). P x) (List.enumerate n xs)) \<Longrightarrow>
   filter (\<lambda>(_, x). P x) (List.enumerate n xs) ! k = (i, x) \<Longrightarrow>
   n \<le> i \<and> filter P (take (i - n) xs) = take k (filter P xs) \<and>
   filter P (drop (i - n + 1) xs) = drop (k + 1) (filter P xs)"
proof (induction xs arbitrary: n k)
  case (Cons y ys)
  show ?case
  proof (cases "P y \<and> k = 0")
    case True
    with Cons.prems show ?thesis by simp
  next
    case False
    define k' where "k' = (if P y then k - 1 else k)"
    from False Cons.prems have "k' < length (filter (\<lambda>(_, x). P x) (List.enumerate (Suc n) ys))"
      "filter (\<lambda>(_, x). P x) (List.enumerate (Suc n) ys) ! k' = (i, x)"
      by (auto simp: k'_def nth_Cons')
    from Cons.IH[OF this] have ih: "Suc n \<le> i" "filter P (take (i - Suc n) ys) = take k' (filter P ys)"
      "filter P (drop (i - Suc n + 1) ys) = drop (k' + 1) (filter P ys)" by auto
    then have "i - n = Suc (i - Suc n)" by simp
    with ih False show ?thesis by (auto simp: k'_def take_Cons' drop_Cons')
  qed
qed simp

lemma map_snd_filter_enumerate: "map snd (filter (\<lambda>(_, x). P x) (List.enumerate n xs)) = filter P xs"
  by (induction xs arbitrary: n) auto

text \<open>One selection, seen from the queues of its Agent.\<close>

lemma select_queue_own:
  assumes "select_queue s base rest = (i, r)"
  defines "own \<equiv> own_queues (queue_agent (snd base)) (base # rest)"
  defines "k \<equiv> nat ((find_index (\<lambda>(_, q). last_served (fairnessCursor (queue_agent (snd base)) s) q) own + 1)
    mod int (length own))"
  shows "own \<noteq> [] \<and> r = own ! k \<and> k < length own \<and>
    own_queues (queue_agent (snd base)) (take i (base # rest) @ drop (i + 1) (base # rest)) =
      take k own @ drop (k + 1) own"
proof -
  let ?a = "queue_agent (snd base)"
  let ?P = "\<lambda>(_, q). queue_agent q = ?a"
  let ?m = "filter (\<lambda>(_, x). ?P x) (List.enumerate 0 (base # rest))"
  have own: "own = map snd ?m" unfolding own_def own_queues_def map_snd_filter_enumerate by simp
  have ne: "own \<noteq> []" unfolding own_def own_queues_def by (cases base) simp
  have m_eq: "filter (\<lambda>(_, _, q). ca_agentId (hd q) = ca_agentId (hd (snd base))) (List.enumerate 0 (base # rest)) = ?m"
    by (rule filter_cong) (auto simp: queue_agent_def)
  have p: "previous_queue (fairnessCursor ?a s) ?m = find_index (\<lambda>(_, q). last_served (fairnessCursor ?a s) q) own"
    unfolding own find_index_map
    by (cases "fairnessCursor ?a s") (auto simp: previous_queue_def last_served_def split_def
        find_index_None intro!: antisym[OF _ conjunct1[OF find_index_bounds]])
  have len: "length own = length ?m" unfolding own by simp
  have "select_queue s base rest =
      ?m ! nat ((previous_queue (fairnessCursor ?a s) ?m + 1) mod int (length ?m))"
    unfolding select_queue_def Let_def m_eq by (simp only: queue_agent_def)
  then have sel: "select_queue s base rest = ?m ! k"
    unfolding k_def p len .
  have k: "k < length own"
  proof -
    have "0 < int (length own)" using ne by simp
    then have "0 \<le> (find_index (\<lambda>(_, q). last_served (fairnessCursor ?a s) q) own + 1) mod int (length own)"
      "(find_index (\<lambda>(_, q). last_served (fairnessCursor ?a s) q) own + 1) mod int (length own) < int (length own)"
      by (auto intro!: pos_mod_bound pos_mod_sign)
    then show ?thesis unfolding k_def by linarith
  qed
  with own have km: "k < length ?m" by simp
  have mk: "?m ! k = (i, r)" using assms(1) sel by simp
  have "snd (?m ! k) = own ! k" unfolding own using km by simp
  with mk have "r = own ! k" by simp
  moreover from filter_enumerate_nth[OF km mk]
  have "own_queues ?a (take i (base # rest) @ drop (i + 1) (base # rest)) = take k own @ drop (k + 1) own"
    unfolding own_queues_def own_def by simp
  ultimately show ?thesis using ne k by simp
qed


lemma own_queues_other:
  assumes "i < length refs" and "queue_agent (snd (refs ! i)) \<noteq> a"
  shows "own_queues a (take i refs @ drop (i + 1) refs) = own_queues a refs"
proof -
  have "own_queues a refs = own_queues a (take i refs @ refs ! i # drop (Suc i) refs)"
    using id_take_nth_drop[OF assms(1)] by simp
  with assms(2) show ?thesis by (cases "refs ! i") (simp add: own_queues_def)
qed

lemma own_queues_cong: "own_queues a refs = [] \<longleftrightarrow> (\<forall>r\<in>set refs. queue_agent (snd r) \<noteq> a)"
  by (auto simp: own_queues_def filter_empty_conv)

abbreviation rotation :: "execution_store \<Rightarrow> jstring \<Rightarrow> queue_ref list \<Rightarrow> queue_ref list" where
  "rotation s a \<equiv> round_robin (\<lambda>(_, q). last_served (fairnessCursor a s) q)"

lemma ball_removed: "\<forall>x\<in>set xs. P x \<Longrightarrow> \<forall>x\<in>set (take i xs @ drop (i + 1) xs). P x"
  by (auto dest: in_set_takeD in_set_dropD)

lemma order_remaining_rotates:
  assumes "\<forall>(k, q)\<in>set refs. queues ! k = q"
  shows "filter (\<lambda>k. queue_agent (queues ! k) = a) (order_remaining s refs) =
    map fst (rotation s a (own_queues a refs))"
  using assms
proof (induction s refs rule: order_remaining.induct)
  case (1 s)
  show ?case by (simp add: own_queues_def round_robin_def)
next
  case (2 s base rest)
  let ?refs = "base # rest"
  obtain i r where sel: "select_queue s base rest = (i, r)" by (cases "select_queue s base rest")
  from select_queue_in[where s = s and base = base and rest = rest] sel
  have i: "i < length ?refs" "?refs ! i = r" and same: "queue_agent (snd r) = queue_agent (snd base)"
    by (simp_all add: queue_agent_def)
  let ?next = "take i ?refs @ drop (i + 1) ?refs"
  note sub = ball_removed[OF 2(2), of i]
  from 2(1)[OF sel[symmetric] refl sub] have ih:
    "filter (\<lambda>k. queue_agent (queues ! k) = a) (order_remaining s ?next) = map fst (rotation s a (own_queues a ?next))" .
  have "r \<in> set ?refs" using i nth_mem by metis
  with 2(2) have r: "queues ! fst r = snd r" by (cases r) auto
  have step: "order_remaining s ?refs = fst r # order_remaining s ?next" using sel by simp
  show ?case
  proof (cases "queue_agent (snd base) = a")
    case True
    note facts = select_queue_own[OF sel, unfolded True]
    note own = conjunct1[OF facts] and k = conjunct1[OF conjunct2[OF facts]]
      and rest = conjunct2[OF conjunct2[OF conjunct2[OF facts]]]
    have "rotation s a (own_queues a ?refs) = r # rotation s a (own_queues a ?next)"
      unfolding rest by (subst k) (rule round_robin_step[OF own refl])
    with step ih r same True show ?thesis by (simp del: order_remaining.simps)
  next
    case False
    with own_queues_other[OF i(1), of a] i(2) same have "own_queues a ?next = own_queues a ?refs" by simp
    with step ih r same False show ?thesis by (simp del: order_remaining.simps)
  qed
qed

lemma mset_order_remaining: "mset (order_remaining s refs) = mset (map fst refs)"
proof (induction s refs rule: order_remaining.induct)
  case (2 s base rest)
  obtain i r where sel: "select_queue s base rest = (i, r)" by (cases "select_queue s base rest")
  from select_queue_in[where s = s and base = base and rest = rest] sel
  have i: "i < length (base # rest)" "(base # rest) ! i = r" by auto
  from id_take_nth_drop[OF i(1)] i(2)
  have "mset (map fst (base # rest)) = mset (map fst (take i (base # rest) @ r # drop (Suc i) (base # rest)))"
    by metis
  with 2[OF sel[symmetric] refl] sel show ?case by simp
qed simp

lemma enumerate_nth: "List.enumerate 0 qs = map (\<lambda>k. (k, qs ! k)) [0..<length qs]"
  by (rule nth_equalityI) (auto simp: nth_enumerate_eq)

lemma order_queues_refs:
  "map fst (nonempty_queues queues) = filter (\<lambda>k. queues ! k \<noteq> []) [0..<length queues]"
  "\<forall>(k, q)\<in>set (nonempty_queues queues). queues ! k = q"
  by (auto simp: nonempty_queues_def enumerate_nth filter_map o_def)

text \<open>
  (C8) Round robin. In a round of a sweep every plan with a waiting candidate is served exactly
  once. The plans whose next candidate needs the same Agent are served in cyclic order, beginning
  after the plan the Agent's fairness cursor names, so that the plan served last comes last.
\<close>

theorem plans_served_round_robin:
  "mset (orderQueues s queues) = mset (filter (\<lambda>k. queues ! k \<noteq> []) [0..<length queues]) \<and>
   filter (\<lambda>k. queue_agent (queues ! k) = a) (orderQueues s queues) =
     map fst (round_robin (\<lambda>(_, q). last_served (fairnessCursor a s) q) (own_queues a (nonempty_queues queues)))"
  unfolding orderQueues_def nonempty_queues_def[symmetric]
  using order_remaining_rotates[OF order_queues_refs(2)] mset_order_remaining order_queues_refs(1) by metis

section \<open>The history of the cursors\<close>

text \<open>The rows of an Agent are numbered from one, each names the node of the row before it.\<close>

definition agent_history :: "jstring \<Rightarrow> execution_store \<Rightarrow> fairness_history_row list" where
  "agent_history a s = filter (\<lambda>h. fh_agentId h = a) (xs_history s)"

fun linked :: "int \<Rightarrow> ExecutionNodeIdentity option \<Rightarrow> fairness_history_row list \<Rightarrow> bool" where
  "linked n previous [] = True"
| "linked n previous (h # hs) =
     (fh_cursorRevision h = n + 1 \<and> fh_previous h = previous \<and> linked (n + 1) (Some (fh_node h)) hs)"

definition last_of :: "fairness_history_row list \<Rightarrow> ExecutionSchedulerFairnessCursor option \<Rightarrow> bool" where
  "last_of hs cursor \<longleftrightarrow>
     (case cursor of
        None \<Rightarrow> hs = []
      | Some c \<Rightarrow> hs \<noteq> [] \<and> fc_cursorRevision c = int (length hs) \<and>
          fc_lastNode c = fh_node (last hs) \<and> fc_lastRunId c = fh_runId (last hs) \<and>
          fc_lastDispatchIntentId c = fh_dispatchIntentId (last hs))"

definition cursor_exact :: "jstring \<Rightarrow> execution_store \<Rightarrow> bool" where
  "cursor_exact a s \<longleftrightarrow> linked 0 None (agent_history a s) \<and> last_of (agent_history a s) (fairnessCursor a s)"

definition fairness_inv :: "execution_store \<Rightarrow> bool" where
  "fairness_inv s \<longleftrightarrow> conflict_free cursor_conflict (xs_cursors s) \<and> (\<forall>a. cursor_exact a s)"

lemma linked_append:
  "linked n p (hs @ [h]) \<longleftrightarrow> linked n p hs \<and> fh_cursorRevision h = n + int (length hs) + 1 \<and>
     fh_previous h = (if hs = [] then p else Some (fh_node (last hs)))"
  by (induction hs arbitrary: n p) auto

lemma advanceFairness_cursors:
  assumes adv: "advanceFairness b input s = Inr (c, t)" and free: "conflict_free cursor_conflict (xs_cursors s)"
  shows "conflict_free cursor_conflict (xs_cursors t) \<and>
    fairnessCursor x t = (if x = fa_agentId input
      then Some (advanced_cursor input (fairnessRevision (fa_agentId input) s + 1)) else fairnessCursor x s)"
proof (cases "fairnessCursor (fa_agentId input) s")
  case None
  let ?row = "advanced_cursor input (0 + 1)"
  from adv None have ins: "insert_row cursor_conflict ?row (xs_cursors s) = Inr (xs_cursors t)"
    by (auto simp: advanceFairness_def bind_eq_Inr Let_def)
  then have free': "conflict_free cursor_conflict (xs_cursors s @ [?row])" and t: "xs_cursors t = xs_cursors s @ [?row]"
    by (auto simp: insert_row_Inr)
  have id: "fc_agentId ?row = fa_agentId input" by (simp add: advanced_cursor_def)
  from cursors.find_insert[OF free', of x] None id free' t show ?thesis
    by (auto simp: fairnessCursor_def fairnessRevision_def)
next
  case (Some c0)
  let ?P = "\<lambda>c. fc_agentId c = fa_agentId input \<and> fc_cursorRevision c = fc_cursorRevision c0"
  let ?f = "\<lambda>_. advanced_cursor input (fc_cursorRevision c0 + 1)"
  from adv Some obtain n where upd: "update_rows cursor_conflict ?P ?f (xs_cursors s) = Inr (n, xs_cursors t)"
    by (auto simp: advanceFairness_def bind_eq_Inr Let_def)
  then have t: "xs_cursors t = map (\<lambda>c. if ?P c then ?f c else c) (xs_cursors s)"
    and free': "conflict_free cursor_conflict (xs_cursors t)" by (auto simp: update_rows_Inr)
  have "fairnessCursor x t = map_option (\<lambda>c. if ?P c then ?f c else c) (fairnessCursor x s)"
    unfolding fairnessCursor_def t by (rule cursors.find_update) (simp add: advanced_cursor_def)
  moreover have "fc_agentId c = x" if "fairnessCursor x s = Some c" for c
    using that by (auto simp: fairnessCursor_def find_Some_iff)
  ultimately show ?thesis using Some free'
    by (cases "fairnessCursor x s") (auto simp: fairnessRevision_def)
qed

lemma advanceFairness_history:
  assumes "advanceFairness b input s = Inr (c, t)"
  shows "\<exists>h. xs_history t = xs_history s @ [h] \<and> fh_agentId h = fa_agentId input \<and>
    fh_cursorRevision h = fairnessRevision (fa_agentId input) s + 1 \<and>
    fh_previous h = map_option fc_lastNode (fairnessCursor (fa_agentId input) s) \<and>
    fh_node h = fa_node input \<and> fh_runId h = fa_runId input \<and> fh_dispatchIntentId h = fa_dispatchIntentId input"
  using assms by (auto simp: advanceFairness_def bind_eq_Inr Let_def insert_row_Inr fairnessRevision_def)

lemma advance_keeps_fairness:
  assumes adv: "advanceFairness b input s = Inr (c, t)" and inv: "fairness_inv s"
  shows "fairness_inv t"
proof -
  from inv have free: "conflict_free cursor_conflict (xs_cursors s)" by (simp add: fairness_inv_def)
  note cur = advanceFairness_cursors[OF adv free]
  obtain h where h: "xs_history t = xs_history s @ [h]" "fh_agentId h = fa_agentId input"
    "fh_cursorRevision h = fairnessRevision (fa_agentId input) s + 1"
    "fh_previous h = map_option fc_lastNode (fairnessCursor (fa_agentId input) s)"
    "fh_node h = fa_node input" "fh_runId h = fa_runId input" "fh_dispatchIntentId h = fa_dispatchIntentId input"
    using advanceFairness_history[OF adv] by blast
  have "cursor_exact x t" for x
  proof (cases "x = fa_agentId input")
    case False
    with h cur[of x] have "agent_history x t = agent_history x s" "fairnessCursor x t = fairnessCursor x s"
      by (simp_all add: agent_history_def)
    then have "cursor_exact x t = cursor_exact x s" unfolding cursor_exact_def by simp
    with inv show ?thesis by (simp add: fairness_inv_def)
  next
    case True
    then have ex: "cursor_exact x s" using inv by (simp add: fairness_inv_def)
    have hist: "agent_history x t = agent_history x s @ [h]" using h True by (simp add: agent_history_def)
    show ?thesis
    proof (cases "fairnessCursor x s")
      case None
      with ex True h hist cur[of x] show ?thesis
        by (simp add: cursor_exact_def last_of_def fairnessRevision_def advanced_cursor_def)
    next
      case (Some c0)
      with ex True h hist cur[of x] show ?thesis
        by (simp add: cursor_exact_def last_of_def fairnessRevision_def advanced_cursor_def linked_append)
    qed
  qed
  with cur show ?thesis by (simp add: fairness_inv_def)
qed

lemma fairness_inv_cong:
  "xs_cursors t = xs_cursors s \<Longrightarrow> xs_history t = xs_history s \<Longrightarrow> fairness_inv t = fairness_inv s"
  unfolding fairness_inv_def cursor_exact_def agent_history_def fairnessCursor_def by simp

interpretation sweep_fairness: sweep_invariant V F "\<lambda>_. fairness_inv" for V F
proof
  fix rs s p now x t
  assume "fairness_inv s" "writeProjection p now s = Inr (x, t)"
  then show "fairness_inv t" by (subst fairness_inv_cong[of t s]) (auto simp: writeProjection_Inr)
next
  fix rs s i input team n scope authority rs' t
  assume inv: "fairness_inv s" and w: "write_admission (ve_governed V) input scope Source_scheduler None (Some authority)
    (posted s team n) = Inr ((True, rs'), t)"
  from write_admission_Inr[OF w] obtain intent run m fairness c where
    "advanceFairness True fairness (admission_of intent run m (posted s team n)) = Inr (c, t)" by blast
  moreover have "fairness_inv (admission_of intent run m (posted s team n))"
    using inv by (subst fairness_inv_cong[of _ s]) (auto simp: admission_of_def posted_def)
  ultimately show "fairness_inv t" by (rule advance_keeps_fairness)
qed (auto simp: ensureCurrent_def start_plan_def posted_def cong: fairness_inv_cong
    intro: fairness_inv_cong[THEN iffD2, OF _ _])

end
