(* ===== verification/Execution_Safety.thy ===== *)
theory Execution_Safety
  imports Execution_Sweep Plan_Properties
begin

text \<open>
  What a sweep of the scheduler may never do, whatever it returns and wherever it throws: give an
  Agent a second active Run, start more Runs of a plan than its policy allows, admit more Runs
  than it was asked to, or leave a node state the table's constraints refuse.
\<close>

section \<open>Readiness\<close>

lemma readiness_policy:
  "evaluateExecutionReadiness ob = Ready \<longleftrightarrow>
     ob_planCurrent ob \<and> \<not> ob_existingAttempt ob \<and> ob_nodeKind ob = Node_implementation \<and>
     ob_dependencyBlocker ob = None \<and> ob_taskPinsCurrent ob \<and> ob_taskRunnable ob \<and> ob_taskBudgetAvailable ob \<and>
     ob_planAttempts ob < ob_planMaxRunAttempts ob \<and>
     ob_planDurationSeconds ob + ob_nextRunReservationSeconds ob \<le> ob_planMaxDurationSeconds ob \<and>
     ob_activePlanRuns ob < ob_planMaxConcurrency ob \<and> ob_activeAgentRuns ob \<le> 0 \<and>
     ob_agentAvailable ob \<and> ob_capabilityAvailable ob \<and> ob_grantMatches ob = 1 \<and> ob_outputsSupported ob"
  by (simp add: evaluateExecutionReadiness_def not_le)

lemma readiness_Ready:
  assumes "readiness E i now s = Inr Ready"
  shows "\<exists>plan current node. planOf (en_planId i) s = Inr (Some (plan, current)) \<and>
    find (\<lambda>n. nd_nodeKey n = en_nodeKey i) (pl_nodes (xq_definition current)) = Some node \<and>
    count_active (agent_runs (nd_agentId node) s) \<le> 0 \<and>
    count_active (plan_runs i s) < pp_maxConcurrency (pl_policy (xq_definition current)) \<and>
    int (length (plan_runs i s)) < bu_maxRunAttempts (pp_budget (pl_policy (xq_definition current)))"
proof -
  from assms obtain found where found: "planOf (en_planId i) s = Inr found"
    unfolding readiness_def evaluateReadiness_def by (auto simp: bind_eq_Inr)
  show ?thesis
  proof (cases found)
    case None
    with assms found show ?thesis
      by (auto simp: readiness_def evaluateReadiness_def bind_eq_Inr Let_def readiness_policy plan_current_def)
  next
    case (Some p)
    obtain plan current where p: "p = (plan, current)" by fastforce
    show ?thesis
    proof (cases "find (\<lambda>n. nd_nodeKey n = en_nodeKey i) (pl_nodes (xq_definition current))")
      case None
      with assms found Some p show ?thesis
        by (auto simp: readiness_def evaluateReadiness_def bind_eq_Inr Let_def readiness_policy plan_current_def
            is_some_def split: option.splits)
    next
      case node: (Some n)
      with assms found Some p show ?thesis
        by (auto simp: readiness_def evaluateReadiness_def bind_eq_Inr Let_def readiness_policy)
    qed
  qed
qed

lemma find_key_distinct: "m \<in> set ms \<Longrightarrow> distinct (map f ms) \<Longrightarrow> find (\<lambda>x. f x = f m) ms = Some m"
  by (induction ms) (auto simp: image_iff)

lemma validated_node:
  assumes "validateExecutionPlanDefinition L schema d = Inr v"
    and "find (\<lambda>n. nd_nodeKey n = k) (pl_nodes (vd_definition v)) = Some n"
  shows "\<exists>m. find (\<lambda>n. nd_nodeKey n = k) (pl_nodes d) = Some m \<and> n = normalizeNode m"
proof -
  from assms(1) obtain st where c: "checkDefinition L schema d = Inr st" and v: "vd_definition v = normalizeDefinition d"
    by (auto elim!: validate_Inr)
  have dist: "distinct (map nd_nodeKey (pl_nodes d))" using checkDefinition_facts(1)[OF c] by (simp add: plan_keys_def)
  from assms(2) v obtain m where m: "m \<in> set (pl_nodes d)" "n = normalizeNode m" "nd_nodeKey n = k"
    by (auto simp: normalizeDefinition_def dest!: find_SomeD)
  then have "nd_nodeKey m = k" by simp
  with m(1) dist have "find (\<lambda>n. nd_nodeKey n = k) (pl_nodes d) = Some m"
    using find_key_distinct[of m "pl_nodes d" nd_nodeKey] by simp
  with m show ?thesis by blast
qed

text \<open>Results of the case distinctions a checked operation makes.\<close>

lemma case_Inr:
  "(case x of None \<Rightarrow> Inl e | Some y \<Rightarrow> f y) = Inr r \<longleftrightarrow> (\<exists>y. x = Some y \<and> f y = Inr r)"
  "(case p of (a, b) \<Rightarrow> g a b) = Inr r \<longleftrightarrow> (\<exists>a b. p = (a, b) \<and> g a b = Inr r)"
  "(case d of Resolved sel \<Rightarrow> h sel | Unresolved b \<Rightarrow> Inl (e' b)) = Inr r \<longleftrightarrow> (\<exists>sel. d = Resolved sel \<and> h sel = Inr r)"
  by (auto split: option.splits prod.splits ExecutionDependencyResolution.splits)

lemma admission_checks_Inr:
  assumes "admission_checks E input i src retry s = Inr scope"
  shows "\<exists>current node. planOf (en_planId i) s = Inr (Some (as_plan scope, current)) \<and>
    find (\<lambda>n. nd_nodeKey n = en_nodeKey i) (pl_nodes (xq_definition current)) = Some node \<and>
    nd_agentId (as_node scope) = nd_agentId node \<and> admitted_identity scope = i \<and>
    nextDispatchGeneration i s = Inr (as_generation scope) \<and> (src = Source_scheduler \<longrightarrow> as_generation scope = 1)"
proof -
  from assms obtain found where found: "planOf (en_planId i) s = Inr found"
    unfolding admission_checks_def Let_def by (auto simp: throw_simps)
  have id: "xp_planId plan = en_planId i" if "found = Some (plan, current)" for plan current
    using found that by (auto simp: planOf_def split: option.split_asm dest: find_SomeD)
  from assms found obtain plan current v where
    f: "found = Some (plan, current)" and rev: "xp_currentRevision plan = en_planRevision i" and
    v: "validateExecutionPlanDefinition (ge_lib E) (ge_schema E) (xq_definition current) = Inr v" and
    n: "find (\<lambda>n. nd_nodeKey n = en_nodeKey i) (pl_nodes (vd_definition v)) = Some (as_node scope)" and
    p: "as_plan scope = plan"
    unfolding admission_checks_def Let_def
    by (auto simp: throw_simps case_Inr)
  from validated_node[OF v n] obtain m where
    "find (\<lambda>n. nd_nodeKey n = en_nodeKey i) (pl_nodes (xq_definition current)) = Some m" "as_node scope = normalizeNode m"
    by blast
  moreover have "nd_nodeKey (as_node scope) = en_nodeKey i" using n by (auto dest: find_SomeD)
  then have same: "admitted_identity scope = i" using p rev id[OF f] by (simp add: admitted_identity_def)
  moreover obtain g where "nextDispatchGeneration (admitted_identity scope) s = Inr g"
    "as_generation scope = (case retry of None \<Rightarrow> g | Some r \<Rightarrow> ry_newGeneration r)"
    "case retry of None \<Rightarrow> True | Some r \<Rightarrow> retry_current r g" "src = Source_scheduler \<longrightarrow> as_generation scope = 1"
    using assms found f unfolding admission_checks_def Let_def admitted_identity_def
    by (auto simp: throw_simps case_Inr)
  ultimately show ?thesis using found f p
    by (auto simp: normalizeNode_def retry_current_def split: option.splits)
qed

section \<open>Capacity\<close>

definition agent_load :: "jstring \<Rightarrow> execution_store \<Rightarrow> int" where
  "agent_load a s = count_active (agent_runs a s)"

definition plan_load :: "ExecutionNodeIdentity \<Rightarrow> execution_store \<Rightarrow> int" where
  "plan_load i s = count_active (plan_runs i s)"

definition plan_attempts :: "ExecutionNodeIdentity \<Rightarrow> execution_store \<Rightarrow> int" where
  "plan_attempts i s = int (length (plan_runs i s))"

definition policyOf :: "ExecutionNodeIdentity \<Rightarrow> execution_store \<Rightarrow> PlanPolicy option" where
  "policyOf i s = (case planOf (en_planId i) s of
     Inr (Some (_, current)) \<Rightarrow> Some (pl_policy (xq_definition current)) | _ \<Rightarrow> None)"

text \<open>The greatest load and number of attempts the current policy of a plan allows.\<close>

definition plan_limit :: "ExecutionNodeIdentity \<Rightarrow> execution_store \<Rightarrow> int" where
  "plan_limit i s = (case policyOf i s of None \<Rightarrow> 0 | Some p \<Rightarrow> pp_maxConcurrency p)"

definition attempt_limit :: "ExecutionNodeIdentity \<Rightarrow> execution_store \<Rightarrow> int" where
  "attempt_limit i s = (case policyOf i s of None \<Rightarrow> 0 | Some p \<Rightarrow> bu_maxRunAttempts (pp_budget p))"

definition within_capacity :: "execution_store \<Rightarrow> execution_store \<Rightarrow> bool" where
  "within_capacity s t \<longleftrightarrow>
     (\<forall>a. agent_load a t \<le> max 1 (agent_load a s)) \<and>
     (\<forall>i. plan_load i t \<le> max (plan_limit i s) (plan_load i s)) \<and>
     (\<forall>i. plan_attempts i t \<le> max (attempt_limit i s) (plan_attempts i s)) \<and>
     (\<forall>i. policyOf i t = policyOf i s)"

text \<open>Two stores with the same intents and Runs, and the same policies.\<close>

definition same_load :: "execution_store \<Rightarrow> execution_store \<Rightarrow> bool" where
  "same_load s t \<longleftrightarrow> xs_intents t = xs_intents s \<and> rs_runs (xs_runs t) = rs_runs (xs_runs s) \<and>
     (\<forall>i. policyOf i t = policyOf i s)"

lemma intent_runs_cong:
  "xs_intents t = xs_intents s \<Longrightarrow> rs_runs (xs_runs t) = rs_runs (xs_runs s) \<Longrightarrow> intent_runs P t = intent_runs P s"
  by (simp add: intent_runs_def intent_run_def[abs_def] getRun_def)

lemma within_refl: "within_capacity s s"
  by (simp add: within_capacity_def)

lemma within_same: "within_capacity s0 s \<Longrightarrow> same_load s t \<Longrightarrow> within_capacity s0 t"
  using intent_runs_cong[of t s]
  by (simp add: same_load_def within_capacity_def agent_load_def plan_load_def plan_attempts_def agent_runs_def plan_runs_def)

lemma planOf_cong:
  "xs_plans t = xs_plans s \<Longrightarrow> xs_proposals t = xs_proposals s \<Longrightarrow> planOf k t = planOf k s"
  by (simp add: planOf_def cong: option.case_cong)

lemma policyOf_cong:
  "xs_plans t = xs_plans s \<Longrightarrow> xs_proposals t = xs_proposals s \<Longrightarrow> policyOf i t = policyOf i s"
  using planOf_cong[of t s] by (simp add: policyOf_def)

lemma start_plan_simps [simp]:
  "xs_intents (start_plan i now s) = xs_intents s" "xs_runs (start_plan i now s) = xs_runs s"
  "xs_states (start_plan i now s) = xs_states s" "xs_proposals (start_plan i now s) = xs_proposals s"
  by (simp_all add: start_plan_def)

lemma policyOf_start: "policyOf i (start_plan j now s) = policyOf i s"
proof -
  let ?f = "\<lambda>p. if belongs j p \<and> xp_state p = XP_approved then p\<lparr>xp_state := XP_running, xp_updatedAt := now\<rparr> else p"
  have "find (\<lambda>p. xp_planId p = en_planId i) (xs_plans (start_plan j now s)) =
      map_option ?f (find (\<lambda>p. xp_planId p = en_planId i) (xs_plans s))"
    unfolding start_plan_def by (simp add: find_map_update)
  then show ?thesis
    by (cases "find (\<lambda>p. xp_planId p = en_planId i) (xs_plans s)")
      (auto simp: policyOf_def planOf_def split: option.splits)
qed

lemma same_load_simps:
  "same_load s (s\<lparr>xs_states := rows\<rparr>)" "same_load s (s\<lparr>xs_adopted := a\<rparr>)"
  "same_load s (start_plan i now s)" "same_load s (posted s team n)" "same_load s (ensureCurrent now s)"
  by (auto simp: same_load_def policyOf_start posted_def ensureCurrent_def intro: policyOf_cong)

lemma intent_runs_admission:
  assumes intents: "conflict_free intent_conflict (xs_intents s @ [intent])"
    and runs: "conflict_free run_conflict (rs_runs (xs_runs s) @ [run])"
    and id: "run_runId run = xt_runId intent"
    and t: "xs_intents t = xs_intents s @ [intent]" "rs_runs (xs_runs t) = rs_runs (xs_runs s) @ [run]"
  shows "intent_runs P t = intent_runs P s @ (if P intent then [run] else [])"
proof -
  have get: "getRun k (xs_runs t) = (if run_runId run = k then Some run else getRun k (xs_runs s))" for k
    unfolding getRun_def t(2) by (rule runs.find_insert[OF runs])
  have "xt_runId intent \<noteq> xt_runId x" if "x \<in> set (xs_intents s)" for x
    using intents that by (auto simp: conflict_free_append intent_conflict_def)
  then have "List.map_filter (intent_run t) (filter P (xs_intents s)) =
      List.map_filter (intent_run s) (filter P (xs_intents s))"
    by (auto simp: List.map_filter_def intent_run_def get id intro!: map_cong filter_cong)
  moreover have "intent_run t intent = Some run" by (simp add: intent_run_def get id)
  ultimately show ?thesis by (simp add: intent_runs_def t(1) List.map_filter_def)
qed

lemma count_active_append: "count_active (xs @ ys) = count_active xs + count_active ys"
  by (simp add: count_active_def)

lemma count_active_Nil [simp]: "count_active [] = 0"
  by (simp add: count_active_def)

lemma admission_within:
  assumes ready: "readiness E i now s = Inr Ready"
    and scope: "admission_checks E input i Source_scheduler None (posted s team n) = Inr scope"
    and w: "write_admission E input scope Source_scheduler None (Some authority) (posted s team n) = Inr (result, t)"
  shows "within_capacity s t"
proof -
  obtain intent run m fairness c where
    run: "run_state run = RS_queued" "run_runId run = xt_runId intent" and
    intent: "xt_identity intent = admitted_identity scope" "xt_agentId intent = nd_agentId (as_node scope)" and
    free: "conflict_free intent_conflict (xs_intents s @ [intent])" "conflict_free run_conflict (rs_runs (xs_runs s) @ [run])" and
    adv: "advanceFairness True fairness (admission_of intent run m (posted s team n)) = Inr (c, t)"
    using write_admission_Inr[OF w] by (auto simp: posted_def)
  from advanceFairness_Inr[OF adv] have t: "xs_intents t = xs_intents s @ [intent]"
    "rs_runs (xs_runs t) = rs_runs (xs_runs s) @ [run]" "xs_plans t = xs_plans s" "xs_proposals t = xs_proposals s"
    by (auto simp: admission_of_def posted_def)
  note added = intent_runs_admission[OF free run(2) t(1,2)]
  from admission_checks_Inr[OF scope] obtain current node where
    plan: "planOf (en_planId i) (posted s team n) = Inr (Some (as_plan scope, current))" and
    node: "find (\<lambda>n. nd_nodeKey n = en_nodeKey i) (pl_nodes (xq_definition current)) = Some node" and
    same: "nd_agentId (as_node scope) = nd_agentId node" "admitted_identity scope = i" by blast
  from plan have planOf: "planOf (en_planId i) s = Inr (Some (as_plan scope, current))"
    using planOf_cong[of "posted s team n" s] by (simp add: posted_def)
  with readiness_Ready[OF ready] node have free_agent: "agent_load (nd_agentId node) s \<le> 0"
    and room_left: "plan_load i s < pp_maxConcurrency (pl_policy (xq_definition current))"
    and attempts: "plan_attempts i s < bu_maxRunAttempts (pp_budget (pl_policy (xq_definition current)))"
    by (auto simp: agent_load_def plan_load_def plan_attempts_def)
  have policy: "policyOf i s = Some (pl_policy (xq_definition current))" using planOf by (simp add: policyOf_def)
  have one: "count_active [run] = 1" using run by (simp add: count_active_def active_run_def)
  have "agent_load a t \<le> max 1 (agent_load a s)" for a
    using free_agent one intent(2) same(1) by (auto simp: agent_load_def agent_runs_def added count_active_append)
  moreover have "plan_load j t \<le> max (plan_limit j s) (plan_load j s)
      \<and> plan_attempts j t \<le> max (attempt_limit j s) (plan_attempts j s)" for j
  proof (cases "en_planId j = en_planId i \<and> en_planRevision j = en_planRevision i")
    case True
    then have "plan_runs j s = plan_runs i s" "policyOf j s = policyOf i s"
      by (simp_all add: plan_runs_def policyOf_def)
    with True room_left attempts policy one intent(1) same(2) show ?thesis
      by (simp add: plan_load_def plan_attempts_def plan_limit_def attempt_limit_def plan_runs_def added count_active_append)
  next
    case False
    with intent(1) same(2) show ?thesis
      by (auto simp: plan_load_def plan_attempts_def plan_runs_def added)
  qed
  moreover have "policyOf j t = policyOf j s" for j using t(3,4) by (rule policyOf_cong)
  ultimately show ?thesis by (simp add: within_capacity_def)
qed

lemma within_trans:
  assumes "within_capacity s0 s" and "within_capacity s t"
  shows "within_capacity s0 t"
proof -
  have pol: "policyOf i s = policyOf i s0" "policyOf i t = policyOf i s" for i
    using assms by (simp_all add: within_capacity_def)
  have "agent_load a t \<le> max 1 (agent_load a s0)" for a
    using assms[unfolded within_capacity_def] by (meson max.bounded_iff max.cobounded1 order_trans max.mono le_max_iff_disj)
  moreover have "plan_load i t \<le> max (plan_limit i s0) (plan_load i s0)"
    "plan_attempts i t \<le> max (attempt_limit i s0) (plan_attempts i s0)" for i
  proof -
    from assms have "plan_load i t \<le> max (plan_limit i s) (plan_load i s)"
      "plan_load i s \<le> max (plan_limit i s0) (plan_load i s0)"
      "plan_attempts i t \<le> max (attempt_limit i s) (plan_attempts i s)"
      "plan_attempts i s \<le> max (attempt_limit i s0) (plan_attempts i s0)"
      by (auto simp: within_capacity_def)
    with pol(1)[of i] show "plan_load i t \<le> max (plan_limit i s0) (plan_load i s0)"
      "plan_attempts i t \<le> max (attempt_limit i s0) (plan_attempts i s0)"
      by (auto simp: plan_limit_def attempt_limit_def)
  qed
  ultimately show ?thesis using pol by (simp add: within_capacity_def)
qed

interpretation sweep_capacity: sweep_invariant V F "\<lambda>_. within_capacity s0" for V F s0
  by unfold_locales
    (auto simp: writeProjection_Inr intro: within_same[OF _ same_load_simps(1)] within_same[OF _ same_load_simps(2)]
      within_same[OF _ same_load_simps(3)] within_same[OF _ same_load_simps(4)] within_same[OF _ same_load_simps(5)]
      within_trans admission_within)

section \<open>Bounds\<close>

text \<open>The intents a sweep has added are those of the Runs it has admitted, at most \<open>limit\<close>.\<close>

definition admitted_intents :: "nat \<Rightarrow> execution_store \<Rightarrow> RunRecord list \<Rightarrow> execution_store \<Rightarrow> bool" where
  "admitted_intents limit s0 rs s \<longleftrightarrow>
     (\<exists>added. xs_intents s = xs_intents s0 @ added \<and> length added \<le> limit \<and>
        map run_runId rs = map xt_runId added \<and> distinct (map xt_runId added))"

lemma admitted_same:
  "admitted_intents limit s0 rs s \<Longrightarrow> xs_intents t = xs_intents s \<Longrightarrow> admitted_intents limit s0 rs t"
  by (simp add: admitted_intents_def)

lemma admission_admitted:
  assumes inv: "admitted_intents limit s0 rs s" and len: "length rs < limit"
    and w: "write_admission E input scope src retry authority (posted s team n) = Inr ((True, rs'), t)"
  shows "admitted_intents limit s0 (rs @ rs') t"
proof -
  obtain intent run m fairness c where
    run: "rs' = [run]" "run_runId run = xt_runId intent" and
    free: "conflict_free intent_conflict (xs_intents s @ [intent])" and
    adv: "advanceFairness True fairness (admission_of intent run m (posted s team n)) = Inr (c, t)"
    using write_admission_Inr[OF w] by (auto simp: posted_def)
  from advanceFairness_Inr[OF adv] have t: "xs_intents t = xs_intents s @ [intent]"
    by (auto simp: admission_of_def posted_def)
  from inv obtain added where added: "xs_intents s = xs_intents s0 @ added" "length added \<le> limit"
    "map run_runId rs = map xt_runId added" "distinct (map xt_runId added)"
    by (auto simp: admitted_intents_def)
  have "length added = length rs" using added(3) by (metis length_map)
  moreover have "xt_runId intent \<notin> set (map xt_runId added)"
    using free added(1) by (auto simp: conflict_free_append intent_conflict_def)
  ultimately show ?thesis using added t run len
    by (auto simp: admitted_intents_def intro!: exI[of _ "added @ [intent]"])
qed

interpretation sweep_admitted: sweep_invariant V F "admitted_intents (sf_maxAdmissions F) s0" for V F s0
  by unfold_locales
    (auto simp: writeProjection_Inr posted_def ensureCurrent_def elim!: admitted_same intro: admission_admitted[unfolded posted_def])

text \<open>The Runs of distinct ids are returned as they were admitted.\<close>

lemma update_new: "k \<notin> fst ` set m \<Longrightarrow> AList.update k v m = m @ [(k, v)]"
  by (induction m) auto

lemma distinct_runs_id: "distinct (map run_runId rs) \<Longrightarrow> distinct_runs rs = rs"
proof -
  have "distinct (map run_runId (ps @ rs)) \<Longrightarrow>
      fold (\<lambda>r m. AList.update (run_runId r) r m) rs (map (\<lambda>r. (run_runId r, r)) ps) =
      map (\<lambda>r. (run_runId r, r)) (ps @ rs)" for ps
  proof (induction rs arbitrary: ps)
    case (Cons r rs)
    then have "run_runId r \<notin> fst ` set (map (\<lambda>r. (run_runId r, r)) ps)" by auto
    with Cons.IH[of "ps @ [r]"] Cons.prems show ?case by (simp add: update_new)
  qed simp
  from this[of "[]"] show "distinct (map run_runId rs) \<Longrightarrow> distinct_runs rs = rs"
    by (simp add: distinct_runs_def comp_def)
qed

section \<open>Typed node states\<close>

text \<open>
  The \<^verbatim>\<open>CHECK\<close> constraints of \<^verbatim>\<open>execution_node_states\<close>: a Run, its dispatch generation and its last
  state come together, and revisions are positive; its primary key is the node.
\<close>

definition typed_rows :: "ExecutionNodeState list \<Rightarrow> bool" where
  "typed_rows rows \<longleftrightarrow> list_all (\<lambda>r. typed_projection (xn_projection r) \<and> 0 < xn_projectionRevision r) rows \<and>
     conflict_free node_state_conflict rows"

definition typed_states :: "execution_store \<Rightarrow> bool" where
  "typed_states s \<longleftrightarrow> typed_rows (xs_states s)"

lemma insert_typed: "typed_rows rows \<Longrightarrow> typed_rows (insert_or_ignore (recovery_pending now i) rows)"
  by (auto simp: typed_rows_def insert_or_ignore_def conflict_free_append list_ex_iff recovery_pending_def typed_readiness)

lemma ensure_typed: "typed_states s \<Longrightarrow> typed_states (ensureCurrent now s)"
proof -
  have "typed_rows rows \<Longrightarrow> typed_rows (fold (\<lambda>i. insert_or_ignore (recovery_pending now i)) is rows)" for "is" rows
    by (induction "is" arbitrary: rows) (simp_all add: insert_typed)
  then show "typed_states s \<Longrightarrow> typed_states (ensureCurrent now s)"
    by (simp add: typed_states_def ensureCurrent_def)
qed

lemma write_typed:
  assumes "typed_states s" and "typed_projection p" and "writeProjection p now s = Inr (x, t)"
  shows "typed_states t"
  using assms by (auto simp: typed_states_def typed_rows_def writeProjection_Inr write_rows_def list_all_iff)

interpretation sweep_typed: sweep_invariant V F "\<lambda>_. typed_states" for V F
proof unfold_locales
  fix rs s i input team n scope authority rs' t
  assume "typed_states s" and w: "write_admission (ve_governed V) input scope Source_scheduler None (Some authority)
    (posted s team n) = Inr ((True, rs'), t)"
  moreover obtain intent run m fairness c where
    adv: "advanceFairness True fairness (admission_of intent run m (posted s team n)) = Inr (c, t)"
    using write_admission_Inr[OF w] by blast
  ultimately show "typed_states t"
    using advanceFairness_Inr[OF adv] by (auto simp: typed_states_def admission_of_def posted_def)
qed (auto intro: ensure_typed write_typed, auto simp: typed_states_def posted_def start_plan_def)

section \<open>Modes\<close>

text \<open>A first attempt of the scheduler, under the operation of a sweep, in a plan of its mode.\<close>

definition dispatched_in_mode :: "sweep_frame \<Rightarrow> execution_store \<Rightarrow> execution_dispatch_intent_row \<Rightarrow> bool" where
  "dispatched_in_mode F s x \<longleftrightarrow> xt_source x = Source_scheduler \<and> xt_dispatchGeneration x = 1 \<and>
     xt_schedulerOperationId x = sf_operationId F \<and>
     map_option xc_mode (schedulerControl (en_planId (xt_identity x)) s) = Some (sf_mode F)"

definition kept_mode :: "sweep_frame \<Rightarrow> execution_store \<Rightarrow> execution_store \<Rightarrow> bool" where
  "kept_mode F s0 s \<longleftrightarrow> xs_controls s = xs_controls s0 \<and>
     (\<exists>added. xs_intents s = xs_intents s0 @ added \<and> list_all (dispatched_in_mode F s0) added)"

lemma kept_mode_same:
  "kept_mode F s0 s \<Longrightarrow> xs_intents t = xs_intents s \<Longrightarrow> xs_controls t = xs_controls s \<Longrightarrow> kept_mode F s0 t"
  by (simp add: kept_mode_def)

lemma admission_in_mode:
  assumes inv: "kept_mode F s0 s" and auth: "authorizes F i authority s"
    and scope: "admission_checks E input i Source_scheduler None (posted s team n) = Inr scope"
    and w: "write_admission E input scope Source_scheduler None (Some authority) (posted s team n) = Inr (result, t)"
  shows "kept_mode F s0 t"
proof -
  obtain intent run m fairness c where
    intent: "xt_identity intent = admitted_identity scope" "xt_source intent = Source_scheduler"
      "xt_dispatchGeneration intent = as_generation scope" "xt_schedulerOperationId intent = au_operationId authority" and
    adv: "advanceFairness True fairness (admission_of intent run m (posted s team n)) = Inr (c, t)"
    using write_admission_Inr[OF w] by auto
  from advanceFairness_Inr[OF adv] have t: "xs_intents t = xs_intents s @ [intent]" "xs_controls t = xs_controls s"
    by (auto simp: admission_of_def posted_def)
  have "admitted_identity scope = i" "as_generation scope = 1" using admission_checks_Inr[OF scope] by auto
  moreover have "map_option xc_mode (schedulerControl (en_planId i) s0) = Some (sf_mode F)"
    using auth inv by (auto simp: authorizes_def requireControl_def kept_mode_def schedulerControl_def throw_simps
        split: option.splits)
  ultimately have "dispatched_in_mode F s0 intent"
    using intent auth by (simp add: dispatched_in_mode_def authorizes_def)
  with inv t show ?thesis by (auto simp: kept_mode_def)
qed

interpretation sweep_mode: sweep_invariant V F "\<lambda>_. kept_mode F s0" for V F s0
proof unfold_locales
  fix rs s i authority now input team n scope rs' t
  assume "kept_mode F s0 s" "authorizes F i authority s"
    "admission_checks (ve_governed V) input i Source_scheduler None (posted s team n) = Inr scope"
    "write_admission (ve_governed V) input scope Source_scheduler None (Some authority) (posted s team n)
      = Inr ((True, rs'), t)"
  then show "kept_mode F s0 t" by (rule admission_in_mode)
qed (auto simp: writeProjection_Inr ensureCurrent_def start_plan_def posted_def elim!: kept_mode_same)

section \<open>Properties\<close>

text \<open>
  (C4) Capacity. Whatever a sweep does and wherever it stops, an Agent that had no active governed
  Run has at most one after it, and no Agent gets a further one; no plan gets more active Runs, or
  more attempts, than the policy of its current revision allows (a plan already beyond it gets none).
\<close>

theorem sweep_respects_capacity:
  "agent_load a (snd (sweep V sweeping options now s)) \<le> max 1 (agent_load a s) \<and>
   plan_load i (snd (sweep V sweeping options now s)) \<le> max (plan_limit i s) (plan_load i s) \<and>
   plan_attempts i (snd (sweep V sweeping options now s)) \<le> max (attempt_limit i s) (plan_attempts i s)"
proof -
  have "within_capacity s (snd (sweep V sweeping options now s))"
    using sweep_capacity.sweep_keeps[where V = V and s = s and ?s0.0 = s and options = options and now = now
        and sweeping = sweeping, OF within_refl refl]
    by (cases "sweep V sweeping options now s"; cases "fst (sweep V sweeping options now s)") auto
  then show ?thesis by (simp add: within_capacity_def)
qed

text \<open>
  (C24) Modes. Every intent a sweep writes is a first attempt, carries the operation of the sweep, and
  belongs to a plan whose control is in the mode of the sweep: an automatic sweep leaves plans in
  manual or supervised mode alone, and a supervised one all others. No sweep changes a control.
\<close>

theorem sweep_keeps_mode:
  "xs_controls (snd (sweep V sweeping options now s)) = xs_controls s \<and>
   (\<exists>added. xs_intents (snd (sweep V sweeping options now s)) = xs_intents s @ added \<and>
      list_all (dispatched_in_mode (sweep_frame_of V options now) s) added)"
proof -
  have start: "kept_mode (sweep_frame_of V options now) s s" by (simp add: kept_mode_def)
  have "kept_mode (sweep_frame_of V options now) s (snd (sweep V sweeping options now s))"
    using sweep_mode.sweep_keeps[where V = V and s = s and ?s0.0 = s and options = options and now = now
        and sweeping = sweeping, OF start refl]
    by (cases "sweep V sweeping options now s"; cases "fst (sweep V sweeping options now s)") auto
  then show ?thesis by (simp add: kept_mode_def)
qed

text \<open>
  (C40) Bounds of a sweep. Every intent a sweep writes comes after those it found, there are at most
  as many as the admissions it was allowed (by default the number of evaluations), and when it
  returns, it returns exactly the Runs of these intents, in this order and without repetition.
\<close>

theorem sweep_bounded:
  "\<exists>added. xs_intents (snd (sweep V sweeping options now s)) = xs_intents s @ added \<and>
     length added \<le> sf_maxAdmissions (sweep_frame_of V options now) \<and>
     (case fst (sweep V sweeping options now s) of
        Inl e \<Rightarrow> True | Inr runs \<Rightarrow> map run_runId runs = map xt_runId added)"
proof -
  let ?r = "sweep V sweeping options now s" and ?limit = "sf_maxAdmissions (sweep_frame_of V options now)"
  have start: "admitted_intents ?limit s [] s" by (simp add: admitted_intents_def)
  note kept = sweep_admitted.sweep_keeps[where V = V and s = s and ?s0.0 = s and options = options and now = now
    and sweeping = sweeping, OF start refl]
  show ?thesis
  proof (cases "fst ?r")
    case (Inl e)
    with kept obtain rs where "admitted_intents ?limit s rs (snd ?r)" by (cases ?r) auto
    with Inl show ?thesis by (auto simp: admitted_intents_def)
  next
    case (Inr runs)
    with kept obtain rs where rs: "runs = distinct_runs rs" "admitted_intents ?limit s rs (snd ?r)"
      by (cases ?r) auto
    then obtain added where added: "xs_intents (snd ?r) = xs_intents s @ added" "length added \<le> ?limit"
      "map run_runId rs = map xt_runId added" "distinct (map xt_runId added)"
      by (auto simp: admitted_intents_def)
    then have "distinct_runs rs = rs" by (intro distinct_runs_id) simp
    with Inr rs(1) added show ?thesis by auto
  qed
qed

text \<open>
  (C20) The rows of node states stay well-typed through sweeps, settlements and recovery: a Run, its
  dispatch generation and its last state are present together or not at all, projection revisions
  are positive, and a node has one row. The constraints of the table never refuse an update.
\<close>

theorem node_states_typed:
  assumes "typed_states s"
  shows "typed_states (snd (sweep V sweeping options now s)) \<and>
    (case reconcileNodes M now s of Inl e \<Rightarrow> True | Inr (states, t) \<Rightarrow> typed_states t) \<and>
    (case recoverRuns M now s of Inl e \<Rightarrow> True | Inr (runs, t) \<Rightarrow> typed_states t)"
proof -
  have "typed_states (snd (sweep V sweeping options now s))"
    using sweep_typed.sweep_keeps[where V = V and s = s and options = options and now = now
        and sweeping = sweeping, OF assms refl]
    by (cases "sweep V sweeping options now s"; cases "fst (sweep V sweeping options now s)") auto
  then show ?thesis
    by (auto simp: recoverRuns_def bind_eq_Inr split: sum.splits dest: sweep_typed.reconcileNodes_keeps[OF assms])
qed

end
