(* ===== verification/Execution_Settled.thy ===== *)
theory Execution_Settled
  imports Execution_Fairness Execution_Safety Run_History
begin

text \<open>
  What a settlement establishes: every current node shows the state of its latest Run. And the
  resolution of a node's inputs: what it selects comes from adopted materializations of the
  gates its edges name, and fills every required slot once.
\<close>

section \<open>Settlement\<close>

definition projection_of :: "ExecutionNodeIdentity \<Rightarrow> execution_store \<Rightarrow> ExecutionRunProjection option" where
  "projection_of i s = map_option xn_projection (nodeState i s)"

text \<open>
  A settled node: its plan runs when it has a Run, whose state the projection shows (with or
  without the demand for a result, depending on the materializations); without a Run, a paused or
  reviewed plan has blocked it.
\<close>

definition settled_as :: "execution_store \<Rightarrow> ExecutionNodeIdentity \<Rightarrow> bool" where
  "settled_as t i \<longleftrightarrow>
     (case settlementSource i t of
        None \<Rightarrow> False
      | Some (plan_state, None) \<Rightarrow>
          (if plan_state \<in> {XP_paused, XP_review} then projection_of i t = Some (not_schedulable_projection i)
           else projection_of i t \<noteq> None)
      | Some (plan_state, Some (generation, run)) \<Rightarrow>
          plan_state \<noteq> XP_approved \<and>
          projection_of i t \<in> {Some (run_projection i False generation run), Some (run_projection i True generation run)})"

lemma settled_as_cong:
  "settlementSource i t = settlementSource i s \<Longrightarrow> projection_of i t = projection_of i s \<Longrightarrow>
   settled_as t i = settled_as s i"
  unfolding settled_as_def by (simp only:)

lemma source_cong:
  assumes "xs_plans t = xs_plans s" "xs_nodes t = xs_nodes s" "xs_intents t = xs_intents s" "xs_runs t = xs_runs s"
  shows "settlementSource i t = settlementSource i s"
  using assms unfolding settlementSource_def latestIntent_def by (simp cong: option.case_cong if_cong)

text \<open>Starting the plan of a node.\<close>

lemma source_start:
  "settlementSource i (start_plan j now s) =
     map_option (\<lambda>(st, x). (if belongs j p \<and> st = XP_approved then XP_running else st, x)) (settlementSource i s)"
  if "find (belongs i) (xs_plans s) = Some p"
proof -
  let ?f = "\<lambda>p. if belongs j p \<and> xp_state p = XP_approved then p\<lparr>xp_state := XP_running, xp_updatedAt := now\<rparr> else p"
  have "find (belongs i) (map ?f ps) = map_option ?f (find (belongs i) ps)" for ps
    by (induction ps) (auto simp: belongs_def)
  then have "find (belongs i) (xs_plans (start_plan j now s)) = Some (?f p)"
    using that by (simp add: start_plan_def)
  moreover have "latestIntent i (start_plan j now s) = latestIntent i s"
    by (simp add: latestIntent_def start_plan_def)
  ultimately show ?thesis using that
    by (auto simp: settlementSource_def) (simp_all add: start_plan_def)
qed

lemma start_settled:
  assumes "settled_as s i"
  shows "settled_as (start_plan j now s) i"
proof -
  from assms obtain p where p: "find (belongs i) (xs_plans s) = Some p"
    by (cases "find (belongs i) (xs_plans s)") (auto simp: settled_as_def settlementSource_def)
  have "projection_of i (start_plan j now s) = projection_of i s"
    by (simp add: projection_of_def nodeState_def)
  with assms source_start[OF p, of j now] show ?thesis
    by (auto simp: settled_as_def split: option.splits prod.splits if_splits)
qed

lemma projection_write:
  "writeProjection p now s = Inr (x, t) \<Longrightarrow>
   projection_of j t = (if j = xj_identity p then Some p else projection_of j s)"
  using projection_after_write[where j = j and s = s and p = p and now = now]
  by (cases "nodeState j s") (auto simp: writeProjection_Inr projection_of_def nodeState_write)

lemma write_settles_other:
  assumes "writeProjection p now s = Inr (x, t)" and "settled_as s j" and "j \<noteq> xj_identity p"
  shows "settled_as t j"
proof -
  have "settlementSource j t = settlementSource j s"
    using assms(1) by (intro source_cong) (auto simp: writeProjection_Inr)
  then show ?thesis using assms projection_write[OF assms(1), of j] settled_as_cong[of j t s] by simp
qed

lemma adopted_settled: "settled_as (s\<lparr>xs_adopted := a\<rparr>) i = settled_as s i"
  by (rule settled_as_cong) (auto intro: source_cong simp: projection_of_def nodeState_def)

lemma reconcileNode_settles:
  assumes "reconcileNode M now i s = Inr (x, t)"
  shows "settled_as t i \<and> (settled_as s j \<longrightarrow> settled_as t j)"
  using assms
proof (cases rule: reconcileNode_elim)
  case (blocked st ad)
  have id: "xj_identity (not_schedulable_projection i) = i" by (simp add: not_schedulable_projection_def)
  have "settlementSource i t = settlementSource i (s\<lparr>xs_adopted := ad\<rparr>)"
    using blocked(3) by (intro source_cong) (auto simp: writeProjection_Inr)
  then have "settled_as t i"
    using blocked(1,2) projection_write[OF blocked(3), of i] by (auto simp: settled_as_def id)
  then show ?thesis using write_settles_other[OF blocked(3), of j] id adopted_settled by metis
next
  case (unchanged st ad)
  then show ?thesis using adopted_settled[where s = s and a = ad and i = j] by (auto simp: settled_as_def projection_of_def)
next
  case (run st ad g r proven)
  let ?u = "s\<lparr>xs_adopted := ad\<rparr>"
  let ?v = "if st = XP_approved then start_plan i now ?u else ?u"
  have id: "xj_identity (run_projection i proven g r) = i"
    by (simp add: run_projection_def Let_def split: prod.splits)
  from run(1) obtain p where p: "find (belongs i) (xs_plans ?u) = Some p"
    by (cases "find (belongs i) (xs_plans ?u)") (auto simp: settlementSource_def)
  then have belongs: "belongs i p" by (auto simp: find_Some_iff)
  have "settlementSource i ?v = Some (if st = XP_approved then XP_running else st, Some (g, r))"
    using source_start[OF p, of i now] run(1) belongs by simp
  moreover have "settlementSource i t = settlementSource i ?v"
    using run(2) by (intro source_cong) (auto simp: writeProjection_Inr)
  moreover have "projection_of i t = Some (run_projection i proven g r)"
    using projection_write[OF run(2), of i] id by simp
  ultimately have "settled_as t i"
    by (cases proven) (auto simp: settled_as_def)
  moreover have "settled_as t j" if "settled_as s j" "j \<noteq> i"
  proof -
    have "settled_as ?v j" using that(1) adopted_settled[where s = s and a = ad and i = j] start_settled[where s = ?u and i = j and j = i and now = now] by simp
    then show ?thesis using write_settles_other[OF run(2)] that(2) id by simp
  qed
  ultimately show ?thesis by metis
qed

lemma reconcile_nodes_settles:
  "reconcile_nodes M now is s = Inr (states, t) \<Longrightarrow> \<forall>j. settled_as s j \<or> j \<in> set is \<longrightarrow> settled_as t j"
proof (induction "is" arbitrary: s states)
  case (Cons i "is")
  then obtain x s1 states1 where one: "reconcileNode M now i s = Inr (x, s1)"
    and rest: "reconcile_nodes M now is s1 = Inr (states1, t)" by (auto simp: bind_eq_Inr)
  from Cons.IH[OF rest] reconcileNode_settles[OF one] show ?case by auto
qed simp

section \<open>The list of current nodes\<close>

definition plan_keys_of :: "execution_store \<Rightarrow> (jstring \<times> int \<times> bool) list" where
  "plan_keys_of s = map (\<lambda>p. (xp_planId p, xp_currentRevision p, projected (xp_state p))) (xs_plans s)"

definition listed :: "ExecutionNodeIdentity list \<Rightarrow> (jstring \<times> int \<times> bool) list \<Rightarrow> ExecutionNodeIdentity list" where
  "listed ids plans =
    sort_by (\<lambda>a b. or_else (binaryCompare (en_planId a) (en_planId b)) (binaryCompare (en_nodeKey a) (en_nodeKey b)))
      (concat (map (\<lambda>i. map (\<lambda>_. i) (filter (\<lambda>(k, r, shown). k = en_planId i \<and> r = en_planRevision i \<and> shown) plans)) ids))"

lemma listAllCurrent_listed: "listAllCurrent s = listed (map (\<lambda>r. xn_identity r) (xs_states s)) (plan_keys_of s)"
proof -
  have "concat (map (\<lambda>plan. if belongs i plan then if projected (xp_state plan) then [i] else [] else []) ps) =
      map (\<lambda>_. i) (filter (\<lambda>(k, r, shown). k = en_planId i \<and> r = en_planRevision i \<and> shown)
        (map (\<lambda>p. (xp_planId p, xp_currentRevision p, projected (xp_state p))) ps))" for i ps
    by (induction ps) (auto simp: belongs_def)
  then show ?thesis
    by (simp add: listAllCurrent_def listed_def plan_keys_of_def comp_def)
qed

text \<open>What a settlement leaves alone.\<close>

definition same_nodes :: "execution_store \<Rightarrow> execution_store \<Rightarrow> bool" where
  "same_nodes s t \<longleftrightarrow> map (\<lambda>r. xn_identity r) (xs_states t) = map (\<lambda>r. xn_identity r) (xs_states s) \<and>
     plan_keys_of t = plan_keys_of s \<and> xs_intents t = xs_intents s \<and> xs_runs t = xs_runs s"

lemma same_nodes_write: "writeProjection p now s = Inr (x, t) \<Longrightarrow> same_nodes s t"
  by (auto simp: same_nodes_def plan_keys_of_def writeProjection_Inr write_rows_def)

lemma same_nodes_start: "same_nodes s (start_plan i now s)"
  by (simp add: same_nodes_def plan_keys_of_def start_plan_def projected_def)

lemma same_nodes_trans: "same_nodes s t \<Longrightarrow> same_nodes t u \<Longrightarrow> same_nodes s u"
  by (simp add: same_nodes_def)

lemma same_nodes_adopted: "same_nodes s (s\<lparr>xs_adopted := a\<rparr>)"
  by (simp add: same_nodes_def plan_keys_of_def)

lemma reconcileNode_same:
  assumes "reconcileNode M now i s = Inr (x, t)"
  shows "same_nodes s t"
  using assms
proof (cases rule: reconcileNode_elim)
  case (run st ad g r proven)
  have "same_nodes s (if st = XP_approved then start_plan i now (s\<lparr>xs_adopted := ad\<rparr>) else s\<lparr>xs_adopted := ad\<rparr>)"
    using same_nodes_adopted[of s ad] same_nodes_start[of "s\<lparr>xs_adopted := ad\<rparr>" i now] by (auto intro: same_nodes_trans)
  then show ?thesis using same_nodes_write[OF run(2)] by (rule same_nodes_trans)
qed (use same_nodes_adopted same_nodes_trans same_nodes_write in \<open>blast+\<close>)

lemma reconcile_nodes_same: "reconcile_nodes M now is s = Inr (states, t) \<Longrightarrow> same_nodes s t"
proof (induction "is" arbitrary: s states)
  case Nil
  then show ?case by (simp add: same_nodes_def)
next
  case (Cons i "is")
  then show ?case by (auto simp: bind_eq_Inr intro: same_nodes_trans dest: reconcileNode_same)
qed

text \<open>
  (C10) Settlement. When a settlement returns, every current node of an approved, running, paused or
  reviewed plan shows the state of its latest Run, a plan with a Run is no longer waiting to start,
  and a paused or reviewed plan has its nodes without a Run blocked. Intents and Runs are untouched.
\<close>

theorem settlement_exact:
  assumes "reconcileNodes M now s = Inr (states, t)"
  shows "list_all (settled_as t) (listAllCurrent t) \<and> xs_intents t = xs_intents s \<and> xs_runs t = xs_runs s"
proof -
  let ?s = "ensureCurrent now s"
  from assms have nodes: "reconcile_nodes M now (listAllCurrent ?s) ?s = Inr (states, t)"
    by (simp add: reconcileNodes_def Let_def)
  from reconcile_nodes_same[OF nodes] have same: "same_nodes ?s t" .
  then have "listAllCurrent t = listAllCurrent ?s"
    by (simp add: listAllCurrent_listed same_nodes_def)
  with reconcile_nodes_settles[OF nodes] same show ?thesis
    by (auto simp: list_all_iff same_nodes_def ensureCurrent_def)
qed

section \<open>The inputs of a node\<close>

abbreviation binding_order :: "EdgeBinding \<Rightarrow> EdgeBinding \<Rightarrow> int" where
  "binding_order \<equiv> \<lambda>a b. binaryCompare (eb_inputSlot a) (eb_inputSlot b)"

definition ordered_bindings :: "PlanEdge \<Rightarrow> EdgeBinding list" where
  "ordered_bindings e = sort_by binding_order (ed_bindings e)"

text \<open>The bindings that feed a node, edge by edge in the order of the topology.\<close>

definition feeding_bindings :: "PlanEdge list \<Rightarrow> (PlanEdge \<times> EdgeBinding) list" where
  "feeding_bindings edges = concat (map (\<lambda>e. map (Pair e) (ordered_bindings e)) edges)"

text \<open>
  A selection drawn through a binding: an artifact the adopted materialization of the edge's source
  pins for the output slot, of the kind of the input slot it fills.
\<close>

definition drawn_from ::
  "ExecutionNodeIdentity \<Rightarrow> PlanNode \<Rightarrow> execution_store \<Rightarrow> PlanEdge \<times> EdgeBinding \<Rightarrow> ExecutionInputSelection \<Rightarrow> bool" where
  "drawn_from i node s eb sel \<longleftrightarrow>
     (case getAdopted (i\<lparr>en_nodeKey := ed_fromNodeKey (fst eb)\<rparr>) (ed_gate (fst eb)) s of
        None \<Rightarrow> False
      | Some m \<Rightarrow> \<exists>input artifact. input \<in> set (nd_inputs node) \<and> artifact \<in> set (am_artifactPins m) \<and>
          ns_slotKey input = eb_inputSlot (snd eb) \<and> ap_outputSlot artifact = eb_outputSlot (snd eb) \<and>
          ap_kind artifact = ns_kind input \<and> sel = selection_of input m artifact)"

lemma resolve_bindings_Inr:
  "resolve_bindings node source m bs selections occupied = Inr (selections', occupied') \<Longrightarrow>
   getAdopted (i\<lparr>en_nodeKey := ed_fromNodeKey e\<rparr>) (ed_gate e) s = Some m \<Longrightarrow> distinct occupied \<Longrightarrow>
   \<exists>added. selections' = selections @ added \<and> occupied' = occupied @ map ei_inputSlot added \<and>
     distinct occupied' \<and> list_all2 (drawn_from i node s) (map (Pair e) bs) added"
proof (induction bs arbitrary: selections occupied)
  case (Cons b bs)
  then obtain input out artifact where
    found: "find (\<lambda>i. ns_slotKey i = eb_inputSlot b) (nd_inputs node) = Some input"
      "find (\<lambda>slot. ns_slotKey slot = eb_outputSlot b) (nd_outputs source) = Some out"
      "find (\<lambda>a. ap_outputSlot a = eb_outputSlot b) (am_artifactPins m) = Some artifact"
    by (auto split: option.split_asm)
  with Cons.prems(1) have free: "ns_slotKey input \<notin> set occupied" "ap_kind artifact = ns_kind input"
    and rest: "resolve_bindings node source m bs (selections @ [selection_of input m artifact])
      (occupied @ [ns_slotKey input]) = Inr (selections', occupied')"
    by (auto split: if_splits)
  have "distinct (occupied @ [ns_slotKey input])" using Cons.prems(3) free by simp
  from Cons.IH[OF rest Cons.prems(2) this]
  obtain added where added: "selections' = (selections @ [selection_of input m artifact]) @ added"
    "occupied' = (occupied @ [ns_slotKey input]) @ map ei_inputSlot added" "distinct occupied'"
    "list_all2 (drawn_from i node s) (map (Pair e) bs) added" by blast
  have "drawn_from i node s (e, b) (selection_of input m artifact)"
    using Cons.prems(2) free found by (auto simp: drawn_from_def dest!: find_SomeD)
  with added show ?case
    by (intro exI[of _ "selection_of input m artifact # added"]) (simp add: selection_of_def)
qed simp

lemma resolve_edges_Inr:
  "resolve_edges i d node s edges selections occupied = Inr (selections', occupied') \<Longrightarrow> distinct occupied \<Longrightarrow>
   \<exists>added. selections' = selections @ added \<and> occupied' = occupied @ map ei_inputSlot added \<and>
     distinct occupied' \<and> list_all2 (drawn_from i node s) (feeding_bindings edges) added"
proof (induction edges arbitrary: selections occupied)
  case (Cons e edges)
  then obtain source m where
    found: "find (\<lambda>n. nd_nodeKey n = ed_fromNodeKey e) (pl_nodes d) = Some source"
      "getAdopted (i\<lparr>en_nodeKey := ed_fromNodeKey e\<rparr>) (ed_gate e) s = Some m"
    by (auto split: option.split_asm)
  with Cons.prems(1) obtain sel1 occ1 where
    one: "resolve_bindings node source m (ordered_bindings e) selections occupied = Inr (sel1, occ1)" and
    rest: "resolve_edges i d node s edges sel1 occ1 = Inr (selections', occupied')"
    by (auto simp: ordered_bindings_def split: if_split_asm sum.split_asm prod.split_asm)
  from resolve_bindings_Inr[OF one found(2) Cons.prems(2)] obtain a1 where
    a1: "sel1 = selections @ a1" "occ1 = occupied @ map ei_inputSlot a1" "distinct occ1"
      "list_all2 (drawn_from i node s) (map (Pair e) (ordered_bindings e)) a1" by blast
  from Cons.IH[OF rest a1(3)] obtain a2 where
    a2: "selections' = sel1 @ a2" "occupied' = occ1 @ map ei_inputSlot a2" "distinct occupied'"
      "list_all2 (drawn_from i node s) (feeding_bindings edges) a2" by blast
  with a1 show ?case
    by (intro exI[of _ "a1 @ a2"]) (simp add: feeding_bindings_def list_all2_appendI)
qed (simp add: feeding_bindings_def)

text \<open>
  (C16) Inputs. When the inputs of a node are resolved, its plan is current and has the digest that
  was proposed; there is exactly one selection for each binding of an edge into the node, in the
  order of the topology, and each is an artifact of the right kind pinned by the materialization
  that the edge's gate has adopted. No slot is filled twice and every required slot is filled.
\<close>

theorem resolved_inputs_sound:
  assumes "resolveDependencies L schema i s = Inr (Resolved selections)"
  shows "\<exists>plan current v node. planOf (en_planId i) s = Inr (Some (plan, current)) \<and>
    xp_currentRevision plan = en_planRevision i \<and> schedulable (xp_state plan) \<and>
    validateExecutionPlanDefinition L schema (xq_definition current) = Inr v \<and> vd_digest v = xq_digest current \<and>
    find (\<lambda>n. nd_nodeKey n = en_nodeKey i) (pl_nodes (vd_definition v)) = Some node \<and>
    list_all2 (drawn_from i node s) (feeding_bindings (incoming_edges v node)) selections \<and>
    distinct (map ei_inputSlot selections) \<and>
    set (map ns_slotKey (filter ns_required (nd_inputs node))) \<subseteq> set (map ei_inputSlot selections)"
proof -
  from assms obtain found where found: "planOf (en_planId i) s = Inr found"
    unfolding resolveDependencies_def by (auto simp: bind_eq_Inr)
  from assms found obtain plan current v where
    plan: "found = Some (plan, current)" "xp_currentRevision plan = en_planRevision i" "schedulable (xp_state plan)" and
    v: "validateExecutionPlanDefinition L schema (xq_definition current) = Inr v" "vd_digest v = xq_digest current" and
    res: "resolve_node i v s = Resolved selections"
    unfolding resolveDependencies_def
    by (auto simp: bind_eq_Inr split: option.split_asm prod.split_asm if_split_asm)
  from res obtain node where
    node: "find (\<lambda>n. nd_nodeKey n = en_nodeKey i) (pl_nodes (vd_definition v)) = Some node"
    by (auto simp: resolve_node_def split: option.split_asm)
  with res obtain occupied where
    edges: "resolve_edges i (vd_definition v) node s (incoming_edges v node) [] [] = Inr (selections, occupied)" and
    all: "\<not> list_ex (\<lambda>input. ns_required input \<and> ns_slotKey input \<notin> set occupied) (nd_inputs node)"
    by (auto simp: resolve_node_def Let_def split: sum.split_asm prod.split_asm if_split_asm)
  from resolve_edges_Inr[OF edges] obtain added where "selections = added" "occupied = map ei_inputSlot added"
    "distinct occupied" "list_all2 (drawn_from i node s) (feeding_bindings (incoming_edges v node)) added" by auto
  with found plan v node all show ?thesis
    by (intro exI[of _ plan] exI[of _ current] exI[of _ v] exI[of _ node]) (auto simp: list_ex_iff)
qed

text \<open>
  (C17) Fairness cursors. Through sweeps and through every admission (by a message, a retry or the
  scheduler), the history of an Agent is numbered without gaps, each row names the node of the row
  before it, and the cursor of the Agent carries the number, node, Run and intent of the last row.
\<close>

theorem fairness_history_exact:
  assumes "fairness_inv s"
  shows "fairness_inv (snd (sweep V sweeping options now s)) \<and>
    (case admit E input governance src retry authority s of Inl e \<Rightarrow> True | Inr (result, t) \<Rightarrow> fairness_inv t)"
proof -
  have "fairness_inv (snd (sweep V sweeping options now s))"
    using sweep_fairness.sweep_keeps[where V = V and s = s and options = options and now = now
        and sweeping = sweeping, OF assms refl]
    by (cases "sweep V sweeping options now s"; cases "fst (sweep V sweeping options now s)") auto
  moreover have "fairness_inv t" if admitted: "admit E input governance src retry authority s = Inr ((created, rs), t)" for created rs t
    using admit_Inr[OF admitted]
  proof
    assume "\<exists>scope. created \<and> (retry = None \<longrightarrow> findIntentRun governance s = None) \<and>
       admission_checks E input governance src retry s = Inr scope \<and>
       write_admission E input scope src retry authority s = Inr ((True, rs), t)"
    then obtain scope where "write_admission E input scope src retry authority s = Inr ((True, rs), t)" by blast
    from write_admission_Inr[OF this] obtain intent run n fairness c where
      "advanceFairness True fairness (admission_of intent run n s) = Inr (c, t)" by blast
    moreover have "fairness_inv (admission_of intent run n s)"
      using assms by (subst fairness_inv_cong[of _ s]) (simp_all add: admission_of_def)
    ultimately show ?thesis by (rule advance_keeps_fairness)
  qed (use assms in simp)
  ultimately show ?thesis by (auto split: sum.splits)
qed

end
