(* ===== verification/Execution_Demo.thy ===== *)
theory Execution_Demo
  imports Execution_Settled
begin

section \<open>Concrete execution of a plan\<close>

text \<open>
  The plan \<open>demo_ab\<close>, running: node \<open>a\<close> has completed its Run and its verified output is adopted,
  node \<open>b\<close>, which reads it, has no Run yet.
\<close>

definition demo_id :: "string \<Rightarrow> ExecutionNodeIdentity" where
  "demo_id k = \<lparr>en_nodeKey = lit k, en_planId = [7], en_planRevision = 1\<rparr>"

definition demo_node_row :: "string \<Rightarrow> execution_plan_node_row" where
  "demo_node_row k = \<lparr>xd_identity = demo_id k, xd_agentId = lit ''g'', xd_taskId = lit k,
     xd_definitionRevision = 1, xd_criteriaRevision = 1\<rparr>"

definition demo_done :: RunRecord where
  "demo_done = demo_run\<lparr>run_state := RS_completed, run_attemptNumber := Some 1\<rparr>"

definition demo_intent :: execution_dispatch_intent_row where
  "demo_intent = \<lparr>xt_intentId = [50], xt_source = Source_scheduler, xt_identity = demo_id ''a'',
     xt_dispatchGeneration = 1, xt_taskId = lit ''a'', xt_agentId = lit ''g'', xt_runId = [20],
     xt_traceMessageId = [10], xt_requesterMemberId = [2], xt_createdAt = 0,
     xt_retryOperationId = None, xt_schedulerOperationId = None\<rparr>"

definition demo_adopted :: AdoptedExecutionMaterialization where
  "demo_adopted = \<lparr>am_identity = demo_id ''a'', am_adoptionDigest = [61], am_adoptionId = [62],
     am_artifactPins = [\<lparr>ap_artifactId = [63], ap_artifactRevision = 1, ap_byteLength = 5,
       ap_contentDigest = [64], ap_kind = Slot_patch, ap_outputSlot = lit ''o''\<rparr>],
     am_gate = Gate_verified_output, am_sourceDigest = [65], am_sourceEvidenceId = [66],
     am_sourceResultId = None\<rparr>"

definition demo_execution :: "jstring \<Rightarrow> execution_store" where
  "demo_execution digest =
    \<lparr>xs_plans = [\<lparr>xp_planId = [7], xp_rootTaskId = [5], xp_roomId = [4], xp_currentRevision = 1,
       xp_controlRevision = 1, xp_state = XP_approved,
       xp_updatedAt = 0\<rparr>],
     xs_nodes = [demo_node_row ''a'', demo_node_row ''b''],
     xs_approvals = [\<lparr>xv_planId = [7], xv_revision = 1, xv_decision = Decision_approved, xv_digest = digest,
       xv_reviewedByMemberId = [2], xv_reviewedAt = 0\<rparr>],
     xs_proposals = [\<lparr>xq_planId = [7], xq_revision = 1, xq_definition = demo_ab, xq_digest = digest\<rparr>],
     xs_controls = [\<lparr>xc_planId = [7], xc_mode = Sched_automatic, xc_modeRevision = 1, xc_lastOperationId = None,
       xc_updatedByMemberId = None, xc_reason = [], xc_updatedAt = 0\<rparr>],
     xs_states = [recovery_pending 0 (demo_id ''a'')], xs_intents = [demo_intent], xs_adopted = [demo_adopted],
     xs_cursors = [\<lparr>fc_agentId = lit ''g'', fc_cursorRevision = 1, fc_lastDispatchIntentId = [50],
       fc_lastNode = demo_id ''a'', fc_lastRunId = [20], fc_updatedAt = 0\<rparr>],
     xs_history = [\<lparr>fh_agentId = lit ''g'', fh_cursorRevision = 1, fh_previous = None, fh_node = demo_id ''a'',
       fh_source = Fair_automatic, fh_schedulerOperationId = None, fh_dispatchIntentId = [50], fh_runId = [20],
       fh_admittedAt = 0\<rparr>],
     xs_tasks = [], xs_claims = [(lit ''b'', demo_id ''b'')], xs_runs = demo_runs\<lparr>rs_runs := [demo_done]\<rparr>,
     xs_drawn = 0\<rparr>"

text \<open>The verified materialization of \<open>a\<close> is there and stays adopted.\<close>

definition demo_materializer :: materializer where
  "demo_materializer i s = Inr ((False, i = demo_id ''a''), xs_adopted s)"

definition demo_governed :: governed_env where
  "demo_governed = \<lparr>ge_lib = ascii_lib, ge_schema = (\<lambda>_. True), ge_ids = (\<lambda>n. [of_nat n]),
     ge_readyGrants = (\<lambda>_ _. []), ge_capabilityAvailable = (\<lambda>_ _. True),
     ge_elapsedSeconds = (\<lambda>a b. (b - a) div 1000), ge_seal = (\<lambda>_ _ _ _. Inr ())\<rparr>"

definition demo_sweep_env :: sweep_env where
  "demo_sweep_env = \<lparr>ve_governed = demo_governed, ve_materializer = demo_materializer,
     ve_maxCandidateEvaluations = 256\<rparr>"

definition demo_options :: ExecutionSchedulerSweepOptions where
  "demo_options = \<lparr>wo_maxAdmissions = Some 1, wo_mode = None, wo_operationId = None, wo_planId = None\<rparr>"

definition demo_admission_input :: GovernedMessageAdmissionInput where
  "demo_admission_input = \<lparr>gi_memberId = [2], gi_role = Owner,
     gi_message = stored_message (demo_message [12] None) [7] (lit ''b'') 3, gi_now = 5,
     gi_task = \<lparr>at_row = hd (tr_tasks demo_team), at_governed = \<lparr>gt_taskId = lit ''b'', gt_teamId = [1], gt_goal = [],
       gt_ownerMemberId = [2], gt_definitionRevision = 1, gt_criteriaRevision = 1\<rparr>\<rparr>\<rparr>"

lemma demo_typed: "typed_states (demo_execution d)"
  by (simp add: typed_states_def typed_rows_def demo_execution_def recovery_pending_def typed_readiness)

lemma demo_fair: "fairness_inv (demo_execution d)"
  by (simp add: fairness_inv_def demo_execution_def cursor_exact_def agent_history_def fairnessCursor_def last_of_def)

lemma demo_node_order: "binaryCompare (lit ''a'') (lit ''b'') = -1" "binaryCompare (lit ''b'') (lit ''a'') = 1"
  by code_simp+

lemma demo_settles: "\<exists>states t. reconcileNodes demo_materializer 5 (demo_execution d) = Inr (states, t) \<and>
    map (\<lambda>r. (xj_state (xn_projection r), xj_blockerCode (xn_projection r))) states =
      [(EN_awaiting_result, None), (EN_blocked, Some ''EXECUTION_RECOVERY_PENDING'')]"
  by (simp add: reconcileNodes_def Let_def ensureCurrent_def demo_execution_def current_nodes_def projected_def belongs_def
      demo_node_row_def demo_id_def insert_or_ignore_def node_state_conflict_def recovery_pending_def listAllCurrent_def
      sort_by_def demo_node_order or_else_def reconcileNode_def demo_materializer_def settlementSource_def latestIntent_def
      demo_intent_def getRun_def demo_done_def demo_run_def demo_runs_def projectRunSettlement_def writeProjection_def
      update_rows_def commit_rows_def ensure_def run_projection_def nodeState_def start_plan_def binaryCompare_def[of "[7]" "[7]"])

lemma demo_resolves: "\<exists>d selection. resolveDependencies ascii_lib (\<lambda>_. True) (demo_id ''b'') (demo_execution d) =
    Inr (Resolved [selection]) \<and> ei_inputSlot selection = lit ''i'' \<and> ei_artifactId selection = [63]"
proof -
  obtain v where v: "validateExecutionPlanDefinition ascii_lib (\<lambda>_. True) demo_ab = Inr v" using demo_accepted(1) by blast
  then have def: "vd_definition v = demo_ab" using demo_normal(2) by (auto elim!: validate_Inr)
  have node: "find (\<lambda>n. nd_nodeKey n = lit k) (pl_nodes (vd_definition v)) = Some (demo_plan_node k)" if "k \<in> {''a'', ''b''}" for k
    using that unfolding def by (auto simp: demo_plan_def demo_plan_node_def)
  have edges: "incoming_edges v (demo_plan_node ''b'') = [demo_plan_edge ''a'' ''b'']"
    unfolding incoming_edges_def def by (simp add: demo_plan_def demo_plan_edge_def demo_plan_node_def sort_by_def)
  have adopted: "getAdopted ((demo_id ''b'')\<lparr>en_nodeKey := lit ''a''\<rparr>) Gate_verified_output (demo_execution (vd_digest v)) = Some demo_adopted"
    by (simp add: getAdopted_def demo_execution_def demo_adopted_def demo_id_def)
  have ed: "ed_fromNodeKey (demo_plan_edge ''a'' ''b'') = lit ''a''" "ed_gate (demo_plan_edge ''a'' ''b'') = Gate_verified_output"
    by (simp_all add: demo_plan_edge_def)
  have "\<exists>selection. resolve_node (demo_id ''b'') v (demo_execution (vd_digest v)) = Resolved [selection] \<and>
      ei_inputSlot selection = lit ''i'' \<and> ei_artifactId selection = [63]"
    using node[of "''b''"] node[of "''a''"] adopted
    by (simp add: resolve_node_def demo_id_def Let_def edges ed)
      (simp add: demo_adopted_def demo_plan_edge_def demo_plan_node_def sort_by_def selection_of_def)
  then show ?thesis
    using v by (intro exI[of _ "vd_digest v"])
      (auto simp: resolveDependencies_def planOf_def demo_execution_def demo_id_def schedulable_def)
qed

section \<open>Witnesses\<close>

theorem node_states_typed_witness:
  "typed_states (snd (sweep demo_sweep_env False demo_options 5 (demo_execution []))) \<and>
    (case reconcileNodes demo_materializer 5 (demo_execution []) of Inl e \<Rightarrow> True | Inr (states, t) \<Rightarrow> typed_states t) \<and>
    (case recoverRuns demo_materializer 5 (demo_execution []) of Inl e \<Rightarrow> True | Inr (runs, t) \<Rightarrow> typed_states t)"
  by (rule node_states_typed) (rule demo_typed)

theorem fairness_history_exact_witness:
  "fairness_inv (snd (sweep demo_sweep_env False demo_options 5 (demo_execution []))) \<and>
    (case admit demo_governed demo_admission_input (demo_id ''b'') Source_member_message None None (demo_execution []) of
       Inl e \<Rightarrow> True | Inr (result, t) \<Rightarrow> fairness_inv t)"
  by (rule fairness_history_exact) (rule demo_fair)

theorem settlement_exact_witness:
  "\<exists>states t. reconcileNodes demo_materializer 5 (demo_execution []) = Inr (states, t) \<and>
    list_all (settled_as t) (listAllCurrent t) \<and> xs_intents t = [demo_intent]"
proof -
  obtain states t where t: "reconcileNodes demo_materializer 5 (demo_execution []) = Inr (states, t)"
    using demo_settles by blast
  with settlement_exact[OF t] show ?thesis by (simp add: demo_execution_def)
qed

theorem resolved_inputs_sound_witness:
  "\<exists>d selection node v. resolveDependencies ascii_lib (\<lambda>_. True) (demo_id ''b'') (demo_execution d) =
    Inr (Resolved [selection]) \<and> ei_artifactId selection = [63] \<and>
    list_all2 (drawn_from (demo_id ''b'') node (demo_execution d)) (feeding_bindings (incoming_edges v node)) [selection] \<and>
    set (map ns_slotKey (filter ns_required (nd_inputs node))) \<subseteq> {lit ''i''}"
proof -
  obtain d selection where r: "resolveDependencies ascii_lib (\<lambda>_. True) (demo_id ''b'') (demo_execution d) =
    Inr (Resolved [selection])" and sel: "ei_inputSlot selection = lit ''i''" "ei_artifactId selection = [63]"
    using demo_resolves by blast
  from resolved_inputs_sound[OF r] obtain node v where
    "list_all2 (drawn_from (demo_id ''b'') node (demo_execution d)) (feeding_bindings (incoming_edges v node)) [selection]"
    "set (map ns_slotKey (filter ns_required (nd_inputs node))) \<subseteq> set (map ei_inputSlot [selection])" by blast
  with r sel show ?thesis by auto
qed

end
