(* ===== verification/Execution_Control.thy ===== *)
theory Execution_Control
  imports Execution_Scheduler
begin

text \<open>
  The commands of members to the scheduler: the operations and receipts of
  \<^verbatim>\<open>execution-scheduler-control-repository.ts\<close> and the service of
  \<^verbatim>\<open>execution-scheduler-control-service.ts\<close>, which changes the mode of a plan, dispatches a node of a
  plan in manual mode and advances a plan in supervised mode. A command is one transaction: it
  returns a receipt and the new store, or throws and leaves the store. The tables of operations and
  receipts stand beside the execution store; a stored JSON text is the value it denotes.
\<close>

section \<open>Commands and receipts\<close>

record ExecutionSchedulerAdvanceCommand =
  kc_expectedModeRevision :: int
  kc_expectedPlanControlRevision :: int
  kc_expectedPlanDigest :: jstring
  kc_expectedPlanRevision :: int
  kc_operationId :: jstring
  kc_reason :: jstring

record ExecutionSchedulerModeCommand = ExecutionSchedulerAdvanceCommand +
  kc_mode :: ExecutionSchedulerMode

record ExecutionSchedulerManualDispatchCommand = ExecutionSchedulerAdvanceCommand +
  kc_nodeKey :: jstring
  kc_expectedNodeProjectionRevision :: int

record ExecutionSchedulerModeReceipt =
  kr_operationId :: jstring
  kr_planId :: jstring
  kr_planRevision :: int
  kr_planDigest :: jstring
  kr_planControlRevision :: int
  kr_previousMode :: ExecutionSchedulerMode
  kr_previousModeRevision :: int
  kr_mode :: ExecutionSchedulerMode
  kr_modeRevision :: int
  kr_updatedByMemberId :: jstring
  kr_reason :: jstring
  kr_requestDigest :: jstring
  kr_updatedAt :: timestamp
  kr_operationDigest :: jstring

datatype scheduler_action = Act_mode_transition | Act_manual_dispatch | Act_supervised_advance

record dispatch_selection =
  kx_nodeKey :: jstring
  kx_dispatchIntentId :: jstring
  kx_runId :: jstring

record ExecutionSchedulerDispatchReceipt =
  kd_operationId :: jstring
  kd_action :: scheduler_action
  kd_planId :: jstring
  kd_planRevision :: int
  kd_planDigest :: jstring
  kd_planControlRevision :: int
  kd_mode :: ExecutionSchedulerMode
  kd_modeRevision :: int
  kd_requestedByMemberId :: jstring
  kd_reason :: jstring
  kd_selection :: "dispatch_selection option"
  kd_requestDigest :: jstring
  kd_createdAt :: timestamp
  kd_operationDigest :: jstring

datatype ExecutionSchedulerReceipt =
    ModeReceipt ExecutionSchedulerModeReceipt
  | DispatchReceipt ExecutionSchedulerDispatchReceipt

record scheduler_operation_row =
  ko_operationId :: jstring
  ko_action :: scheduler_action
  ko_planId :: jstring
  ko_planRevision :: int
  ko_planDigest :: jstring
  ko_planControlRevision :: int
  ko_expectedMode :: ExecutionSchedulerMode
  ko_expectedModeRevision :: int
  ko_targetMode :: "ExecutionSchedulerMode option"
  ko_nodeKey :: "jstring option"
  ko_expectedNodeProjectionRevision :: "int option"
  ko_requestedByMemberId :: jstring
  ko_reason :: jstring
  ko_requestDigest :: jstring
  ko_request :: cjson
  ko_createdAt :: timestamp

record scheduler_receipt_row =
  kp_operationId :: jstring
  kp_operationDigest :: jstring
  kp_response :: ExecutionSchedulerReceipt
  kp_completedAt :: timestamp

record command_store =
  ks_execution :: execution_store
  ks_operations :: "scheduler_operation_row list"
  ks_receipts :: "scheduler_receipt_row list"

definition operation_conflict :: "scheduler_operation_row \<Rightarrow> scheduler_operation_row \<Rightarrow> bool" where
  "operation_conflict a b \<longleftrightarrow> ko_operationId a = ko_operationId b"

definition receipt_conflict :: "scheduler_receipt_row \<Rightarrow> scheduler_receipt_row \<Rightarrow> bool" where
  "receipt_conflict a b \<longleftrightarrow> kp_operationId a = kp_operationId b"

interpretation operations: keyed_table operation_conflict ko_operationId
  by unfold_locales (simp add: operation_conflict_def)

interpretation receipts: keyed_table receipt_conflict kp_operationId
  by unfold_locales (simp add: receipt_conflict_def)

text \<open>
  The generated validators, the text of a time, and the time the scheduler's own clock shows.
\<close>

record control_env =
  ke_sweep :: sweep_env
  ke_validators :: "string \<Rightarrow> cjson \<Rightarrow> bool"
  ke_iso :: "timestamp \<Rightarrow> jstring"
  ke_clock :: timestamp

abbreviation ke_governed :: "control_env \<Rightarrow> governed_env" where
  "ke_governed E \<equiv> ve_governed (ke_sweep E)"

abbreviation ke_lib :: "control_env \<Rightarrow> text_lib" where
  "ke_lib E \<equiv> ge_lib (ke_governed E)"

section \<open>Contract values\<close>

fun mode_text :: "ExecutionSchedulerMode \<Rightarrow> jstring" where
  "mode_text Sched_manual = lit ''manual''"
| "mode_text Sched_supervised = lit ''supervised''"
| "mode_text Sched_automatic = lit ''automatic''"

fun action_text :: "scheduler_action \<Rightarrow> jstring" where
  "action_text Act_mode_transition = lit ''mode_transition''"
| "action_text Act_manual_dispatch = lit ''manual_dispatch''"
| "action_text Act_supervised_advance = lit ''supervised_advance''"

definition command_fields :: "'a ExecutionSchedulerAdvanceCommand_scheme \<Rightarrow> (jstring \<times> cjson) list" where
  "command_fields c =
    [(lit ''expectedModeRevision'', CInt (kc_expectedModeRevision c)),
     (lit ''expectedPlanControlRevision'', CInt (kc_expectedPlanControlRevision c)),
     (lit ''expectedPlanDigest'', CStr (kc_expectedPlanDigest c)),
     (lit ''expectedPlanRevision'', CInt (kc_expectedPlanRevision c)),
     (lit ''operationId'', CStr (kc_operationId c)),
     (lit ''reason'', CStr (kc_reason c))]"

definition mode_command_json :: "ExecutionSchedulerModeCommand \<Rightarrow> cjson" where
  "mode_command_json c = CObj (command_fields c @ [(lit ''mode'', CStr (mode_text (kc_mode c)))])"

definition manual_command_json :: "ExecutionSchedulerManualDispatchCommand \<Rightarrow> cjson" where
  "manual_command_json c = CObj (command_fields c @
    [(lit ''nodeKey'', CStr (kc_nodeKey c)),
     (lit ''expectedNodeProjectionRevision'', CInt (kc_expectedNodeProjectionRevision c))])"

definition advance_command_json :: "ExecutionSchedulerAdvanceCommand \<Rightarrow> cjson" where
  "advance_command_json c = CObj (command_fields c)"

definition mode_receipt_fields :: "control_env \<Rightarrow> ExecutionSchedulerModeReceipt \<Rightarrow> (jstring \<times> cjson) list" where
  "mode_receipt_fields E r =
    [(lit ''operationId'', CStr (kr_operationId r)),
     (lit ''planId'', CStr (kr_planId r)),
     (lit ''planRevision'', CInt (kr_planRevision r)),
     (lit ''planDigest'', CStr (kr_planDigest r)),
     (lit ''planControlRevision'', CInt (kr_planControlRevision r)),
     (lit ''previousMode'', CStr (mode_text (kr_previousMode r))),
     (lit ''previousModeRevision'', CInt (kr_previousModeRevision r)),
     (lit ''mode'', CStr (mode_text (kr_mode r))),
     (lit ''modeRevision'', CInt (kr_modeRevision r)),
     (lit ''updatedByMemberId'', CStr (kr_updatedByMemberId r)),
     (lit ''reason'', CStr (kr_reason r)),
     (lit ''requestDigest'', CStr (kr_requestDigest r)),
     (lit ''updatedAt'', CStr (ke_iso E (kr_updatedAt r)))]"

definition selection_json :: "dispatch_selection option \<Rightarrow> cjson" where
  "selection_json sel = (case sel of None \<Rightarrow> CNull | Some x \<Rightarrow> CObj
    [(lit ''nodeKey'', CStr (kx_nodeKey x)),
     (lit ''dispatchIntentId'', CStr (kx_dispatchIntentId x)),
     (lit ''runId'', CStr (kx_runId x))])"

definition dispatch_receipt_fields :: "control_env \<Rightarrow> ExecutionSchedulerDispatchReceipt \<Rightarrow> (jstring \<times> cjson) list" where
  "dispatch_receipt_fields E r =
    [(lit ''operationId'', CStr (kd_operationId r)),
     (lit ''action'', CStr (action_text (kd_action r))),
     (lit ''planId'', CStr (kd_planId r)),
     (lit ''planRevision'', CInt (kd_planRevision r)),
     (lit ''planDigest'', CStr (kd_planDigest r)),
     (lit ''planControlRevision'', CInt (kd_planControlRevision r)),
     (lit ''mode'', CStr (mode_text (kd_mode r))),
     (lit ''modeRevision'', CInt (kd_modeRevision r)),
     (lit ''requestedByMemberId'', CStr (kd_requestedByMemberId r)),
     (lit ''reason'', CStr (kd_reason r)),
     (lit ''selection'', selection_json (kd_selection r)),
     (lit ''requestDigest'', CStr (kd_requestDigest r)),
     (lit ''createdAt'', CStr (ke_iso E (kd_createdAt r)))]"

text \<open>The JSON value of a receipt: its unsigned fields and its digest.\<close>

definition receipt_json :: "control_env \<Rightarrow> ExecutionSchedulerReceipt \<Rightarrow> cjson" where
  "receipt_json E receipt = (case receipt of
     ModeReceipt r \<Rightarrow> CObj (mode_receipt_fields E r @ [(lit ''operationDigest'', CStr (kr_operationDigest r))])
   | DispatchReceipt r \<Rightarrow>
       CObj (dispatch_receipt_fields E r @ [(lit ''operationDigest'', CStr (kd_operationDigest r))]))"

definition receipt_kind :: "ExecutionSchedulerReceipt \<Rightarrow> string" where
  "receipt_kind receipt = (case receipt of
     ModeReceipt _ \<Rightarrow> ''schedulerModeReceipt'' | DispatchReceipt _ \<Rightarrow> ''schedulerDispatchReceipt'')"

definition receipt_operationId :: "ExecutionSchedulerReceipt \<Rightarrow> jstring" where
  "receipt_operationId receipt = (case receipt of
     ModeReceipt r \<Rightarrow> kr_operationId r | DispatchReceipt r \<Rightarrow> kd_operationId r)"

definition receipt_row :: "ExecutionSchedulerReceipt \<Rightarrow> scheduler_receipt_row" where
  "receipt_row receipt = (case receipt of
     ModeReceipt r \<Rightarrow> \<lparr>kp_operationId = kr_operationId r, kp_operationDigest = kr_operationDigest r,
       kp_response = receipt, kp_completedAt = kr_updatedAt r\<rparr>
   | DispatchReceipt r \<Rightarrow> \<lparr>kp_operationId = kd_operationId r, kp_operationDigest = kd_operationDigest r,
       kp_response = receipt, kp_completedAt = kd_createdAt r\<rparr>)"

section \<open>Operations and receipts\<close>

definition replayReceipt ::
  "control_env \<Rightarrow> jstring \<Rightarrow> jstring \<Rightarrow> command_store \<Rightarrow> ExecutionSchedulerReceipt option throwing" where
  "replayReceipt E operationId requestDigest k =
    (case find (\<lambda>x. ko_operationId x = operationId) (ks_operations k) of
       None \<Rightarrow> Inr None
     | Some operation \<Rightarrow>
         bind (ensure (ko_requestDigest operation = requestDigest) (ExecutionError ''EXECUTION_OPERATION_CONFLICT''))
           (\<lambda>_.
         case find (\<lambda>x. kp_operationId x = operationId) (ks_receipts k) of
           None \<Rightarrow> Inl (ExecutionError ''EXECUTION_SCHEDULER_HISTORY_INCONSISTENT'')
         | Some row \<Rightarrow>
             bind (assertExecutionCommand (ke_validators E (receipt_kind (kp_response row)))
               (receipt_json E (kp_response row))) (\<lambda>_. Inr (Some (kp_response row)))))"

text \<open>
  The trigger on new operations (\<^verbatim>\<open>0081_governed_scheduler_modes.sql\<close>): an operation is refused
  unless its plan, the digest of its current revision, its control and its actor are the current
  ones, the Room is open, the plan has not ended, and the stored request says what the row says.
\<close>

definition request_field :: "cjson \<Rightarrow> string \<Rightarrow> cjson option" where
  "request_field v key = (case v of CObj pairs \<Rightarrow> map_of pairs (lit key) | _ \<Rightarrow> None)"

definition request_pinned :: "scheduler_operation_row \<Rightarrow> bool" where
  "request_pinned row \<longleftrightarrow> list_all (\<lambda>(key, v). request_field (ko_request row) key = Some v)
     [(''operationId'', CStr (ko_operationId row)),
      (''expectedPlanRevision'', CInt (ko_planRevision row)),
      (''expectedPlanDigest'', CStr (ko_planDigest row)),
      (''expectedPlanControlRevision'', CInt (ko_planControlRevision row)),
      (''expectedModeRevision'', CInt (ko_expectedModeRevision row)),
      (''reason'', CStr (ko_reason row))]"

definition operation_actor :: "scheduler_operation_row \<Rightarrow> execution_plan_row \<Rightarrow> execution_store \<Rightarrow> bool" where
  "operation_actor row plan s \<longleftrightarrow> (case taskOf (xp_rootTaskId plan) s of
     None \<Rightarrow> False
   | Some rootTask \<Rightarrow> (let t = rs_team (xs_runs s); roomId = tk_roomId (at_row rootTask) in
       \<exists>r\<in>set (tr_rooms t). r_roomId r = roomId \<and> r_archivedAt r = None \<and>
         (\<exists>m\<in>set (tr_members t). mb_memberId m = ko_requestedByMemberId row \<and> mb_teamId m = r_teamId r \<and>
            (roomId, mb_memberId m) \<in> set (tr_roomMembers t) \<and>
            (mb_role m = Owner \<or> mb_memberId m = gt_ownerMemberId (at_governed rootTask)))))"

definition operation_target :: "scheduler_operation_row \<Rightarrow> execution_plan_row \<Rightarrow> execution_store \<Rightarrow> bool" where
  "operation_target row plan s \<longleftrightarrow> (case ko_action row of
     Act_mode_transition \<Rightarrow>
       (case ko_targetMode row of None \<Rightarrow> False
        | Some m \<Rightarrow> request_field (ko_request row) ''mode'' = Some (CStr (mode_text m)))
   | Act_manual_dispatch \<Rightarrow> schedulable (xp_state plan) \<and>
       (case (ko_nodeKey row, ko_expectedNodeProjectionRevision row) of
          (Some n, Some revision) \<Rightarrow> request_field (ko_request row) ''nodeKey'' = Some (CStr n) \<and>
            request_field (ko_request row) ''expectedNodeProjectionRevision'' = Some (CInt revision) \<and>
            (\<exists>x\<in>set (xs_states s). xn_identity x = \<lparr>en_nodeKey = n, en_planId = ko_planId row,
               en_planRevision = ko_planRevision row\<rparr> \<and> xn_projectionRevision x = revision \<and> xn_runId x = None)
        | _ \<Rightarrow> False)
   | Act_supervised_advance \<Rightarrow> schedulable (xp_state plan))"

definition operation_scope :: "scheduler_operation_row \<Rightarrow> execution_store \<Rightarrow> bool" where
  "operation_scope row s \<longleftrightarrow> request_pinned row \<and>
     (\<exists>plan\<in>set (xs_plans s). xp_planId plan = ko_planId row \<and> xp_currentRevision plan = ko_planRevision row \<and>
        xp_controlRevision plan = ko_planControlRevision row \<and> xp_state plan \<notin> {XP_completed, XP_canceled} \<and>
        (\<exists>q\<in>set (xs_proposals s). xq_planId q = xp_planId plan \<and> xq_revision q = xp_currentRevision plan \<and>
           xq_digest q = ko_planDigest row) \<and>
        (\<exists>c\<in>set (xs_controls s). xc_planId c = xp_planId plan \<and> xc_mode c = ko_expectedMode row \<and>
           xc_modeRevision c = ko_expectedModeRevision row) \<and>
        operation_actor row plan s \<and> operation_target row plan s)"

definition beginOperation ::
  "bool \<Rightarrow> scheduler_operation_row \<Rightarrow> command_store \<Rightarrow> command_store throwing" where
  "beginOperation inTransaction row k =
    bind (ensure inTransaction (ExecutionError ''EXECUTION_TRANSACTION_REQUIRED'')) (\<lambda>_.
    bind (canonicalExecutionJSON (ko_request row)) (\<lambda>_.
    bind (ensure (operation_scope row (ks_execution k)) (Error ''Execution scheduler operation scope is not current'')) (\<lambda>_.
    bind (insert_row operation_conflict row (ks_operations k)) (\<lambda>rows. Inr (k\<lparr>ks_operations := rows\<rparr>)))))"

definition completeOperation ::
  "control_env \<Rightarrow> bool \<Rightarrow> ExecutionSchedulerReceipt \<Rightarrow> command_store \<Rightarrow> command_store throwing" where
  "completeOperation E inTransaction receipt k =
    bind (ensure inTransaction (ExecutionError ''EXECUTION_TRANSACTION_REQUIRED'')) (\<lambda>_.
    bind (assertExecutionCommand (ke_validators E (receipt_kind receipt)) (receipt_json E receipt)) (\<lambda>_.
    bind (canonicalExecutionJSON (receipt_json E receipt)) (\<lambda>_.
    bind (insert_row receipt_conflict (receipt_row receipt) (ks_receipts k))
      (\<lambda>rows. Inr (k\<lparr>ks_receipts := rows\<rparr>)))))"

definition dispatchIntent :: "jstring \<Rightarrow> execution_store \<Rightarrow> jstring throwing" where
  "dispatchIntent runId s =
    (case find (\<lambda>i. xt_runId i = runId) (xs_intents s) of
       None \<Rightarrow> Inl (ExecutionError ''EXECUTION_SCHEDULER_HISTORY_INCONSISTENT'')
     | Some i \<Rightarrow> Inr (xt_intentId i))"

section \<open>Authority\<close>

definition planForMember ::
  "WebPrincipal \<Rightarrow> jstring \<Rightarrow> execution_store \<Rightarrow> (execution_plan_row \<times> execution_plan_proposal_row) throwing" where
  "planForMember who planId s =
    bind (planOf planId s) (\<lambda>found.
    case found of
      None \<Rightarrow> Inl (ExecutionError ''EXECUTION_PLAN_NOT_FOUND'')
    | Some plan \<Rightarrow> bind (requireRoomMember who (xp_roomId (fst plan)) (rs_team (xs_runs s))) (\<lambda>_. Inr plan))"

text \<open>\<^verbatim>\<open>owner\<close>: the Member who may command the scheduler of a plan, with the plan.\<close>

definition schedulerOwner ::
  "WebPrincipal \<Rightarrow> jstring \<Rightarrow> execution_store \<Rightarrow>
   (MemberPrincipal \<times> execution_plan_row \<times> execution_plan_proposal_row) throwing" where
  "schedulerOwner who planId s =
    bind (planForMember who planId s) (\<lambda>(plan, current).
    case taskOf (xp_rootTaskId plan) s of
      None \<Rightarrow> Inl (ExecutionError ''EXECUTION_ROOT_NOT_FOUND'')
    | Some rootTask \<Rightarrow>
        bind (requireRoomMember who (tk_roomId (at_row rootTask)) (rs_team (xs_runs s))) (\<lambda>member.
        bind (ensure (\<not> (mp_role member \<noteq> Owner \<and> mp_memberId member \<noteq> gt_ownerMemberId (at_governed rootTask)))
          (Error ''Task Owner or Team Owner required'')) (\<lambda>_. Inr (member, plan, current))))"

definition getControl :: "WebPrincipal \<Rightarrow> jstring \<Rightarrow> command_store \<Rightarrow> ExecutionSchedulerControl throwing" where
  "getControl who planId k =
    bind (planForMember who planId (ks_execution k)) (\<lambda>(plan, _).
    case schedulerControl (xp_planId plan) (ks_execution k) of
      None \<Rightarrow> Inl (ExecutionError ''EXECUTION_SCHEDULER_CONTROL_UNAVAILABLE'')
    | Some c \<Rightarrow> Inr c)"

definition requirePlanPins ::
  "execution_plan_row \<Rightarrow> execution_plan_proposal_row \<Rightarrow> 'a ExecutionSchedulerAdvanceCommand_scheme \<Rightarrow> unit throwing" where
  "requirePlanPins plan current command =
    ensure (\<not> (xp_currentRevision plan \<noteq> kc_expectedPlanRevision command \<or>
        xq_digest current \<noteq> kc_expectedPlanDigest command \<or>
        xp_controlRevision plan \<noteq> kc_expectedPlanControlRevision command))
      (ExecutionError ''EXECUTION_SCHEDULER_PLAN_CONFLICT'')"

definition requireReason :: "jstring \<Rightarrow> unit throwing" where
  "requireReason reason = ensure (trim reason \<noteq> []) (ExecutionError ''EXECUTION_REASON_REQUIRED'')"

definition modeReplay :: "ExecutionSchedulerReceipt \<Rightarrow> ExecutionSchedulerModeReceipt throwing" where
  "modeReplay receipt = (case receipt of
     ModeReceipt r \<Rightarrow> Inr r | DispatchReceipt _ \<Rightarrow> Inl (ExecutionError ''EXECUTION_OPERATION_CONFLICT''))"

definition dispatchReplay :: "ExecutionSchedulerReceipt \<Rightarrow> ExecutionSchedulerDispatchReceipt throwing" where
  "dispatchReplay receipt = (case receipt of
     DispatchReceipt r \<Rightarrow> Inr r | ModeReceipt _ \<Rightarrow> Inl (ExecutionError ''EXECUTION_OPERATION_CONFLICT''))"

text \<open>What the digest of a request covers: the action, the plan, the node of a manual dispatch, the actor, the command.\<close>

definition request_value :: "string \<Rightarrow> jstring \<Rightarrow> jstring option \<Rightarrow> jstring \<Rightarrow> cjson \<Rightarrow> cjson" where
  "request_value action planId nodeKey memberId command =
    CObj ([(lit ''action'', CStr (lit action)), (lit ''planId'', CStr planId)] @
      (case nodeKey of None \<Rightarrow> [] | Some n \<Rightarrow> [(lit ''nodeKey'', CStr n)]) @
      [(lit ''actor'', CObj [(lit ''kind'', CStr (lit ''member'')), (lit ''memberId'', CStr memberId)]),
       (lit ''command'', command)])"

section \<open>Changing the mode of a plan\<close>

definition mode_operation ::
  "execution_plan_row \<Rightarrow> execution_plan_proposal_row \<Rightarrow> jstring \<Rightarrow> jstring \<Rightarrow> ExecutionSchedulerModeCommand \<Rightarrow>
   ExecutionSchedulerMode \<Rightarrow> jstring \<Rightarrow> timestamp \<Rightarrow> scheduler_operation_row" where
  "mode_operation plan current planId memberId command expectedMode requestDigest now =
    \<lparr>ko_operationId = kc_operationId command, ko_action = Act_mode_transition, ko_planId = planId,
     ko_planRevision = xp_currentRevision plan, ko_planDigest = xq_digest current,
     ko_planControlRevision = xp_controlRevision plan, ko_expectedMode = expectedMode,
     ko_expectedModeRevision = kc_expectedModeRevision command, ko_targetMode = Some (kc_mode command),
     ko_nodeKey = None, ko_expectedNodeProjectionRevision = None, ko_requestedByMemberId = memberId,
     ko_reason = kc_reason command, ko_requestDigest = requestDigest, ko_request = mode_command_json command,
     ko_createdAt = now\<rparr>"

definition mode_receipt ::
  "control_env \<Rightarrow> execution_plan_row \<Rightarrow> execution_plan_proposal_row \<Rightarrow> jstring \<Rightarrow> jstring \<Rightarrow>
   ExecutionSchedulerModeCommand \<Rightarrow> ExecutionSchedulerControl \<Rightarrow> ExecutionSchedulerControl \<Rightarrow> jstring \<Rightarrow> timestamp \<Rightarrow>
   ExecutionSchedulerModeReceipt throwing" where
  "mode_receipt E plan current planId memberId command previous updated requestDigest now =
    (let unsigned = \<lparr>kr_operationId = kc_operationId command, kr_planId = planId,
           kr_planRevision = xp_currentRevision plan, kr_planDigest = xq_digest current,
           kr_planControlRevision = xp_controlRevision plan, kr_previousMode = xc_mode previous,
           kr_previousModeRevision = xc_modeRevision previous, kr_mode = xc_mode updated,
           kr_modeRevision = xc_modeRevision updated, kr_updatedByMemberId = memberId,
           kr_reason = kc_reason command, kr_requestDigest = requestDigest, kr_updatedAt = now,
           kr_operationDigest = []\<rparr> in
     bind (executionOperationDigest (ke_lib E) (CObj (mode_receipt_fields E unsigned)))
       (\<lambda>digest. Inr (unsigned\<lparr>kr_operationDigest := digest\<rparr>)))"

definition setMode ::
  "control_env \<Rightarrow> WebPrincipal \<Rightarrow> jstring \<Rightarrow> ExecutionSchedulerModeCommand \<Rightarrow> timestamp \<Rightarrow> command_store \<Rightarrow>
   (ExecutionSchedulerModeReceipt \<times> command_store) throwing" where
  "setMode E who planId command now k =
    bind (assertExecutionCommand (ke_validators E ''schedulerModeCommand'') (mode_command_json command)) (\<lambda>_.
    bind (requireReason (kc_reason command)) (\<lambda>_.
    bind (schedulerOwner who planId (ks_execution k)) (\<lambda>(member, plan, current).
    bind (executionOperationDigest (ke_lib E) (request_value ''execution_scheduler_mode_v1'' planId None
      (mp_memberId member) (mode_command_json command))) (\<lambda>requestDigest.
    bind (replayReceipt E (kc_operationId command) requestDigest k) (\<lambda>replayed.
    case replayed of
      Some receipt \<Rightarrow> bind (modeReplay receipt) (\<lambda>r. Inr (r, k))
    | None \<Rightarrow>
        bind (requirePlanPins plan current command) (\<lambda>_.
        case schedulerControl planId (ks_execution k) of
          None \<Rightarrow> Inl (ExecutionError ''EXECUTION_SCHEDULER_MODE_CONFLICT'')
        | Some previous \<Rightarrow>
            demand (xc_modeRevision previous = kc_expectedModeRevision command) ''EXECUTION_SCHEDULER_MODE_CONFLICT'' (
            demand (xc_mode previous \<noteq> kc_mode command) ''EXECUTION_SCHEDULER_MODE_UNCHANGED'' (
            bind (beginOperation True (mode_operation plan current planId (mp_memberId member) command
              (xc_mode previous) requestDigest now) k) (\<lambda>k.
            bind (transitionControl
              \<lparr>mt_expectedMode = xc_mode previous, mt_expectedModeRevision = xc_modeRevision previous,
               mt_memberId = mp_memberId member, mt_mode = kc_mode command, mt_now = now,
               mt_operationId = kc_operationId command, mt_planId = planId, mt_reason = kc_reason command\<rparr>
              (ks_execution k)) (\<lambda>(changed, s).
            case changed of
              None \<Rightarrow> Inl (Error ''Cannot read properties of undefined'')
            | Some updated \<Rightarrow>
                let k = k\<lparr>ks_execution := ensureCurrent now s\<rparr> in
                bind (mode_receipt E plan current planId (mp_memberId member) command previous updated
                  requestDigest now) (\<lambda>receipt.
                bind (completeOperation E True (ModeReceipt receipt) k) (\<lambda>k. Inr (receipt, k)))))))))))))"

section \<open>Dispatch and advance\<close>

definition selectionOf ::
  "execution_plan_row \<Rightarrow> RunRecord \<Rightarrow> execution_store \<Rightarrow> dispatch_selection throwing" where
  "selectionOf plan run s =
    (case filter (\<lambda>n. en_planId (xd_identity n) = xp_planId plan \<and>
          en_planRevision (xd_identity n) = xp_currentRevision plan \<and> xd_taskId n = run_taskId run)
        (sort_by (\<lambda>a b. binaryCompare (en_nodeKey (xd_identity a)) (en_nodeKey (xd_identity b))) (xs_nodes s)) of
       [] \<Rightarrow> Inl (Error ''Cannot read properties of undefined'')
     | n # _ \<Rightarrow>
         bind (dispatchIntent (run_runId run) s) (\<lambda>intentId.
         Inr \<lparr>kx_nodeKey = en_nodeKey (xd_identity n), kx_dispatchIntentId = intentId, kx_runId = run_runId run\<rparr>))"

definition dispatchReceipt ::
  "control_env \<Rightarrow> scheduler_action \<Rightarrow> 'a ExecutionSchedulerAdvanceCommand_scheme \<Rightarrow> jstring \<Rightarrow>
   ExecutionSchedulerMode \<Rightarrow> int \<Rightarrow> timestamp \<Rightarrow> execution_plan_row \<Rightarrow> execution_plan_proposal_row \<Rightarrow> jstring \<Rightarrow>
   RunRecord option \<Rightarrow> execution_store \<Rightarrow> ExecutionSchedulerDispatchReceipt throwing" where
  "dispatchReceipt E action command memberId mode modeRevision now plan current requestDigest run s =
    bind (case run of None \<Rightarrow> Inr None | Some r \<Rightarrow> bind (selectionOf plan r s) (\<lambda>x. Inr (Some x))) (\<lambda>selection.
    let unsigned = \<lparr>kd_operationId = kc_operationId command, kd_action = action, kd_planId = xp_planId plan,
          kd_planRevision = xp_currentRevision plan, kd_planDigest = xq_digest current,
          kd_planControlRevision = xp_controlRevision plan, kd_mode = mode, kd_modeRevision = modeRevision,
          kd_requestedByMemberId = memberId, kd_reason = kc_reason command, kd_selection = selection,
          kd_requestDigest = requestDigest, kd_createdAt = now, kd_operationDigest = []\<rparr> in
    bind (executionOperationDigest (ke_lib E) (CObj (dispatch_receipt_fields E unsigned)))
      (\<lambda>digest. Inr (unsigned\<lparr>kd_operationDigest := digest\<rparr>)))"

definition dispatch_operation ::
  "scheduler_action \<Rightarrow> execution_plan_row \<Rightarrow> execution_plan_proposal_row \<Rightarrow> jstring \<Rightarrow> jstring \<Rightarrow>
   'a ExecutionSchedulerAdvanceCommand_scheme \<Rightarrow> cjson \<Rightarrow> ExecutionSchedulerControl \<Rightarrow>
   (jstring \<times> int) option \<Rightarrow> jstring \<Rightarrow> timestamp \<Rightarrow> scheduler_operation_row" where
  "dispatch_operation action plan current planId memberId command request control node requestDigest now =
    \<lparr>ko_operationId = kc_operationId command, ko_action = action, ko_planId = planId,
     ko_planRevision = xp_currentRevision plan, ko_planDigest = xq_digest current,
     ko_planControlRevision = xp_controlRevision plan, ko_expectedMode = xc_mode control,
     ko_expectedModeRevision = xc_modeRevision control, ko_targetMode = None,
     ko_nodeKey = map_option fst node, ko_expectedNodeProjectionRevision = map_option snd node,
     ko_requestedByMemberId = memberId, ko_reason = kc_reason command, ko_requestDigest = requestDigest,
     ko_request = request, ko_createdAt = now\<rparr>"

text \<open>The node a manual dispatch may take: it has no Run and is as the command expects it, and the plan defines it.\<close>

definition dispatchable ::
  "ExecutionNodeIdentity \<Rightarrow> int \<Rightarrow> execution_plan_proposal_row \<Rightarrow> execution_store \<Rightarrow>
   (ExecutionNodeState \<times> PlanNode) throwing" where
  "dispatchable identity expectedProjection current s =
    (case nodeState identity s of
       None \<Rightarrow> Inl (ExecutionError ''EXECUTION_SCHEDULER_NODE_CONFLICT'')
     | Some state \<Rightarrow>
         demand (\<not> (xn_projectionRevision state \<noteq> expectedProjection \<or> xn_runId state \<noteq> None))
           ''EXECUTION_SCHEDULER_NODE_CONFLICT'' (
         case find (\<lambda>n. nd_nodeKey n = en_nodeKey identity) (pl_nodes (xq_definition current)) of
           None \<Rightarrow> Inl (ExecutionError ''EXECUTION_NODE_NOT_FOUND'')
         | Some node \<Rightarrow> Inr (state, node)))"

definition manualDispatch ::
  "control_env \<Rightarrow> WebPrincipal \<Rightarrow> jstring \<Rightarrow> jstring \<Rightarrow> ExecutionSchedulerManualDispatchCommand \<Rightarrow> timestamp \<Rightarrow>
   command_store \<Rightarrow> ((ExecutionSchedulerDispatchReceipt \<times> RunRecord list) \<times> command_store) throwing" where
  "manualDispatch E who planId nodeKey command now k =
    bind (assertExecutionCommand (ke_validators E ''schedulerManualDispatchCommand'') (manual_command_json command)) (\<lambda>_.
    bind (requireReason (kc_reason command)) (\<lambda>_.
    demand (kc_nodeKey command = nodeKey) ''EXECUTION_SCHEDULER_NODE_MISMATCH'' (
    bind (schedulerOwner who planId (ks_execution k)) (\<lambda>(member, plan, current).
    bind (executionOperationDigest (ke_lib E) (request_value ''execution_scheduler_manual_dispatch_v1'' planId
      (Some nodeKey) (mp_memberId member) (manual_command_json command))) (\<lambda>requestDigest.
    bind (replayReceipt E (kc_operationId command) requestDigest k) (\<lambda>replayed.
    case replayed of
      Some receipt \<Rightarrow> bind (dispatchReplay receipt) (\<lambda>r. Inr ((r, []), k))
    | None \<Rightarrow>
        bind (requirePlanPins plan current command) (\<lambda>_.
        bind (requireControl planId Sched_manual (kc_expectedModeRevision command) (ks_execution k)) (\<lambda>control.
        let identity = \<lparr>en_nodeKey = nodeKey, en_planId = planId, en_planRevision = xp_currentRevision plan\<rparr>;
            k = k\<lparr>ks_execution := ensureCurrent now (ks_execution k)\<rparr> in
        bind (dispatchable identity (kc_expectedNodeProjectionRevision command) current (ks_execution k))
          (\<lambda>(state, node).
        bind (beginOperation True (dispatch_operation Act_manual_dispatch plan current planId (mp_memberId member)
          command (manual_command_json command) control (Some (nodeKey, xn_projectionRevision state))
          requestDigest now) k) (\<lambda>k.
        bind (admitScheduled (ke_governed E) identity now
          \<lparr>au_expectedFairnessCursorRevision = fairnessRevision (nd_agentId node) (ks_execution k),
           au_mode = Sched_manual, au_modeRevision = xc_modeRevision control,
           au_operationId = Some (kc_operationId command)\<rparr> (ks_execution k)) (\<lambda>((created, runs), s).
        demand (\<not> (\<not> created \<or> length runs \<noteq> 1)) ''EXECUTION_SCHEDULER_NODE_CONFLICT'' (
        bind (dispatchReceipt E Act_manual_dispatch command (mp_memberId member) Sched_manual
          (xc_modeRevision control) now plan current requestDigest (Some (hd runs)) s) (\<lambda>receipt.
        bind (completeOperation E True (DispatchReceipt receipt) (k\<lparr>ks_execution := s\<rparr>)) (\<lambda>k.
        Inr ((receipt, runs), k)))))))))))))))"

definition advance_options :: "jstring \<Rightarrow> jstring \<Rightarrow> ExecutionSchedulerSweepOptions" where
  "advance_options planId operationId =
    \<lparr>wo_maxAdmissions = Some 1, wo_mode = Some Sched_supervised, wo_operationId = Some operationId,
     wo_planId = Some planId\<rparr>"

text \<open>The sweep of an advance runs inside its transaction; what it throws takes everything back.\<close>

definition advanceScheduler ::
  "control_env \<Rightarrow> bool \<Rightarrow> WebPrincipal \<Rightarrow> jstring \<Rightarrow> ExecutionSchedulerAdvanceCommand \<Rightarrow> timestamp \<Rightarrow>
   command_store \<Rightarrow> ((ExecutionSchedulerDispatchReceipt \<times> RunRecord list) \<times> command_store) throwing" where
  "advanceScheduler E sweeping who planId command now k =
    bind (assertExecutionCommand (ke_validators E ''schedulerAdvanceCommand'') (advance_command_json command)) (\<lambda>_.
    bind (requireReason (kc_reason command)) (\<lambda>_.
    bind (schedulerOwner who planId (ks_execution k)) (\<lambda>(member, plan, current).
    bind (executionOperationDigest (ke_lib E) (request_value ''execution_scheduler_supervised_advance_v1'' planId None
      (mp_memberId member) (advance_command_json command))) (\<lambda>requestDigest.
    bind (replayReceipt E (kc_operationId command) requestDigest k) (\<lambda>replayed.
    case replayed of
      Some receipt \<Rightarrow> bind (dispatchReplay receipt) (\<lambda>r. Inr ((r, []), k))
    | None \<Rightarrow>
        bind (requirePlanPins plan current command) (\<lambda>_.
        bind (requireControl planId Sched_supervised (kc_expectedModeRevision command) (ks_execution k)) (\<lambda>control.
        bind (beginOperation True (dispatch_operation Act_supervised_advance plan current planId (mp_memberId member)
          command (advance_command_json command) control None requestDigest now) k) (\<lambda>k.
        case sweep (ke_sweep E) sweeping (advance_options planId (kc_operationId command)) (ke_clock E)
            (ks_execution k) of
          (Inl e, _) \<Rightarrow> Inl e
        | (Inr runs, s) \<Rightarrow>
            bind (dispatchReceipt E Act_supervised_advance command (mp_memberId member) Sched_supervised
              (xc_modeRevision control) now plan current requestDigest
              (case runs of [] \<Rightarrow> None | r # _ \<Rightarrow> Some r) s) (\<lambda>receipt.
            bind (completeOperation E True (DispatchReceipt receipt) (k\<lparr>ks_execution := s\<rparr>)) (\<lambda>k.
            Inr ((receipt, runs), k)))))))))))"

end
