(* ===== verification/Execution_Commands.thy ===== *)
theory Execution_Commands
  imports Execution_Safety Execution_Control
begin

text \<open>
  What a command of a member did when it returned: it repeated a stored receipt and changed nothing,
  or it appended one operation and one receipt to their tables. From this follow the properties of
  commands: they take effect once, an operation id is bound to one request, and the mode of a plan is
  what the receipts say.
\<close>

section \<open>The three commands\<close>

datatype member_command =
    Change_mode ExecutionSchedulerModeCommand
  | Dispatch_node jstring ExecutionSchedulerManualDispatchCommand
  | Advance_plan bool ExecutionSchedulerAdvanceCommand

fun execute ::
  "control_env \<Rightarrow> WebPrincipal \<Rightarrow> jstring \<Rightarrow> member_command \<Rightarrow> timestamp \<Rightarrow> command_store \<Rightarrow>
   ((ExecutionSchedulerReceipt \<times> RunRecord list) \<times> command_store) throwing" where
  "execute E who p (Change_mode c) now k =
     bind (setMode E who p c now k) (\<lambda>(r, l). Inr ((ModeReceipt r, []), l))"
| "execute E who p (Dispatch_node n c) now k =
     bind (manualDispatch E who p n c now k) (\<lambda>((r, runs), l). Inr ((DispatchReceipt r, runs), l))"
| "execute E who p (Advance_plan sweeping c) now k =
     bind (advanceScheduler E sweeping who p c now k) (\<lambda>((r, runs), l). Inr ((DispatchReceipt r, runs), l))"

fun command_operationId :: "member_command \<Rightarrow> jstring" where
  "command_operationId (Change_mode c) = kc_operationId c"
| "command_operationId (Dispatch_node n c) = kc_operationId c"
| "command_operationId (Advance_plan sweeping c) = kc_operationId c"

fun command_request :: "jstring \<Rightarrow> jstring \<Rightarrow> member_command \<Rightarrow> cjson" where
  "command_request p memberId (Change_mode c) =
     request_value ''execution_scheduler_mode_v1'' p None memberId (mode_command_json c)"
| "command_request p memberId (Dispatch_node n c) =
     request_value ''execution_scheduler_manual_dispatch_v1'' p (Some n) memberId (manual_command_json c)"
| "command_request p memberId (Advance_plan sweeping c) =
     request_value ''execution_scheduler_supervised_advance_v1'' p None memberId (advance_command_json c)"

fun valid_command :: "control_env \<Rightarrow> member_command \<Rightarrow> bool" where
  "valid_command E (Change_mode c) \<longleftrightarrow> trim (kc_reason c) \<noteq> [] \<and>
     assertExecutionCommand (ke_validators E ''schedulerModeCommand'') (mode_command_json c) = Inr ()"
| "valid_command E (Dispatch_node n c) \<longleftrightarrow> trim (kc_reason c) \<noteq> [] \<and> kc_nodeKey c = n \<and>
     assertExecutionCommand (ke_validators E ''schedulerManualDispatchCommand'') (manual_command_json c) = Inr ()"
| "valid_command E (Advance_plan sweeping c) \<longleftrightarrow> trim (kc_reason c) \<noteq> [] \<and>
     assertExecutionCommand (ke_validators E ''schedulerAdvanceCommand'') (advance_command_json c) = Inr ()"

fun answers :: "member_command \<Rightarrow> ExecutionSchedulerReceipt \<Rightarrow> bool" where
  "answers (Change_mode c) (ModeReceipt r) = True"
| "answers (Dispatch_node n c) (DispatchReceipt r) = True"
| "answers (Advance_plan sweeping c) (DispatchReceipt r) = True"
| "answers _ _ = False"

definition requested ::
  "control_env \<Rightarrow> WebPrincipal \<Rightarrow> jstring \<Rightarrow> member_command \<Rightarrow> command_store \<Rightarrow>
   MemberPrincipal \<Rightarrow> execution_plan_row \<Rightarrow> execution_plan_proposal_row \<Rightarrow> jstring \<Rightarrow> bool" where
  "requested E who p c k member plan current digest \<longleftrightarrow> valid_command E c \<and>
     schedulerOwner who p (ks_execution k) = Inr (member, plan, current) \<and>
     executionOperationDigest (ke_lib E) (command_request p (mp_memberId member) c) = Inr digest"

lemma requireReason_Inr: "requireReason x = Inr u \<longleftrightarrow> trim x \<noteq> []"
  by (simp add: requireReason_def throw_simps)

lemma bind_Inr_E: "bind m f = Inr y \<Longrightarrow> (\<And>x. m = Inr x \<Longrightarrow> f x = Inr y \<Longrightarrow> thesis) \<Longrightarrow> thesis"
  by (auto simp: bind_eq_Inr)

lemma replay_kinds:
  "modeReplay receipt = Inr r \<longleftrightarrow> receipt = ModeReceipt r"
  "dispatchReplay receipt = Inr d \<longleftrightarrow> receipt = DispatchReceipt d"
  by (cases receipt; simp add: modeReplay_def dispatchReplay_def)+

lemma setMode_request:
  assumes "setMode E who p c now k = Inr (r, l)"
  obtains member plan current digest replay where "requested E who p (Change_mode c) k member plan current digest"
    "replayReceipt E (kc_operationId c) digest k = Inr replay"
  using assms unfolding setMode_def requested_def
  by (auto simp: requireReason_Inr elim!: bind_Inr_E)

lemma manualDispatch_request:
  assumes "manualDispatch E who p n c now k = Inr (x, l)"
  obtains member plan current digest replay where "requested E who p (Dispatch_node n c) k member plan current digest"
    "replayReceipt E (kc_operationId c) digest k = Inr replay"
  using assms unfolding manualDispatch_def requested_def demand_Inr
  by (auto simp: requireReason_Inr throw_simps elim!: bind_Inr_E)

lemma advance_request:
  assumes "advanceScheduler E sweeping who p c now k = Inr (x, l)"
  obtains member plan current digest replay where "requested E who p (Advance_plan sweeping c) k member plan current digest"
    "replayReceipt E (kc_operationId c) digest k = Inr replay"
  using assms unfolding advanceScheduler_def requested_def
  by (auto simp: requireReason_Inr elim!: bind_Inr_E)

text \<open>A command with a stored receipt returns it.\<close>

lemma setMode_replayed:
  assumes "requested E who p (Change_mode c) k member plan current digest"
    and "replayReceipt E (kc_operationId c) digest k = Inr (Some receipt)"
  shows "setMode E who p c now k = bind (modeReplay receipt) (\<lambda>r. Inr (r, k))"
  using assms by (simp add: setMode_def requested_def requireReason_def ensure_def)

lemma manualDispatch_replayed:
  assumes "requested E who p (Dispatch_node n c) k member plan current digest"
    and "replayReceipt E (kc_operationId c) digest k = Inr (Some receipt)"
  shows "manualDispatch E who p n c now k = bind (dispatchReplay receipt) (\<lambda>r. Inr ((r, []), k))"
  using assms by (simp add: manualDispatch_def requested_def requireReason_def ensure_def demand_def)

lemma advance_replayed:
  assumes "requested E who p (Advance_plan sweeping c) k member plan current digest"
    and "replayReceipt E (kc_operationId c) digest k = Inr (Some receipt)"
  shows "advanceScheduler E sweeping who p c now k = bind (dispatchReplay receipt) (\<lambda>r. Inr ((r, []), k))"
  using assms by (simp add: advanceScheduler_def requested_def requireReason_def ensure_def)

lemma execute_replayed:
  assumes "requested E who p c k member plan current digest"
    and "replayReceipt E (command_operationId c) digest k = Inr (Some receipt)"
  shows "execute E who p c now k = Inr ((x, runs), l) \<longleftrightarrow> answers c receipt \<and> x = receipt \<and> runs = [] \<and> l = k"
  using assms
  by (cases c; cases receipt)
    (auto simp: setMode_replayed manualDispatch_replayed advance_replayed modeReplay_def dispatchReplay_def)

lemma execute_request:
  assumes "execute E who p c now k = Inr (x, l)"
  obtains member plan current digest replay where "requested E who p c k member plan current digest"
    "replayReceipt E (command_operationId c) digest k = Inr replay"
proof (cases c)
  case (Change_mode c')
  with assms obtain r where "setMode E who p c' now k = Inr (r, l)" by (auto elim: bind_Inr_E)
  with Change_mode that show thesis by (auto elim: setMode_request)
next
  case (Dispatch_node n c')
  with assms obtain r where "manualDispatch E who p n c' now k = Inr (r, l)" by (auto elim: bind_Inr_E)
  with Dispatch_node that show thesis by (auto elim: manualDispatch_request)
next
  case (Advance_plan b c')
  with assms obtain r where "advanceScheduler E b who p c' now k = Inr (r, l)" by (auto elim: bind_Inr_E)
  with Advance_plan that show thesis by (auto elim: advance_request)
qed

section \<open>What a first command writes\<close>

definition completed ::
  "control_env \<Rightarrow> scheduler_operation_row \<Rightarrow> ExecutionSchedulerReceipt \<Rightarrow> execution_store \<Rightarrow>
   command_store \<Rightarrow> command_store \<Rightarrow> bool" where
  "completed E operation receipt s k l \<longleftrightarrow>
     l = \<lparr>ks_execution = s, ks_operations = ks_operations k @ [operation], ks_receipts = ks_receipts k @ [receipt_row receipt]\<rparr> \<and>
     conflict_free operation_conflict (ks_operations l) \<and> conflict_free receipt_conflict (ks_receipts l) \<and>
     assertExecutionCommand (ke_validators E (receipt_kind receipt)) (receipt_json E receipt) = Inr () \<and>
     ko_operationId operation = receipt_operationId receipt"

lemma beginOperation_Inr:
  "beginOperation b row k = Inr l \<longleftrightarrow> b \<and> (\<exists>x. canonicalExecutionJSON (ko_request row) = Inr x) \<and>
     operation_scope row (ks_execution k) \<and>
     l = k\<lparr>ks_operations := ks_operations k @ [row]\<rparr> \<and> conflict_free operation_conflict (ks_operations l)"
  by (auto simp: beginOperation_def bind_eq_Inr throw_simps)

lemma completeOperation_Inr:
  "completeOperation E b receipt k = Inr l \<longleftrightarrow> b \<and>
     assertExecutionCommand (ke_validators E (receipt_kind receipt)) (receipt_json E receipt) = Inr () \<and>
     (\<exists>x. canonicalExecutionJSON (receipt_json E receipt) = Inr x) \<and>
     l = k\<lparr>ks_receipts := ks_receipts k @ [receipt_row receipt]\<rparr> \<and> conflict_free receipt_conflict (ks_receipts l)"
  by (auto simp: completeOperation_def bind_eq_Inr throw_simps)

lemma completedI:
  assumes "beginOperation True operation (k\<lparr>ks_execution := e\<rparr>) = Inr k1"
    and "completeOperation E True receipt (k1\<lparr>ks_execution := s\<rparr>) = Inr l"
    and "ko_operationId operation = receipt_operationId receipt"
  shows "completed E operation receipt s k l"
  using assms by (cases k) (auto simp: completed_def beginOperation_Inr completeOperation_Inr)

text \<open>The control a mode receipt describes, and the change it reports.\<close>

definition moded_control ::
  "ExecutionSchedulerModeReceipt \<Rightarrow> ExecutionSchedulerControl \<Rightarrow> ExecutionSchedulerControl" where
  "moded_control r c = c\<lparr>xc_mode := kr_mode r, xc_modeRevision := kr_modeRevision r,
     xc_lastOperationId := Some (kr_operationId r), xc_updatedByMemberId := Some (kr_updatedByMemberId r),
     xc_reason := kr_reason r, xc_updatedAt := kr_updatedAt r\<rparr>"

definition follows :: "ExecutionSchedulerModeReceipt \<Rightarrow> ExecutionSchedulerControl \<Rightarrow> bool" where
  "follows r c \<longleftrightarrow> kr_planId r = xc_planId c \<and> kr_previousMode r = xc_mode c \<and>
     kr_previousModeRevision r = xc_modeRevision c \<and> kr_mode r \<noteq> xc_mode c \<and>
     kr_modeRevision r = xc_modeRevision c + 1"

definition mode_changed :: "ExecutionSchedulerModeReceipt \<Rightarrow> execution_store \<Rightarrow> execution_store \<Rightarrow> bool" where
  "mode_changed r s t \<longleftrightarrow> (\<exists>previous rows. schedulerControl (kr_planId r) s = Some previous \<and> follows r previous \<and>
     t = s\<lparr>xs_controls := rows\<rparr> \<and> (\<forall>p. schedulerControl p t =
       (if p = kr_planId r then Some (moded_control r previous) else schedulerControl p s)))"

lemma control_planId: "schedulerControl p s = Some c \<Longrightarrow> xc_planId c = p"
  by (auto simp: schedulerControl_def dest: find_SomeD)

lemma transitionControl_Inr:
  assumes "transitionControl t s = Inr (c, u)" and "schedulerControl (mt_planId t) s = Some previous"
    and "xc_mode previous = mt_expectedMode t" and "xc_modeRevision previous = mt_expectedModeRevision t"
  shows "\<exists>rows. u = s\<lparr>xs_controls := rows\<rparr> \<and>
    (\<forall>p. schedulerControl p u = (if p = mt_planId t
      then Some (previous\<lparr>xc_mode := mt_mode t, xc_modeRevision := xc_modeRevision previous + 1,
        xc_lastOperationId := Some (mt_operationId t), xc_updatedByMemberId := Some (mt_memberId t),
        xc_reason := mt_reason t, xc_updatedAt := mt_now t\<rparr>)
      else schedulerControl p s)) \<and> c = schedulerControl (mt_planId t) u"
proof -
  let ?P = "\<lambda>c. xc_planId c = mt_planId t \<and> xc_mode c = mt_expectedMode t \<and> xc_modeRevision c = mt_expectedModeRevision t"
  let ?f = "\<lambda>c. c\<lparr>xc_mode := mt_mode t, xc_modeRevision := xc_modeRevision c + 1, xc_lastOperationId := Some (mt_operationId t),
    xc_updatedByMemberId := Some (mt_memberId t), xc_reason := mt_reason t, xc_updatedAt := mt_now t\<rparr>"
  from assms(1) have u: "u = s\<lparr>xs_controls := map (\<lambda>c. if ?P c then ?f c else c) (xs_controls s)\<rparr>"
    and c: "c = schedulerControl (mt_planId t) u"
    by (auto simp: transitionControl_def bind_eq_Inr throw_simps Let_def)
  have found: "schedulerControl p u = map_option (\<lambda>c. if ?P c then ?f c else c) (schedulerControl p s)" for p
    unfolding u schedulerControl_def by (simp add: controls.find_update[where P = ?P and f = ?f])
  have "schedulerControl p u = (if p = mt_planId t then Some (?f previous) else schedulerControl p s)" for p
    using found[of p] assms(2-4) control_planId[of p s] by (cases "schedulerControl p s") auto
  with u c show ?thesis by blast
qed

lemma mode_receipt_Inr:
  "mode_receipt E plan current planId memberId command previous updated requestDigest now = Inr r \<Longrightarrow>
   kr_operationId r = kc_operationId command \<and> kr_planId r = planId \<and> kr_previousMode r = xc_mode previous \<and>
   kr_previousModeRevision r = xc_modeRevision previous \<and> kr_mode r = xc_mode updated \<and>
   kr_modeRevision r = xc_modeRevision updated \<and> kr_updatedByMemberId r = memberId \<and> kr_reason r = kc_reason command \<and>
   kr_requestDigest r = requestDigest \<and> kr_updatedAt r = now"
  by (auto simp: mode_receipt_def bind_eq_Inr Let_def)

lemma mode_changedI:
  assumes trans: "transitionControl \<lparr>mt_expectedMode = xc_mode previous, mt_expectedModeRevision = xc_modeRevision previous,
      mt_memberId = m, mt_mode = kc_mode command, mt_now = now, mt_operationId = kc_operationId command,
      mt_planId = planId, mt_reason = kc_reason command\<rparr> s = Inr (Some updated, t)"
    and previous: "schedulerControl planId s = Some previous" and new: "xc_mode previous \<noteq> kc_mode command"
    and receipt: "mode_receipt E plan current planId m command previous updated digest now = Inr r"
  shows "mode_changed r s t"
proof -
  let ?c = "previous\<lparr>xc_mode := kc_mode command, xc_modeRevision := xc_modeRevision previous + 1,
    xc_lastOperationId := Some (kc_operationId command), xc_updatedByMemberId := Some m,
    xc_reason := kc_reason command, xc_updatedAt := now\<rparr>"
  have "\<exists>rows. t = s\<lparr>xs_controls := rows\<rparr> \<and>
      (\<forall>p. schedulerControl p t = (if p = planId then Some ?c else schedulerControl p s)) \<and>
      Some updated = schedulerControl planId t"
    using transitionControl_Inr[OF trans, of previous] previous by simp
  then obtain rows where t: "t = s\<lparr>xs_controls := rows\<rparr>" and
    controls: "\<forall>p. schedulerControl p t = (if p = planId then Some ?c else schedulerControl p s)" and
    updated: "Some updated = schedulerControl planId t" by blast
  from updated controls have up: "updated = ?c" by simp
  note r = mode_receipt_Inr[OF receipt]
  have moded: "moded_control r previous = ?c" using r by (simp add: moded_control_def up)
  have linked: "follows r previous"
    using r new control_planId[OF previous] by (simp add: follows_def up)
  have plan: "kr_planId r = planId" using r by simp
  have "\<forall>p. schedulerControl p t = (if p = planId then Some (moded_control r previous) else schedulerControl p s)"
    using controls unfolding moded by simp
  then show ?thesis
    unfolding mode_changed_def plan using previous linked t by (intro exI[of _ previous] exI[of _ rows] conjI)
qed

text \<open>How the execution store of a first command comes about.\<close>

fun written_by ::
  "control_env \<Rightarrow> member_command \<Rightarrow> timestamp \<Rightarrow> RunRecord list \<Rightarrow> execution_store \<Rightarrow> execution_store \<Rightarrow> bool" where
  "written_by E (Change_mode c) now runs s t \<longleftrightarrow> (\<exists>rows. t = ensureCurrent now (s\<lparr>xs_controls := rows\<rparr>))"
| "written_by E (Dispatch_node n c) now runs s t \<longleftrightarrow>
     (\<exists>i a. admitScheduled (ke_governed E) i now a (ensureCurrent now s) = Inr ((True, runs), t))"
| "written_by E (Advance_plan sweeping c) now runs s t \<longleftrightarrow>
     (\<exists>options. sweep (ke_sweep E) sweeping options (ke_clock E) s = (Inr runs, t))"

lemma setMode_first:
  assumes "setMode E who p c now k = Inr (r, l)" and "requested E who p (Change_mode c) k member plan current d"
    and "replayReceipt E (kc_operationId c) d k = Inr None"
  shows "\<exists>operation s. completed E operation (ModeReceipt r) (ensureCurrent now s) k l \<and>
    ko_operationId operation = kc_operationId c \<and> ko_requestDigest operation = d \<and>
    mode_changed r (ks_execution k) s \<and> kr_planId r = p"
proof -
  from assms obtain previous k1 s updated where
    previous: "schedulerControl p (ks_execution k) = Some previous" and
    new: "xc_mode previous \<noteq> kc_mode c" and
    begun: "beginOperation True (mode_operation plan current p (mp_memberId member) c (xc_mode previous) d now) k = Inr k1" and
    trans: "transitionControl \<lparr>mt_expectedMode = xc_mode previous, mt_expectedModeRevision = xc_modeRevision previous,
             mt_memberId = mp_memberId member, mt_mode = kc_mode c, mt_now = now,
             mt_operationId = kc_operationId c, mt_planId = p, mt_reason = kc_reason c\<rparr>
            (ks_execution k1) = Inr (Some updated, s)" and
    receipt: "mode_receipt E plan current p (mp_memberId member) c previous updated d now = Inr r" and
    finish: "completeOperation E True (ModeReceipt r) (k1\<lparr>ks_execution := ensureCurrent now s\<rparr>) = Inr l"
    unfolding setMode_def requested_def by (auto simp: bind_eq_Inr case_Inr throw_simps Let_def)
  let ?op = "mode_operation plan current p (mp_memberId member) c (xc_mode previous) d now"
  have ex: "ks_execution k1 = ks_execution k" using begun by (simp add: beginOperation_Inr)
  note r = mode_receipt_Inr[OF receipt]
  have "completed E ?op (ModeReceipt r) (ensureCurrent now s) k l"
    by (rule completedI[where e = "ks_execution k", OF _ finish])
      (use begun r in \<open>simp_all add: mode_operation_def receipt_operationId_def\<close>)
  moreover have "mode_changed r (ks_execution k) s"
    by (rule mode_changedI[OF trans[unfolded ex] previous new receipt])
  moreover have "ko_operationId ?op = kc_operationId c" "ko_requestDigest ?op = d" by (simp_all add: mode_operation_def)
  ultimately show ?thesis using r by blast
qed

text \<open>What a dispatch writes: at most one intent, of the operation the receipt names, and its Run.\<close>

definition dispatch_effect :: "jstring option \<Rightarrow> RunRecord list \<Rightarrow> execution_store \<Rightarrow> execution_store \<Rightarrow> bool" where
  "dispatch_effect operationId runs s t \<longleftrightarrow> xs_controls t = xs_controls s \<and>
     (\<exists>added. xs_intents t = xs_intents s @ added \<and> length added \<le> 1 \<and> map run_runId runs = map xt_runId added \<and>
        list_all (\<lambda>x. xt_schedulerOperationId x = operationId) added)"

definition selected :: "RunRecord option \<Rightarrow> execution_store \<Rightarrow> dispatch_selection option \<Rightarrow> bool" where
  "selected run s selection \<longleftrightarrow> map_option kx_runId selection = map_option run_runId run \<and>
     (case selection of None \<Rightarrow> True | Some x \<Rightarrow>
        list_ex (\<lambda>i. xt_intentId i = kx_dispatchIntentId x \<and> xt_runId i = kx_runId x) (xs_intents s))"

lemma admitScheduled_effect:
  assumes "admitScheduled E i now a s = Inr ((True, runs), t)"
  shows "dispatch_effect (au_operationId a) runs s t"
proof -
  from admitScheduled_Inr[OF assms] obtain team n input scope where
    w: "write_admission E input scope Source_scheduler None (Some a) (posted s team n) = Inr ((True, runs), t)" by auto
  then obtain intent run m fairness c where run: "runs = [run]" "run_runId run = xt_runId intent" and
    intent: "xt_schedulerOperationId intent = au_operationId a" and
    adv: "advanceFairness True fairness (admission_of intent run m (posted s team n)) = Inr (c, t)"
    using write_admission_Inr[OF w] by auto
  from advanceFairness_Inr[OF adv] have "xs_intents t = xs_intents s @ [intent]" "xs_controls t = xs_controls s"
    by (auto simp: admission_of_def posted_def)
  with run intent show ?thesis by (simp add: dispatch_effect_def)
qed

lemma sweep_effect:
  assumes run: "sweep V sweeping options now s = (Inr runs, t)" and one: "wo_maxAdmissions options = Some 1"
  shows "dispatch_effect (wo_operationId options) runs s t"
proof -
  let ?F = "sweep_frame_of V options now"
  have frame: "sf_maxAdmissions ?F \<le> 1" "sf_operationId ?F = wo_operationId options"
    using one by (simp_all add: sweep_frame_of_def)
  have "kept_mode ?F s s" "admitted_intents (sf_maxAdmissions ?F) s [] s"
    by (simp_all add: kept_mode_def admitted_intents_def)
  note starts = this
  have "kept_mode ?F s t"
    using sweep_mode.sweep_keeps[where V = V and s = s and ?s0.0 = s and options = options and now = now
        and sweeping = sweeping, OF starts(1) refl] by (simp add: run)
  moreover obtain rs where "runs = distinct_runs rs" "admitted_intents (sf_maxAdmissions ?F) s rs t"
    using sweep_admitted.sweep_keeps[where V = V and s = s and ?s0.0 = s and options = options and now = now
        and sweeping = sweeping, OF starts(2) refl] by (auto simp: run)
  moreover from this have "runs = rs" by (auto simp: admitted_intents_def intro!: distinct_runs_id)
  ultimately show ?thesis
    using frame by (auto simp: dispatch_effect_def kept_mode_def admitted_intents_def list_all_iff dispatched_in_mode_def)
qed

lemma dispatchReceipt_Inr:
  assumes "dispatchReceipt E action command m mode n now plan current d run s = Inr r"
  shows "kd_operationId r = kc_operationId command \<and> kd_action r = action \<and> kd_planId r = xp_planId plan \<and>
    kd_mode r = mode \<and> kd_modeRevision r = n \<and> kd_requestDigest r = d \<and> selected run s (kd_selection r)"
proof -
  have found: "selected (Some x) s (Some sel)" if "selectionOf plan x s = Inr sel" for x sel
    using that by (auto simp: selectionOf_def dispatchIntent_def selected_def list_ex_iff bind_eq_Inr
        split: list.splits option.splits dest!: find_SomeD)
  from assms show ?thesis
    by (cases run) (auto simp: dispatchReceipt_def bind_eq_Inr Let_def found, simp add: selected_def)
qed

lemma requireControl_Inr:
  "requireControl p mode n s = Inr c \<longleftrightarrow> schedulerControl p s = Some c \<and> xc_mode c = mode \<and> xc_modeRevision c = n"
  by (auto simp: requireControl_def throw_simps split: option.splits)

text \<open>A first dispatch: the receipt describes it, and the plan was in the mode of the receipt.\<close>

definition dispatched ::
  "jstring \<Rightarrow> ExecutionSchedulerDispatchReceipt \<Rightarrow> RunRecord list \<Rightarrow> execution_store \<Rightarrow> execution_store \<Rightarrow> bool" where
  "dispatched p r runs s t \<longleftrightarrow> dispatch_effect (Some (kd_operationId r)) runs s t \<and>
     selected (case runs of [] \<Rightarrow> None | x # _ \<Rightarrow> Some x) t (kd_selection r) \<and>
     map_option (\<lambda>c. (xc_mode c, xc_modeRevision c)) (schedulerControl p s) = Some (kd_mode r, kd_modeRevision r)"

lemma manualDispatch_first:
  assumes "manualDispatch E who p n c now k = Inr ((r, runs), l)"
    and "requested E who p (Dispatch_node n c) k member plan current d"
    and "replayReceipt E (kc_operationId c) d k = Inr None"
  shows "\<exists>operation s. completed E operation (DispatchReceipt r) s k l \<and>
    ko_operationId operation = kc_operationId c \<and> ko_requestDigest operation = d \<and>
    dispatched p r runs (ks_execution k) s \<and> length runs = 1 \<and> kd_mode r = Sched_manual \<and>
    written_by E (Dispatch_node n c) now runs (ks_execution k) s"
proof -
  let ?i = "\<lparr>en_nodeKey = n, en_planId = p, en_planRevision = xp_currentRevision plan\<rparr>"
  let ?e = "ensureCurrent now (ks_execution k)"
  from assms obtain control and state :: ExecutionNodeState and node :: PlanNode and k1 s where
    control: "requireControl p Sched_manual (kc_expectedModeRevision c) (ks_execution k) = Inr control" and
    begun: "beginOperation True (dispatch_operation Act_manual_dispatch plan current p (mp_memberId member) c
        (manual_command_json c) control (Some (n, xn_projectionRevision state)) d now) (k\<lparr>ks_execution := ?e\<rparr>) = Inr k1" and
    admitted: "admitScheduled (ke_governed E) ?i now
        \<lparr>au_expectedFairnessCursorRevision = fairnessRevision (nd_agentId node) (ks_execution k1),
         au_mode = Sched_manual, au_modeRevision = xc_modeRevision control,
         au_operationId = Some (kc_operationId c)\<rparr> (ks_execution k1) = Inr ((True, runs), s)" and
    one: "length runs = 1" and
    receipt: "dispatchReceipt E Act_manual_dispatch c (mp_memberId member) Sched_manual
        (xc_modeRevision control) now plan current d (Some (hd runs)) s = Inr r" and
    finish: "completeOperation E True (DispatchReceipt r) (k1\<lparr>ks_execution := s\<rparr>) = Inr l"
    unfolding manualDispatch_def requested_def
    by (auto simp: bind_eq_Inr case_Inr throw_simps Let_def)
  have ex: "ks_execution k1 = ?e" using begun by (simp add: beginOperation_Inr)
  note r = dispatchReceipt_Inr[OF receipt]
  from one obtain x where x: "runs = [x]" by (cases runs) auto
  have "dispatch_effect (Some (kc_operationId c)) runs (ks_execution k) s"
    using admitScheduled_effect[OF admitted] ex by (simp add: dispatch_effect_def ensureCurrent_def)
  then have effect: "dispatched p r runs (ks_execution k) s"
    using r control x by (simp add: dispatched_def requireControl_Inr)
  have "completed E (dispatch_operation Act_manual_dispatch plan current p (mp_memberId member) c
      (manual_command_json c) control (Some (n, xn_projectionRevision state)) d now) (DispatchReceipt r) s k l"
    by (rule completedI[OF begun finish]) (use r in \<open>simp add: dispatch_operation_def receipt_operationId_def\<close>)
  moreover have "written_by E (Dispatch_node n c) now runs (ks_execution k) s" using admitted ex by auto
  ultimately show ?thesis using effect one r
    by (intro exI conjI) (assumption | simp add: dispatch_operation_def)+
qed

lemma case_swept:
  "(case x of (Inl e, t) \<Rightarrow> Inl e | (Inr runs, t) \<Rightarrow> f runs t) = Inr y \<longleftrightarrow>
   (\<exists>runs t. x = (Inr runs, t) \<and> f runs t = Inr y)"
  by (cases x; cases "fst x") auto

lemma advance_first:
  assumes "advanceScheduler E sweeping who p c now k = Inr ((r, runs), l)"
    and "requested E who p (Advance_plan sweeping c) k member plan current d"
    and "replayReceipt E (kc_operationId c) d k = Inr None"
  shows "\<exists>operation s. completed E operation (DispatchReceipt r) s k l \<and>
    ko_operationId operation = kc_operationId c \<and> ko_requestDigest operation = d \<and>
    dispatched p r runs (ks_execution k) s \<and> kd_mode r = Sched_supervised \<and>
    written_by E (Advance_plan sweeping c) now runs (ks_execution k) s"
proof -
  from assms obtain control k1 s where
    control: "requireControl p Sched_supervised (kc_expectedModeRevision c) (ks_execution k) = Inr control" and
    begun: "beginOperation True (dispatch_operation Act_supervised_advance plan current p (mp_memberId member) c
        (advance_command_json c) control None d now) k = Inr k1" and
    swept: "sweep (ke_sweep E) sweeping (advance_options p (kc_operationId c)) (ke_clock E) (ks_execution k1) = (Inr runs, s)" and
    receipt: "dispatchReceipt E Act_supervised_advance c (mp_memberId member) Sched_supervised
        (xc_modeRevision control) now plan current d (case runs of [] \<Rightarrow> None | x # _ \<Rightarrow> Some x) s = Inr r" and
    finish: "completeOperation E True (DispatchReceipt r) (k1\<lparr>ks_execution := s\<rparr>) = Inr l"
    unfolding advanceScheduler_def requested_def
    by (auto simp: bind_eq_Inr case_swept throw_simps Let_def)
  have ex: "ks_execution k1 = ks_execution k" using begun by (simp add: beginOperation_Inr)
  note r = dispatchReceipt_Inr[OF receipt]
  have "dispatch_effect (Some (kc_operationId c)) runs (ks_execution k) s"
    using sweep_effect[OF swept] ex by (simp add: advance_options_def)
  then have effect: "dispatched p r runs (ks_execution k) s"
    using r control by (simp add: dispatched_def requireControl_Inr)
  have "completed E (dispatch_operation Act_supervised_advance plan current p (mp_memberId member) c
      (advance_command_json c) control None d now) (DispatchReceipt r) s k l"
    by (rule completedI[where e = "ks_execution k", OF _ finish])
      (use begun r in \<open>simp_all add: dispatch_operation_def receipt_operationId_def\<close>)
  moreover have "written_by E (Advance_plan sweeping c) now runs (ks_execution k) s" using swept ex by auto
  ultimately show ?thesis using effect r
    by (intro exI conjI) (assumption | simp add: dispatch_operation_def)+
qed

section \<open>A command is repeated or takes effect\<close>

definition first_effect ::
  "jstring \<Rightarrow> timestamp \<Rightarrow> ExecutionSchedulerReceipt \<Rightarrow> RunRecord list \<Rightarrow> execution_store \<Rightarrow> execution_store \<Rightarrow> bool" where
  "first_effect p now receipt runs s t \<longleftrightarrow> (case receipt of
     ModeReceipt r \<Rightarrow> kr_planId r = p \<and> runs = [] \<and> (\<exists>u. mode_changed r s u \<and> t = ensureCurrent now u)
   | DispatchReceipt r \<Rightarrow> dispatched p r runs s t)"

definition mode_of_command :: "member_command \<Rightarrow> RunRecord list \<Rightarrow> ExecutionSchedulerReceipt \<Rightarrow> bool" where
  "mode_of_command c runs receipt \<longleftrightarrow> (case (c, receipt) of
     (Change_mode _, ModeReceipt _) \<Rightarrow> True
   | (Dispatch_node _ _, DispatchReceipt r) \<Rightarrow> kd_mode r = Sched_manual \<and> length runs = 1
   | (Advance_plan _ _, DispatchReceipt r) \<Rightarrow> kd_mode r = Sched_supervised
   | _ \<Rightarrow> False)"

lemma execute_first:
  assumes "execute E who p c now k = Inr ((receipt, runs), l)" and "requested E who p c k member plan current d"
    and "replayReceipt E (command_operationId c) d k = Inr None"
  shows "\<exists>operation s. completed E operation receipt s k l \<and> ko_operationId operation = command_operationId c \<and>
    ko_requestDigest operation = d \<and> first_effect p now receipt runs (ks_execution k) s \<and> mode_of_command c runs receipt \<and>
    written_by E c now runs (ks_execution k) s"
proof (cases c)
  case (Change_mode c')
  with assms(1) obtain r where "setMode E who p c' now k = Inr (r, l)" "receipt = ModeReceipt r" "runs = []"
    by (auto elim!: bind_Inr_E)
  with setMode_first[of E who p c' now k r l member plan current d] assms(2,3) Change_mode obtain operation s where
    "completed E operation receipt (ensureCurrent now s) k l" "ko_operationId operation = command_operationId c"
    "ko_requestDigest operation = d" "mode_changed r (ks_execution k) s" "kr_planId r = p" "receipt = ModeReceipt r" "runs = []"
    by auto
  moreover from this have "written_by E c now runs (ks_execution k) (ensureCurrent now s)"
    using Change_mode by (auto simp: mode_changed_def)
  ultimately show ?thesis using Change_mode by (intro exI conjI) (auto simp: first_effect_def mode_of_command_def)
next
  case (Dispatch_node n c')
  with assms(1) obtain r where "manualDispatch E who p n c' now k = Inr ((r, runs), l)" "receipt = DispatchReceipt r"
    by (auto elim!: bind_Inr_E)
  with manualDispatch_first[of E who p n c' now k r runs l member plan current d] assms(2,3) Dispatch_node
  obtain operation s where "completed E operation receipt s k l" "ko_operationId operation = command_operationId c"
    "ko_requestDigest operation = d" "dispatched p r runs (ks_execution k) s" "length runs = 1"
    "kd_mode r = Sched_manual" "receipt = DispatchReceipt r"
    "written_by E c now runs (ks_execution k) s" by auto
  with Dispatch_node show ?thesis by (intro exI conjI) (auto simp: first_effect_def mode_of_command_def)
next
  case (Advance_plan b c')
  with assms(1) obtain r where "advanceScheduler E b who p c' now k = Inr ((r, runs), l)" "receipt = DispatchReceipt r"
    by (auto elim!: bind_Inr_E)
  with advance_first[of E b who p c' now k r runs l member plan current d] assms(2,3) Advance_plan
  obtain operation s where "completed E operation receipt s k l" "ko_operationId operation = command_operationId c"
    "ko_requestDigest operation = d" "dispatched p r runs (ks_execution k) s"
    "kd_mode r = Sched_supervised" "receipt = DispatchReceipt r"
    "written_by E c now runs (ks_execution k) s" by auto
  with Advance_plan show ?thesis by (intro exI conjI) (auto simp: first_effect_def mode_of_command_def)
qed

lemma execute_cases:
  assumes "execute E who p c now k = Inr ((receipt, runs), l)"
  obtains (repeated) member plan current d where "requested E who p c k member plan current d"
      "replayReceipt E (command_operationId c) d k = Inr (Some receipt)" "answers c receipt" "runs = []" "l = k"
    | (first) member plan current d operation s where "requested E who p c k member plan current d"
      "replayReceipt E (command_operationId c) d k = Inr None" "completed E operation receipt s k l"
      "ko_operationId operation = command_operationId c" "ko_requestDigest operation = d"
      "first_effect p now receipt runs (ks_execution k) s" "mode_of_command c runs receipt"
      "written_by E c now runs (ks_execution k) s"
proof -
  obtain member plan current d replay where req: "requested E who p c k member plan current d" and
    replay: "replayReceipt E (command_operationId c) d k = Inr replay" using execute_request[OF assms] .
  show thesis
  proof (cases replay)
    case None
    with execute_first[OF assms req] replay first[OF req] show thesis by blast
  next
    case (Some x)
    with execute_replayed[OF req] replay assms repeated[OF req] show thesis by auto
  qed
qed

text \<open>Later stores: rows are appended to the tables of operations and receipts.\<close>

definition continues :: "command_store \<Rightarrow> command_store \<Rightarrow> bool" where
  "continues k l \<longleftrightarrow> (\<exists>xs. ks_operations l = ks_operations k @ xs) \<and> (\<exists>xs. ks_receipts l = ks_receipts k @ xs)"

lemma find_prefix: "find P xs = Some x \<Longrightarrow> find P (xs @ ys) = Some x"
  by (induction xs) auto

definition bound_operation :: "control_env \<Rightarrow> jstring \<Rightarrow> jstring \<Rightarrow> ExecutionSchedulerReceipt \<Rightarrow> command_store \<Rightarrow> bool" where
  "bound_operation E operationId d receipt k \<longleftrightarrow> (\<exists>operation row.
     find (\<lambda>x. ko_operationId x = operationId) (ks_operations k) = Some operation \<and> ko_requestDigest operation = d \<and>
     find (\<lambda>x. kp_operationId x = operationId) (ks_receipts k) = Some row \<and> kp_response row = receipt \<and>
     assertExecutionCommand (ke_validators E (receipt_kind receipt)) (receipt_json E receipt) = Inr ())"

lemma bound_continues: "bound_operation E i d receipt k \<Longrightarrow> continues k l \<Longrightarrow> bound_operation E i d receipt l"
  by (auto simp: bound_operation_def continues_def find_prefix)

lemma bound_replay:
  "bound_operation E i d receipt k \<Longrightarrow>
   replayReceipt E i d' k = (if d' = d then Inr (Some receipt) else Inl (ExecutionError ''EXECUTION_OPERATION_CONFLICT''))"
  by (auto simp: bound_operation_def replayReceipt_def ensure_def)

lemma replay_bound: "replayReceipt E i d k = Inr (Some receipt) \<Longrightarrow> bound_operation E i d receipt k"
  by (auto simp: bound_operation_def replayReceipt_def throw_simps split: option.splits)

lemma completed_bound:
  assumes "completed E operation receipt s k l"
  shows "bound_operation E (ko_operationId operation) (ko_requestDigest operation) receipt l"
proof -
  have row: "kp_operationId (receipt_row receipt) = ko_operationId operation" "kp_response (receipt_row receipt) = receipt"
    using assms by (auto simp: completed_def receipt_row_def receipt_operationId_def split: ExecutionSchedulerReceipt.splits)
  from assms have free: "conflict_free operation_conflict (ks_operations k @ [operation])"
    "conflict_free receipt_conflict (ks_receipts k @ [receipt_row receipt])" by (auto simp: completed_def)
  show ?thesis
    using assms operations.find_insert[OF free(1), of "ko_operationId operation"]
      receipts.find_insert[OF free(2), of "ko_operationId operation"] row
    by (auto simp: bound_operation_def completed_def)
qed

lemma executed_bound:
  assumes "execute E who p c now k = Inr ((receipt, runs), l)"
  obtains member plan current d where "requested E who p c k member plan current d" "answers c receipt"
    "bound_operation E (command_operationId c) d receipt l" "continues k l"
  using assms
proof (cases rule: execute_cases)
  case (repeated member plan current d)
  with that replay_bound show thesis by (auto simp: continues_def)
next
  case (first member plan current d operation s)
  moreover have "answers c receipt" using first(7)
    by (auto simp: mode_of_command_def split: member_command.splits ExecutionSchedulerReceipt.splits)
  ultimately show thesis
    using that[OF first(1)] completed_bound[OF first(3)] by (auto simp: continues_def completed_def)
qed

definition acting_member :: "WebPrincipal \<Rightarrow> jstring \<Rightarrow> command_store \<Rightarrow> jstring option" where
  "acting_member who p k = (case schedulerOwner who p (ks_execution k) of
     Inl e \<Rightarrow> None | Inr (member, plan, current) \<Rightarrow> Some (mp_memberId member))"

lemma requested_acting: "requested E who p c k member plan current d \<Longrightarrow> acting_member who p k = Some (mp_memberId member)"
  by (simp add: requested_def acting_member_def)

lemma acting_same:
  "xs_plans t = xs_plans s \<Longrightarrow> xs_proposals t = xs_proposals s \<Longrightarrow> xs_tasks t = xs_tasks s \<Longrightarrow> xs_runs t = xs_runs s \<Longrightarrow>
   ks_execution k = s \<Longrightarrow> ks_execution l = t \<Longrightarrow> acting_member who p l = acting_member who p k"
  by (simp add: acting_member_def schedulerOwner_def planForMember_def planOf_def taskOf_def cong: option.case_cong)

lemma repeated_execution:
  assumes "execute E who p c now k = Inr ((receipt, runs), l)" and "continues l m"
    and "acting_member who p m = acting_member who p k"
  shows "execute E who p c later m = Inr ((receipt, []), m)"
  using assms(1)
proof (cases rule: executed_bound)
  case (1 member plan current d)
  from requested_acting[OF 1(1)] assms(3) obtain member' plan' current' where
    "schedulerOwner who p (ks_execution m) = Inr (member', plan', current')" "mp_memberId member' = mp_memberId member"
    by (auto simp: acting_member_def split: sum.splits)
  with 1(1) have "requested E who p c m member' plan' current' d" by (simp add: requested_def)
  then show ?thesis
    using execute_replayed[of E who p c m member' plan' current' d receipt]
      bound_replay[OF bound_continues[OF 1(3) assms(2)]] 1(2) by simp
qed

lemma unauthorized_execution:
  assumes "acting_member who p m = None"
  shows "\<exists>e. execute E who p c now m = Inl e"
proof (cases "execute E who p c now m")
  case (Inr answer)
  obtain receipt runs l where "execute E who p c now m = Inr ((receipt, runs), l)" using Inr by (cases answer) auto
  then show ?thesis
  proof (cases rule: executed_bound)
    case (1 member plan current d)
    from requested_acting[OF 1(1)] assms show ?thesis by simp
  qed
qed blast

section \<open>Histories\<close>

text \<open>
  A step of the server: a command of a member, or anything else, which leaves the tables of
  operations and receipts and the existing controls alone (a sweep, a settlement, an admission, the
  approval of a plan, which inserts its control).
\<close>

inductive command_step :: "command_store \<Rightarrow> command_store \<Rightarrow> bool" where
  step_command: "execute E who p c now k = Inr (answer, l) \<Longrightarrow> command_step k l"
| step_other: "ks_operations l = ks_operations k \<Longrightarrow> ks_receipts l = ks_receipts k \<Longrightarrow>
    (\<And>p c. schedulerControl p (ks_execution k) = Some c \<Longrightarrow> schedulerControl p (ks_execution l) = Some c) \<Longrightarrow>
    command_step k l"

abbreviation command_steps :: "command_store \<Rightarrow> command_store \<Rightarrow> bool" where
  "command_steps \<equiv> command_step\<^sup>*\<^sup>*"

fun mode_receipts :: "jstring \<Rightarrow> scheduler_receipt_row list \<Rightarrow> ExecutionSchedulerModeReceipt list" where
  "mode_receipts p [] = []"
| "mode_receipts p (x # xs) = (case kp_response x of
     ModeReceipt r \<Rightarrow> if kr_planId r = p then r # mode_receipts p xs else mode_receipts p xs
   | DispatchReceipt r \<Rightarrow> mode_receipts p xs)"

text \<open>The control after some mode receipts, each of which has to start where the one before it ended.\<close>

fun replay_modes :: "ExecutionSchedulerControl \<Rightarrow> ExecutionSchedulerModeReceipt list \<Rightarrow> ExecutionSchedulerControl option" where
  "replay_modes c [] = Some c"
| "replay_modes c (r # rs) = (if follows r c then replay_modes (moded_control r c) rs else None)"

lemma mode_receipts_append: "mode_receipts p (xs @ ys) = mode_receipts p xs @ mode_receipts p ys"
  by (induction xs) (auto split: ExecutionSchedulerReceipt.splits)

lemma replay_modes_append: "replay_modes c (rs @ qs) = Option.bind (replay_modes c rs) (\<lambda>d. replay_modes d qs)"
  by (induction rs arbitrary: c) auto

definition recorded :: "jstring \<Rightarrow> ExecutionSchedulerControl \<Rightarrow> command_store \<Rightarrow> command_store \<Rightarrow> bool" where
  "recorded p c k l \<longleftrightarrow> (\<exists>operations receipts. ks_operations l = ks_operations k @ operations \<and>
     ks_receipts l = ks_receipts k @ receipts \<and> map ko_operationId operations = map kp_operationId receipts \<and>
     replay_modes c (mode_receipts p receipts) \<noteq> None \<and>
     schedulerControl p (ks_execution l) = replay_modes c (mode_receipts p receipts))"

lemma controls_ensured: "schedulerControl p (ensureCurrent now s) = schedulerControl p s"
  by (simp add: schedulerControl_def ensureCurrent_def)

lemma first_mode:
  assumes "first_effect q now receipt runs s t" and "schedulerControl p s = Some c"
  shows "replay_modes c (mode_receipts p [receipt_row receipt]) \<noteq> None \<and>
    schedulerControl p t = replay_modes c (mode_receipts p [receipt_row receipt])"
proof (cases receipt)
  case (ModeReceipt r)
  with assms(1) obtain u where u: "mode_changed r s u" "t = ensureCurrent now u" by (auto simp: first_effect_def)
  then obtain previous where "schedulerControl (kr_planId r) s = Some previous" "follows r previous"
    "schedulerControl p u = (if p = kr_planId r then Some (moded_control r previous) else schedulerControl p s)"
    unfolding mode_changed_def by blast
  with ModeReceipt assms(2) u(2) show ?thesis by (auto simp: receipt_row_def controls_ensured)
next
  case (DispatchReceipt r)
  with assms(1) have "xs_controls t = xs_controls s"
    by (auto simp: first_effect_def dispatched_def dispatch_effect_def)
  with DispatchReceipt assms(2) show ?thesis by (simp add: receipt_row_def schedulerControl_def)
qed

lemma command_recorded:
  assumes "command_step k l" and "schedulerControl p (ks_execution k) = Some c"
  shows "recorded p c k l"
  using assms
proof (induction rule: command_step.induct)
  case (step_command E who q cmd now k answer l)
  obtain receipt runs where answer: "answer = (receipt, runs)" by fastforce
  from step_command(1)[unfolded answer] show ?case
  proof (cases rule: execute_cases)
    case repeated
    with step_command(2) show ?thesis by (auto simp: recorded_def)
  next
    case (first member plan current d operation s)
    then have l: "l = \<lparr>ks_execution = s, ks_operations = ks_operations k @ [operation],
        ks_receipts = ks_receipts k @ [receipt_row receipt]\<rparr>" and
      id: "kp_operationId (receipt_row receipt) = ko_operationId operation"
      by (auto simp: completed_def receipt_row_def receipt_operationId_def split: ExecutionSchedulerReceipt.splits)
    from first_mode[OF first(6) step_command(2)] show ?thesis
      unfolding recorded_def l by (intro exI[of _ "[operation]"] exI[of _ "[receipt_row receipt]"]) (simp add: id)
  qed
next
  case (step_other l k)
  then show ?case by (auto simp: recorded_def)
qed

lemma recorded_trans:
  assumes "recorded p c k l" and "schedulerControl p (ks_execution l) = Some d" and "recorded p d l m"
  shows "recorded p c k m"
proof -
  from assms(1,2) obtain os rs where 1: "ks_operations l = ks_operations k @ os" "ks_receipts l = ks_receipts k @ rs"
    "map ko_operationId os = map kp_operationId rs" "replay_modes c (mode_receipts p rs) = Some d"
    by (auto simp: recorded_def)
  from assms(3) obtain os' rs' where 2: "ks_operations m = ks_operations l @ os'" "ks_receipts m = ks_receipts l @ rs'"
    "map ko_operationId os' = map kp_operationId rs'" "replay_modes d (mode_receipts p rs') \<noteq> None"
    "schedulerControl p (ks_execution m) = replay_modes d (mode_receipts p rs')"
    by (auto simp: recorded_def)
  show ?thesis unfolding recorded_def
    by (intro exI[of _ "os @ os'"] exI[of _ "rs @ rs'"])
      (use 1 2 in \<open>simp add: mode_receipts_append replay_modes_append\<close>)
qed

lemma commands_recorded:
  assumes "command_steps k l" and "schedulerControl p (ks_execution k) = Some c"
  shows "recorded p c k l"
  using assms
proof (induction rule: rtranclp_induct)
  case base
  then show ?case by (simp add: recorded_def)
next
  case (step l m)
  then obtain d where d: "schedulerControl p (ks_execution l) = Some d" by (auto simp: recorded_def)
  with step command_recorded recorded_trans show ?case by blast
qed

section \<open>Properties\<close>

text \<open>
  (C23) Repetition. A command that was carried out and is sent again, while its sender still has the
  authority of the same Member over the plan, returns the receipt it got the first time with no Runs
  and changes nothing, whatever else happened since. A sender without authority over the plan gets
  neither the receipt nor an effect: the command throws.
\<close>

theorem command_replayed:
  assumes "execute E who p c now k = Inr ((receipt, runs), l)" and "continues l m"
  shows "(acting_member who p m = acting_member who p k \<longrightarrow> execute E who p c later m = Inr ((receipt, []), m)) \<and>
    (acting_member who p m = None \<longrightarrow> (\<exists>e. execute E who p c later m = Inl e))"
proof (intro conjI impI)
  show "execute E who p c later m = Inr ((receipt, []), m)" if "acting_member who p m = acting_member who p k"
    by (rule repeated_execution[OF assms that])
  show "\<exists>e. execute E who p c later m = Inl e" if "acting_member who p m = None"
    by (rule unauthorized_execution[OF that])
qed

text \<open>
  (C21) An operation id is bound to one request. A command that returns under the id of an earlier
  one is the same request of the same member, up to the order of properties, where SHA-256 does not
  collide on the two texts; it returns the earlier receipt and changes nothing.
\<close>

theorem operation_bound_once:
  assumes "execute E who p c now k = Inr ((receipt, runs), l)" and "continues l m"
    and "execute E who' p' c' later m = Inr ((receipt', runs'), m')"
    and "command_operationId c' = command_operationId c"
    and "acting_member who p k = Some i" and "acting_member who' p' m = Some j"
    and "sha256Hex (ke_lib E) (canonicalValue (command_request p i c)) =
         sha256Hex (ke_lib E) (canonicalValue (command_request p' j c')) \<longrightarrow>
      canonicalValue (command_request p i c) = canonicalValue (command_request p' j c')"
  shows "sort_keys (command_request p' j c') = sort_keys (command_request p i c) \<and>
    receipt' = receipt \<and> runs' = [] \<and> m' = m"
  using assms(1)
proof (cases rule: executed_bound)
  case (1 member plan current d)
  note replay = bound_replay[OF bound_continues[OF 1(3) assms(2)]]
  obtain member' plan' current' d' r where 2: "requested E who' p' c' m member' plan' current' d'"
    "replayReceipt E (command_operationId c) d' m = Inr r"
    using execute_request[OF assms(3)] assms(4) by metis
  with replay have d: "d' = d" "r = Some receipt" by (auto split: if_splits)
  have ids: "mp_memberId member = i" "mp_memberId member' = j"
    using requested_acting[OF 1(1)] requested_acting[OF 2(1)] assms(5,6) by auto
  with 1(1) 2(1) d have "sha256Hex (ke_lib E) (canonicalValue (command_request p i c)) =
      sha256Hex (ke_lib E) (canonicalValue (command_request p' j c'))"
    by (auto simp: requested_def executionOperationDigest_Inr dest!: canonicalExecutionJSON_Inr)
  with assms(7) have "sort_keys (command_request p' j c') = sort_keys (command_request p i c)"
    by (simp add: canonical_eq_iff)
  moreover have "receipt' = receipt \<and> runs' = [] \<and> m' = m"
    using execute_replayed[OF 2(1)] 2(2) d assms(3,4) by simp
  ultimately show ?thesis by blast
qed

text \<open>
  (C11) The mode of a plan is its history. Through commands and everything else the server does, every
  operation has its receipt, in the same order; the mode receipts of a plan are linked, each starting
  with the mode and revision the one before it ended with and ending with another mode and the next
  revision; and the control of the plan is what replaying them yields.
\<close>

theorem mode_follows_receipts:
  assumes "command_steps k l" and "schedulerControl p (ks_execution k) = Some c"
  shows "\<exists>operations receipts d. ks_operations l = ks_operations k @ operations \<and>
    ks_receipts l = ks_receipts k @ receipts \<and> map ko_operationId operations = map kp_operationId receipts \<and>
    replay_modes c (mode_receipts p receipts) = Some d \<and> schedulerControl p (ks_execution l) = Some d"
  using commands_recorded[OF assms] by (auto simp: recorded_def)

text \<open>
  (C22) A dispatch does what its receipt says. A manual dispatch or an advance under a new operation id
  creates at most one intent (a manual dispatch exactly one), of this operation, with the Run it
  returns; the receipt names this Run and an intent with it; the plan was in the mode of the receipt,
  and no control has changed.
\<close>

theorem dispatch_exact:
  assumes "execute E who p c now k = Inr ((DispatchReceipt r, runs), l)"
    and "list_all (\<lambda>x. ko_operationId x \<noteq> command_operationId c) (ks_operations k)"
  shows "kd_operationId r = command_operationId c \<and> dispatched p r runs (ks_execution k) (ks_execution l) \<and>
    mode_of_command c runs (DispatchReceipt r) \<and> ks_receipts l = ks_receipts k @ [receipt_row (DispatchReceipt r)]"
  using assms(1)
proof (cases rule: execute_cases)
  case (repeated member plan current d)
  with assms(2) have False
    by (auto simp: replayReceipt_def list_all_iff split: option.splits dest: find_SomeD)
  then show ?thesis ..
next
  case (first member plan current d operation s)
  then show ?thesis by (auto simp: completed_def first_effect_def receipt_operationId_def)
qed

end
