(* ===== verification/Execution_Retry.thy ===== *)
theory Execution_Retry
  imports Execution_Settlement
begin

text \<open>
  The retry of a node whose Run failed: the authorizations of
  \<^verbatim>\<open>execution-node-retry-repository.ts\<close> and the service of
  \<^verbatim>\<open>execution-node-control-service.ts\<close>. A retry first settles the node in a transaction of its own,
  then checks and admits in another: an error of the second leaves what the first wrote.
\<close>

section \<open>Authorizations\<close>

record ExecutionNodeRetryCommand =
  kn_ambiguityAcknowledgementOperationId :: "jstring option"
  kn_expectedControlRevision :: int
  kn_expectedNodeProjectionRevision :: int
  kn_expectedPlanDigest :: jstring
  kn_expectedPlanRevision :: int
  kn_expectedPreviousGeneration :: int
  kn_expectedPreviousRunId :: jstring
  kn_nodeKey :: jstring
  kn_operationId :: jstring
  kn_reason :: jstring

record ExecutionNodeRetryAuthorization =
  ka_operationId :: jstring
  ka_planId :: jstring
  ka_planRevision :: int
  ka_planDigest :: jstring
  ka_planControlRevision :: int
  ka_nodeKey :: jstring
  ka_previousNodeProjectionRevision :: int
  ka_previousGeneration :: int
  ka_previousRunId :: jstring
  ka_previousRunState :: RunState
  ka_ambiguityAcknowledgementOperationId :: "jstring option"
  ka_newGeneration :: int
  ka_newRunId :: jstring
  ka_newDispatchIntentId :: jstring
  ka_requestedByMemberId :: jstring
  ka_reason :: jstring
  ka_requestDigest :: jstring
  ka_createdAt :: timestamp
  ka_authorizationDigest :: jstring

text \<open>The row of an authorization holds its JSON and, in columns of their own, values the JSON repeats.\<close>

record retry_store =
  yr_execution :: execution_store
  yr_authorizations :: "ExecutionNodeRetryAuthorization list"

definition authorization_conflict ::
  "ExecutionNodeRetryAuthorization \<Rightarrow> ExecutionNodeRetryAuthorization \<Rightarrow> bool" where
  "authorization_conflict a b \<longleftrightarrow> ka_operationId a = ka_operationId b \<or> ka_previousRunId a = ka_previousRunId b \<or>
     ka_newRunId a = ka_newRunId b \<or> ka_newDispatchIntentId a = ka_newDispatchIntentId b \<or>
     ka_authorizationDigest a = ka_authorizationDigest b \<or>
     ka_planId a = ka_planId b \<and> ka_planRevision a = ka_planRevision b \<and> ka_nodeKey a = ka_nodeKey b \<and>
       ka_newGeneration a = ka_newGeneration b"

interpretation authorizations: keyed_table authorization_conflict ka_operationId
  by unfold_locales (simp add: authorization_conflict_def)

text \<open>
  Parameters: the materialization service, the generated validators and the text of a time.
\<close>

record retry_env =
  ye_governed :: governed_env
  ye_materializer :: materializer
  ye_validators :: "string \<Rightarrow> cjson \<Rightarrow> bool"
  ye_iso :: "timestamp \<Rightarrow> jstring"

abbreviation ye_lib :: "retry_env \<Rightarrow> text_lib" where
  "ye_lib E \<equiv> ge_lib (ye_governed E)"

definition optional_text :: "jstring option \<Rightarrow> cjson" where
  "optional_text x = (case x of None \<Rightarrow> CNull | Some t \<Rightarrow> CStr t)"

definition retry_command_json :: "ExecutionNodeRetryCommand \<Rightarrow> cjson" where
  "retry_command_json c = CObj
    [(lit ''ambiguityAcknowledgementOperationId'', optional_text (kn_ambiguityAcknowledgementOperationId c)),
     (lit ''expectedControlRevision'', CInt (kn_expectedControlRevision c)),
     (lit ''expectedNodeProjectionRevision'', CInt (kn_expectedNodeProjectionRevision c)),
     (lit ''expectedPlanDigest'', CStr (kn_expectedPlanDigest c)),
     (lit ''expectedPlanRevision'', CInt (kn_expectedPlanRevision c)),
     (lit ''expectedPreviousGeneration'', CInt (kn_expectedPreviousGeneration c)),
     (lit ''expectedPreviousRunId'', CStr (kn_expectedPreviousRunId c)),
     (lit ''nodeKey'', CStr (kn_nodeKey c)),
     (lit ''operationId'', CStr (kn_operationId c)),
     (lit ''reason'', CStr (kn_reason c))]"

text \<open>\<^verbatim>\<open>unsigned\<close>: all fields but the digest.\<close>

definition authorization_fields ::
  "retry_env \<Rightarrow> ExecutionNodeRetryAuthorization \<Rightarrow> (jstring \<times> cjson) list" where
  "authorization_fields E a =
    [(lit ''operationId'', CStr (ka_operationId a)),
     (lit ''planId'', CStr (ka_planId a)),
     (lit ''planRevision'', CInt (ka_planRevision a)),
     (lit ''planDigest'', CStr (ka_planDigest a)),
     (lit ''planControlRevision'', CInt (ka_planControlRevision a)),
     (lit ''nodeKey'', CStr (ka_nodeKey a)),
     (lit ''previousNodeProjectionRevision'', CInt (ka_previousNodeProjectionRevision a)),
     (lit ''previousGeneration'', CInt (ka_previousGeneration a)),
     (lit ''previousRunId'', CStr (ka_previousRunId a)),
     (lit ''previousRunState'', CStr (run_state_text (ka_previousRunState a))),
     (lit ''ambiguityAcknowledgementOperationId'', optional_text (ka_ambiguityAcknowledgementOperationId a)),
     (lit ''newGeneration'', CInt (ka_newGeneration a)),
     (lit ''newRunId'', CStr (ka_newRunId a)),
     (lit ''newDispatchIntentId'', CStr (ka_newDispatchIntentId a)),
     (lit ''requestedByMemberId'', CStr (ka_requestedByMemberId a)),
     (lit ''reason'', CStr (ka_reason a)),
     (lit ''requestDigest'', CStr (ka_requestDigest a)),
     (lit ''createdAt'', CStr (ye_iso E (ka_createdAt a)))]"

definition authorization_json :: "retry_env \<Rightarrow> ExecutionNodeRetryAuthorization \<Rightarrow> cjson" where
  "authorization_json E a =
    CObj (authorization_fields E a @ [(lit ''authorizationDigest'', CStr (ka_authorizationDigest a))])"

definition assertAuthorization :: "retry_env \<Rightarrow> ExecutionNodeRetryAuthorization \<Rightarrow> unit throwing" where
  "assertAuthorization E a =
    assertExecutionCommand (ye_validators E ''nodeRetryAuthorization'') (authorization_json E a)"

text \<open>\<^verbatim>\<open>validate\<close>; the column and the JSON hold the same request digest.\<close>

definition validateAuthorization ::
  "retry_env \<Rightarrow> ExecutionNodeRetryAuthorization \<Rightarrow> ExecutionNodeRetryAuthorization throwing" where
  "validateAuthorization E a =
    bind (assertAuthorization E a) (\<lambda>_.
    bind (executionOperationDigest (ye_lib E) (CObj (authorization_fields E a))) (\<lambda>digest.
    bind (ensure (digest = ka_authorizationDigest a)
      (Error ''Execution node retry authorization digest is invalid'')) (\<lambda>_. Inr a)))"

definition replayRetry ::
  "retry_env \<Rightarrow> jstring \<Rightarrow> jstring \<Rightarrow> retry_store \<Rightarrow> ExecutionNodeRetryAuthorization option throwing" where
  "replayRetry E operationId requestDigest w =
    (case find (\<lambda>a. ka_operationId a = operationId) (yr_authorizations w) of
       None \<Rightarrow> Inr None
     | Some a \<Rightarrow>
         bind (ensure (ka_requestDigest a = requestDigest)
           (ExecutionError ''EXECUTION_NODE_RETRY_OPERATION_CONFLICT'')) (\<lambda>_.
         bind (validateAuthorization E a) (\<lambda>a. Inr (Some a))))"

definition retainAuthorization ::
  "retry_env \<Rightarrow> ExecutionNodeRetryAuthorization \<Rightarrow> retry_store \<Rightarrow>
   (ExecutionNodeRetryAuthorization \<times> retry_store) throwing" where
  "retainAuthorization E value w =
    bind (executionOperationDigest (ye_lib E) (CObj (authorization_fields E value))) (\<lambda>digest.
    let a = value\<lparr>ka_authorizationDigest := digest\<rparr> in
    bind (assertAuthorization E a) (\<lambda>_.
    bind (canonicalExecutionJSON (authorization_json E a)) (\<lambda>_.
    bind (insert_row authorization_conflict a (yr_authorizations w)) (\<lambda>rows.
    Inr (a, w\<lparr>yr_authorizations := rows\<rparr>)))))"

definition hasMaterialization :: "ExecutionNodeIdentity \<Rightarrow> execution_store \<Rightarrow> bool" where
  "hasMaterialization identity s \<longleftrightarrow> list_ex (\<lambda>m. am_identity m = identity) (xs_adopted s)"

section \<open>The retry\<close>

definition retryableRunState :: "RunState \<Rightarrow> bool" where
  "retryableRunState st \<longleftrightarrow> st \<in> {RS_failed, RS_canceled, RS_expired, RS_outcome_unknown}"

record ExecutionNodeRetryResult =
  yo_authorization :: ExecutionNodeRetryAuthorization
  yo_created :: bool
  yo_run :: RunRecord

text \<open>What the checks of a retry settle.\<close>

record retry_scope =
  yc_plan :: execution_plan_row
  yc_digest :: jstring
  yc_node :: PlanNode
  yc_task :: AgentTask
  yc_state :: ExecutionNodeState
  yc_previousRun :: RunRecord

definition retry_state_current ::
  "ExecutionNodeRetryCommand \<Rightarrow> ExecutionNodeState \<Rightarrow> bool" where
  "retry_state_current command state \<longleftrightarrow>
     \<not> (xn_projectionRevision state \<noteq> kn_expectedNodeProjectionRevision command \<or>
        xj_dispatchGeneration (xn_projection state) \<noteq> Some (kn_expectedPreviousGeneration command) \<or>
        xn_runId state \<noteq> Some (kn_expectedPreviousRunId command) \<or>
        (case xj_lastRunState (xn_projection state) of None \<Rightarrow> True | Some st \<Rightarrow> \<not> retryableRunState st))"

definition previous_run_current :: "ExecutionNodeState \<Rightarrow> AgentTask \<Rightarrow> PlanNode \<Rightarrow> RunRecord \<Rightarrow> bool" where
  "previous_run_current state task node r \<longleftrightarrow>
     \<not> (Some (run_state r) \<noteq> xj_lastRunState (xn_projection state) \<or> \<not> retryableRunState (run_state r) \<or>
        run_taskId r \<noteq> tk_taskId (at_row task) \<or> run_targetAgentId r \<noteq> nd_agentId node)"

text \<open>The acknowledgement an ambiguous outcome needs, and no other outcome may name.\<close>

definition check_acknowledgement ::
  "ExecutionNodeRetryCommand \<Rightarrow> RunRecord \<Rightarrow> execution_store \<Rightarrow> unit throwing" where
  "check_acknowledgement command r s =
    (if run_state r = RS_outcome_unknown
     then ensure (case getAmbiguityAcknowledgement (run_runId r) (xs_runs s) of
         None \<Rightarrow> False
       | Some a \<Rightarrow> Some (aa_operationId a) = kn_ambiguityAcknowledgementOperationId command)
       (ExecutionError ''EXECUTION_NODE_RETRY_AMBIGUITY_ACK_REQUIRED'')
     else ensure (kn_ambiguityAcknowledgementOperationId command = None)
       (ExecutionError ''EXECUTION_NODE_RETRY_AMBIGUITY_ACK_INVALID''))"

definition retry_identity :: "jstring \<Rightarrow> ExecutionNodeRetryCommand \<Rightarrow> ExecutionNodeIdentity" where
  "retry_identity planId command =
    \<lparr>en_nodeKey = kn_nodeKey command, en_planId = planId, en_planRevision = kn_expectedPlanRevision command\<rparr>"

definition retry_checks ::
  "retry_env \<Rightarrow> MemberPrincipal \<Rightarrow> jstring \<Rightarrow> ExecutionNodeRetryCommand \<Rightarrow> execution_plan_row \<Rightarrow>
   execution_plan_proposal_row \<Rightarrow> timestamp \<Rightarrow> execution_store \<Rightarrow> retry_scope throwing" where
  "retry_checks E member planId command plan current now s =
    demand (\<not> (xp_currentRevision plan \<noteq> kn_expectedPlanRevision command \<or>
        xq_digest current \<noteq> kn_expectedPlanDigest command \<or>
        xp_controlRevision plan \<noteq> kn_expectedControlRevision command \<or> \<not> schedulable (xp_state plan)))
      ''EXECUTION_NODE_RETRY_PLAN_CONFLICT'' (
    case (find (\<lambda>n. nd_nodeKey n = kn_nodeKey command) (pl_nodes (xq_definition current)),
          Option.bind (compiledNode plan (kn_nodeKey command) s) (\<lambda>c. taskOf (xd_taskId c) s)) of
      (Some node, Some task) \<Rightarrow>
        demand (nd_kind node = Node_implementation) ''EXECUTION_NODE_RETRY_SCOPE_INVALID'' (
        bind (ensure (\<not> (mp_memberId member \<noteq> gt_ownerMemberId (at_governed task) \<and> mp_role member \<noteq> Owner))
          (Error ''Task Owner or Team Owner required'')) (\<lambda>_.
        case (nodeState (retry_identity planId command) s, getRun (kn_expectedPreviousRunId command) (xs_runs s)) of
          (Some state, previous) \<Rightarrow>
            demand (retry_state_current command state) ''EXECUTION_NODE_RETRY_STATE_CONFLICT'' (
            case previous of
              None \<Rightarrow> Inl (ExecutionError ''EXECUTION_NODE_RETRY_STATE_CONFLICT'')
            | Some previousRun \<Rightarrow>
                demand (previous_run_current state task node previousRun) ''EXECUTION_NODE_RETRY_STATE_CONFLICT'' (
                demand (\<not> hasMaterialization (retry_identity planId command) s)
                  ''EXECUTION_NODE_RETRY_PROOF_ALREADY_RETAINED'' (
                bind (check_acknowledgement command previousRun s) (\<lambda>_.
                bind (retryReadiness (ye_governed E) (retry_identity planId command) now s) (\<lambda>ready.
                case ready of
                  Blocked blocker \<Rightarrow> Inl (ExecutionError blocker)
                | Ready \<Rightarrow>
                    demand (is_safe_integer (kn_expectedPreviousGeneration command + 1))
                      ''EXECUTION_DISPATCH_GENERATION_EXHAUSTED'' (
                    Inr \<lparr>yc_plan = plan, yc_digest = xq_digest current, yc_node = node, yc_task = task,
                         yc_state = state, yc_previousRun = previousRun\<rparr>))))))
        | (None, _) \<Rightarrow> Inl (ExecutionError ''EXECUTION_NODE_RETRY_STATE_CONFLICT'')))
    | _ \<Rightarrow> Inl (ExecutionError ''EXECUTION_NODE_RETRY_SCOPE_INVALID''))"

definition retry_value ::
  "retry_scope \<Rightarrow> ExecutionNodeRetryCommand \<Rightarrow> jstring \<Rightarrow> jstring \<Rightarrow> jstring \<Rightarrow> jstring \<Rightarrow> jstring \<Rightarrow> timestamp \<Rightarrow>
   ExecutionNodeRetryAuthorization" where
  "retry_value scope command planId memberId newRunId newIntentId requestDigest now =
    \<lparr>ka_operationId = kn_operationId command, ka_planId = planId,
     ka_planRevision = xp_currentRevision (yc_plan scope), ka_planDigest = yc_digest scope,
     ka_planControlRevision = xp_controlRevision (yc_plan scope), ka_nodeKey = kn_nodeKey command,
     ka_previousNodeProjectionRevision = xn_projectionRevision (yc_state scope),
     ka_previousGeneration = kn_expectedPreviousGeneration command,
     ka_previousRunId = run_runId (yc_previousRun scope), ka_previousRunState = run_state (yc_previousRun scope),
     ka_ambiguityAcknowledgementOperationId = kn_ambiguityAcknowledgementOperationId command,
     ka_newGeneration = kn_expectedPreviousGeneration command + 1, ka_newRunId = newRunId,
     ka_newDispatchIntentId = newIntentId, ka_requestedByMemberId = memberId, ka_reason = kn_reason command,
     ka_requestDigest = requestDigest, ka_createdAt = now, ka_authorizationDigest = []\<rparr>"

definition retry_message ::
  "jstring \<Rightarrow> jstring \<Rightarrow> retry_scope \<Rightarrow> ExecutionNodeRetryCommand \<Rightarrow> timestamp \<Rightarrow> execution_store \<Rightarrow> AppendMessageInput" where
  "retry_message messageId memberId scope command now s =
    \<lparr>m_messageId = messageId, m_roomId = tk_roomId (at_row (yc_task scope)), m_senderType = Sender_member,
     m_senderId = memberId, m_content = lit ''Execution node retry authorized: '' @ kn_reason command,
     m_mentions = [\<lparr>mn_targetAgentId = nd_agentId (yc_node scope),
       mn_displayLabel = (case getAgent (nd_agentId (yc_node scope)) (rs_team (xs_runs s)) of
         None \<Rightarrow> nd_nodeKey (yc_node scope) | Some a \<Rightarrow> a_name a)\<rparr>],
     m_parentMessageId = Some (run_triggerMessageId (yc_previousRun scope)), m_clientMessageId = None,
     m_createdAt = now, m_traceId = None, m_taskId = Some (tk_taskId (at_row (yc_task scope)))\<rparr>"

definition authorized_retry :: "ExecutionNodeRetryAuthorization \<Rightarrow> RunRecord \<Rightarrow> node_retry" where
  "authorized_retry a previousRun =
    \<lparr>ry_operationId = ka_operationId a, ry_previousRunId = ka_previousRunId a,
     ry_previousGeneration = ka_previousGeneration a, ry_newRunId = ka_newRunId a,
     ry_newGeneration = ka_newGeneration a, ry_newDispatchIntentId = ka_newDispatchIntentId a,
     ry_previousRun = previousRun\<rparr>"

definition authorization_identity :: "ExecutionNodeRetryAuthorization \<Rightarrow> ExecutionNodeIdentity" where
  "authorization_identity a =
    \<lparr>en_nodeKey = ka_nodeKey a, en_planId = ka_planId a, en_planRevision = ka_planRevision a\<rparr>"

definition write_retry ::
  "retry_env \<Rightarrow> MemberPrincipal \<Rightarrow> jstring \<Rightarrow> ExecutionNodeRetryCommand \<Rightarrow> retry_scope \<Rightarrow> jstring \<Rightarrow> timestamp \<Rightarrow>
   retry_store \<Rightarrow> (ExecutionNodeRetryResult \<times> retry_store) throwing" where
  "write_retry E member planId command scope requestDigest now w =
    (let (newRunId, s) = drawId (ye_governed E) ''run'' (yr_execution w);
         (newIntentId, s) = drawId (ye_governed E) ''dispatch'' s in
    bind (retainAuthorization E (retry_value scope command planId (mp_memberId member) newRunId newIntentId requestDigest now) w)
      (\<lambda>(authorization, w).
    let (messageId, s) = drawId (ye_governed E) ''msg'' s; (traceId, s) = drawId (ye_governed E) ''trace'' s in
    bind (appendMessage traceId (retry_message messageId (mp_memberId member) scope command now s)
      (rs_team (xs_runs s))) (\<lambda>(message, team).
    bind (admitRetry (ye_governed E)
      \<lparr>gi_memberId = mp_memberId member, gi_role = mp_role member, gi_message = message, gi_now = now,
       gi_task = yc_task scope\<rparr> (authorization_identity authorization)
      (authorized_retry authorization (yc_previousRun scope)) True
      (s\<lparr>xs_runs := (xs_runs s)\<lparr>rs_team := team\<rparr>\<rparr>)) (\<lambda>((created, runs), s).
    bind (ensure (\<not> (\<not> created \<or> length runs \<noteq> 1)) (Error ''Execution retry admission did not create one Run''))
      (\<lambda>_.
    Inr (\<lparr>yo_authorization = authorization, yo_created = True, yo_run = hd runs\<rparr>,
         w\<lparr>yr_execution := s\<rparr>))))))"

definition retry_transaction ::
  "retry_env \<Rightarrow> WebPrincipal \<Rightarrow> jstring \<Rightarrow> ExecutionNodeRetryCommand \<Rightarrow> jstring \<Rightarrow> timestamp \<Rightarrow> retry_store \<Rightarrow>
   (ExecutionNodeRetryResult \<times> retry_store) throwing" where
  "retry_transaction E who planId command requestDigest now w =
    bind (planOf planId (yr_execution w)) (\<lambda>found.
    case found of
      None \<Rightarrow> Inl (ExecutionError ''EXECUTION_PLAN_NOT_FOUND'')
    | Some (plan, current) \<Rightarrow>
        bind (requireRoomMember who (xp_roomId plan) (rs_team (xs_runs (yr_execution w)))) (\<lambda>member.
        bind (replayRetry E (kn_operationId command) requestDigest w) (\<lambda>replayed.
        case replayed of
          Some a \<Rightarrow>
            (case getRun (ka_newRunId a) (xs_runs (yr_execution w)) of
               None \<Rightarrow> Inl (Error ''Execution retry Run is unavailable'')
             | Some run \<Rightarrow> Inr (\<lparr>yo_authorization = a, yo_created = False, yo_run = run\<rparr>, w))
        | None \<Rightarrow>
            bind (retry_checks E member planId command plan current now (yr_execution w)) (\<lambda>scope.
            write_retry E member planId command scope requestDigest now w))))"

definition retry_request ::
  "retry_env \<Rightarrow> WebPrincipal \<Rightarrow> jstring \<Rightarrow> jstring \<Rightarrow> ExecutionNodeRetryCommand \<Rightarrow> execution_store \<Rightarrow> jstring throwing" where
  "retry_request E who planId pathNodeKey command s =
    bind (assertExecutionCommand (ye_validators E ''nodeRetryCommand'') (retry_command_json command)) (\<lambda>_.
    demand (trim (kn_reason command) \<noteq> []) ''EXECUTION_NODE_RETRY_REASON_REQUIRED'' (
    demand (kn_nodeKey command = pathNodeKey) ''EXECUTION_NODE_RETRY_NODE_MISMATCH'' (
    bind (planOf planId s) (\<lambda>found.
    case found of
      None \<Rightarrow> Inl (ExecutionError ''EXECUTION_PLAN_NOT_FOUND'')
    | Some (plan, _) \<Rightarrow>
        bind (requireRoomMember who (xp_roomId plan) (rs_team (xs_runs s))) (\<lambda>member.
        executionOperationDigest (ye_lib E) (CObj
          [(lit ''action'', CStr (lit ''execution_node_retry_v1'')),
           (lit ''actor'', CObj [(lit ''kind'', CStr (lit ''member'')), (lit ''memberId'', CStr (mp_memberId member))]),
           (lit ''planId'', CStr planId), (lit ''command'', retry_command_json command)]))))))"

definition retryNode ::
  "retry_env \<Rightarrow> WebPrincipal \<Rightarrow> jstring \<Rightarrow> jstring \<Rightarrow> ExecutionNodeRetryCommand \<Rightarrow> timestamp \<Rightarrow> retry_store \<Rightarrow>
   ExecutionNodeRetryResult throwing \<times> retry_store" where
  "retryNode E who planId pathNodeKey command now w =
    (case retry_request E who planId pathNodeKey command (yr_execution w) of
       Inl e \<Rightarrow> (Inl e, w)
     | Inr requestDigest \<Rightarrow>
         (case reconcileOne (ye_materializer E) (retry_identity planId command) now (yr_execution w) of
            Inl e \<Rightarrow> (Inl e, w)
          | Inr (_, s) \<Rightarrow>
              let w = w\<lparr>yr_execution := s\<rparr> in
              (case retry_transaction E who planId command requestDigest now w of
                 Inl e \<Rightarrow> (Inl e, w)
               | Inr (result, w') \<Rightarrow> (Inr result, w'))))"

end
