(* ===== verification/Execution_Attempts.thy ===== *)
theory Execution_Attempts
  imports Execution_Settled Execution_Commands Execution_Retry
begin

text \<open>
  The attempts of a node. Sweeps, members' messages, manual dispatches and retries all append
  dispatch intents, while Runs go their own way; whatever the order, the intents of a node are
  numbered, and all but the last have a Run that failed, was canceled, expired or is unknown.
\<close>

section \<open>Steps\<close>

text \<open>
  One call of a service of the execution. Everything else the server does to the store touches
  neither the intents nor the Runs (\<open>op_other\<close>), or only the Runs (\<open>op_runs\<close>).
\<close>

inductive execution_op :: "execution_store \<Rightarrow> execution_store \<Rightarrow> bool" where
  op_sweep: "execution_op s (snd (sweep V sweeping options now s))"
| op_message: "createRunsForMessage E input s = Inr (result, t) \<Longrightarrow> execution_op s t"
| op_settle: "reconcileNodes M now s = Inr (states, t) \<Longrightarrow> execution_op s t"
| op_settle_one: "reconcileOne M i now s = Inr (state, t) \<Longrightarrow> execution_op s t"
| op_recover: "recoverRuns M now s = Inr (runs, t) \<Longrightarrow> execution_op s t"
| op_command: "execute C who planId command now k = Inr (answer, l) \<Longrightarrow>
    execution_op (ks_execution k) (ks_execution l)"
| op_retry: "retryNode Y who planId nodeKey retry_command now w = (answer, w') \<Longrightarrow>
    execution_op (yr_execution w) (yr_execution w')"
| op_runs: "run_op (xs_runs s) runs \<Longrightarrow> execution_op s (s\<lparr>xs_runs := runs\<rparr>)"
| op_other: "xs_intents t = xs_intents s \<Longrightarrow> xs_runs t = xs_runs s \<Longrightarrow> execution_op s t"

abbreviation execution_ops :: "execution_store \<Rightarrow> execution_store \<Rightarrow> bool" where
  "execution_ops \<equiv> execution_op\<^sup>*\<^sup>*"

section \<open>The invariant\<close>

definition node_attempts :: "ExecutionNodeIdentity \<Rightarrow> execution_store \<Rightarrow> execution_dispatch_intent_row list" where
  "node_attempts i s = filter (\<lambda>x. xt_identity x = i) (xs_intents s)"

definition failed_attempt :: "execution_store \<Rightarrow> execution_dispatch_intent_row \<Rightarrow> bool" where
  "failed_attempt s x \<longleftrightarrow> (case intent_run s x of None \<Rightarrow> False
     | Some r \<Rightarrow> run_state r \<in> {RS_failed, RS_canceled, RS_expired, RS_outcome_unknown})"

definition numbered_attempts :: "execution_dispatch_intent_row list \<Rightarrow> bool" where
  "numbered_attempts xs \<longleftrightarrow> map xt_dispatchGeneration xs = map int [1..<Suc (length xs)]"

definition attempts_inv :: "execution_store \<Rightarrow> bool" where
  "attempts_inv s \<longleftrightarrow> run_inv (xs_runs s) \<and> list_all (\<lambda>x. intent_run s x \<noteq> None) (xs_intents s) \<and>
     (\<forall>i. numbered_attempts (node_attempts i s) \<and> list_all (failed_attempt s) (butlast (node_attempts i s)))"

lemma attempts_invD:
  assumes "attempts_inv s"
  shows "run_inv (xs_runs s)" "x \<in> set (xs_intents s) \<Longrightarrow> intent_run s x \<noteq> None"
    "numbered_attempts (node_attempts i s)" "list_all (failed_attempt s) (butlast (node_attempts i s))"
  using assms by (auto simp: attempts_inv_def list_all_iff)

lemma getRun_step:
  assumes "run_step s s'" and "getRun i s \<noteq> None"
  shows "getRun i s' \<noteq> None"
  using assms
proof (induction rule: run_step.induct)
  case (step_create s r s')
  then show ?case by (simp add: getRun_def find_None_iff) blast
next
  case (step_event runId s current event s' now)
  then show ?case using getRun_advance[OF step_event(5), of i] by auto
qed (simp_all add: getRun_def same_runs_def)

lemma getRun_steps: "run_steps s s' \<Longrightarrow> getRun i s \<noteq> None \<Longrightarrow> getRun i s' \<noteq> None"
  by (induction rule: rtranclp_induct) (auto dest: getRun_step)

lemma failed_terminal: "st \<in> {RS_failed, RS_canceled, RS_expired, RS_outcome_unknown} \<Longrightarrow> terminalRunState st"
  by (cases st) auto

lemma failed_attempt_frozen:
  assumes "run_steps (xs_runs s) (xs_runs t)" and "run_inv (xs_runs s)" and "failed_attempt s x"
  shows "failed_attempt t x"
proof -
  from assms(3) obtain r where r: "getRun (xt_runId x) (xs_runs s) = Some r" "run_state r \<in> {RS_failed, RS_canceled, RS_expired, RS_outcome_unknown}"
    by (auto simp: failed_attempt_def intent_run_def split: option.splits)
  with terminal_steps[OF assms(1,2) r(1) failed_terminal[OF r(2)]] show ?thesis
    by (simp add: failed_attempt_def intent_run_def)
qed

lemma attempts_kept:
  assumes "attempts_inv s" and "run_steps (xs_runs s) (xs_runs t)" and "xs_intents t = xs_intents s"
  shows "attempts_inv t"
proof -
  note inv = attempts_invD[OF assms(1)]
  have same: "node_attempts i t = node_attempts i s" for i using assms(3) by (simp add: node_attempts_def)
  have "intent_run t x \<noteq> None" if "x \<in> set (xs_intents t)" for x
    using getRun_steps[OF assms(2)] inv(2)[of x] that assms(3) by (simp add: intent_run_def)
  moreover have "list_all (failed_attempt t) (butlast (node_attempts i s))" for i
    using inv(4)[of i] failed_attempt_frozen[OF assms(2) inv(1)] by (auto simp: list_all_iff)
  ultimately show ?thesis
    using inv(3) run_steps_inv[OF assms(2) inv(1)] by (simp add: attempts_inv_def same list_all_iff)
qed

lemma butlast_snoc_all: "list_all P (butlast (xs @ [x])) \<longleftrightarrow> list_all P xs"
  by simp

lemma attempt_added:
  assumes "attempts_inv s" and "run_steps (xs_runs s) (xs_runs t)" and "xs_intents t = xs_intents s @ [x]"
    and "intent_run t x \<noteq> None"
    and "xt_dispatchGeneration x = int (Suc (length (node_attempts (xt_identity x) s)))"
    and "list_all (failed_attempt s) (node_attempts (xt_identity x) s)"
  shows "attempts_inv t"
proof -
  note inv = attempts_invD[OF assms(1)]
  have added: "node_attempts i t = node_attempts i s @ (if xt_identity x = i then [x] else [])" for i
    using assms(3) by (simp add: node_attempts_def)
  have frozen: "list_all (failed_attempt t) ys" if "list_all (failed_attempt s) ys" for ys
    using that failed_attempt_frozen[OF assms(2) inv(1)] by (auto simp: list_all_iff)
  have "numbered_attempts (node_attempts i t) \<and> list_all (failed_attempt t) (butlast (node_attempts i t))" for i
    using inv(3)[of i] frozen[OF inv(4)[of i]] frozen[OF assms(6)] assms(5)
    by (auto simp: added numbered_attempts_def)
  moreover have "intent_run t y \<noteq> None" if "y \<in> set (xs_intents s)" for y
    using getRun_steps[OF assms(2)] inv(2)[OF that] by (simp add: intent_run_def)
  ultimately show ?thesis
    using assms(3,4) run_steps_inv[OF assms(2) inv(1)] by (auto simp: attempts_inv_def list_all_iff)
qed

section \<open>Generations\<close>

lemma max_generation:
  assumes "numbered_attempts (node_attempts i s)"
  shows "foldl max 0 (map xt_dispatchGeneration (node_attempts i s)) = int (length (node_attempts i s))"
proof -
  have "foldl max 0 (map int [1..<Suc n]) = int n" for n by (induction n) auto
  with assms show ?thesis by (simp add: numbered_attempts_def del: upt_Suc)
qed

lemma next_generation:
  "numbered_attempts (node_attempts i s) \<Longrightarrow> nextDispatchGeneration i s = Inr g \<Longrightarrow>
   g = int (Suc (length (node_attempts i s)))"
  using max_generation[of i s]
  by (auto simp: nextDispatchGeneration_def Let_def node_attempts_def split: if_splits)

lemma no_attempts:
  assumes "attempts_inv s" and "findIntentRun i s = None"
  shows "node_attempts i s = []"
proof (rule ccontr)
  assume ne: "node_attempts i s \<noteq> []"
  let ?sorted = "sort_by (\<lambda>a b. xt_dispatchGeneration b - xt_dispatchGeneration a) (node_attempts i s)"
  have set: "set ?sorted = set (node_attempts i s)" by simp
  with ne obtain x xs where x: "?sorted = x # xs" by (cases ?sorted) auto
  then have "x \<in> set (node_attempts i s)" unfolding set[symmetric] by simp
  then have "x \<in> set (xs_intents s)" by (simp add: node_attempts_def)
  with x attempts_invD(2)[OF assms(1), of x] assms(2) show False
    by (auto simp: findIntentRun_def node_attempts_def intent_run_def)
qed

lemma latest_attempt:
  assumes "attempts_inv s" and "latestIntent i s = Some x"
  shows "node_attempts i s \<noteq> [] \<and> last (node_attempts i s) = x"
proof -
  let ?xs = "node_attempts i s"
  from assms(2) have x: "x \<in> set ?xs" and no: "\<not> list_ex (\<lambda>y. xt_dispatchGeneration y > xt_dispatchGeneration x) ?xs"
    by (auto simp: latestIntent_def node_attempts_def list_ex_iff dest!: find_SomeD)
  then have ne: "?xs \<noteq> []" by auto
  from x obtain k where k: "k < length ?xs" "?xs ! k = x" by (auto simp: in_set_conv_nth)
  have gen: "xt_dispatchGeneration (?xs ! j) = int (Suc j)" if "j < length ?xs" for j
    using arg_cong[where f = "\<lambda>l. l ! j", OF attempts_invD(3)[OF assms(1), of i, unfolded numbered_attempts_def]] that
    by (simp del: upt_Suc)
  have "last ?xs = ?xs ! (length ?xs - 1)" using ne by (simp add: last_conv_nth)
  moreover have "\<not> xt_dispatchGeneration (last ?xs) > xt_dispatchGeneration x"
    using no ne by (auto simp: list_ex_iff)
  ultimately have "length ?xs - 1 \<le> k" using gen[of k] gen[of "length ?xs - 1"] k ne by auto
  with k ne show ?thesis by (simp add: last_conv_nth) (metis Suc_pred le_antisym less_Suc_eq_le length_greater_0_conv)
qed

lemma has_latest:
  assumes "attempts_inv s" and "latestIntent i s = None"
  shows "node_attempts i s = []"
proof (rule ccontr)
  let ?xs = "node_attempts i s"
  assume ne: "?xs \<noteq> []"
  then have last: "last ?xs \<in> set ?xs" by simp
  with assms(2) obtain y where y: "y \<in> set ?xs" "xt_dispatchGeneration y > xt_dispatchGeneration (last ?xs)"
    by (auto simp: latestIntent_def node_attempts_def list_ex_iff find_None_iff)
  from y(1) obtain k where k: "k < length ?xs" "?xs ! k = y" by (auto simp: in_set_conv_nth)
  have gen: "xt_dispatchGeneration (?xs ! j) = int (Suc j)" if "j < length ?xs" for j
    using arg_cong[where f = "\<lambda>l. l ! j", OF attempts_invD(3)[OF assms(1), of i, unfolded numbered_attempts_def]] that
    by (simp del: upt_Suc)
  from ne have "last ?xs = ?xs ! (length ?xs - 1)" by (simp add: last_conv_nth)
  with gen[of k] gen[of "length ?xs - 1"] k y(2) ne show False by auto
qed

section \<open>The operations keep the invariant\<close>

lemma write_admission_attempts:
  assumes inv: "attempts_inv s" and scope: "admission_checks E input i src retry s = Inr scope"
    and w: "write_admission E input scope src retry authority s = Inr (result, t)"
    and failed: "list_all (failed_attempt s) (node_attempts i s)"
  shows "attempts_inv t"
proof -
  obtain intent run m fairness c where
    run: "run_state run = RS_queued" "run_runId run = xt_runId intent" "run_lastSequence run = 0" "run_terminalAt run = None" and
    intent: "xt_identity intent = admitted_identity scope" "xt_dispatchGeneration intent = as_generation scope" and
    free: "conflict_free run_conflict (rs_runs (xs_runs s) @ [run])" and
    adv: "advanceFairness True fairness (admission_of intent run m s) = Inr (c, t)"
    using write_admission_Inr[OF w] by auto
  from advanceFairness_Inr[OF adv] have t: "xs_intents t = xs_intents s @ [intent]"
    "xs_runs t = (xs_runs s)\<lparr>rs_runs := rs_runs (xs_runs s) @ [run]\<rparr>"
    by (auto simp: admission_of_def)
  from admission_checks_Inr[OF scope] have id: "admitted_identity scope = i"
    and gen: "nextDispatchGeneration i s = Inr (as_generation scope)" by auto
  show ?thesis
  proof (rule attempt_added[OF inv _ t(1)])
    show "run_steps (xs_runs s) (xs_runs t)"
      by (rule r_into_rtranclp, rule step_create[OF free]) (simp_all add: t fresh_run_def run)
    show "intent_run t intent \<noteq> None"
      using runs.find_insert[OF free, of "xt_runId intent"] run by (simp add: intent_run_def t getRun_def)
    show "xt_dispatchGeneration intent = int (Suc (length (node_attempts (xt_identity intent) s)))"
      using next_generation[OF attempts_invD(3)[OF inv] gen] intent id by simp
    show "list_all (failed_attempt s) (node_attempts (xt_identity intent) s)"
      using failed intent(1) id by simp
  qed
qed

lemma posted_attempts: "attempts_inv s \<Longrightarrow> attempts_inv (posted s team n)"
  by (rule attempts_kept) (auto simp: posted_def intro!: same_steps simp: same_runs_def)

lemma attempts_same: "attempts_inv s \<Longrightarrow> xs_intents t = xs_intents s \<Longrightarrow> xs_runs t = xs_runs s \<Longrightarrow> attempts_inv t"
  by (rule attempts_kept) simp_all

lemma posted_no_attempts: "node_attempts i (posted s team n) = node_attempts i s"
  by (simp add: node_attempts_def posted_def)

interpretation sweep_attempts: sweep_invariant V F "\<lambda>_. attempts_inv" for V F
proof unfold_locales
  fix rs s i authority now input team n scope rs' t
  assume inv: "attempts_inv s" and none: "findIntentRun i s = None"
    and scope: "admission_checks (ve_governed V) input i Source_scheduler None (posted s team n) = Inr scope"
    and w: "write_admission (ve_governed V) input scope Source_scheduler None (Some authority) (posted s team n)
      = Inr ((True, rs'), t)"
  from no_attempts[OF inv none] show "attempts_inv t"
    by (intro write_admission_attempts[OF posted_attempts[OF inv] scope w]) (simp add: posted_no_attempts)
qed (auto simp: writeProjection_Inr ensureCurrent_def start_plan_def posted_attempts elim!: attempts_same)

lemma sweep_attempts_kept: "attempts_inv s \<Longrightarrow> sweep V sweeping options now s = (r, t) \<Longrightarrow> attempts_inv t"
  using sweep_attempts.sweep_keeps[where V = V and s = s and options = options and now = now and sweeping = sweeping,
      OF _ refl]
  by (cases r) auto

lemma message_attempts:
  assumes "attempts_inv s" and "createRunsForMessage E input s = Inr (result, t)"
  shows "attempts_inv t"
proof (cases "governanceOf (tk_taskId (at_row (gi_task input))) s")
  case None
  with assms show ?thesis by (simp add: createRunsForMessage_def)
next
  case (Some i)
  with assms(2) obtain created rs where a: "admit E input i Source_member_message None None s = Inr ((created, rs), t)"
    by (auto simp: createRunsForMessage_def bind_eq_Inr)
  from admit_Inr[OF a] show ?thesis
    using assms(1) write_admission_attempts no_attempts by fastforce
qed

lemma scheduled_attempts:
  assumes "attempts_inv s" and "admitScheduled E i now a s = Inr ((created, rs), t)"
  shows "attempts_inv t"
  using admitScheduled_Inr[OF assms(2)]
proof (elim disjE exE conjE)
  fix team n input scope c
  assume "findIntentRun i s = None"
    "admission_checks E input i Source_scheduler None (posted s team n) = Inr scope"
    "write_admission E input scope Source_scheduler None (Some a) (posted s team n) = Inr ((True, rs), t)"
  then show ?thesis
    using write_admission_attempts[OF posted_attempts[OF assms(1)]] no_attempts[OF assms(1)]
    by (simp add: posted_no_attempts)
qed (use assms(1) in \<open>auto intro: posted_attempts\<close>)

lemma command_attempts:
  assumes "attempts_inv (ks_execution k)" and "execute C who p c now k = Inr ((receipt, runs), l)"
  shows "attempts_inv (ks_execution l)"
  using assms(2)
proof (cases rule: execute_cases)
  case repeated
  with assms(1) show ?thesis by simp
next
  case (first member plan current d operation s)
  have l: "ks_execution l = s" using first(3) by (simp add: completed_def)
  have ensured: "attempts_inv (ensureCurrent now (ks_execution k))"
    using assms(1) by (rule attempts_same) (simp_all add: ensureCurrent_def)
  show ?thesis
  proof (cases c)
    case (Change_mode c')
    with first(8) obtain rows where "s = ensureCurrent now ((ks_execution k)\<lparr>xs_controls := rows\<rparr>)" by auto
    with assms(1) l show ?thesis by (auto simp: ensureCurrent_def intro: attempts_same)
  next
    case (Dispatch_node n c')
    with first(8) l show ?thesis using scheduled_attempts[OF ensured] by auto
  next
    case (Advance_plan b c')
    with first(8) l show ?thesis using sweep_attempts_kept[OF assms(1)] by auto
  qed
qed

section \<open>Retries\<close>

lemma retryable_failed: "intent_run s x = Some r \<Longrightarrow> retryableRunState (run_state r) \<Longrightarrow> failed_attempt s x"
  by (simp add: failed_attempt_def retryableRunState_def)

text \<open>A retry is only authorized after every attempt of the node has failed.\<close>

lemma retry_after_failures:
  assumes inv: "attempts_inv s" and settled: "settled_as s i" and state: "nodeState i s = Some state"
    and current: "retry_state_current command state"
    and run: "getRun (kn_expectedPreviousRunId command) (xs_runs s) = Some r" "previous_run_current state task node r"
  shows "list_all (failed_attempt s) (node_attempts i s)"
proof -
  obtain st src where source: "settlementSource i s = Some (st, src)"
    using settled by (cases "settlementSource i s") (auto simp: settled_as_def)
  show ?thesis
  proof (cases src)
    case None
    have "latestIntent i s = None"
    proof (rule ccontr)
      assume "latestIntent i s \<noteq> None"
      then obtain x where x: "latestIntent i s = Some x" by blast
      then have "x \<in> set (xs_intents s)" by (auto simp: latestIntent_def dest: find_SomeD)
      with attempts_invD(2)[OF inv, of x] obtain r where "getRun (xt_runId x) (xs_runs s) = Some r"
        by (auto simp: intent_run_def)
      with x source None show False
        by (auto simp: settlementSource_def intent_run_def split: option.splits if_splits)
    qed
    with has_latest[OF inv] show ?thesis by simp
  next
    case (Some gr)
    obtain g r' where gr: "gr = (g, r')" by fastforce
    with source Some obtain x where x: "latestIntent i s = Some x" "getRun (xt_runId x) (xs_runs s) = Some r'"
      by (auto simp: settlementSource_def split: option.splits if_splits bind_splits)
    have "xn_projection state \<in> {run_projection i False g r', run_projection i True g r'}"
      using settled source Some gr state by (auto simp: settled_as_def projection_of_def)
    then have "xn_runId state = Some (run_runId r')" by (auto simp: run_projection_def Let_def split: prod.splits)
    with current have "kn_expectedPreviousRunId command = run_runId r'" by (simp add: retry_state_current_def)
    moreover have "run_runId r' = xt_runId x" using x(2) by (auto simp: getRun_def dest: find_SomeD)
    ultimately have "intent_run s x = Some r" using run(1) by (simp add: intent_run_def)
    moreover have "retryableRunState (run_state r)" using run(2) by (simp add: previous_run_current_def)
    ultimately have "failed_attempt s x" by (rule retryable_failed)
    moreover have "node_attempts i s \<noteq> []" "last (node_attempts i s) = x" using latest_attempt[OF inv x(1)] by auto
    ultimately show ?thesis
      using attempts_invD(4)[OF inv, of i] append_butlast_last_id[of "node_attempts i s"]
      by (metis list_all_append list.pred_inject)
  qed
qed

lemma case_Ready:
  "(case x of Ready \<Rightarrow> m | Blocked b \<Rightarrow> Inl (f b)) = Inr y \<longleftrightarrow> x = Ready \<and> m = Inr y"
  by (cases x) auto

lemma retry_checks_Inr:
  assumes "retry_checks E member p command plan current now s = Inr scope"
  shows "\<exists>state task node r. yc_plan scope = plan \<and> xp_currentRevision plan = kn_expectedPlanRevision command \<and>
    nodeState (retry_identity p command) s = Some state \<and> retry_state_current command state \<and>
    getRun (kn_expectedPreviousRunId command) (xs_runs s) = Some r \<and> previous_run_current state task node r"
  using assms unfolding retry_checks_def
  by (auto simp: throw_simps case_Ready split: option.split_asm)

lemma retainAuthorization_Inr:
  "retainAuthorization E value w = Inr (a, w') \<Longrightarrow>
   (\<exists>digest. a = value\<lparr>ka_authorizationDigest := digest\<rparr>) \<and> yr_execution w' = yr_execution w"
  by (auto simp: retainAuthorization_def throw_simps Let_def)

lemma write_retry_Inr:
  assumes "write_retry E member p command scope d now w = Inr (answer, w')"
    and "xp_currentRevision (yc_plan scope) = kn_expectedPlanRevision command"
  shows "\<exists>team n input retry rs. admit (ye_governed E) input (retry_identity p command) Source_member_message (Some retry) None
    (posted (yr_execution w) team n) = Inr ((True, rs), yr_execution w')"
proof -
  from assms(1) obtain a w1 n team input rs s where
    "retainAuthorization E (retry_value scope command p (mp_memberId member)
      (lit ''run'' @ lit ''_'' @ ge_ids (ye_governed E) (xs_drawn (yr_execution w)))
      (lit ''dispatch'' @ lit ''_'' @ ge_ids (ye_governed E) (Suc (xs_drawn (yr_execution w)))) d now) w = Inr (a, w1)" and
    admit: "admitRetry (ye_governed E) input (authorization_identity a) (authorized_retry a (yc_previousRun scope)) True
      (posted (yr_execution w) team n) = Inr ((True, rs), s)" and w': "w' = w1\<lparr>yr_execution := s\<rparr>"
    unfolding write_retry_def drawId_def posted_def
    by (auto simp: throw_simps Let_def simp del: lit_def)
  note retained = retainAuthorization_Inr[OF this(1)]
  then have "authorization_identity a = retry_identity p command"
    using assms(2) by (auto simp: authorization_identity_def retry_value_def retry_identity_def)
  with admit w' have "admit (ye_governed E) input (retry_identity p command) Source_member_message
      (Some (authorized_retry a (yc_previousRun scope))) None (posted (yr_execution w) team n) = Inr ((True, rs), yr_execution w')"
    by (simp add: admitRetry_def throw_simps)
  then show ?thesis by blast
qed

lemma posted_failed: "failed_attempt (posted s team n) = failed_attempt s"
  by (rule ext) (simp add: failed_attempt_def intent_run_def posted_def getRun_def)

lemma retry_transaction_attempts:
  assumes inv: "attempts_inv (yr_execution w)" and settled: "settled_as (yr_execution w) (retry_identity p command)"
    and t: "retry_transaction E who p command d now w = Inr (answer, w')"
  shows "attempts_inv (yr_execution w')"
proof (cases "w' = w")
  case False
  with t obtain member plan current scope where
    scope: "retry_checks E member p command plan current now (yr_execution w) = Inr scope" and
    w': "write_retry E member p command scope d now w = Inr (answer, w')"
    unfolding retry_transaction_def
    by (elim bind_Inr_E, simp split: option.split_asm prod.split_asm) (elim bind_Inr_E, auto split: option.split_asm elim: bind_Inr_E)
  let ?s = "yr_execution w" and ?i = "retry_identity p command"
  from retry_checks_Inr[OF scope] obtain state task node r where
    rev: "xp_currentRevision (yc_plan scope) = kn_expectedPlanRevision command" and
    checked: "nodeState ?i ?s = Some state" "retry_state_current command state"
      "getRun (kn_expectedPreviousRunId command) (xs_runs ?s) = Some r" "previous_run_current state task node r"
    by blast
  note failed = retry_after_failures[OF inv settled checked]
  from write_retry_Inr[OF w' rev] obtain team n input retry rs where
    "admit (ye_governed E) input ?i Source_member_message (Some retry) None (posted ?s team n) = Inr ((True, rs), yr_execution w')"
    by blast
  from admit_Inr[OF this] obtain sc where
    "admission_checks (ye_governed E) input ?i Source_member_message (Some retry) (posted ?s team n) = Inr sc"
    "write_admission (ye_governed E) input sc Source_member_message (Some retry) None (posted ?s team n) =
       Inr ((True, rs), yr_execution w')" by auto
  then show ?thesis
    by (rule write_admission_attempts[OF posted_attempts[OF inv]])
      (use failed in \<open>simp add: posted_no_attempts posted_failed\<close>)
qed (use inv in simp)

lemma settle_one_attempts: "attempts_inv s \<Longrightarrow> reconcileOne M i now s = Inr (x, t) \<Longrightarrow> attempts_inv t"
  by (rule sweep_attempts.reconcileOne_keeps)

lemma retry_attempts:
  assumes inv: "attempts_inv (yr_execution w)" and run: "retryNode E who p nodeKey command now w = (answer, w')"
  shows "attempts_inv (yr_execution w')"
proof (cases "retry_request E who p nodeKey command (yr_execution w)")
  case (Inr d)
  show ?thesis
  proof (cases "reconcileOne (ye_materializer E) (retry_identity p command) now (yr_execution w)")
    case settled: (Inr xs)
    obtain x s where xs: "xs = (x, s)" by fastforce
    let ?w = "w\<lparr>yr_execution := s\<rparr>"
    have inv': "attempts_inv (yr_execution ?w)" using settle_one_attempts[OF inv] settled xs by simp
    have "settled_as (yr_execution ?w) (retry_identity p command)"
      using settled xs reconcileNode_settles by (simp add: reconcileOne_def)
    then show ?thesis
    proof (cases "retry_transaction E who p command d now ?w")
      case (Inl e)
      with inv' run Inr settled xs show ?thesis by (auto simp: retryNode_def Let_def)
    next
      case written: (Inr result)
      with run Inr settled xs have "retry_transaction E who p command d now ?w = Inr (fst result, w')"
        by (auto simp: retryNode_def Let_def split: prod.split_asm)
      with \<open>settled_as (yr_execution ?w) (retry_identity p command)\<close> show ?thesis
        by (rule retry_transaction_attempts[OF inv'])
    qed
  qed (use run Inr inv in \<open>auto simp: retryNode_def\<close>)
qed (use run inv in \<open>auto simp: retryNode_def\<close>)

section \<open>Attempts\<close>

lemma operation_attempts:
  assumes "execution_op s t" and "attempts_inv s"
  shows "attempts_inv t"
  using assms
proof (induction rule: execution_op.induct)
  case (op_sweep s V sweeping options now)
  then show ?case using sweep_attempts_kept by (metis prod.collapse)
next
  case (op_recover M now s runs t)
  then show ?case
    by (auto simp: recoverRuns_def bind_eq_Inr dest: sweep_attempts.reconcileNodes_keeps)
next
  case (op_command C who p c now k answer l)
  then show ?case by (cases answer) (auto dest: command_attempts)
next
  case (op_runs s runs)
  then show ?case by (intro attempts_kept[OF op_runs(2)]) (simp_all add: run_op_steps attempts_invD)
qed (auto intro: message_attempts sweep_attempts.reconcileNodes_keeps settle_one_attempts retry_attempts attempts_same)

lemma operations_attempts: "execution_ops s t \<Longrightarrow> attempts_inv s \<Longrightarrow> attempts_inv t"
  by (induction rule: rtranclp_induct) (auto intro: operation_attempts)

definition live_attempt :: "execution_store \<Rightarrow> execution_dispatch_intent_row \<Rightarrow> bool" where
  "live_attempt s x \<longleftrightarrow> (case intent_run s x of None \<Rightarrow> False | Some r \<Rightarrow> \<not> terminalRunState (run_state r))"

lemma failed_not_live: "failed_attempt s x \<Longrightarrow> \<not> live_attempt s x"
  using failed_terminal by (auto simp: failed_attempt_def live_attempt_def split: option.splits)

lemma one_live:
  assumes "list_all (failed_attempt s) (butlast xs)"
  shows "length (filter (live_attempt s) xs) \<le> 1"
proof (cases xs rule: rev_cases)
  case (snoc ys y)
  with assms have "filter (live_attempt s) ys = []"
    by (auto simp: filter_empty_conv list_all_iff dest: failed_not_live)
  with snoc show ?thesis by simp
qed simp

text \<open>
  (C9) The attempts of a node. Whatever services run, in any order, with Runs going their own way in
  between and errors half way: the intents of a node carry the generations 1, 2, and so on; every
  attempt but the last has a Run that failed, was canceled, expired or has an unknown outcome; and at
  most one attempt of a node has a Run that has not ended.
\<close>

theorem attempts_exact:
  assumes "execution_ops s t" and "xs_intents s = []" and "no_runs (xs_runs s)"
  shows "map xt_dispatchGeneration (node_attempts i t) = map int [1..<Suc (length (node_attempts i t))] \<and>
    list_all (failed_attempt t) (butlast (node_attempts i t)) \<and>
    length (filter (live_attempt t) (node_attempts i t)) \<le> 1"
proof -
  have "attempts_inv s"
    using assms(2,3) by (simp add: attempts_inv_def node_attempts_def numbered_attempts_def run_history_inv[OF assms(3) rtranclp.rtrancl_refl])
  with assms(1) have "attempts_inv t" by (rule operations_attempts)
  from attempts_invD(3,4)[OF this, of i] one_live show ?thesis by (simp add: numbered_attempts_def)
qed

end
