(* ===== verification/Execution_Command_Demo.thy ===== *)
theory Execution_Command_Demo
  imports Execution_Demo Execution_Attempts
begin

text \<open>
  Concrete commands on the plan of \<open>Execution_Demo\<close>: its Owner sets its mode, and advances it while
  nothing is left to run; and the witnesses of the properties of commands.
\<close>

definition demo_hash_lib :: text_lib where
  "demo_hash_lib = ascii_lib\<lparr>sha256Hex := (\<lambda>_. lit ''d'')\<rparr>"

definition demo_control_env :: control_env where
  "demo_control_env = \<lparr>ke_sweep = demo_sweep_env\<lparr>ve_governed := demo_governed\<lparr>ge_lib := demo_hash_lib\<rparr>\<rparr>,
     ke_validators = (\<lambda>_ _. True), ke_iso = (\<lambda>_. lit ''t''), ke_clock = 5\<rparr>"

definition demo_principal :: WebPrincipal where
  "demo_principal = \<lparr>wp_clientAccess = None, wp_userId = [3], wp_sessionId = []\<rparr>"

definition demo_control :: "ExecutionSchedulerMode \<Rightarrow> ExecutionSchedulerControl" where
  "demo_control mode = \<lparr>xc_planId = [7], xc_mode = mode, xc_modeRevision = 1, xc_lastOperationId = None,
     xc_updatedByMemberId = None, xc_reason = [], xc_updatedAt = 0\<rparr>"

definition demo_commanded :: "ExecutionSchedulerMode \<Rightarrow> command_store" where
  "demo_commanded mode = \<lparr>ks_execution = (demo_execution (lit ''p''))
       \<lparr>xs_tasks := [\<lparr>gt_taskId = [5], gt_teamId = [1], gt_goal = [], gt_ownerMemberId = [2],
          gt_definitionRevision = 1, gt_criteriaRevision = 1\<rparr>],
        xs_nodes := [], xs_states := [], xs_controls := [demo_control mode]\<rparr>,
     ks_operations = [], ks_receipts = []\<rparr>"

definition demo_advance :: ExecutionSchedulerAdvanceCommand where
  "demo_advance = \<lparr>kc_expectedModeRevision = 1, kc_expectedPlanControlRevision = 1,
     kc_expectedPlanDigest = lit ''p'', kc_expectedPlanRevision = 1, kc_operationId = lit ''op'', kc_reason = lit ''go''\<rparr>"

definition demo_to_manual :: ExecutionSchedulerModeCommand where
  "demo_to_manual = \<lparr>kc_expectedModeRevision = 1, kc_expectedPlanControlRevision = 1,
     kc_expectedPlanDigest = lit ''p'', kc_expectedPlanRevision = 1, kc_operationId = lit ''op'', kc_reason = lit ''go'',
     kc_mode = Sched_manual\<rparr>"

lemma demo_digest: "room v \<Longrightarrow> executionOperationDigest demo_hash_lib v = Inr (lit ''d'')"
  using room_digest[of v demo_hash_lib] by (auto simp: executionOperationDigest_Inr demo_hash_lib_def)

lemma demo_canonical: "room v \<Longrightarrow> \<exists>t. canonicalExecutionJSON v = Inr t"
  using room_digest[of v demo_hash_lib] by (auto simp: executionOperationDigest_Inr)

lemma demo_asserted: "room v \<Longrightarrow> assertExecutionCommand (\<lambda>_. True) v = Inr ()"
  using demo_canonical[of v] by (auto simp: assertExecutionCommand_def requireCondition_def ensure_def)

lemma demo_env:
  "ke_lib demo_control_env = demo_hash_lib" "ke_validators demo_control_env k = (\<lambda>_. True)"
  "ke_iso demo_control_env t = lit ''t''" "ke_clock demo_control_env = 5"
  by (simp_all add: demo_control_env_def)

lemma demo_owner: "\<exists>member plan current.
    schedulerOwner demo_principal [7] (ks_execution (demo_commanded mode)) = Inr (member, plan, current) \<and>
    mp_memberId member = [2] \<and> xp_planId plan = [7] \<and> xp_currentRevision plan = 1 \<and> xp_controlRevision plan = 1 \<and>
    xq_digest current = lit ''p''"
  by (simp add: schedulerOwner_def planForMember_def planOf_def demo_commanded_def demo_execution_def demo_principal_def
      demo_runs_def demo_team_def requireRoomMember_def taskOf_def getTask_def ensure_def WebPrincipal.extend_def MemberPrincipal.defs)

lemma demo_trim: "trim (lit ''go'') \<noteq> []"
  by code_simp

lemmas demo_room = room_def forbidden_key_def is_safe_integer_def max_safe_integer_def request_value_def
  command_fields_def demo_advance_def demo_to_manual_def

lemma demo_requests:
  "room (mode_command_json demo_to_manual)" "room (advance_command_json demo_advance)"
  "room (request_value ''execution_scheduler_mode_v1'' [7] None [2] (mode_command_json demo_to_manual))"
  "room (request_value ''execution_scheduler_supervised_advance_v1'' [7] None [2] (advance_command_json demo_advance))"
  by (auto simp: demo_room mode_command_json_def advance_command_json_def wellformed_low)

text \<open>The receipts the two commands get.\<close>

definition demo_mode_receipt :: ExecutionSchedulerModeReceipt where
  "demo_mode_receipt = \<lparr>kr_operationId = lit ''op'', kr_planId = [7], kr_planRevision = 1, kr_planDigest = lit ''p'',
     kr_planControlRevision = 1, kr_previousMode = Sched_automatic, kr_previousModeRevision = 1,
     kr_mode = Sched_manual, kr_modeRevision = 2, kr_updatedByMemberId = [2], kr_reason = lit ''go'',
     kr_requestDigest = lit ''d'', kr_updatedAt = 6, kr_operationDigest = lit ''d''\<rparr>"

definition demo_advance_receipt :: ExecutionSchedulerDispatchReceipt where
  "demo_advance_receipt = \<lparr>kd_operationId = lit ''op'', kd_action = Act_supervised_advance, kd_planId = [7],
     kd_planRevision = 1, kd_planDigest = lit ''p'', kd_planControlRevision = 1, kd_mode = Sched_supervised,
     kd_modeRevision = 1, kd_requestedByMemberId = [2], kd_reason = lit ''go'', kd_selection = None,
     kd_requestDigest = lit ''d'', kd_createdAt = 6, kd_operationDigest = lit ''d''\<rparr>"

lemma demo_receipts:
  "room (CObj (mode_receipt_fields demo_control_env demo_mode_receipt))"
  "room (receipt_json demo_control_env (ModeReceipt demo_mode_receipt))"
  "room (CObj (dispatch_receipt_fields demo_control_env demo_advance_receipt))"
  "room (receipt_json demo_control_env (DispatchReceipt demo_advance_receipt))"
  by (auto simp: demo_room mode_receipt_fields_def dispatch_receipt_fields_def receipt_json_def selection_json_def
      demo_mode_receipt_def demo_advance_receipt_def demo_env wellformed_low)

lemma demo_no_replay: "replayReceipt E i d (demo_commanded mode) = Inr None"
  by (simp add: replayReceipt_def demo_commanded_def)

text \<open>The two operations are in the scope the trigger asks for.\<close>

lemma demo_actor: "ko_requestedByMemberId row = [2] \<Longrightarrow> xp_rootTaskId plan = [5] \<Longrightarrow>
    operation_actor row plan (ks_execution (demo_commanded mode))"
  by (simp add: operation_actor_def demo_commanded_def demo_execution_def demo_runs_def demo_team_def taskOf_def
      getTask_def)

lemma demo_in_scope:
  assumes "request_pinned row" "ko_requestedByMemberId row = [2]" "ko_planId row = [7]" "ko_planRevision row = 1"
    and "ko_planControlRevision row = 1" "ko_planDigest row = lit ''p''" "ko_expectedMode row = mode"
    and "ko_expectedModeRevision row = 1"
    and "\<And>plan. xp_state plan = XP_approved \<Longrightarrow> operation_target row plan (ks_execution (demo_commanded mode))"
  shows "operation_scope row (ks_execution (demo_commanded mode))"
proof -
  obtain plan where plan: "xs_plans (ks_execution (demo_commanded mode)) = [plan]" "xp_planId plan = [7]"
    "xp_currentRevision plan = 1" "xp_controlRevision plan = 1" "xp_state plan = XP_approved" "xp_rootTaskId plan = [5]"
    by (simp add: demo_commanded_def demo_execution_def)
  obtain q where "xs_proposals (ks_execution (demo_commanded mode)) = [q]" "xq_planId q = [7]" "xq_revision q = 1"
    "xq_digest q = lit ''p''" by (simp add: demo_commanded_def demo_execution_def)
  moreover have "xs_controls (ks_execution (demo_commanded mode)) = [demo_control mode]" by (simp add: demo_commanded_def)
  moreover have "xc_planId (demo_control mode) = [7]" "xc_mode (demo_control mode) = mode"
    "xc_modeRevision (demo_control mode) = 1" by (simp_all add: demo_control_def)
  ultimately show ?thesis
    using assms plan demo_actor[OF assms(2) plan(6)] by (simp add: operation_scope_def)
qed

lemma demo_begin: "room (ko_request row) \<Longrightarrow> operation_scope row (ks_execution (demo_commanded mode)) \<Longrightarrow>
    beginOperation True row (demo_commanded mode) = Inr ((demo_commanded mode)\<lparr>ks_operations := [row]\<rparr>)"
  using demo_canonical[of "ko_request row"] by (auto simp: beginOperation_Inr demo_commanded_def)

lemma demo_complete: "room (receipt_json demo_control_env receipt) \<Longrightarrow> ks_receipts k = [] \<Longrightarrow>
    completeOperation demo_control_env True receipt k = Inr (k\<lparr>ks_receipts := [receipt_row receipt]\<rparr>)"
  using demo_canonical[of "receipt_json demo_control_env receipt"]
  by (auto simp: completeOperation_Inr demo_asserted demo_env)

lemma demo_control_of: "schedulerControl [7] (ks_execution (demo_commanded mode)) = Some (demo_control mode)"
  by (simp add: schedulerControl_def demo_commanded_def demo_control_def)

lemma demo_tables: "ks_operations (demo_commanded mode) = []" "ks_receipts (demo_commanded mode) = []"
  by (simp_all add: demo_commanded_def)

lemma demo_fields:
  "kc_expectedModeRevision demo_to_manual = 1" "kc_expectedPlanControlRevision demo_to_manual = 1"
  "kc_expectedPlanDigest demo_to_manual = lit ''p''" "kc_expectedPlanRevision demo_to_manual = 1"
  "kc_operationId demo_to_manual = lit ''op''" "kc_reason demo_to_manual = lit ''go''" "kc_mode demo_to_manual = Sched_manual"
  "kc_expectedModeRevision demo_advance = 1" "kc_expectedPlanControlRevision demo_advance = 1"
  "kc_expectedPlanDigest demo_advance = lit ''p''" "kc_expectedPlanRevision demo_advance = 1"
  "kc_operationId demo_advance = lit ''op''" "kc_reason demo_advance = lit ''go''"
  "xc_mode (demo_control mode) = mode" "xc_modeRevision (demo_control mode) = 1"
  by (simp_all add: demo_to_manual_def demo_advance_def demo_control_def)

lemma demo_mode_scope:
  assumes "xp_currentRevision plan = 1" "xp_controlRevision plan = 1" "xq_digest current = lit ''p''"
  shows "operation_scope (mode_operation plan current [7] [2] demo_to_manual Sched_automatic (lit ''d'') 6)
    (ks_execution (demo_commanded Sched_automatic))"
  using assms by (intro demo_in_scope) (simp_all add: mode_operation_def demo_fields operation_target_def request_pinned_def
      request_field_def mode_command_json_def command_fields_def)

lemma demo_advance_scope:
  assumes "xp_currentRevision plan = 1" "xp_controlRevision plan = 1" "xq_digest current = lit ''p''"
  shows "operation_scope (dispatch_operation Act_supervised_advance plan current [7] [2] demo_advance
      (advance_command_json demo_advance) (demo_control Sched_supervised) None (lit ''d'') 6)
    (ks_execution (demo_commanded Sched_supervised))"
  using assms by (intro demo_in_scope) (simp_all add: dispatch_operation_def demo_fields operation_target_def request_pinned_def
      request_field_def advance_command_json_def command_fields_def schedulable_def)

lemma demo_mode_runs: "\<exists>l. execute demo_control_env demo_principal [7] (Change_mode demo_to_manual) 6 (demo_commanded Sched_automatic) =
    Inr ((ModeReceipt demo_mode_receipt, []), l) \<and>
    acting_member demo_principal [7] l = acting_member demo_principal [7] (demo_commanded Sched_automatic)"
proof -
  obtain member plan current where owner:
    "schedulerOwner demo_principal [7] (ks_execution (demo_commanded Sched_automatic)) = Inr (member, plan, current)"
    "mp_memberId member = [2]" "xp_planId plan = [7]" "xp_currentRevision plan = 1" "xp_controlRevision plan = 1"
    "xq_digest current = lit ''p''" using demo_owner[of Sched_automatic] by blast
  let ?row = "mode_operation plan current [7] [2] demo_to_manual Sched_automatic (lit ''d'') 6"
  have row: "room (ko_request ?row)" by (simp add: mode_operation_def demo_requests)
  let ?s = "ks_execution (demo_commanded Sched_automatic)"
  let ?updated = "\<lparr>xc_planId = [7], xc_mode = Sched_manual, xc_modeRevision = 2, xc_lastOperationId = Some (lit ''op''),
     xc_updatedByMemberId = Some [2], xc_reason = lit ''go'', xc_updatedAt = 6\<rparr>"
  have trans: "transitionControl \<lparr>mt_expectedMode = Sched_automatic, mt_expectedModeRevision = 1, mt_memberId = [2],
      mt_mode = Sched_manual, mt_now = 6, mt_operationId = lit ''op'', mt_planId = [7], mt_reason = lit ''go''\<rparr> ?s =
    Inr (Some ?updated, ?s\<lparr>xs_controls := [?updated]\<rparr>)"
    by (simp add: transitionControl_def update_rows_def commit_rows_def demo_commanded_def demo_control_def
        schedulerControl_def ensure_def Let_def)
  have receipt: "mode_receipt demo_control_env plan current [7] [2] demo_to_manual (demo_control Sched_automatic) ?updated
      (lit ''d'') 6 = Inr demo_mode_receipt"
    using owner demo_receipts(1) by (simp add: mode_receipt_def demo_env Let_def demo_mode_receipt_def demo_fields
        mode_receipt_fields_def demo_digest)
  let ?l = "(demo_commanded Sched_automatic)\<lparr>ks_operations := [?row],
    ks_execution := ensureCurrent 6 (?s\<lparr>xs_controls := [?updated]\<rparr>), ks_receipts := [receipt_row (ModeReceipt demo_mode_receipt)]\<rparr>"
  have "execute demo_control_env demo_principal [7] (Change_mode demo_to_manual) 6 (demo_commanded Sched_automatic) =
      Inr ((ModeReceipt demo_mode_receipt, []), ?l)"
    using owner demo_requests demo_receipts(2)
    by (simp add: setMode_def demo_env demo_asserted requireReason_def ensure_def demo_trim demo_digest demo_no_replay
        requirePlanPins_def demo_control_of demand_def demo_begin[OF row demo_mode_scope[OF owner(4-6)]] receipt trans demo_complete
        demo_fields demo_tables)
  moreover have "acting_member demo_principal [7] ?l = acting_member demo_principal [7] (demo_commanded Sched_automatic)"
    by (rule acting_same[of "ks_execution ?l" ?s]) (simp_all add: ensureCurrent_def)
  ultimately show ?thesis by blast
qed

lemma demo_sweeps: "sweep (ke_sweep demo_control_env) False (advance_options [7] (lit ''op'')) 5
    (ks_execution (demo_commanded Sched_supervised)) = (Inr [], ks_execution (demo_commanded Sched_supervised))"
proof -
  let ?s = "ks_execution (demo_commanded Sched_supervised)"
  have empty: "xs_nodes ?s = []" "xs_states ?s = []" by (simp_all add: demo_commanded_def)
  have ensured: "ensureCurrent 5 ?s = ?s" by (simp add: ensureCurrent_def current_nodes_def demo_commanded_def demo_execution_def)
  have none: "listCandidates lib schema mode planId ?s = Inr []" for lib schema mode planId
    by (simp add: listCandidates_def candidate_rows_def empty sort_by_def)
  have round: "sweep_loop V F \<lparr>sw_queues = [], sw_evaluated = 0, sw_admitted = [], sw_progressed = False\<rparr> ?s =
      (Inr \<lparr>sw_queues = [], sw_evaluated = 0, sw_admitted = [], sw_progressed = False\<rparr>, ?s)"
    if "sf_now F = 5" for V F
    using that by (subst sweep_loop.simps)
      (simp add: sweep_round_def and_then_def transact_def reconcileNodes_def ensured listAllCurrent_def empty
        sort_by_def orderQueues_def)
  show ?thesis
    by (simp add: sweep_def sweep_frame_of_def advance_options_def Let_def and_then_def transact_def ensured none
        planQueues_def round distinct_runs_def)
qed

lemma demo_advance_runs: "\<exists>l. execute demo_control_env demo_principal [7] (Advance_plan False demo_advance) 6
    (demo_commanded Sched_supervised) = Inr ((DispatchReceipt demo_advance_receipt, []), l)"
proof -
  let ?s = "ks_execution (demo_commanded Sched_supervised)"
  obtain member plan current where owner:
    "schedulerOwner demo_principal [7] ?s = Inr (member, plan, current)"
    "mp_memberId member = [2]" "xp_planId plan = [7]" "xp_currentRevision plan = 1" "xp_controlRevision plan = 1"
    "xq_digest current = lit ''p''" using demo_owner[of Sched_supervised] by blast
  let ?row = "dispatch_operation Act_supervised_advance plan current [7] [2] demo_advance
    (advance_command_json demo_advance) (demo_control Sched_supervised) None (lit ''d'') 6"
  have row: "room (ko_request ?row)" by (simp add: dispatch_operation_def demo_requests)
  have control: "requireControl [7] Sched_supervised 1 ?s = Inr (demo_control Sched_supervised)"
    by (simp add: requireControl_Inr demo_control_of demo_fields)
  have receipt: "dispatchReceipt demo_control_env Act_supervised_advance demo_advance [2] Sched_supervised 1 6 plan current
      (lit ''d'') None ?s = Inr demo_advance_receipt"
    using owner demo_receipts(3) by (simp add: dispatchReceipt_def demo_env Let_def demo_advance_receipt_def demo_fields
        dispatch_receipt_fields_def demo_digest)
  show ?thesis
    using owner demo_requests demo_receipts(4)
    by (simp add: advanceScheduler_def demo_env demo_asserted requireReason_def ensure_def demo_trim demo_digest demo_no_replay
        requirePlanPins_def control demo_begin[OF row demo_advance_scope[OF owner(4-6)]] demo_sweeps receipt demo_complete demo_fields demo_tables)
qed

section \<open>Witnesses\<close>

theorem command_replayed_witness:
  "\<exists>l. execute demo_control_env demo_principal [7] (Change_mode demo_to_manual) 6 (demo_commanded Sched_automatic) =
      Inr ((ModeReceipt demo_mode_receipt, []), l) \<and>
    execute demo_control_env demo_principal [7] (Change_mode demo_to_manual) 9 l =
      Inr ((ModeReceipt demo_mode_receipt, []), l) \<and>
    (\<exists>e. execute demo_control_env demo_principal [7] (Change_mode demo_to_manual) 9
      (l\<lparr>ks_execution := (ks_execution l)\<lparr>xs_tasks := []\<rparr>\<rparr>) = Inl e)"
proof -
  obtain l where l: "execute demo_control_env demo_principal [7] (Change_mode demo_to_manual) 6 (demo_commanded Sched_automatic) =
      Inr ((ModeReceipt demo_mode_receipt, []), l)"
    "acting_member demo_principal [7] l = acting_member demo_principal [7] (demo_commanded Sched_automatic)"
    using demo_mode_runs by blast
  let ?m = "l\<lparr>ks_execution := (ks_execution l)\<lparr>xs_tasks := []\<rparr>\<rparr>"
  have after: "continues l l" "continues l ?m" by (simp_all add: continues_def)
  have "acting_member demo_principal [7] ?m = None"
    by (auto simp: acting_member_def schedulerOwner_def planForMember_def taskOf_def bind_def
        split: sum.splits option.splits prod.splits)
  with command_replayed[OF l(1) after(2)] command_replayed[OF l(1) after(1)] l show ?thesis by blast
qed

theorem operation_bound_once_witness:
  "\<exists>l receipt' runs' m'.
    execute demo_control_env demo_principal [7] (Change_mode demo_to_manual) 6 (demo_commanded Sched_automatic) =
      Inr ((ModeReceipt demo_mode_receipt, []), l) \<and>
    execute demo_control_env demo_principal [7] (Change_mode demo_to_manual) 9 l = Inr ((receipt', runs'), m') \<and>
    receipt' = ModeReceipt demo_mode_receipt \<and> runs' = [] \<and> m' = l"
proof -
  obtain l where l: "execute demo_control_env demo_principal [7] (Change_mode demo_to_manual) 6 (demo_commanded Sched_automatic) =
      Inr ((ModeReceipt demo_mode_receipt, []), l)"
    "acting_member demo_principal [7] l = acting_member demo_principal [7] (demo_commanded Sched_automatic)"
    using demo_mode_runs by blast
  have same: "continues l l" by (simp add: continues_def)
  have acts: "acting_member demo_principal [7] (demo_commanded Sched_automatic) = Some [2]"
    using demo_owner[of Sched_automatic] by (auto simp: acting_member_def)
  note again = repeated_execution[OF l(1) same l(2), of 9]
  from operation_bound_once[OF l(1) same again refl acts l(2)[unfolded acts] impI] l(1) again show ?thesis by blast
qed

theorem mode_follows_receipts_witness:
  "\<exists>l operations receipts d. command_steps (demo_commanded Sched_automatic) l \<and>
    ks_operations l = operations \<and> ks_receipts l = receipts \<and>
    map ko_operationId operations = map kp_operationId receipts \<and>
    replay_modes (demo_control Sched_automatic) (mode_receipts [7] receipts) = Some d \<and>
    schedulerControl [7] (ks_execution l) = Some d"
proof -
  obtain l where "execute demo_control_env demo_principal [7] (Change_mode demo_to_manual) 6 (demo_commanded Sched_automatic) =
      Inr ((ModeReceipt demo_mode_receipt, []), l)" using demo_mode_runs by blast
  then have "command_steps (demo_commanded Sched_automatic) l" by (intro r_into_rtranclp step_command)
  with mode_follows_receipts[OF this demo_control_of] show ?thesis by (auto simp: demo_tables)
qed

theorem dispatch_exact_witness:
  "\<exists>l. execute demo_control_env demo_principal [7] (Advance_plan False demo_advance) 6 (demo_commanded Sched_supervised) =
      Inr ((DispatchReceipt demo_advance_receipt, []), l) \<and>
    dispatched [7] demo_advance_receipt [] (ks_execution (demo_commanded Sched_supervised)) (ks_execution l) \<and>
    ks_receipts l = [receipt_row (DispatchReceipt demo_advance_receipt)]"
proof -
  obtain l where l: "execute demo_control_env demo_principal [7] (Advance_plan False demo_advance) 6
      (demo_commanded Sched_supervised) = Inr ((DispatchReceipt demo_advance_receipt, []), l)"
    using demo_advance_runs by blast
  have "list_all (\<lambda>x. ko_operationId x \<noteq> command_operationId (Advance_plan False demo_advance))
      (ks_operations (demo_commanded Sched_supervised))" by (simp add: demo_tables)
  from dispatch_exact[OF l this] l show ?thesis by (simp add: demo_tables)
qed

theorem attempts_exact_witness:
  "\<exists>t. execution_ops ((demo_execution [])\<lparr>xs_intents := [], xs_runs := demo_runs\<rparr>) t \<and>
    t = snd (sweep demo_sweep_env False demo_options 5 ((demo_execution [])\<lparr>xs_intents := [], xs_runs := demo_runs\<rparr>)) \<and>
    list_all (failed_attempt t) (butlast (node_attempts (demo_id ''b'') t)) \<and>
    length (filter (live_attempt t) (node_attempts (demo_id ''b'') t)) \<le> 1"
proof -
  let ?s = "(demo_execution [])\<lparr>xs_intents := [], xs_runs := demo_runs\<rparr>"
  let ?t = "snd (sweep demo_sweep_env False demo_options 5 ?s)"
  have ops: "execution_ops ?s ?t" by (rule r_into_rtranclp, rule op_sweep)
  have "xs_intents ?s = []" "no_runs (xs_runs ?s)" by (simp_all add: no_demo_runs)
  from attempts_exact[OF ops this, of "demo_id ''b''"] ops show ?thesis by blast
qed

end
