(* ===== verification/Spec2Isabelle.thy ===== *)
theory Spec2Isabelle
  imports Policy_Engine Progress_Properties Wave_Planning Plan_Properties Discussion_History
    Message_Threads Orchestrator_Refinement Turn_Booking Instruction_Bounds Orchestrator_Recursion
    Execution_Command_Demo
begin

text \<open>
  Verification of the ConveneWire server core.

  ConveneWire lets the members of a Team work with AI Agents in Rooms. A member starts a Discussion
  of several Agents on a Task; an orchestrator lets them speak in Waves: all Turns of a Wave run
  concurrently as Runs on remote runtimes, the replies of a settled Wave are evaluated, and a
  policy decides whether another Wave follows, the Discussion is finalized, waits or ends. The
  development models the server code under \<^verbatim>\<open>apps/server/src\<close> that decides all this, with its
  SQLite tables, the execution plan contract of \<^verbatim>\<open>packages/contracts\<close>, and the scheduler that
  runs the nodes of approved plans.

  \<^bold>\<open>How the parts interact.\<close> A call of the orchestrator (create, control, a Run that ended, the
  periodic sweep, recovery) reads Rooms, Agents and Tasks, evaluates progress, asks the policy and
  the budget, selects participants, plans a Wave and writes decision, Wave, Turns and budget events
  in one transaction of the Discussion store; it then posts messages and creates the Runs of the
  planned Turns in the Run store. Runtime events change Runs independently of it; a terminal Run
  makes the orchestrator settle its Turn. An approved plan is a graph of nodes, each a Task for one
  Agent. The scheduler sweeps the nodes without a Run: it settles the nodes whose Runs have moved,
  evaluates the readiness of a candidate, and admits one Run after another into the same Run store,
  plan by plan in the order the fairness cursor of the Agent asks for.

  \<^bold>\<open>Theories.\<close>
  \<^item> \<open>Prelude\<close>: thrown errors as sums, JavaScript arrays, sorting and sets; \<open>Text_Library\<close>: UTF-16
    strings, code point lengths (\<^verbatim>\<open>domain/unicode.ts\<close>), and the record \<open>text_lib\<close> of the Unicode and
    hash functions of the platform, which are parameters.
  \<^item> \<open>Discussion_Types\<close>, \<open>Budget_Ledger\<close>, \<open>Policy_Engine\<close>, \<open>Progress_Evaluator\<close>,
    \<open>Progress_Properties\<close>: the data of \<^verbatim>\<open>discussion/types.ts\<close> and the pure decision logic of
    \<^verbatim>\<open>budget-ledger.ts\<close>, \<^verbatim>\<open>policy-engine.ts\<close> and \<^verbatim>\<open>progress-evaluator.ts\<close>.
  \<^item> \<open>Canonical_JSON\<close>, \<open>Participant_Selector\<close>, \<open>Wave_Planning\<close>: canonical texts and digests of
    \<^verbatim>\<open>execution-validation.mjs\<close>, \<^verbatim>\<open>participant-selector.ts\<close>, \<^verbatim>\<open>wave-planner.ts\<close> and
    \<^verbatim>\<open>discussion-wave-quorum.ts\<close>.
  \<^item> \<open>Plan_Types\<close>, \<open>Plan_Graph\<close>, \<open>Plan_Validation\<close>, \<open>Plan_Properties\<close>: the validation of an
    execution plan definition, its topological order included.
  \<^item> \<open>Sql_Table\<close>, \<open>Discussion_Store\<close>, \<open>Discussion_Repository\<close>, \<open>Discussion_Invariant\<close>,
    \<open>Discussion_History\<close>: tables with unique indexes, the statements of
    \<^verbatim>\<open>discussion/discussion-repository.ts\<close>, the invariant every operation keeps, and what it implies.
  \<^item> \<open>Agent_Mentions\<close>, \<open>Team_Room\<close>, \<open>Message_Log\<close>: mentions, the rows and lookups of Teams, Rooms,
    Agents, Devices and Tasks, messages with their sequences and pages
    (\<^verbatim>\<open>collaboration/\<close>, \<^verbatim>\<open>agent/\<close>, \<^verbatim>\<open>task/\<close>).
  \<^item> \<open>Run_Repository\<close>, \<open>Run_Control\<close>, \<open>Run_History\<close>: the Run store of \<^verbatim>\<open>run/run-repository.ts\<close>:
    events, replies, cancellation, expiry, acknowledged ambiguity and retries; \<open>Message_Threads\<close>: the
    messages its transactions write, in the log of their Room.
  \<^item> \<open>Redaction\<close>: \<^verbatim>\<open>security/redaction.ts\<close>, its regular expressions as matchers.
  \<^item> \<open>Discussion_World\<close>, \<open>Discussion_Evidence\<close>, \<open>Discussion_Settlement\<close>,
    \<open>Discussion_Orchestrator\<close>, \<open>Discussion_Advance\<close>, \<open>Discussion_Control\<close>: the services over both
    stores (\<^verbatim>\<open>discussion-evidence-service.ts\<close>, \<^verbatim>\<open>wave-settlement-service.ts\<close>,
    \<^verbatim>\<open>discussion-recovery-service.ts\<close>, \<^verbatim>\<open>discussion-orchestrator.ts\<close>,
    \<^verbatim>\<open>discussion-observed-usage.ts\<close>) as actions on a \<open>world\<close>.
  \<^item> \<open>Orchestrator_Relation\<close>, \<open>Orchestrator_Refinement\<close>, \<open>Turn_Booking\<close>, \<open>Instruction_Bounds\<close>,
    \<open>Orchestrator_Recursion\<close>: theorems about the services as a whole.
  \<^item> \<open>Execution_Store\<close>, \<open>Execution_Readiness\<close>, \<open>Execution_Admission\<close>, \<open>Execution_Settlement\<close>,
    \<open>Execution_Scheduler\<close>: the tables of \<^verbatim>\<open>execution/\<close> with the statements of its node state, fairness
    and control repositories, \<^verbatim>\<open>execution-dependency-resolver.ts\<close>,
    \<^verbatim>\<open>execution-readiness-evaluator.ts\<close>, \<^verbatim>\<open>governed-run-admission-service.ts\<close>,
    \<^verbatim>\<open>execution-settlement-service.ts\<close>, \<^verbatim>\<open>execution-recovery-service.ts\<close> and
    \<^verbatim>\<open>execution-scheduler.ts\<close>.
  \<^item> \<open>Execution_Control\<close>, \<open>Execution_Retry\<close>: the commands of members, each with a stored operation and
    a receipt that a repeated command gets back: the mode of a plan, the dispatch of a node and the
    advance of a plan (\<^verbatim>\<open>execution-scheduler-control-service.ts\<close> and its repository), the retry of a
    node whose Run failed (\<^verbatim>\<open>execution-node-control-service.ts\<close>, \<^verbatim>\<open>execution-node-retry-repository.ts\<close>).
  \<^item> \<open>Execution_Sweep\<close>, \<open>Execution_Fairness\<close>, \<open>Execution_Safety\<close>, \<open>Execution_Settled\<close>: what an
    admission and a settlement write, the invariants of a sweep, the theorems about the scheduler.
  \<^item> \<open>Execution_Commands\<close>, \<open>Execution_Attempts\<close>: what commands write and how they repeat, and the
    attempts of a node through every service of the execution. \<open>Execution_Demo\<close> and
    \<open>Execution_Command_Demo\<close>: a concrete store and commands the theorems are applied to.

  \<^bold>\<open>State.\<close> A row is a record, a table a list of rows in insertion order, a unique index a
  conflict relation checked on insert and update; a failed statement is an error that leaves the
  table as it was. A service call is an action \<open>world \<Rightarrow> (error + value) \<times> world\<close>: it may throw after
  some of its transactions have committed, and the model keeps their effects. Ids come from a
  supply and times from a clock that are parts of the world, so theorems hold for all of them.

  \<^bold>\<open>Locales.\<close> \<open>comparator\<close> (what \<^verbatim>\<open>sort\<close> needs) is interpreted by every comparison of the
  code; \<open>keyed_table\<close> by the tables with a key; \<open>token_rule\<close> by the redaction rules;
  \<open>world_relation\<close>, \<open>message_relation\<close>, \<open>service_relation\<close>, \<open>reconciling\<close> and
  \<open>orchestrator_relation\<close> are the layers of the services: a relation between worlds that respects
  the laws of a layer is respected by all its methods. They are interpreted by the repository steps
  (\<open>Orchestrator_Refinement\<close>) and by the booking of Agents (\<open>Turn_Booking\<close>). \<open>sweep_invariant\<close>
  states what an invariant of sweeps must survive: the insertion of missing rows, the projection of
  a node, the start of a plan, and an admission after a readiness that was granted; it is
  interpreted by the capacity of plans and Agents, the intents admitted so far, the typing of the
  rows, the modes of plans, the attempts of nodes, and the history of the fairness cursors.

  \<^bold>\<open>What the theorems show.\<close> The Waves of a Discussion are numbered without gaps and only the last
  is open; nothing that ended is changed; no Agent has two live Turns in a Discussion; the whole
  orchestrator refines the repositories, so these invariants survive errors half way; the log of
  a Run is exact, its end final, events and replies are idempotent, overdue cancellations end;
  messages are numbered without gaps, a reply lies in the Room and the Task of its parent, and pages
  lose none; a Discussion that continues has a lease for its next Wave, and no lease that is granted
  reaches into the reserve;
  a Wave is evaluated to exactly the questions, evidence and approval its replies state, in any
  order of arrival; the selection and the seal are bound by their digests; a plan is accepted
  exactly when its graph is acyclic, in an order that respects it; canonical texts are injective
  and digests bind them; redacted texts hold no token; instructions keep their boundary. A sweep
  never exceeds the capacity of an Agent or the concurrency and attempts a plan allows, serves the
  plans that compete for an Agent in turn, and admits no more than it may; a settlement shows every
  node as its latest Run is; the inputs of a Run are pinned artifacts of the right kind. A command
  takes effect once and is bound to its operation id, the mode of a plan is what its receipts say,
  and no node has a further attempt before all earlier ones have failed.

  \<^bold>\<open>Fuel.\<close> \<open>ensureRun\<close> and \<open>reconcileDiscussion\<close> recur through the stores and have fuel two: a Turn
  is anchored again at most once, and a Wave planned by \<open>reconcile\<close> has Turns of available Agents
  only, so that reconciling it advances nothing further; \<open>Orchestrator_Recursion\<close> proves that more
  fuel changes nothing. Loops over lists are structural; the Kahn loop of the plan graph and the
  page walk have fuel that their theorems show to be enough. The loops of the scheduler,
  \<open>order_remaining\<close> and \<open>sweep_loop\<close>, are total functions with termination proofs.

  \<^bold>\<open>Parameters and hypotheses.\<close> Collation, case folding, normalization, Unicode categories and
  SHA-256 (\<open>text_lib\<close>), the text of a floating-point number, and the lookups of Artifacts, Results
  and Memory entries. For the scheduler: the grants and capabilities the Bridge connections hold,
  the seconds SQLite finds between two times, the materialization service, and the sealing of a Run
  (its frozen inputs, manifest and workspace lease), which may refuse; for the commands, the generated
  validators and the text of a time. Theorems about digests assume
  that the hash does not collide on the two texts they compare; theorems about sorting by \<^verbatim>\<open>localeCompare\<close> that it is a total preorder.
  Confidence values are rationals; timestamps are integers, in milliseconds.

  \<^bold>\<open>Not modelled.\<close> Of the triggers of the execution tables, those that check a row again after the
  code has checked it (receipts against their operation, transitions of a control, immutability) and
  the format checks of columns; the scope an operation must have is modelled. Plan proposals of Discussions and the intake of late evidence (an optional
  service over the execution tables), the streaming redactor (regular expressions built at run
  time), the drafting, approval and supersession of plans, materialization, Artifacts, Results and
  Memory, remote evidence and Git, authentication and pairing, hosted runtimes, HTTP, MCP and WebSocket surfaces, the
  database layer, generated validators, the web client and the Go bridge.
\<close>

end
